(* ===== verification/Scrappy_Prelude.thy ===== *)
theory Scrappy_Prelude
  imports Complex_Main "HOL-Library.Sublist"
begin

text \<open>
  Shared vocabulary of the development: how raising functions, clock readings and database
  tables are represented, with the generic lemmas every component uses.

  A Python function that may raise is a function into a sum: \<open>Inl\<close> is the exception,
  \<open>Inr\<close> the returned value. A timestamp is an integer number of microseconds, the resolution
  of a Python \<open>datetime\<close>. A SQLite table is the list of its rows in \<open>rowid\<close> order.
\<close>

named_theorems enum_simps \<open>values and ranks of the string enumerations\<close>
named_theorems table_simps \<open>rows of a table after an insert, an update or a delete\<close>
named_theorems inv_intros \<open>preservation of the component invariants\<close>

type_synonym time = int

section \<open>Raising computations\<close>

definition ebind :: "'e + 'a \<Rightarrow> ('a \<Rightarrow> 'e + 'b) \<Rightarrow> 'e + 'b" where
  "ebind m f = (case m of Inl e \<Rightarrow> Inl e | Inr x \<Rightarrow> f x)"

lemma ebind_simps [simp]:
  "ebind (Inl e) f = Inl e"
  "ebind (Inr x) f = f x"
  by (simp_all add: ebind_def)

lemma ebind_eq_Inr [simp]: "ebind m f = Inr y \<longleftrightarrow> (\<exists>x. m = Inr x \<and> f x = Inr y)"
  by (cases m) auto

lemma ebind_eq_Inl: "ebind m f = Inl e \<longleftrightarrow> m = Inl e \<or> (\<exists>x. m = Inr x \<and> f x = Inl e)"
  by (cases m) auto

definition or_else :: "'a option \<Rightarrow> 'a \<Rightarrow> 'a" where
  "or_else x d = (case x of None \<Rightarrow> d | Some v \<Rightarrow> v)"

lemma or_else_simps [simp]: "or_else None d = d" "or_else (Some v) d = v"
  by (simp_all add: or_else_def)

section \<open>Tables with a primary key\<close>

text \<open>\<open>SELECT * FROM t WHERE key = k\<close>, first row or nothing.\<close>

fun tbl_get :: "('r \<Rightarrow> 'k) \<Rightarrow> 'k \<Rightarrow> 'r list \<Rightarrow> 'r option" where
  "tbl_get key k [] = None"
| "tbl_get key k (r # rs) = (if key r = k then Some r else tbl_get key k rs)"

text \<open>\<open>INSERT\<close> fails on a key that is present; \<open>INSERT OR REPLACE\<close> deletes it first.\<close>

definition tbl_insert :: "('r \<Rightarrow> 'k) \<Rightarrow> 'r \<Rightarrow> 'r list \<Rightarrow> 'r list option" where
  "tbl_insert key r rs = (if tbl_get key (key r) rs = None then Some (rs @ [r]) else None)"

definition tbl_delete :: "('r \<Rightarrow> 'k) \<Rightarrow> 'k \<Rightarrow> 'r list \<Rightarrow> 'r list" where
  "tbl_delete key k rs = filter (\<lambda>r. key r \<noteq> k) rs"

definition tbl_replace :: "('r \<Rightarrow> 'k) \<Rightarrow> 'r \<Rightarrow> 'r list \<Rightarrow> 'r list" where
  "tbl_replace key r rs = tbl_delete key (key r) rs @ [r]"

text \<open>\<open>UPDATE t SET ... WHERE key = k\<close>.\<close>

definition tbl_update :: "('r \<Rightarrow> 'k) \<Rightarrow> 'k \<Rightarrow> ('r \<Rightarrow> 'r) \<Rightarrow> 'r list \<Rightarrow> 'r list" where
  "tbl_update key k f rs = map (\<lambda>r. if key r = k then f r else r) rs"

definition tbl_wf :: "('r \<Rightarrow> 'k) \<Rightarrow> 'r list \<Rightarrow> bool" where
  "tbl_wf key rs \<longleftrightarrow> distinct (map key rs)"

lemma tbl_get_key: "tbl_get key k rs = Some r \<Longrightarrow> key r = k"
  by (induction rs) (auto split: if_splits)

lemma tbl_get_in: "tbl_get key k rs = Some r \<Longrightarrow> r \<in> set rs"
  by (induction rs) (auto split: if_splits)

lemma tbl_get_None: "tbl_get key k rs = None \<longleftrightarrow> k \<notin> key ` set rs"
  by (induction rs) auto

lemma tbl_get_append:
  "tbl_get key k (rs @ ss) = (case tbl_get key k rs of None \<Rightarrow> tbl_get key k ss | Some r \<Rightarrow> Some r)"
  by (induction rs) auto

lemma tbl_get_wf: "tbl_wf key rs \<Longrightarrow> r \<in> set rs \<Longrightarrow> tbl_get key (key r) rs = Some r"
  by (induction rs) (auto simp: tbl_wf_def)

lemma tbl_get_update [table_simps]:
  assumes "\<And>r. key (f r) = key r"
  shows "tbl_get key k (tbl_update key j f rs) =
    (if k = j then map_option f (tbl_get key k rs) else tbl_get key k rs)"
  by (induction rs) (auto simp: tbl_update_def assms)

lemma tbl_get_delete [table_simps]:
  "tbl_get key k (tbl_delete key j rs) = (if k = j then None else tbl_get key k rs)"
  by (induction rs) (auto simp: tbl_delete_def)

lemma tbl_get_insert [table_simps]:
  "tbl_insert key r rs = Some rs' \<Longrightarrow>
    tbl_get key k rs' = (if k = key r then Some r else tbl_get key k rs)"
  by (auto simp: tbl_insert_def tbl_get_append split: if_splits option.splits)

lemma tbl_get_replace [table_simps]:
  "tbl_get key k (tbl_replace key r rs) = (if k = key r then Some r else tbl_get key k rs)"
  by (auto simp: tbl_replace_def tbl_get_append tbl_get_delete split: option.splits)

lemma tbl_insert_Some: "tbl_insert key r rs = Some rs' \<longleftrightarrow> tbl_get key (key r) rs = None \<and> rs' = rs @ [r]"
  by (auto simp: tbl_insert_def)

lemma map_key_update: "(\<And>r. key (f r) = key r) \<Longrightarrow> map key (tbl_update key k f rs) = map key rs"
  by (induction rs) (auto simp: tbl_update_def)

lemma tbl_wf_Nil [simp, inv_intros]: "tbl_wf key []"
  by (simp add: tbl_wf_def)

lemma tbl_wf_insert [inv_intros]: "tbl_wf key rs \<Longrightarrow> tbl_insert key r rs = Some rs' \<Longrightarrow> tbl_wf key rs'"
  by (auto simp: tbl_wf_def tbl_insert_Some tbl_get_None)

lemma tbl_wf_update [inv_intros]:
  "tbl_wf key rs \<Longrightarrow> (\<And>r. key (f r) = key r) \<Longrightarrow> tbl_wf key (tbl_update key k f rs)"
  by (simp add: tbl_wf_def map_key_update)

lemma tbl_wf_delete [inv_intros]: "tbl_wf key rs \<Longrightarrow> tbl_wf key (tbl_delete key k rs)"
  by (auto simp: tbl_wf_def tbl_delete_def distinct_map inj_on_def)

lemma tbl_wf_replace [inv_intros]: "tbl_wf key rs \<Longrightarrow> tbl_wf key (tbl_replace key r rs)"
  by (auto simp: tbl_wf_def tbl_replace_def tbl_delete_def distinct_map inj_on_def)

section \<open>Association lists: Python dictionaries in insertion order\<close>

definition dict_set :: "'k \<Rightarrow> 'v \<Rightarrow> ('k \<times> 'v) list \<Rightarrow> ('k \<times> 'v) list" where
  "dict_set k v d = (if k \<in> fst ` set d then map (\<lambda>(j, w). if j = k then (j, v) else (j, w)) d
     else d @ [(k, v)])"

lemma keys_dict_set: "map fst (dict_set k v d) = (if k \<in> fst ` set d then map fst d else map fst d @ [k])"
proof -
  have "map fst (map (\<lambda>(j, w). if j = k then (j, v) else (j, w)) d) = map fst d" by (induction d) auto
  then show ?thesis by (simp add: dict_set_def del: map_map)
qed

lemma set_dict_set: "p \<in> set (dict_set k v d) \<Longrightarrow> p = (k, v) \<or> p \<in> set d"
  by (auto simp: dict_set_def split: if_splits)

fun dict_update :: "('k \<times> 'v) list \<Rightarrow> ('k \<times> 'v) list \<Rightarrow> ('k \<times> 'v) list" where
  "dict_update d [] = d"
| "dict_update d ((k, v) # es) = dict_update (dict_set k v d) es"

lemma map_of_overwrite:
  "map_of (map (\<lambda>(j, w). if j = k then (j, v) else (j, w)) d) i =
    (if i = k \<and> k \<in> fst ` set d then Some v else map_of d i)"
proof (induction d)
  case Nil
  show ?case by simp
next
  case (Cons p d)
  obtain a b where p: "p = (a, b)" by (cases p)
  show ?case using Cons unfolding p by (cases "k \<in> fst ` set d") auto
qed

lemma map_of_snoc: "k \<notin> fst ` set d \<Longrightarrow> map_of (d @ [(k, v)]) = (map_of d)(k \<mapsto> v)"
  by (induction d) (auto simp: fun_upd_twist)

lemma map_of_dict_set [simp]: "map_of (dict_set k v d) = (map_of d)(k \<mapsto> v)"
  by (auto simp: dict_set_def map_of_overwrite map_of_snoc fun_eq_iff simp del: map_of_append)

section \<open>Bounded histories\<close>

text \<open>A \<open>deque(maxlen = n)\<close>: appending drops from the front.\<close>

definition bounded_append :: "nat \<Rightarrow> 'a list \<Rightarrow> 'a \<Rightarrow> 'a list" where
  "bounded_append n xs x = (let ys = xs @ [x] in drop (length ys - n) ys)"

lemma length_bounded_append: "length (bounded_append n xs x) = min n (Suc (length xs))"
  by (simp add: bounded_append_def)

lemma bounded_append_fits: "length xs < n \<Longrightarrow> bounded_append n xs x = xs @ [x]"
  by (simp add: bounded_append_def)

lemma bounded_append_suffix: "\<exists>d. xs @ [x] = d @ bounded_append n xs x"
  by (metis append_take_drop_id bounded_append_def)

text \<open>\<open>xs[-k:]\<close>: Python reads \<open>-0\<close> as 0, so the slice with \<open>k = 0\<close> is the whole list.\<close>

definition py_last :: "int \<Rightarrow> 'a list \<Rightarrow> 'a list" where
  "py_last k xs =
     (if k \<le> 0 then drop (nat (- k)) xs
      else drop (length xs - nat k) xs)"

end
