(* ===== verification/Py_String.thy ===== *)
theory Py_String
  imports Scrappy_Prelude "HOL-Library.Char_ord" "HOL-Library.List_Lexorder"
begin

text \<open>
  The string operations of the Python standard library that the program calls, over
  \<open>string\<close>. A character is a code point below 256, so \<open>lower\<close>, \<open>isalnum\<close>, \<open>strip\<close> and
  \<open>split\<close> follow the Unicode tables on that range.
\<close>

section \<open>Character classes\<close>

definition py_spaces :: "char list" where
  "py_spaces = map char_of [9, 10, 11, 12, 13, 28, 29, 30, 31, 32, 133, 160 :: nat]"

definition py_isspace :: "char \<Rightarrow> bool" where
  "py_isspace c = (let n = (of_char c :: nat) in
     9 \<le> n \<and> n \<le> 13 \<or> 28 \<le> n \<and> n \<le> 32 \<or> n = 133 \<or> n = 160)"

definition lower_char :: "char \<Rightarrow> char" where
  "lower_char c = (let n = (of_char c :: nat) in
     if 65 \<le> n \<and> n \<le> 90 \<or> 192 \<le> n \<and> n \<le> 222 \<and> n \<noteq> 215 then char_of (n + 32) else c)"

definition py_lower :: "string \<Rightarrow> string" where
  "py_lower s = map lower_char s"

definition alnum_char :: "char \<Rightarrow> bool" where
  "alnum_char c = (let n = (of_char c :: nat) in
     48 \<le> n \<and> n \<le> 57 \<or> 65 \<le> n \<and> n \<le> 90 \<or> 97 \<le> n \<and> n \<le> 122 \<or> n \<in> {170, 178, 179, 181, 185, 186, 188, 189, 190}
     \<or> 192 \<le> n \<and> n \<noteq> 215 \<and> n \<noteq> 247)"

definition py_isalnum :: "string \<Rightarrow> bool" where
  "py_isalnum s \<longleftrightarrow> s \<noteq> [] \<and> list_all alnum_char s"

definition is_digit :: "char \<Rightarrow> bool" where
  "is_digit c = (let n = (of_char c :: nat) in 48 \<le> n \<and> n \<le> 57)"

definition is_lower_az :: "char \<Rightarrow> bool" where
  "is_lower_az c = (let n = (of_char c :: nat) in 97 \<le> n \<and> n \<le> 122)"

definition is_upper_az :: "char \<Rightarrow> bool" where
  "is_upper_az c = (let n = (of_char c :: nat) in 65 \<le> n \<and> n \<le> 90)"

section \<open>Trimming, splitting, searching\<close>

definition py_lstrip :: "string \<Rightarrow> string" where
  "py_lstrip s = dropWhile py_isspace s"

definition py_strip :: "string \<Rightarrow> string" where
  "py_strip s = rev (dropWhile py_isspace (rev (dropWhile py_isspace s)))"

text \<open>\<open>s.split(sep)\<close> for a one-character separator: every piece, empty ones included.\<close>

fun py_split :: "char \<Rightarrow> string \<Rightarrow> string list" where
  "py_split d [] = [[]]"
| "py_split d (c # cs) =
     (if c = d then [] # py_split d cs
      else (case py_split d cs of [] \<Rightarrow> [[c]] | w # ws \<Rightarrow> (c # w) # ws))"

text \<open>\<open>s.split(sep, n)\<close>: at most \<open>n\<close> cuts, the rest of the string is the last piece.\<close>

fun py_split_max :: "char \<Rightarrow> nat \<Rightarrow> string \<Rightarrow> string list" where
  "py_split_max d 0 s = [s]"
| "py_split_max d (Suc n) s =
     (case dropWhile (\<lambda>c. c \<noteq> d) s of
        [] \<Rightarrow> [s]
      | _ # rest \<Rightarrow> takeWhile (\<lambda>c. c \<noteq> d) s # py_split_max d n rest)"

text \<open>\<open>s.split()\<close>: the maximal runs of characters that are not white space.\<close>

definition flush_word :: "string \<Rightarrow> string list \<Rightarrow> string list" where
  "flush_word w ws = (if w = [] then ws else rev w # ws)"

fun words_of :: "string \<Rightarrow> string \<Rightarrow> string list" where
  "words_of w [] = flush_word w []"
| "words_of w (c # cs) = (if py_isspace c then flush_word w (words_of [] cs) else words_of (c # w) cs)"

definition py_split_ws :: "string \<Rightarrow> string list" where
  "py_split_ws s = words_of [] s"

fun py_contains :: "string \<Rightarrow> string \<Rightarrow> bool" where
  "py_contains t [] \<longleftrightarrow> t = []"
| "py_contains t (c # cs) \<longleftrightarrow> prefix t (c # cs) \<or> py_contains t cs"

fun py_join :: "string \<Rightarrow> string list \<Rightarrow> string" where
  "py_join d [] = []"
| "py_join d [s] = s"
| "py_join d (s # t # ts) = s @ d @ py_join d (t # ts)"

definition remove_char :: "char \<Rightarrow> string \<Rightarrow> string" where
  "remove_char d s = filter (\<lambda>c. c \<noteq> d) s"

text \<open>Decimal rendering of a natural number, as \<open>str(n)\<close>.\<close>

fun str_nat :: "nat \<Rightarrow> string" where
  "str_nat n = (if n < 10 then [char_of (48 + n)] else str_nat (n div 10) @ [char_of (48 + n mod 10)])"

declare str_nat.simps [simp del]
declare py_split_max.simps(2) [simp del]

definition str_int :: "int \<Rightarrow> string" where
  "str_int i = (if i < 0 then CHR ''-'' # str_nat (nat (- i)) else str_nat (nat i))"

text \<open>
  Rendering of a duration in seconds held in microseconds: the integer part, a point, and the
  fraction without trailing zeros (one digit at least), as \<open>repr\<close> of the float.
\<close>

definition pad_left :: "nat \<Rightarrow> string \<Rightarrow> string" where
  "pad_left n s = replicate (n - length s) (CHR ''0'') @ s"

definition trim_zeros :: "string \<Rightarrow> string" where
  "trim_zeros s = (case rev (dropWhile (\<lambda>c. c = CHR ''0'') (rev s)) of [] \<Rightarrow> ''0'' | t \<Rightarrow> t)"

definition str_seconds :: "time \<Rightarrow> string" where
  "str_seconds t = str_nat (nat (t div 1000000)) @ ''.'' @
     trim_zeros (pad_left 6 (str_nat (nat (t mod 1000000))))"

text \<open>\<open>f"{t:.0f}"\<close> of a duration in seconds: halves round to even.\<close>

definition str_whole_seconds :: "time \<Rightarrow> string" where
  "str_whole_seconds t = (let q = t div 1000000; r = t mod 1000000 in
     str_int (if r < 500000 \<or> r = 500000 \<and> even q then q else q + 1))"

text \<open>
  \<open>isoformat(sep)\<close> of a UTC time, counted in microseconds from 1970: the proleptic Gregorian date,
  the time of day, the microseconds unless they are zero, and the offset.
\<close>

definition iso_datetime :: "string \<Rightarrow> time \<Rightarrow> string" where
  "iso_datetime sep t =
     (let z = t div 86400000000 + 719468; era = z div 146097; doe = z - era * 146097;
          yoe = (doe - doe div 1460 + doe div 36524 - doe div 146096) div 365;
          doy = doe - (365 * yoe + yoe div 4 - yoe div 100);
          mp = (5 * doy + 2) div 153; day = doy - (153 * mp + 2) div 5 + 1;
          month = (if mp < 10 then mp + 3 else mp - 9);
          year = yoe + era * 400 + (if month \<le> 2 then 1 else 0);
          s = (t mod 86400000000) div 1000000; us = t mod 1000000;
          two = (\<lambda>n. pad_left 2 (str_int n))
      in pad_left 4 (str_int year) @ ''-'' @ two month @ ''-'' @ two day @ sep @
         two (s div 3600) @ '':'' @ two (s mod 3600 div 60) @ '':'' @ two (s mod 60) @
         (if us = 0 then [] else ''.'' @ pad_left 6 (str_int us)) @ ''+00:00'')"

text \<open>\<open>repr\<close> of a string: quotes, and escapes for what is not printable.\<close>

definition hex_digit :: "nat \<Rightarrow> char" where
  "hex_digit n = (if n < 10 then char_of (48 + n) else char_of (87 + n))"

definition repr_char :: "char \<Rightarrow> char \<Rightarrow> string" where
  "repr_char q c = (let n = (of_char c :: nat) in
     if c = q \<or> c = CHR 0x5C then [CHR 0x5C, c]
     else if n = 9 then [CHR 0x5C, CHR ''t'']
     else if n = 10 then [CHR 0x5C, CHR ''n'']
     else if n = 13 then [CHR 0x5C, CHR ''r'']
     else if n < 32 \<or> 127 \<le> n \<and> n \<le> 160 \<or> n = 173
       then [CHR 0x5C, CHR ''x'', hex_digit (n div 16), hex_digit (n mod 16)]
     else [c])"

definition py_repr :: "string \<Rightarrow> string" where
  "py_repr s = (let q = (if CHR 0x27 \<in> set s \<and> CHR 0x22 \<notin> set s then CHR 0x22 else CHR 0x27)
     in q # concat (map (repr_char q) s) @ [q])"

section \<open>Lemmas\<close>

lemma py_split_nonempty [simp]: "py_split d s \<noteq> []"
  by (induction s) (auto split: list.splits)

lemma py_join_Cons: "ws \<noteq> [] \<Longrightarrow> py_join d (w # ws) = w @ d @ py_join d ws"
  by (cases ws) auto

lemma py_join_push: "py_join d ((c # w) # ws) = c # py_join d (w # ws)"
  by (cases ws) auto

lemma py_split_join: "py_join [d] (py_split d s) = s"
proof (induction s)
  case Nil
  then show ?case by simp
next
  case (Cons c cs)
  then show ?case
    by (cases "py_split d cs") (auto simp: py_join_Cons py_join_push)
qed

lemma py_split_no_sep: "w \<in> set (py_split d s) \<Longrightarrow> d \<notin> set w"
proof (induction s arbitrary: w)
  case Nil
  then show ?case by simp
next
  case (Cons c cs)
  then show ?case
    by (cases "py_split d cs") (auto split: if_splits)
qed

lemma dropWhile_rev_twice:
  "dropWhile P (rev (dropWhile P (rev (dropWhile P t)))) = rev (dropWhile P (rev (dropWhile P t)))"
proof (cases "dropWhile P t")
  case Nil
  show ?thesis unfolding Nil by simp
next
  case (Cons x xs)
  then have "\<not> P x" by (metis dropWhile_eq_Cons_conv)
  then have "rev (dropWhile P (rev (x # xs))) = x # rev (dropWhile P (rev xs))"
    by (simp add: dropWhile_append)
  with \<open>\<not> P x\<close> show ?thesis unfolding Cons by simp
qed

lemma py_strip_idem [simp]: "py_strip (py_strip s) = py_strip s"
  by (simp add: py_strip_def dropWhile_rev_twice)

lemma words_of_nonempty: "w \<in> set (words_of acc s) \<Longrightarrow> w \<noteq> []"
  by (induction s arbitrary: acc) (auto simp: flush_word_def split: if_splits)

lemma words_of_no_space:
  "w \<in> set (words_of acc s) \<Longrightarrow> \<forall>c\<in>set acc. \<not> py_isspace c \<Longrightarrow> c \<in> set w \<Longrightarrow> \<not> py_isspace c"
  by (induction s arbitrary: acc) (fastforce simp: flush_word_def split: if_splits)+

lemma py_split_ws_nonempty: "w \<in> set (py_split_ws s) \<Longrightarrow> w \<noteq> []"
  by (simp add: py_split_ws_def words_of_nonempty)

lemma py_split_ws_no_space: "w \<in> set (py_split_ws s) \<Longrightarrow> c \<in> set w \<Longrightarrow> \<not> py_isspace c"
  unfolding py_split_ws_def by (rule words_of_no_space) auto

lemma py_contains_sublist: "py_contains t s \<longleftrightarrow> sublist t s"
  by (induction s) (auto simp: sublist_Cons_right)

lemma length_py_lower [simp]: "length (py_lower s) = length s"
  by (simp add: py_lower_def)

lemma py_split_max_cases:
  obtains "d \<notin> set s" "py_split_max d (Suc n) s = [s]"
  | a b where "d \<notin> set a" "s = a @ d # b" "py_split_max d (Suc n) s = a # py_split_max d n b"
proof (cases "dropWhile (\<lambda>c. c \<noteq> d) s")
  case Nil
  then have "d \<notin> set s" by (auto simp: dropWhile_eq_Nil_conv)
  moreover have "py_split_max d (Suc n) s = [s]" unfolding py_split_max.simps Nil by simp
  ultimately show thesis by (rule that(1))
next
  case (Cons x b)
  then have "x = d" using hd_dropWhile [of "\<lambda>c. c \<noteq> d" s] by simp
  moreover have "d \<notin> set (takeWhile (\<lambda>c. c \<noteq> d) s)" by (auto dest: set_takeWhileD)
  moreover have "s = takeWhile (\<lambda>c. c \<noteq> d) s @ x # b"
    using takeWhile_dropWhile_id [of "\<lambda>c. c \<noteq> d" s] Cons by simp
  moreover have "py_split_max d (Suc n) s = takeWhile (\<lambda>c. c \<noteq> d) s # py_split_max d n b"
    unfolding py_split_max.simps Cons by simp
  ultimately show thesis by (intro that(2) [of "takeWhile (\<lambda>c. c \<noteq> d) s" b]) simp_all
qed

lemma takeWhile_append_sep: "d \<notin> set a \<Longrightarrow> takeWhile (\<lambda>c. c \<noteq> d) (a @ d # b) = a"
  by (induction a) auto

lemma dropWhile_append_sep: "d \<notin> set a \<Longrightarrow> dropWhile (\<lambda>c. c \<noteq> d) (a @ d # b) = d # b"
  by (induction a) auto

lemma py_split_max_step: "d \<notin> set a \<Longrightarrow> py_split_max d (Suc n) (a @ d # b) = a # py_split_max d n b"
  by (simp add: py_split_max.simps takeWhile_append_sep dropWhile_append_sep)

lemma py_split_max_nonempty [simp]: "py_split_max d n s \<noteq> []"
  by (cases n) (auto simp: py_split_max.simps split: list.splits)

lemma py_split_max_join: "py_join [d] (py_split_max d n s) = s"
proof (induction n arbitrary: s)
  case 0
  then show ?case by simp
next
  case (Suc n)
  show ?case
    by (rule py_split_max_cases [of d s n]) (auto simp: py_join_Cons Suc)
qed

lemma py_split_max_two:
  "py_split_max d 2 s = [a, b, c] \<longleftrightarrow> s = a @ d # b @ d # c \<and> d \<notin> set a \<and> d \<notin> set b"
proof
  assume l: "py_split_max d 2 s = [a, b, c]"
  then have l': "py_split_max d (Suc (Suc 0)) s = [a, b, c]" by (simp add: numeral_2_eq_2)
  obtain r where r: "d \<notin> set a" "s = a @ d # r" "py_split_max d (Suc 0) r = [b, c]"
    by (rule py_split_max_cases [of d s "Suc 0"]) (use l' in auto)
  obtain q where "d \<notin> set b" "r = b @ d # q" "py_split_max d 0 q = [c]"
    by (rule py_split_max_cases [of d r 0]) (use r(3) in auto)
  with r show "s = a @ d # b @ d # c \<and> d \<notin> set a \<and> d \<notin> set b" by auto
next
  assume "s = a @ d # b @ d # c \<and> d \<notin> set a \<and> d \<notin> set b"
  then show "py_split_max d 2 s = [a, b, c]"
    by (simp only: numeral_2_eq_2 py_split_max_step) (simp add: py_split_max_step del: py_split_max.simps(2))
qed

end
