(* ===== verification/Core_Enums.thy ===== *)
theory Core_Enums
  imports Py_String
begin

text \<open>
  \<open>core/enums.py\<close>: the string enumerations shared across the control plane, each a datatype
  with its wire value, and the order on risk levels. \<open>X_of_value\<close> is the enum constructor
  \<open>X(value)\<close>, \<open>None\<close> standing for the \<open>ValueError\<close>.
\<close>

section \<open>Risk levels\<close>

datatype risk_level = READ | WRITE | PRIVILEGED | DESTRUCTIVE

fun risk_value :: "risk_level \<Rightarrow> string" where
  "risk_value READ = ''read''"
| "risk_value WRITE = ''write''"
| "risk_value PRIVILEGED = ''privileged''"
| "risk_value DESTRUCTIVE = ''destructive''"

fun rank :: "risk_level \<Rightarrow> nat" where
  "rank READ = 0"
| "rank WRITE = 1"
| "rank PRIVILEGED = 2"
| "rank DESTRUCTIVE = 3"

definition at_least :: "risk_level \<Rightarrow> risk_level \<Rightarrow> bool" where
  "at_least a b \<longleftrightarrow> rank b \<le> rank a"

text \<open>\<open>max(levels, key = rank, default = READ)\<close>: the first of the highest rank.\<close>

definition risk_max :: "risk_level list \<Rightarrow> risk_level" where
  "risk_max ls = (case ls of [] \<Rightarrow> READ
     | l # rest \<Rightarrow> fold (\<lambda>x best. if rank x > rank best then x else best) rest l)"

definition risk_of_value :: "string \<Rightarrow> risk_level option" where
  "risk_of_value s = find (\<lambda>r. risk_value r = s) [READ, WRITE, PRIVILEGED, DESTRUCTIVE]"

instantiation risk_level :: linorder
begin

definition less_eq_risk_level :: "risk_level \<Rightarrow> risk_level \<Rightarrow> bool" where
  "less_eq_risk_level a b \<longleftrightarrow> rank a \<le> rank b"

definition less_risk_level :: "risk_level \<Rightarrow> risk_level \<Rightarrow> bool" where
  "less_risk_level a b \<longleftrightarrow> rank a < rank b"

instance
proof
  fix x y z :: risk_level
  show "x < y \<longleftrightarrow> x \<le> y \<and> \<not> y \<le> x" by (auto simp: less_eq_risk_level_def less_risk_level_def)
  show "x \<le> x" by (simp add: less_eq_risk_level_def)
  show "x \<le> y \<Longrightarrow> y \<le> z \<Longrightarrow> x \<le> z" by (simp add: less_eq_risk_level_def)
  show "x \<le> y \<Longrightarrow> y \<le> x \<Longrightarrow> x = y" by (cases x; cases y) (auto simp: less_eq_risk_level_def)
  show "x \<le> y \<or> y \<le> x" by (auto simp: less_eq_risk_level_def)
qed

end

lemma at_least_le: "at_least a b \<longleftrightarrow> b \<le> a"
  by (simp add: at_least_def less_eq_risk_level_def)

lemma rank_less: "rank a < rank b \<longleftrightarrow> a < b"
  by (simp add: less_risk_level_def)

lemma rank_le: "rank a \<le> rank b \<longleftrightarrow> a \<le> b"
  by (simp add: less_eq_risk_level_def)

lemma READ_least [simp]: "READ \<le> r"
  by (simp add: less_eq_risk_level_def)

lemma risk_fold_max: "fold (\<lambda>x best. if rank x > rank best then x else best) rest l = Max (set (l # rest))"
proof (induction rest arbitrary: l)
  case Nil
  show ?case by simp
next
  case (Cons x rest)
  have "Max (set (l # x # rest)) = Max (set (max l x # rest))"
    by (cases "rest = []") (auto simp: max.assoc)
  with Cons show ?case by (auto simp: rank_less max_def not_less)
qed

lemma risk_max_Max: "risk_max ls = (if ls = [] then READ else Max (set ls))"
  by (cases ls) (simp_all add: risk_max_def risk_fold_max del: set_simps)

lemma risk_max_upper: "l \<in> set ls \<Longrightarrow> l \<le> risk_max ls"
  by (auto simp: risk_max_Max)

lemma risk_max_in: "ls \<noteq> [] \<Longrightarrow> risk_max ls \<in> set ls"
  by (auto simp: risk_max_Max)

lemma risk_max_READ [simp]: "risk_max [r, READ] = r"
  by (cases r) (simp_all add: risk_max_def)

section \<open>Policy, approval and task enumerations\<close>

datatype policy_decision = ALLOW | REQUIRE_APPROVAL | DENY

fun decision_value :: "policy_decision \<Rightarrow> string" where
  "decision_value ALLOW = ''allow''"
| "decision_value REQUIRE_APPROVAL = ''require_approval''"
| "decision_value DENY = ''deny''"

definition decision_of_value :: "string \<Rightarrow> policy_decision option" where
  "decision_of_value s = find (\<lambda>d. decision_value d = s) [ALLOW, REQUIRE_APPROVAL, DENY]"

datatype approval_state = A_PENDING | A_APPROVED | A_DENIED | A_EXPIRED | A_CONSUMED

fun approval_value :: "approval_state \<Rightarrow> string" where
  "approval_value A_PENDING = ''pending''"
| "approval_value A_APPROVED = ''approved''"
| "approval_value A_DENIED = ''denied''"
| "approval_value A_EXPIRED = ''expired''"
| "approval_value A_CONSUMED = ''consumed''"

datatype task_state = CREATED | PLANNING | AWAITING_APPROVAL | EXECUTING | VERIFYING
  | ROLLING_BACK | COMPLETED | FAILED | CANCELLED

fun task_state_value :: "task_state \<Rightarrow> string" where
  "task_state_value CREATED = ''created''"
| "task_state_value PLANNING = ''planning''"
| "task_state_value AWAITING_APPROVAL = ''awaiting_approval''"
| "task_state_value EXECUTING = ''executing''"
| "task_state_value VERIFYING = ''verifying''"
| "task_state_value ROLLING_BACK = ''rolling_back''"
| "task_state_value COMPLETED = ''completed''"
| "task_state_value FAILED = ''failed''"
| "task_state_value CANCELLED = ''cancelled''"

definition is_terminal :: "task_state \<Rightarrow> bool" where
  "is_terminal s \<longleftrightarrow> s \<in> {COMPLETED, FAILED, CANCELLED}"

datatype agent_role = BRAHMA | VISHNU | MAHESH

fun role_value :: "agent_role \<Rightarrow> string" where
  "role_value BRAHMA = ''brahma''"
| "role_value VISHNU = ''vishnu''"
| "role_value MAHESH = ''mahesh''"

datatype event_type =
    RUNTIME_STARTED | RUNTIME_STOPPED | HEARTBEAT
  | TASK_CREATED | TASK_COMPLETED | TASK_FAILED | TASK_CANCELLED
  | PLAN_CREATED | PLAN_APPROVED | PLAN_REJECTED
  | TOOL_REQUESTED | TOOL_APPROVED | TOOL_STARTED | TOOL_COMPLETED | TOOL_FAILED
  | APPROVAL_REQUESTED | APPROVAL_RESOLVED
  | SECURITY_DENIED | AUTH_SUCCEEDED | AUTH_FAILED | AUTHZ_DENIED
  | CREDENTIAL_CREATED | CREDENTIAL_ROTATED | CREDENTIAL_REVOKED | CREDENTIAL_PRUNED
  | AGENT_DECIDED | ROLLBACK_STARTED | ROLLBACK_COMPLETED

fun event_value :: "event_type \<Rightarrow> string" where
  "event_value RUNTIME_STARTED = ''runtime.started''"
| "event_value RUNTIME_STOPPED = ''runtime.stopped''"
| "event_value HEARTBEAT = ''heartbeat''"
| "event_value TASK_CREATED = ''task.created''"
| "event_value TASK_COMPLETED = ''task.completed''"
| "event_value TASK_FAILED = ''task.failed''"
| "event_value TASK_CANCELLED = ''task.cancelled''"
| "event_value PLAN_CREATED = ''plan.created''"
| "event_value PLAN_APPROVED = ''plan.approved''"
| "event_value PLAN_REJECTED = ''plan.rejected''"
| "event_value TOOL_REQUESTED = ''tool.requested''"
| "event_value TOOL_APPROVED = ''tool.approved''"
| "event_value TOOL_STARTED = ''tool.started''"
| "event_value TOOL_COMPLETED = ''tool.completed''"
| "event_value TOOL_FAILED = ''tool.failed''"
| "event_value APPROVAL_REQUESTED = ''approval.requested''"
| "event_value APPROVAL_RESOLVED = ''approval.resolved''"
| "event_value SECURITY_DENIED = ''security.denied''"
| "event_value AUTH_SUCCEEDED = ''auth.succeeded''"
| "event_value AUTH_FAILED = ''auth.failed''"
| "event_value AUTHZ_DENIED = ''authz.denied''"
| "event_value CREDENTIAL_CREATED = ''credential.created''"
| "event_value CREDENTIAL_ROTATED = ''credential.rotated''"
| "event_value CREDENTIAL_REVOKED = ''credential.revoked''"
| "event_value CREDENTIAL_PRUNED = ''credential.pruned''"
| "event_value AGENT_DECIDED = ''agent.decided''"
| "event_value ROLLBACK_STARTED = ''rollback.started''"
| "event_value ROLLBACK_COMPLETED = ''rollback.completed''"

datatype runtime_status = R_STARTING | R_HEALTHY | R_DEGRADED | R_STOPPING | R_STOPPED

datatype component_status = C_UP | C_DEGRADED | C_DOWN | C_UNKNOWN

lemma risk_value_inj: "inj risk_value"
proof (rule injI)
  fix x y
  assume "risk_value x = risk_value y"
  then show "x = y" by (cases x; cases y) simp_all
qed

lemma risk_of_value_value [simp, enum_simps]: "risk_of_value (risk_value r) = Some r"
  by (cases r) (simp_all add: risk_of_value_def)

lemma decision_of_value_value [simp, enum_simps]: "decision_of_value (decision_value d) = Some d"
  by (cases d) (simp_all add: decision_of_value_def)

end
