(* ===== verification/Core_Errors.thy ===== *)
theory Core_Errors
  imports Core_Enums
begin

text \<open>
  \<open>core/errors.py\<close>: one constructor per exception class, with the structured context the
  class carries. Classes derived from \<open>ScrappyError\<close> in other modules are listed here too, so
  that one type covers \<open>except ScrappyError\<close>; \<open>Invalid\<close> is a pydantic \<open>ValidationError\<close> or a
  \<open>ValueError\<close>, which is not a \<open>ScrappyError\<close>.
\<close>

datatype scrappy_error =
    ScrappyError string
  | ConfigurationError string
  | ValidationFailed string
  | ToolNotFound string "string list"
  | ToolError string string
  | ToolTimeout string string
  | PathNotAllowed string string
  | PolicyViolation string string risk_level string policy_decision
  | ApprovalRequired string string string risk_level
  | ApprovalExpired string
  | ApprovalNotFound string
  | ProviderError string string
  | ProviderUnavailable string string
  | StructuredOutputError string string
  | LimitExceeded string string int
  | InvalidStateTransition task_state task_state
  | AuthorizationDenied string string string
  | CredentialError string
  | CredentialNotFound string
  | StoreError string
  | Invalid string

text \<open>The \<open>message\<close> attribute.\<close>

fun err_message :: "scrappy_error \<Rightarrow> string" where
  "err_message (ScrappyError m) = m"
| "err_message (ConfigurationError m) = m"
| "err_message (ValidationFailed m) = m"
| "err_message (ToolNotFound n known) = ''Unknown tool '' @ py_repr n"
| "err_message (ToolError m n) = m"
| "err_message (ToolTimeout m n) = m"
| "err_message (PathNotAllowed p r) = ''Path not allowed: '' @ p @ '' ('' @ r @ '')''"
| "err_message (PolicyViolation m n r rule d) = m"
| "err_message (ApprovalRequired m a n r) = m"
| "err_message (ApprovalExpired m) = m"
| "err_message (ApprovalNotFound m) = m"
| "err_message (ProviderError m p) = m"
| "err_message (ProviderUnavailable m p) = m"
| "err_message (StructuredOutputError m p) = m"
| "err_message (LimitExceeded m n v) = m"
| "err_message (InvalidStateTransition c t) =
     ''Cannot move task from '' @ task_state_value c @ '' to '' @ task_state_value t"
| "err_message (AuthorizationDenied m a s) = m"
| "err_message (CredentialError m) = m"
| "err_message (CredentialNotFound m) = m"
| "err_message (StoreError m) = m"
| "err_message (Invalid m) = m"

text \<open>The class hierarchy, as the \<open>except\<close> clauses of the program test it.\<close>

definition is_scrappy_error :: "scrappy_error \<Rightarrow> bool" where
  "is_scrappy_error e = (case e of Invalid m \<Rightarrow> False | _ \<Rightarrow> True)"

definition is_tool_error :: "scrappy_error \<Rightarrow> bool" where
  "is_tool_error e = (case e of ToolError m n \<Rightarrow> True | ToolTimeout m n \<Rightarrow> True | _ \<Rightarrow> False)"

definition is_provider_error :: "scrappy_error \<Rightarrow> bool" where
  "is_provider_error e = (case e of ProviderError m p \<Rightarrow> True | ProviderUnavailable m p \<Rightarrow> True
     | StructuredOutputError m p \<Rightarrow> True | _ \<Rightarrow> False)"

definition is_credential_error :: "scrappy_error \<Rightarrow> bool" where
  "is_credential_error e = (case e of CredentialError m \<Rightarrow> True | CredentialNotFound m \<Rightarrow> True | _ \<Rightarrow> False)"

end
