(* ===== verification/Py_Value.thy ===== *)
theory Py_Value
  imports Py_String
begin

text \<open>
  The Python values that travel in payloads, arguments and metadata (\<open>dict[str, Any]\<close>): what
  JSON can hold, plus bytes and sets of strings. A dictionary keeps its insertion order.
\<close>

datatype pyval =
    PNone
  | PBool bool
  | PInt int
  | PFloat rat
  | PStr string
  | PBytes string
  | PList "pyval list"
  | PDict "(string \<times> pyval) list"
  | PSet "string list"

type_synonym payload = "(string \<times> pyval) list"

text \<open>\<open>payload.get(key)\<close>.\<close>

definition pget :: "string \<Rightarrow> payload \<Rightarrow> pyval" where
  "pget k d = (case map_of d k of None \<Rightarrow> PNone | Some v \<Rightarrow> v)"

definition pstr_opt :: "string option \<Rightarrow> pyval" where
  "pstr_opt s = (case s of None \<Rightarrow> PNone | Some t \<Rightarrow> PStr t)"

text \<open>Milliseconds to one decimal, \<open>round(duration_ms, 1)\<close>, from microseconds.\<close>

definition pms :: "time \<Rightarrow> pyval" where
  "pms t = PFloat (of_int (round (of_int t / 100 :: rat)) / 10)"

text \<open>Truthiness.\<close>

fun py_truth :: "pyval \<Rightarrow> bool" where
  "py_truth PNone = False"
| "py_truth (PBool b) = b"
| "py_truth (PInt i) = (i \<noteq> 0)"
| "py_truth (PFloat r) = (r \<noteq> 0)"
| "py_truth (PStr s) = (s \<noteq> [])"
| "py_truth (PBytes b) = (b \<noteq> [])"
| "py_truth (PList xs) = (xs \<noteq> [])"
| "py_truth (PDict d) = (d \<noteq> [])"
| "py_truth (PSet s) = (s \<noteq> [])"

section \<open>Rendering\<close>

text \<open>
  A float is rendered to six decimals, which is exact for the values the program computes: it
  rounds to one or two decimals, or divides microseconds by a million.
\<close>

definition str_float :: "rat \<Rightarrow> string" where
  "str_float r = (if r < 0 then ''-'' @ str_seconds (round (- r * 1000000)) else str_seconds (round (r * 1000000)))"

definition hex2 :: "nat \<Rightarrow> string" where
  "hex2 n = [hex_digit (n div 16), hex_digit (n mod 16)]"

text \<open>\<open>json.dumps\<close> of a string; the flag is \<open>ensure_ascii\<close>.\<close>

definition json_char :: "bool \<Rightarrow> char \<Rightarrow> string" where
  "json_char ascii c = (let n = (of_char c :: nat) in
     if n = 34 \<or> n = 92 then [CHR 0x5C, c]
     else if n = 8 then [CHR 0x5C, CHR ''b'']
     else if n = 9 then [CHR 0x5C, CHR ''t'']
     else if n = 10 then [CHR 0x5C, CHR ''n'']
     else if n = 12 then [CHR 0x5C, CHR ''f'']
     else if n = 13 then [CHR 0x5C, CHR ''r'']
     else if n < 32 \<or> ascii \<and> 127 \<le> n then [CHR 0x5C, CHR ''u'', CHR ''0'', CHR ''0''] @ hex2 n
     else [c])"

definition json_string :: "bool \<Rightarrow> string \<Rightarrow> string" where
  "json_string ascii s = [CHR 0x22] @ concat (map (json_char ascii) s) @ [CHR 0x22]"

text \<open>\<open>str\<close> of a byte string and of a set of strings, which is what \<open>default=str\<close> falls back to.\<close>

definition bytes_char :: "char \<Rightarrow> char \<Rightarrow> string" where
  "bytes_char q c = (let n = (of_char c :: nat) in
     if 127 \<le> n then [CHR 0x5C, CHR ''x''] @ hex2 n else repr_char q c)"

definition str_bytes :: "string \<Rightarrow> string" where
  "str_bytes b = (let q = (if CHR 0x27 \<in> set b \<and> CHR 0x22 \<notin> set b then CHR 0x22 else CHR 0x27)
     in CHR ''b'' # q # concat (map (bytes_char q) b) @ [q])"

definition str_set :: "string list \<Rightarrow> string" where
  "str_set xs = (if xs = [] then ''set()'' else ''{'' @ py_join '', '' (map py_repr xs) @ ''}'')"

text \<open>\<open>json.dumps(value, default=str, sort_keys=True, ensure_ascii=...)\<close>.\<close>

fun json_with :: "bool \<Rightarrow> pyval \<Rightarrow> string" where
  "json_with a PNone = ''null''"
| "json_with a (PBool b) = (if b then ''true'' else ''false'')"
| "json_with a (PInt i) = str_int i"
| "json_with a (PFloat r) = str_float r"
| "json_with a (PStr s) = json_string a s"
| "json_with a (PBytes b) = json_string a (str_bytes b)"
| "json_with a (PSet xs) = json_string a (str_set xs)"
| "json_with a (PList xs) = ''['' @ py_join '', '' (map (json_with a) xs) @ '']''"
| "json_with a (PDict d) = ''{'' @ py_join '', ''
     (map (\<lambda>(k, t). json_string a k @ '': '' @ t) (sort_key fst (map (\<lambda>(k, v). (k, json_with a v)) d))) @ ''}''"

abbreviation json_dumps :: "pyval \<Rightarrow> string" where
  "json_dumps \<equiv> json_with True"

text \<open>What \<open>json.loads\<close> gives back: keys in sorted order, and text for what JSON cannot hold.\<close>

fun json_norm :: "pyval \<Rightarrow> pyval" where
  "json_norm (PList xs) = PList (map json_norm xs)"
| "json_norm (PDict d) = PDict (sort_key fst (map (\<lambda>(k, v). (k, json_norm v)) d))"
| "json_norm (PBytes b) = PStr (str_bytes b)"
| "json_norm (PSet xs) = PStr (str_set xs)"
| "json_norm v = v"

text \<open>\<open>repr\<close> and \<open>str\<close> of a value.\<close>

fun repr_val :: "pyval \<Rightarrow> string" where
  "repr_val PNone = ''None''"
| "repr_val (PBool b) = (if b then ''True'' else ''False'')"
| "repr_val (PInt i) = str_int i"
| "repr_val (PFloat r) = str_float r"
| "repr_val (PStr s) = py_repr s"
| "repr_val (PBytes b) = str_bytes b"
| "repr_val (PSet xs) = str_set xs"
| "repr_val (PList xs) = ''['' @ py_join '', '' (map repr_val xs) @ '']''"
| "repr_val (PDict d) = ''{'' @ py_join '', '' (map (\<lambda>(k, t). py_repr k @ '': '' @ t) (map (\<lambda>(k, v). (k, repr_val v)) d)) @ ''}''"

definition str_val :: "pyval \<Rightarrow> string" where
  "str_val v = (case v of PStr s \<Rightarrow> s | _ \<Rightarrow> repr_val v)"

text \<open>\<open>payload.get(key, default)\<close>.\<close>

definition pget_or :: "string \<Rightarrow> pyval \<Rightarrow> payload \<Rightarrow> pyval" where
  "pget_or k dflt d = or_else (map_of d k) dflt"

lemma json_norm_atom [simp]: "json_norm v = PNone \<longleftrightarrow> v = PNone"
  by (cases v) simp_all

end
