(* ===== verification/Core_Identity.thy ===== *)
theory Core_Identity
  imports Core_Errors Py_Value
begin

text \<open>
  \<open>core/identity.py\<close>: the principal behind a request. An \<open>actor\<close> is built through
  \<open>make_actor\<close>, which is the pydantic constructor with its field limits and its validator, and
  is narrowed by \<open>with_scopes\<close> only.
\<close>

datatype actor_type = HUMAN | SERVICE | NODE | SYSTEM

fun actor_type_value :: "actor_type \<Rightarrow> string" where
  "actor_type_value HUMAN = ''human''"
| "actor_type_value SERVICE = ''service''"
| "actor_type_value NODE = ''node''"
| "actor_type_value SYSTEM = ''system''"

datatype auth_method = AM_NONE | BEARER_TOKEN | LOCAL_PROCESS | INTERNAL

fun auth_method_value :: "auth_method \<Rightarrow> string" where
  "auth_method_value AM_NONE = ''none''"
| "auth_method_value BEARER_TOKEN = ''bearer_token''"
| "auth_method_value LOCAL_PROCESS = ''local_process''"
| "auth_method_value INTERNAL = ''internal''"

datatype scope = TASK_CREATE | TASK_READ | APPROVAL_READ | APPROVAL_GRANT | AUDIT_READ | SYSTEM_READ

fun scope_value :: "scope \<Rightarrow> string" where
  "scope_value TASK_CREATE = ''task:create''"
| "scope_value TASK_READ = ''task:read''"
| "scope_value APPROVAL_READ = ''approval:read''"
| "scope_value APPROVAL_GRANT = ''approval:grant''"
| "scope_value AUDIT_READ = ''audit:read''"
| "scope_value SYSTEM_READ = ''system:read''"

definition scope_members :: "scope list" where
  "scope_members = [TASK_CREATE, TASK_READ, APPROVAL_READ, APPROVAL_GRANT, AUDIT_READ, SYSTEM_READ]"

definition scope_of_value :: "string \<Rightarrow> scope option" where
  "scope_of_value s = find (\<lambda>m. scope_value m = s) scope_members"

definition all_scopes :: "scope set" where
  "all_scopes = set scope_members"

definition read_only_scopes :: "scope set" where
  "read_only_scopes = {TASK_READ, AUDIT_READ, SYSTEM_READ, APPROVAL_READ}"

record actor =
  a_id :: string
  a_type :: actor_type
  a_display_name :: "string option"
  a_scopes :: "scope set"
  a_auth_method :: auth_method
  a_metadata :: "(string \<times> string) list"

text \<open>The field limits and \<open>_unauthenticated_actors_hold_no_scopes\<close>.\<close>

definition actor_valid :: "actor \<Rightarrow> bool" where
  "actor_valid a \<longleftrightarrow> 1 \<le> length (a_id a) \<and> length (a_id a) \<le> 128
     \<and> (case a_display_name a of None \<Rightarrow> True | Some n \<Rightarrow> length n \<le> 128)
     \<and> (a_auth_method a = AM_NONE \<longrightarrow> a_scopes a = {})"

definition make_actor :: "actor \<Rightarrow> scrappy_error + actor" where
  "make_actor a = (if actor_valid a then Inr a else Inl (Invalid ''Actor''))"

definition has_scope :: "actor \<Rightarrow> scope \<Rightarrow> bool" where
  "has_scope a s \<longleftrightarrow> s \<in> a_scopes a"

definition with_scopes :: "actor \<Rightarrow> scope set \<Rightarrow> actor" where
  "with_scopes a s = a\<lparr>a_scopes := a_scopes a \<inter> s\<rparr>"

definition actor_label :: "actor \<Rightarrow> string" where
  "actor_label a = actor_type_value (a_type a) @ '':'' @ a_id a"

text \<open>\<open>sorted(str(scope) for scope in scopes)\<close>.\<close>

definition scope_names :: "scope set \<Rightarrow> string list" where
  "scope_names s = sort (map scope_value (filter (\<lambda>m. m \<in> s) scope_members))"

definition actor_audit_fields :: "actor \<Rightarrow> payload" where
  "actor_audit_fields a =
     [(''actor_id'', PStr (a_id a)),
      (''actor_type'', PStr (actor_type_value (a_type a))),
      (''auth_method'', PStr (auth_method_value (a_auth_method a))),
      (''actor_scopes'', PList (map PStr (scope_names (a_scopes a))))]"

definition SYSTEM_ACTOR :: actor where
  "SYSTEM_ACTOR = \<lparr>a_id = ''scrappy'', a_type = SYSTEM, a_display_name = Some ''Scrappy OS runtime'',
     a_scopes = {}, a_auth_method = INTERNAL, a_metadata = []\<rparr>"

definition ANONYMOUS_ACTOR :: actor where
  "ANONYMOUS_ACTOR = \<lparr>a_id = ''anonymous'', a_type = SERVICE, a_display_name = Some ''unauthenticated'',
     a_scopes = {}, a_auth_method = AM_NONE, a_metadata = []\<rparr>"

text \<open>
  The second argument of \<open>local_cli_actor\<close> is what \<open>getpass.getuser()\<close> answers, \<open>None\<close> when it
  raises.
\<close>

definition local_cli_actor :: "string option \<Rightarrow> string option \<Rightarrow> scrappy_error + actor" where
  "local_cli_actor username getuser =
     (let resolved = (case username of Some u \<Rightarrow> u | None \<Rightarrow> or_else getuser ''unknown'')
      in make_actor \<lparr>a_id = resolved, a_type = HUMAN, a_display_name = Some (''local user '' @ resolved),
           a_scopes = all_scopes, a_auth_method = LOCAL_PROCESS, a_metadata = []\<rparr>)"

definition agent_actor :: "string \<Rightarrow> actor option \<Rightarrow> scrappy_error + actor" where
  "agent_actor role on_behalf_of =
     make_actor \<lparr>a_id = ''agent:'' @ role, a_type = SYSTEM, a_display_name = Some (role @ '' agent''),
       a_scopes = {}, a_auth_method = INTERNAL,
       a_metadata = (case on_behalf_of of None \<Rightarrow> [] | Some p \<Rightarrow> [(''on_behalf_of'', a_id p)])\<rparr>"

section \<open>Lemmas\<close>

lemma scope_of_value_value [simp, enum_simps]: "scope_of_value (scope_value s) = Some s"
  by (cases s) (simp_all add: scope_of_value_def scope_members_def)

lemma scope_of_value_Some: "scope_of_value n = Some s \<longleftrightarrow> n = scope_value s"
  by (auto simp: scope_of_value_def find_Some_iff) (metis scope_of_value_def scope_of_value_value find_Some_iff)

lemma scope_value_inj: "scope_value a = scope_value b \<longleftrightarrow> a = b"
  by (metis option.inject scope_of_value_value)

lemma scope_members_UNIV [simp]: "set scope_members = UNIV"
proof -
  have "s \<in> set scope_members" for s by (cases s) (simp_all add: scope_members_def)
  then show ?thesis by auto
qed

lemma all_scopes_UNIV [simp]: "all_scopes = UNIV"
  by (simp add: all_scopes_def)

lemma scope_names_set [simp]: "set (scope_names s) = scope_value ` s"
  by (auto simp: scope_names_def)

lemma make_actor_Inr: "make_actor a = Inr b \<longleftrightarrow> actor_valid a \<and> b = a"
  by (auto simp: make_actor_def)

lemma actor_valid_with_scopes [inv_intros]: "actor_valid a \<Longrightarrow> actor_valid (with_scopes a s)"
  by (auto simp: actor_valid_def with_scopes_def)

lemma actor_valid_well_known: "actor_valid SYSTEM_ACTOR" "actor_valid ANONYMOUS_ACTOR"
  by (simp_all add: actor_valid_def SYSTEM_ACTOR_def ANONYMOUS_ACTOR_def)

end
