(* ===== verification/Sec_Authz.thy ===== *)
theory Sec_Authz
  imports Core_Identity
begin

text \<open>
  \<open>security/authz.py\<close>: whether an actor holds the capability an operation needs. \<open>evaluate\<close>
  takes any object as the scope it is asked about, which \<open>scope_arg\<close> spells out: a member of
  the enumeration, a string, or something else (with its \<open>str\<close>).
\<close>

datatype scope_arg = AsScope scope | AsStr string | AsOther string

fun scope_arg_str :: "scope_arg \<Rightarrow> string" where
  "scope_arg_str (AsScope s) = scope_value s"
| "scope_arg_str (AsStr s) = s"
| "scope_arg_str (AsOther s) = s"

record authz_verdict =
  v_allowed :: bool
  v_actor_id :: string
  v_scope :: string
  v_reason :: string
  v_rule :: string

definition verdict_to_dict :: "authz_verdict \<Rightarrow> payload" where
  "verdict_to_dict v =
     [(''allowed'', PBool (v_allowed v)), (''actor_id'', PStr (v_actor_id v)),
      (''scope'', PStr (v_scope v)), (''reason'', PStr (v_reason v)), (''rule'', PStr (v_rule v))]"

fun is_known_scope :: "scope_arg \<Rightarrow> bool" where
  "is_known_scope (AsScope s) = True"
| "is_known_scope (AsStr s) = (s \<in> scope_value ` set scope_members)"
| "is_known_scope (AsOther s) = False"

definition authz_evaluate :: "actor \<Rightarrow> scope_arg \<Rightarrow> authz_verdict" where
  "authz_evaluate a arg =
     (let rendered = scope_arg_str arg in
      if \<not> is_known_scope arg then
        \<lparr>v_allowed = False, v_actor_id = a_id a, v_scope = rendered,
         v_reason = py_repr rendered @ '' is not a capability this build defines; unknown permissions are denied'',
         v_rule = ''unknown-scope''\<rparr>
      else (case (case arg of AsScope s \<Rightarrow> Some s | _ \<Rightarrow> scope_of_value rendered) of
          None \<Rightarrow> \<comment> \<open>\<open>Scope(str(scope))\<close> cannot raise here: the name is known\<close>
            \<lparr>v_allowed = False, v_actor_id = a_id a, v_scope = rendered, v_reason = [], v_rule = []\<rparr>
        | Some required \<Rightarrow>
            if a_auth_method a = AM_NONE then
              \<lparr>v_allowed = False, v_actor_id = a_id a, v_scope = rendered,
               v_reason = ''the request carried no verified identity'', v_rule = ''unauthenticated''\<rparr>
            else if \<not> has_scope a required then
              \<lparr>v_allowed = False, v_actor_id = a_id a, v_scope = rendered,
               v_reason = ''actor does not hold '' @ rendered, v_rule = ''missing-scope''\<rparr>
            else
              \<lparr>v_allowed = True, v_actor_id = a_id a, v_scope = rendered,
               v_reason = ''actor holds '' @ rendered, v_rule = ''scope-granted''\<rparr>))"

definition authorize :: "actor \<Rightarrow> scope_arg \<Rightarrow> scrappy_error + authz_verdict" where
  "authorize a arg =
     (let v = authz_evaluate a arg in
      if v_allowed v then Inr v else Inl (AuthorizationDenied (v_reason v) (v_actor_id v) (v_scope v)))"

section \<open>Scope lists in configuration\<close>

text \<open>One pass over the comma-separated names: the scopes parsed and the unknown names.\<close>

fun scan_scopes :: "string list \<Rightarrow> scope set \<times> string list" where
  "scan_scopes [] = ({}, [])"
| "scan_scopes (chunk # rest) =
     (let item = py_strip chunk; (parsed, unknown) = scan_scopes rest in
      if item = [] then (parsed, unknown)
      else (case scope_of_value item of
              None \<Rightarrow> (parsed, item # unknown)
            | Some s \<Rightarrow> (insert s parsed, unknown)))"

definition parse_scopes :: "string \<Rightarrow> scrappy_error + scope set" where
  "parse_scopes raw =
     (let (parsed, unknown) = scan_scopes (py_split (CHR '','') raw) in
      if unknown \<noteq> [] then
        Inl (AuthorizationDenied
          (''unknown scope(s): '' @ py_join '', '' (sort unknown) @ ''; known scopes are '' @
           py_join '', '' (sort (map scope_value scope_members)))
          ''<configuration>'' (py_join '','' (sort unknown)))
      else Inr parsed)"

section \<open>Lemmas\<close>

lemma known_scope_str: "is_known_scope (AsStr n) \<longleftrightarrow> scope_of_value n \<noteq> None"
  by (auto simp: scope_of_value_Some)

lemma evaluate_allowed_iff:
  "v_allowed (authz_evaluate a arg) \<longleftrightarrow>
    (\<exists>s. (arg = AsScope s \<or> arg = AsStr (scope_value s)) \<and> a_auth_method a \<noteq> AM_NONE \<and> has_scope a s)"
  by (cases arg)
    (auto simp: authz_evaluate_def Let_def scope_of_value_Some scope_value_inj split: option.splits)

lemma scope_value_nonempty [simp]: "scope_value s \<noteq> []"
  by (cases s) simp_all

lemma scan_scopes_parsed:
  "fst (scan_scopes cs) = {s. \<exists>c\<in>set cs. py_strip c = scope_value s}"
proof (induction cs)
  case Nil
  show ?case by simp
next
  case (Cons c cs)
  have ne: "[] \<noteq> scope_value s" for s by (metis scope_value_nonempty)
  from Cons show ?case
    by (auto simp: Let_def split_beta scope_of_value_Some scope_value_inj ne split: option.splits)
qed

lemma scan_scopes_unknown:
  "set (snd (scan_scopes cs)) = {py_strip c | c. c \<in> set cs \<and> py_strip c \<noteq> [] \<and> scope_of_value (py_strip c) = None}"
  by (induction cs) (auto simp: Let_def split_beta split: option.splits)

section \<open>Properties\<close>

text \<open>
  An actor is granted a capability exactly when the capability is a member of the scope
  enumeration (given as the member or by its exact name), the actor proved an identity, and it
  holds that scope; in every other case \<open>authorize\<close> raises \<open>AuthorizationDenied\<close> naming the
  actor and the rendered capability. An unknown capability, a typo included, is never granted.
\<close>

theorem authorize_exact:
  "case authorize a arg of
     Inr v \<Rightarrow> v_actor_id v = a_id a \<and>
       (\<exists>s. (arg = AsScope s \<or> arg = AsStr (scope_value s)) \<and> a_auth_method a \<noteq> AM_NONE \<and> has_scope a s)
   | Inl e \<Rightarrow> (\<exists>m. e = AuthorizationDenied m (a_id a) (scope_arg_str arg)) \<and>
       \<not> (\<exists>s. (arg = AsScope s \<or> arg = AsStr (scope_value s)) \<and> a_auth_method a \<noteq> AM_NONE \<and> has_scope a s)"
proof -
  have f: "v_actor_id (authz_evaluate a arg) = a_id a \<and> v_scope (authz_evaluate a arg) = scope_arg_str arg"
    by (auto simp: authz_evaluate_def Let_def split: option.splits)
  show ?thesis
    using f evaluate_allowed_iff [of a arg] by (auto simp: authorize_def Let_def)
qed

text \<open>
  A configured scope list parses exactly when every non-blank item of it is the name of a
  scope, and then grants the named scopes and no other; one unknown name refuses the whole list.
\<close>

theorem parse_scopes_exact:
  "case parse_scopes raw of
     Inr granted \<Rightarrow> (\<exists>items. items = filter (\<lambda>i. i \<noteq> []) (map py_strip (py_split (CHR '','') raw))
       \<and> set items = scope_value ` granted)
   | Inl e \<Rightarrow> (\<exists>i\<in>set (map py_strip (py_split (CHR '','') raw)). i \<noteq> [] \<and> scope_of_value i = None)"
proof (cases "scan_scopes (py_split (CHR '','') raw)")
  case (Pair parsed unknown)
  let ?cs = "py_split (CHR '','') raw"
  have p: "parsed = {s. \<exists>c\<in>set ?cs. py_strip c = scope_value s}"
    using scan_scopes_parsed [of ?cs] Pair by simp
  have u: "set unknown = {py_strip c | c. c \<in> set ?cs \<and> py_strip c \<noteq> [] \<and> scope_of_value (py_strip c) = None}"
    using scan_scopes_unknown [of ?cs] Pair by simp
  show ?thesis
  proof (cases "unknown = []")
    case True
    with u have k: "py_strip c = [] \<or> (\<exists>s. py_strip c = scope_value s)" if "c \<in> set ?cs" for c
      using that by (auto simp: scope_of_value_Some)
    have "set (filter (\<lambda>i. i \<noteq> []) (map py_strip ?cs)) = scope_value ` parsed"
    proof (rule set_eqI)
      fix n
      show "n \<in> set (filter (\<lambda>i. i \<noteq> []) (map py_strip ?cs)) \<longleftrightarrow> n \<in> scope_value ` parsed"
      proof (cases "n = []")
        case True
        then show ?thesis by (auto simp: image_iff dest: sym [of "[]"])
      next
        case False
        then have "n \<in> set (filter (\<lambda>i. i \<noteq> []) (map py_strip ?cs)) \<longleftrightarrow> (\<exists>c\<in>set ?cs. py_strip c = n)" by auto
        also have "\<dots> \<longleftrightarrow> (\<exists>s. n = scope_value s \<and> (\<exists>c\<in>set ?cs. py_strip c = scope_value s))"
          using k False by metis
        also have "\<dots> \<longleftrightarrow> n \<in> scope_value ` parsed" by (auto simp: p)
        finally show ?thesis .
      qed
    qed
    with True Pair show ?thesis by (auto simp: parse_scopes_def)
  next
    case False
    then obtain i where "i \<in> set unknown" by (cases unknown) auto
    with False Pair u show ?thesis by (auto simp: parse_scopes_def)
  qed
qed

end
