(* ===== verification/Py_Path.thy ===== *)
theory Py_Path
  imports Core_Errors
begin

text \<open>
  The part of \<open>pathlib\<close> the program uses, over an explicit file system: parsing a path,
  \<open>expanduser\<close>, and \<open>resolve(strict=False)\<close>, which follows symbolic links component by
  component. A resolved path is the list of its components below the root.

  \<open>link_budget\<close> bounds the number of links one resolution may follow; running out of it is the
  symlink loop that Python reports as \<open>RuntimeError\<close>. \<open>walk_mono\<close> and \<open>walk_canonical\<close> show that
  the bound changes no answer that was reached within it.
\<close>

type_synonym path = "string list"

datatype ppath = PPath (p_abs: bool) (p_parts: "string list")

datatype node = Dir | File string | Link string

record fs =
  nodes :: "path \<Rightarrow> node option"
  cwd :: path
  home_of :: "string \<Rightarrow> string option" \<comment> \<open>home directory of a user, the empty name being the current one\<close>
  link_budget :: nat

definition path_parts :: "string \<Rightarrow> string list" where
  "path_parts s = filter (\<lambda>c. c \<noteq> [] \<and> c \<noteq> ''.'') (py_split (CHR ''/'') s)"

definition is_abs_text :: "string \<Rightarrow> bool" where
  "is_abs_text s \<longleftrightarrow> prefix ''/'' s"

definition parse_path :: "string \<Rightarrow> ppath" where
  "parse_path s = PPath (is_abs_text s) (path_parts s)"

text \<open>\<open>Path(s).name\<close>.\<close>

definition path_name :: "string \<Rightarrow> string" where
  "path_name s = (case path_parts s of [] \<Rightarrow> [] | ps \<Rightarrow> last ps)"

definition str_path :: "path \<Rightarrow> string" where
  "str_path p = ''/'' @ py_join ''/'' p"

definition of_resolved :: "path \<Rightarrow> ppath" where
  "of_resolved p = PPath True p"

definition expanduser :: "fs \<Rightarrow> ppath \<Rightarrow> ppath option" where
  "expanduser f p = (case p of
     PPath False ((c # user) # rest) \<Rightarrow>
       if c = CHR ''~'' then
         (case home_of f user of
            None \<Rightarrow> None
          | Some h \<Rightarrow> Some (PPath (is_abs_text h) (path_parts h @ rest)))
       else Some p
   | _ \<Rightarrow> Some p)"

function walk :: "fs \<Rightarrow> nat \<Rightarrow> path \<Rightarrow> string list \<Rightarrow> path option" where
  "walk f n acc [] = Some acc"
| "walk f n acc (c # cs) =
     (if c = [] \<or> c = ''.'' then walk f n acc cs
      else if c = ''..'' then walk f n (butlast acc) cs
      else (case nodes f (acc @ [c]) of
              Some (Link t) \<Rightarrow>
                if n = 0 then None
                else walk f (n - 1) (if is_abs_text t then [] else acc) (path_parts t @ cs)
            | _ \<Rightarrow> walk f n (acc @ [c]) cs))"
  by pat_completeness auto
termination
  by (relation "measures [\<lambda>(f, n, acc, cs). n, \<lambda>(f, n, acc, cs). length cs]") auto

definition resolve_path :: "fs \<Rightarrow> ppath \<Rightarrow> path option" where
  "resolve_path f p = walk f (link_budget f) (if p_abs p then [] else cwd f) (p_parts p)"

text \<open>\<open>path.expanduser().resolve(strict=False)\<close>.\<close>

definition expand_resolve :: "fs \<Rightarrow> ppath \<Rightarrow> path option" where
  "expand_resolve f p = (case expanduser f p of None \<Rightarrow> None | Some q \<Rightarrow> resolve_path f q)"

definition is_symlink :: "fs \<Rightarrow> path \<Rightarrow> bool" where
  "is_symlink f p = (case nodes f p of Some (Link t) \<Rightarrow> True | _ \<Rightarrow> False)"

section \<open>Canonical paths\<close>

text \<open>
  A canonical path names every directory on the way literally: no component is a link, and none
  is empty, \<open>.\<close> or \<open>..\<close>.
\<close>

definition plain_name :: "string \<Rightarrow> bool" where
  "plain_name c \<longleftrightarrow> c \<noteq> [] \<and> c \<noteq> ''.'' \<and> c \<noteq> ''..''"

definition canonical :: "fs \<Rightarrow> path \<Rightarrow> bool" where
  "canonical f p \<longleftrightarrow> list_all plain_name p \<and> list_all (\<lambda>k. \<not> is_symlink f (take k p)) [0..<Suc (length p)]"

definition fs_ok :: "fs \<Rightarrow> bool" where
  "fs_ok f \<longleftrightarrow> \<not> is_symlink f [] \<and> canonical f (cwd f)"

lemma canonical_iff:
  "canonical f p \<longleftrightarrow> list_all plain_name p \<and> (\<forall>q. prefix q p \<longrightarrow> \<not> is_symlink f q)"
proof -
  have "(\<forall>k<Suc (length p). \<not> is_symlink f (take k p)) \<longleftrightarrow> (\<forall>q. prefix q p \<longrightarrow> \<not> is_symlink f q)"
    by (metis append_eq_conv_conj less_Suc_eq_le prefix_def prefix_length_le take_is_prefix)
  then show ?thesis by (auto simp: canonical_def list_all_iff)
qed

lemma canonical_Nil [simp]: "canonical f [] \<longleftrightarrow> \<not> is_symlink f []"
  by (simp add: canonical_iff)

lemma canonical_snoc:
  "canonical f (p @ [c]) \<longleftrightarrow> canonical f p \<and> plain_name c \<and> \<not> is_symlink f (p @ [c])"
  by (auto simp: canonical_iff prefix_snoc)

lemma canonical_prefix: "canonical f p \<Longrightarrow> prefix q p \<Longrightarrow> canonical f q"
  by (auto simp: canonical_iff prefix_def)

lemma canonical_butlast: "canonical f p \<Longrightarrow> canonical f (butlast p)"
  by (rule canonical_prefix) (auto simp: prefixeq_butlast)

lemma canonical_not_symlink: "canonical f p \<Longrightarrow> \<not> is_symlink f p"
  by (simp add: canonical_iff)

lemma walk_canonical:
  "walk f n acc cs = Some p \<Longrightarrow> fs_ok f \<Longrightarrow> canonical f acc \<Longrightarrow> canonical f p"
proof (induction f n acc cs rule: walk.induct)
  case (1 f n acc)
  then show ?case by simp
next
  case (2 f n acc c cs)
  have root: "canonical f []" using "2.prems" by (simp add: fs_ok_def)
  show ?case
  proof (cases "c = [] \<or> c = ''.'' \<or> c = ''..''")
    case True
    then show ?thesis using 2 by (auto simp: canonical_butlast)
  next
    case False
    then have plain: "plain_name c" by (simp add: plain_name_def)
    show ?thesis
    proof (cases "nodes f (acc @ [c])")
      case None
      then show ?thesis using 2 False plain by (simp add: canonical_snoc is_symlink_def)
    next
      case (Some nd)
      then show ?thesis
        using 2 False plain root
        by (cases nd) (auto simp: canonical_snoc is_symlink_def split: if_splits)
    qed
  qed
qed

lemma walk_along: "canonical f (acc @ p) \<Longrightarrow> walk f n acc p = Some (acc @ p)"
proof (induction p arbitrary: acc)
  case Nil
  show ?case by simp
next
  case (Cons c p)
  from Cons.prems have c: "canonical f (acc @ [c])" by (rule canonical_prefix) (simp add: prefix_def)
  then have "plain_name c" "\<not> is_symlink f (acc @ [c])" by (simp_all add: canonical_snoc)
  moreover have "walk f n (acc @ [c]) p = Some ((acc @ [c]) @ p)" by (rule Cons.IH) (use Cons.prems in simp)
  ultimately show ?case
    by (auto simp: plain_name_def is_symlink_def split: option.splits node.splits)
qed

text \<open>A canonical path resolves to itself, whatever the link budget.\<close>

lemma resolve_canonical: "canonical f p \<Longrightarrow> resolve_path f (of_resolved p) = Some p"
  using walk_along [of f "[]" p] by (simp add: resolve_path_def of_resolved_def)

lemma expand_resolve_of_resolved [simp]:
  "expand_resolve f (of_resolved p) = resolve_path f (of_resolved p)"
  by (simp add: expand_resolve_def expanduser_def of_resolved_def)

lemma resolve_path_canonical: "resolve_path f q = Some p \<Longrightarrow> fs_ok f \<Longrightarrow> canonical f p"
  by (auto simp: resolve_path_def fs_ok_def intro: walk_canonical [unfolded fs_ok_def] split: if_splits)

lemma expand_resolve_canonical: "expand_resolve f q = Some p \<Longrightarrow> fs_ok f \<Longrightarrow> canonical f p"
  by (auto simp: expand_resolve_def resolve_path_canonical split: option.splits)

text \<open>More link budget never changes an answer.\<close>

lemma walk_mono: "walk f n acc cs = Some p \<Longrightarrow> n \<le> m \<Longrightarrow> walk f m acc cs = Some p"
proof (induction f n acc cs arbitrary: m rule: walk.induct)
  case (1 f n acc)
  then show ?case by simp
next
  case (2 f n acc c cs)
  consider (skip) "c = [] \<or> c = ''.''" | (up) "c = ''..''" | (down) "\<not> (c = [] \<or> c = ''.'' \<or> c = ''..'')"
    by blast
  then show ?case
  proof cases
    case skip
    with "2.prems" have w: "walk f n acc cs = Some p" by auto
    have "walk f m acc cs = Some p" by (rule "2.IH"(1) [OF skip w "2.prems"(2)])
    with skip show ?thesis by auto
  next
    case up
    then have ns: "\<not> (c = [] \<or> c = ''.'')" by simp
    with up "2.prems" have w: "walk f n (butlast acc) cs = Some p" by simp
    have "walk f m (butlast acc) cs = Some p" by (rule "2.IH"(2) [OF ns up w "2.prems"(2)])
    with up show ?thesis by simp
  next
    case down
    then have nc: "\<not> (c = [] \<or> c = ''.'')" "c \<noteq> ''..''" by simp_all
    have stay: "walk f m (acc @ [c]) cs = Some p"
      if "walk f n (acc @ [c]) cs = Some p" "\<forall>t. nodes f (acc @ [c]) \<noteq> Some (Link t)"
    proof (cases "nodes f (acc @ [c])")
      case None
      show ?thesis by (rule "2.IH"(3) [OF nc None that(1) "2.prems"(2)])
    next
      case (Some nd)
      show ?thesis
      proof (cases nd)
        case Dir
        show ?thesis by (rule "2.IH"(4) [OF nc Some Dir that(1) "2.prems"(2)])
      next
        case (File t)
        show ?thesis by (rule "2.IH"(5) [OF nc Some File that(1) "2.prems"(2)])
      qed (use that Some in simp)
    qed
    have follow: "walk f (m - 1) (if is_abs_text t then [] else acc) (path_parts t @ cs) = Some p"
      if "nodes f (acc @ [c]) = Some (Link t)" "n \<noteq> 0"
        "walk f (n - 1) (if is_abs_text t then [] else acc) (path_parts t @ cs) = Some p" for t
      by (rule "2.IH"(6) [OF nc that(1) refl that(2,3)]) (use "2.prems" in simp)
    show ?thesis
    proof (cases "\<exists>t. nodes f (acc @ [c]) = Some (Link t)")
      case True
      then obtain t where t: "nodes f (acc @ [c]) = Some (Link t)" by blast
      with nc "2.prems" have n: "n \<noteq> 0"
        and w: "walk f (n - 1) (if is_abs_text t then [] else acc) (path_parts t @ cs) = Some p"
        by (auto split: if_splits)
      from n "2.prems"(2) have "m \<noteq> 0" by simp
      then show ?thesis using nc t follow [OF t n w] by simp
    next
      case False
      have "walk f n (acc @ [c]) cs = Some p"
        using nc "2.prems"(1) False by (auto split: option.splits node.splits)
      with False have "walk f m (acc @ [c]) cs = Some p" by (intro stay) auto
      then show ?thesis using nc False by (auto split: option.splits node.splits)
    qed
  qed
qed

text \<open>A file system without links resolves every path.\<close>

lemma walk_link_free: "\<forall>q. \<not> is_symlink f q \<Longrightarrow> walk f n acc cs \<noteq> None"
proof (induction f n acc cs rule: walk.induct)
  case (1 f n acc)
  then show ?case by simp
next
  case (2 f n acc c cs)
  from "2.prems" have "\<not> is_symlink f (acc @ [c])" by blast
  then show ?case
    using 2 by (auto simp: is_symlink_def split: option.splits node.splits)
qed

end
