(* ===== verification/Sec_Paths.thy ===== *)
theory Sec_Paths
  imports Py_Path
begin

text \<open>
  \<open>security/paths.py\<close>: validation of a path before a tool may read or write it. A root is
  resolved on every call, as the code does; a root that does not resolve raises \<open>RuntimeError\<close>
  (\<open>Invalid\<close>), which the code lets through.
\<close>

definition FORBIDDEN_WRITE_ROOTS :: "string list" where
  "FORBIDDEN_WRITE_ROOTS = [''/boot'', ''/dev'', ''/etc'', ''/proc'', ''/sys'', ''/usr'', ''/bin'', ''/sbin'',
     ''/lib'', ''/lib64'', ''/var/lib/dpkg'', ''/var/lib/rpm'']"

definition SENSITIVE_READ_PATHS :: "string list" where
  "SENSITIVE_READ_PATHS = [''/etc/shadow'', ''/etc/gshadow'', ''/etc/sudoers'', ''/root/.ssh'', ''/root/.aws'',
     ''/etc/ssh/ssh_host_rsa_key'', ''/etc/ssh/ssh_host_ecdsa_key'', ''/etc/ssh/ssh_host_ed25519_key'']"

definition resolve_raw :: "fs \<Rightarrow> string \<Rightarrow> scrappy_error + path" where
  "resolve_raw f text =
     (if CHR 0x00 \<in> set text then Inl (PathNotAllowed text ''path contains a NUL byte'')
      else if py_strip text = [] then Inl (PathNotAllowed text ''path is empty'')
      else (case expand_resolve f (parse_path text) of
              None \<Rightarrow> Inl (PathNotAllowed text ''cannot resolve'')
            | Some p \<Rightarrow> Inr p))"

definition is_within :: "path \<Rightarrow> path \<Rightarrow> bool" where
  "is_within candidate r \<longleftrightarrow> candidate = r \<or> prefix r candidate"

fun resolve_roots :: "fs \<Rightarrow> ppath list \<Rightarrow> scrappy_error + path list" where
  "resolve_roots f [] = Inr []"
| "resolve_roots f (r # rs) =
     (case expand_resolve f r of
        None \<Rightarrow> Inl (Invalid ''RuntimeError'')
      | Some p \<Rightarrow> ebind (resolve_roots f rs) (\<lambda>ps. Inr (p # ps)))"

definition all_roots :: "fs \<Rightarrow> ppath list \<Rightarrow> ppath option \<Rightarrow> scrappy_error + path list" where
  "all_roots f allowed workspace =
     ebind (resolve_roots f (allowed @ (case workspace of None \<Rightarrow> [] | Some w \<Rightarrow> [w])))
       (\<lambda>roots. if roots = [] then Inl (PathNotAllowed ''<none>'' ''no read roots are configured'')
                else Inr roots)"

definition validate_read_path ::
  "fs \<Rightarrow> string \<Rightarrow> ppath list \<Rightarrow> ppath option \<Rightarrow> scrappy_error + path" where
  "validate_read_path f raw allowed workspace =
     ebind (resolve_raw f raw) (\<lambda>resolved.
     ebind (all_roots f allowed workspace) (\<lambda>roots.
       if list_ex (\<lambda>s. is_within resolved (path_parts s)) SENSITIVE_READ_PATHS then
         Inl (PathNotAllowed (str_path resolved) ''path holds credentials and is never read'')
       else if \<not> list_ex (is_within resolved) roots then
         Inl (PathNotAllowed (str_path resolved)
           (''outside every allowed read root ('' @ py_join '', '' (map str_path roots) @ '')''))
       else Inr resolved))"

definition validate_write_path ::
  "fs \<Rightarrow> string \<Rightarrow> ppath \<Rightarrow> ppath list \<Rightarrow> scrappy_error + path" where
  "validate_write_path f raw workspace extra =
     ebind (resolve_raw f raw) (\<lambda>resolved.
     ebind (resolve_roots f (workspace # extra)) (\<lambda>roots.
       case find (\<lambda>s. is_within resolved (path_parts s)) FORBIDDEN_WRITE_ROOTS of
         Some forbidden \<Rightarrow>
           Inl (PathNotAllowed (str_path resolved) (forbidden @ '' is never writable by Scrappy OS''))
       | None \<Rightarrow>
           if \<not> list_ex (is_within resolved) roots then
             Inl (PathNotAllowed (str_path resolved)
               (''outside the writable workspace ('' @ py_join '', '' (map str_path roots) @ '')''))
           else if is_symlink f resolved then
             Inl (PathNotAllowed (str_path resolved) ''refusing to write through a symlink'')
           else Inr resolved))"

text \<open>
  The predicate of risk classification. Its \<open>workspace.expanduser().resolve()\<close> may raise, like
  every other resolution of a root.
\<close>

definition is_inside_workspace :: "fs \<Rightarrow> string \<Rightarrow> ppath \<Rightarrow> scrappy_error + bool" where
  "is_inside_workspace f raw workspace =
     (case resolve_raw f raw of
        Inl e \<Rightarrow> Inr False
      | Inr resolved \<Rightarrow>
          (case expand_resolve f workspace of
             None \<Rightarrow> Inl (Invalid ''RuntimeError'')
           | Some w \<Rightarrow> Inr (is_within resolved w)))"

section \<open>Lemmas\<close>

lemma is_within_prefix: "is_within p r \<longleftrightarrow> prefix r p"
  by (auto simp: is_within_def)

lemma resolve_raw_Inr: "resolve_raw f raw = Inr p \<longleftrightarrow>
    CHR 0x00 \<notin> set raw \<and> py_strip raw \<noteq> [] \<and> expand_resolve f (parse_path raw) = Some p"
  by (auto simp: resolve_raw_def split: option.splits)

lemma resolve_raw_canonical: "resolve_raw f raw = Inr p \<Longrightarrow> fs_ok f \<Longrightarrow> canonical f p"
  by (auto simp: resolve_raw_Inr expand_resolve_canonical)

lemma resolve_roots_Inr:
  "resolve_roots f rs = Inr ps \<longleftrightarrow> list_all2 (\<lambda>r p. expand_resolve f r = Some p) rs ps"
  by (induction rs arbitrary: ps) (auto simp: list_all2_Cons1 split: option.splits)

lemma resolve_roots_resolved:
  "canonical f w \<Longrightarrow> resolve_roots f [of_resolved w] = Inr [w]"
  by (simp add: resolve_canonical)

lemma find_None_list_all: "find P xs = None \<longleftrightarrow> list_all (\<lambda>x. \<not> P x) xs"
  by (induction xs) auto

lemma validate_write_Inr:
  "validate_write_path f raw w extra = Inr p \<longleftrightarrow>
    (\<exists>roots. resolve_raw f raw = Inr p \<and> resolve_roots f (w # extra) = Inr roots
      \<and> list_all (\<lambda>s. \<not> prefix (path_parts s) p) FORBIDDEN_WRITE_ROOTS
      \<and> list_ex (\<lambda>r. prefix r p) roots \<and> \<not> is_symlink f p)"
  unfolding validate_write_path_def is_within_prefix
  by (cases "find (\<lambda>s. prefix (path_parts s) p) FORBIDDEN_WRITE_ROOTS")
    (auto simp: find_None_list_all [symmetric] simp del: resolve_roots.simps split: option.splits if_splits)

lemma validate_read_Inr:
  "validate_read_path f raw allowed w = Inr p \<longleftrightarrow>
    (\<exists>roots. resolve_raw f raw = Inr p \<and> all_roots f allowed w = Inr roots
      \<and> list_all (\<lambda>s. \<not> prefix (path_parts s) p) SENSITIVE_READ_PATHS
      \<and> list_ex (\<lambda>r. prefix r p) roots)"
  by (auto simp: validate_read_path_def is_within_prefix list_all_iff list_ex_iff split: if_splits)

lemma resolve_roots_member:
  "resolve_roots f rs = Inr ps \<Longrightarrow> p \<in> set ps \<Longrightarrow> \<exists>r\<in>set rs. expand_resolve f r = Some p"
  by (induction rs arbitrary: ps) (auto split: option.splits)

lemma resolve_raw_Inl: "resolve_raw f raw = Inl e \<Longrightarrow> \<exists>r. e = PathNotAllowed raw r"
  by (auto simp: resolve_raw_def split: if_splits option.splits)

lemma resolve_roots_Inl: "resolve_roots f rs = Inl e \<Longrightarrow> e = Invalid ''RuntimeError''"
  by (induction rs) (auto simp: ebind_eq_Inl split: option.splits)

lemma validate_write_again:
  assumes "fs_ok f" "validate_write_path f raw w extra = Inr p"
  shows "canonical f p" "resolve_path f (of_resolved p) = Some p"
  using assms by (auto simp: validate_write_Inr resolve_raw_canonical resolve_canonical)

section \<open>Properties\<close>

text \<open>A file system with a workspace \<open>/srv/ws\<close>, a link in it that leaves it, and one file.\<close>

definition example_fs :: fs where
  "example_fs = \<lparr>nodes = map_of [([''srv''], Dir), ([''srv'', ''ws''], Dir),
       ([''srv'', ''ws'', ''out''], Link ''/etc''), ([''srv'', ''ws'', ''a''], File ''x'')],
     cwd = [''srv''], home_of = (\<lambda>u. None), link_budget = 40\<rparr>"

lemma example_fs_ok: "fs_ok example_fs"
  by code_simp

text \<open>
  C25. A path that passes the write check is the resolved path: it runs through no symbolic link and
  resolves to itself, so what is opened is what was checked; it lies under the workspace or an
  extra root, and under none of the forbidden system trees, whatever the roots are.
\<close>

theorem validate_write_path_confines:
  assumes "fs_ok f"
  shows "case validate_write_path f raw w extra of
      Inr p \<Rightarrow> canonical f p \<and> resolve_path f (of_resolved p) = Some p
        \<and> (\<exists>r\<in>set (w # extra). \<exists>q. expand_resolve f r = Some q \<and> prefix q p)
        \<and> (\<forall>s\<in>set FORBIDDEN_WRITE_ROOTS. \<not> prefix (path_parts s) p)
    | Inl e \<Rightarrow> (\<exists>t r. e = PathNotAllowed t r) \<or> e = Invalid ''RuntimeError''"
proof (cases "validate_write_path f raw w extra")
  case (Inl e)
  then show ?thesis
    by (auto simp: validate_write_path_def ebind_eq_Inl dest!: resolve_raw_Inl resolve_roots_Inl
        simp del: resolve_roots.simps split: option.splits if_splits)
next
  case (Inr p)
  then obtain roots where r: "resolve_roots f (w # extra) = Inr roots" "list_ex (\<lambda>r. prefix r p) roots"
      "list_all (\<lambda>s. \<not> prefix (path_parts s) p) FORBIDDEN_WRITE_ROOTS"
    by (auto simp only: validate_write_Inr)
  from r(2) obtain q where "q \<in> set roots" "prefix q p" by (auto simp: list_ex_iff)
  with r(1) have "\<exists>r\<in>set (w # extra). \<exists>q. expand_resolve f r = Some q \<and> prefix q p"
    by (metis resolve_roots_member)
  with r(3) validate_write_again [OF assms Inr] Inr show ?thesis by (simp add: list_all_iff)
qed

theorem validate_write_path_confines_witness:
  "(case validate_write_path example_fs ''ws/b/../c'' (parse_path ''/srv/ws'') [] of
      Inr p \<Rightarrow> canonical example_fs p \<and> resolve_path example_fs (of_resolved p) = Some p
        \<and> (\<exists>r\<in>set [parse_path ''/srv/ws'']. \<exists>q. expand_resolve example_fs r = Some q \<and> prefix q p)
        \<and> (\<forall>s\<in>set FORBIDDEN_WRITE_ROOTS. \<not> prefix (path_parts s) p)
    | Inl e \<Rightarrow> (\<exists>t r. e = PathNotAllowed t r) \<or> e = Invalid ''RuntimeError'')
    \<and> validate_write_path example_fs ''ws/b/../c'' (parse_path ''/srv/ws'') [] = Inr [''srv'', ''ws'', ''c'']"
proof
  show "validate_write_path example_fs ''ws/b/../c'' (parse_path ''/srv/ws'') [] = Inr [''srv'', ''ws'', ''c'']"
    by code_simp
qed (rule validate_write_path_confines [OF example_fs_ok])

text \<open>
  A path that passes the read check is the resolved path, lies under one of the read roots or
  the workspace, and is neither a credential path nor below one, whatever the roots are.
\<close>

theorem validate_read_path_confines:
  assumes "fs_ok f"
  shows "case validate_read_path f raw allowed workspace of
      Inr p \<Rightarrow> canonical f p \<and> resolve_path f (of_resolved p) = Some p
        \<and> (\<exists>r\<in>set (allowed @ (case workspace of None \<Rightarrow> [] | Some w \<Rightarrow> [w])).
             \<exists>q. expand_resolve f r = Some q \<and> prefix q p)
        \<and> (\<forall>s\<in>set SENSITIVE_READ_PATHS. \<not> prefix (path_parts s) p)
    | Inl e \<Rightarrow> (\<exists>t r. e = PathNotAllowed t r) \<or> e = Invalid ''RuntimeError''"
proof (cases "validate_read_path f raw allowed workspace")
  case (Inl e)
  then show ?thesis
    by (auto simp: validate_read_path_def all_roots_def ebind_eq_Inl dest!: resolve_raw_Inl resolve_roots_Inl
        split: if_splits)
next
  case (Inr p)
  then obtain roots where r: "all_roots f allowed workspace = Inr roots" "list_ex (\<lambda>r. prefix r p) roots"
      "list_all (\<lambda>s. \<not> prefix (path_parts s) p) SENSITIVE_READ_PATHS" "resolve_raw f raw = Inr p"
    by (auto simp only: validate_read_Inr)
  from r(2) obtain q where q: "q \<in> set roots" "prefix q p" by (auto simp: list_ex_iff)
  from r(1) have "resolve_roots f (allowed @ (case workspace of None \<Rightarrow> [] | Some w \<Rightarrow> [w])) = Inr roots"
    by (auto simp: all_roots_def split: if_splits)
  with q have "\<exists>r\<in>set (allowed @ (case workspace of None \<Rightarrow> [] | Some w \<Rightarrow> [w])).
      \<exists>q. expand_resolve f r = Some q \<and> prefix q p"
    by (metis resolve_roots_member)
  moreover have "canonical f p" using r(4) assms by (rule resolve_raw_canonical)
  ultimately show ?thesis using r(3) Inr by (simp add: list_all_iff resolve_canonical)
qed

theorem validate_read_path_confines_witness:
  "(case validate_read_path example_fs ''ws/a'' [] (Some (parse_path ''/srv/ws'')) of
      Inr p \<Rightarrow> canonical example_fs p \<and> resolve_path example_fs (of_resolved p) = Some p
        \<and> (\<exists>r\<in>set ([] @ (case Some (parse_path ''/srv/ws'') of None \<Rightarrow> [] | Some w \<Rightarrow> [w])).
             \<exists>q. expand_resolve example_fs r = Some q \<and> prefix q p)
        \<and> (\<forall>s\<in>set SENSITIVE_READ_PATHS. \<not> prefix (path_parts s) p)
    | Inl e \<Rightarrow> (\<exists>t r. e = PathNotAllowed t r) \<or> e = Invalid ''RuntimeError'')
    \<and> validate_read_path example_fs ''ws/a'' [] (Some (parse_path ''/srv/ws'')) = Inr [''srv'', ''ws'', ''a'']"
proof
  show "validate_read_path example_fs ''ws/a'' [] (Some (parse_path ''/srv/ws'')) = Inr [''srv'', ''ws'', ''a'']"
    by code_simp
qed (rule validate_read_path_confines [OF example_fs_ok])

end
