(* ===== verification/Core_Config.thy ===== *)
theory Core_Config
  imports Sec_Authz Sec_Paths
begin

text \<open>
  \<open>core/config.py\<close>: the settings with their defaults and bounds, the views derived from them,
  the redacted dump, and the merge of explicit arguments, environment, \<open>.env\<close> and the YAML file.
  Durations are microseconds. Reading the files and the coercion of text to field types are
  pydantic's and are not modelled: \<open>load_values\<close> ends where the constructor is called.
\<close>

section \<open>The settings\<close>

datatype provider_name = MOCK | OPENAI | OLLAMA

fun provider_value :: "provider_name \<Rightarrow> string" where
  "provider_value MOCK = ''mock''"
| "provider_value OPENAI = ''openai''"
| "provider_value OLLAMA = ''ollama''"

record settings =
  model_provider :: provider_name
  model_name :: string
  model_timeout_seconds :: time
  model_temperature :: rat
  model_max_tokens :: int
  openai_api_key :: "string option"
  openai_base_url :: string
  ollama_base_url :: string
  data_dir :: ppath
  workspace :: ppath
  allowed_read_roots_raw :: string
  max_plan_steps :: nat
  max_replans :: nat
  max_task_seconds :: time
  max_consecutive_tool_failures :: nat
  max_model_calls :: nat
  allow_approvals :: bool
  approval_ttl_minutes :: int
  default_max_risk :: risk_level
  shell_allowlist_raw :: string
  shell_denylist_raw :: string
  shell_timeout_seconds :: time
  shell_max_output_bytes :: nat
  http_enabled :: bool
  http_timeout_seconds :: time
  http_max_bytes :: nat
  http_max_redirects :: nat
  http_allow_private_networks :: bool
  api_host :: string
  api_port :: int
  api_token :: "string option"
  api_token_actor_id :: string
  api_token_scopes_raw :: string
  token_pepper :: "string option"
  heartbeat_seconds :: time
  log_level :: string
  log_format :: string

definition seconds :: "int \<Rightarrow> time" where
  "seconds n = n * 1000000"

definition DEFAULT_READ_ROOTS :: string where
  "DEFAULT_READ_ROOTS = ''/etc,/proc,/sys,/var/log,/usr/share''"

definition DEFAULT_SHELL_ALLOWLIST :: string where
  "DEFAULT_SHELL_ALLOWLIST = ''ls,cat,head,tail,grep,find,df,du,free,uptime,ps,systemctl,journalctl,'' @
     ''uname,hostname,id,which,stat,wc,date,nginx''"

definition DEFAULT_SHELL_DENYLIST :: string where
  "DEFAULT_SHELL_DENYLIST =
     ''rm,dd,mkfs,shutdown,reboot,halt,poweroff,chown,chmod,passwd,useradd,userdel,visudo,sudo,su''"

text \<open>The defaults; \<open>expanduser\<close> of the two directories is left to \<open>expand_resolve\<close>.\<close>

definition default_settings :: settings where
  "default_settings = \<lparr>
     model_provider = MOCK, model_name = ''gpt-4o-mini'', model_timeout_seconds = seconds 60,
     model_temperature = 1 / 10, model_max_tokens = 2048,
     openai_api_key = None, openai_base_url = ''https://api.openai.com/v1'',
     ollama_base_url = ''http://127.0.0.1:11434'',
     data_dir = parse_path ''~/.local/share/scrappy-os'',
     workspace = parse_path ''~/.local/share/scrappy-os/workspace'',
     allowed_read_roots_raw = DEFAULT_READ_ROOTS,
     max_plan_steps = 12, max_replans = 2, max_task_seconds = seconds 300,
     max_consecutive_tool_failures = 3, max_model_calls = 24,
     allow_approvals = True, approval_ttl_minutes = 15, default_max_risk = READ,
     shell_allowlist_raw = DEFAULT_SHELL_ALLOWLIST, shell_denylist_raw = DEFAULT_SHELL_DENYLIST,
     shell_timeout_seconds = seconds 30, shell_max_output_bytes = 65536,
     http_enabled = True, http_timeout_seconds = seconds 15, http_max_bytes = 1048576,
     http_max_redirects = 3, http_allow_private_networks = False,
     api_host = ''127.0.0.1'', api_port = 8787, api_token = None,
     api_token_actor_id = ''api-token'', api_token_scopes_raw = [], token_pepper = None,
     heartbeat_seconds = seconds 30, log_level = ''INFO'', log_format = ''console''\<rparr>"

text \<open>The field constraints.\<close>

definition settings_valid :: "settings \<Rightarrow> bool" where
  "settings_valid s \<longleftrightarrow>
     0 < model_timeout_seconds s \<and> model_timeout_seconds s \<le> seconds 600
   \<and> 0 \<le> model_temperature s \<and> model_temperature s \<le> 2
   \<and> 0 < model_max_tokens s \<and> model_max_tokens s \<le> 32768
   \<and> 1 \<le> max_plan_steps s \<and> max_plan_steps s \<le> 100
   \<and> max_replans s \<le> 10
   \<and> 0 < max_task_seconds s \<and> max_task_seconds s \<le> seconds 86400
   \<and> 1 \<le> max_consecutive_tool_failures s \<and> max_consecutive_tool_failures s \<le> 20
   \<and> 1 \<le> max_model_calls s \<and> max_model_calls s \<le> 500
   \<and> 1 \<le> approval_ttl_minutes s \<and> approval_ttl_minutes s \<le> 1440
   \<and> 0 < shell_timeout_seconds s \<and> shell_timeout_seconds s \<le> seconds 600
   \<and> 1024 \<le> shell_max_output_bytes s \<and> shell_max_output_bytes s \<le> 8 * 1024 * 1024
   \<and> 0 < http_timeout_seconds s \<and> http_timeout_seconds s \<le> seconds 120
   \<and> 1024 \<le> http_max_bytes s \<and> http_max_bytes s \<le> 64 * 1024 * 1024
   \<and> http_max_redirects s \<le> 10
   \<and> 1 \<le> api_port s \<and> api_port s \<le> 65535
   \<and> length (api_token_actor_id s) \<le> 128
   \<and> 0 < heartbeat_seconds s \<and> heartbeat_seconds s \<le> seconds 3600
   \<and> log_level s \<in> {''DEBUG'', ''INFO'', ''WARNING'', ''ERROR''}
   \<and> log_format s \<in> {''console'', ''json''}"

section \<open>Derived views\<close>

text \<open>The de-duplicated items, in the order of their first occurrence.\<close>

definition keep_first :: "'a list \<Rightarrow> 'a \<Rightarrow> 'a list" where
  "keep_first seen x = (if x \<in> set seen then seen else seen @ [x])"

definition split_csv :: "string \<Rightarrow> string list" where
  "split_csv raw = fold (\<lambda>chunk seen. let item = py_strip chunk in
     if item = [] then seen else keep_first seen item) (py_split (CHR '','') raw) []"

definition allowed_read_roots :: "settings \<Rightarrow> ppath list" where
  "allowed_read_roots s = map parse_path (split_csv (allowed_read_roots_raw s))"

definition shell_allowlist :: "settings \<Rightarrow> string list" where
  "shell_allowlist s = split_csv (shell_allowlist_raw s)"

definition shell_denylist :: "settings \<Rightarrow> string list" where
  "shell_denylist s = split_csv (shell_denylist_raw s)"

definition db_path :: "settings \<Rightarrow> ppath" where
  "db_path s = PPath (p_abs (data_dir s)) (p_parts (data_dir s) @ [''scrappy.db''])"

definition api_is_local_only :: "settings \<Rightarrow> bool" where
  "api_is_local_only s \<longleftrightarrow> api_host s \<in> {''127.0.0.1'', ''localhost'', ''::1''}"

definition api_token_scopes :: "settings \<Rightarrow> scrappy_error + scope set" where
  "api_token_scopes s =
     (let raw = py_strip (api_token_scopes_raw s) in
      if raw = [] then Inr all_scopes else parse_scopes raw)"

definition api_auth_configured :: "settings \<Rightarrow> bool" where
  "api_auth_configured s = (case api_token s of None \<Rightarrow> False | Some t \<Rightarrow> py_strip t \<noteq> [])"

definition api_exposure_is_unsafe :: "settings \<Rightarrow> bool" where
  "api_exposure_is_unsafe s \<longleftrightarrow> \<not> api_is_local_only s \<and> \<not> api_auth_configured s"

section \<open>The redacted dump\<close>

definition str_ppath :: "ppath \<Rightarrow> string" where
  "str_ppath p = (if p_abs p then ''/'' @ py_join ''/'' (p_parts p)
     else if p_parts p = [] then ''.'' else py_join ''/'' (p_parts p))"

definition pseconds :: "time \<Rightarrow> pyval" where
  "pseconds t = PFloat (of_int t / 1000000)"

text \<open>\<open>model_dump(exclude = SECRET_FIELDS)\<close>.\<close>

definition dump_settings :: "settings \<Rightarrow> payload" where
  "dump_settings s =
    [(''model_provider'', PStr (provider_value (model_provider s))),
     (''model_name'', PStr (model_name s)),
     (''model_timeout_seconds'', pseconds (model_timeout_seconds s)),
     (''model_temperature'', PFloat (model_temperature s)),
     (''model_max_tokens'', PInt (model_max_tokens s)),
     (''openai_base_url'', PStr (openai_base_url s)),
     (''ollama_base_url'', PStr (ollama_base_url s)),
     (''data_dir'', PStr (str_ppath (data_dir s))),
     (''workspace'', PStr (str_ppath (workspace s))),
     (''allowed_read_roots_raw'', PStr (allowed_read_roots_raw s)),
     (''max_plan_steps'', PInt (int (max_plan_steps s))),
     (''max_replans'', PInt (int (max_replans s))),
     (''max_task_seconds'', pseconds (max_task_seconds s)),
     (''max_consecutive_tool_failures'', PInt (int (max_consecutive_tool_failures s))),
     (''max_model_calls'', PInt (int (max_model_calls s))),
     (''allow_approvals'', PBool (allow_approvals s)),
     (''approval_ttl_minutes'', PInt (approval_ttl_minutes s)),
     (''default_max_risk'', PStr (risk_value (default_max_risk s))),
     (''shell_allowlist_raw'', PStr (shell_allowlist_raw s)),
     (''shell_denylist_raw'', PStr (shell_denylist_raw s)),
     (''shell_timeout_seconds'', pseconds (shell_timeout_seconds s)),
     (''shell_max_output_bytes'', PInt (int (shell_max_output_bytes s))),
     (''http_enabled'', PBool (http_enabled s)),
     (''http_timeout_seconds'', pseconds (http_timeout_seconds s)),
     (''http_max_bytes'', PInt (int (http_max_bytes s))),
     (''http_max_redirects'', PInt (int (http_max_redirects s))),
     (''http_allow_private_networks'', PBool (http_allow_private_networks s)),
     (''api_host'', PStr (api_host s)),
     (''api_port'', PInt (api_port s)),
     (''api_token_actor_id'', PStr (api_token_actor_id s)),
     (''api_token_scopes_raw'', PStr (api_token_scopes_raw s)),
     (''heartbeat_seconds'', pseconds (heartbeat_seconds s)),
     (''log_level'', PStr (log_level s)),
     (''log_format'', PStr (log_format s))]"

definition presence :: "bool \<Rightarrow> pyval" where
  "presence b = PStr (if b then ''<set>'' else ''<unset>'')"

definition secret_present :: "string option \<Rightarrow> bool" where
  "secret_present v = (case v of None \<Rightarrow> False | Some t \<Rightarrow> t \<noteq> [])"

definition redacted_dict :: "settings \<Rightarrow> scrappy_error + payload" where
  "redacted_dict s = ebind (api_token_scopes s) (\<lambda>granted.
     Inr (dict_update (dump_settings s)
       [(''openai_api_key'', presence (secret_present (openai_api_key s))),
        (''api_token'', presence (api_auth_configured s)),
        (''token_pepper'', presence (secret_present (token_pepper s))),
        (''api_token_scopes'', PList (map PStr (scope_names granted))),
        (''allowed_read_roots'', PList (map (PStr \<circ> str_ppath) (allowed_read_roots s))),
        (''shell_allowlist'', PList (map PStr (shell_allowlist s))),
        (''shell_denylist'', PList (map PStr (shell_denylist s))),
        (''db_path'', PStr (str_ppath (db_path s)))]))"

section \<open>Loading: which layer supplies a field\<close>

text \<open>
  \<open>model_fields\<close> with their \<open>AliasChoices\<close>, in declaration order; a field without a declared
  alias has \<open>None\<close>.
\<close>

definition model_fields :: "(string \<times> string list option) list" where
  "model_fields =
    [(''model_provider'', None), (''model_name'', Some [''SCRAPPY_MODEL'', ''SCRAPPY_MODEL_NAME'']),
     (''model_timeout_seconds'', None), (''model_temperature'', None), (''model_max_tokens'', None),
     (''openai_api_key'', Some [''OPENAI_API_KEY'', ''SCRAPPY_OPENAI_API_KEY'']),
     (''openai_base_url'', None),
     (''ollama_base_url'', Some [''OLLAMA_BASE_URL'', ''SCRAPPY_OLLAMA_BASE_URL'']),
     (''data_dir'', None), (''workspace'', None),
     (''allowed_read_roots_raw'', Some [''SCRAPPY_ALLOWED_READ_ROOTS'', ''allowed_read_roots'']),
     (''max_plan_steps'', None), (''max_replans'', None), (''max_task_seconds'', None),
     (''max_consecutive_tool_failures'', None), (''max_model_calls'', None),
     (''allow_approvals'', None), (''approval_ttl_minutes'', None), (''default_max_risk'', None),
     (''shell_allowlist_raw'', Some [''SCRAPPY_SHELL_ALLOWLIST'', ''shell_allowlist'']),
     (''shell_denylist_raw'', Some [''SCRAPPY_SHELL_DENYLIST'', ''shell_denylist'']),
     (''shell_timeout_seconds'', None), (''shell_max_output_bytes'', None), (''http_enabled'', None),
     (''http_timeout_seconds'', None), (''http_max_bytes'', None), (''http_max_redirects'', None),
     (''http_allow_private_networks'', None), (''api_host'', None), (''api_port'', None),
     (''api_token'', Some [''SCRAPPY_API_TOKEN'', ''api_token'']), (''api_token_actor_id'', None),
     (''api_token_scopes_raw'', Some [''SCRAPPY_API_TOKEN_SCOPES'', ''api_token_scopes'']),
     (''token_pepper'', Some [''SCRAPPY_TOKEN_PEPPER'', ''token_pepper'']),
     (''heartbeat_seconds'', None), (''log_level'', None), (''log_format'', None)]"

definition env_names_for :: "string \<Rightarrow> string list" where
  "env_names_for field = (case map_of model_fields field of
     None \<Rightarrow> [] | Some (Some choices) \<Rightarrow> choices | Some None \<Rightarrow> [''SCRAPPY_'' @ field])"

definition field_for_key :: "string \<Rightarrow> string option" where
  "field_for_key key =
     (if key \<in> fst ` set model_fields then Some key
      else find (\<lambda>name. list_ex (\<lambda>alias. py_lower alias = py_lower key) (env_names_for name))
             (map fst model_fields))"

text \<open>\<open>str.upper\<close> on the ASCII letters; environment names hold no others.\<close>

definition upper_ascii :: "string \<Rightarrow> string" where
  "upper_ascii s = map (\<lambda>c. if is_lower_az c then char_of ((of_char c :: nat) - 32) else c) s"

definition environment_supplied :: "string list \<Rightarrow> string list \<Rightarrow> string \<Rightarrow> bool" where
  "environment_supplied environ dotenv field =
     list_ex (\<lambda>name. upper_ascii name \<in> upper_ascii ` set (environ @ dotenv)) (env_names_for field)"

fun merge_yaml ::
  "string list \<Rightarrow> string list \<Rightarrow> (string \<times> 'v) list \<Rightarrow> (string \<times> 'v) list \<Rightarrow> (string \<times> 'v) list" where
  "merge_yaml environ dotenv values [] = values"
| "merge_yaml environ dotenv values ((key, v) # rest) =
     (case field_for_key key of
        None \<Rightarrow> merge_yaml environ dotenv (dict_set key v values) rest
      | Some field \<Rightarrow>
          if environment_supplied environ dotenv field then merge_yaml environ dotenv values rest
          else merge_yaml environ dotenv (dict_set field v values) rest)"

text \<open>
  The constructor arguments \<open>load_settings\<close> builds; \<open>yaml\<close> is \<open>None\<close> without a configuration
  file.
\<close>

definition load_values ::
  "string list \<Rightarrow> string list \<Rightarrow> (string \<times> 'v) list option \<Rightarrow> (string \<times> 'v) list \<Rightarrow> (string \<times> 'v) list" where
  "load_values environ dotenv yaml overrides =
     dict_update (case yaml of None \<Rightarrow> [] | Some items \<Rightarrow> merge_yaml environ dotenv [] items) overrides"

section \<open>Lemmas\<close>

lemma map_of_dict_update: "map_of (dict_update d es) = map_of d ++ map_of (rev es)"
proof (induction es arbitrary: d)
  case Nil
  show ?case by simp
next
  case (Cons e es)
  obtain k v where e: "e = (k, v)" by (cases e)
  show ?case by (simp add: e Cons map_add_def fun_eq_iff split: option.splits)
qed

lemma field_for_key_field: "field_for_key key = Some f \<Longrightarrow> f \<in> fst ` set model_fields"
  by (auto simp: field_for_key_def find_Some_iff split: if_splits)

lemma field_for_key_None: "field_for_key key = None \<Longrightarrow> key \<notin> fst ` set model_fields"
  by (auto simp: field_for_key_def split: if_splits)

lemma map_of_merge_yaml:
  assumes "f \<in> fst ` set model_fields"
  shows "map_of (merge_yaml environ dotenv values items) f =
    (if environment_supplied environ dotenv f then map_of values f
     else case map_of (rev (map (\<lambda>(key, v). (field_for_key key, v)) items)) (Some f) of
       None \<Rightarrow> map_of values f | Some v \<Rightarrow> Some v)"
proof (induction items arbitrary: "values")
  case Nil
  show ?case by simp
next
  case (Cons e items)
  obtain k v where e: "e = (k, v)" by (cases e)
  from assms have "field_for_key k = None \<Longrightarrow> k \<noteq> f" by (auto dest: field_for_key_None)
  then show ?case
    by (cases "field_for_key k") (auto simp: e Cons map_add_def split: option.splits)
qed

lemma split_csv_items:
  "distinct (split_csv raw) \<and> set (split_csv raw) = {i. i \<noteq> [] \<and> (\<exists>c\<in>set (py_split (CHR '','') raw). i = py_strip c)}"
proof -
  let ?step = "\<lambda>chunk seen. let item = py_strip chunk in if item = [] then seen else keep_first seen item"
  have "distinct acc \<Longrightarrow> distinct (fold ?step cs acc) \<and>
      set (fold ?step cs acc) = set acc \<union> {i. i \<noteq> [] \<and> (\<exists>c\<in>set cs. i = py_strip c)}" for cs and acc :: "string list"
    by (induction cs arbitrary: acc) (auto simp: Let_def keep_first_def)
  from this [of "[]"] show ?thesis by (simp add: split_csv_def)
qed

lemma default_settings_valid: "settings_valid default_settings"
  by (simp add: settings_valid_def default_settings_def seconds_def)

section \<open>Properties\<close>

text \<open>
  Precedence of the layers. The constructor argument for a field is the explicit argument when
  one is given; otherwise there is none when the environment or \<open>.env\<close> sets the field under any
  of its names, so that pydantic reads the environment; otherwise it is the last value the YAML
  file gives under the field's name or an alias.
\<close>

theorem load_settings_precedence:
  assumes "field \<in> fst ` set model_fields"
  shows "map_of (load_values environ dotenv (Some yaml) overrides) field =
    (case map_of (rev overrides) field of
       Some v \<Rightarrow> Some v
     | None \<Rightarrow> if environment_supplied environ dotenv field then None
              else map_of (rev (map (\<lambda>(key, v). (field_for_key key, v)) yaml)) (Some field))"
  by (auto simp: load_values_def map_of_dict_update map_of_merge_yaml [OF assms] map_add_def
      split: option.splits)

theorem load_settings_precedence_witness:
  "map_of (load_values [''PATH'', ''scrappy_api_token''] [] (Some [(''api_token'', 1), (''SCRAPPY_MODEL'', 2), (''model_name'', 3)])
      [(''api_port'', 4 :: nat)]) ''api_token'' = None
   \<and> map_of (load_values [''PATH'', ''scrappy_api_token''] [] (Some [(''api_token'', 1), (''SCRAPPY_MODEL'', 2), (''model_name'', 3)])
      [(''api_port'', 4 :: nat)]) ''model_name'' = Some 3"
proof -
  have f: "''api_token'' \<in> fst ` set model_fields" "''model_name'' \<in> fst ` set model_fields"
    by (simp_all add: model_fields_def)
  have k: "field_for_key ''model_name'' = Some ''model_name''" "environment_supplied [''PATH'', ''scrappy_api_token''] [] ''api_token''"
    "\<not> environment_supplied [''PATH'', ''scrappy_api_token''] [] ''model_name''"
    by code_simp+
  show ?thesis
    by (simp add: load_settings_precedence [OF f(1)] load_settings_precedence [OF f(2)] k)
qed

text \<open>Two settings that differ in secrets that are set in both.\<close>

definition same_but_secrets :: "settings \<Rightarrow> settings \<Rightarrow> bool" where
  "same_but_secrets s t \<longleftrightarrow>
     t = s\<lparr>openai_api_key := openai_api_key t, api_token := api_token t, token_pepper := token_pepper t\<rparr>
   \<and> secret_present (openai_api_key t) = secret_present (openai_api_key s)
   \<and> api_auth_configured t = api_auth_configured s
   \<and> secret_present (token_pepper t) = secret_present (token_pepper s)"

text \<open>
  The redacted dump does not depend on the secrets: replacing each secret that is set by any
  other value, as long as it stays set (for the token, as long as it stays usable), changes
  nothing in it, errors included.
\<close>

theorem redacted_dict_hides_secrets:
  assumes "same_but_secrets s t"
  shows "redacted_dict t = redacted_dict s"
proof -
  from assms obtain k a p where t: "t = s\<lparr>openai_api_key := k, api_token := a, token_pepper := p\<rparr>"
    by (auto simp: same_but_secrets_def)
  have "dump_settings t = dump_settings s" "api_token_scopes t = api_token_scopes s"
      "allowed_read_roots t = allowed_read_roots s" "shell_allowlist t = shell_allowlist s"
      "shell_denylist t = shell_denylist s" "db_path t = db_path s"
    by (simp_all add: t dump_settings_def api_token_scopes_def allowed_read_roots_def
        shell_allowlist_def shell_denylist_def db_path_def)
  with assms show ?thesis by (simp add: same_but_secrets_def redacted_dict_def)
qed

theorem redacted_dict_hides_secrets_witness:
  "redacted_dict (default_settings\<lparr>api_token := Some ''tok-1'', token_pepper := Some ''pep-1''\<rparr>) =
   redacted_dict (default_settings\<lparr>api_token := Some ''tok-2'', token_pepper := Some ''pep-2''\<rparr>)"
proof (rule redacted_dict_hides_secrets)
  show "same_but_secrets (default_settings\<lparr>api_token := Some ''tok-2'', token_pepper := Some ''pep-2''\<rparr>)
      (default_settings\<lparr>api_token := Some ''tok-1'', token_pepper := Some ''pep-1''\<rparr>)"
    by (simp add: same_but_secrets_def secret_present_def api_auth_configured_def default_settings_def
        py_strip_def py_isspace_def)
qed

end
