(* ===== verification/Core_Models.thy ===== *)
theory Core_Models
  imports Core_Identity
begin

text \<open>
  \<open>core/models.py\<close>: the typed vocabulary of the control plane. A model is a record; the checks
  pydantic runs when it is built (length and range limits, the validators) are a \<open>make_X\<close>
  function into a sum. Identifiers and the current time are arguments.
\<close>

section \<open>Objectives and tasks\<close>

record objective =
  o_id :: string
  o_text :: string
  o_actor :: string
  o_identity :: "actor option"
  o_created_at :: time
  o_max_risk :: risk_level
  o_context :: payload
  o_dry_run :: bool

definition make_objective :: "objective \<Rightarrow> scrappy_error + objective" where
  "make_objective o0 =
     (if length (o_text o0) < 1 \<or> 8000 < length (o_text o0) then Inl (Invalid ''Objective.text'')
      else let stripped = py_strip (o_text o0) in
        if stripped = [] then Inl (Invalid ''objective text cannot be blank'')
        else Inr (o0\<lparr>o_text := stripped,
          o_actor := (case o_identity o0 of None \<Rightarrow> o_actor o0 | Some a \<Rightarrow> actor_label a)\<rparr>))"

fun TASK_TRANSITIONS :: "task_state \<Rightarrow> task_state list" where
  "TASK_TRANSITIONS CREATED = [PLANNING, CANCELLED, FAILED]"
| "TASK_TRANSITIONS PLANNING = [EXECUTING, AWAITING_APPROVAL, COMPLETED, FAILED, CANCELLED]"
| "TASK_TRANSITIONS AWAITING_APPROVAL = [EXECUTING, PLANNING, FAILED, CANCELLED]"
| "TASK_TRANSITIONS EXECUTING = [VERIFYING, AWAITING_APPROVAL, PLANNING, ROLLING_BACK, FAILED, CANCELLED]"
| "TASK_TRANSITIONS VERIFYING = [EXECUTING, PLANNING, COMPLETED, ROLLING_BACK, FAILED, CANCELLED]"
| "TASK_TRANSITIONS ROLLING_BACK = [FAILED, COMPLETED, CANCELLED]"
| "TASK_TRANSITIONS COMPLETED = []"
| "TASK_TRANSITIONS FAILED = []"
| "TASK_TRANSITIONS CANCELLED = []"

definition can_transition :: "task_state \<Rightarrow> task_state \<Rightarrow> bool" where
  "can_transition current target \<longleftrightarrow> target \<in> set (TASK_TRANSITIONS current)"

record task =
  t_id :: string
  t_objective :: objective
  t_state :: task_state
  t_created_at :: time
  t_updated_at :: time
  t_finished_at :: "time option"
  t_plan_id :: "string option"
  t_replan_count :: nat
  t_model_calls :: nat
  t_summary :: "string option"
  t_error :: "string option"

definition new_task :: "string \<Rightarrow> time \<Rightarrow> objective \<Rightarrow> task" where
  "new_task i now ob = \<lparr>t_id = i, t_objective = ob, t_state = CREATED, t_created_at = now,
     t_updated_at = now, t_finished_at = None, t_plan_id = None, t_replan_count = 0,
     t_model_calls = 0, t_summary = None, t_error = None\<rparr>"

definition transition_to :: "time \<Rightarrow> task_state \<Rightarrow> task \<Rightarrow> scrappy_error + task" where
  "transition_to now target t =
     (if target = t_state t then Inr t
      else if \<not> can_transition (t_state t) target then
        Inl (InvalidStateTransition (t_state t) target)
      else Inr (t\<lparr>t_state := target, t_updated_at := now,
        t_finished_at := (if is_terminal target then Some now else t_finished_at t)\<rparr>))"

definition duration_seconds :: "time \<Rightarrow> task \<Rightarrow> time" where
  "duration_seconds now t = or_else (t_finished_at t) now - t_created_at t"

section \<open>Plans\<close>

record plan_step =
  s_id :: string
  s_index :: nat
  s_intent :: string
  s_tool_name :: string
  s_arguments :: payload
  s_expected_risk :: risk_level
  s_expected_side_effects :: "string list"
  s_success_criteria :: "string option"
  s_rollback_hint :: "string option"

record plan =
  p_id :: string
  p_task_id :: string
  p_author :: agent_role
  p_created_at :: time
  p_reasoning :: string
  p_steps :: "plan_step list"
  p_revision :: nat
  p_approved :: bool
  p_review_notes :: "string option"

definition reindex :: "plan_step list \<Rightarrow> plan_step list" where
  "reindex steps = map (\<lambda>(i, s). s\<lparr>s_index := i\<rparr>) (enumerate 0 steps)"

definition make_plan :: "plan \<Rightarrow> scrappy_error + plan" where
  "make_plan p = (if 8000 < length (p_reasoning p) then Inl (Invalid ''Plan.reasoning'')
     else Inr (p\<lparr>p_steps := reindex (p_steps p)\<rparr>))"

definition plan_max_risk :: "plan \<Rightarrow> risk_level" where
  "plan_max_risk p = risk_max (map s_expected_risk (p_steps p))"

section \<open>Tool invocation\<close>

record tool_call =
  c_id :: string
  c_task_id :: string
  c_step_id :: "string option"
  c_tool_name :: string
  c_arguments :: payload
  c_actor :: string
  c_identity :: "actor option"
  c_requested_at :: time
  c_risk_level :: risk_level
  c_approval_state :: "approval_state option"
  c_approval_id :: "string option"
  c_policy_decision :: "policy_decision option"
  c_policy_rule :: "string option"

record tool_result =
  r_call_id :: string
  r_task_id :: string
  r_tool_name :: string
  r_success :: bool
  r_started_at :: time
  r_duration_ms :: time
  r_output :: payload
  r_error :: "string option"
  r_truncated :: bool
  r_exit_code :: "int option"

definition make_tool_result :: "tool_result \<Rightarrow> scrappy_error + tool_result" where
  "make_tool_result r =
     (if r_duration_ms r < 0 then Inl (Invalid ''ToolResult.duration_ms'')
      else if \<not> r_success r \<and> (case r_error r of None \<Rightarrow> True | Some e \<Rightarrow> e = []) then
        Inl (Invalid ''a failed ToolResult must carry an error message'')
      else Inr r)"

definition summarise :: "nat \<Rightarrow> tool_result \<Rightarrow> string" where
  "summarise limit r =
     (if \<not> r_success r then ''FAILED: '' @ (case r_error r of None \<Rightarrow> ''None'' | Some e \<Rightarrow> e)
      else let body = json_dumps (PDict (r_output r)) in
        if limit < length body then
          take limit body @ ''... [truncated, '' @ str_nat (length body) @ '' bytes total]''
        else body)"

record observation =
  ob_id :: string
  ob_task_id :: string
  ob_call_id :: "string option"
  ob_created_at :: time
  ob_source :: string
  ob_content :: string
  ob_success :: bool
  ob_metadata :: payload

definition make_observation :: "observation \<Rightarrow> scrappy_error + observation" where
  "make_observation ob = (if 32000 < length (ob_content ob) then Inl (Invalid ''Observation.content'') else Inr ob)"

section \<open>Agent output\<close>

record agent_decision =
  d_id :: string
  d_task_id :: string
  d_role :: agent_role
  d_created_at :: time
  d_decision :: string
  d_confidence :: rat
  d_reasoning :: string
  d_concerns :: "string list"
  d_model :: "string option"
  d_provider :: "string option"
  d_duration_ms :: time

definition make_agent_decision :: "agent_decision \<Rightarrow> scrappy_error + agent_decision" where
  "make_agent_decision d =
     (if d_confidence d < 0 \<or> 1 < d_confidence d \<or> 8000 < length (d_reasoning d)
      then Inl (Invalid ''AgentDecision'') else Inr d)"

section \<open>Approvals\<close>

record approval_request =
  q_id :: string
  q_task_id :: string
  q_call_id :: "string option"
  q_tool_name :: string
  q_arguments :: payload
  q_risk :: risk_level
  q_reason :: string
  q_summary :: string
  q_requested_at :: time
  q_expires_at :: "time option"
  q_state :: approval_state
  q_requires_phrase :: bool
  q_phrase :: "string option"

definition request_is_expired :: "time \<Rightarrow> approval_request \<Rightarrow> bool" where
  "request_is_expired now q = (case q_expires_at q of None \<Rightarrow> False | Some e \<Rightarrow> e \<le> now)"

record approval_decision =
  dc_request_id :: string
  dc_approved :: bool
  dc_decided_by :: string
  dc_identity :: "actor option"
  dc_decided_at :: time
  dc_note :: "string option"
  dc_phrase :: "string option"

definition make_approval_decision :: "approval_decision \<Rightarrow> approval_decision" where
  "make_approval_decision d =
     d\<lparr>dc_decided_by := (case dc_identity d of None \<Rightarrow> dc_decided_by d | Some a \<Rightarrow> actor_label a)\<rparr>"

section \<open>Audit events and runtime state\<close>

record audit_event =
  ae_id :: string
  ae_timestamp :: time
  ae_event_type :: event_type
  ae_task_id :: "string option"
  ae_actor :: string
  ae_actor_id :: "string option"
  ae_actor_type :: "string option"
  ae_auth_method :: "string option"
  ae_component :: string
  ae_tool_name :: "string option"
  ae_risk :: "risk_level option"
  ae_decision :: "policy_decision option"
  ae_success :: "bool option"
  ae_duration_ms :: "time option"
  ae_payload :: payload
  ae_payload_sha256 :: "string option"

record component_health =
  h_name :: string
  h_status :: component_status
  h_detail :: "string option"
  h_checked_at :: time

record runtime_state =
  rs_instance_id :: string
  rs_version :: string
  rs_status :: runtime_status
  rs_started_at :: time
  rs_hostname :: string
  rs_pid :: nat
  rs_active_task_ids :: "string list"
  rs_completed_tasks :: nat
  rs_failed_tasks :: nat
  rs_heartbeats :: nat
  rs_last_heartbeat_at :: "time option"
  rs_components :: "component_health list"
  rs_provider :: "string option"
  rs_model :: "string option"

definition uptime_seconds :: "time \<Rightarrow> runtime_state \<Rightarrow> time" where
  "uptime_seconds now r = now - rs_started_at r"

section \<open>Lemmas\<close>

lemma terminal_no_transition: "is_terminal s \<Longrightarrow> \<not> can_transition s t"
  by (auto simp: is_terminal_def can_transition_def)

lemma transition_to_Inr:
  "transition_to now target t = Inr u \<Longrightarrow> t_state u = target \<and> t_id u = t_id t \<and> t_objective u = t_objective t"
  by (auto simp: transition_to_def split: if_splits)

lemma length_reindex [simp]: "length (reindex ss) = length ss"
  by (simp add: reindex_def)

lemma reindex_nth: "i < length ss \<Longrightarrow> reindex ss ! i = (ss ! i)\<lparr>s_index := i\<rparr>"
  by (simp add: reindex_def nth_enumerate_eq)

lemma make_plan_steps: "make_plan p = Inr q \<Longrightarrow> p_steps q = reindex (p_steps p) \<and> p_task_id q = p_task_id p"
  by (auto simp: make_plan_def split: if_splits)

section \<open>The task state machine\<close>

text \<open>A run of \<open>transition_to\<close> calls, each at its own moment.\<close>

inductive task_step :: "task \<Rightarrow> task \<Rightarrow> bool" where
  task_stepI: "transition_to now target t = Inr u \<Longrightarrow> task_step t u"

inductive task_run :: "task \<Rightarrow> task \<Rightarrow> bool" where
  task_run_refl: "task_run t t"
| task_run_step: "task_run t u \<Longrightarrow> task_step u v \<Longrightarrow> task_run t v"

inductive_cases task_stepE: "task_step t u"

text \<open>A task has a finish time exactly when it is over, and then it never changed after it.\<close>

definition task_wf :: "task \<Rightarrow> bool" where
  "task_wf t \<longleftrightarrow> (t_finished_at t \<noteq> None \<longleftrightarrow> is_terminal (t_state t))
     \<and> (is_terminal (t_state t) \<longrightarrow> t_finished_at t = Some (t_updated_at t))"

lemma task_wf_transition [inv_intros]: "task_wf t \<Longrightarrow> transition_to now s t = Inr u \<Longrightarrow> task_wf u"
  using terminal_no_transition by (auto simp: task_wf_def transition_to_def split: if_splits)

lemma task_run_wf: "task_run t u \<Longrightarrow> task_wf t \<Longrightarrow> task_wf u"
  by (induction rule: task_run.induct) (auto elim!: task_stepE intro: task_wf_transition)

lemma task_step_terminal: "task_step t u \<Longrightarrow> is_terminal (t_state t) \<Longrightarrow> u = t"
  using terminal_no_transition by (auto elim!: task_stepE simp: transition_to_def split: if_splits)

lemma task_run_terminal: "task_run t u \<Longrightarrow> is_terminal (t_state t) \<Longrightarrow> u = t"
  by (induction rule: task_run.induct) (auto dest: task_step_terminal)

lemma task_run_trans: "task_run u v \<Longrightarrow> task_run t u \<Longrightarrow> task_run t v"
  by (induction rule: task_run.induct) (auto intro: task_run_step)

section \<open>Properties\<close>

text \<open>
  C38. Whatever transitions a new task goes through, it carries a finish time exactly when its
  state is terminal, that time is its last update, and no later transition changes it: a terminal
  state is final.
\<close>

theorem task_lifecycle:
  assumes "task_run (new_task i now ob) t"
  shows "(t_finished_at t \<noteq> None \<longleftrightarrow> is_terminal (t_state t)) \<and>
    (is_terminal (t_state t) \<longrightarrow> t_finished_at t = Some (t_updated_at t) \<and> (\<forall>u. task_run t u \<longrightarrow> u = t))"
proof -
  have "task_wf (new_task i now ob)" by (simp add: task_wf_def new_task_def is_terminal_def)
  from task_run_wf [OF assms this] show ?thesis
    by (auto simp: task_wf_def dest: task_run_terminal)
qed

definition example_objective :: objective where
  "example_objective = \<lparr>o_id = ''ob'', o_text = ''check disk'', o_actor = ''cli'', o_identity = None,
     o_created_at = 0, o_max_risk = READ, o_context = [], o_dry_run = False\<rparr>"

theorem task_lifecycle_witness:
  "\<exists>t. task_run (new_task ''t'' 0 example_objective) t \<and> t_state t = CANCELLED \<and> t_finished_at t = Some 7
    \<and> is_terminal (t_state t)"
proof -
  let ?t = "new_task ''t'' 0 example_objective"
  let ?u = "?t\<lparr>t_state := CANCELLED, t_updated_at := 7, t_finished_at := Some 7\<rparr>"
  have "transition_to 7 CANCELLED ?t = Inr ?u"
    by (simp add: transition_to_def new_task_def can_transition_def is_terminal_def)
  then have "task_run ?t ?u" by (rule task_run_step [OF task_run_refl task_stepI])
  with task_lifecycle [OF this] show ?thesis by (intro exI [of _ ?u]) simp
qed

end
