(* ===== verification/Py_Regex.thy ===== *)
theory Py_Regex
  imports Py_String
begin

text \<open>
  The part of Python's \<open>re\<close> module that the program uses: character classes, greedy and lazy
  repetition, word boundaries, anchors, and the operations \<open>match\<close>, \<open>search\<close> and \<open>sub\<close>.
  A matcher takes the character before the current position and the text from it, and returns
  every way to match in the order in which a backtracking engine tries them; the first one is
  the engine's answer.
\<close>

datatype regex =
    Eps
  | Cls "char \<Rightarrow> bool"
  | Seq regex regex
  | Alt regex regex
  | Greedy regex
  | Lazy regex
  | WordBoundary
  | AtStart
  | AtDollar

type_synonym matcher = "char option \<Rightarrow> string \<Rightarrow> (string \<times> string) list"

definition is_word_char :: "char \<Rightarrow> bool" where
  "is_word_char c \<longleftrightarrow> alnum_char c \<or> c = CHR ''_''"

definition boundary_at :: "char option \<Rightarrow> string \<Rightarrow> bool" where
  "boundary_at p s = ((case p of None \<Rightarrow> False | Some c \<Rightarrow> is_word_char c) \<noteq>
     (case s of [] \<Rightarrow> False | c # _ \<Rightarrow> is_word_char c))"

definition prev_after :: "char option \<Rightarrow> string \<Rightarrow> char option" where
  "prev_after p w = (if w = [] then p else Some (last w))"

text \<open>
  Repetition of a matcher. The number bounds the iterations; an iteration that consumes nothing
  is dropped, as the engine does, so the length of the text is always enough.
\<close>

primrec rep_greedy :: "matcher \<Rightarrow> nat \<Rightarrow> matcher" where
  "rep_greedy m 0 p s = [([], s)]"
| "rep_greedy m (Suc n) p s =
     concat (map (\<lambda>(a, r). if a = [] then [] else
       map (\<lambda>(b, t). (a @ b, t)) (rep_greedy m n (prev_after p a) r)) (m p s)) @ [([], s)]"

primrec rep_lazy :: "matcher \<Rightarrow> nat \<Rightarrow> matcher" where
  "rep_lazy m 0 p s = [([], s)]"
| "rep_lazy m (Suc n) p s = ([], s) #
     concat (map (\<lambda>(a, r). if a = [] then [] else
       map (\<lambda>(b, t). (a @ b, t)) (rep_lazy m n (prev_after p a) r)) (m p s))"

primrec rmatch :: "regex \<Rightarrow> matcher" where
  "rmatch Eps = (\<lambda>p s. [([], s)])"
| "rmatch (Cls f) = (\<lambda>p s. case s of [] \<Rightarrow> [] | c # cs \<Rightarrow> if f c then [([c], cs)] else [])"
| "rmatch (Seq a b) = (\<lambda>p s. concat (map (\<lambda>(x, r).
     map (\<lambda>(y, t). (x @ y, t)) (rmatch b (prev_after p x) r)) (rmatch a p s)))"
| "rmatch (Alt a b) = (\<lambda>p s. rmatch a p s @ rmatch b p s)"
| "rmatch (Greedy a) = (\<lambda>p s. rep_greedy (rmatch a) (length s) p s)"
| "rmatch (Lazy a) = (\<lambda>p s. rep_lazy (rmatch a) (length s) p s)"
| "rmatch WordBoundary = (\<lambda>p s. if boundary_at p s then [([], s)] else [])"
| "rmatch AtStart = (\<lambda>p s. if p = None then [([], s)] else [])"
| "rmatch AtDollar = (\<lambda>p s. if s = [] \<or> s = [CHR 0x0A] then [([], s)] else [])"

section \<open>Operations of a compiled pattern\<close>

text \<open>\<open>pattern.match(s)\<close> is anchored at the start only.\<close>

definition re_match :: "regex \<Rightarrow> string \<Rightarrow> bool" where
  "re_match r s \<longleftrightarrow> rmatch r None s \<noteq> []"

text \<open>\<open>pattern.search(s)\<close>: the text before the leftmost match, the match, the text after it.\<close>

fun re_search_from :: "regex \<Rightarrow> char option \<Rightarrow> string \<Rightarrow> (string \<times> string \<times> string) option" where
  "re_search_from r p [] = (case rmatch r p [] of [] \<Rightarrow> None | (w, t) # _ \<Rightarrow> Some ([], w, t))"
| "re_search_from r p (c # cs) =
     (case rmatch r p (c # cs) of
        (w, t) # _ \<Rightarrow> Some ([], w, t)
      | [] \<Rightarrow> (case re_search_from r (Some c) cs of
                 None \<Rightarrow> None
               | Some (a, w, t) \<Rightarrow> Some (c # a, w, t)))"

definition re_search :: "regex \<Rightarrow> string \<Rightarrow> (string \<times> string \<times> string) option" where
  "re_search r s = re_search_from r None s"

text \<open>
  \<open>pattern.sub(repl, s)\<close>: left to right over the non-overlapping matches. The patterns of the
  program match no empty text; an empty match is skipped over here.
\<close>

fun re_sub_fuel :: "nat \<Rightarrow> regex \<Rightarrow> string \<Rightarrow> char option \<Rightarrow> string \<Rightarrow> string" where
  "re_sub_fuel 0 r repl p s = s"
| "re_sub_fuel (Suc n) r repl p [] = []"
| "re_sub_fuel (Suc n) r repl p (c # cs) =
     (case rmatch r p (c # cs) of
        (w, t) # _ \<Rightarrow> if w = [] then c # re_sub_fuel n r repl (Some c) cs
                     else repl @ re_sub_fuel n r repl (Some (last w)) t
      | [] \<Rightarrow> c # re_sub_fuel n r repl (Some c) cs)"

definition re_sub :: "regex \<Rightarrow> string \<Rightarrow> string \<Rightarrow> string" where
  "re_sub r repl s = re_sub_fuel (length s) r repl None s"

section \<open>Pattern building\<close>

fun seq_all :: "regex list \<Rightarrow> regex" where
  "seq_all [] = Eps"
| "seq_all [r] = r"
| "seq_all (r # q # rs) = Seq r (seq_all (q # rs))"

definition lit :: "string \<Rightarrow> regex" where
  "lit s = seq_all (map (\<lambda>c. Cls (\<lambda>x. x = c)) s)"

definition opt_r :: "regex \<Rightarrow> regex" where
  "opt_r r = Alt r Eps"

text \<open>\<open>r{n,}\<close> and \<open>r{n}\<close>.\<close>

definition at_least_r :: "nat \<Rightarrow> regex \<Rightarrow> regex" where
  "at_least_r n r = seq_all (replicate n r @ [Greedy r])"

definition exactly_r :: "nat \<Rightarrow> regex \<Rightarrow> regex" where
  "exactly_r n r = seq_all (replicate n r)"

section \<open>Lemmas\<close>

text \<open>Every result splits the text: what was consumed followed by what is left.\<close>

lemma rep_greedy_split:
  assumes "\<And>p s w t. (w, t) \<in> set (m p s) \<Longrightarrow> s = w @ t"
  shows "(w, t) \<in> set (rep_greedy m n p s) \<Longrightarrow> s = w @ t"
  by (induction n arbitrary: p s w t) (auto dest!: assms split: if_splits)

lemma rep_lazy_split:
  assumes "\<And>p s w t. (w, t) \<in> set (m p s) \<Longrightarrow> s = w @ t"
  shows "(w, t) \<in> set (rep_lazy m n p s) \<Longrightarrow> s = w @ t"
  by (induction n arbitrary: p s w t) (auto dest!: assms split: if_splits)

lemma rmatch_split: "(w, t) \<in> set (rmatch r p s) \<Longrightarrow> s = w @ t"
proof (induction r arbitrary: p s w t)
  case (Greedy r)
  then have "(w, t) \<in> set (rep_greedy (rmatch r) (length s) p s)" by simp
  then show ?case by (rule rep_greedy_split [rotated]) (rule Greedy.IH)
next
  case (Lazy r)
  then have "(w, t) \<in> set (rep_lazy (rmatch r) (length s) p s)" by simp
  then show ?case by (rule rep_lazy_split [rotated]) (rule Lazy.IH)
qed (fastforce split: list.splits if_splits)+

lemma seq_all_Cons: "rs \<noteq> [] \<Longrightarrow> seq_all (r # rs) = Seq r (seq_all rs)"
  by (cases rs) auto

text \<open>
  Matching a fixed number of characters of a class: there is at most one way.
\<close>

lemma rmatch_exactly_cls:
  "rmatch (exactly_r n (Cls f)) p s =
    (if n \<le> length s \<and> list_all f (take n s) then [(take n s, drop n s)] else [])"
proof (induction n arbitrary: p s)
  case 0
  then show ?case by (simp add: exactly_r_def)
next
  case (Suc n)
  show ?case
  proof (cases n)
    case 0
    then show ?thesis by (cases s) (auto simp: exactly_r_def)
  next
    case (Suc m)
    then have e: "exactly_r (Suc n) (Cls f) = Seq (Cls f) (exactly_r n (Cls f))"
      by (simp add: exactly_r_def)
    show ?thesis unfolding e using Suc.IH by (cases s) auto
  qed
qed

lemma rmatch_lit:
  "rmatch (lit u) p s = (if prefix u s then [(u, drop (length u) s)] else [])"
proof (induction u arbitrary: p s)
  case Nil
  then show ?case by (simp add: lit_def)
next
  case (Cons c u)
  show ?case
  proof (cases u)
    case Nil
    then show ?thesis by (cases s) (auto simp: lit_def)
  next
    case (Cons d v)
    then have e: "lit (c # u) = Seq (Cls (\<lambda>x. x = c)) (lit u)" by (simp add: lit_def)
    show ?thesis unfolding e using Cons.IH by (cases s) auto
  qed
qed

end
