(* ===== verification/Sec_Risk.thy ===== *)
theory Sec_Risk
  imports Sec_Paths Py_Regex
begin

text \<open>
  \<open>security/risk.py\<close>: how dangerous a command line or a path operation is. The lists are the
  code's; the forcing flags are its four regular expressions; \<open>shlex_split\<close> is the POSIX splitting
  of the standard library.
\<close>

section \<open>The lists\<close>

definition PRIVILEGED_EXECUTABLES :: "string list" where
  "PRIVILEGED_EXECUTABLES = [''apt'', ''apt-get'', ''chcon'', ''crontab'', ''dnf'', ''dpkg'', ''groupadd'',
     ''insmod'', ''ip'', ''iptables'', ''journalctl'', ''kill'', ''killall'', ''mount'', ''nft'', ''nmcli'',
     ''pip'', ''pkill'', ''rmmod'', ''service'', ''setenforce'', ''snap'', ''sysctl'', ''systemctl'', ''ufw'',
     ''umount'', ''update-alternatives'', ''yum'']"

definition DESTRUCTIVE_EXECUTABLES :: "string list" where
  "DESTRUCTIVE_EXECUTABLES = [''dd'', ''fdisk'', ''halt'', ''init'', ''mkfs'', ''parted'', ''poweroff'',
     ''reboot'', ''rm'', ''shred'', ''shutdown'', ''userdel'', ''wipefs'']"

definition MUTATING_VERBS :: "string list" where
  "MUTATING_VERBS = [''set'', ''add'', ''del'', ''delete'', ''flush'', ''change'', ''replace'', ''up'', ''down'']"

definition DESTRUCTIVE_EXECUTABLE_PREFIXES :: "string list" where
  "DESTRUCTIVE_EXECUTABLE_PREFIXES = [''mkfs'', ''fsck'', ''sfdisk'', ''cfdisk'']"

definition letters_r :: regex where
  "letters_r = Greedy (Cls is_lower_az)"

definition DESTRUCTIVE_ARGUMENT_PATTERNS :: "regex list" where
  "DESTRUCTIVE_ARGUMENT_PATTERNS =
     [seq_all [AtStart, lit ''-'', opt_r (lit ''-''), Alt (lit ''force'') (lit ''f''), AtDollar],
      seq_all [AtStart, lit ''-'', letters_r, lit ''r'', letters_r, lit ''f'', letters_r, AtDollar],
      seq_all [AtStart, lit ''-'', letters_r, lit ''f'', letters_r, lit ''r'', letters_r, AtDollar],
      seq_all [AtStart, lit ''--no-preserve-root'', AtDollar]]"

definition SHELL_METACHARACTERS :: "string list" where
  "SHELL_METACHARACTERS = ['';'', ''&&'', ''||'', ''|'', [CHR 0x60], ''$('', ''>'', ''<'', [CHR 0x0A]]"

definition apt_mutating :: "string list" where
  "apt_mutating = [''install'', ''remove'', ''purge'', ''upgrade'', ''dist-upgrade'', ''autoremove'']"

definition PRIVILEGED_SUBCOMMANDS :: "(string \<times> string list) list" where
  "PRIVILEGED_SUBCOMMANDS =
     [(''systemctl'', [''start'', ''stop'', ''restart'', ''reload'', ''enable'', ''disable'', ''mask'', ''unmask'', ''kill'']),
      (''service'', [''start'', ''stop'', ''restart'', ''reload'']),
      (''apt'', apt_mutating), (''apt-get'', apt_mutating),
      (''pip'', [''install'', ''uninstall''])]"

definition READ_ONLY_SUBCOMMANDS :: "(string \<times> string list) list" where
  "READ_ONLY_SUBCOMMANDS =
     [(''systemctl'', [''status'', ''show'', ''list-units'', ''list-unit-files'', ''is-active'', ''is-enabled'',
        ''is-failed'', ''cat'', ''get-default'']),
      (''service'', [''status'']),
      (''ip'', [''addr'', ''a'', ''link'', ''route'', ''neigh'']),
      (''pip'', [''list'', ''show'', ''freeze'']),
      (''apt'', [''list'', ''show'', ''policy''])]"

definition lookup_list :: "(string \<times> string list) list \<Rightarrow> string \<Rightarrow> string list" where
  "lookup_list d k = or_else (map_of d k) []"

section \<open>Classifying a command\<close>

fun verb_scan :: "bool \<Rightarrow> string option \<Rightarrow> string list \<Rightarrow> bool" where
  "verb_scan seen sub [] = False"
| "verb_scan seen sub (argument # rest) =
     (let lowered = py_lower argument in
      if \<not> seen then verb_scan (Some lowered = sub) sub rest
      else if lowered \<in> set MUTATING_VERBS then True
      else verb_scan True sub rest)"

definition has_mutating_verb :: "string list \<Rightarrow> string option \<Rightarrow> bool" where
  "has_mutating_verb arguments sub = verb_scan (sub = None) sub arguments"

definition first_subcommand :: "string list \<Rightarrow> string option" where
  "first_subcommand arguments = map_option py_lower (find (\<lambda>a. \<not> prefix ''-'' a) arguments)"

definition in_sub :: "string option \<Rightarrow> string list \<Rightarrow> bool" where
  "in_sub sub names = (case sub of None \<Rightarrow> False | Some s \<Rightarrow> s \<in> set names)"

definition sub_text :: "string option \<Rightarrow> string" where
  "sub_text sub = or_else sub ''None''"

definition sub_repr :: "string option \<Rightarrow> string" where
  "sub_repr sub = (case sub of None \<Rightarrow> ''None'' | Some s \<Rightarrow> py_repr s)"

definition find_meta :: "string list \<Rightarrow> string option" where
  "find_meta argv = find (\<lambda>m. True) (concat (map (\<lambda>token. filter (\<lambda>m. py_contains m token) SHELL_METACHARACTERS) argv))"

definition destructive_name :: "string \<Rightarrow> bool" where
  "destructive_name e \<longleftrightarrow> list_ex (\<lambda>p. e = p \<or> prefix (p @ ''.'') e) DESTRUCTIVE_EXECUTABLE_PREFIXES"

definition is_forcing_flag :: "string \<Rightarrow> bool" where
  "is_forcing_flag a \<longleftrightarrow> list_ex (\<lambda>r. re_match r a) DESTRUCTIVE_ARGUMENT_PATTERNS"

definition executable_of :: "string list \<Rightarrow> string" where
  "executable_of argv = py_lower (path_name (hd argv))"

definition classify_command :: "string list \<Rightarrow> risk_level \<times> string" where
  "classify_command argv =
     (if argv = [] then (DESTRUCTIVE, ''empty command'')
      else let executable = executable_of argv; arguments = tl argv in
      case find_meta argv of
        Some meta \<Rightarrow>
          (DESTRUCTIVE, ''argument contains shell metacharacter '' @ py_repr meta @
             ''; pipelines are not available through this interface'')
      | None \<Rightarrow>
        if executable \<in> set DESTRUCTIVE_EXECUTABLES then
          (DESTRUCTIVE, executable @ '' destroys data or availability'')
        else if destructive_name executable then
          (DESTRUCTIVE, executable @ '' writes filesystem structures'')
        else let sub = first_subcommand arguments; read_only = lookup_list READ_ONLY_SUBCOMMANDS executable in
        case map_of PRIVILEGED_SUBCOMMANDS executable of
          Some mutating \<Rightarrow>
            if in_sub sub mutating then
              (PRIVILEGED, executable @ '' '' @ sub_text sub @ '' changes system state'')
            else if in_sub sub read_only \<and> \<not> has_mutating_verb arguments sub then
              (READ, executable @ '' '' @ sub_text sub @ '' only reads state'')
            else (PRIVILEGED, ''unrecognised '' @ executable @ '' subcommand '' @ sub_repr sub)
        | None \<Rightarrow>
            if executable \<in> set PRIVILEGED_EXECUTABLES then
              (if in_sub sub read_only then
                 (if has_mutating_verb arguments sub then
                    (PRIVILEGED, executable @ '' '' @ sub_text sub @ '' is read-only, but this invocation mutates state'')
                  else (READ, executable @ '' '' @ sub_text sub @ '' only reads state''))
               else (PRIVILEGED, executable @ '' can change system state''))
            else (case find is_forcing_flag arguments of
                Some argument \<Rightarrow> (DESTRUCTIVE, ''forcing flag '' @ py_repr argument)
              | None \<Rightarrow> (READ, executable @ '' is treated as a read-only inspection command'')))"

section \<open>Classifying a command string\<close>

datatype shlex_state = InSpace | InWord | InQuote char | InEscape shlex_state

text \<open>
  \<open>shlex.split(s)\<close>. The arguments are the reader's state, the token so far, whether a quote was
  opened in it, and the rest of the text.
\<close>

definition is_shlex_space :: "char \<Rightarrow> bool" where
  "is_shlex_space c \<longleftrightarrow> c \<in> {CHR '' '', CHR 0x09, CHR 0x0D, CHR 0x0A}"

definition is_quote :: "char \<Rightarrow> bool" where
  "is_quote c \<longleftrightarrow> c = CHR 0x27 \<or> c = CHR 0x22"

fun shlex_read :: "shlex_state \<Rightarrow> string \<Rightarrow> bool \<Rightarrow> string \<Rightarrow> string + string list" where
  "shlex_read InSpace tok q [] = Inr []"
| "shlex_read InWord tok q [] = Inr (if tok = [] \<and> \<not> q then [] else [tok])"
| "shlex_read (InQuote c) tok q [] = Inl ''No closing quotation''"
| "shlex_read (InEscape back) tok q [] = Inl ''No escaped character''"
| "shlex_read InSpace tok q (c # cs) =
     (if is_shlex_space c then shlex_read InSpace tok q cs
      else if c = CHR 0x5C then shlex_read (InEscape InWord) tok q cs
      else if is_quote c then shlex_read (InQuote c) tok q cs
      else shlex_read InWord [c] q cs)"
| "shlex_read (InQuote d) tok q (c # cs) =
     (if c = d then shlex_read InWord tok True cs
      else if c = CHR 0x5C \<and> d = CHR 0x22 then shlex_read (InEscape (InQuote d)) tok True cs
      else shlex_read (InQuote d) (tok @ [c]) True cs)"
| "shlex_read (InEscape back) tok q (c # cs) =
     (let tok' = (case back of
         InQuote d \<Rightarrow> if c \<noteq> CHR 0x5C \<and> c \<noteq> d then tok @ [CHR 0x5C] else tok
       | _ \<Rightarrow> tok)
      in shlex_read back (tok' @ [c]) q cs)"
| "shlex_read InWord tok q (c # cs) =
     (if is_shlex_space c then
        (if tok \<noteq> [] \<or> q then
           ebind (shlex_read InSpace [] False cs) (\<lambda>rest. Inr (tok # rest))
         else shlex_read InSpace [] False cs)
      else if is_quote c then shlex_read (InQuote c) tok q cs
      else if c = CHR 0x5C then shlex_read (InEscape InWord) tok q cs
      else shlex_read InWord (tok @ [c]) q cs)"

definition shlex_split :: "string \<Rightarrow> string + string list" where
  "shlex_split s = shlex_read InSpace [] False s"

definition classify_command_string :: "string \<Rightarrow> risk_level \<times> string" where
  "classify_command_string command = (case shlex_split command of
     Inl exc \<Rightarrow> (DESTRUCTIVE, ''unparseable command: '' @ exc)
   | Inr argv \<Rightarrow> classify_command argv)"

section \<open>Classifying a path\<close>

definition classify_path_write :: "fs \<Rightarrow> string \<Rightarrow> ppath \<Rightarrow> scrappy_error + risk_level \<times> string" where
  "classify_path_write f path workspace = ebind (is_inside_workspace f path workspace) (\<lambda>inside.
     Inr (if inside then (WRITE, ''inside the configured workspace'')
          else (PRIVILEGED, ''outside the configured workspace'')))"

definition classify_path_delete :: "fs \<Rightarrow> string \<Rightarrow> ppath \<Rightarrow> scrappy_error + risk_level \<times> string" where
  "classify_path_delete f path workspace = ebind (is_inside_workspace f path workspace) (\<lambda>inside.
     Inr (if inside then (WRITE, ''deleting inside the configured workspace'')
          else (DESTRUCTIVE, ''deleting outside the configured workspace'')))"

section \<open>Lemmas\<close>

lemma find_meta_None: "find_meta argv = None \<longleftrightarrow> (\<forall>t\<in>set argv. \<forall>m\<in>set SHELL_METACHARACTERS. \<not> sublist m t)"
  by (auto simp: find_meta_def find_None_iff py_contains_sublist)

lemma rep_greedy_cls_step:
  "rep_greedy (rmatch (Cls f)) (Suc n) p s = (case s of [] \<Rightarrow> [([], s)] | c # cs \<Rightarrow>
     (if f c then map (\<lambda>(b, t). (c # b, t)) (rep_greedy (rmatch (Cls f)) n (Some c) cs) else []) @ [([], s)])"
  by (cases s) (simp_all add: prev_after_def)

lemma rep_greedy_cls:
  "(w, t) \<in> set (rep_greedy (rmatch (Cls f)) n p s) \<longleftrightarrow> s = w @ t \<and> list_all f w \<and> length w \<le> n"
proof (induction n arbitrary: p s w)
  case 0
  show ?case by auto
next
  case (Suc n)
  have img: "(w, t) \<in> (\<lambda>(b, t). (c # b, t)) ` A \<longleftrightarrow> (\<exists>b. w = c # b \<and> (b, t) \<in> A)" for c A
    by force
  show ?case
    by (cases s; cases w) (auto simp: rep_greedy_cls_step img Suc.IH simp del: rmatch.simps rep_greedy.simps)
qed

lemma rmatch_letters: "(w, t) \<in> set (rmatch letters_r p s) \<longleftrightarrow> s = w @ t \<and> list_all is_lower_az w"
proof -
  have "rmatch letters_r p s = rep_greedy (rmatch (Cls is_lower_az)) (length s) p s"
    by (simp only: letters_r_def rmatch.simps(5))
  then show ?thesis by (auto simp: rep_greedy_cls simp del: rmatch.simps)
qed

lemma rmatch_Seq: "(w, t) \<in> set (rmatch (Seq a b) p s) \<longleftrightarrow>
    (\<exists>x r y. (x, r) \<in> set (rmatch a p s) \<and> (y, t) \<in> set (rmatch b (prev_after p x) r) \<and> w = x @ y)"
  by force

lemma rmatch_Alt: "(w, t) \<in> set (rmatch (Alt a b) p s) \<longleftrightarrow> (w, t) \<in> set (rmatch a p s) \<or> (w, t) \<in> set (rmatch b p s)"
  by simp

lemma rmatch_lit_iff: "(w, t) \<in> set (rmatch (lit u) p s) \<longleftrightarrow> w = u \<and> s = u @ t"
  by (auto simp: rmatch_lit prefix_def)

lemma rmatch_Start: "(w, t) \<in> set (rmatch AtStart p s) \<longleftrightarrow> p = None \<and> w = [] \<and> t = s"
  by auto

lemma rmatch_Dollar: "(w, t) \<in> set (rmatch AtDollar p s) \<longleftrightarrow> (s = [] \<or> s = [CHR 0x0A]) \<and> w = [] \<and> t = s"
  by auto

lemma rmatch_opt: "(w, t) \<in> set (rmatch (opt_r r) p s) \<longleftrightarrow> (w, t) \<in> set (rmatch r p s) \<or> w = [] \<and> t = s"
  by (auto simp: opt_r_def)

definition accepts :: "regex \<Rightarrow> char option \<Rightarrow> string \<Rightarrow> bool" where
  "accepts r p s \<longleftrightarrow> (\<exists>w t. (w, t) \<in> set (rmatch r p s))"

lemma re_match_accepts: "re_match r s \<longleftrightarrow> accepts r None s"
  by (cases "rmatch r None s") (auto simp: re_match_def accepts_def)

lemma accepts_Seq: "accepts (Seq a b) p s \<longleftrightarrow> (\<exists>x r. (x, r) \<in> set (rmatch a p s) \<and> accepts b (prev_after p x) r)"
  unfolding accepts_def rmatch_Seq by blast

lemma accepts_start: "accepts (Seq AtStart b) p s \<longleftrightarrow> p = None \<and> accepts b None s"
  by (simp add: accepts_def prev_after_def)

lemma accepts_lit: "accepts (Seq (lit u) b) p s \<longleftrightarrow> (\<exists>r. s = u @ r \<and> accepts b (prev_after p u) r)"
  by (auto simp: accepts_Seq rmatch_lit_iff simp del: rmatch.simps)

lemma accepts_letters: "accepts (Seq letters_r b) p s \<longleftrightarrow>
    (\<exists>x r. s = x @ r \<and> list_all is_lower_az x \<and> accepts b (prev_after p x) r)"
  by (auto simp: accepts_Seq rmatch_letters simp del: rmatch.simps)

lemma accepts_alt: "accepts (Seq (Alt a c) b) p s \<longleftrightarrow> accepts (Seq a b) p s \<or> accepts (Seq c b) p s"
  by (simp only: accepts_Seq rmatch_Alt) blast

lemma accepts_opt: "accepts (Seq (opt_r a) b) p s \<longleftrightarrow> accepts (Seq a b) p s \<or> accepts b p s"
  by (simp only: accepts_Seq rmatch_opt) (auto simp: prev_after_def)

lemma accepts_dollar: "accepts AtDollar p s \<longleftrightarrow> s = [] \<or> s = [CHR 0x0A]"
  by (simp add: accepts_def)

lemmas accepts_parts = accepts_start accepts_lit accepts_letters accepts_alt accepts_opt accepts_dollar

lemma accepts_lit_end: "CHR 0x0A \<notin> set s \<Longrightarrow> accepts (Seq (lit u) AtDollar) p s \<longleftrightarrow> s = u"
  by (auto simp: accepts_lit accepts_dollar)

text \<open>The forcing flags in words, for an argument without a line break.\<close>

definition bundles :: "char \<Rightarrow> char \<Rightarrow> string \<Rightarrow> bool" where
  "bundles c d a \<longleftrightarrow> (\<exists>x y z. a = ''-'' @ x @ [c] @ y @ [d] @ z \<and> list_all is_lower_az (x @ y @ z))"

lemma bundle_pattern:
  assumes "CHR 0x0A \<notin> set a"
  shows "re_match (seq_all [AtStart, lit ''-'', letters_r, lit [c], letters_r, lit [d], letters_r, AtDollar]) a
    \<longleftrightarrow> bundles c d a"
proof -
  have "re_match (seq_all [AtStart, lit ''-'', letters_r, lit [c], letters_r, lit [d], letters_r, AtDollar]) a
    \<longleftrightarrow> (\<exists>x y z t. a = ''-'' @ x @ [c] @ y @ [d] @ z @ t \<and> list_all is_lower_az (x @ y @ z) \<and> (t = [] \<or> t = [CHR 0x0A]))"
    (is "?l \<longleftrightarrow> ?r")
  proof
    assume ?l
    then show ?r
      unfolding re_match_accepts seq_all.simps accepts_parts
      by (elim exE conjE, hypsubst, intro exI conjI) (rule refl, simp_all)
  next
    assume ?r
    then show ?l
      unfolding re_match_accepts seq_all.simps accepts_parts
      by (elim exE conjE, hypsubst) (simp only: list_all_append, (rule exI conjI refl | assumption | elim conjE)+)
  qed
  also have "\<dots> \<longleftrightarrow> bundles c d a"
  proof
    assume "\<exists>x y z t. a = ''-'' @ x @ [c] @ y @ [d] @ z @ t \<and> list_all is_lower_az (x @ y @ z) \<and> (t = [] \<or> t = [CHR 0x0A])"
    then obtain x y z t where a: "a = ''-'' @ x @ [c] @ y @ [d] @ z @ t" "list_all is_lower_az (x @ y @ z)"
        "t = [] \<or> t = [CHR 0x0A]" by blast
    with assms have "t = []" by auto
    with a show "bundles c d a" unfolding bundles_def by (intro exI [of _ x] exI [of _ y] exI [of _ z]) simp
  next
    assume "bundles c d a"
    then obtain x y z where "a = ''-'' @ x @ [c] @ y @ [d] @ z @ []" "list_all is_lower_az (x @ y @ z)"
      by (auto simp: bundles_def)
    then show "\<exists>x y z t. a = ''-'' @ x @ [c] @ y @ [d] @ z @ t \<and> list_all is_lower_az (x @ y @ z) \<and> (t = [] \<or> t = [CHR 0x0A])"
      by blast
  qed
  finally show ?thesis .
qed

definition forces :: "string \<Rightarrow> bool" where
  "forces a \<longleftrightarrow> a \<in> {''-f'', ''--f'', ''-force'', ''--force'', ''--no-preserve-root''}
     \<or> bundles (CHR ''r'') (CHR ''f'') a \<or> bundles (CHR ''f'') (CHR ''r'') a"

lemma is_forcing_flag_forces:
  assumes "CHR 0x0A \<notin> set a"
  shows "is_forcing_flag a \<longleftrightarrow> forces a"
proof -
  have f: "re_match (seq_all [AtStart, lit ''-'', opt_r (lit ''-''), Alt (lit ''force'') (lit ''f''), AtDollar]) a
      \<longleftrightarrow> a \<in> {''-f'', ''--f'', ''-force'', ''--force''}" (is "?l \<longleftrightarrow> ?r")
  proof
    assume ?l
    then obtain r t where r: "a = ''-'' @ r" "r = t \<or> r = ''-'' @ t"
        "accepts (Seq (lit ''force'') AtDollar) (Some (CHR ''-'')) t \<or> accepts (Seq (lit ''f'') AtDollar) (Some (CHR ''-'')) t"
      unfolding re_match_accepts seq_all.simps accepts_start accepts_opt accepts_alt
      by (auto simp: accepts_lit [of "''-''"] prev_after_def accepts_opt accepts_alt)
    then have "CHR 0x0A \<notin> set t" using assms by auto
    then have "t = ''force'' \<or> t = ''f''" using r(3) accepts_lit_end [of t] by blast
    with r(1,2) show ?r by auto
  next
    assume r: ?r
    have l: "re_match (seq_all [AtStart, lit ''-'', opt_r (lit ''-''), Alt (lit ''force'') (lit ''f''), AtDollar]) (''-'' @ d @ t)"
      if "d = [] \<or> d = ''-''" "t = ''force'' \<or> t = ''f''" for d t
    proof -
      have "accepts (Seq (Alt (lit ''force'') (lit ''f'')) AtDollar) (Some (CHR ''-'')) t"
        using that(2) by (auto simp: accepts_alt accepts_lit_end)
      with that(1) show ?thesis
        unfolding re_match_accepts seq_all.simps accepts_start accepts_opt
        by (auto simp: accepts_lit [of "''-''"] accepts_opt prev_after_def)
    qed
    from r show ?l
      using l [of "[]" "''f''"] l [of "''-''" "''f''"] l [of "[]" "''force''"] l [of "''-''" "''force''"]
      by (auto simp del: seq_all.simps)
  qed
  have n: "re_match (seq_all [AtStart, lit ''--no-preserve-root'', AtDollar]) a \<longleftrightarrow> a = ''--no-preserve-root''"
    unfolding re_match_accepts seq_all.simps accepts_start accepts_lit_end [OF assms] by simp
  show ?thesis
    unfolding is_forcing_flag_def DESTRUCTIVE_ARGUMENT_PATTERNS_def forces_def
    by (simp only: list.pred_inject list_ex_iff set_simps bex_simps f n bundle_pattern [OF assms]) auto
qed

lemma subcommand_tables:
  "map_of PRIVILEGED_SUBCOMMANDS e = Some mutating \<Longrightarrow> e \<in> set PRIVILEGED_EXECUTABLES
    \<and> set mutating \<inter> set (lookup_list READ_ONLY_SUBCOMMANDS e) = {}"
  by (auto simp: PRIVILEGED_SUBCOMMANDS_def PRIVILEGED_EXECUTABLES_def READ_ONLY_SUBCOMMANDS_def
      lookup_list_def apt_mutating_def split: if_splits)

section \<open>Properties\<close>

text \<open>
  What the classifier lets through as READ, which is what runs without any approval. A command
  is READ exactly when it has an executable, no token holds a shell metacharacter, the executable
  is not one of the destructive ones, and then: a privileged executable comes with a read-only
  subcommand of its own and no mutating verb after it, and any other executable, known or not,
  comes with no forcing flag. Capital letters are not part of a bundled flag, so \<open>-Rf\<close> is none.
\<close>

theorem classify_command_read_exact:
  "fst (classify_command argv) = READ \<longleftrightarrow>
     argv \<noteq> []
   \<and> list_all (\<lambda>t. list_all (\<lambda>m. \<not> sublist m t) SHELL_METACHARACTERS) argv
   \<and> executable_of argv \<notin> set DESTRUCTIVE_EXECUTABLES \<and> \<not> destructive_name (executable_of argv)
   \<and> (if executable_of argv \<in> set PRIVILEGED_EXECUTABLES
      then in_sub (first_subcommand (tl argv)) (lookup_list READ_ONLY_SUBCOMMANDS (executable_of argv))
         \<and> \<not> has_mutating_verb (tl argv) (first_subcommand (tl argv))
      else list_all (\<lambda>a. \<not> forces a) (tl argv))"
proof (cases "argv = [] \<or> find_meta argv \<noteq> None")
  case True
  then show ?thesis
    using find_meta_None [of argv] by (auto simp: classify_command_def Let_def list_all_iff)
next
  case False
  then obtain e args where argv: "argv = e # args" and m: "find_meta argv = None" by (cases argv) auto
  from m have meta: "list_all (\<lambda>t. list_all (\<lambda>m. \<not> sublist m t) SHELL_METACHARACTERS) argv"
    by (simp only: find_meta_None list_all_iff)
  have nl: "CHR 0x0A \<notin> set a" if "a \<in> set args" for a
  proof -
    have "\<not> sublist [CHR 0x0A] a" using meta that by (auto simp: argv SHELL_METACHARACTERS_def list_all_iff)
    then show ?thesis by (metis append.left_neutral append_Cons split_list sublist_def)
  qed
  have forced: "find is_forcing_flag args = None \<longleftrightarrow> list_all (\<lambda>a. \<not> forces a) args"
    using is_forcing_flag_forces nl by (auto simp: find_None_iff list_all_iff)
  show ?thesis
  proof (cases "map_of PRIVILEGED_SUBCOMMANDS (executable_of argv)")
    case None
    note unfold = classify_command_def Let_def argv list.sel list.distinct
    show ?thesis
    proof (cases "executable_of argv \<in> set DESTRUCTIVE_EXECUTABLES \<or> destructive_name (executable_of argv)")
      case True
      then show ?thesis using m by (auto simp: unfold)
    next
      case mild: False
      show ?thesis
      proof (cases "executable_of argv \<in> set PRIVILEGED_EXECUTABLES")
        case True
        then show ?thesis using None m meta mild by (simp add: unfold)
      next
        case False
        then show ?thesis using None m meta mild forced
          by (cases "find is_forcing_flag args") (simp_all add: unfold)
      qed
    qed
  next
    case (Some mutating)
    from subcommand_tables [OF Some]
    have d: "in_sub s mutating \<Longrightarrow> \<not> in_sub s (lookup_list READ_ONLY_SUBCOMMANDS (executable_of argv))" for s
      by (auto simp: in_sub_def split: option.splits)
    show ?thesis using Some m meta d subcommand_tables [OF Some]
      by (auto simp: classify_command_def Let_def argv)
  qed
qed

end
