(* ===== verification/Sec_Policy.thy ===== *)
theory Sec_Policy
  imports Core_Config Core_Models Sec_Risk
begin

text \<open>
  \<open>security/policy.py\<close>: the engine that decides whether a classified call may run, with its
  rules in evaluation order. The engine keeps the settings and the workspace it resolved when it
  was built.
\<close>

record policy_verdict =
  pv_decision :: policy_decision
  pv_risk :: risk_level
  pv_rule :: string
  pv_reason :: string
  pv_requires_phrase :: bool

definition policy_verdict_to_dict :: "policy_verdict \<Rightarrow> payload" where
  "policy_verdict_to_dict v =
     [(''decision'', PStr (decision_value (pv_decision v))), (''risk'', PStr (risk_value (pv_risk v))),
      (''rule'', PStr (pv_rule v)), (''reason'', PStr (pv_reason v)),
      (''requires_confirmation_phrase'', PBool (pv_requires_phrase v))]"

definition verdict_allowed :: "policy_verdict \<Rightarrow> bool" where
  "verdict_allowed v \<longleftrightarrow> pv_decision v = ALLOW"

definition needs_approval :: "policy_verdict \<Rightarrow> bool" where
  "needs_approval v \<longleftrightarrow> pv_decision v = REQUIRE_APPROVAL"

definition verdict_denied :: "policy_verdict \<Rightarrow> bool" where
  "verdict_denied v \<longleftrightarrow> pv_decision v = DENY"

lemma verdict_one_of: "verdict_denied v \<longleftrightarrow> \<not> verdict_allowed v \<and> \<not> needs_approval v"
  by (cases "pv_decision v") (simp_all add: verdict_allowed_def needs_approval_def verdict_denied_def)

record policy_context =
  pc_max_risk :: risk_level
  pc_dry_run :: bool
  pc_known_tools :: "string list"
  pc_disabled_tools :: "string list"
  pc_paths :: "ppath list"
  pc_actor :: "actor option"

record policy_engine =
  pe_settings :: settings
  pe_workspace :: path

definition new_policy_engine :: "fs \<Rightarrow> settings \<Rightarrow> scrappy_error + policy_engine" where
  "new_policy_engine f s = (case expand_resolve f (workspace s) of
     None \<Rightarrow> Inl (Invalid ''RuntimeError'')
   | Some w \<Rightarrow> Inr \<lparr>pe_settings = s, pe_workspace = w\<rparr>)"

definition verdict :: "policy_decision \<Rightarrow> risk_level \<Rightarrow> string \<Rightarrow> string \<Rightarrow> policy_verdict" where
  "verdict d r rule reason = \<lparr>pv_decision = d, pv_risk = r, pv_rule = rule, pv_reason = reason,
     pv_requires_phrase = False\<rparr>"

definition inside_workspace :: "fs \<Rightarrow> policy_engine \<Rightarrow> ppath \<Rightarrow> scrappy_error + bool" where
  "inside_workspace f e p = (case expand_resolve f p of
     None \<Rightarrow> Inl (Invalid ''RuntimeError'')
   | Some r \<Rightarrow> Inr (is_within r (pe_workspace e)))"

text \<open>\<open>[path for path in paths if not self._inside_workspace(path)]\<close>.\<close>

fun outside_paths :: "fs \<Rightarrow> policy_engine \<Rightarrow> ppath list \<Rightarrow> scrappy_error + ppath list" where
  "outside_paths f e [] = Inr []"
| "outside_paths f e (p # ps) =
     ebind (inside_workspace f e p) (\<lambda>inside.
     ebind (outside_paths f e ps) (\<lambda>rest. Inr (if inside then rest else p # rest)))"

definition policy_evaluate ::
  "fs \<Rightarrow> policy_engine \<Rightarrow> tool_call \<Rightarrow> risk_level \<Rightarrow> policy_context \<Rightarrow> string \<Rightarrow> scrappy_error + policy_verdict" where
  "policy_evaluate f e call risk context reason =
     (let name = c_tool_name call;
          detail = (if reason \<noteq> [] then reason else name @ '' classified '' @ risk_value risk) in
      if pc_known_tools context \<noteq> [] \<and> name \<notin> set (pc_known_tools context) then
        Inr (verdict DENY DESTRUCTIVE ''unknown-tool''
          (py_repr name @ '' is not a registered tool; unknown actions are denied''))
      else if name \<in> set (pc_disabled_tools context) then
        Inr (verdict DENY risk ''tool-disabled'' (py_repr name @ '' is disabled by configuration''))
      else if at_least risk WRITE \<and> pc_dry_run context then
        Inr (verdict DENY risk ''dry-run''
          ''task is running in dry-run mode; mutating steps are described, not executed'')
      else if rank risk > rank (pc_max_risk context) then
        Inr (verdict DENY risk ''risk-ceiling''
          (risk_value risk @ '' exceeds the ceiling '' @ risk_value (pc_max_risk context) @
           '' set for this objective; raise the ceiling explicitly to permit it''))
      else if risk = READ then Inr (verdict ALLOW risk ''read-allowed'' detail)
      else if \<not> allow_approvals (pe_settings e) \<and> at_least risk PRIVILEGED then
        Inr (verdict DENY risk ''approvals-disabled''
          ''approvals are disabled on this instance; privileged work is refused'')
      else if risk = WRITE then
        ebind (outside_paths f e (pc_paths context)) (\<lambda>outside.
          Inr (if outside \<noteq> [] then
            verdict REQUIRE_APPROVAL risk ''write-outside-workspace''
              (''writes outside the workspace: '' @ py_join '', '' (map str_ppath outside))
          else verdict ALLOW risk ''write-in-workspace'' detail))
      else if risk = PRIVILEGED then
        Inr (verdict REQUIRE_APPROVAL risk ''privileged-requires-approval'' detail)
      else if risk = DESTRUCTIVE then
        Inr ((verdict REQUIRE_APPROVAL risk ''destructive-requires-confirmation'' detail)
          \<lparr>pv_requires_phrase := True\<rparr>)
      else Inr (verdict DENY risk ''default-deny''
        (''no rule matched risk '' @ risk_value risk @ ''; denying by default'')))"

section \<open>Lemmas\<close>

lemma verdict_simps [simp]:
  "pv_decision (verdict d r u w) = d" "pv_risk (verdict d r u w) = r" "pv_rule (verdict d r u w) = u"
  "pv_requires_phrase (verdict d r u w) = False"
  by (simp_all add: verdict_def)

text \<open>Every path resolves to one under the engine's workspace.\<close>

definition paths_inside :: "fs \<Rightarrow> policy_engine \<Rightarrow> ppath list \<Rightarrow> bool" where
  "paths_inside f e ps \<longleftrightarrow>
     list_all (\<lambda>p. \<exists>q. expand_resolve f p = Some q \<and> prefix (pe_workspace e) q) ps"

lemma outside_paths_Nil:
  "outside_paths f e ps = Inr out \<Longrightarrow> out = [] \<longleftrightarrow> paths_inside f e ps"
  by (induction ps arbitrary: out)
    (auto simp: paths_inside_def inside_workspace_def is_within_prefix split: option.splits if_splits)

lemma outside_paths_Inl: "outside_paths f e ps = Inl x \<Longrightarrow> x = Invalid ''RuntimeError''"
  by (induction ps) (auto simp: ebind_eq_Inl inside_workspace_def split: option.splits)

text \<open>The guards every allowed or escalated call has passed.\<close>

definition policy_guards :: "tool_call \<Rightarrow> risk_level \<Rightarrow> policy_context \<Rightarrow> bool" where
  "policy_guards call risk context \<longleftrightarrow>
     (pc_known_tools context = [] \<or> c_tool_name call \<in> set (pc_known_tools context))
   \<and> c_tool_name call \<notin> set (pc_disabled_tools context)
   \<and> (pc_dry_run context \<longrightarrow> risk = READ)
   \<and> risk \<le> pc_max_risk context"

lemma evaluate_denied: "\<not> policy_guards call risk context \<Longrightarrow>
    \<exists>v. policy_evaluate f e call risk context reason = Inr v \<and> pv_decision v = DENY \<and> \<not> pv_requires_phrase v"
  by (cases risk; cases "pc_max_risk context")
    (auto simp: policy_evaluate_def policy_guards_def Let_def at_least_def rank_le [symmetric])

lemma evaluate_guarded:
  assumes "policy_guards call risk context"
  shows "policy_evaluate f e call risk context reason =
    (let detail = (if reason \<noteq> [] then reason else c_tool_name call @ '' classified '' @ risk_value risk) in
     case risk of
       READ \<Rightarrow> Inr (verdict ALLOW READ ''read-allowed'' detail)
     | WRITE \<Rightarrow> ebind (outside_paths f e (pc_paths context)) (\<lambda>outside.
          Inr (if outside \<noteq> [] then
            verdict REQUIRE_APPROVAL risk ''write-outside-workspace''
              (''writes outside the workspace: '' @ py_join '', '' (map str_ppath outside))
          else verdict ALLOW risk ''write-in-workspace'' detail))
     | PRIVILEGED \<Rightarrow> Inr (if allow_approvals (pe_settings e)
          then verdict REQUIRE_APPROVAL risk ''privileged-requires-approval'' detail
          else verdict DENY risk ''approvals-disabled''
            ''approvals are disabled on this instance; privileged work is refused'')
     | DESTRUCTIVE \<Rightarrow> Inr (if allow_approvals (pe_settings e)
          then (verdict REQUIRE_APPROVAL risk ''destructive-requires-confirmation'' detail)\<lparr>pv_requires_phrase := True\<rparr>
          else verdict DENY risk ''approvals-disabled''
            ''approvals are disabled on this instance; privileged work is refused''))"
  using assms
  by (cases risk) (auto simp: policy_evaluate_def policy_guards_def Let_def at_least_def rank_le [symmetric])

lemma evaluate_Inr:
  assumes "policy_evaluate f e call risk context reason = Inr v"
  shows "(pv_decision v = ALLOW \<longleftrightarrow> policy_guards call risk context \<and>
      (risk = READ \<or> risk = WRITE \<and> paths_inside f e (pc_paths context)))
    \<and> (pv_decision v = REQUIRE_APPROVAL \<longleftrightarrow> policy_guards call risk context \<and>
      (risk = WRITE \<and> \<not> paths_inside f e (pc_paths context)
       \<or> PRIVILEGED \<le> risk \<and> allow_approvals (pe_settings e)))
    \<and> (pv_requires_phrase v \<longleftrightarrow> pv_decision v = REQUIRE_APPROVAL \<and> risk = DESTRUCTIVE)"
proof (cases "policy_guards call risk context")
  case False
  with evaluate_denied [OF this, of f e reason] assms show ?thesis by auto
next
  case True
  show ?thesis
  proof (cases "risk = WRITE")
    case w: True
    with assms True obtain out where "outside_paths f e (pc_paths context) = Inr out"
      by (auto simp: evaluate_guarded Let_def ebind_eq_Inr)
    with outside_paths_Nil [OF this] w True assms show ?thesis
      by (auto simp: evaluate_guarded Let_def less_eq_risk_level_def)
  next
    case False
    with True assms show ?thesis
      by (cases risk; cases "allow_approvals (pe_settings e)")
        (auto simp: evaluate_guarded Let_def less_eq_risk_level_def)
  qed
qed

lemma evaluate_Inl: "policy_evaluate f e call risk context reason = Inl x \<Longrightarrow> x = Invalid ''RuntimeError'' \<and> risk = WRITE"
  using evaluate_denied [of call risk "context" f e reason]
  by (cases "policy_guards call risk context"; cases risk)
    (auto simp: evaluate_guarded Let_def ebind_eq_Inl dest: outside_paths_Inl split: if_splits)

section \<open>Properties\<close>

text \<open>
  C24. The policy, in one statement. A call runs without a human only when the tool is known and
  enabled, the effective risk is within the objective's ceiling, the task is not a dry run (unless
  the call only reads), and the call reads, or writes only inside the workspace. It is escalated
  exactly when the same guards hold and it writes outside the workspace, or is privileged or
  destructive with approvals enabled; a typed phrase is asked exactly for an escalated destructive
  call. Everything else is denied.
\<close>

theorem policy_evaluate_exact:
  "case policy_evaluate f e call risk context reason of
     Inl x \<Rightarrow> x = Invalid ''RuntimeError'' \<and> risk = WRITE
   | Inr v \<Rightarrow>
      (pv_decision v = ALLOW \<longleftrightarrow> policy_guards call risk context \<and>
         (risk = READ \<or> risk = WRITE \<and>
           paths_inside f e (pc_paths context)))
    \<and> (pv_decision v = REQUIRE_APPROVAL \<longleftrightarrow> policy_guards call risk context \<and>
         (risk = WRITE \<and> \<not> paths_inside f e (pc_paths context)
          \<or> PRIVILEGED \<le> risk \<and> allow_approvals (pe_settings e)))
    \<and> (pv_requires_phrase v \<longleftrightarrow> pv_decision v = REQUIRE_APPROVAL \<and> risk = DESTRUCTIVE)"
  using evaluate_Inr [of f e call risk "context" reason] evaluate_Inl [of f e call risk "context" reason]
  by (cases "policy_evaluate f e call risk context reason") simp_all

end
