(* ===== verification/Tool_Base.thy ===== *)
theory Tool_Base
  imports Sec_Policy
begin

text \<open>
  \<open>tools/base.py\<close>: a tool and the registry. A tool is the record of its class attributes (\<open>tool_class\<close>) with its methods;
  \<open>'w\<close> is the machine its \<open>run\<close> acts on. Arguments are the validated dictionary. \<open>run\<close> gets the time
  budget of \<open>asyncio.wait_for\<close> and says how it ended, how long it took, and what the machine is
  after it, a cancelled run included.
\<close>

record tool_context =
  x_settings :: settings
  x_task_id :: string
  x_actor :: string
  x_identity :: "actor option"
  x_call_id :: "string option"

datatype run_end = Returned_output payload | Raised_error scrappy_error | Crashed string | Timed_out

text \<open>How the effect of a tool can be undone: text for the planner and the operator.\<close>

record rollback_spec =
  rb_supported :: bool
  rb_description :: string
  rb_inverse_tool :: "string option"

text \<open>The class attributes of a tool; those of the base class are the defaults of the others.\<close>

record tool_class =
  tl_name :: string
  tl_description :: string
  tl_params :: "(string \<times> bool \<times> string) list" \<comment> \<open>of the input model's JSON schema: key, required, type\<close>
  tl_risk :: risk_level
  tl_min_risk :: "risk_level option"
  tl_permissions :: "string list"
  tl_rollback :: "rollback_spec option"

definition base_class :: tool_class where
  "base_class = \<lparr>tl_name = [], tl_description = [], tl_params = [], tl_risk = READ, tl_min_risk = None,
     tl_permissions = [], tl_rollback = None\<rparr>"

record 'w tool = tool_class +
  tl_validate :: "payload \<Rightarrow> string + payload" \<comment> \<open>\<open>model_validate\<close>, \<open>Inl\<close> the listed problems\<close>
  tl_classify :: "payload \<Rightarrow> tool_context \<Rightarrow> 'w \<Rightarrow> scrappy_error + risk_level \<times> string"
  tl_affected_paths :: "payload \<Rightarrow> string list"
  tl_run :: "payload \<Rightarrow> tool_context \<Rightarrow> time \<Rightarrow> 'w \<Rightarrow> run_end \<times> time \<times> 'w"

definition with_methods ::
  "('b tool_class_scheme) \<Rightarrow> (payload \<Rightarrow> string + payload) \<Rightarrow> (payload \<Rightarrow> tool_context \<Rightarrow> 'w \<Rightarrow> scrappy_error + risk_level \<times> string) \<Rightarrow>
   (payload \<Rightarrow> string list) \<Rightarrow> (payload \<Rightarrow> tool_context \<Rightarrow> time \<Rightarrow> 'w \<Rightarrow> run_end \<times> time \<times> 'w) \<Rightarrow> 'w tool" where
  "with_methods c validate classify paths run =
     \<lparr>tl_name = tl_name c, tl_description = tl_description c, tl_params = tl_params c, tl_risk = tl_risk c, tl_min_risk = tl_min_risk c,
      tl_permissions = tl_permissions c, tl_rollback = tl_rollback c, tl_validate = validate, tl_classify = classify,
      tl_affected_paths = paths, tl_run = run\<rparr>"

lemma with_methods_simps [simp]:
  "tl_name (with_methods c v k ps r) = tl_name c" "tl_description (with_methods c v k ps r) = tl_description c"
  "tl_params (with_methods c v k ps r) = tl_params c" "tl_risk (with_methods c v k ps r) = tl_risk c"
  "tl_min_risk (with_methods c v k ps r) = tl_min_risk c" "tl_permissions (with_methods c v k ps r) = tl_permissions c"
  "tl_rollback (with_methods c v k ps r) = tl_rollback c" "tl_validate (with_methods c v k ps r) = v"
  "tl_classify (with_methods c v k ps r) = k" "tl_affected_paths (with_methods c v k ps r) = ps" "tl_run (with_methods c v k ps r) = r"
  by (simp_all add: with_methods_def)

definition context_workspace :: "fs \<Rightarrow> tool_context \<Rightarrow> path option" where
  "context_workspace f ctx = expand_resolve f (workspace (x_settings ctx))"

definition read_roots :: "tool_context \<Rightarrow> ppath list" where
  "read_roots ctx = allowed_read_roots (x_settings ctx)"

definition parse_arguments :: "'w tool \<Rightarrow> payload \<Rightarrow> scrappy_error + payload" where
  "parse_arguments t arguments = (case tl_validate t arguments of
     Inl problems \<Rightarrow> Inl (ValidationFailed (''Invalid arguments for '' @ tl_name t @ '': '' @ problems))
   | Inr args \<Rightarrow> Inr args)"

text \<open>The default classification and paths of the base class.\<close>

definition default_classify :: "string \<Rightarrow> risk_level \<Rightarrow> payload \<Rightarrow> tool_context \<Rightarrow> 'w \<Rightarrow> scrappy_error + risk_level \<times> string" where
  "default_classify name r args ctx w = Inr (r, name @ '' is classified '' @ risk_value r)"

definition risk_floor :: "'w tool \<Rightarrow> risk_level" where
  "risk_floor t = or_else (tl_min_risk t) (tl_risk t)"

text \<open>What a planner is handed; \<open>schema\<close> is the JSON schema pydantic makes of the tool's input model.\<close>

definition json_schema :: "('w tool \<Rightarrow> pyval) \<Rightarrow> 'w tool \<Rightarrow> payload" where
  "json_schema schema t =
     [(''name'', PStr (tl_name t)), (''description'', PStr (tl_description t)), (''risk'', PStr (risk_value (tl_risk t))),
      (''min_risk'', PStr (risk_value (risk_floor t))), (''parameters'', schema t)]"

definition describe_tool :: "'w tool \<Rightarrow> string" where
  "describe_tool t = tl_name t @ '' ['' @ risk_value (tl_risk t) @ ''] - '' @ tl_description t"

section \<open>The registry\<close>

record 'w registry =
  rg_tools :: "(string \<times> 'w tool) list"
  rg_disabled :: "string list"

definition empty_registry :: "'w registry" where
  "empty_registry = \<lparr>rg_tools = [], rg_disabled = []\<rparr>"

definition register :: "'w tool \<Rightarrow> bool \<Rightarrow> 'w registry \<Rightarrow> scrappy_error + 'w registry" where
  "register t replacing r =
     (if tl_name t = [] then Inl (Invalid ''must declare a name'')
      else if tl_name t \<in> fst ` set (rg_tools r) \<and> \<not> replacing then
        Inl (Invalid (''Tool '' @ py_repr (tl_name t) @ '' is already registered''))
      else Inr (r\<lparr>rg_tools := dict_set (tl_name t) t (rg_tools r)\<rparr>))"

definition disable_tool :: "string \<Rightarrow> 'w registry \<Rightarrow> 'w registry" where
  "disable_tool n r = r\<lparr>rg_disabled := List.insert n (rg_disabled r)\<rparr>"

definition enable_tool :: "string \<Rightarrow> 'w registry \<Rightarrow> 'w registry" where
  "enable_tool n r = r\<lparr>rg_disabled := removeAll n (rg_disabled r)\<rparr>"

definition tool_names :: "'w registry \<Rightarrow> string list" where
  "tool_names r = map fst (rg_tools r)"

definition has_tool :: "string \<Rightarrow> 'w registry \<Rightarrow> bool" where
  "has_tool n r \<longleftrightarrow> n \<in> set (tool_names r)"

definition disabled_tools :: "'w registry \<Rightarrow> string list" where
  "disabled_tools r = rg_disabled r"

definition get_tool :: "string \<Rightarrow> 'w registry \<Rightarrow> scrappy_error + 'w tool" where
  "get_tool n r = (case map_of (rg_tools r) n of
     None \<Rightarrow> Inl (ToolNotFound n (sort (tool_names r)))
   | Some t \<Rightarrow> Inr t)"

definition all_tools :: "'w registry \<Rightarrow> 'w tool list" where
  "all_tools r = map snd (sort_key fst (rg_tools r))"

definition enabled_tools :: "'w registry \<Rightarrow> 'w tool list" where
  "enabled_tools r = filter (\<lambda>t. tl_name t \<notin> set (rg_disabled r)) (all_tools r)"

definition by_max_risk :: "risk_level \<Rightarrow> 'w registry \<Rightarrow> 'w tool list" where
  "by_max_risk bound r = filter (\<lambda>t. rank (risk_floor t) \<le> rank bound) (enabled_tools r)"

definition tool_schemas :: "('w tool \<Rightarrow> pyval) \<Rightarrow> 'w registry \<Rightarrow> payload list" where
  "tool_schemas schema r = map (json_schema schema) (enabled_tools r)"

text \<open>The tool list of a planning prompt.\<close>

definition tool_line :: "'w tool \<Rightarrow> string" where
  "tool_line t =
     (let params = py_join '', '' (map (\<lambda>(key, required, ty). key @ (if required then [] else ''?'') @ '':'' @ ty) (tl_params t));
          band = (if risk_floor t = tl_risk t then risk_value (risk_floor t)
                  else risk_value (risk_floor t) @ ''..'' @ risk_value (tl_risk t))
      in ''- '' @ tl_name t @ ''('' @ params @ '') ['' @ band @ ''] '' @ tl_description t)"

definition catalogue :: "risk_level option \<Rightarrow> 'w registry \<Rightarrow> string" where
  "catalogue bound r =
     (let tools = (case bound of None \<Rightarrow> enabled_tools r | Some k \<Rightarrow> by_max_risk k r) in
      if tools = [] then ''(no tools available at this risk ceiling)''
      else py_join [CHR 0x0A] (map tool_line tools))"

section \<open>Lemmas\<close>

text \<open>A registry built by \<open>register\<close> keeps every tool under its own name.\<close>

definition registry_ok :: "'w registry \<Rightarrow> bool" where
  "registry_ok r \<longleftrightarrow> distinct (tool_names r) \<and> list_all (\<lambda>(n, t). n = tl_name t \<and> n \<noteq> []) (rg_tools r)"

lemma registry_ok_register [inv_intros]:
  assumes "registry_ok r" "register t replacing r = Inr r'"
  shows "registry_ok r'"
proof -
  from assms(2) have r': "r' = r\<lparr>rg_tools := dict_set (tl_name t) t (rg_tools r)\<rparr>" "tl_name t \<noteq> []"
    by (auto simp: register_def split: if_splits)
  have "distinct (tool_names r')"
    using assms(1) by (auto simp: r'(1) tool_names_def keys_dict_set registry_ok_def)
  moreover have "case p of (n, u) \<Rightarrow> n = tl_name u \<and> n \<noteq> []" if "p \<in> set (rg_tools r')" for p
    using that set_dict_set [of p "tl_name t" t "rg_tools r"] assms(1) r'(2)
    by (auto simp: r'(1) registry_ok_def list_all_iff)
  ultimately show ?thesis by (simp add: registry_ok_def list_all_iff)
qed

lemma registry_ok_empty [simp]: "registry_ok empty_registry"
  by (simp add: registry_ok_def empty_registry_def tool_names_def)

lemma has_tool_iff: "has_tool n r \<longleftrightarrow> (\<exists>t. get_tool n r = Inr t)"
proof -
  have "has_tool n r \<longleftrightarrow> map_of (rg_tools r) n \<noteq> None" by (simp add: has_tool_def tool_names_def map_of_eq_None_iff)
  then show ?thesis by (auto simp: get_tool_def split: option.splits)
qed

lemma get_tool_Inr: "get_tool n r = Inr t \<longleftrightarrow> map_of (rg_tools r) n = Some t"
  by (auto simp: get_tool_def split: option.splits)

lemma get_tool_name: "registry_ok r \<Longrightarrow> get_tool n r = Inr t \<Longrightarrow> tl_name t = n"
  by (auto simp: get_tool_Inr registry_ok_def list_all_iff dest!: map_of_SomeD)

lemma get_tool_known: "get_tool n r = Inr t \<Longrightarrow> n \<in> set (tool_names r)"
  by (auto simp: get_tool_Inr tool_names_def dest!: map_of_SomeD intro: rev_image_eqI)

lemma get_tool_Inl: "get_tool n r = Inl e \<Longrightarrow> e = ToolNotFound n (sort (tool_names r)) \<and> n \<notin> set (tool_names r)"
  by (auto simp: get_tool_def tool_names_def map_of_eq_None_iff split: option.splits)

lemma register_get:
  "register t replacing r = Inr r' \<Longrightarrow> get_tool n r' = (if n = tl_name t then Inr t else
     (case map_of (rg_tools r) n of None \<Rightarrow> Inl (ToolNotFound n (sort (tool_names r'))) | Some u \<Rightarrow> Inr u))"
  by (auto simp: register_def get_tool_def split: if_splits option.splits)

end
