(* ===== verification/Py_Files.thy ===== *)
theory Py_Files
  imports Py_Path Py_Value
begin

text \<open>
  The part of \<open>os\<close>, \<open>shutil\<close> and \<open>pathlib\<close> that changes files, over the file system of \<open>Py_Path\<close>. What
  the operating system decides is a parameter: \<open>os_fault\<close> says which calls it refuses and with
  which exception, \<open>os_partial\<close> and \<open>os_left\<close> what a refused write and a refused recursive operation
  leave behind, \<open>os_scan\<close> in which order a directory lists its entries. \<open>os_ok\<close> states what is relied on.
\<close>

datatype os_call = Sys_mkdir | Sys_read | Sys_open | Sys_write | Sys_copystat | Sys_scan | Sys_stat
  | Sys_unlink | Sys_rmdir | Sys_rmtree | Sys_rename | Sys_copytree

text \<open>An \<open>OSError\<close>: \<open>FileNotFoundError\<close>, \<open>PermissionError\<close>, or another; with its text.\<close>

datatype os_error = Missing (os_text: string) | Denied (os_text: string) | Failed (os_text: string)

record file_stat =
  st_size :: nat
  st_mode :: nat
  st_uid :: nat
  st_gid :: nat
  st_mtime :: time

record os =
  os_fault :: "os_call \<Rightarrow> path \<Rightarrow> os_error option"
  os_partial :: "path \<Rightarrow> string \<Rightarrow> string"
  os_left :: "os_call \<Rightarrow> path \<Rightarrow> fs \<Rightarrow> fs"
  os_scan :: "fs \<Rightarrow> path \<Rightarrow> string list"
  os_stat :: "fs \<Rightarrow> path \<Rightarrow> file_stat"
  os_took :: "string \<Rightarrow> time" \<comment> \<open>how long the worker thread of a tool takes\<close>

definition errno_text :: "string \<Rightarrow> string \<Rightarrow> path \<Rightarrow> string" where
  "errno_text n m p = ''[Errno '' @ n @ ''] '' @ m @ '': '' @ py_repr (str_path p)"

definition no_entry :: "path \<Rightarrow> os_error" where
  "no_entry p = Missing (errno_text ''2'' ''No such file or directory'' p)"

definition not_a_directory :: "path \<Rightarrow> os_error" where
  "not_a_directory p = Failed (errno_text ''20'' ''Not a directory'' p)"

definition is_a_directory :: "path \<Rightarrow> os_error" where
  "is_a_directory p = Failed (errno_text ''21'' ''Is a directory'' p)"

definition file_exists :: "path \<Rightarrow> os_error" where
  "file_exists p = Failed (errno_text ''17'' ''File exists'' p)"

definition not_empty :: "path \<Rightarrow> os_error" where
  "not_empty p = Failed (errno_text ''39'' ''Directory not empty'' p)"

section \<open>Looking\<close>

text \<open>Where a path leads when every link is followed, and what is there.\<close>

definition follow :: "fs \<Rightarrow> path \<Rightarrow> path option" where
  "follow f p = walk f (link_budget f) [] p"

definition look :: "fs \<Rightarrow> path \<Rightarrow> node option" where
  "look f p = (case follow f p of None \<Rightarrow> None | Some q \<Rightarrow> nodes f q)"

definition path_exists :: "fs \<Rightarrow> path \<Rightarrow> bool" where
  "path_exists f p \<longleftrightarrow> look f p \<noteq> None"

definition path_is_dir :: "fs \<Rightarrow> path \<Rightarrow> bool" where
  "path_is_dir f p \<longleftrightarrow> look f p = Some Dir"

definition path_is_file :: "fs \<Rightarrow> path \<Rightarrow> bool" where
  "path_is_file f p \<longleftrightarrow> (case look f p of Some (File t) \<Rightarrow> True | _ \<Rightarrow> False)"

section \<open>Changing\<close>

definition put_node :: "path \<Rightarrow> node option \<Rightarrow> fs \<Rightarrow> fs" where
  "put_node p x f = f\<lparr>nodes := (nodes f)(p := x)\<rparr>"

definition remove_tree :: "path \<Rightarrow> fs \<Rightarrow> fs" where
  "remove_tree p f = f\<lparr>nodes := (\<lambda>q. if prefix p q then None else nodes f q)\<rparr>"

text \<open>The tree at \<open>p\<close>, also at \<open>d\<close>.\<close>

definition copy_tree :: "path \<Rightarrow> path \<Rightarrow> fs \<Rightarrow> fs" where
  "copy_tree p d f = f\<lparr>nodes := (\<lambda>q. if prefix d q then nodes f (p @ drop (length d) q) else nodes f q)\<rparr>"

definition move_tree :: "path \<Rightarrow> path \<Rightarrow> fs \<Rightarrow> fs" where
  "move_tree p d f = f\<lparr>nodes := (\<lambda>q. if prefix d q then nodes f (p @ drop (length d) q)
     else if prefix p q then None else nodes f q)\<rparr>"

text \<open>A call the operating system may refuse, with what it leaves when it does.\<close>

definition sys :: "os \<Rightarrow> os_call \<Rightarrow> path \<Rightarrow> (fs \<Rightarrow> fs) \<Rightarrow> (fs \<Rightarrow> fs) \<Rightarrow> fs \<Rightarrow> os_error option \<times> fs" where
  "sys os c p refused done f = (case os_fault os c p of Some e \<Rightarrow> (Some e, refused f) | None \<Rightarrow> (None, done f))"

text \<open>\<open>path.mkdir(parents=True, exist_ok=True)\<close>, from the root down.\<close>

fun make_dirs :: "os \<Rightarrow> path \<Rightarrow> string list \<Rightarrow> fs \<Rightarrow> os_error option \<times> fs" where
  "make_dirs os acc [] f = (None, f)"
| "make_dirs os acc (c # cs) f =
     (case nodes f (acc @ [c]) of
        Some Dir \<Rightarrow> make_dirs os (acc @ [c]) cs f
      | Some _ \<Rightarrow> (Some (if cs = [] then file_exists (acc @ [c]) else not_a_directory (acc @ [c] @ cs)), f)
      | None \<Rightarrow>
          (case sys os Sys_mkdir (acc @ [c]) id (put_node (acc @ [c]) (Some Dir)) f of
             (Some e, f') \<Rightarrow> (Some e, f')
           | (None, f') \<Rightarrow> make_dirs os (acc @ [c]) cs f'))"

text \<open>\<open>path.open("rb").read()\<close>.\<close>

definition read_file :: "os \<Rightarrow> path \<Rightarrow> fs \<Rightarrow> os_error + string" where
  "read_file os p f = (case os_fault os Sys_read p of Some e \<Rightarrow> Inl e
     | None \<Rightarrow> (case look f p of None \<Rightarrow> Inl (no_entry p) | Some (File t) \<Rightarrow> Inr t | Some _ \<Rightarrow> Inl (is_a_directory p)))"

definition os_class :: "os_error \<Rightarrow> string" where
  "os_class e = (case e of Missing t \<Rightarrow> ''FileNotFoundError'' | Denied t \<Rightarrow> ''PermissionError'' | Failed t \<Rightarrow> ''OSError'')"

definition os_raised :: "os_error \<Rightarrow> string" where
  "os_raised e = os_class e @ '': '' @ os_text e"

text \<open>\<open>path.exists()\<close>, which is false for what is missing and raises what else \<open>stat\<close> does.\<close>

definition exists_or_raises :: "os \<Rightarrow> fs \<Rightarrow> ppath \<Rightarrow> string + bool" where
  "exists_or_raises os f p = (case resolve_path f p of
     None \<Rightarrow> Inr False
   | Some q \<Rightarrow> (case os_fault os Sys_stat q of
        Some (Missing t) \<Rightarrow> Inr False
      | Some e \<Rightarrow> Inl (os_raised e)
      | None \<Rightarrow> Inr (nodes f q \<noteq> None)))"

text \<open>
  \<open>path.read_text(encoding="utf-8")\<close>. \<open>text_mode\<close> is the decoding with its newlines, \<open>None\<close> for bytes that
  are not UTF-8, which is a \<open>ValueError\<close> and no \<open>OSError\<close>.
\<close>

datatype read_text = Text_read string | Text_os os_error | Text_not_utf8

definition read_text_file :: "os \<Rightarrow> (string \<Rightarrow> string option) \<Rightarrow> path \<Rightarrow> fs \<Rightarrow> read_text" where
  "read_text_file os text_mode p f = (case read_file os p f of Inl e \<Rightarrow> Text_os e
     | Inr raw \<Rightarrow> (case text_mode raw of None \<Rightarrow> Text_not_utf8 | Some t \<Rightarrow> Text_read t))"

text \<open>\<open>open(path, "wb").write(content)\<close>: links are followed, the file is truncated when it opens.\<close>

definition write_file :: "os \<Rightarrow> path \<Rightarrow> string \<Rightarrow> fs \<Rightarrow> os_error option \<times> fs" where
  "write_file os p content f =
     (case follow f p of
        None \<Rightarrow> (Some (Failed (errno_text ''40'' ''Too many levels of symbolic links'' p)), f)
      | Some q \<Rightarrow>
          if nodes f q = Some Dir then (Some (is_a_directory p), f)
          else if nodes f (butlast q) = None then (Some (no_entry p), f)
          else if nodes f (butlast q) \<noteq> Some Dir then (Some (not_a_directory p), f)
          else (case os_fault os Sys_open q of
              Some e \<Rightarrow> (Some e, f)
            | None \<Rightarrow> sys os Sys_write q (put_node q (Some (File (os_partial os q content))))
                (put_node q (Some (File content))) f))"

text \<open>
  \<open>shutil.copy2(src, dst)\<close>: into \<open>dst\<close> when that is a directory. \<open>shown\<close> is the \<open>repr\<close> of its two
  arguments, \<open>PosixPath\<close> objects or strings.
\<close>

definition path_base :: "path \<Rightarrow> path" where
  "path_base p = (if p = [] then [] else [last p])"

definition copy2 :: "os \<Rightarrow> (path \<Rightarrow> string) \<Rightarrow> path \<Rightarrow> path \<Rightarrow> fs \<Rightarrow> os_error option \<times> fs" where
  "copy2 os shown src dst f =
     (let into = path_is_dir f dst; d = (if into then dst @ path_base src else dst) in
      if path_exists f d \<and> follow f src = follow f d
      then (Some (Failed (shown src @ '' and '' @ (if into then py_repr (str_path d) else shown d) @ '' are the same file'')), f)
      else case read_file os src f of
        Inl e \<Rightarrow> (Some e, f)
      | Inr content \<Rightarrow>
          (case write_file os d content f of
             (Some e, f') \<Rightarrow> (Some e, f')
           | (None, f') \<Rightarrow> (os_fault os Sys_copystat d, f')))"

definition unlink_file :: "os \<Rightarrow> path \<Rightarrow> fs \<Rightarrow> os_error option \<times> fs" where
  "unlink_file os p f =
     (case nodes f p of
        None \<Rightarrow> (Some (no_entry p), f)
      | Some Dir \<Rightarrow> (Some (is_a_directory p), f)
      | Some _ \<Rightarrow> sys os Sys_unlink p id (put_node p None) f)"

definition remove_dir :: "os \<Rightarrow> path \<Rightarrow> fs \<Rightarrow> os_error option \<times> fs" where
  "remove_dir os p f =
     (case nodes f p of
        None \<Rightarrow> (Some (no_entry p), f)
      | Some Dir \<Rightarrow> if os_scan os f p = [] then sys os Sys_rmdir p id (put_node p None) f else (Some (not_empty p), f)
      | Some _ \<Rightarrow> (Some (not_a_directory p), f))"

definition rmtree :: "os \<Rightarrow> path \<Rightarrow> fs \<Rightarrow> os_error option \<times> fs" where
  "rmtree os p f =
     (case nodes f p of
        None \<Rightarrow> (Some (no_entry p), f)
      | Some Dir \<Rightarrow> sys os Sys_rmtree p (os_left os Sys_rmtree p) (remove_tree p) f
      | Some _ \<Rightarrow> (Some (not_a_directory p), f))"

text \<open>\<open>shutil.copytree(src, dst, symlinks=True)\<close>; \<open>os.makedirs(dst)\<close> comes first.\<close>

definition copytree :: "os \<Rightarrow> path \<Rightarrow> path \<Rightarrow> fs \<Rightarrow> os_error option \<times> fs" where
  "copytree os src dst f =
     (if nodes f dst \<noteq> None then (Some (file_exists dst), f)
      else sys os Sys_copytree dst (os_left os Sys_copytree dst) (copy_tree src dst) f)"

text \<open>\<open>os.rename\<close>: both ends name the entry itself, links included.\<close>

definition rename_error :: "string \<Rightarrow> string \<Rightarrow> path \<Rightarrow> path \<Rightarrow> os_error" where
  "rename_error n m src dst = Failed (errno_text n m src @ '' -> '' @ py_repr (str_path dst))"

definition rename :: "os \<Rightarrow> path \<Rightarrow> path \<Rightarrow> fs \<Rightarrow> os_error option \<times> fs" where
  "rename os src dst f =
     (case (nodes f src, nodes f dst) of
        (None, _) \<Rightarrow> (Some (rename_error ''2'' ''No such file or directory'' src dst), f)
      | (Some a, b) \<Rightarrow>
          if nodes f (butlast dst) = None then (Some (rename_error ''2'' ''No such file or directory'' src dst), f)
          else if nodes f (butlast dst) \<noteq> Some Dir then (Some (rename_error ''20'' ''Not a directory'' src dst), f)
          else if src = dst then (None, f)
          else if prefix src dst then (Some (rename_error ''22'' ''Invalid argument'' src dst), f)
          else if a = Dir \<and> b \<noteq> None \<and> b \<noteq> Some Dir then (Some (rename_error ''20'' ''Not a directory'' src dst), f)
          else if a \<noteq> Dir \<and> b = Some Dir then (Some (rename_error ''21'' ''Is a directory'' src dst), f)
          else if b = Some Dir \<and> os_scan os f dst \<noteq> [] then (Some (rename_error ''39'' ''Directory not empty'' src dst), f)
          else sys os Sys_rename src id (move_tree src dst) f)"

definition quoted :: "path \<Rightarrow> string" where
  "quoted p = [CHR 0x27] @ str_path p @ [CHR 0x27]"

text \<open>\<open>shutil.move(src, dst)\<close>, with its fallback to a copy when \<open>os.rename\<close> is refused.\<close>

definition move_fallback :: "os \<Rightarrow> path \<Rightarrow> path \<Rightarrow> path \<Rightarrow> fs \<Rightarrow> os_error option \<times> fs" where
  "move_fallback os src dst target f =
     (if path_is_dir f src then
        if prefix src dst then (Some (Failed (''Cannot move a directory '' @ quoted src @ '' into itself '' @ quoted dst @ ''.'')), f)
        else (case copytree os src target f of (Some e, f') \<Rightarrow> (Some e, f') | (None, f') \<Rightarrow> rmtree os src f')
      else (case copy2 os (\<lambda>p. py_repr (str_path p)) src target f of (Some e, f') \<Rightarrow> (Some e, f') | (None, f') \<Rightarrow> unlink_file os src f'))"

definition move_path :: "os \<Rightarrow> path \<Rightarrow> path \<Rightarrow> fs \<Rightarrow> os_error option \<times> fs" where
  "move_path os src dst f =
     (let into = path_is_dir f dst \<and> src \<noteq> dst;
          target = (if into then dst @ path_base src else dst) in
      if into \<and> path_exists f target
      then (Some (Failed (''Destination path '' @ quoted target @ '' already exists'')), f)
      else case rename os src target f of
        (None, f') \<Rightarrow> (None, f')
      | (Some e, f') \<Rightarrow> if path_is_dir f dst \<and> src = dst then (Some e, f') else move_fallback os src dst target f')"

section \<open>What is relied on\<close>

definition children :: "fs \<Rightarrow> path \<Rightarrow> string set" where
  "children f p = {c. nodes f (p @ [c]) \<noteq> None}"

text \<open>
  A change within a territory \<open>T\<close>: entries elsewhere are as they were, and where there was no link
  in the territory there is none after.
\<close>

definition link_free :: "(path \<Rightarrow> bool) \<Rightarrow> fs \<Rightarrow> bool" where
  "link_free T f \<longleftrightarrow> (\<forall>q. T q \<longrightarrow> \<not> is_symlink f q)"

definition keeps :: "(path \<Rightarrow> bool) \<Rightarrow> fs \<Rightarrow> fs \<Rightarrow> bool" where
  "keeps T f f' \<longleftrightarrow> cwd f' = cwd f \<and> home_of f' = home_of f \<and> link_budget f' = link_budget f
     \<and> (\<forall>q. \<not> T q \<longrightarrow> nodes f' q = nodes f q) \<and> (link_free T f \<longrightarrow> link_free T f')"

text \<open>A recursive operation that fails half-way has changed nothing outside its tree, and made no link.\<close>

definition os_ok :: "os \<Rightarrow> bool" where
  "os_ok os \<longleftrightarrow> (\<forall>c p f. keeps (prefix p) f (os_left os c p f))"

section \<open>Changes within a territory\<close>

lemma keeps_refl [simp]: "keeps T f f"
  by (simp add: keeps_def)

lemma keeps_trans: "keeps T f1 f2 \<Longrightarrow> keeps T f2 f3 \<Longrightarrow> keeps T f1 f3"
  by (simp add: keeps_def)

lemma follow_canonical: "canonical f p \<Longrightarrow> follow f p = Some p"
  using walk_along [of f "[]" p] by (simp add: follow_def)

lemma look_canonical: "canonical f p \<Longrightarrow> look f p = nodes f p"
  by (simp add: look_def follow_canonical)

locale territory =
  fixes T :: "path \<Rightarrow> bool"
  assumes T_closed: "T p \<Longrightarrow> prefix p q \<Longrightarrow> T q"
begin

lemma keeps_mono: "T p \<Longrightarrow> keeps (prefix p) f f' \<Longrightarrow> keeps T f f'"
  unfolding keeps_def link_free_def is_symlink_def using T_closed by (metis (no_types, lifting))

lemma keeps_put: "T p \<Longrightarrow> (\<And>t. x \<noteq> Some (Link t)) \<Longrightarrow> keeps T f (put_node p x f)"
  by (auto simp: keeps_def put_node_def link_free_def is_symlink_def split: option.splits node.splits)

lemma keeps_remove: "T p \<Longrightarrow> keeps T f (remove_tree p f)"
  using T_closed by (auto simp: keeps_def remove_tree_def link_free_def is_symlink_def)

lemma keeps_copy: "T p \<Longrightarrow> T d \<Longrightarrow> keeps T f (copy_tree p d f)"
  using T_closed by (auto simp: keeps_def copy_tree_def link_free_def is_symlink_def)

lemma keeps_move: "T p \<Longrightarrow> T d \<Longrightarrow> keeps T f (move_tree p d f)"
  using T_closed by (auto simp: keeps_def move_tree_def link_free_def is_symlink_def)

lemma keeps_sys: "keeps T f (refused f) \<Longrightarrow> keeps T f (done f) \<Longrightarrow> keeps T f (snd (sys os c p refused done f))"
  by (simp add: sys_def split: option.splits)

lemma keeps_left: "os_ok os \<Longrightarrow> T p \<Longrightarrow> keeps T f (os_left os c p f)"
  by (erule keeps_mono) (simp add: os_ok_def)

text \<open>Directories are only made in the territory when the others on the way exist.\<close>

lemma keeps_make_dirs:
  "(\<And>q. prefix q (acc @ cs) \<Longrightarrow> q \<noteq> [] \<Longrightarrow> T q \<or> nodes f q = Some Dir) \<Longrightarrow> keeps T f (snd (make_dirs os acc cs f))"
proof (induction cs arbitrary: acc f)
  case (Cons c cs)
  have here: "T (acc @ [c]) \<or> nodes f (acc @ [c]) = Some Dir" by (rule Cons.prems) (simp_all add: prefix_def)
  show ?case
  proof (cases "nodes f (acc @ [c])")
    case None
    with here have T: "T (acc @ [c])" by simp
    let ?f = "put_node (acc @ [c]) (Some Dir) f"
    have "keeps T f ?f" by (rule keeps_put [OF T]) simp
    moreover have "keeps T ?f (snd (make_dirs os (acc @ [c]) cs ?f))"
      using Cons.prems by (intro Cons.IH) (auto simp: put_node_def)
    ultimately have "keeps T f (snd (make_dirs os (acc @ [c]) cs ?f))" by (rule keeps_trans)
    with None show ?thesis by (simp add: sys_def split: option.splits)
  next
    case (Some n)
    have "keeps T f (snd (make_dirs os (acc @ [c]) cs f))" by (rule Cons.IH) (use Cons.prems in simp)
    with Some show ?thesis by (cases n) simp_all
  qed
qed simp

lemma keeps_write_file: "(\<And>q. follow f p = Some q \<Longrightarrow> T q) \<Longrightarrow> keeps T f (snd (write_file os p content f))"
  unfolding write_file_def
  by (auto simp: keeps_put intro!: keeps_sys split: option.splits)

lemma keeps_copy2:
  assumes "\<And>q. follow f dst = Some q \<Longrightarrow> T q" "path_is_dir f dst \<Longrightarrow> (\<And>q. follow f (dst @ path_base src) = Some q \<Longrightarrow> T q)"
  shows "keeps T f (snd (copy2 os shown src dst f))"
proof -
  define d where "d = (if path_is_dir f dst then dst @ path_base src else dst)"
  have w: "keeps T f (snd (write_file os d content f))" for content
    by (rule keeps_write_file) (use assms in \<open>auto simp: d_def split: if_splits\<close>)
  then have w': "write_file os d content f = (r, f') \<Longrightarrow> keeps T f f'" for content r f' by (metis snd_conv)
  show ?thesis unfolding copy2_def Let_def d_def [symmetric]
    by (auto dest: w' split: sum.splits option.splits prod.splits)
qed

lemma keeps_unlink: "T p \<Longrightarrow> keeps T f (snd (unlink_file os p f))" "T p \<Longrightarrow> keeps T f (snd (remove_dir os p f))"
  by (auto simp: unlink_file_def remove_dir_def keeps_put intro!: keeps_sys split: option.splits node.splits)

lemma keeps_rmtree: "os_ok os \<Longrightarrow> T p \<Longrightarrow> keeps T f (snd (rmtree os p f))"
  by (auto simp: rmtree_def keeps_remove keeps_left intro!: keeps_sys split: option.splits node.splits)

lemma keeps_copytree: "os_ok os \<Longrightarrow> T src \<Longrightarrow> T dst \<Longrightarrow> keeps T f (snd (copytree os src dst f))"
  by (auto simp: copytree_def keeps_copy keeps_left intro!: keeps_sys)

lemma keeps_rename: "T src \<Longrightarrow> T dst \<Longrightarrow> keeps T f (snd (rename os src dst f))"
  by (auto simp: rename_def keeps_move intro!: keeps_sys split: option.splits)

lemma rename_refused: "rename os src dst f = (Some e, f') \<Longrightarrow> f' = f"
  by (auto simp: rename_def sys_def split: option.splits if_splits)

lemma keeps_fallback:
  assumes "os_ok os" "T src" "T target" "canonical f target" "\<not> path_is_dir f target"
  shows "keeps T f (snd (move_fallback os src dst target f))"
proof -
  have copy: "copy2 os shown src target f = (r, f') \<Longrightarrow> keeps T f f'" for shown r f'
    using keeps_copy2 [of f target src os shown] assms(3-5) by (simp add: follow_canonical)
  have tree: "copytree os src target f = (r, f') \<Longrightarrow> keeps T f f'" for r f'
    using keeps_copytree [OF assms(1-3), of f] by simp
  have "keeps T f1 (snd (rmtree os src f1))" "keeps T f1 (snd (unlink_file os src f1))" for f1
    using keeps_rmtree keeps_unlink assms(1,2) by blast+
  then show ?thesis unfolding move_fallback_def
    by (auto split: prod.splits option.splits dest!: copy tree intro: keeps_trans)
qed

lemma keeps_move_path:
  assumes "os_ok os" "T src" "T dst" "canonical f dst" "path_is_dir f dst \<Longrightarrow> canonical f (dst @ path_base src)"
  shows "keeps T f (snd (move_path os src dst f))"
proof -
  define into where "into = (path_is_dir f dst \<and> src \<noteq> dst)"
  define target where "target = (if into then dst @ path_base src else dst)"
  have T: "T target" using assms(3) T_closed by (auto simp: target_def)
  have c: "canonical f target" using assms(4,5) by (auto simp: target_def into_def)
  have r: "rename os src target f = (None, f') \<Longrightarrow> keeps T f f'" for f'
    using keeps_rename [OF assms(2) T, of f os] by simp
  have fb: "keeps T f (snd (move_fallback os src dst target f))"
    if "\<not> (into \<and> path_exists f target)" "\<not> (path_is_dir f dst \<and> src = dst)"
    using that by (intro keeps_fallback assms(1,2) T c)
      (auto simp: target_def into_def path_exists_def path_is_dir_def split: if_splits)
  show ?thesis unfolding move_path_def Let_def into_def [symmetric] target_def [symmetric]
    using fb by (auto split: prod.splits option.splits dest: r rename_refused)
qed

end

end
