(* ===== verification/Tool_Filesystem.thy ===== *)
theory Tool_Filesystem
  imports Tool_Base Py_Files "HOL-Library.Product_Lexorder"
begin

text \<open>
  \<open>tools/filesystem.py\<close>: the seven file tools. Each has its typed arguments with the limits their
  fields declare, its classification, the paths it reports to policy, and its run. Runs happen in a
  worker thread: one that outlives its budget is reported as a timeout, but its effect stays.
\<close>

definition MAX_READ_BYTES :: nat where
  "MAX_READ_BYTES = 1024 * 1024"

definition MAX_WRITE_BYTES :: nat where
  "MAX_WRITE_BYTES = 4 * 1024 * 1024"

definition MAX_ENTRIES :: nat where
  "MAX_ENTRIES = 1000"

section \<open>Arguments\<close>

record list_args =
  la_path :: string
  la_limit :: int
  la_hidden :: bool

record read_args =
  ra_path :: string
  ra_max_bytes :: int
  ra_encoding :: string

record write_args =
  wa_path :: string
  wa_content :: string
  wa_create_parents :: bool
  wa_overwrite :: bool

record move_args =
  ma_source :: string
  ma_destination :: string
  ma_overwrite :: bool

record delete_args =
  da_path :: string
  da_recursive :: bool

datatype file_call = F_list list_args | F_stat string | F_read read_args | F_mkdir string
  | F_write write_args | F_move move_args | F_delete delete_args

definition path_arg_ok :: "string \<Rightarrow> bool" where
  "path_arg_ok p \<longleftrightarrow> 1 \<le> length p \<and> length p \<le> 4096"

fun file_call_ok :: "file_call \<Rightarrow> bool" where
  "file_call_ok (F_list a) \<longleftrightarrow> path_arg_ok (la_path a) \<and> 1 \<le> la_limit a \<and> la_limit a \<le> int MAX_ENTRIES"
| "file_call_ok (F_stat p) \<longleftrightarrow> path_arg_ok p"
| "file_call_ok (F_read a) \<longleftrightarrow> path_arg_ok (ra_path a) \<and> 1 \<le> ra_max_bytes a \<and> ra_max_bytes a \<le> int MAX_READ_BYTES
     \<and> length (ra_encoding a) \<le> 32"
| "file_call_ok (F_mkdir p) \<longleftrightarrow> path_arg_ok p"
| "file_call_ok (F_write a) \<longleftrightarrow> path_arg_ok (wa_path a) \<and> length (wa_content a) \<le> MAX_WRITE_BYTES"
| "file_call_ok (F_move a) \<longleftrightarrow> path_arg_ok (ma_source a) \<and> path_arg_ok (ma_destination a)"
| "file_call_ok (F_delete a) \<longleftrightarrow> path_arg_ok (da_path a)"

fun file_tool_name :: "file_call \<Rightarrow> string" where
  "file_tool_name (F_list a) = ''fs.list''"
| "file_tool_name (F_stat p) = ''fs.stat''"
| "file_tool_name (F_read a) = ''fs.read''"
| "file_tool_name (F_mkdir p) = ''fs.mkdir''"
| "file_tool_name (F_write a) = ''fs.write''"
| "file_tool_name (F_move a) = ''fs.move''"
| "file_tool_name (F_delete a) = ''fs.delete''"

fun file_paths :: "file_call \<Rightarrow> string list" where
  "file_paths (F_list a) = [la_path a]"
| "file_paths (F_stat p) = [p]"
| "file_paths (F_read a) = [ra_path a]"
| "file_paths (F_mkdir p) = [p]"
| "file_paths (F_write a) = [wa_path a]"
| "file_paths (F_move a) = [ma_source a, ma_destination a]"
| "file_paths (F_delete a) = [da_path a]"

section \<open>Classification\<close>

text \<open>\<open>ctx.workspace\<close>, which raises when it does not resolve.\<close>

definition workspace_of :: "tool_context \<Rightarrow> fs \<Rightarrow> scrappy_error + ppath" where
  "workspace_of ctx f = (case context_workspace f ctx of
     None \<Rightarrow> Inl (Invalid ''RuntimeError'') | Some w \<Rightarrow> Inr (of_resolved w))"

definition classify_move :: "move_args \<Rightarrow> ppath \<Rightarrow> fs \<Rightarrow> scrappy_error + risk_level \<times> string" where
  "classify_move a w f =
     ebind (classify_path_delete f (ma_source a) w) (\<lambda>(source_risk, source_reason).
     ebind (classify_path_write f (ma_destination a) w) (\<lambda>(dest_risk, dest_reason).
     Inr (if rank dest_risk \<le> rank source_risk then (source_risk, ''source: '' @ source_reason)
          else (dest_risk, ''destination: '' @ dest_reason))))"

definition classify_delete :: "delete_args \<Rightarrow> ppath \<Rightarrow> fs \<Rightarrow> scrappy_error + risk_level \<times> string" where
  "classify_delete a w f =
     ebind (classify_path_delete f (da_path a) w) (\<lambda>(risk, reason).
     Inr (if da_recursive a \<and> risk = WRITE then (WRITE, reason @ '' (recursive)'') else (risk, reason)))"

fun file_classify :: "file_call \<Rightarrow> tool_context \<Rightarrow> fs \<Rightarrow> scrappy_error + risk_level \<times> string" where
  "file_classify (F_mkdir p) ctx f = ebind (workspace_of ctx f) (\<lambda>w. classify_path_write f p w)"
| "file_classify (F_write a) ctx f = ebind (workspace_of ctx f) (\<lambda>w. classify_path_write f (wa_path a) w)"
| "file_classify (F_move a) ctx f = ebind (workspace_of ctx f) (\<lambda>w. classify_move a w f)"
| "file_classify (F_delete a) ctx f = ebind (workspace_of ctx f) (\<lambda>w. classify_delete a w f)"
| "file_classify c ctx f = default_classify (file_tool_name c) READ [] ctx f"

section \<open>Rendering\<close>

text \<open>\<open>f"{count:.1f}"\<close> rounds the exact quotient half to even.\<close>

definition tenths :: "nat \<Rightarrow> nat \<Rightarrow> nat" where
  "tenths n d = (let q = 10 * n div d; r = 10 * n mod d in if 2 * r < d \<or> 2 * r = d \<and> even q then q else Suc q)"

definition one_decimal :: "nat \<Rightarrow> nat \<Rightarrow> string" where
  "one_decimal n d = str_nat (tenths n d div 10) @ ''.'' @ str_nat (tenths n d mod 10)"

fun human_units :: "nat \<Rightarrow> nat \<Rightarrow> string list \<Rightarrow> string" where
  "human_units n d [] = one_decimal n d @ ''EiB''"
| "human_units n d (u # us) = (if n < 1024 * d then (if u = ''B'' then str_nat (n div d) @ ''B'' else one_decimal n d @ u)
     else human_units n (1024 * d) us)"

definition human_bytes :: "nat \<Rightarrow> string" where
  "human_bytes n = human_units n 1 [''B'', ''KiB'', ''MiB'', ''GiB'', ''TiB'', ''PiB'']"

fun octal :: "nat \<Rightarrow> string" where
  "octal n = (if n < 8 then str_nat n else octal (n div 8) @ str_nat (n mod 8))"

definition entry_type :: "fs \<Rightarrow> path \<Rightarrow> string" where
  "entry_type f p = (case nodes f p of Some Dir \<Rightarrow> ''directory'' | Some (Link t) \<Rightarrow> ''symlink'' | _ \<Rightarrow> ''file'')"

definition describe_entry :: "os \<Rightarrow> fs \<Rightarrow> path \<Rightarrow> string \<Rightarrow> payload" where
  "describe_entry os f p name =
     [(''name'', PStr name), (''type'', PStr (entry_type f (p @ [name])))] @
     (case os_fault os Sys_stat (p @ [name]) of
        Some e \<Rightarrow> [(''size_bytes'', PInt 0), (''modified_at'', PNone)]
      | None \<Rightarrow> [(''size_bytes'', PInt (int (st_size (os_stat os f (p @ [name]))))),
                 (''modified_at'', PStr (iso_datetime ''T'' (st_mtime (os_stat os f (p @ [name])))))])"

definition path_type :: "fs \<Rightarrow> path \<Rightarrow> string" where
  "path_type f p = (if is_symlink f p then ''symlink'' else if path_is_dir f p then ''directory''
     else if path_is_file f p then ''file'' else ''other'')"

text \<open>\<open>content.encode("utf-8")\<close>, of the code points a string of the model can hold.\<close>

definition utf8_char :: "char \<Rightarrow> string" where
  "utf8_char c = (let n = (of_char c :: nat) in
     if n < 128 then [c] else [char_of (192 + n div 64), char_of (128 + n mod 64)])"

definition utf8_encode :: "string \<Rightarrow> string" where
  "utf8_encode s = concat (map utf8_char s)"

section \<open>Runs\<close>

text \<open>\<open>except OSError as exc: raise ToolError(f"{what}: {exc}")\<close>.\<close>

definition os_failure :: "string \<Rightarrow> string \<Rightarrow> os_error \<Rightarrow> scrappy_error" where
  "os_failure tool what e = ToolError (what @ '': '' @ os_text e) tool"

definition denied_or :: "string \<Rightarrow> string \<Rightarrow> string \<Rightarrow> os_error \<Rightarrow> scrappy_error" where
  "denied_or tool denied what e = (case e of Denied t \<Rightarrow> ToolError denied tool | _ \<Rightarrow> os_failure tool what e)"

definition run_list :: "os \<Rightarrow> path \<Rightarrow> int \<Rightarrow> bool \<Rightarrow> fs \<Rightarrow> scrappy_error + payload" where
  "run_list os p limit hidden f =
     (if \<not> path_is_dir f p then Inl (ToolError (str_path p @ '' is not a directory'') ''fs.list'')
      else case os_fault os Sys_scan p of
        Some e \<Rightarrow> Inl (denied_or ''fs.list'' (''Permission denied reading '' @ str_path p) (''Cannot list '' @ str_path p) e)
      | None \<Rightarrow>
          (let names = filter (\<lambda>n. hidden \<or> \<not> prefix ''.'' n) (os_scan os f p);
               entries = sort_key (\<lambda>n. (entry_type f (p @ [n]) \<noteq> ''directory'', n)) (take (nat limit) names)
           in Inr [(''path'', PStr (str_path p)), (''entries'', PList (map (\<lambda>n. PDict (describe_entry os f p n)) entries)),
                   (''count'', PInt (int (length entries))), (''truncated'', PBool (nat limit < length names))]))"

definition run_stat :: "os \<Rightarrow> path \<Rightarrow> fs \<Rightarrow> scrappy_error + payload" where
  "run_stat os p f =
     (case (case os_fault os Sys_stat p of Some e \<Rightarrow> Some e | None \<Rightarrow> if nodes f p = None then Some (no_entry p) else None) of
        Some (Missing t) \<Rightarrow> Inl (ToolError (str_path p @ '' does not exist'') ''fs.stat'')
      | Some e \<Rightarrow> Inl (os_failure ''fs.stat'' (''Cannot stat '' @ str_path p) e)
      | None \<Rightarrow> (let info = os_stat os f p in Inr
          [(''path'', PStr (str_path p)), (''exists'', PBool True), (''type'', PStr (path_type f p)),
           (''size_bytes'', PInt (int (st_size info))), (''size_human'', PStr (human_bytes (st_size info))),
           (''mode'', PStr (''0o'' @ octal (st_mode info mod 4096))), (''uid'', PInt (int (st_uid info))), (''gid'', PInt (int (st_gid info))),
           (''modified_at'', PStr (iso_datetime ''T'' (st_mtime info))), (''is_symlink'', PBool (is_symlink f p))]))"

definition count_lines :: "string \<Rightarrow> nat" where
  "count_lines t = length (filter (\<lambda>c. c = CHR 0x0A) t) + (if t \<noteq> [] \<and> last t \<noteq> CHR 0x0A then 1 else 0)"

text \<open>\<open>decode\<close> is \<open>bytes.decode(encoding, errors="replace")\<close>; \<open>None\<close> is \<open>LookupError\<close>.\<close>

definition run_read :: "os \<Rightarrow> (string \<Rightarrow> string \<Rightarrow> string option) \<Rightarrow> path \<Rightarrow> int \<Rightarrow> string \<Rightarrow> fs \<Rightarrow> scrappy_error + payload" where
  "run_read os decode p max_bytes encoding f =
     (if path_is_dir f p then Inl (ToolError (str_path p @ '' is a directory'') ''fs.read'')
      else case read_file os p f of
        Inl (Missing t) \<Rightarrow> Inl (ToolError (str_path p @ '' does not exist'') ''fs.read'')
      | Inl e \<Rightarrow> Inl (denied_or ''fs.read'' (''Permission denied reading '' @ str_path p) (''Cannot read '' @ str_path p) e)
      | Inr bytes \<Rightarrow>
          (case decode encoding (take (nat max_bytes) bytes) of
             None \<Rightarrow> Inl (ToolError (''Unknown encoding '' @ py_repr encoding) ''fs.read'')
           | Some text0 \<Rightarrow> Inr
              [(''path'', PStr (str_path p)), (''content'', PStr text0),
               (''bytes_read'', PInt (int (length (take (nat max_bytes) bytes)))),
               (''truncated'', PBool (nat max_bytes < length bytes)), (''lines'', PInt (int (count_lines text0)))]))"

definition run_mkdir :: "os \<Rightarrow> path \<Rightarrow> fs \<Rightarrow> (scrappy_error + payload) \<times> fs" where
  "run_mkdir os p f = (let existed = path_exists f p in
     case make_dirs os [] p f of
       (Some e, f') \<Rightarrow> (Inl (os_failure ''fs.mkdir'' (''Cannot create '' @ str_path p) e), f')
     | (None, f') \<Rightarrow> (Inr [(''path'', PStr (str_path p)), (''created'', PBool (\<not> existed)), (''already_existed'', PBool existed)], f'))"

text \<open>\<open>resolved.with_suffix(resolved.suffix + ".scrappy-bak")\<close>: the name, extended.\<close>

definition backup_path :: "path \<Rightarrow> path" where
  "backup_path p = butlast p @ [last p @ ''.scrappy-bak'']"

definition posix_path :: "path \<Rightarrow> string" where
  "posix_path p = ''PosixPath('' @ py_repr (str_path p) @ '')''"

text \<open>The block under \<open>try\<close>: the error, or nothing, and the files after it.\<close>

definition write_steps :: "os \<Rightarrow> bool \<Rightarrow> path \<Rightarrow> write_args \<Rightarrow> fs \<Rightarrow> os_error option \<times> fs" where
  "write_steps os existed p a f =
     (case (if wa_create_parents a then make_dirs os [] (butlast p) f else (None, f)) of
        (Some e, f1) \<Rightarrow> (Some e, f1)
      | (None, f1) \<Rightarrow>
          (case (if existed then copy2 os posix_path p (backup_path p) f1 else (None, f1)) of
             (Some e, f2) \<Rightarrow> (Some e, f2)
           | (None, f2) \<Rightarrow> write_file os p (utf8_encode (wa_content a)) f2))"

definition run_write :: "os \<Rightarrow> path \<Rightarrow> write_args \<Rightarrow> fs \<Rightarrow> (scrappy_error + payload) \<times> fs" where
  "run_write os p a f = (let existed = path_exists f p in
     if existed \<and> \<not> wa_overwrite a then (Inl (ToolError (str_path p @ '' exists; pass overwrite=true to replace it'') ''fs.write''), f)
     else if existed \<and> p = [] then (Inl (Invalid (''ValueError: '' @ posix_path [] @ '' has an empty name'')), f)
     else case write_steps os existed p a f of
       (Some e, f') \<Rightarrow> (Inl (os_failure ''fs.write'' (''Cannot write '' @ str_path p) e), f')
     | (None, f') \<Rightarrow> (Inr [(''path'', PStr (str_path p)), (''bytes_written'', PInt (int (length (utf8_encode (wa_content a))))),
         (''overwrote'', PBool existed), (''backup_path'', (if existed then PStr (str_path (backup_path p)) else PNone))], f'))"

definition run_move :: "os \<Rightarrow> path \<Rightarrow> path \<Rightarrow> bool \<Rightarrow> fs \<Rightarrow> (scrappy_error + payload) \<times> fs" where
  "run_move os src dst overwrite f =
     (if \<not> path_exists f src then (Inl (ToolError (str_path src @ '' does not exist'') ''fs.move''), f)
      else if path_exists f dst \<and> \<not> overwrite
        then (Inl (ToolError (str_path dst @ '' exists; pass overwrite=true to replace it'') ''fs.move''), f)
      else case (case make_dirs os [] (butlast dst) f of (Some e, f1) \<Rightarrow> (Some e, f1) | (None, f1) \<Rightarrow> move_path os src dst f1) of
        (Some e, f') \<Rightarrow> (Inl (os_failure ''fs.move'' (''Cannot move '' @ str_path src @ '' to '' @ str_path dst) e), f')
      | (None, f') \<Rightarrow> (Inr [(''source'', PStr (str_path src)), (''destination'', PStr (str_path dst)), (''moved'', PBool True)], f'))"

definition run_delete :: "os \<Rightarrow> path \<Rightarrow> bool \<Rightarrow> fs \<Rightarrow> (scrappy_error + payload) \<times> fs" where
  "run_delete os p recursive f =
     (let failed = (\<lambda>e. Inl (os_failure ''fs.delete'' (''Cannot delete '' @ str_path p) e));
          done = (\<lambda>kind. Inr [(''path'', PStr (str_path p)), (''deleted'', PBool True), (''type'', PStr kind)]) in
      if \<not> path_exists f p then (Inl (ToolError (str_path p @ '' does not exist'') ''fs.delete''), f)
      else if path_is_dir f p then
        (case os_fault os Sys_scan p of
           Some e \<Rightarrow> (failed e, f)
         | None \<Rightarrow>
             if os_scan os f p \<noteq> [] \<and> \<not> recursive
             then (Inl (ToolError (str_path p @ '' is not empty; pass recursive=true'') ''fs.delete''), f)
             else (case (if recursive then rmtree os p f else remove_dir os p f) of
                 (Some e, f') \<Rightarrow> (failed e, f') | (None, f') \<Rightarrow> (done ''directory'', f')))
      else (case unlink_file os p f of (Some e, f') \<Rightarrow> (failed e, f') | (None, f') \<Rightarrow> (done ''file'', f')))"

text \<open>The runs, with the validation of their paths. Reading leaves the files as they are.\<close>

definition readable :: "string \<Rightarrow> tool_context \<Rightarrow> fs \<Rightarrow> scrappy_error + path" where
  "readable p ctx f = ebind (workspace_of ctx f) (\<lambda>w. validate_read_path f p (read_roots ctx) (Some w))"

definition writable :: "string \<Rightarrow> tool_context \<Rightarrow> fs \<Rightarrow> scrappy_error + path" where
  "writable p ctx f = ebind (workspace_of ctx f) (\<lambda>w. validate_write_path f p w [])"

definition fs_list_run :: "os \<Rightarrow> list_args \<Rightarrow> tool_context \<Rightarrow> fs \<Rightarrow> scrappy_error + payload" where
  "fs_list_run os a ctx f = ebind (readable (la_path a) ctx f) (\<lambda>p. run_list os p (la_limit a) (la_hidden a) f)"

definition fs_stat_run :: "os \<Rightarrow> string \<Rightarrow> tool_context \<Rightarrow> fs \<Rightarrow> scrappy_error + payload" where
  "fs_stat_run os t ctx f = ebind (readable t ctx f) (\<lambda>p. run_stat os p f)"

definition fs_read_run :: "os \<Rightarrow> (string \<Rightarrow> string \<Rightarrow> string option) \<Rightarrow> read_args \<Rightarrow> tool_context \<Rightarrow> fs \<Rightarrow> scrappy_error + payload" where
  "fs_read_run os decode a ctx f = ebind (readable (ra_path a) ctx f) (\<lambda>p. run_read os decode p (ra_max_bytes a) (ra_encoding a) f)"

definition fs_mkdir_run :: "os \<Rightarrow> string \<Rightarrow> tool_context \<Rightarrow> fs \<Rightarrow> (scrappy_error + payload) \<times> fs" where
  "fs_mkdir_run os t ctx f = (case writable t ctx f of Inl e \<Rightarrow> (Inl e, f) | Inr p \<Rightarrow> run_mkdir os p f)"

definition fs_write_run :: "os \<Rightarrow> write_args \<Rightarrow> tool_context \<Rightarrow> fs \<Rightarrow> (scrappy_error + payload) \<times> fs" where
  "fs_write_run os a ctx f = (case writable (wa_path a) ctx f of Inl e \<Rightarrow> (Inl e, f) | Inr p \<Rightarrow> run_write os p a f)"

definition fs_move_run :: "os \<Rightarrow> move_args \<Rightarrow> tool_context \<Rightarrow> fs \<Rightarrow> (scrappy_error + payload) \<times> fs" where
  "fs_move_run os a ctx f =
     (case ebind (writable (ma_source a) ctx f) (\<lambda>src. ebind (writable (ma_destination a) ctx f) (\<lambda>dst. Inr (src, dst))) of
        Inl e \<Rightarrow> (Inl e, f) | Inr (src, dst) \<Rightarrow> run_move os src dst (ma_overwrite a) f)"

definition fs_delete_run :: "os \<Rightarrow> delete_args \<Rightarrow> tool_context \<Rightarrow> fs \<Rightarrow> (scrappy_error + payload) \<times> fs" where
  "fs_delete_run os a ctx f = (case writable (da_path a) ctx f of Inl e \<Rightarrow> (Inl e, f) | Inr p \<Rightarrow> run_delete os p (da_recursive a) f)"

fun run_file :: "os \<Rightarrow> (string \<Rightarrow> string \<Rightarrow> string option) \<Rightarrow> file_call \<Rightarrow> tool_context \<Rightarrow> fs \<Rightarrow> (scrappy_error + payload) \<times> fs" where
  "run_file os decode (F_list a) ctx f = (fs_list_run os a ctx f, f)"
| "run_file os decode (F_stat t) ctx f = (fs_stat_run os t ctx f, f)"
| "run_file os decode (F_read a) ctx f = (fs_read_run os decode a ctx f, f)"
| "run_file os decode (F_mkdir t) ctx f = fs_mkdir_run os t ctx f"
| "run_file os decode (F_write a) ctx f = fs_write_run os a ctx f"
| "run_file os decode (F_move a) ctx f = fs_move_run os a ctx f"
| "run_file os decode (F_delete a) ctx f = fs_delete_run os a ctx f"

section \<open>The tools\<close>

text \<open>
  A tool of the registry. \<open>dec\<close> is pydantic's reading of the argument dictionary in the input model of
  the tool of a name, so as a call of that tool; the limits its fields declare are checked here.
\<close>

definition parse_file :: "(string \<Rightarrow> payload \<Rightarrow> string + file_call) \<Rightarrow> string \<Rightarrow> payload \<Rightarrow> string + file_call" where
  "parse_file dec name p = ebind (dec name p) (\<lambda>c.
     if file_tool_name c = name \<and> file_call_ok c then Inr c else Inl ''value out of range'')"

definition end_of :: "scrappy_error + payload \<Rightarrow> run_end" where
  "end_of r = (case r of Inr out \<Rightarrow> Returned_output out
     | Inl e \<Rightarrow> if is_scrappy_error e then Raised_error e else Crashed (err_message e))"

definition file_tool ::
  "os \<Rightarrow> (string \<Rightarrow> string \<Rightarrow> string option) \<Rightarrow> (string \<Rightarrow> payload \<Rightarrow> string + file_call) \<Rightarrow> tool_class \<Rightarrow> fs tool" where
  "file_tool os decode dec cls =
     (let parse = parse_file dec (tl_name cls) in with_methods cls
        (\<lambda>p. ebind (parse p) (\<lambda>c. Inr p))
        (\<lambda>p ctx f. case parse p of Inl m \<Rightarrow> Inl (Invalid m) | Inr c \<Rightarrow> file_classify c ctx f)
        (\<lambda>p. case parse p of Inl m \<Rightarrow> [] | Inr c \<Rightarrow> file_paths c)
        (\<lambda>p ctx budget f. case parse p of
            Inl m \<Rightarrow> (Crashed m, 0, f)
          | Inr c \<Rightarrow> (let (r, f') = run_file os decode c ctx f; took = os_took os (tl_name cls) in
              (if budget < took then Timed_out else end_of r, min took budget, f'))))"

text \<open>The classes.\<close>

definition FSListTool :: tool_class where
  "FSListTool = base_class\<lparr>tl_name := ''fs.list'', tl_description := ''List directory entries with type, size and modification time.'',
     tl_params := [(''path'', True, ''string''), (''limit'', False, ''integer''), (''include_hidden'', False, ''boolean'')],
     tl_permissions := [''fs:read'']\<rparr>"

definition FSStatTool :: tool_class where
  "FSStatTool = base_class\<lparr>tl_name := ''fs.stat'', tl_description := ''Size, mode, owner, timestamps and type for one path.'',
     tl_params := [(''path'', True, ''string'')], tl_permissions := [''fs:read'']\<rparr>"

definition FSReadTool :: tool_class where
  "FSReadTool = base_class\<lparr>tl_name := ''fs.read'', tl_description := ''Read a UTF-8 text file, truncated to a byte budget.'',
     tl_params := [(''path'', True, ''string''), (''max_bytes'', False, ''integer''), (''encoding'', False, ''string'')],
     tl_permissions := [''fs:read'']\<rparr>"

definition FSMkdirTool :: tool_class where
  "FSMkdirTool = base_class\<lparr>tl_name := ''fs.mkdir'', tl_description := ''Create a directory, with parents, inside the workspace.'',
     tl_params := [(''path'', True, ''string'')], tl_risk := PRIVILEGED, tl_min_risk := Some WRITE, tl_permissions := [''fs:write''],
     tl_rollback := Some \<lparr>rb_supported = True, rb_description = ''Remove the created directory if it is still empty.'',
       rb_inverse_tool = Some ''fs.delete''\<rparr>\<rparr>"

definition FSWriteTool :: tool_class where
  "FSWriteTool = base_class\<lparr>tl_name := ''fs.write'', tl_description := ''Write UTF-8 text to a file inside the workspace.'',
     tl_params := [(''path'', True, ''string''), (''content'', True, ''string''), (''create_parents'', False, ''boolean''), (''overwrite'', False, ''boolean'')],
     tl_risk := PRIVILEGED, tl_min_risk := Some WRITE, tl_permissions := [''fs:write''],
     tl_rollback := Some \<lparr>rb_supported = True,
       rb_description = ''A .scrappy-bak copy of any overwritten file is kept alongside it.'', rb_inverse_tool = None\<rparr>\<rparr>"

definition FSMoveTool :: tool_class where
  "FSMoveTool = base_class\<lparr>tl_name := ''fs.move'', tl_description := ''Move or rename a file or directory within the workspace.'',
     tl_params := [(''source'', True, ''string''), (''destination'', True, ''string''), (''overwrite'', False, ''boolean'')],
     tl_risk := DESTRUCTIVE, tl_min_risk := Some WRITE, tl_permissions := [''fs:write''],
     tl_rollback := Some \<lparr>rb_supported = True, rb_description = ''Move it back.'', rb_inverse_tool = Some ''fs.move''\<rparr>\<rparr>"

definition FSDeleteTool :: tool_class where
  "FSDeleteTool = base_class\<lparr>tl_name := ''fs.delete'', tl_description := ''Delete a file or directory. Destructive outside the workspace.'',
     tl_params := [(''path'', True, ''string''), (''recursive'', False, ''boolean'')],
     tl_risk := DESTRUCTIVE, tl_min_risk := Some WRITE, tl_permissions := [''fs:write'', ''fs:delete''],
     tl_rollback := Some \<lparr>rb_supported = False,
       rb_description = ''Deletion is not reversible. Preserve state before deleting.'', rb_inverse_tool = None\<rparr>\<rparr>"

lemmas file_class_defs = FSListTool_def FSStatTool_def FSReadTool_def FSMkdirTool_def FSWriteTool_def FSMoveTool_def FSDeleteTool_def
  base_class_def

text \<open>\<open>FILESYSTEM_TOOLS\<close>.\<close>

definition filesystem_tools ::
  "os \<Rightarrow> (string \<Rightarrow> string \<Rightarrow> string option) \<Rightarrow> (string \<Rightarrow> payload \<Rightarrow> string + file_call) \<Rightarrow> fs tool list" where
  "filesystem_tools os decode dec = map (file_tool os decode dec)
     [FSListTool, FSStatTool, FSReadTool, FSMkdirTool, FSWriteTool, FSMoveTool, FSDeleteTool]"

end
