(* ===== verification/Tool_Shell.thy ===== *)
theory Tool_Shell
  imports Tool_Base
begin

text \<open>
  \<open>tools/shell.py\<close>: one allowlisted executable, without a shell. The operating system is a parameter:
  where a binary is found, what a started process prints and how it ends, and what signals do.
\<close>

definition SAFE_PATH :: string where
  "SAFE_PATH = ''/usr/local/sbin:/usr/local/bin:/usr/sbin:/usr/bin:/sbin:/bin''"

definition ENV_ALLOWLIST :: "string list" where
  "ENV_ALLOWLIST = [''HOME'', ''LANG'', ''LC_ALL'', ''TERM'', ''TZ'', ''USER'', ''LOGNAME'']"

record shell_args =
  sh_argv :: "string list"
  sh_cwd :: "string option"
  sh_timeout :: "time option"
  sh_max_bytes :: "nat option"

text \<open>The field limits, and the validator of \<open>argv\<close>.\<close>

definition check_argv :: "string list \<Rightarrow> string + string list" where
  "check_argv argv =
     (if argv = [] \<or> py_strip (hd argv) = [] then Inl ''argv[0] must be a non-empty executable name''
      else if list_ex (\<lambda>part. CHR 0x00 \<in> set part) argv then Inl ''argv may not contain NUL bytes''
      else Inr argv)"

definition check_shell_args :: "shell_args \<Rightarrow> string + shell_args" where
  "check_shell_args a =
     (if sh_argv a = [] \<or> 64 < length (sh_argv a) then Inl ''argv''
      else ebind (check_argv (sh_argv a)) (\<lambda>_.
        if \<not> (case sh_cwd a of None \<Rightarrow> True | Some c \<Rightarrow> length c \<le> 4096) then Inl ''cwd''
        else if \<not> (case sh_timeout a of None \<Rightarrow> True | Some t \<Rightarrow> 0 < t \<and> t \<le> seconds 600) then Inl ''timeout_seconds''
        else if \<not> (case sh_max_bytes a of None \<Rightarrow> True | Some n \<Rightarrow> 256 \<le> n \<and> n \<le> 8 * 1024 * 1024) then Inl ''max_output_bytes''
        else Inr a))"

section \<open>The machine\<close>

text \<open>What \<open>create_subprocess_exec\<close> is given.\<close>

record spawn =
  sp_argv :: "string list"
  sp_cwd :: string
  sp_env :: "(string \<times> string) list"

datatype spawned = Spawn_missing | Spawn_denied | Spawn_failed string
  | Spawn_ended int string string time \<comment> \<open>exit code, output, errors, duration\<close>
  | Spawn_running time \<comment> \<open>still running when the budget ran out\<close>

record 'w host =
  h_which :: "string \<Rightarrow> string \<Rightarrow> 'w \<Rightarrow> string option"
  h_environ :: "'w \<Rightarrow> (string \<times> string) list"
  h_fs :: "'w \<Rightarrow> fs"
  h_isdir :: "path \<Rightarrow> 'w \<Rightarrow> bool" \<comment> \<open>\<open>path.exists()\<close> of the workspace\<close>
  h_spawn :: "spawn \<Rightarrow> time \<Rightarrow> 'w \<Rightarrow> spawned \<times> 'w"
  h_exited :: "'w \<Rightarrow> bool" \<comment> \<open>\<open>process.returncode is not None\<close>\<close>
  h_killpg :: "nat \<Rightarrow> 'w \<Rightarrow> 'w"
  h_wait :: "time \<Rightarrow> 'w \<Rightarrow> bool \<times> 'w"
  h_decode :: "string \<Rightarrow> string" \<comment> \<open>\<open>decode("utf-8", errors="replace")\<close>\<close>

definition build_child_env :: "(string \<times> string) list \<Rightarrow> (string \<times> string) list" where
  "build_child_env environ =
     dict_set ''SCRAPPY_OS'' ''1'' (dict_set ''PATH'' SAFE_PATH (filter (\<lambda>(key, value). key \<in> set ENV_ALLOWLIST) environ))"

definition clip :: "(string \<Rightarrow> string) \<Rightarrow> string \<Rightarrow> nat \<Rightarrow> string \<times> bool" where
  "clip decode raw max_bytes =
     (let truncated = max_bytes < length raw; shown = decode (take max_bytes raw) in
      (if truncated then shown @ [CHR 0x0A] @ ''... [output truncated at '' @ str_nat max_bytes @ '' bytes; '' @ str_nat (length raw) @ '' produced]''
       else shown, truncated))"

definition terminate_group :: "'w host \<Rightarrow> 'w \<Rightarrow> 'w" where
  "terminate_group h w =
     (if h_exited h w then w
      else let (gone, w1) = h_wait h (seconds 3) (h_killpg h 15 w) in
        if gone then w1 else snd (h_wait h (seconds 3) (h_killpg h 9 w1)))"

section \<open>The tool\<close>

definition shell_classify :: "shell_args \<Rightarrow> settings \<Rightarrow> risk_level \<times> string" where
  "shell_classify a st =
     (let executable = path_name (hd (sh_argv a)) in
      if executable \<in> set (shell_denylist st) then (DESTRUCTIVE, executable @ '' is on the denylist'')
      else if shell_allowlist st \<noteq> [] \<and> executable \<notin> set (shell_allowlist st)
        then (DESTRUCTIVE, executable @ '' is not on the allowlist'')
      else classify_command (sh_argv a))"

definition resolve_cwd :: "'w host \<Rightarrow> string option \<Rightarrow> tool_context \<Rightarrow> 'w \<Rightarrow> scrappy_error + path" where
  "resolve_cwd h raw ctx w =
     (case context_workspace (h_fs h w) ctx of
        None \<Rightarrow> Inl (Invalid ''RuntimeError'')
      | Some ws \<Rightarrow>
          (case raw of
             None \<Rightarrow> Inr (if h_isdir h ws w then ws else [])
           | Some c \<Rightarrow> validate_read_path (h_fs h w) c (allowed_read_roots (x_settings ctx)) (Some (of_resolved ws))))"

text \<open>What is refused before anything is looked up or started.\<close>

definition shell_gate :: "string \<Rightarrow> settings \<Rightarrow> scrappy_error option" where
  "shell_gate executable st =
     (if shell_allowlist st = [] then Some (ToolError ''The shell tool is disabled: SCRAPPY_SHELL_ALLOWLIST is empty'' ''shell.run'')
      else if executable \<in> set (shell_denylist st) then
        Some (ToolError (executable @ '' is on the shell denylist and cannot be run, even with approval'') ''shell.run'')
      else if executable \<notin> set (shell_allowlist st) then
        Some (ToolError (executable @ '' is not on the shell allowlist ('' @ py_join '', '' (sort (shell_allowlist st)) @ '')'') ''shell.run'')
      else None)"

definition shell_output :: "'w host \<Rightarrow> string list \<Rightarrow> path \<Rightarrow> nat \<Rightarrow> int \<Rightarrow> string \<Rightarrow> string \<Rightarrow> time \<Rightarrow> payload" where
  "shell_output h argv dir max_bytes code out err took =
     (let (out_text, out_truncated) = clip (h_decode h) out max_bytes;
          (err_text, err_truncated) = clip (h_decode h) err max_bytes
      in [(''argv'', PList (map PStr (path_name (hd argv) # tl argv))), (''exit_code'', PInt code), (''success'', PBool (code = 0)),
          (''stdout'', PStr out_text), (''stderr'', PStr err_text), (''truncated'', PBool (out_truncated \<or> err_truncated)),
          (''duration_ms'', pms took), (''cwd'', PStr (str_path dir))])"

definition shell_execute :: "'w host \<Rightarrow> string list \<Rightarrow> path \<Rightarrow> time \<Rightarrow> nat \<Rightarrow> 'w \<Rightarrow> (scrappy_error + payload) \<times> 'w" where
  "shell_execute h argv dir timeout max_bytes w =
     (case h_spawn h \<lparr>sp_argv = argv, sp_cwd = str_path dir, sp_env = build_child_env (h_environ h w)\<rparr> timeout w of
        (Spawn_missing, w1) \<Rightarrow> (Inl (ToolError (hd argv @ '' not found'') ''shell.run''), w1)
      | (Spawn_denied, w1) \<Rightarrow> (Inl (ToolError (hd argv @ '' is not executable'') ''shell.run''), w1)
      | (Spawn_failed text0, w1) \<Rightarrow> (Inl (ToolError (''Cannot start '' @ hd argv @ '': '' @ text0) ''shell.run''), w1)
      | (Spawn_running took, w1) \<Rightarrow>
          (Inl (ToolTimeout (''Command exceeded its '' @ str_seconds timeout @ ''s budget and was terminated'') ''shell.run''), terminate_group h w1)
      | (Spawn_ended code out err took, w1) \<Rightarrow> (Inr (shell_output h argv dir max_bytes code out err took), w1))"

text \<open>What is settled before the process is started: the arguments, the directory and the two limits.\<close>

definition shell_start ::
  "'w host \<Rightarrow> shell_args \<Rightarrow> tool_context \<Rightarrow> 'w \<Rightarrow> scrappy_error + string list \<times> path \<times> time \<times> nat" where
  "shell_start h a ctx w =
     (let st = x_settings ctx; executable = path_name (hd (sh_argv a)) in
      case shell_gate executable st of Some e \<Rightarrow> Inl e
      | None \<Rightarrow>
        (case h_which h executable SAFE_PATH w of
           None \<Rightarrow> Inl (ToolError (executable @ '' was not found on the fixed PATH ('' @ SAFE_PATH @ '')'') ''shell.run'')
         | Some binary \<Rightarrow> ebind (resolve_cwd h (sh_cwd a) ctx w) (\<lambda>dir.
             Inr (binary # tl (sh_argv a), dir, or_else (sh_timeout a) (shell_timeout_seconds st),
               or_else (sh_max_bytes a) (shell_max_output_bytes st)))))"

definition run_shell :: "'w host \<Rightarrow> shell_args \<Rightarrow> tool_context \<Rightarrow> 'w \<Rightarrow> (scrappy_error + payload) \<times> 'w" where
  "run_shell h a ctx w =
     (case shell_start h a ctx w of Inl e \<Rightarrow> (Inl e, w)
      | Inr (argv, dir, timeout, max_bytes) \<Rightarrow> shell_execute h argv dir timeout max_bytes w)"

section \<open>Lemmas\<close>

lemma map_of_allowed: "map_of (filter (\<lambda>(key, value). key \<in> set ks) d) j = (if j \<in> set ks then map_of d j else None)"
  by (induction d) auto

text \<open>The environment of a child: two fixed variables, and the listed ones as they are.\<close>

lemma child_env: "map_of (build_child_env environ) k =
   (if k = ''SCRAPPY_OS'' then Some ''1'' else if k = ''PATH'' then Some SAFE_PATH
    else if k \<in> set ENV_ALLOWLIST then map_of environ k else None)"
  by (auto simp: build_child_env_def map_of_allowed)

lemma shell_gate_None: "shell_gate x st = None \<longleftrightarrow> x \<in> set (shell_allowlist st) \<and> x \<notin> set (shell_denylist st)"
  by (auto simp: shell_gate_def)


text \<open>Reading credentials through \<open>cat\<close>: no path is reported to policy, and the command is READ.\<close>

lemma shell_reads_shadow: "fst (classify_command [''cat'', ''/etc/shadow'']) = READ"
proof -
  have "executable_of [''cat'', ''/etc/shadow''] = ''cat''" "find_meta [''cat'', ''/etc/shadow''] = None" "\<not> destructive_name ''cat''"
    "map_of PRIVILEGED_SUBCOMMANDS ''cat'' = None" "\<not> is_forcing_flag ''/etc/shadow''"
    by code_simp+
  then show ?thesis by (simp add: classify_command_def Let_def DESTRUCTIVE_EXECUTABLES_def PRIVILEGED_EXECUTABLES_def)
qed

text \<open>A command that fails is still a successful run of the tool, with its exit code in the output.\<close>

lemma failing_command_succeeds:
  "h_spawn h \<lparr>sp_argv = argv, sp_cwd = str_path dir, sp_env = build_child_env (h_environ h w)\<rparr> timeout w = (Spawn_ended code out err took, w1) \<Longrightarrow>
   shell_execute h argv dir timeout max_bytes w = (Inr (shell_output h argv dir max_bytes code out err took), w1)"
  by (simp add: shell_execute_def)

section \<open>Properties\<close>

text \<open>The processes one run of the tool may start, and what the machine is after one.\<close>

definition allowed_spawn :: "'w host \<Rightarrow> shell_args \<Rightarrow> settings \<Rightarrow> spawn \<Rightarrow> 'w \<Rightarrow> bool" where
  "allowed_spawn h a st s w \<longleftrightarrow>
     (let executable = path_name (hd (sh_argv a)) in
      executable \<in> set (shell_allowlist st) \<and> executable \<notin> set (shell_denylist st)
      \<and> h_which h executable SAFE_PATH w = Some (hd (sp_argv s)) \<and> tl (sp_argv s) = tl (sh_argv a)
      \<and> (\<forall>k. map_of (sp_env s) k = (if k = ''SCRAPPY_OS'' then Some ''1'' else if k = ''PATH'' then Some SAFE_PATH
           else if k \<in> set ENV_ALLOWLIST then map_of (h_environ h w) k else None)))"

definition spawn_of :: "'w host \<Rightarrow> string list \<Rightarrow> path \<Rightarrow> 'w \<Rightarrow> spawn" where
  "spawn_of h argv dir w = \<lparr>sp_argv = argv, sp_cwd = str_path dir, sp_env = build_child_env (h_environ h w)\<rparr>"

lemma shell_start_allowed:
  assumes "shell_start h a ctx w = Inr (argv, dir, timeout, n)"
  shows "allowed_spawn h a (x_settings ctx) (spawn_of h argv dir w) w"
proof -
  let ?x = "path_name (hd (sh_argv a))"
  have "shell_gate ?x (x_settings ctx) = None"
    using assms by (auto simp: shell_start_def Let_def split: option.splits)
  moreover have "h_which h ?x SAFE_PATH w = Some (hd argv)" "tl argv = tl (sh_argv a)"
    using assms by (auto simp: shell_start_def Let_def split: option.splits)
  ultimately show ?thesis by (simp add: allowed_spawn_def spawn_of_def shell_gate_None child_env Let_def)
qed

lemma shell_execute_world:
  assumes "shell_execute h argv dir timeout n w = (r, w')"
  shows "case h_spawn h (spawn_of h argv dir w) timeout w of
     (Spawn_running took, w1) \<Rightarrow> w' = terminate_group h w1 \<and> (\<exists>m. r = Inl (ToolTimeout m ''shell.run''))
   | (_, w1) \<Rightarrow> w' = w1"
  using assms by (auto simp: shell_execute_def spawn_of_def split: spawned.splits prod.splits)

text \<open>
  C11. What the shell tool may start, whatever was approved: at most one process, of an executable that
  is on the allowlist and not on the denylist, found on the fixed path, with the arguments as given
  and an environment of two fixed variables and the listed ones; a run that outlives its budget has
  its process group terminated, and any other run leaves the machine to that one process.
\<close>

theorem shell_starts_only_allowed:
  "case run_shell h a ctx w of (r, w') \<Rightarrow> w' = w \<or>
     (\<exists>s timeout. allowed_spawn h a (x_settings ctx) s w
        \<and> (case h_spawn h s timeout w of
             (Spawn_running took, w1) \<Rightarrow> w' = terminate_group h w1 \<and> (\<exists>m. r = Inl (ToolTimeout m ''shell.run''))
           | (_, w1) \<Rightarrow> w' = w1))"
proof (cases "shell_start h a ctx w")
  case (Inr settled)
  obtain argv dir timeout n r w' where *: "settled = (argv, dir, timeout, n)"
    "run_shell h a ctx w = (r, w')" "shell_execute h argv dir timeout n w = (r, w')"
    using Inr by (cases settled; cases "run_shell h a ctx w") (auto simp: run_shell_def)
  have "allowed_spawn h a (x_settings ctx) (spawn_of h argv dir w) w" using Inr *(1) by (intro shell_start_allowed) simp
  with shell_execute_world [OF *(3)] show ?thesis unfolding *(2) prod.case
    by (intro disjI2 exI [of _ "spawn_of h argv dir w"] exI [of _ timeout] conjI)
qed (simp add: run_shell_def)

end
