(* ===== verification/Py_Net.thy ===== *)
theory Py_Net
  imports Py_Value "HOL-Library.Word"
begin

text \<open>
  The part of \<open>urllib.parse\<close> and \<open>ipaddress\<close> the program uses: splitting a URL into its scheme and
  authority, and the kinds of address. The tables are those of Python 3.12.
\<close>

section \<open>URLs\<close>

record url_parts =
  u_scheme :: string
  u_username :: "string option"
  u_password :: "string option"
  u_hostname :: "string option"

definition scheme_char :: "char \<Rightarrow> bool" where
  "scheme_char c \<longleftrightarrow> is_lower_az c \<or> is_upper_az c \<or> is_digit c \<or> c \<in> set ''+-.''"

definition is_alpha_az :: "char \<Rightarrow> bool" where
  "is_alpha_az c \<longleftrightarrow> is_lower_az c \<or> is_upper_az c"

text \<open>\<open>s.partition(c)\<close> and \<open>s.rpartition(c)\<close>, the flag saying whether \<open>c\<close> was there.\<close>

definition partition_at :: "char \<Rightarrow> string \<Rightarrow> string \<times> bool \<times> string" where
  "partition_at c s = (takeWhile (\<lambda>d. d \<noteq> c) s, c \<in> set s, drop 1 (dropWhile (\<lambda>d. d \<noteq> c) s))"

definition rpartition_at :: "char \<Rightarrow> string \<Rightarrow> string \<times> bool \<times> string" where
  "rpartition_at c s = (let (after, found, before) = partition_at c (rev s) in
     if found then (rev before, True, rev after) else ([], False, s))"

definition lower_ascii_only :: "char \<Rightarrow> char" where
  "lower_ascii_only c = (if is_upper_az c then char_of ((of_char c :: nat) + 32) else c)"

text \<open>What is left of a URL after \<open>urlsplit\<close> has removed leading controls, tabs and line ends.\<close>

definition clean_url :: "string \<Rightarrow> string" where
  "clean_url url = filter (\<lambda>c. c \<noteq> CHR 0x09 \<and> c \<noteq> CHR 0x0A \<and> c \<noteq> CHR 0x0D)
     (dropWhile (\<lambda>c. (of_char c :: nat) \<le> 32) url)"

definition split_scheme :: "string \<Rightarrow> string \<times> string" where
  "split_scheme url = (let (before, found, after) = partition_at (CHR '':'') url in
     if found \<and> before \<noteq> [] \<and> is_alpha_az (hd before) \<and> list_all scheme_char before
     then (map lower_ascii_only before, after) else ([], url))"

definition netloc_of :: "string \<Rightarrow> string" where
  "netloc_of rest = (if prefix ''//'' rest then takeWhile (\<lambda>c. c \<notin> set ''/?#'') (drop 2 rest) else [])"

text \<open>
  \<open>urlparse(url)\<close>; \<open>None\<close> is its \<open>ValueError\<close>. \<open>bracket_ok\<close> is its check of what stands in brackets, an
  IPv6 address.
\<close>

definition split_host :: "string \<Rightarrow> string option" where
  "split_host hostinfo =
     (let (before, bracketed, rest) = partition_at (CHR ''['') hostinfo;
          h = (if bracketed then fst (partition_at (CHR '']'') rest) else fst (partition_at (CHR '':'') hostinfo));
          (name, zoned, zone) = partition_at (CHR ''%'') h
      in if h = [] then None else Some (py_lower name @ (if zoned then CHR ''%'' # zone else [])))"

definition url_parse :: "(string \<Rightarrow> bool) \<Rightarrow> string \<Rightarrow> url_parts option" where
  "url_parse bracket_ok url =
     (let (scheme, rest) = split_scheme (clean_url url); netloc = netloc_of rest;
          opens = CHR ''['' \<in> set netloc; closes = CHR '']'' \<in> set netloc;
          inner = fst (partition_at (CHR '']'') (snd (snd (partition_at (CHR ''['') netloc))));
          (userinfo, has_user, hostinfo) = rpartition_at (CHR ''@'') netloc;
          (user, has_password, password) = partition_at (CHR '':'') userinfo
      in if opens \<noteq> closes \<or> opens \<and> \<not> bracket_ok inner then None
         else Some \<lparr>u_scheme = scheme, u_username = (if has_user then Some user else None),
           u_password = (if has_user \<and> has_password then Some password else None), u_hostname = split_host hostinfo\<rparr>)"

section \<open>Addresses\<close>

datatype ip_address = V4 "32 word" | V6 "128 word"

text \<open>\<open>address in network\<close>, the network given by its first address and its prefix length.\<close>

definition in_v4 :: "32 word \<Rightarrow> 32 word \<times> nat \<Rightarrow> bool" where
  "in_v4 a n = (drop_bit (32 - snd n) a = drop_bit (32 - snd n) (fst n))"

definition in_v6 :: "128 word \<Rightarrow> 128 word \<times> nat \<Rightarrow> bool" where
  "in_v6 a n = (drop_bit (128 - snd n) a = drop_bit (128 - snd n) (fst n))"

definition PRIVATE_V4 :: "(32 word \<times> nat) list" where
  "PRIVATE_V4 = [(0x00000000, 8), (0x0A000000, 8), (0x7F000000, 8), (0xA9FE0000, 16), (0xAC100000, 12), (0xC0000000, 24),
     (0xC00000AA, 31), (0xC0000200, 24), (0xC0A80000, 16), (0xC6120000, 15), (0xC6336400, 24), (0xCB007100, 24),
     (0xF0000000, 4), (0xFFFFFFFF, 32)]"

definition PUBLIC_V4 :: "(32 word \<times> nat) list" where
  "PUBLIC_V4 = [(0xC0000009, 32), (0xC000000A, 32)]"

definition PRIVATE_V6 :: "(128 word \<times> nat) list" where
  "PRIVATE_V6 = [(1, 128), (0, 128), (push_bit 32 0xFFFF, 96), (push_bit 80 0x0064FF9B0001, 48), (push_bit 112 0x0100, 64),
     (push_bit 96 0x20010000, 23), (push_bit 96 0x20010DB8, 32), (push_bit 112 0x2002, 16), (push_bit 112 0xFC00, 7),
     (push_bit 112 0xFE80, 10)]"

definition PUBLIC_V6 :: "(128 word \<times> nat) list" where
  "PUBLIC_V6 = [(push_bit 96 0x20010001 + 1, 128), (push_bit 96 0x20010001 + 2, 128), (push_bit 96 0x20010003, 32),
     (push_bit 80 0x200100040112, 48), (push_bit 96 0x20010020, 28), (push_bit 96 0x20010030, 28)]"

definition RESERVED_V6 :: "(128 word \<times> nat) list" where
  "RESERVED_V6 = [(0, 8), (push_bit 112 0x0100, 8), (push_bit 112 0x0200, 7), (push_bit 112 0x0400, 6), (push_bit 112 0x0800, 5),
     (push_bit 112 0x1000, 4), (push_bit 112 0x4000, 3), (push_bit 112 0x6000, 3), (push_bit 112 0x8000, 3), (push_bit 112 0xA000, 3),
     (push_bit 112 0xC000, 3), (push_bit 112 0xE000, 4), (push_bit 112 0xF000, 5), (push_bit 112 0xF800, 6), (push_bit 112 0xFE00, 9)]"

definition within_any4 :: "(32 word \<times> nat) list \<Rightarrow> 32 word \<Rightarrow> bool" where
  "within_any4 ns a = list_ex (in_v4 a) ns"

definition within_any6 :: "(128 word \<times> nat) list \<Rightarrow> 128 word \<Rightarrow> bool" where
  "within_any6 ns a = list_ex (in_v6 a) ns"

fun ip_is_private :: "ip_address \<Rightarrow> bool" where
  "ip_is_private (V4 a) = (within_any4 PRIVATE_V4 a \<and> \<not> within_any4 PUBLIC_V4 a)"
| "ip_is_private (V6 a) = (within_any6 PRIVATE_V6 a \<and> \<not> within_any6 PUBLIC_V6 a)"

fun ip_is_loopback :: "ip_address \<Rightarrow> bool" where
  "ip_is_loopback (V4 a) = in_v4 a (0x7F000000, 8)"
| "ip_is_loopback (V6 a) = (a = 1)"

fun ip_is_link_local :: "ip_address \<Rightarrow> bool" where
  "ip_is_link_local (V4 a) = in_v4 a (0xA9FE0000, 16)"
| "ip_is_link_local (V6 a) = in_v6 a (push_bit 112 0xFE80, 10)"

fun ip_is_reserved :: "ip_address \<Rightarrow> bool" where
  "ip_is_reserved (V4 a) = in_v4 a (0xF0000000, 4)"
| "ip_is_reserved (V6 a) = within_any6 RESERVED_V6 a"

fun ip_is_multicast :: "ip_address \<Rightarrow> bool" where
  "ip_is_multicast (V4 a) = in_v4 a (0xE0000000, 4)"
| "ip_is_multicast (V6 a) = in_v6 a (push_bit 112 0xFF00, 8)"

fun ip_is_unspecified :: "ip_address \<Rightarrow> bool" where
  "ip_is_unspecified (V4 a) = (a = 0)"
| "ip_is_unspecified (V6 a) = (a = 0)"

text \<open>\<open>ipv4_mapped\<close>.\<close>

definition ipv4_mapped :: "128 word \<Rightarrow> 32 word option" where
  "ipv4_mapped a = (if drop_bit 32 a = 0xFFFF then Some (ucast a) else None)"

end
