(* ===== verification/Tool_Http.thy ===== *)
theory Tool_Http
  imports Tool_Base Py_Net
begin

text \<open>
  \<open>tools/http.py\<close>: a GET that checks every URL it is about to request. The network is a parameter with
  a state of its own: what a name resolves to may differ from one moment to the next. Log lines are
  not modelled.
\<close>

definition ALLOWED_SCHEMES :: "string list" where
  "ALLOWED_SCHEMES = [''http'', ''https'']"

definition BLOCKED_HOSTNAMES :: "string list" where
  "BLOCKED_HOSTNAMES = [''metadata.google.internal'', ''metadata.goog'', ''instance-data'', ''instance-data.ec2.internal'']"

definition TEXTUAL_PREFIXES :: "string list" where
  "TEXTUAL_PREFIXES = [''text/'', ''application/json'', ''application/xml'', ''application/xhtml'']"

record http_args =
  hg_url :: string
  hg_headers :: "(string \<times> string) list"
  hg_timeout :: "time option"
  hg_max_bytes :: "nat option"

definition offending_headers :: "(string \<times> string) list \<Rightarrow> string list" where
  "offending_headers hs = filter (\<lambda>k. py_lower k \<in> {''authorization'', ''cookie'', ''proxy-authorization''}) (map fst hs)"

definition check_http_args :: "http_args \<Rightarrow> string + http_args" where
  "check_http_args a =
     (if length (hg_url a) < 1 \<or> 2048 < length (hg_url a) then Inl ''url''
      else if 20 < length (hg_headers a) then Inl ''headers''
      else if offending_headers (hg_headers a) \<noteq> [] then Inl ''headers are not permitted on generic outbound requests''
      else if \<not> (case hg_timeout a of None \<Rightarrow> True | Some t \<Rightarrow> 0 < t \<and> t \<le> seconds 120) then Inl ''timeout_seconds''
      else if \<not> (case hg_max_bytes a of None \<Rightarrow> True | Some n \<Rightarrow> 256 \<le> n \<and> n \<le> 32 * 1024 * 1024) then Inl ''max_bytes''
      else Inr a)"

section \<open>The network\<close>

text \<open>
  What ends a request: a timeout, another \<open>httpx.HTTPError\<close>, or an exception of another kind.
  One request, up to its headers. \<open>Redirected\<close> has the location and the URL it joins to, \<open>None\<close> when it
  does not parse; an \<open>Answer\<close> has the chunks of its body and the error that ends it early, if any.
\<close>

datatype stream_error = Timeout_error | Http_error string | Other_error string

record answer_head =
  an_url :: string
  an_status :: int
  an_content_type :: string
  an_encoding :: "string option"

datatype fetched = Fetch_error stream_error
  | Redirected int "string option" "string option"
  | Answer answer_head "string list" "stream_error option"

record 'w net =
  n_bracket_ok :: "string \<Rightarrow> bool"
  n_ip :: "string \<Rightarrow> ip_address option" \<comment> \<open>\<open>ipaddress.ip_address\<close>\<close>
  n_str_ip :: "ip_address \<Rightarrow> string"
  n_getaddrinfo :: "string \<Rightarrow> 'w \<Rightarrow> (string + string list) \<times> 'w"
  n_fetch :: "string \<Rightarrow> (string \<times> string) list \<Rightarrow> time \<Rightarrow> 'w \<Rightarrow> fetched \<times> 'w"
  n_decode :: "string \<Rightarrow> string \<Rightarrow> string" \<comment> \<open>\<open>decode(encoding, errors="replace")\<close>\<close>
  n_took :: time

section \<open>The check of a URL\<close>

definition is_private_address :: "ip_address \<Rightarrow> bool" where
  "is_private_address address0 =
     (let address = (case address0 of V6 a \<Rightarrow> (case ipv4_mapped a of Some b \<Rightarrow> V4 b | None \<Rightarrow> address0) | V4 a \<Rightarrow> address0) in
      ip_is_private address \<or> ip_is_loopback address \<or> ip_is_link_local address \<or> ip_is_reserved address
      \<or> ip_is_multicast address \<or> ip_is_unspecified address)"

definition http_tool_error :: "string \<Rightarrow> scrappy_error" where
  "http_tool_error m = ToolError m ''http.get''"

definition usable_addresses :: "'w net \<Rightarrow> string list \<Rightarrow> ip_address list" where
  "usable_addresses n raws = List.map_filter (n_ip n) raws"

definition resolve_all :: "'w net \<Rightarrow> string \<Rightarrow> 'w \<Rightarrow> (scrappy_error + ip_address list) \<times> 'w" where
  "resolve_all n hostname w =
     (case n_ip n hostname of
        Some a \<Rightarrow> (Inr [a], w)
      | None \<Rightarrow>
          (case n_getaddrinfo n hostname w of
             (Inl exc, w1) \<Rightarrow> (Inl (http_tool_error (''Cannot resolve '' @ hostname @ '': '' @ exc)), w1)
           | (Inr raws, w1) \<Rightarrow>
               if usable_addresses n raws = [] then (Inl (http_tool_error (hostname @ '' resolved to no usable address'')), w1)
               else (Inr (usable_addresses n raws), w1)))"

definition private_text :: "string \<Rightarrow> string \<Rightarrow> string" where
  "private_text hostname address = hostname @ '' resolves to '' @ address @ '', which is a private, loopback or '' @
     ''link-local address. Set SCRAPPY_HTTP_ALLOW_PRIVATE_NETWORKS=true only '' @
     ''if you intend the agent to reach internal services.''"

text \<open>\<open>_validate_url\<close>: the exception it raises, if any.\<close>

definition filled :: "string option \<Rightarrow> bool" where
  "filled x \<longleftrightarrow> (case x of None \<Rightarrow> False | Some t \<Rightarrow> t \<noteq> [])"

definition validate_url :: "'w net \<Rightarrow> string \<Rightarrow> bool \<Rightarrow> 'w \<Rightarrow> scrappy_error option \<times> 'w" where
  "validate_url n url allow_private w =
     (case url_parse (n_bracket_ok n) url of
        None \<Rightarrow> (Some (Invalid ''ValueError: Invalid IPv6 URL''), w)
      | Some u \<Rightarrow>
          if u_scheme u \<notin> set ALLOWED_SCHEMES
            then (Some (http_tool_error (''Scheme '' @ py_repr (u_scheme u) @ '' is not permitted; only http and https'')), w)
          else if filled (u_username u) \<or> filled (u_password u)
            then (Some (http_tool_error ''Credentials in URLs are not permitted''), w)
          else (case u_hostname u of
              None \<Rightarrow> (Some (http_tool_error (''URL '' @ py_repr url @ '' has no hostname'')), w)
            | Some hostname \<Rightarrow>
                if hostname = [] then (Some (http_tool_error (''URL '' @ py_repr url @ '' has no hostname'')), w)
                else if py_lower hostname \<in> set BLOCKED_HOSTNAMES
                  then (Some (http_tool_error (hostname @ '' is a cloud metadata endpoint and is always blocked'')), w)
                else if allow_private then (None, w)
                else (case resolve_all n hostname w of
                    (Inl e, w1) \<Rightarrow> (Some e, w1)
                  | (Inr addresses, w1) \<Rightarrow>
                      (case find is_private_address addresses of
                         Some a \<Rightarrow> (Some (http_tool_error (private_text hostname (n_str_ip n a))), w1)
                       | None \<Rightarrow> (None, w1)))))"

section \<open>The run\<close>

text \<open>The loop over the chunks of a body: what was kept, and whether anything was cut.\<close>

fun read_chunks :: "nat \<Rightarrow> string \<Rightarrow> string list \<Rightarrow> string \<times> bool" where
  "read_chunks max_bytes body [] = (body, False)"
| "read_chunks max_bytes body (c # cs) =
     (if max_bytes \<le> length body then (body, True)
      else let remaining = max_bytes - length body; body' = body @ take remaining c in
        if remaining < length c then (body', True) else read_chunks max_bytes body' cs)"

definition stream_failure :: "string \<Rightarrow> stream_error \<Rightarrow> scrappy_error" where
  "stream_failure url e = (case e of Timeout_error \<Rightarrow> http_tool_error (''Request to '' @ url @ '' timed out'')
     | Http_error t \<Rightarrow> http_tool_error (''Request to '' @ url @ '' failed: '' @ t)
     | Other_error t \<Rightarrow> Invalid t)"

definition read_response :: "'w net \<Rightarrow> answer_head \<Rightarrow> string list \<Rightarrow> string list \<Rightarrow> nat \<Rightarrow> payload" where
  "read_response n head chunks hops max_bytes =
     (let (body, truncated) = read_chunks max_bytes [] chunks;
          is_text = list_ex (\<lambda>p. prefix p (an_content_type head)) TEXTUAL_PREFIXES
      in [(''url'', PStr (an_url head)), (''redirect_chain'', PList (map PStr hops)), (''status_code'', PInt (an_status head)),
          (''content_type'', PStr (an_content_type head)), (''bytes_received'', PInt (int (length body))), (''truncated'', PBool truncated),
          (''duration_ms'', pms (n_took n))] @
         (if is_text then [(''body'', PStr (n_decode n (case an_encoding head of None \<Rightarrow> ''utf-8'' | Some e \<Rightarrow> if e = [] then ''utf-8'' else e) body))]
          else [(''body'', PNone), (''note'', PStr (''binary content ('' @ an_content_type head @ '') not decoded''))]))"

text \<open>An error that ends a stream is only met when the chunks before it do not fill the budget.\<close>

definition cut_short :: "nat \<Rightarrow> string list \<Rightarrow> bool" where
  "cut_short max_bytes chunks = snd (read_chunks max_bytes [] chunks)"

record http_limits =
  hl_timeout :: time
  hl_max_bytes :: nat
  hl_allow_private :: bool
  hl_headers :: "(string \<times> string) list"

fun http_loop :: "'w net \<Rightarrow> http_limits \<Rightarrow> nat \<Rightarrow> nat \<Rightarrow> string \<Rightarrow> string list \<Rightarrow> 'w \<Rightarrow> (scrappy_error + payload) \<times> 'w" where
  "http_loop n l max_redirects left url hops w =
     (case validate_url n url (hl_allow_private l) w of
        (Some e, w1) \<Rightarrow> (Inl e, w1)
      | (None, w1) \<Rightarrow>
          (case n_fetch n url (hl_headers l) (hl_timeout l) w1 of
             (Fetch_error e, w2) \<Rightarrow> (Inl (stream_failure url e), w2)
           | (Answer head chunks err, w2) \<Rightarrow>
               (case (if cut_short (hl_max_bytes l) chunks then None else err) of
                  Some e \<Rightarrow> (Inl (stream_failure url e), w2)
                | None \<Rightarrow> (Inr (read_response n head chunks (hops @ [url]) (hl_max_bytes l)), w2))
           | (Redirected status location joined, w2) \<Rightarrow>
               if \<not> filled location
                 then (Inl (http_tool_error (''HTTP '' @ str_int status @ '' redirect without a Location'')), w2)
               else (case joined of
                   None \<Rightarrow> (Inl (Invalid ''InvalidURL''), w2)
                 | Some next_url \<Rightarrow>
                     (case left of
                        0 \<Rightarrow> (Inl (http_tool_error (''Exceeded '' @ str_nat max_redirects @ '' redirects'')), w2)
                      | Suc left' \<Rightarrow> http_loop n l max_redirects left' next_url (hops @ [url]) w2))))"

declare http_loop.simps [simp del]

definition http_limits_of :: "http_args \<Rightarrow> settings \<Rightarrow> http_limits" where
  "http_limits_of a st = \<lparr>hl_timeout = or_else (hg_timeout a) (http_timeout_seconds st),
     hl_max_bytes = or_else (hg_max_bytes a) (http_max_bytes st), hl_allow_private = http_allow_private_networks st,
     hl_headers = dict_update [(''User-Agent'', ''scrappy-os/0.1'')] (hg_headers a)\<rparr>"

definition run_http :: "'w net \<Rightarrow> http_args \<Rightarrow> tool_context \<Rightarrow> 'w \<Rightarrow> (scrappy_error + payload) \<times> 'w" where
  "run_http n a ctx w =
     (let st = x_settings ctx in
      if \<not> http_enabled st then (Inl (http_tool_error ''Outbound HTTP is disabled by configuration''), w)
      else http_loop n (http_limits_of a st) (http_max_redirects st) (http_max_redirects st) (hg_url a) [] w)"

definition http_classify :: "'w net \<Rightarrow> http_args \<Rightarrow> scrappy_error + risk_level \<times> string" where
  "http_classify n a =
     (case url_parse (n_bracket_ok n) (hg_url a) of
        None \<Rightarrow> Inl (Invalid ''ValueError: Invalid IPv6 URL'')
      | Some u \<Rightarrow> Inr (WRITE, ''outbound request to '' @ (case u_hostname u of None \<Rightarrow> ''?'' | Some h \<Rightarrow> h)))"


section \<open>Lemmas\<close>

lemma read_chunks_take: "length body \<le> n \<Longrightarrow> fst (read_chunks n body cs) = take n (body @ concat cs)"
  by (induction n body cs rule: read_chunks.induct) (auto simp: Let_def)

lemma read_chunks_cut:
  "length body \<le> n \<Longrightarrow> list_all (\<lambda>c. c \<noteq> []) cs \<Longrightarrow> snd (read_chunks n body cs) \<longleftrightarrow> n < length (body @ concat cs)"
proof (induction n body cs rule: read_chunks.induct)
  case (2 n body c cs)
  then have "0 < length c" by simp
  with 2 show ?case by (auto simp: Let_def)
qed simp

text \<open>
  What a URL that is requested has passed, at the moment it was checked. \<open>before\<close> and \<open>after\<close> are the
  network's states around the check.
\<close>

definition url_permitted :: "'w net \<Rightarrow> bool \<Rightarrow> string \<Rightarrow> 'w \<Rightarrow> 'w \<Rightarrow> bool" where
  "url_permitted n allow_private url before after \<longleftrightarrow>
     (\<exists>u host. url_parse (n_bracket_ok n) url = Some u \<and> u_scheme u \<in> {''http'', ''https''}
        \<and> \<not> filled (u_username u) \<and> \<not> filled (u_password u) \<and> u_hostname u = Some host \<and> host \<noteq> []
        \<and> py_lower host \<notin> set BLOCKED_HOSTNAMES
        \<and> (if allow_private then after = before
           else \<exists>addresses. resolve_all n host before = (Inr addresses, after) \<and> list_all (\<lambda>a. \<not> is_private_address a) addresses))"

lemma validate_url_None: "validate_url n url allow w = (None, w1) \<Longrightarrow> url_permitted n allow url w w1"
  by (auto simp: validate_url_def url_permitted_def ALLOWED_SCHEMES_def find_None_iff list_all_iff
      split: option.splits if_splits prod.splits sum.splits)

text \<open>
  What a run does to the network: requests for the listed URLs, in that order, each right after its
  check, and at most one check that fails at the end.
\<close>

inductive requests :: "'w net \<Rightarrow> http_limits \<Rightarrow> string list \<Rightarrow> 'w \<Rightarrow> 'w \<Rightarrow> bool" for n l where
  no_request: "requests n l [] w w"
| refused_url: "validate_url n url (hl_allow_private l) w = (Some e, w1) \<Longrightarrow> requests n l [] w w1"
| one_request: "url_permitted n (hl_allow_private l) url w w1 \<Longrightarrow> n_fetch n url (hl_headers l) (hl_timeout l) w1 = (r, w2) \<Longrightarrow>
    requests n l urls w2 w3 \<Longrightarrow> requests n l (url # urls) w w3"

definition reads_only :: "'w net \<Rightarrow> http_limits \<Rightarrow> string list \<Rightarrow> scrappy_error + payload \<Rightarrow> bool" where
  "reads_only n l hops r \<longleftrightarrow> (case r of Inl e \<Rightarrow> True
     | Inr out \<Rightarrow> \<exists>head chunks. out = read_response n head chunks hops (hl_max_bytes l))"

lemma reads_only_simps [simp]:
  "reads_only n l hops (Inl e)"
  "reads_only n l hops (Inr (read_response n head chunks hops (hl_max_bytes l)))"
  by (auto simp: reads_only_def)

lemma http_loop_cases:
  assumes "http_loop n l m left url hops w = (r, w')"
  obtains (refused) e where "validate_url n url (hl_allow_private l) w = (Some e, w')" "r = Inl e"
  | (ended) w1 f where "url_permitted n (hl_allow_private l) url w w1" "n_fetch n url (hl_headers l) (hl_timeout l) w1 = (f, w')"
      "reads_only n l (hops @ [url]) r"
  | (redirected) w1 f w2 left' next_url where "url_permitted n (hl_allow_private l) url w w1"
      "n_fetch n url (hl_headers l) (hl_timeout l) w1 = (f, w2)" "left = Suc left'"
      "http_loop n l m left' next_url (hops @ [url]) w2 = (r, w')"
proof -
  obtain v w1 where v: "validate_url n url (hl_allow_private l) w = (v, w1)" by fastforce
  show thesis
  proof (cases v)
    case (Some e)
    with v assms show thesis by (intro refused [of e]) (simp_all add: http_loop.simps)
  next
    case None
    then have p: "url_permitted n (hl_allow_private l) url w w1" using v validate_url_None [of n url _ w w1] by simp
    obtain f w2 where f: "n_fetch n url (hl_headers l) (hl_timeout l) w1 = (f, w2)" by fastforce
    note run = assms [unfolded http_loop.simps [of n l m left url hops w] v None f prod.case option.case]
    show thesis
    proof (cases f)
      case (Redirected status location joined)
      show thesis
      proof (cases "\<not> filled location \<or> joined = None \<or> left = 0")
        case True
        with run Redirected have "r \<in> range Inl" "w' = w2" by (auto split: if_splits option.splits)
        with p f show thesis by (intro ended [of w1 f]) auto
      next
        case False
        then obtain left' next_url where "left = Suc left'" "joined = Some next_url" "filled location" by (cases left) auto
        with run Redirected p f show thesis by (intro redirected [of w1 f w2 left' next_url]) auto
      qed
    next
      case (Answer head chunks err)
      with run p f show thesis by (intro ended [of w1 f]) (auto split: option.splits)
    next
      case (Fetch_error e)
      with run p f show thesis by (intro ended [of w1 f]) auto
    qed
  qed
qed

lemma http_loop_requests:
  "http_loop n l m left url hops w = (r, w') \<Longrightarrow>
   \<exists>urls. requests n l urls w w' \<and> length urls \<le> Suc left \<and> reads_only n l (hops @ urls) r"
proof (induction left arbitrary: url hops w rule: less_induct)
  case (less left)
  from less.prems show ?case
  proof (cases rule: http_loop_cases)
    case (refused e)
    then show ?thesis by (intro exI [of _ "[]"]) (auto intro: refused_url)
  next
    case (ended w1 f)
    then show ?thesis by (intro exI [of _ "[url]"]) (auto intro: one_request no_request)
  next
    case (redirected w1 f w2 left' next_url)
    from less.IH [OF _ redirected(4)] redirected(3) obtain urls where
      "requests n l urls w2 w'" "length urls \<le> Suc left'"
      "reads_only n l (hops @ url # urls) r"
      by auto
    with redirected(1-3) show ?thesis by (intro exI [of _ "url # urls"]) (auto intro: one_request)
  qed
qed

lemma read_response_fields:
  "map_of (read_response n head chunks hops m) ''redirect_chain'' = Some (PList (map PStr hops))"
  "map_of (read_response n head chunks hops m) ''bytes_received'' = Some (PInt (int (length (take m (concat chunks)))))"
  using read_chunks_take [of "[]" m chunks] by (cases "read_chunks m [] chunks", simp add: read_response_def)+

text \<open>
  C12. A run of \<open>http.get\<close> requests at most \<open>http_max_redirects + 1\<close> URLs. Each of them, the redirects
  included, was checked right before it was requested: it is \<open>http\<close> or \<open>https\<close>, carries no credentials,
  names a host that is no blocked metadata host, and unless private networks are allowed every
  address its host then resolved to was public. The answer lists exactly the URLs requested and its
  body holds at most \<open>max_bytes\<close> bytes. With HTTP disabled nothing is resolved or requested.
\<close>

theorem http_requests_checked:
  "(if http_enabled (x_settings ctx)
    then \<exists>urls. requests n (http_limits_of a (x_settings ctx)) urls w (snd (run_http n a ctx w))
      \<and> length urls \<le> Suc (http_max_redirects (x_settings ctx))
      \<and> (case fst (run_http n a ctx w) of Inl e \<Rightarrow> True
         | Inr out \<Rightarrow> map_of out ''redirect_chain'' = Some (PList (map PStr urls))
           \<and> (\<exists>k. map_of out ''bytes_received'' = Some (PInt (int k)) \<and> k \<le> or_else (hg_max_bytes a) (http_max_bytes (x_settings ctx))))
    else \<exists>e. run_http n a ctx w = (Inl e, w))"
proof (cases "http_enabled (x_settings ctx)")
  case True
  obtain r w' where r: "run_http n a ctx w = (r, w')" by fastforce
  with True have "http_loop n (http_limits_of a (x_settings ctx)) (http_max_redirects (x_settings ctx))
      (http_max_redirects (x_settings ctx)) (hg_url a) [] w = (r, w')"
    by (simp add: run_http_def Let_def)
  from http_loop_requests [OF this] obtain urls where
    "requests n (http_limits_of a (x_settings ctx)) urls w w'" "length urls \<le> Suc (http_max_redirects (x_settings ctx))"
    "reads_only n (http_limits_of a (x_settings ctx)) urls r"
    by auto
  moreover have "hl_max_bytes (http_limits_of a (x_settings ctx)) = or_else (hg_max_bytes a) (http_max_bytes (x_settings ctx))"
    by (simp add: http_limits_of_def)
  ultimately show ?thesis
    using True r by (auto simp: reads_only_def read_response_fields split: sum.splits intro!: exI [of _ urls])
qed (simp add: run_http_def Let_def)

section \<open>Three behaviours of the check\<close>

text \<open>
  The shared address space 100.64.0.0/10 is neither private nor public to \<open>ipaddress\<close>, so it passes,
  the metadata address 100.100.100.200 of one cloud included.
\<close>

lemma shared_space_passes: "\<not> is_private_address (V4 0x646464C8)"
  by (simp add: is_private_address_def Let_def within_any4_def PRIVATE_V4_def in_v4_def) 

lemma link_local_refused: "is_private_address (V4 0xA9FEA9FE)"
  by (simp add: is_private_address_def Let_def in_v4_def)

text \<open>A URL with an unbalanced bracket makes \<open>classify\<close> raise \<open>ValueError\<close>, which is no \<open>ScrappyError\<close>.\<close>

lemma malformed_url_raises:
  "http_classify n (a\<lparr>hg_url := ''http://[''\<rparr>) = Inl (Invalid ''ValueError: Invalid IPv6 URL'')"
proof -
  have "url_parse b ''http://['' = None" for b
    by (simp add: url_parse_def Let_def split_scheme_def clean_url_def partition_at_def rpartition_at_def netloc_of_def
        is_alpha_az_def scheme_char_def is_lower_az_def)
  then show ?thesis by (simp add: http_classify_def)
qed

end
