(* ===== verification/Tool_System.thy ===== *)
theory Tool_System
  imports Tool_Filesystem
begin

text \<open>
  \<open>tools/system.py\<close>: seven tools that only read. What \<open>psutil\<close> and the standard library answer is a
  record of parameters; the tools select, order, round and render it.
\<close>

section \<open>Rendering\<close>

definition round_to :: "nat \<Rightarrow> rat \<Rightarrow> pyval" where
  "round_to places r = PFloat (of_int (round (r * 10 ^ places)) / 10 ^ places)"

text \<open>\<open>f"{r:.2f}"\<close>.\<close>

definition two_decimals :: "rat \<Rightarrow> string" where
  "two_decimals r = (let n = nat (round (r * 100)) in str_nat (n div 100) @ ''.'' @ pad_left 2 (str_nat (n mod 100)))"

text \<open>\<open>human_duration\<close>, from whole seconds.\<close>

definition human_duration :: "int \<Rightarrow> string" where
  "human_duration seconds0 =
     (let days = seconds0 div 86400; hours = seconds0 mod 86400 div 3600; minutes = seconds0 mod 86400 mod 3600 div 60
      in py_join '' '' ((if days \<noteq> 0 then [str_int days @ ''d''] else []) @
           (if hours \<noteq> 0 \<or> days \<noteq> 0 then [str_int hours @ ''h''] else []) @ [str_int minutes @ ''m'']))"

text \<open>\<open>int(seconds)\<close> cuts towards zero.\<close>

definition whole_seconds :: "time \<Rightarrow> int" where
  "whole_seconds t = (if t < 0 then - (- t div 1000000) else t div 1000000)"

section \<open>Lines and separators\<close>

definition line_break :: "char \<Rightarrow> bool" where
  "line_break c \<longleftrightarrow> (of_char c :: nat) \<in> {10, 11, 12, 13, 28, 29, 30, 133}"

fun lines_from :: "string \<Rightarrow> string \<Rightarrow> string list" where
  "lines_from acc [] = (if acc = [] then [] else [rev acc])"
| "lines_from acc (c # s) =
     (if line_break c then rev acc # lines_from [] (if c = CHR 0x0D \<and> take 1 s = [CHR 0x0A] then tl s else s)
      else lines_from (c # acc) s)"

text \<open>\<open>str.splitlines()\<close>.\<close>

definition py_splitlines :: "string \<Rightarrow> string list" where
  "py_splitlines s = lines_from [] s"

text \<open>\<open>str.partition\<close> on one character: what is before and after it.\<close>

definition py_partition :: "char \<Rightarrow> string \<Rightarrow> string \<times> string" where
  "py_partition d s = (takeWhile (\<lambda>c. c \<noteq> d) s, drop 1 (dropWhile (\<lambda>c. c \<noteq> d) s))"

definition strip_char :: "char \<Rightarrow> string \<Rightarrow> string" where
  "strip_char d s = rev (dropWhile (\<lambda>c. c = d) (rev (dropWhile (\<lambda>c. c = d) s)))"

section \<open>The release file\<close>

definition os_release_line :: "string \<Rightarrow> (string \<times> string) list \<Rightarrow> (string \<times> string) list" where
  "os_release_line line result =
     (if CHR ''='' \<notin> set line \<or> prefix ''#'' line then result
      else let (key, value) = py_partition (CHR ''='') line
           in dict_set (py_lower (py_strip key)) (strip_char (CHR 0x22) (py_strip value)) result)"

text \<open>\<open>content\<close> is the text of the file, \<open>None\<close> when it is missing or cannot be read.\<close>

definition read_os_release :: "string option \<Rightarrow> payload" where
  "read_os_release content =
     (case content of None \<Rightarrow> []
      | Some t \<Rightarrow> (let result = fold os_release_line (py_splitlines t) [] in
          List.map_filter (\<lambda>key. case map_of result key of None \<Rightarrow> None | Some v \<Rightarrow> Some (key, PStr v))
            [''id'', ''name'', ''version_id'', ''pretty_name'', ''version_codename'']))"

section \<open>The machine's answers\<close>

record memory_stat =
  mm_total :: nat
  mm_available :: nat
  mm_used :: nat
  mm_percent :: rat

record disk_usage =
  du_total :: nat
  du_used :: nat
  du_free :: nat
  du_percent :: rat

record partition =
  dp_mountpoint :: string
  dp_device :: string
  dp_fstype :: string
  dp_opts :: string
  dp_usage :: "disk_usage option" \<comment> \<open>\<open>None\<close> when it cannot be read\<close>

record nic_stat =
  nc_up :: bool
  nc_speed :: int
  nc_mtu :: int

record nic_counter =
  nc_sent :: nat
  nc_received :: nat
  nc_errin :: nat
  nc_errout :: nat

datatype family = AF_INET | AF_INET6 | AF_LINK | AF_other string

record machine =
  mc_hostname :: string
  mc_system :: string
  mc_release :: string
  mc_version :: string
  mc_arch :: string
  mc_processor :: string
  mc_python :: string
  mc_os_release :: "string option"
  mc_boot :: time
  mc_now :: time
  mc_logical :: "nat option"
  mc_physical :: "nat option"
  mc_percpu :: "rat list"
  mc_freq :: "rat option"
  mc_memory :: memory_stat
  mc_swap :: memory_stat
  mc_partitions :: "partition list"
  mc_load :: "string + rat \<times> rat \<times> rat" \<comment> \<open>\<open>os.getloadavg\<close>, or the text of its \<open>OSError\<close>\<close>
  mc_addrs :: "(string \<times> (family \<times> string \<times> string option) list) list"
  mc_stats :: "(string \<times> nic_stat) list"
  mc_counters :: "(string \<times> nic_counter) list"

definition opt_nat :: "nat option \<Rightarrow> pyval" where
  "opt_nat x = (case x of None \<Rightarrow> PNone | Some n \<Rightarrow> PInt (int n))"

section \<open>The tools\<close>

definition system_info :: "machine \<Rightarrow> payload" where
  "system_info m =
     [(''hostname'', PStr (mc_hostname m)), (''system'', PStr (mc_system m)), (''kernel_release'', PStr (mc_release m)),
      (''kernel_version'', PStr (mc_version m)), (''architecture'', PStr (mc_arch m)),
      (''processor'', PStr (if mc_processor m = [] then mc_arch m else mc_processor m)), (''python_version'', PStr (mc_python m)),
      (''distribution'', PDict (read_os_release (mc_os_release m))), (''boot_time'', PStr (iso_datetime ''T'' (mc_boot m))),
      (''cpu_count_logical'', opt_nat (mc_logical m)), (''cpu_count_physical'', opt_nat (mc_physical m))]"

definition system_cpu :: "machine \<Rightarrow> payload" where
  "system_cpu m =
     [(''logical_cores'', opt_nat (mc_logical m)), (''physical_cores'', opt_nat (mc_physical m)),
      (''per_core_percent'', PList (map PFloat (mc_percpu m))),
      (''total_percent'', if mc_percpu m = [] then PFloat 0 else round_to 2 (sum_list (mc_percpu m) / of_nat (length (mc_percpu m)))),
      (''frequency_mhz'', case mc_freq m of None \<Rightarrow> PNone | Some f \<Rightarrow> round_to 1 f),
      (''note'', PStr ''percentages are measured since the previous call to this tool'')]"

definition system_memory :: "machine \<Rightarrow> payload" where
  "system_memory m =
     (let v = mc_memory m; s = mc_swap m in
      [(''total_bytes'', PInt (int (mm_total v))), (''available_bytes'', PInt (int (mm_available v))), (''used_bytes'', PInt (int (mm_used v))),
       (''percent_used'', PFloat (mm_percent v)), (''total_human'', PStr (human_bytes (mm_total v))),
       (''available_human'', PStr (human_bytes (mm_available v))), (''used_human'', PStr (human_bytes (mm_used v))),
       (''swap_total_bytes'', PInt (int (mm_total s))), (''swap_used_bytes'', PInt (int (mm_used s))), (''swap_percent_used'', PFloat (mm_percent s))])"

definition PSEUDO_FILESYSTEMS :: "string list" where
  "PSEUDO_FILESYSTEMS = [''tmpfs'', ''devtmpfs'', ''squashfs'', ''overlay'', ''proc'', ''sysfs'', ''cgroup'', ''cgroup2'', ''devpts'']"

definition listed :: "bool \<Rightarrow> partition \<Rightarrow> bool" where
  "listed include_pseudo p \<longleftrightarrow> (include_pseudo \<or> dp_fstype p \<notin> set PSEUDO_FILESYSTEMS) \<and> dp_fstype p \<noteq> []"

definition disk_entry :: "partition \<Rightarrow> payload" where
  "disk_entry p =
     [(''mountpoint'', PStr (dp_mountpoint p)), (''device'', PStr (dp_device p)), (''fstype'', PStr (dp_fstype p))] @
     (case dp_usage p of None \<Rightarrow> [(''error'', PStr ''permission denied or unreadable'')]
      | Some u \<Rightarrow> [(''options'', PStr (dp_opts p)), (''total_bytes'', PInt (int (du_total u))), (''used_bytes'', PInt (int (du_used u))),
          (''free_bytes'', PInt (int (du_free u))), (''percent_used'', PFloat (du_percent u)), (''total_human'', PStr (human_bytes (du_total u))),
          (''used_human'', PStr (human_bytes (du_used u))), (''free_human'', PStr (human_bytes (du_free u)))])"

text \<open>Readable mounts, fullest first; \<open>sort(reverse=True)\<close> keeps equal ones in their order.\<close>

definition readable_disks :: "bool \<Rightarrow> machine \<Rightarrow> (partition \<times> disk_usage) list" where
  "readable_disks include_pseudo m =
     sort_key (\<lambda>(p, u). - du_percent u)
       (List.map_filter (\<lambda>p. case dp_usage p of None \<Rightarrow> None | Some u \<Rightarrow> Some (p, u)) (filter (listed include_pseudo) (mc_partitions m)))"

definition system_disk :: "bool \<Rightarrow> machine \<Rightarrow> payload" where
  "system_disk include_pseudo m =
     (let ready = readable_disks include_pseudo m;
          broken = filter (\<lambda>p. dp_usage p = None) (filter (listed include_pseudo) (mc_partitions m))
      in [(''filesystems'', PList (map (\<lambda>(p, u). PDict (disk_entry p)) ready @ map (\<lambda>p. PDict (disk_entry p)) broken)),
          (''fullest'', case ready of [] \<Rightarrow> PNone | (p, u) # _ \<Rightarrow> PDict (disk_entry p)),
          (''fullest_summary'', PStr (case ready of [] \<Rightarrow> ''no readable filesystems''
             | (p, u) # _ \<Rightarrow> dp_mountpoint p @ '' at '' @ str_float (du_percent u) @ ''% used ('' @ human_bytes (du_used u) @ '' of '' @
                 human_bytes (du_total u) @ '')'')),
          (''count'', PInt (int (length ready)))])"

definition system_uptime :: "machine \<Rightarrow> payload" where
  "system_uptime m =
     (let up = mc_now m - mc_boot m in
      [(''boot_time'', PStr (iso_datetime ''T'' (mc_boot m))), (''uptime_seconds'', round_to 1 (of_int up / 1000000)),
       (''uptime_human'', PStr (human_duration (whole_seconds up)))])"

definition system_load :: "machine \<Rightarrow> scrappy_error + payload" where
  "system_load m =
     (case mc_load m of
        Inl text0 \<Rightarrow> Inl (ToolError (''Load average unavailable: '' @ text0) ''system.load'')
      | Inr (one, five, fifteen) \<Rightarrow>
          (let cores = (case mc_logical m of None \<Rightarrow> 1 | Some n \<Rightarrow> if n = 0 then 1 else n); saturated = of_nat cores < one in
           Inr [(''load_1m'', round_to 2 one), (''load_5m'', round_to 2 five), (''load_15m'', round_to 2 fifteen), (''cpu_count'', PInt (int cores)),
             (''load_per_core_1m'', round_to 2 (one / of_nat cores)), (''saturated'', PBool saturated),
             (''interpretation'', PStr (''load '' @ two_decimals one @ '' across '' @ str_nat cores @ '' cores ('' @
                (if saturated then ''saturated'' else ''within capacity'') @ '')''))]))"

fun family_name :: "family \<Rightarrow> string" where
  "family_name AF_INET = ''ipv4''"
| "family_name AF_INET6 = ''ipv6''"
| "family_name AF_LINK = ''link''"
| "family_name (AF_other t) = t"

definition interface_entry :: "machine \<Rightarrow> string \<times> (family \<times> string \<times> string option) list \<Rightarrow> payload" where
  "interface_entry m e =
     (let name = fst e; stat = map_of (mc_stats m) name; counter = map_of (mc_counters m) name;
          ofs = (\<lambda>f. case stat of None \<Rightarrow> PNone | Some v \<Rightarrow> PInt (f v)); ofc = (\<lambda>f. case counter of None \<Rightarrow> PNone | Some v \<Rightarrow> PInt (int (f v))) in
      [(''name'', PStr name), (''is_up'', case stat of None \<Rightarrow> PNone | Some v \<Rightarrow> PBool (nc_up v)),
       (''speed_mbps'', ofs nc_speed), (''mtu'', ofs nc_mtu),
       (''addresses'', PList (map (\<lambda>(f, a, mask). PDict [(''family'', PStr (family_name f)), (''address'', PStr a), (''netmask'', pstr_opt mask)]) (snd e))),
       (''bytes_sent'', ofc nc_sent), (''bytes_received'', ofc nc_received),
       (''errors_in'', ofc nc_errin), (''errors_out'', ofc nc_errout)])"

definition system_network :: "machine \<Rightarrow> payload" where
  "system_network m =
     (let interfaces = map (interface_entry m) (sort_key fst (mc_addrs m)) in
      [(''interfaces'', PList (map PDict interfaces)), (''count'', PInt (int (length interfaces)))])"

section \<open>Lemmas\<close>

lemma map_filter_usage:
  "set (List.map_filter (\<lambda>p. case dp_usage p of None \<Rightarrow> None | Some u \<Rightarrow> Some (p, u)) ps) = {(p, u). p \<in> set ps \<and> dp_usage p = Some u}"
  by (auto simp: List.map_filter_def split: option.splits) force

lemma set_readable_disks:
  "(p, u) \<in> set (readable_disks b m) \<longleftrightarrow> p \<in> set (mc_partitions m) \<and> listed b p \<and> dp_usage p = Some u"
  by (auto simp: readable_disks_def map_filter_usage)

text \<open>The mount reported as fullest is listed, readable and at least as full as any other such mount.\<close>

lemma fullest_is_fullest:
  assumes "readable_disks b m = (p, u) # rest" "q \<in> set (mc_partitions m)" "listed b q" "dp_usage q = Some v"
  shows "du_percent v \<le> du_percent u"
proof -
  have "sorted (map (\<lambda>(p, u). - du_percent u) (readable_disks b m))"
    by (simp add: readable_disks_def)
  moreover have "(q, v) \<in> set (readable_disks b m)" using assms(2-4) by (simp add: set_readable_disks)
  ultimately show ?thesis using assms(1) by (auto simp: sorted_wrt_map)
qed

lemma duration_example: "human_duration 273720 = ''3d 4h 2m''"
  by code_simp

end
