(* ===== verification/Obs_Redaction.thy ===== *)
theory Obs_Redaction
  imports Py_Regex Py_Value
begin

text \<open>
  \<open>observability/redaction.py\<close>: what every payload passes through before it reaches a log line,
  an audit row or a prompt. The credential shapes are the code's seven regular expressions.
\<close>

definition REDACTED :: string where
  "REDACTED = ''[REDACTED]''"

definition MAX_STRING_LENGTH :: nat where
  "MAX_STRING_LENGTH = 8192"

definition SENSITIVE_KEY_PARTS :: "string list" where
  "SENSITIVE_KEY_PARTS = [''api_key'', ''apikey'', ''auth'', ''authorization'', ''cookie'', ''credential'',
     ''passwd'', ''password'', ''private_key'', ''secret'', ''session'', ''signature'', ''token'']"

definition NON_SECRET_KEYS :: "string list" where
  "NON_SECRET_KEYS = [''auth_method'', ''authentication_method'', ''credential_count'', ''credential_id'',
     ''rotated_from'']"

section \<open>Credential shapes\<close>

definition ascii_alnum :: "char \<Rightarrow> bool" where
  "ascii_alnum c \<longleftrightarrow> is_digit c \<or> is_lower_az c \<or> is_upper_az c"

definition base64url_char :: "char \<Rightarrow> bool" where
  "base64url_char c \<longleftrightarrow> ascii_alnum c \<or> c = CHR ''_'' \<or> c = CHR ''-''"

definition one_of :: "string \<Rightarrow> regex" where
  "one_of s = Cls (\<lambda>c. c \<in> set s)"

definition lit_nocase :: "string \<Rightarrow> regex" where
  "lit_nocase s = seq_all (map (\<lambda>c. Cls (\<lambda>x. lower_char x = c)) s)"

definition key_word :: regex where
  "key_word = Greedy (Cls (\<lambda>c. is_upper_az c \<or> c = CHR '' ''))"

definition SENSITIVE_VALUE_PATTERNS :: "regex list" where
  "SENSITIVE_VALUE_PATTERNS =
     [seq_all [WordBoundary, lit ''sk-'', at_least_r 16 (Cls base64url_char), WordBoundary],
      seq_all [WordBoundary, lit ''gh'', one_of ''pousr'', lit ''_'', at_least_r 20 (Cls ascii_alnum), WordBoundary],
      seq_all [WordBoundary, lit ''xox'', one_of ''baprs'', lit ''-'',
        at_least_r 10 (Cls (\<lambda>c. ascii_alnum c \<or> c = CHR ''-'')), WordBoundary],
      seq_all [WordBoundary, lit ''AKIA'', exactly_r 16 (Cls (\<lambda>c. is_digit c \<or> is_upper_az c)), WordBoundary],
      seq_all [WordBoundary, lit ''eyJ'', at_least_r 10 (Cls base64url_char), lit ''.'',
        at_least_r 10 (Cls base64url_char), lit ''.'', at_least_r 10 (Cls base64url_char), WordBoundary],
      seq_all [lit ''-----BEGIN '', key_word, lit ''PRIVATE KEY-----'', Lazy (Cls (\<lambda>c. True)),
        lit ''-----END '', key_word, lit ''PRIVATE KEY-----''],
      seq_all [WordBoundary, Alt (lit_nocase ''bearer'') (lit_nocase ''basic''), at_least_r 1 (Cls py_isspace),
        at_least_r 12 (Cls (\<lambda>c. ascii_alnum c \<or> c \<in> set ''._-+/=''))]]"

section \<open>Redaction\<close>

definition is_sensitive_key :: "string \<Rightarrow> bool" where
  "is_sensitive_key key =
     (let lowered = py_lower key in
      lowered \<notin> set NON_SECRET_KEYS \<and> list_ex (\<lambda>part. py_contains part lowered) SENSITIVE_KEY_PARTS)"

definition redact_text :: "string \<Rightarrow> string" where
  "redact_text s = fold (\<lambda>r v. re_sub r REDACTED v) SENSITIVE_VALUE_PATTERNS s"

definition truncation_note :: "nat \<Rightarrow> string" where
  "truncation_note n = ''... [truncated '' @ str_nat n @ '' chars]''"

definition redact_string :: "string \<Rightarrow> string" where
  "redact_string s =
     (let masked = redact_text s in
      if MAX_STRING_LENGTH < length masked then take MAX_STRING_LENGTH masked @ truncation_note (length masked)
      else masked)"

definition bytes_note :: "nat \<Rightarrow> string" where
  "bytes_note n = ''<'' @ str_nat n @ '' bytes>''"

definition too_deep :: string where
  "too_deep = ''[TRUNCATED: max depth]''"

fun redact_at :: "nat \<Rightarrow> nat \<Rightarrow> pyval \<Rightarrow> pyval" where
  "redact_at depth max_depth value =
     (if max_depth < depth then PStr too_deep
      else case value of
        PDict d \<Rightarrow> PDict (map (\<lambda>(key, item).
          (key, if is_sensitive_key key then (if item = PNone then PNone else PStr REDACTED)
                else redact_at (Suc depth) max_depth item)) d)
      | PStr s \<Rightarrow> PStr (redact_string s)
      | PBytes b \<Rightarrow> PStr (bytes_note (length b))
      | PList xs \<Rightarrow> PList (map (redact_at (Suc depth) max_depth) xs)
      | PSet xs \<Rightarrow> PList (map PStr (sort (map (\<lambda>s.
          if max_depth < Suc depth then too_deep else redact_string s) xs)))
      | v \<Rightarrow> v)"

declare redact_at.simps [simp del]

definition redact :: "pyval \<Rightarrow> pyval" where
  "redact v = redact_at 0 12 v"

definition redact_payload :: "payload \<Rightarrow> payload" where
  "redact_payload p = (case redact (PDict p) of PDict d \<Rightarrow> d | _ \<Rightarrow> [])"

section \<open>Lemmas\<close>

lemma redact_at_simps:
  "max_depth < depth \<Longrightarrow> redact_at depth max_depth v = PStr too_deep"
  "depth \<le> max_depth \<Longrightarrow> redact_at depth max_depth (PDict d) = PDict (map (\<lambda>(key, item).
     (key, if is_sensitive_key key then (if item = PNone then PNone else PStr REDACTED)
           else redact_at (Suc depth) max_depth item)) d)"
  "depth \<le> max_depth \<Longrightarrow> redact_at depth max_depth (PList xs) = PList (map (redact_at (Suc depth) max_depth) xs)"
  "depth \<le> max_depth \<Longrightarrow> redact_at depth max_depth (PStr s) = PStr (redact_string s)"
  by (simp_all add: redact_at.simps)

text \<open>The same value with everything under a sensitive key wiped.\<close>

fun wipe :: "pyval \<Rightarrow> pyval" where
  "wipe (PDict d) = PDict (map (\<lambda>(key, item).
     (key, if is_sensitive_key key then (if item = PNone then PNone else PStr []) else wipe item)) d)"
| "wipe (PList xs) = PList (map wipe xs)"
| "wipe v = v"

lemma redact_at_wipe: "redact_at depth max_depth (wipe v) = redact_at depth max_depth v"
proof (induction v arbitrary: depth rule: wipe.induct)
  case (1 d)
  show ?case
  proof (cases "depth \<le> max_depth")
    case True
    have "redact_at (Suc depth) max_depth (wipe item) = redact_at (Suc depth) max_depth item"
      if "(key, item) \<in> set d" "\<not> is_sensitive_key key" for key item
      by (rule "1.IH" [OF that(1) refl that(2)])
    then show ?thesis using True by (auto simp: redact_at_simps)
  qed (simp add: redact_at_simps)
next
  case (2 xs)
  then show ?case by (cases "depth \<le> max_depth") (simp_all add: redact_at_simps)
qed simp_all

text \<open>What may appear in a redacted value: no open value under a sensitive key, no long string.\<close>

fun redacted_ok :: "pyval \<Rightarrow> bool" where
  "redacted_ok (PDict d) \<longleftrightarrow>
     list_all (\<lambda>(key, item). is_sensitive_key key \<longrightarrow> item = PNone \<or> item = PStr REDACTED) d
     \<and> list_all (\<lambda>(key, item). redacted_ok item) d"
| "redacted_ok (PList xs) \<longleftrightarrow> list_all redacted_ok xs"
| "redacted_ok (PStr s) \<longleftrightarrow> length s \<le> MAX_STRING_LENGTH \<or>
     (\<exists>n t. MAX_STRING_LENGTH < n \<and> length t = MAX_STRING_LENGTH \<and> s = t @ truncation_note n) \<or>
     (\<exists>n. s = bytes_note n)"
| "redacted_ok (PBytes b) \<longleftrightarrow> False"
| "redacted_ok (PSet xs) \<longleftrightarrow> False"
| "redacted_ok v \<longleftrightarrow> True"

lemma redact_string_ok: "redacted_ok (PStr (redact_string s))"
  by (auto simp: redact_string_def Let_def intro!: exI [of _ "length (redact_text s)"])

lemma short_ok: "redacted_ok (PStr too_deep)" "redacted_ok (PStr REDACTED)"
  by (simp_all add: too_deep_def REDACTED_def MAX_STRING_LENGTH_def)

lemma bytes_ok: "redacted_ok (PStr (bytes_note n))"
  by auto

lemma redact_at_ok: "redacted_ok (redact_at depth max_depth v)"
proof (induction v arbitrary: depth rule: wipe.induct)
  case (1 d)
  show ?case
  proof (cases "depth \<le> max_depth")
    case True
    have "redacted_ok (redact_at (Suc depth) max_depth item)"
      if "(key, item) \<in> set d" "\<not> is_sensitive_key key" for key item
      by (rule "1.IH" [OF that(1) refl that(2)])
    with True short_ok(2) show ?thesis
      by (auto simp: redact_at_simps list_all_iff split: if_splits simp del: redacted_ok.simps(3))
  qed (simp add: redact_at_simps short_ok del: redacted_ok.simps(3))
next
  case (2 xs)
  then show ?case
    by (cases "depth \<le> max_depth")
      (auto simp: redact_at_simps list_all_iff short_ok simp del: redacted_ok.simps(3))
qed (use short_ok redact_string_ok in
    \<open>auto simp: redact_at.simps list_all_iff bytes_ok simp del: redacted_ok.simps(3)\<close>)

section \<open>Properties\<close>

text \<open>
  C39. Redaction is independent of what is held under a sensitive key, at every nesting level:
  replacing such a value by any other (that is not \<open>None\<close>) changes nothing in the result. In the
  result a sensitive key carries \<open>[REDACTED]\<close> or \<open>None\<close>, no bytes are left, and a string is
  longer than 8192 characters only by its truncation note (or is the note of a byte string).
\<close>

theorem redact_hides_sensitive_keys: "redact (wipe v) = redact v \<and> redacted_ok (redact v)"
  by (simp add: redact_def redact_at_wipe redact_at_ok)

end
