(* ===== verification/Tool_Process.thy ===== *)
theory Tool_Process
  imports Tool_System Obs_Redaction
begin

text \<open>
  \<open>tools/process.py\<close>: listing and inspecting processes, and signalling one. The process table is a
  parameter on the machine's state \<open>'w\<close>; an answer of \<open>psutil\<close> may be that the process is gone or
  that access is denied.
\<close>

definition PROTECTED_PIDS :: "int list" where
  "PROTECTED_PIDS = [0, 1]"

definition PROTECTED_PROCESS_NAMES :: "string list" where
  "PROTECTED_PROCESS_NAMES = [''systemd'', ''init'', ''kthreadd'', ''sshd'', ''dbus-daemon'', ''kernel'']"

datatype sort_field = By_memory | By_cpu | By_pid | By_name

record process_list_args =
  pa_limit :: nat
  pa_sort_by :: sort_field
  pa_name_contains :: "string option"

datatype process_signal = SIGTERM | SIGHUP | SIGINT | SIGKILL

record process_kill_args =
  pk_pid :: int
  pk_signal :: process_signal

fun signal_name :: "process_signal \<Rightarrow> string" where
  "signal_name SIGTERM = ''TERM''" | "signal_name SIGHUP = ''HUP''" | "signal_name SIGINT = ''INT''" | "signal_name SIGKILL = ''KILL''"

fun sort_value :: "sort_field \<Rightarrow> string" where
  "sort_value By_memory = ''memory''" | "sort_value By_cpu = ''cpu''" | "sort_value By_pid = ''pid''" | "sort_value By_name = ''name''"

definition check_list_args :: "process_list_args \<Rightarrow> bool" where
  "check_list_args a \<longleftrightarrow> 1 \<le> pa_limit a \<and> pa_limit a \<le> 500
     \<and> (case pa_name_contains a of None \<Rightarrow> True | Some n \<Rightarrow> length n \<le> 128)"

definition check_inspect_pid :: "int \<Rightarrow> bool" where
  "check_inspect_pid pid \<longleftrightarrow> 0 \<le> pid \<and> pid \<le> 2 ^ 22"

definition check_kill_args :: "process_kill_args \<Rightarrow> bool" where
  "check_kill_args a \<longleftrightarrow> 2 \<le> pk_pid a \<and> pk_pid a \<le> 2 ^ 22"

section \<open>The process table\<close>

datatype ps_error = No_such_process | Access_denied

text \<open>The attributes \<open>process_iter\<close> prefetches; what is denied is \<open>None\<close>.\<close>

record process_info =
  if_pid :: int
  if_name :: "string option"
  if_user :: "string option"
  if_status :: "string option"
  if_rss :: "nat option"
  if_cpu :: "rat option"

record process_detail =
  dt_info :: process_info
  dt_created :: rat
  dt_cmdline :: "string list"
  dt_cwd :: "ps_error + string"
  dt_exe :: "ps_error + string"
  dt_ppid :: int
  dt_threads :: nat
  dt_vms :: nat
  dt_open_files :: "ps_error + nat"
  dt_connections :: "ps_error + nat"

record 'w ps =
  ps_iter :: "'w \<Rightarrow> process_info list"
  ps_detail :: "int \<Rightarrow> 'w \<Rightarrow> ps_error + process_detail"
  ps_name :: "int \<Rightarrow> 'w \<Rightarrow> ps_error + string"
  ps_signal :: "int \<Rightarrow> process_signal \<Rightarrow> 'w \<Rightarrow> ps_error option \<times> 'w"
  ps_own_pid :: int

section \<open>Listing\<close>

record process_row =
  pw_pid :: int
  pw_name :: string
  pw_user :: string
  pw_status :: string
  pw_rss :: nat
  pw_cpu :: rat

definition text_or :: "string option \<Rightarrow> string" where
  "text_or x = (case x of None \<Rightarrow> ''?'' | Some t \<Rightarrow> if t = [] then ''?'' else t)"

definition selects :: "string option \<Rightarrow> process_info \<Rightarrow> bool" where
  "selects name_contains i \<longleftrightarrow> (case name_contains of None \<Rightarrow> True
     | Some t \<Rightarrow> t = [] \<or> py_contains (py_lower t) (py_lower (case if_name i of None \<Rightarrow> [] | Some n \<Rightarrow> n)))"

definition process_row_of :: "process_info \<Rightarrow> process_row" where
  "process_row_of i = \<lparr>pw_pid = if_pid i, pw_name = text_or (if_name i), pw_user = text_or (if_user i), pw_status = text_or (if_status i),
     pw_rss = (case if_rss i of None \<Rightarrow> 0 | Some r \<Rightarrow> r), pw_cpu = (case if_cpu i of None \<Rightarrow> 0 | Some c \<Rightarrow> c)\<rparr>"

fun sort_rows :: "sort_field \<Rightarrow> process_row list \<Rightarrow> process_row list" where
  "sort_rows By_memory rows = sort_key (\<lambda>r. - int (pw_rss r)) rows"
| "sort_rows By_cpu rows = sort_key (\<lambda>r. - pw_cpu r) rows"
| "sort_rows By_pid rows = sort_key pw_pid rows"
| "sort_rows By_name rows = sort_key pw_name rows"

definition list_processes :: "'w ps \<Rightarrow> process_list_args \<Rightarrow> 'w \<Rightarrow> process_row list" where
  "list_processes ps a w = sort_rows (pa_sort_by a) (map process_row_of (filter (selects (pa_name_contains a)) (ps_iter ps w)))"

definition row_json :: "process_row \<Rightarrow> pyval" where
  "row_json r = PDict [(''pid'', PInt (pw_pid r)), (''name'', PStr (pw_name r)), (''user'', PStr (pw_user r)), (''status'', PStr (pw_status r)),
     (''rss_bytes'', PInt (int (pw_rss r))), (''rss_human'', PStr (human_bytes (pw_rss r))), (''cpu_percent'', PFloat (pw_cpu r))]"

definition run_process_list :: "'w ps \<Rightarrow> process_list_args \<Rightarrow> 'w \<Rightarrow> payload" where
  "run_process_list ps a w =
     (let rows = list_processes ps a w in
      [(''processes'', PList (map row_json (take (pa_limit a) rows))), (''total_running'', PInt (int (length rows))),
       (''shown'', PInt (int (min (pa_limit a) (length rows)))), (''sorted_by'', PStr (sort_value (pa_sort_by a)))])"

definition run_process_resources :: "'w ps \<Rightarrow> process_list_args \<Rightarrow> 'w \<Rightarrow> payload" where
  "run_process_resources ps a w =
     (let rows = list_processes ps a w; sample = take (pa_limit a) rows; total_rss = sum_list (map pw_rss sample) in
      [(''process_count'', PInt (int (length rows))), (''sampled'', PInt (int (length sample))),
       (''total_rss_bytes'', PInt (int total_rss)), (''total_rss_human'', PStr (human_bytes total_rss)),
       (''top_by_memory'', PList (map row_json (take 5 (sort_key (\<lambda>r. - int (pw_rss r)) sample)))),
       (''top_by_cpu'', PList (map row_json (take 5 (sort_key (\<lambda>r. - pw_cpu r) sample))))])"

section \<open>Inspection\<close>

definition safe_val :: "('a \<Rightarrow> pyval) \<Rightarrow> ps_error + 'a \<Rightarrow> pyval" where
  "safe_val f x = (case x of Inl e \<Rightarrow> PNone | Inr v \<Rightarrow> f v)"

definition detail_json :: "process_detail \<Rightarrow> payload" where
  "detail_json d =
     (let i = dt_info d; r = process_row_of i in
      [(''pid'', PInt (if_pid i)), (''name'', pstr_opt (if_name i)), (''status'', pstr_opt (if_status i)), (''user'', pstr_opt (if_user i)),
       (''created_at'', PFloat (dt_created d)), (''cmdline'', PList (map (\<lambda>part. PStr (redact_text part)) (dt_cmdline d))),
       (''cwd'', safe_val PStr (dt_cwd d)), (''exe'', safe_val PStr (dt_exe d)), (''parent_pid'', PInt (dt_ppid d)),
       (''num_threads'', PInt (int (dt_threads d))), (''rss_bytes'', PInt (int (pw_rss r))), (''rss_human'', PStr (human_bytes (pw_rss r))),
       (''vms_bytes'', PInt (int (dt_vms d))), (''cpu_percent'', PFloat (pw_cpu r)),
       (''open_files'', safe_val (\<lambda>n. PInt (int n)) (dt_open_files d)), (''connections'', safe_val (\<lambda>n. PInt (int n)) (dt_connections d))])"

definition run_process_inspect :: "'w ps \<Rightarrow> int \<Rightarrow> 'w \<Rightarrow> scrappy_error + payload" where
  "run_process_inspect ps pid w =
     (case ps_detail ps pid w of
        Inl No_such_process \<Rightarrow> Inl (ToolError (''No process with PID '' @ str_int pid) ''process.inspect'')
      | Inl Access_denied \<Rightarrow> Inl (ToolError (''Permission denied inspecting PID '' @ str_int pid) ''process.inspect'')
      | Inr d \<Rightarrow> Inr (detail_json d))"

section \<open>Signalling\<close>

definition kill_error :: "string \<Rightarrow> scrappy_error" where
  "kill_error m = ToolError m ''process.kill''"

definition kill_classify :: "'w ps \<Rightarrow> process_kill_args \<Rightarrow> 'w \<Rightarrow> risk_level \<times> string" where
  "kill_classify ps a w =
     (if pk_pid a \<in> set PROTECTED_PIDS then (DESTRUCTIVE, ''PID '' @ str_int (pk_pid a) @ '' is the init system'')
      else case ps_name ps (pk_pid a) w of
        Inl e \<Rightarrow> (PRIVILEGED, ''cannot identify PID '' @ str_int (pk_pid a) @ '' before signalling'')
      | Inr name \<Rightarrow>
          if name \<in> set PROTECTED_PROCESS_NAMES then (DESTRUCTIVE, name @ '' is critical to machine availability'')
          else if pk_signal a = SIGKILL then (DESTRUCTIVE, ''SIGKILL gives '' @ name @ '' no chance to shut down cleanly'')
          else (PRIVILEGED, ''SIG'' @ signal_name (pk_signal a) @ '' to '' @ name @ '' (pid '' @ str_int (pk_pid a) @ '')''))"

definition ps_failure :: "int \<Rightarrow> ps_error \<Rightarrow> scrappy_error" where
  "ps_failure pid e = (case e of No_such_process \<Rightarrow> kill_error (''No process with PID '' @ str_int pid)
     | Access_denied \<Rightarrow> kill_error (''Permission denied signalling PID '' @ str_int pid))"

definition run_process_kill :: "'w ps \<Rightarrow> process_kill_args \<Rightarrow> 'w \<Rightarrow> (scrappy_error + payload) \<times> 'w" where
  "run_process_kill ps a w =
     (if pk_pid a \<in> set PROTECTED_PIDS
        then (Inl (kill_error (''Refusing to signal PID '' @ str_int (pk_pid a) @ '': it is the init system'')), w)
      else if pk_pid a = ps_own_pid ps then (Inl (kill_error ''Refusing to signal the Scrappy OS process''), w)
      else case ps_name ps (pk_pid a) w of
        Inl e \<Rightarrow> (Inl (ps_failure (pk_pid a) e), w)
      | Inr name \<Rightarrow>
          if name \<in> set PROTECTED_PROCESS_NAMES
            then (Inl (kill_error (''Refusing to signal '' @ name @ '' (pid '' @ str_int (pk_pid a) @ ''): protected process'')), w)
          else (case ps_signal ps (pk_pid a) (pk_signal a) w of
              (Some e, w') \<Rightarrow> (Inl (ps_failure (pk_pid a) e), w')
            | (None, w') \<Rightarrow> (Inr [(''pid'', PInt (pk_pid a)), (''name'', PStr name),
                (''signal'', PStr (''SIG'' @ signal_name (pk_signal a))), (''sent'', PBool True)], w')))"

section \<open>Lemmas\<close>

text \<open>The totals \<open>process.resources\<close> reports as those of all processes are those of the first \<open>limit\<close>.\<close>

lemma totals_of_the_sample:
  "pget ''total_rss_bytes'' (run_process_resources ps a w) = PInt (int (sum_list (map pw_rss (take (pa_limit a) (list_processes ps a w)))))"
  by (simp add: run_process_resources_def Let_def pget_def)

text \<open>Signalling is never below the floor of its tool, and the strong signal and the protected names are above it.\<close>

lemma kill_classify_floor: "rank PRIVILEGED \<le> rank (fst (kill_classify ps a w))"
  by (auto simp: kill_classify_def split: sum.splits)

section \<open>Properties\<close>

text \<open>
  C13. What \<open>process.kill\<close> may signal, whatever was approved: nothing, or exactly one signal, the one
  asked for, to the process asked for, which is neither process 0 or 1 nor Scrappy OS itself, and
  which at that moment was readable and had none of the protected names. What could be signalled is
  classified destructive for \<open>SIGKILL\<close> and privileged for the milder signals.
\<close>

theorem kill_spares_protected:
  "snd (run_process_kill ps a w) = w
   \<or> (pk_pid a \<notin> {0, 1, ps_own_pid ps} \<and> snd (run_process_kill ps a w) = snd (ps_signal ps (pk_pid a) (pk_signal a) w)
      \<and> (\<exists>name. ps_name ps (pk_pid a) w = Inr name \<and> name \<notin> {''systemd'', ''init'', ''kthreadd'', ''sshd'', ''dbus-daemon'', ''kernel''})
      \<and> (if pk_signal a = SIGKILL then fst (kill_classify ps a w) = DESTRUCTIVE else fst (kill_classify ps a w) = PRIVILEGED))"
proof (cases "ps_name ps (pk_pid a) w")
  case (Inr name)
  show ?thesis
  proof (cases "pk_pid a \<in> set PROTECTED_PIDS \<or> pk_pid a = ps_own_pid ps \<or> name \<in> set PROTECTED_PROCESS_NAMES")
    case True
    with Inr have "snd (run_process_kill ps a w) = w" by (auto simp: run_process_kill_def)
    then show ?thesis ..
  next
    case False
    with Inr have "snd (run_process_kill ps a w) = snd (ps_signal ps (pk_pid a) (pk_signal a) w)"
      by (auto simp: run_process_kill_def split: prod.splits option.splits)
    with False Inr show ?thesis
      by (auto simp: kill_classify_def PROTECTED_PIDS_def PROTECTED_PROCESS_NAMES_def)
  qed
qed (auto simp: run_process_kill_def)

end
