(* ===== verification/Tool_Git.thy ===== *)
theory Tool_Git
  imports Tool_System Tool_Shell
begin

text \<open>
  \<open>tools/git.py\<close>: four read-only operations, each one \<open>git\<close> command with fixed arguments, and the
  reading of its output. The machine is the parameter of the shell tool; a command inherits the
  working directory, given here as the empty string.
\<close>

definition MAX_GIT_OUTPUT :: nat where
  "MAX_GIT_OUTPUT = 256 * 1024"

definition GIT_TIMEOUT :: time where
  "GIT_TIMEOUT = seconds 30"

datatype git_call = G_status | G_log nat | G_diff bool bool \<comment> \<open>staged, name only\<close> | G_branch bool

fun git_tool_name :: "git_call \<Rightarrow> string" where
  "git_tool_name G_status = ''git.status''"
| "git_tool_name (G_log n) = ''git.log''"
| "git_tool_name (G_diff s o0) = ''git.diff''"
| "git_tool_name (G_branch r) = ''git.branch''"

definition check_git_args :: "string \<Rightarrow> git_call \<Rightarrow> bool" where
  "check_git_args repo_path c \<longleftrightarrow> length repo_path \<le> 4096 \<and> (case c of G_log n \<Rightarrow> 1 \<le> n \<and> n \<le> 200 | _ \<Rightarrow> True)"

text \<open>The arguments after the options every command gets.\<close>

fun git_arguments :: "git_call \<Rightarrow> string list" where
  "git_arguments G_status = [''status'', ''--porcelain=v2'', ''--branch'']"
| "git_arguments (G_log n) = [''log'', ''-'' @ str_nat n, ''--pretty=format:%H%x1f%an%x1f%aI%x1f%s'']"
| "git_arguments (G_diff staged name_only) = [''diff''] @ (if staged then [''--cached''] else []) @
     [if name_only then ''--name-status'' else ''--unified=3'']"
| "git_arguments (G_branch remote) = [''branch'', ''--format=%(refname:short)%00%(HEAD)''] @ (if remote then [''--all''] else [])"

section \<open>Running git\<close>

text \<open>\<open>_is_repository\<close>: a \<open>.git\<close> entry in the path or one of its parents.\<close>

definition is_repository :: "fs \<Rightarrow> path \<Rightarrow> bool" where
  "is_repository f p \<longleftrightarrow> list_ex (\<lambda>q. path_exists f (q @ [''.git''])) (rev (prefixes p))"

definition git_env :: "(string \<times> string) list \<Rightarrow> (string \<times> string) list" where
  "git_env environ = dict_set ''GIT_PAGER'' ''cat'' (dict_set ''GIT_TERMINAL_PROMPT'' ''0'' (build_child_env environ))"

definition git_repo :: "'w host \<Rightarrow> string \<Rightarrow> string \<Rightarrow> tool_context \<Rightarrow> 'w \<Rightarrow> scrappy_error + path" where
  "git_repo h tool repo_path ctx w =
     (case context_workspace (h_fs h w) ctx of
        None \<Rightarrow> Inl (Invalid ''RuntimeError'')
      | Some ws \<Rightarrow> ebind (validate_read_path (h_fs h w) repo_path (allowed_read_roots (x_settings ctx)) (Some (of_resolved ws))) (\<lambda>repo.
          if \<not> path_is_dir (h_fs h w) repo then Inl (ToolError (str_path repo @ '' is not a directory'') tool)
          else if \<not> is_repository (h_fs h w) repo then Inl (ToolError (str_path repo @ '' is not inside a git repository'') tool)
          else Inr repo))"

definition git_spawn :: "'w host \<Rightarrow> string \<Rightarrow> path \<Rightarrow> git_call \<Rightarrow> 'w \<Rightarrow> spawn" where
  "git_spawn h binary repo c w =
     \<lparr>sp_argv = [binary, ''-c'', ''core.pager=cat'', ''-C'', str_path repo] @ git_arguments c, sp_cwd = [],
      sp_env = git_env (h_environ h w)\<rparr>"

text \<open>\<open>_git\<close>: the decoded output. Every failure to start is an \<open>OSError\<close>; a timeout leaves the process running.\<close>

definition run_git :: "'w host \<Rightarrow> string \<Rightarrow> git_call \<Rightarrow> tool_context \<Rightarrow> 'w \<Rightarrow> (scrappy_error + string) \<times> 'w" where
  "run_git h repo_path c ctx w =
     (let tool = git_tool_name c; command = hd (git_arguments c) in
      case h_which h ''git'' SAFE_PATH w of
        None \<Rightarrow> (Inl (ToolError ''git is not installed on this machine'' tool), w)
      | Some binary \<Rightarrow>
          (case git_repo h tool repo_path ctx w of
             Inl e \<Rightarrow> (Inl e, w)
           | Inr repo \<Rightarrow>
               (case h_spawn h (git_spawn h binary repo c w) GIT_TIMEOUT w of
                  (Spawn_missing, w1) \<Rightarrow> (Inl (ToolError ''Cannot run git: No such file or directory'' tool), w1)
                | (Spawn_denied, w1) \<Rightarrow> (Inl (ToolError ''Cannot run git: Permission denied'' tool), w1)
                | (Spawn_failed t, w1) \<Rightarrow> (Inl (ToolError (''Cannot run git: '' @ t) tool), w1)
                | (Spawn_running took, w1) \<Rightarrow> (Inl (ToolError (''git '' @ command @ '' exceeded 30.0s'') tool), w1)
                | (Spawn_ended code out err took, w1) \<Rightarrow>
                    if code \<noteq> 0
                    then (Inl (ToolError (''git '' @ command @ '' failed (exit '' @ str_int code @ ''): '' @ take 500 (py_strip (h_decode h err))) tool), w1)
                    else (Inr (h_decode h (take MAX_GIT_OUTPUT out)), w1))))"

section \<open>Reading the output\<close>

record status_reading =
  sr_branch :: "string option"
  sr_upstream :: "string option"
  sr_changes :: "(string \<times> string) list" \<comment> \<open>status, path\<close>
  sr_untracked :: "string list"

definition status_line :: "string \<Rightarrow> status_reading \<Rightarrow> status_reading" where
  "status_line line s =
     (if prefix ''# branch.head'' line then s\<lparr>sr_branch := Some (last (py_split_max (CHR '' '') 2 line))\<rparr>
      else if prefix ''# branch.upstream'' line then s\<lparr>sr_upstream := Some (last (py_split_max (CHR '' '') 2 line))\<rparr>
      else if prefix ''1 '' line \<or> prefix ''2 '' line
        then (let parts = py_split_max (CHR '' '') 9 line in s\<lparr>sr_changes := sr_changes s @ [(parts ! 1, last parts)]\<rparr>)
      else if prefix ''? '' line then s\<lparr>sr_untracked := sr_untracked s @ [drop 2 line]\<rparr>
      else s)"

definition read_status :: "string \<Rightarrow> status_reading" where
  "read_status raw = fold status_line (py_splitlines raw) \<lparr>sr_branch = None, sr_upstream = None, sr_changes = [], sr_untracked = []\<rparr>"

definition status_payload :: "string \<Rightarrow> string \<Rightarrow> payload" where
  "status_payload repo_path raw =
     (let s = read_status raw in
      [(''repo_path'', PStr repo_path), (''branch'', pstr_opt (sr_branch s)), (''upstream'', pstr_opt (sr_upstream s)),
       (''changed_files'', PList (map (\<lambda>(status, path). PDict [(''status'', PStr status), (''path'', PStr path)]) (sr_changes s))),
       (''untracked_files'', PList (map PStr (sr_untracked s))), (''is_clean'', PBool (sr_changes s = [] \<and> sr_untracked s = [])),
       (''change_count'', PInt (int (length (sr_changes s) + length (sr_untracked s))))])"

definition unit_separator :: char where
  "unit_separator = CHR 0x1F"

record commit =
  cm_sha :: string
  cm_author :: string
  cm_date :: string
  cm_subject :: string

definition read_commit :: "string \<Rightarrow> commit option" where
  "read_commit line = (case py_split unit_separator line of
       [sha, author, date, subject] \<Rightarrow> Some \<lparr>cm_sha = sha, cm_author = author, cm_date = date, cm_subject = subject\<rparr>
     | _ \<Rightarrow> None)"

definition read_log :: "string \<Rightarrow> commit list" where
  "read_log raw = List.map_filter read_commit (py_splitlines raw)"

definition log_payload :: "string \<Rightarrow> string \<Rightarrow> payload" where
  "log_payload repo_path raw =
     [(''repo_path'', PStr repo_path), (''commits'', PList (map (\<lambda>c. PDict
        [(''sha'', PStr (cm_sha c)), (''short_sha'', PStr (take 8 (cm_sha c))), (''author'', PStr (cm_author c)), (''date'', PStr (cm_date c)),
         (''subject'', PStr (cm_subject c))]) (read_log raw))), (''count'', PInt (int (length (read_log raw))))]"

definition read_names :: "string \<Rightarrow> (string \<times> string) list" where
  "read_names raw = List.map_filter (\<lambda>line. case py_split_max (CHR 0x09) 1 line of [status, path] \<Rightarrow> Some (status, path) | _ \<Rightarrow> None)
     (py_splitlines raw)"

definition diff_payload :: "bool \<Rightarrow> string \<Rightarrow> string \<Rightarrow> payload" where
  "diff_payload name_only repo_path raw =
     (if name_only then
        [(''repo_path'', PStr repo_path), (''files'', PList (map (\<lambda>(status, path). PDict [(''status'', PStr status), (''path'', PStr path)]) (read_names raw))),
         (''count'', PInt (int (length (read_names raw))))]
      else [(''repo_path'', PStr repo_path), (''patch'', PStr raw), (''truncated'', PBool (MAX_GIT_OUTPUT \<le> length raw))])"

text \<open>Name, and whether it is checked out.\<close>

definition read_branches :: "string \<Rightarrow> (string \<times> bool) list" where
  "read_branches raw = List.map_filter (\<lambda>line. let (name, marker) = py_partition (CHR 0x00) line in
      if name = [] then None else Some (name, py_strip marker = ''*'')) (py_splitlines raw)"

definition branch_payload :: "string \<Rightarrow> string \<Rightarrow> payload" where
  "branch_payload repo_path raw =
     (let bs = read_branches raw; current = map fst (filter snd bs) in
      [(''repo_path'', PStr repo_path), (''branches'', PList (map (\<lambda>(n, c). PDict [(''name'', PStr n), (''current'', PBool c)]) bs)),
       (''current'', if current = [] then PNone else PStr (last current)), (''count'', PInt (int (length bs)))])"

fun git_payload :: "git_call \<Rightarrow> string \<Rightarrow> string \<Rightarrow> payload" where
  "git_payload G_status repo raw = status_payload repo raw"
| "git_payload (G_log n) repo raw = log_payload repo raw"
| "git_payload (G_diff staged name_only) repo raw = diff_payload name_only repo raw"
| "git_payload (G_branch remote) repo raw = branch_payload repo raw"

definition git_tool :: "'w host \<Rightarrow> string \<Rightarrow> git_call \<Rightarrow> tool_context \<Rightarrow> 'w \<Rightarrow> (scrappy_error + payload) \<times> 'w" where
  "git_tool h repo_path c ctx w =
     (case run_git h repo_path c ctx w of (Inl e, w') \<Rightarrow> (Inl e, w') | (Inr raw, w') \<Rightarrow> (Inr (git_payload c repo_path raw), w'))"

section \<open>Lemmas\<close>

lemma lines_from_word: "list_all (\<lambda>c. \<not> line_break c) l \<Longrightarrow> lines_from acc (l @ s) = lines_from (rev l @ acc) s"
  by (induction l arbitrary: acc) auto

lemma splitlines_join:
  "list_all (\<lambda>l. l \<noteq> [] \<and> list_all (\<lambda>c. \<not> line_break c) l) ls \<Longrightarrow> py_splitlines (py_join [CHR 0x0A] ls) = ls"
proof (induction ls rule: induct_list012)
  case (2 l)
  then show ?case using lines_from_word [of l "[]" "[]"] by (simp add: py_splitlines_def)
next
  case (3 l m ms)
  then have "lines_from [] (l @ CHR 0x0A # py_join [CHR 0x0A] (m # ms)) = l # lines_from [] (py_join [CHR 0x0A] (m # ms))"
    by (simp add: lines_from_word line_break_def)
  with 3 show ?case by (simp add: py_splitlines_def)
qed (simp add: py_splitlines_def)

lemma py_split_clean: "d \<notin> set a \<Longrightarrow> py_split d a = [a]"
  by (induction a) auto

lemma py_split_cons: "d \<notin> set a \<Longrightarrow> py_split d (a @ d # s) = a # py_split d s"
  by (induction a) auto

definition commit_line :: "commit \<Rightarrow> string" where
  "commit_line c = py_join [unit_separator] [cm_sha c, cm_author c, cm_date c, cm_subject c]"

definition commit_ok :: "commit \<Rightarrow> bool" where
  "commit_ok c \<longleftrightarrow> list_all (\<lambda>t. list_all (\<lambda>x. \<not> line_break x \<and> x \<noteq> unit_separator) t) [cm_sha c, cm_author c, cm_date c, cm_subject c]"

lemma split_commit_line:
  "commit_ok c \<Longrightarrow> py_split unit_separator (commit_line c) = [cm_sha c, cm_author c, cm_date c, cm_subject c]"
proof -
  assume "commit_ok c"
  then have "unit_separator \<notin> set (cm_sha c)" "unit_separator \<notin> set (cm_author c)" "unit_separator \<notin> set (cm_date c)"
    "unit_separator \<notin> set (cm_subject c)"
    by (auto simp: commit_ok_def list_all_iff)
  then show ?thesis by (simp add: commit_line_def py_split_cons py_split_clean)
qed

lemma read_commit_lines: "list_all commit_ok cs \<Longrightarrow> List.map_filter read_commit (map commit_line cs) = cs"
  by (induction cs) (simp_all add: List.map_filter_simps read_commit_def split_commit_line)

lemma commit_line_breaks: "commit_ok c \<Longrightarrow> commit_line c \<noteq> [] \<and> list_all (\<lambda>x. \<not> line_break x) (commit_line c)"
  by (auto simp: commit_ok_def commit_line_def list_all_iff unit_separator_def line_break_def)

text \<open>
  Four behaviours of the readers. A conflicted file alone leaves the tree clean; a path with a blank
  loses its first word; a commit whose subject holds the separator is dropped; and a command that
  runs out of time is left running.
\<close>

lemma conflict_reads_clean:
  "pget ''is_clean'' (status_payload r ''u UU N... 100644 100644 100644 100644 a b c file.txt'') = PBool True"
  by code_simp

lemma path_with_blank_is_cut:
  "sr_changes (read_status ''1 .M N... 100644 100644 100644 a b my notes.txt'') = [(''.M'', ''notes.txt'')]"
  by code_simp

lemma separator_drops_commit: "read_log (''s'' @ [CHR 0x1F] @ ''a'' @ [CHR 0x1F] @ ''d'' @ [CHR 0x1F] @ ''x'' @ [CHR 0x1F] @ ''y'') = []"
  by code_simp

lemma timeout_leaves_git_running:
  assumes "h_which h ''git'' SAFE_PATH w = Some binary" "git_repo h (git_tool_name c) repo_path ctx w = Inr repo"
    "h_spawn h (git_spawn h binary repo c w) GIT_TIMEOUT w = (Spawn_running took, w1)"
  shows "snd (git_tool h repo_path c ctx w) = w1"
  using assms by (simp add: git_tool_def run_git_def Let_def)

lemma git_env_keys:
  "map_of (git_env environ) k = (if k = ''GIT_PAGER'' then Some ''cat'' else if k = ''GIT_TERMINAL_PROMPT'' then Some ''0''
     else if k = ''SCRAPPY_OS'' then Some ''1'' else if k = ''PATH'' then Some SAFE_PATH
     else if k \<in> set ENV_ALLOWLIST then map_of environ k else None)"
  by (simp add: git_env_def child_env)

text \<open>What a call of one of the tools leaves: the machine as it was, or after one command.\<close>

lemma git_tool_world:
  obtains (kept) "snd (git_tool h repo_path c ctx w) = w"
  | (ran) binary repo where "h_which h ''git'' SAFE_PATH w = Some binary" "git_repo h (git_tool_name c) repo_path ctx w = Inr repo"
      "snd (git_tool h repo_path c ctx w) = snd (h_spawn h (git_spawn h binary repo c w) GIT_TIMEOUT w)"
  by (cases "h_which h ''git'' SAFE_PATH w"; cases "git_repo h (git_tool_name c) repo_path ctx w")
    (auto simp: git_tool_def run_git_def Let_def split: prod.splits spawned.splits sum.splits if_splits)

section \<open>Properties\<close>

text \<open>
  The git tools run one of four reading commands and nothing else. Whatever the arguments, a call
  leaves the machine alone or starts one process: the \<open>git\<close> of the fixed path, on a directory of a
  repository that passed the check of readable paths, with one of the commands status, log, diff and
  branch, in which the caller chooses a number and switches and no word of its own, and with an
  environment that holds four fixed variables and the listed ones.
\<close>

theorem git_reads_only:
  "snd (git_tool h repo_path c ctx w) = w
   \<or> (\<exists>binary repo s. h_which h ''git'' SAFE_PATH w = Some binary \<and> git_repo h (git_tool_name c) repo_path ctx w = Inr repo
      \<and> snd (git_tool h repo_path c ctx w) = snd (h_spawn h s GIT_TIMEOUT w)
      \<and> take 5 (sp_argv s) = [binary, ''-c'', ''core.pager=cat'', ''-C'', str_path repo]
      \<and> (\<exists>n. drop 5 (sp_argv s) \<in> {[''status'', ''--porcelain=v2'', ''--branch''],
            [''log'', ''-'' @ str_nat n, ''--pretty=format:%H%x1f%an%x1f%aI%x1f%s''],
            [''diff'', ''--name-status''], [''diff'', ''--unified=3''], [''diff'', ''--cached'', ''--name-status''], [''diff'', ''--cached'', ''--unified=3''],
            [''branch'', ''--format=%(refname:short)%00%(HEAD)''], [''branch'', ''--format=%(refname:short)%00%(HEAD)'', ''--all'']})
      \<and> (\<forall>k. map_of (sp_env s) k = (if k = ''GIT_PAGER'' then Some ''cat'' else if k = ''GIT_TERMINAL_PROMPT'' then Some ''0''
          else if k = ''SCRAPPY_OS'' then Some ''1'' else if k = ''PATH'' then Some SAFE_PATH
          else if k \<in> set ENV_ALLOWLIST then map_of (h_environ h w) k else None)))"
proof (cases rule: git_tool_world [of h repo_path c ctx w])
  case (ran binary repo)
  have "\<exists>n. git_arguments c \<in> {[''status'', ''--porcelain=v2'', ''--branch''],
            [''log'', ''-'' @ str_nat n, ''--pretty=format:%H%x1f%an%x1f%aI%x1f%s''],
            [''diff'', ''--name-status''], [''diff'', ''--unified=3''], [''diff'', ''--cached'', ''--name-status''], [''diff'', ''--cached'', ''--unified=3''],
            [''branch'', ''--format=%(refname:short)%00%(HEAD)''], [''branch'', ''--format=%(refname:short)%00%(HEAD)'', ''--all'']}"
    by (cases c) auto
  with ran show ?thesis
    by (intro disjI2 exI [of _ binary] exI [of _ repo] exI [of _ "git_spawn h binary repo c w"]) (simp add: git_spawn_def git_env_keys)
qed simp

text \<open>
  Round trip of the log. What \<open>git log\<close> prints in the requested format for commits whose fields hold
  neither a line break nor the separator reads back as exactly those commits, in order.
\<close>

theorem log_roundtrip:
  assumes "list_all commit_ok cs"
  shows "read_log (py_join [CHR 0x0A] (map commit_line cs)) = cs"
proof -
  have "py_splitlines (py_join [CHR 0x0A] (map commit_line cs)) = map commit_line cs"
    by (rule splitlines_join) (use assms commit_line_breaks in \<open>auto simp: list_all_iff\<close>)
  with read_commit_lines [OF assms] show ?thesis by (simp add: read_log_def)
qed

theorem log_roundtrip_witness:
  "read_log (py_join [CHR 0x0A] (map commit_line [\<lparr>cm_sha = ''ab'', cm_author = ''A B'', cm_date = ''d'', cm_subject = ''fix''\<rparr>]))
     = [\<lparr>cm_sha = ''ab'', cm_author = ''A B'', cm_date = ''d'', cm_subject = ''fix''\<rparr>]"
  by (rule log_roundtrip) (simp add: commit_ok_def line_break_def unit_separator_def)

end
