(* ===== verification/Tools_Default.thy ===== *)
theory Tools_Default
  imports Tool_Filesystem Tool_Shell Tool_Http Tool_Process Tool_Git
begin

text \<open>
  \<open>tools/__init__.py\<close>: the standard registry, with every tool of \<open>tools/\<close> as the executor sees it: its
  attributes, the validation of its arguments, its classification, and its run under the time budget
  of the executor's \<open>asyncio.wait_for\<close>. The parts of the machine \<open>'w\<close> the tools act on are one record.
  The tools that never await (\<open>system.*\<close>, \<open>process.*\<close>) cannot be cut off; a file tool is cut while its
  worker thread goes on; a command cut by the executor's budget, unlike one that outlives its own
  limit, is left running.
\<close>

section \<open>The machine and the readers of arguments\<close>

record 'w parts =
  pt_os :: os
  pt_decode :: "string \<Rightarrow> string \<Rightarrow> string option"
  pt_files :: "'w \<Rightarrow> fs"
  pt_put_files :: "fs \<Rightarrow> 'w \<Rightarrow> 'w"
  pt_machine :: "'w \<Rightarrow> machine"
  pt_ps :: "'w ps"
  pt_host :: "'w host"
  pt_net :: "'w net"
  pt_hops :: "http_args \<Rightarrow> time \<Rightarrow> 'w \<Rightarrow> nat option" \<comment> \<open>requests sent when the budget cut the loop, \<open>None\<close> if it ended first\<close>
  pt_took :: "string \<Rightarrow> payload \<Rightarrow> 'w \<Rightarrow> time" \<comment> \<open>how long a run that is not cut takes\<close>

text \<open>Pydantic's reading of a dictionary in each input model; the limits of the fields are checked below.\<close>

record readers =
  rd_file :: "string \<Rightarrow> payload \<Rightarrow> string + file_call"
  rd_disk :: "payload \<Rightarrow> string + bool"
  rd_list :: "payload \<Rightarrow> string + process_list_args"
  rd_pid :: "payload \<Rightarrow> string + int"
  rd_kill :: "payload \<Rightarrow> string + process_kill_args"
  rd_git :: "string \<Rightarrow> payload \<Rightarrow> string + string \<times> git_call"
  rd_shell :: "payload \<Rightarrow> string + shell_args"
  rd_http :: "payload \<Rightarrow> string + http_args"

text \<open>\<open>EmptyArgs\<close> has no field and forbids every other; at most five problems are listed.\<close>

definition read_empty :: "payload \<Rightarrow> string + unit" where
  "read_empty p = (if p = [] then Inr ()
     else Inl (py_join ''; '' (map (\<lambda>(k, v). k @ '': Extra inputs are not permitted'') (take 5 p))))"

definition limited :: "('a \<Rightarrow> bool) \<Rightarrow> (payload \<Rightarrow> string + 'a) \<Rightarrow> payload \<Rightarrow> string + 'a" where
  "limited ok rd p = ebind (rd p) (\<lambda>a. if ok a then Inr a else Inl ''value out of range'')"

definition read_git :: "readers \<Rightarrow> string \<Rightarrow> payload \<Rightarrow> string + string \<times> git_call" where
  "read_git rd name = limited (\<lambda>(repo_path, c). git_tool_name c = name \<and> check_git_args repo_path c) (rd_git rd name)"

section \<open>Runs under a budget\<close>

text \<open>
  \<open>_terminate_group\<close> when the executor's budget leaves it only \<open>left\<close>: whether the budget cut it, and the
  machine then. With more than six seconds left it is \<open>terminate_group\<close>.
\<close>

definition terminate_within :: "'w host \<Rightarrow> time \<Rightarrow> 'w \<Rightarrow> bool \<times> 'w" where
  "terminate_within h left w =
     (if h_exited h w then (False, w)
      else let (gone, w1) = h_wait h (min (seconds 3) left) (h_killpg h 15 w) in
        if gone then (False, w1)
        else if left \<le> seconds 3 then (True, w1)
        else let (gone', w2) = h_wait h (min (seconds 3) (left - seconds 3)) (h_killpg h 9 w1) in
          (\<not> gone' \<and> left \<le> seconds 6, w2))"

definition shell_run :: "'w parts \<Rightarrow> shell_args \<Rightarrow> tool_context \<Rightarrow> time \<Rightarrow> 'w \<Rightarrow> run_end \<times> 'w" where
  "shell_run pt a ctx budget w =
     (let h = pt_host pt in
      case shell_start h a ctx w of
        Inl e \<Rightarrow> (end_of (Inl e), w)
      | Inr (argv, dir, timeout, max_bytes) \<Rightarrow>
          (case h_spawn h (spawn_of h argv dir w) (min timeout budget) w of
             (Spawn_running took, w1) \<Rightarrow>
               if budget \<le> timeout then (Timed_out, w1)
               else (let (cut, w2) = terminate_within h (budget - timeout) w1 in
                 (if cut then Timed_out else end_of (fst (shell_execute h argv dir timeout max_bytes w)), w2))
           | _ \<Rightarrow> (let (r, w1) = shell_execute h argv dir (min timeout budget) max_bytes w in (end_of r, w1))))"

text \<open>A \<open>git\<close> command has the smaller of its own limit and the budget.\<close>

definition under_budget :: "time \<Rightarrow> 'w host \<Rightarrow> 'w host" where
  "under_budget budget h = h\<lparr>h_spawn := (\<lambda>s t. h_spawn h s (min t budget))\<rparr>"

definition git_cut :: "'w host \<Rightarrow> string \<Rightarrow> git_call \<Rightarrow> tool_context \<Rightarrow> time \<Rightarrow> 'w \<Rightarrow> bool" where
  "git_cut h repo_path c ctx budget w \<longleftrightarrow> budget \<le> GIT_TIMEOUT \<and>
     (case h_which h ''git'' SAFE_PATH w of None \<Rightarrow> False
      | Some binary \<Rightarrow>
          (case git_repo h (git_tool_name c) repo_path ctx w of Inl e \<Rightarrow> False
           | Inr repo \<Rightarrow> (case h_spawn h (git_spawn h binary repo c w) budget w of (Spawn_running took, w1) \<Rightarrow> True | _ \<Rightarrow> False)))"

definition git_run :: "'w parts \<Rightarrow> string \<times> git_call \<Rightarrow> tool_context \<Rightarrow> time \<Rightarrow> 'w \<Rightarrow> run_end \<times> 'w" where
  "git_run pt = (\<lambda>(repo_path, c) ctx budget w.
     let h = pt_host pt; (r, w1) = git_tool (under_budget budget h) repo_path c ctx w
     in (if git_cut h repo_path c ctx budget w then Timed_out else end_of r, w1))"

text \<open>A cut loop has sent some number of its requests, each after its check.\<close>

definition http_run :: "'w parts \<Rightarrow> http_args \<Rightarrow> tool_context \<Rightarrow> time \<Rightarrow> 'w \<Rightarrow> run_end \<times> 'w" where
  "http_run pt a ctx budget w =
     (let n = pt_net pt; st = x_settings ctx in
      case (if http_enabled st then pt_hops pt a budget w else None) of
        None \<Rightarrow> (let (r, w1) = run_http n a ctx w in (end_of r, w1))
      | Some 0 \<Rightarrow> (Timed_out, w)
      | Some (Suc k) \<Rightarrow> (Timed_out, snd (http_loop n (http_limits_of a st) (http_max_redirects st)
            (min k (http_max_redirects st)) (hg_url a) [] w)))"

section \<open>Tools\<close>

definition typed_tool ::
  "'w parts \<Rightarrow> tool_class \<Rightarrow> (payload \<Rightarrow> string + 'a) \<Rightarrow> ('a \<Rightarrow> tool_context \<Rightarrow> 'w \<Rightarrow> scrappy_error + risk_level \<times> string) \<Rightarrow>
   ('a \<Rightarrow> tool_context \<Rightarrow> time \<Rightarrow> 'w \<Rightarrow> run_end \<times> 'w) \<Rightarrow> 'w tool" where
  "typed_tool pt cls rd judge run = with_methods cls
     (\<lambda>p. ebind (rd p) (\<lambda>_. Inr p))
     (\<lambda>p ctx w. case rd p of Inl m \<Rightarrow> Inl (Invalid m) | Inr a \<Rightarrow> judge a ctx w)
     (\<lambda>p. [])
     (\<lambda>p ctx budget w. case rd p of Inl m \<Rightarrow> (Crashed m, 0, w)
        | Inr a \<Rightarrow> (let (ended, w1) = run a ctx budget w in
            (ended, if ended = Timed_out then budget else pt_took pt (tl_name cls) p w, w1)))"

text \<open>The classification every tool inherits: its declared risk.\<close>

definition declared_risk :: "tool_class \<Rightarrow> 'a \<Rightarrow> tool_context \<Rightarrow> 'w \<Rightarrow> scrappy_error + risk_level \<times> string" where
  "declared_risk cls a ctx w = default_classify (tl_name cls) (tl_risk cls) [] ctx w"

text \<open>A tool that answers without awaiting and changes nothing.\<close>

definition reading_tool ::
  "'w parts \<Rightarrow> tool_class \<Rightarrow> (payload \<Rightarrow> string + 'a) \<Rightarrow> ('a \<Rightarrow> 'w \<Rightarrow> scrappy_error + payload) \<Rightarrow> 'w tool" where
  "reading_tool pt cls rd answer = typed_tool pt cls rd (declared_risk cls) (\<lambda>a ctx budget w. (end_of (answer a w), w))"

text \<open>\<open>SYSTEM_TOOLS\<close>.\<close>

definition SystemInfoTool :: tool_class where
  "SystemInfoTool = base_class\<lparr>tl_name := ''system.info'', tl_description := ''Hostname, OS distribution, kernel, architecture and boot time.'',
     tl_permissions := [''system:read'']\<rparr>"

definition SystemCPUTool :: tool_class where
  "SystemCPUTool = base_class\<lparr>tl_name := ''system.cpu'', tl_description := ''CPU count, frequency and utilisation percentage per core.'',
     tl_permissions := [''system:read'']\<rparr>"

definition SystemMemoryTool :: tool_class where
  "SystemMemoryTool = base_class\<lparr>tl_name := ''system.memory'', tl_description := ''Total, used, available and swap memory in bytes and human units.'',
     tl_permissions := [''system:read'']\<rparr>"

definition SystemDiskTool :: tool_class where
  "SystemDiskTool = base_class\<lparr>tl_name := ''system.disk'', tl_description := ''Usage for every mounted filesystem, sorted by percent used. Answers 'which filesystem is most full'.'',
     tl_params := [(''include_pseudo'', False, ''boolean'')], tl_permissions := [''system:read'']\<rparr>"

definition SystemUptimeTool :: tool_class where
  "SystemUptimeTool = base_class\<lparr>tl_name := ''system.uptime'', tl_description := ''Boot time and uptime in seconds and human units.'',
     tl_permissions := [''system:read'']\<rparr>"

definition SystemLoadTool :: tool_class where
  "SystemLoadTool = base_class\<lparr>tl_name := ''system.load'', tl_description := ''1/5/15-minute load averages, normalised by CPU count.'',
     tl_permissions := [''system:read'']\<rparr>"

definition SystemNetworkTool :: tool_class where
  "SystemNetworkTool = base_class\<lparr>tl_name := ''system.network'', tl_description := ''Network interfaces, addresses, link state and per-interface counters.'',
     tl_permissions := [''system:read'', ''network:read'']\<rparr>"

definition system_tools :: "'w parts \<Rightarrow> readers \<Rightarrow> 'w tool list" where
  "system_tools pt rd =
     (let plain = (\<lambda>cls answer. reading_tool pt cls read_empty (\<lambda>_ w. answer (pt_machine pt w))) in
      [plain SystemInfoTool (\<lambda>m. Inr (system_info m)), plain SystemCPUTool (\<lambda>m. Inr (system_cpu m)),
       plain SystemMemoryTool (\<lambda>m. Inr (system_memory m)),
       reading_tool pt SystemDiskTool (rd_disk rd) (\<lambda>b w. Inr (system_disk b (pt_machine pt w))),
       plain SystemUptimeTool (\<lambda>m. Inr (system_uptime m)), plain SystemLoadTool system_load,
       plain SystemNetworkTool (\<lambda>m. Inr (system_network m))])"

text \<open>\<open>PROCESS_TOOLS\<close>.\<close>

definition ProcessListTool :: tool_class where
  "ProcessListTool = base_class\<lparr>tl_name := ''process.list'', tl_description := ''List running processes with PID, user, memory, CPU and command.'',
     tl_params := [(''limit'', False, ''integer''), (''sort_by'', False, ''string''), (''name_contains'', False, ''any'')], tl_permissions := [''process:read'']\<rparr>"

definition ProcessInspectTool :: tool_class where
  "ProcessInspectTool = base_class\<lparr>tl_name := ''process.inspect'', tl_description := ''Full detail for one PID: command line, resources, parent, open file count.'',
     tl_params := [(''pid'', True, ''integer'')], tl_permissions := [''process:read'']\<rparr>"

definition ProcessResourcesTool :: tool_class where
  "ProcessResourcesTool = base_class\<lparr>tl_name := ''process.resources'', tl_description := ''Totals and top consumers of memory and CPU across all processes.'',
     tl_params := [(''limit'', False, ''integer''), (''sort_by'', False, ''string''), (''name_contains'', False, ''any'')], tl_permissions := [''process:read'']\<rparr>"

definition ProcessKillTool :: tool_class where
  "ProcessKillTool = base_class\<lparr>tl_name := ''process.kill'', tl_description := ''Send a termination signal to a process. Requires approval.'',
     tl_params := [(''pid'', True, ''integer''), (''signal'', False, ''string'')], tl_risk := DESTRUCTIVE, tl_min_risk := Some PRIVILEGED,
     tl_permissions := [''process:signal''],
     tl_rollback := Some \<lparr>rb_supported = False, rb_description = ''A terminated process cannot be resumed; it must be restarted by its manager.'',
       rb_inverse_tool = None\<rparr>\<rparr>"

definition kill_tool :: "'w parts \<Rightarrow> readers \<Rightarrow> 'w tool" where
  "kill_tool pt rd = typed_tool pt ProcessKillTool (limited check_kill_args (rd_kill rd))
     (\<lambda>a ctx w. Inr (kill_classify (pt_ps pt) a w)) (\<lambda>a ctx budget w. let (r, w1) = run_process_kill (pt_ps pt) a w in (end_of r, w1))"

definition process_tools :: "'w parts \<Rightarrow> readers \<Rightarrow> 'w tool list" where
  "process_tools pt rd =
     (let ps = pt_ps pt in
      [reading_tool pt ProcessListTool (limited check_list_args (rd_list rd)) (\<lambda>a w. Inr (run_process_list ps a w)),
       reading_tool pt ProcessInspectTool (limited check_inspect_pid (rd_pid rd)) (\<lambda>pid w. run_process_inspect ps pid w),
       reading_tool pt ProcessResourcesTool (limited check_list_args (rd_list rd)) (\<lambda>a w. Inr (run_process_resources ps a w)),
       kill_tool pt rd])"

text \<open>\<open>GIT_TOOLS\<close>: subclasses of \<open>_GitTool\<close>, whose arguments extend \<open>RepoArgs\<close>.\<close>

definition GitTool :: tool_class where
  "GitTool = base_class\<lparr>tl_params := [(''repo_path'', False, ''string'')], tl_permissions := [''git:read'']\<rparr>"

definition GitStatusTool :: tool_class where
  "GitStatusTool = GitTool\<lparr>tl_name := ''git.status'', tl_description := ''Branch, upstream and changed files for a repository.''\<rparr>"

definition GitLogTool :: tool_class where
  "GitLogTool = GitTool\<lparr>tl_name := ''git.log'', tl_description := ''Recent commits with hash, author, date and subject.'',
     tl_params := [(''repo_path'', False, ''string''), (''limit'', False, ''integer'')]\<rparr>"

definition GitDiffTool :: tool_class where
  "GitDiffTool = GitTool\<lparr>tl_name := ''git.diff'', tl_description := ''Changed paths, or a full patch when name_only is false.'',
     tl_params := [(''repo_path'', False, ''string''), (''staged'', False, ''boolean''), (''name_only'', False, ''boolean'')]\<rparr>"

definition GitBranchTool :: tool_class where
  "GitBranchTool = GitTool\<lparr>tl_name := ''git.branch'', tl_description := ''List branches and identify the checked-out one.'',
     tl_params := [(''repo_path'', False, ''string''), (''include_remote'', False, ''boolean'')]\<rparr>"

definition git_tools :: "'w parts \<Rightarrow> readers \<Rightarrow> 'w tool list" where
  "git_tools pt rd = map (\<lambda>cls. typed_tool pt cls (read_git rd (tl_name cls)) (declared_risk cls) (git_run pt))
     [GitStatusTool, GitLogTool, GitDiffTool, GitBranchTool]"

text \<open>\<open>SHELL_TOOLS\<close> and \<open>HTTP_TOOLS\<close>.\<close>

definition ShellRunTool :: tool_class where
  "ShellRunTool = base_class\<lparr>tl_name := ''shell.run'', tl_description := ''Run an allowlisted executable as an argv list, without a shell. Prefer a typed tool; this is the escape hatch.'',
     tl_params := [(''argv'', True, ''array''), (''cwd'', False, ''any''), (''timeout_seconds'', False, ''any''), (''max_output_bytes'', False, ''any'')], tl_risk := DESTRUCTIVE, tl_min_risk := Some READ,
     tl_permissions := [''shell:execute''],
     tl_rollback := Some \<lparr>rb_supported = False, rb_description = ''Arbitrary commands have arbitrary effects; Scrappy OS cannot undo them.'',
       rb_inverse_tool = None\<rparr>\<rparr>"

definition shell_tool :: "'w parts \<Rightarrow> readers \<Rightarrow> 'w tool" where
  "shell_tool pt rd = typed_tool pt ShellRunTool (\<lambda>p. ebind (rd_shell rd p) check_shell_args)
     (\<lambda>a ctx w. Inr (shell_classify a (x_settings ctx))) (shell_run pt)"

definition HTTPGetTool :: tool_class where
  "HTTPGetTool = base_class\<lparr>tl_name := ''http.get'', tl_description := ''Fetch a public URL over HTTP GET, with size, redirect and timeout limits.'',
     tl_params := [(''url'', True, ''string''), (''headers'', False, ''object''), (''timeout_seconds'', False, ''any''), (''max_bytes'', False, ''any'')], tl_risk := WRITE, tl_permissions := [''net:outbound'']\<rparr>"

definition http_tool :: "'w parts \<Rightarrow> readers \<Rightarrow> 'w tool" where
  "http_tool pt rd = typed_tool pt HTTPGetTool (\<lambda>p. ebind (rd_http rd p) check_http_args)
     (\<lambda>a ctx w. http_classify (pt_net pt) a) (http_run pt)"

lemmas default_class_defs = SystemInfoTool_def SystemCPUTool_def SystemMemoryTool_def SystemDiskTool_def SystemUptimeTool_def
  SystemLoadTool_def SystemNetworkTool_def ProcessListTool_def ProcessInspectTool_def ProcessResourcesTool_def ProcessKillTool_def
  GitTool_def GitStatusTool_def GitLogTool_def GitDiffTool_def GitBranchTool_def ShellRunTool_def HTTPGetTool_def file_class_defs

text \<open>A file tool on the files of the machine.\<close>

definition on_files :: "'w parts \<Rightarrow> fs tool \<Rightarrow> 'w tool" where
  "on_files pt t = with_methods t (tl_validate t) (\<lambda>p ctx w. tl_classify t p ctx (pt_files pt w)) (tl_affected_paths t)
     (\<lambda>p ctx budget w. let (ended, took, f) = tl_run t p ctx budget (pt_files pt w) in (ended, took, pt_put_files pt f w))"

section \<open>The registry\<close>

fun register_all :: "'w tool list \<Rightarrow> 'w registry \<Rightarrow> scrappy_error + 'w registry" where
  "register_all [] r = Inr r"
| "register_all (t # ts) r = ebind (register t False r) (register_all ts)"

definition build_default_registry :: "'w parts \<Rightarrow> readers \<Rightarrow> bool \<Rightarrow> bool \<Rightarrow> scrappy_error + 'w registry" where
  "build_default_registry pt rd include_shell include_http =
     ebind (register_all (system_tools pt rd @ map (on_files pt) (filesystem_tools (pt_os pt) (pt_decode pt) (rd_file rd)) @
         process_tools pt rd @ git_tools pt rd) empty_registry) (\<lambda>r.
     ebind (if include_shell then register_all [shell_tool pt rd] r else Inr r) (\<lambda>r1.
     if include_http then register_all [http_tool pt rd] r1 else Inr r1))"

section \<open>Lemmas\<close>

lemma terminate_within_room: "seconds 6 < left \<Longrightarrow> snd (terminate_within h left w) = terminate_group h w"
  by (auto simp: terminate_within_def terminate_group_def Let_def seconds_def split: prod.splits)

text \<open>
  A command whose own limit is not below the executor's budget is left running when the budget ends:
  its group is not signalled.
\<close>

lemma shell_cut_leaves_running:
  assumes "shell_start (pt_host pt) a ctx w = Inr (argv, dir, timeout, n)" "budget \<le> timeout"
    "h_spawn (pt_host pt) (spawn_of (pt_host pt) argv dir w) budget w = (Spawn_running took, w1)"
  shows "shell_run pt a ctx budget w = (Timed_out, w1)"
  using assms by (simp add: shell_run_def Let_def)

text \<open>A command that ends in time is run as \<open>run_shell\<close> says.\<close>

lemma shell_run_in_time:
  assumes "shell_start (pt_host pt) a ctx w = Inr (argv, dir, timeout, n)" "timeout < budget"
    "h_spawn (pt_host pt) (spawn_of (pt_host pt) argv dir w) timeout w = (Spawn_ended code out err took, w1)"
  shows "shell_run pt a ctx budget w = (case run_shell (pt_host pt) a ctx w of (r, w') \<Rightarrow> (end_of r, w'))"
  using assms by (simp add: shell_run_def run_shell_def Let_def)

lemma register_all_fresh:
  assumes "distinct (map tl_name ts)" "[] \<notin> tl_name ` set ts" "tl_name ` set ts \<inter> set (tool_names r) = {}"
  shows "register_all ts r = Inr (r\<lparr>rg_tools := rg_tools r @ map (\<lambda>t. (tl_name t, t)) ts\<rparr>)"
  using assms
proof (induction ts arbitrary: r)
  case (Cons t ts)
  then have "register t False r = Inr (r\<lparr>rg_tools := rg_tools r @ [(tl_name t, t)]\<rparr>)"
    by (auto simp: register_def dict_set_def tool_names_def)
  with Cons show ?case by (auto simp: tool_names_def)
qed simp

lemma ebind_assoc: "ebind (ebind m f) g = ebind m (\<lambda>x. ebind (f x) g)" "ebind m Inr = m"
  by (cases m; simp)+

lemma register_all_fun: "register_all [] = Inr" "register_all (t # ts) = (\<lambda>r. ebind (register t False r) (register_all ts))"
  by (rule ext, simp)+

lemma register_all_append: "register_all (ts @ us) = (\<lambda>r. ebind (register_all ts r) (register_all us))"
proof (induction ts)
  case (Cons t ts)
  then show ?case by (simp add: register_all_fun ebind_assoc)
qed (simp add: register_all_fun)

text \<open>The tools, in the order they are registered.\<close>

definition default_tools :: "'w parts \<Rightarrow> readers \<Rightarrow> bool \<Rightarrow> bool \<Rightarrow> 'w tool list" where
  "default_tools pt rd include_shell include_http =
     system_tools pt rd @ map (on_files pt) (filesystem_tools (pt_os pt) (pt_decode pt) (rd_file rd)) @
     process_tools pt rd @ git_tools pt rd @ (if include_shell then [shell_tool pt rd] else []) @ (if include_http then [http_tool pt rd] else [])"

lemma tl_class_typed [simp]: "tl_name (typed_tool pt cls rd judge run) = tl_name cls" "tl_risk (typed_tool pt cls rd judge run) = tl_risk cls"
  "tl_min_risk (typed_tool pt cls rd judge run) = tl_min_risk cls"
  by (simp_all add: typed_tool_def)

lemma tl_class_reading [simp]: "tl_name (reading_tool pt cls rd answer) = tl_name cls" "tl_risk (reading_tool pt cls rd answer) = tl_risk cls"
  "tl_min_risk (reading_tool pt cls rd answer) = tl_min_risk cls"
  by (simp_all add: reading_tool_def)

lemma tl_class_files [simp]: "tl_name (on_files pt t) = tl_name t" "tl_risk (on_files pt t) = tl_risk t" "tl_min_risk (on_files pt t) = tl_min_risk t"
  "tl_name (file_tool os decode dec cls) = tl_name cls" "tl_risk (file_tool os decode dec cls) = tl_risk cls"
  "tl_min_risk (file_tool os decode dec cls) = tl_min_risk cls"
  by (simp_all add: on_files_def file_tool_def Let_def)

definition builtin_names :: "string list" where
  "builtin_names =
     [''system.info'', ''system.cpu'', ''system.memory'', ''system.disk'', ''system.uptime'', ''system.load'', ''system.network'',
      ''fs.list'', ''fs.stat'', ''fs.read'', ''fs.mkdir'', ''fs.write'', ''fs.move'', ''fs.delete'',
      ''process.list'', ''process.inspect'', ''process.resources'', ''process.kill'',
      ''git.status'', ''git.log'', ''git.diff'', ''git.branch'']"

lemma default_tool_names: "map tl_name (default_tools pt rd include_shell include_http) =
   builtin_names @ (if include_shell then [''shell.run''] else []) @ (if include_http then [''http.get''] else [])"
  by (simp add: default_tools_def system_tools_def process_tools_def git_tools_def shell_tool_def http_tool_def
      kill_tool_def filesystem_tools_def builtin_names_def default_class_defs Let_def)

text \<open>Building never fails: every tool is there under its own name, and what is switched off is not.\<close>

lemma default_registry:
  "build_default_registry pt rd include_shell include_http =
     Inr \<lparr>rg_tools = map (\<lambda>t. (tl_name t, t)) (default_tools pt rd include_shell include_http), rg_disabled = []\<rparr>"
proof -
  let ?ts = "default_tools pt rd include_shell include_http"
  have "build_default_registry pt rd include_shell include_http = register_all ?ts empty_registry"
    by (cases include_shell; cases include_http)
      (simp_all add: build_default_registry_def default_tools_def register_all_append register_all_fun ebind_assoc del: register_all.simps)
  moreover have "distinct (map tl_name ?ts)" "[] \<notin> tl_name ` set ?ts"
    unfolding set_map [symmetric] default_tool_names by (simp_all add: builtin_names_def)
  ultimately show ?thesis
    by (simp add: register_all_fresh empty_registry_def tool_names_def)
qed

end
