(* ===== verification/Event_Bus.thy ===== *)
theory Event_Bus
  imports Core_Models
begin

text \<open>
  \<open>core/events.py\<close>: events, the bounded drop-oldest queue of one consumer, and the in-process
  bus. A handler is a function on the rest of the machine (\<open>'w\<close>) that also says whether it raised.
  The bus keeps every subscription object it ever made in \<open>b_subs\<close>, and the list of the open ones
  in \<open>b_active\<close>. A \<open>publish\<close> is one step: the code takes its snapshot under the lock, and the
  handlers here touch the machine and not the bus.
\<close>

record event =
  e_id :: string
  e_type :: event_type
  e_timestamp :: time
  e_task_id :: "string option"
  e_component :: string
  e_payload :: payload

definition event_matches :: "event \<Rightarrow> event_type list option \<Rightarrow> string option \<Rightarrow> bool" where
  "event_matches e types task_id =
     (if (case types of None \<Rightarrow> False | Some ts \<Rightarrow> e_type e \<notin> set ts) then False
      else \<not> (task_id \<noteq> None \<and> e_task_id e \<noteq> task_id))"

section \<open>Subscriptions\<close>

record subscription =
  sub_id :: nat
  sub_types :: "event_type list option"
  sub_task_id :: "string option"
  sub_dropped :: nat
  sub_queue :: "event option list" \<comment> \<open>\<open>None\<close> is the sentinel of \<open>close\<close>\<close>
  sub_maxsize :: nat \<comment> \<open>0 is unbounded, as in \<open>asyncio.Queue\<close>\<close>
  sub_closed :: bool

definition new_subscription :: "nat \<Rightarrow> event_type list option \<Rightarrow> string option \<Rightarrow> nat \<Rightarrow> subscription" where
  "new_subscription i types task_id maxsize = \<lparr>sub_id = i, sub_types = types, sub_task_id = task_id,
     sub_dropped = 0, sub_queue = [], sub_maxsize = maxsize, sub_closed = False\<rparr>"

definition queue_full :: "subscription \<Rightarrow> bool" where
  "queue_full s \<longleftrightarrow> 0 < sub_maxsize s \<and> sub_maxsize s \<le> length (sub_queue s)"

text \<open>\<open>put_nowait\<close>, \<open>None\<close> for \<open>QueueFull\<close>.\<close>

definition put_nowait :: "event option \<Rightarrow> subscription \<Rightarrow> subscription option" where
  "put_nowait x s = (if queue_full s then None else Some (s\<lparr>sub_queue := sub_queue s @ [x]\<rparr>))"

definition offer :: "event \<Rightarrow> subscription \<Rightarrow> bool \<times> subscription" where
  "offer e s =
     (if sub_closed s \<or> \<not> event_matches e (sub_types s) (sub_task_id s) then (False, s)
      else (True,
        case put_nowait (Some e) s of
          Some s' \<Rightarrow> s'
        | None \<Rightarrow>
            let s1 = (case sub_queue s of [] \<Rightarrow> s
                | _ # rest \<Rightarrow> s\<lparr>sub_queue := rest, sub_dropped := Suc (sub_dropped s)\<rparr>)
            in or_else (put_nowait (Some e) s1) s1))"

text \<open>\<open>await get()\<close>: \<open>None\<close> when the consumer waits.\<close>

definition sub_get :: "subscription \<Rightarrow> (event option \<times> subscription) option" where
  "sub_get s = (case sub_queue s of [] \<Rightarrow> None | x # rest \<Rightarrow> Some (x, s\<lparr>sub_queue := rest\<rparr>))"

definition sub_close :: "subscription \<Rightarrow> subscription" where
  "sub_close s = (if sub_closed s then s
     else let s1 = s\<lparr>sub_closed := True\<rparr> in or_else (put_nowait None s1) s1)"

text \<open>
  A consumer iterating over the subscription (\<open>__aiter__\<close>): the events it yields, and whether it
  returned or is left waiting. The queue is what it can consume without a new \<open>offer\<close>.
\<close>

datatype consumer = Returned "event list" | Waiting "event list"

fun yield_first :: "event \<Rightarrow> consumer \<Rightarrow> consumer" where
  "yield_first e (Returned es) = Returned (e # es)"
| "yield_first e (Waiting es) = Waiting (e # es)"

function iterate_sub :: "subscription \<Rightarrow> consumer" where
  "iterate_sub s = (case sub_get s of
     None \<Rightarrow> Waiting []
   | Some (None, s') \<Rightarrow> Returned []
   | Some (Some e, s') \<Rightarrow> yield_first e (iterate_sub s'))"
  by pat_completeness auto
termination
  by (relation "measure (\<lambda>s. length (sub_queue s))") (auto simp: sub_get_def split: list.splits)

declare iterate_sub.simps [simp del]

section \<open>The bus\<close>

datatype 'w handler = Handler (hd_name: string) (hd_types: "event_type list option")
  (hd_run: "event \<Rightarrow> 'w \<Rightarrow> bool \<times> 'w")

record 'w event_bus =
  b_handlers :: "'w handler list"
  b_subs :: "subscription list"
  b_active :: "nat list"
  b_history :: "event list"
  b_history_size :: nat
  b_published :: nat
  b_handler_errors :: nat

definition new_bus :: "nat \<Rightarrow> 'w event_bus" where
  "new_bus history_size = \<lparr>b_handlers = [], b_subs = [], b_active = [], b_history = [],
     b_history_size = history_size, b_published = 0, b_handler_errors = 0\<rparr>"

definition handler_selects :: "'w handler \<Rightarrow> event \<Rightarrow> bool" where
  "handler_selects h e = (case hd_types h of None \<Rightarrow> True | Some ts \<Rightarrow> e_type e \<in> set ts)"

text \<open>The handlers run in order; a raising one is counted and the next one still runs.\<close>

fun run_handlers :: "event \<Rightarrow> 'w handler list \<Rightarrow> 'w \<Rightarrow> nat \<times> 'w" where
  "run_handlers e [] w = (0, w)"
| "run_handlers e (h # hs) w =
     (if \<not> handler_selects h e then run_handlers e hs w
      else let (raised, w1) = hd_run h e w; (n, w2) = run_handlers e hs w1
        in (if raised then Suc n else n, w2))"

definition publish :: "event \<Rightarrow> 'w event_bus \<Rightarrow> 'w \<Rightarrow> 'w event_bus \<times> 'w" where
  "publish e b w =
     (let b1 = b\<lparr>b_history := bounded_append (b_history_size b) (b_history b) e,
                b_published := Suc (b_published b)\<rparr>;
          (errors, w1) = run_handlers e (b_handlers b1) w
      in (b1\<lparr>b_handler_errors := b_handler_errors b1 + errors,
             b_subs := map (\<lambda>s. if sub_id s \<in> set (b_active b1) then snd (offer e s) else s) (b_subs b1)\<rparr>, w1))"

definition add_handler :: "'w handler \<Rightarrow> 'w event_bus \<Rightarrow> 'w event_bus" where
  "add_handler h b = b\<lparr>b_handlers := b_handlers b @ [h]\<rparr>"

definition remove_handler :: "string \<Rightarrow> 'w event_bus \<Rightarrow> 'w event_bus" where
  "remove_handler n b = b\<lparr>b_handlers := filter (\<lambda>h. hd_name h \<noteq> n) (b_handlers b)\<rparr>"

definition subscribe :: "event_type list option \<Rightarrow> string option \<Rightarrow> nat \<Rightarrow> 'w event_bus \<Rightarrow> nat \<times> 'w event_bus" where
  "subscribe types task_id maxsize b =
     (let i = length (b_subs b) in
      (i, b\<lparr>b_subs := b_subs b @ [new_subscription i types task_id maxsize], b_active := b_active b @ [i]\<rparr>))"

definition close_subscription :: "nat \<Rightarrow> 'w event_bus \<Rightarrow> 'w event_bus" where
  "close_subscription i b = b\<lparr>
     b_subs := map (\<lambda>s. if sub_id s = i then sub_close s else s) (b_subs b),
     b_active := filter (\<lambda>j. j \<noteq> i) (b_active b)\<rparr>"

definition history :: "string option \<Rightarrow> int \<Rightarrow> 'w event_bus \<Rightarrow> event list" where
  "history task_id limit b =
     py_last limit (filter (\<lambda>e. task_id = None \<or> e_task_id e = task_id) (b_history b))"

definition bus_aclose :: "'w event_bus \<Rightarrow> 'w event_bus" where
  "bus_aclose b = (let b1 = fold close_subscription (b_active b) b
     in b1\<lparr>b_active := [], b_handlers := []\<rparr>)"

text \<open>\<open>{**identity.audit_fields(), **payload}\<close>: the named payload wins over the identity.\<close>

definition emit_event ::
  "string \<Rightarrow> time \<Rightarrow> event_type \<Rightarrow> string option \<Rightarrow> string \<Rightarrow> actor option \<Rightarrow> payload \<Rightarrow> event" where
  "emit_event i now ty task_id component identity payload =
     \<lparr>e_id = i, e_type = ty, e_timestamp = now, e_task_id = task_id, e_component = component,
      e_payload = (case identity of None \<Rightarrow> payload | Some a \<Rightarrow> dict_update (actor_audit_fields a) payload)\<rparr>"

section \<open>The event log as an interface\<close>

text \<open>
  What the consumers of \<open>EventBus.history\<close> rely on: publishing appends to a log of bounded size
  and nothing else changes it.
\<close>

locale event_log =
  fixes log_of :: "'b \<Rightarrow> event list"
    and publish_to :: "event \<Rightarrow> 'b \<Rightarrow> 'b"
    and capacity :: "'b \<Rightarrow> nat"
  assumes publish_log: "log_of (publish_to e b) = bounded_append (capacity b) (log_of b) e"
    and publish_capacity: "capacity (publish_to e b) = capacity b"
begin

lemma fold_capacity: "capacity (fold publish_to es b) = capacity b"
  by (induction es arbitrary: b) (simp_all add: publish_capacity)

lemma fold_log:
  "log_of b = [] \<Longrightarrow> log_of (fold publish_to es b) = drop (length es - capacity b) es"
proof (induction es rule: rev_induct)
  case Nil
  then show ?case by simp
next
  case (snoc e es)
  have "log_of (fold publish_to (es @ [e]) b) =
      bounded_append (capacity b) (drop (length es - capacity b) es) e"
    using snoc by (simp add: publish_log fold_capacity)
  also have "\<dots> = drop (length (es @ [e]) - capacity b) (es @ [e])"
    by (cases "length es < capacity b") (simp_all add: bounded_append_def drop_append Suc_diff_le)
  finally show ?case .
qed

end

text \<open>The bus with its machine, as one state.\<close>

definition publish_pair :: "event \<Rightarrow> 'w event_bus \<times> 'w \<Rightarrow> 'w event_bus \<times> 'w" where
  "publish_pair e p = publish e (fst p) (snd p)"

interpretation bus_log: event_log "\<lambda>p. b_history (fst p)" publish_pair "\<lambda>p. b_history_size (fst p)"
  by unfold_locales (simp_all add: publish_pair_def publish_def Let_def split_beta)

section \<open>Lemmas on subscriptions\<close>

definition offer_all :: "event list \<Rightarrow> subscription \<Rightarrow> subscription" where
  "offer_all es s = fold (\<lambda>e s. snd (offer e s)) es s"

definition kept_of :: "nat \<Rightarrow> 'a list \<Rightarrow> 'a list" where
  "kept_of maxsize xs = (if maxsize = 0 then xs else drop (length xs - maxsize) xs)"

lemma length_kept_of: "length (kept_of n xs) = (if n = 0 then length xs else min n (length xs))"
  by (auto simp: kept_of_def min_def)

lemma kept_of_snoc:
  "kept_of n (xs @ [x]) = (if 0 < n \<and> n \<le> length (kept_of n xs) then tl (kept_of n xs) @ [x] else kept_of n xs @ [x])"
  by (auto simp: kept_of_def tl_drop drop_Suc [symmetric] Suc_diff_le)

lemma offer_step:
  assumes "event_matches e types task_id" "n = 0 \<or> length q \<le> n"
  shows "snd (offer e ((new_subscription i types task_id n)\<lparr>sub_queue := map Some q, sub_dropped := d\<rparr>)) =
    (new_subscription i types task_id n)\<lparr>
      sub_queue := map Some (if 0 < n \<and> n \<le> length q then tl q @ [e] else q @ [e]),
      sub_dropped := (if 0 < n \<and> n \<le> length q then Suc d else d)\<rparr>"
  using assms
  by (cases q) (auto simp: offer_def put_nowait_def queue_full_def new_subscription_def Let_def)

lemma offer_all_new:
  fixes es types task_id maxsize i
  defines "m \<equiv> filter (\<lambda>e. event_matches e types task_id) es"
  shows "offer_all es (new_subscription i types task_id maxsize) =
    (new_subscription i types task_id maxsize)\<lparr>sub_queue := map Some (kept_of maxsize m),
       sub_dropped := length m - length (kept_of maxsize m)\<rparr>"
  unfolding m_def
proof (induction es rule: rev_induct)
  case Nil
  show ?case by (simp add: offer_all_def new_subscription_def kept_of_def)
next
  case (snoc e es)
  let ?m = "filter (\<lambda>e. event_matches e types task_id) es"
  have "offer_all (es @ [e]) (new_subscription i types task_id maxsize) =
      snd (offer e (offer_all es (new_subscription i types task_id maxsize)))"
    by (simp add: offer_all_def)
  also have "\<dots> = snd (offer e ((new_subscription i types task_id maxsize)
      \<lparr>sub_queue := map Some (kept_of maxsize ?m), sub_dropped := length ?m - length (kept_of maxsize ?m)\<rparr>))"
    by (simp only: snoc)
  finally have step: "offer_all (es @ [e]) (new_subscription i types task_id maxsize) = \<dots>" .
  have q: "length (kept_of maxsize ?m) = (if maxsize = 0 then length ?m else min maxsize (length ?m))"
    by (rule length_kept_of)
  show ?case
  proof (cases "event_matches e types task_id")
    case False
    then show ?thesis unfolding step by (simp add: offer_def new_subscription_def)
  next
    case match: True
    from q have fits: "maxsize = 0 \<or> length (kept_of maxsize ?m) \<le> maxsize" by auto
    show ?thesis unfolding step offer_step [OF match fits] using match q
      by (cases "0 < maxsize \<and> maxsize \<le> length (kept_of maxsize ?m)")
        (auto simp: kept_of_snoc Suc_diff_le)
  qed
qed

lemma iterate_drained:
  "sub_queue s = map Some es \<Longrightarrow> iterate_sub s = Waiting es"
  by (induction es arbitrary: s) (simp_all add: iterate_sub.simps sub_get_def)

lemma iterate_sentinel:
  "sub_queue s = map Some es @ [None] \<Longrightarrow> iterate_sub s = Returned es"
  by (induction es arbitrary: s) (simp_all add: iterate_sub.simps sub_get_def)

section \<open>Properties\<close>

text \<open>
  A slow consumer loses the oldest events and only those. After any sequence of offers to a
  fresh subscription its queue holds the newest matching events in order, as many as fit, and
  \<open>dropped\<close> counts the others exactly.
\<close>

theorem subscription_keeps_newest:
  "let m = filter (\<lambda>e. event_matches e types task_id) es;
       s = offer_all es (new_subscription i types task_id maxsize)
   in sub_queue s = map Some (kept_of maxsize m)
    \<and> length (sub_queue s) + sub_dropped s = length m
    \<and> (maxsize = 0 \<or> length (sub_queue s) \<le> maxsize)"
  by (auto simp: offer_all_new length_kept_of Let_def)

text \<open>
  C40. What a consumer sees of \<open>close\<close>. It receives every queued event, and then returns exactly
  when the queue had room for the sentinel: closing a subscription whose bounded queue is full
  leaves the consumer waiting for ever, although \<open>get\<close> promises \<open>None\<close> once it is closed.
\<close>

theorem close_reaches_consumer_iff_room:
  "let m = filter (\<lambda>e. event_matches e types task_id) es;
       s = offer_all es (new_subscription i types task_id maxsize)
   in iterate_sub (sub_close s) =
     (if maxsize = 0 \<or> length m < maxsize then Returned (kept_of maxsize m) else Waiting (kept_of maxsize m))"
proof -
  let ?m = "filter (\<lambda>e. event_matches e types task_id) es"
  let ?s = "offer_all es (new_subscription i types task_id maxsize)"
  have "sub_queue (sub_close ?s) = map Some (kept_of maxsize ?m) @
      (if maxsize = 0 \<or> length ?m < maxsize then [None] else [])"
    unfolding offer_all_new
    by (auto simp: sub_close_def put_nowait_def queue_full_def new_subscription_def
        length_kept_of Let_def)
  then show ?thesis
    by (auto simp: Let_def intro: iterate_drained iterate_sentinel)
qed

text \<open>
  \<open>history\<close> answers with the newest \<open>limit\<close> events of the task among the last
  \<open>history_size\<close> published, oldest first, whatever the handlers do; but with \<open>limit = 0\<close> it
  answers with all of them, because the slice \<open>[-0:]\<close> is the whole list.
\<close>

theorem history_newest:
  "history task_id (int k) (fst (fold publish_pair es ((new_bus n)\<lparr>b_handlers := hs\<rparr>, w))) =
    (let recent = filter (\<lambda>e. task_id = None \<or> e_task_id e = task_id) (drop (length es - n) es)
     in if k = 0 then recent else drop (length recent - k) recent)"
proof -
  have "b_history (fst (fold publish_pair es ((new_bus n)\<lparr>b_handlers := hs\<rparr>, w))) = drop (length es - n) es"
    using bus_log.fold_log [of "((new_bus n)\<lparr>b_handlers := hs\<rparr>, w)" es] by (simp add: new_bus_def)
  then show ?thesis by (auto simp: history_def py_last_def Let_def)
qed

end
