(* ===== verification/Py_Decimal.thy ===== *)
theory Py_Decimal
  imports Py_String
begin

text \<open>Decimal numerals: the value of the digits, and that \<open>str\<close> of a number is read back as the number.\<close>

definition dec_digit :: "char \<Rightarrow> nat" where
  "dec_digit c = of_char c - 48"

definition dec_value :: "string \<Rightarrow> nat" where
  "dec_value s = foldl (\<lambda>v c. 10 * v + dec_digit c) 0 s"

lemma str_nat_digits: "list_all is_digit (str_nat n) \<and> str_nat n \<noteq> []"
proof (induction n rule: less_induct)
  case (less n)
  have "list_all (\<lambda>k. is_digit (char_of (48 + k))) [0..<10]" by code_simp
  then have "is_digit (char_of (48 + k))" if "k < 10" for k :: nat using that by (simp add: list_all_iff)
  with less show ?case by (cases "n < 10") (subst str_nat.simps; simp)+
qed

lemma dec_value_append: "dec_value (u @ w) = dec_value u * 10 ^ length w + dec_value w"
proof (induction w rule: rev_induct)
  case (snoc c w)
  have step: "dec_value (x @ [c]) = 10 * dec_value x + dec_digit c" for x by (simp add: dec_value_def)
  show ?case using snoc by (simp add: step flip: append_assoc)
qed (simp add: dec_value_def)

lemma dec_value_str_nat [simp]: "dec_value (str_nat n) = n"
proof (induction n rule: str_nat.induct)
  case (1 n)
  show ?case
  proof (cases "n < 10")
    case True
    then show ?thesis by (subst str_nat.simps) (simp add: dec_value_def dec_digit_def)
  next
    case False
    with 1 have "dec_value (str_nat n) = 10 * (n div 10) + n mod 10"
      by (subst str_nat.simps) (simp add: dec_value_append, simp add: dec_value_def dec_digit_def)
    then show ?thesis by simp
  qed
qed

lemma str_nat_head: "n \<noteq> 0 \<Longrightarrow> hd (str_nat n) \<noteq> CHR ''0''"
proof (induction n rule: less_induct)
  case (less n)
  show ?case
  proof (cases "n < 10")
    case True
    have "char_of (48 + n) \<noteq> CHR ''0''"
    proof
      assume "char_of (48 + n) = CHR ''0''"
      then have "of_char (char_of (48 + n) :: char) = (48 :: nat)" by simp
      with True less.prems show False by simp
    qed
    with True show ?thesis by (subst str_nat.simps) simp
  next
    case False
    with less.IH [of "n div 10"] str_nat_digits [of "n div 10"] show ?thesis by (subst str_nat.simps) simp
  qed
qed

lemma length_str_nat: "0 < k \<Longrightarrow> n < 10 ^ k \<Longrightarrow> length (str_nat n) \<le> k"
proof (induction k arbitrary: n)
  case (Suc k)
  show ?case
  proof (cases "n < 10")
    case True
    then show ?thesis by (subst str_nat.simps) simp
  next
    case False
    then have "0 < k" using Suc.prems(2) by (cases k) auto
    moreover have "n div 10 < 10 ^ k" using Suc.prems(2) by (simp add: less_mult_imp_div_less mult.commute)
    ultimately have "length (str_nat (n div 10)) \<le> k" by (rule Suc.IH)
    with False show ?thesis by (subst str_nat.simps) simp
  qed
qed simp

lemma str_nat_filled: "str_nat n \<noteq> []"
  using str_nat_digits by blast

lemma dec_value_zeros: "dec_value (replicate m (CHR ''0'')) = 0"
  by (induction m) (auto simp: dec_value_def dec_digit_def)

lemma str_nat_inj [simp]: "str_nat m = str_nat n \<longleftrightarrow> m = n"
  by (metis dec_value_str_nat)

end
