(* ===== verification/Py_Json.thy ===== *)
theory Py_Json
  imports Py_Value Py_Decimal
begin

text \<open>
  \<open>json.loads\<close> of Python: the text as tokens, and a machine with a stack that takes one token after the
  other. What it gives back for a text that \<open>json.dumps\<close> wrote is the value with its keys sorted
  (\<open>json_norm\<close>). The recursion limit, which ends the decoding of about a thousand nested containers,
  is not modelled.
\<close>

text \<open>
  What the model's values cannot hold is a parameter: the value of \<open>NaN\<close> and the two infinities, and the
  text of an escaped code point from 256 on.
\<close>

record json_env =
  je_constant :: "string \<Rightarrow> pyval"
  je_char :: "nat \<Rightarrow> string"

definition example_json_env :: json_env where
  "example_json_env = \<lparr>je_constant = (\<lambda>w. PNone), je_char = (\<lambda>n. [])\<rparr>"

text \<open>\<open>JSONDecodeError\<close> is \<open>Malformed_json\<close>; the other \<open>ValueError\<close> is that of \<open>int\<close> on more than 4300 digits.\<close>

datatype json_read = Json_value pyval | Malformed_json | Json_value_error string

definition MAX_STR_DIGITS :: nat where
  "MAX_STR_DIGITS = 4300"

section \<open>Numbers and texts\<close>

definition digits_of :: "string \<Rightarrow> string \<times> string" where
  "digits_of s = (takeWhile is_digit s, dropWhile is_digit s)"

text \<open>The parts of \<open>(-?(?:0|[1-9][0-9]*))(\.[0-9]+)?([eE][-+]?[0-9]+)?\<close> after the sign.\<close>

definition whole_part :: "string \<Rightarrow> string \<times> string" where
  "whole_part s = (case s of [] \<Rightarrow> ([], s) | c # cs \<Rightarrow> if c = CHR ''0'' then ([c], cs) else digits_of s)"

definition fraction_part :: "string \<Rightarrow> string \<times> string" where
  "fraction_part s = (case s of [] \<Rightarrow> ([], s) | c # cs \<Rightarrow>
     (let (ds, rest) = digits_of cs in if c = CHR ''.'' \<and> ds \<noteq> [] then (ds, rest) else ([], s)))"

definition unsigned :: "string \<Rightarrow> string" where
  "unsigned s = (case s of [] \<Rightarrow> [] | c # cs \<Rightarrow> if c = CHR ''-'' \<or> c = CHR ''+'' then cs else s)"

definition exponent_part :: "string \<Rightarrow> int option \<times> string" where
  "exponent_part s = (case s of [] \<Rightarrow> (None, s) | c # cs \<Rightarrow>
     (let (ds, rest) = digits_of (unsigned cs) in
      if (c = CHR ''e'' \<or> c = CHR ''E'') \<and> ds \<noteq> []
      then (Some (if prefix ''-'' cs then - int (dec_value ds) else int (dec_value ds)), rest)
      else (None, s)))"

definition scale :: "int \<Rightarrow> rat" where
  "scale e = (if 0 \<le> e then 10 ^ nat e else 1 / 10 ^ nat (- e))"

datatype json_token = T_value pyval | T_text string | T_open_list | T_close_list | T_open_dict | T_close_dict
  | T_comma | T_colon | T_long | T_bad

definition number_token :: "bool \<Rightarrow> string \<Rightarrow> string \<Rightarrow> int option \<Rightarrow> json_token" where
  "number_token negative ds fd e =
     (if fd = [] \<and> e = None
      then if MAX_STR_DIGITS < length ds then T_long
        else T_value (PInt (if negative then - int (dec_value ds) else int (dec_value ds)))
      else let m = of_nat (dec_value (ds @ fd)) / 10 ^ length fd * scale (or_else e 0) in
        T_value (PFloat (if negative then - m else m)))"

definition read_number :: "string \<Rightarrow> (json_token \<times> string) option" where
  "read_number s =
     (let negative = (s \<noteq> [] \<and> hd s = CHR ''-''); (ds, r1) = whole_part (if negative then tl s else s);
          (fd, r2) = fraction_part r1; (e, r3) = exponent_part r2 in
      if ds = [] then None else Some (number_token negative ds fd e, r3))"

definition hex_value :: "char \<Rightarrow> nat option" where
  "hex_value c = (let n = (of_char c :: nat) in
     if 48 \<le> n \<and> n \<le> 57 then Some (n - 48) else if 65 \<le> n \<and> n \<le> 70 then Some (n - 55)
     else if 97 \<le> n \<and> n \<le> 102 then Some (n - 87) else None)"

fun hex4 :: "string \<Rightarrow> (nat \<times> string) option" where
  "hex4 (a # b # c # d # rest) = (case (hex_value a, hex_value b, hex_value c, hex_value d) of
     (Some i, Some j, Some k, Some l) \<Rightarrow> Some (((i * 16 + j) * 16 + k) * 16 + l, rest) | _ \<Rightarrow> None)"
| "hex4 s = None"

text \<open>What follows \<open>\u\<close>: a code point, of a surrogate pair as well, and the rest.\<close>

definition code_point :: "string \<Rightarrow> (nat \<times> string) option" where
  "code_point s = (case hex4 s of None \<Rightarrow> None
     | Some (u, rest) \<Rightarrow>
         (if 0xD800 \<le> u \<and> u \<le> 0xDBFF \<and> prefix [CHR 0x5C, CHR ''u''] rest
          then (case hex4 (drop 2 rest) of
              Some (v, rest') \<Rightarrow> if 0xDC00 \<le> v \<and> v \<le> 0xDFFF then Some (0x10000 + (u - 0xD800) * 1024 + (v - 0xDC00), rest') else Some (u, rest)
            | None \<Rightarrow> Some (u, rest))
          else Some (u, rest)))"

definition char_text :: "json_env \<Rightarrow> nat \<Rightarrow> string" where
  "char_text je n = (if n < 256 then [char_of n] else je_char je n)"

definition simple_escapes :: "(char \<times> char) list" where
  "simple_escapes = [(CHR 0x22, CHR 0x22), (CHR 0x5C, CHR 0x5C), (CHR ''/'', CHR ''/''), (CHR ''b'', CHR 0x08), (CHR ''f'', CHR 0x0C),
     (CHR ''n'', CHR 0x0A), (CHR ''r'', CHR 0x0D), (CHR ''t'', CHR 0x09)]"

lemma hex4_shorter: "hex4 s = Some (n, r) \<Longrightarrow> length r < length s"
  by (cases s rule: hex4.cases) (auto split: option.splits)

lemma code_point_shorter: "code_point s = Some (n, r) \<Longrightarrow> length r < length s"
  using hex4_shorter [of s] hex4_shorter [of "drop 2 (snd (the (hex4 s)))"]
  by (auto simp: code_point_def split: option.splits prod.splits if_splits)

text \<open>What follows an opening quote: the text up to the closing one. Control characters end in an error.\<close>

function read_text :: "json_env \<Rightarrow> string \<Rightarrow> (string \<times> string) option" where
  "read_text je [] = None"
| "read_text je (c # cs) =
     (if c = CHR 0x22 then Some ([], cs)
      else if c = CHR 0x5C then
        (case cs of [] \<Rightarrow> None
         | e # ds \<Rightarrow>
             if e = CHR ''u'' then
               (case code_point ds of None \<Rightarrow> None
                | Some (n, rest) \<Rightarrow> map_option (\<lambda>(t, r). (char_text je n @ t, r)) (read_text je rest))
             else (case map_of simple_escapes e of None \<Rightarrow> None
                | Some x \<Rightarrow> map_option (\<lambda>(t, r). (x # t, r)) (read_text je ds)))
      else if (of_char c :: nat) < 32 then None
      else map_option (\<lambda>(t, r). (c # t, r)) (read_text je cs))"
  by pat_completeness auto
termination
  by (relation "measure (length \<circ> snd)") (auto dest: code_point_shorter)

declare read_text.simps(2) [simp del]

section \<open>Tokens\<close>

definition is_json_space :: "char \<Rightarrow> bool" where
  "is_json_space c \<longleftrightarrow> c \<in> {CHR '' '', CHR 0x09, CHR 0x0A, CHR 0x0D}"

definition punctuation :: "(char \<times> json_token) list" where
  "punctuation = [(CHR ''['', T_open_list), (CHR '']'', T_close_list), (CHR ''{'', T_open_dict), (CHR ''}'', T_close_dict),
     (CHR '','', T_comma), (CHR '':'', T_colon)]"

definition literals :: "json_env \<Rightarrow> (string \<times> pyval) list" where
  "literals je = [(''null'', PNone), (''true'', PBool True), (''false'', PBool False)] @
     map (\<lambda>w. (w, je_constant je w)) [''NaN'', ''Infinity'', ''-Infinity'']"

definition read_literal :: "json_env \<Rightarrow> string \<Rightarrow> (json_token \<times> string) option" where
  "read_literal je s = map_option (\<lambda>(w, v). (T_value v, drop (length w) s)) (find (\<lambda>(w, v). prefix w s) (literals je))"

lemma read_text_shorter: "read_text je s = Some (t, r) \<Longrightarrow> length r < length s"
proof (induction je s arbitrary: t r rule: read_text.induct)
  case (2 je c cs)
  show ?case
  proof (cases "c = CHR 0x5C")
    case True
    with "2.prems" obtain e ds where cs: "cs = e # ds" by (cases cs) (auto simp: read_text.simps(2))
    show ?thesis
    proof (cases "e = CHR ''u''")
      case u: True
      from "2.prems" True cs u obtain n rest t0 where n: "code_point ds = Some (n, rest)" "read_text je rest = Some (t0, r)"
        by (auto simp: read_text.simps(2) split: option.splits)
      from "2.IH"(1) [OF _ True cs u n(1) refl n(2)] code_point_shorter [OF n(1)] cs show ?thesis by (simp add: True)
    next
      case False
      from "2.prems" True cs False obtain x t0 where n: "map_of simple_escapes e = Some x" "read_text je ds = Some (t0, r)"
        by (auto simp: read_text.simps(2) split: option.splits)
      from "2.IH"(2) [OF _ True cs False n(1) n(2)] cs show ?thesis by (simp add: True)
    qed
  next
    case False
    with "2.prems" "2.IH"(3) show ?thesis by (auto simp: read_text.simps(2) split: if_splits)
  qed
qed simp

lemma digits_of_shorter: "length (snd (digits_of s)) \<le> length s"
  by (simp add: digits_of_def length_dropWhile_le)

lemma fraction_part_shorter: "length (snd (fraction_part s)) \<le> length s"
  using digits_of_shorter [of "tl s"] by (cases s) (auto simp: fraction_part_def Let_def split: prod.splits)

lemma unsigned_shorter: "length (unsigned s) \<le> length s"
  by (cases s) (simp_all add: unsigned_def)

lemma exponent_part_shorter: "length (snd (exponent_part s)) \<le> length s"
proof (cases s)
  case (Cons c cs)
  have "length (snd (digits_of (unsigned cs))) \<le> length cs"
    using digits_of_shorter unsigned_shorter by (rule order_trans)
  then show ?thesis by (cases "digits_of (unsigned cs)") (simp add: exponent_part_def Cons)
qed (simp add: exponent_part_def)

lemma whole_part_shorter: "whole_part s = (ds, r) \<Longrightarrow> ds \<noteq> [] \<Longrightarrow> length r < length s"
  by (cases s) (auto simp: whole_part_def digits_of_def less_Suc_eq_le length_dropWhile_le split: if_splits)

lemma read_number_shorter:
  assumes "read_number s = Some (t, r)"
  shows "length r < length s"
proof -
  obtain ds r1 where w: "whole_part (if s \<noteq> [] \<and> hd s = CHR ''-'' then tl s else s) = (ds, r1)" by fastforce
  obtain fd r2 where f: "fraction_part r1 = (fd, r2)" by fastforce
  obtain e r3 where e: "exponent_part r2 = (e, r3)" by fastforce
  from assms w f e have "ds \<noteq> []" "r = r3" by (auto simp: read_number_def Let_def split: if_splits prod.splits)
  with whole_part_shorter [OF w] fraction_part_shorter [of r1] exponent_part_shorter [of r2] f e show ?thesis
    by (auto split: if_splits)
qed

lemma find_member: "find P xs = Some x \<Longrightarrow> x \<in> set xs"
  by (induction xs) (auto split: if_splits)

lemma read_literal_shorter: "read_literal je s = Some (t, r) \<Longrightarrow> s \<noteq> [] \<Longrightarrow> length r < length s"
proof -
  assume "read_literal je s = Some (t, r)" "s \<noteq> []"
  then obtain w v where "(w, v) \<in> set (literals je)" "r = drop (length w) s"
    by (auto simp: read_literal_def dest!: find_member)
  moreover from this(1) have "0 < length w" by (auto simp: literals_def)
  ultimately show ?thesis using \<open>s \<noteq> []\<close> by simp
qed

text \<open>The tokens of a text, up to the first place where there is none.\<close>

function tokens :: "json_env \<Rightarrow> string \<Rightarrow> json_token list" where
  "tokens je [] = []"
| "tokens je (c # cs) =
     (if is_json_space c then tokens je cs
      else case map_of punctuation c of Some t \<Rightarrow> t # tokens je cs
      | None \<Rightarrow>
          if c = CHR 0x22 then (case read_text je cs of None \<Rightarrow> [T_bad] | Some (t, rest) \<Rightarrow> T_text t # tokens je rest)
          else (case read_number (c # cs) of
              Some (t, rest) \<Rightarrow> t # tokens je rest
            | None \<Rightarrow> (case read_literal je (c # cs) of None \<Rightarrow> [T_bad] | Some (t, rest) \<Rightarrow> t # tokens je rest)))"
  by pat_completeness auto
termination
  by (relation "measure (length \<circ> snd)") (auto dest: read_text_shorter read_number_shorter read_literal_shorter)

declare tokens.simps(2) [simp del]

section \<open>The machine\<close>

text \<open>What encloses the place that is read: a list, a dictionary, or a dictionary with the key of the value to come.\<close>

datatype json_frame = In_list "pyval list" | In_dict payload | In_pair payload string

datatype json_mode = Want_value | Want_value_or_close | Want_key | Want_key_or_close | Want_colon string | Want_comma | Finished pyval

datatype json_state = Reading json_mode "json_frame list" | Malformed | Raised string

fun hand_in :: "pyval \<Rightarrow> json_frame list \<Rightarrow> json_state" where
  "hand_in v [] = Reading (Finished v) []"
| "hand_in v (In_list xs # fs) = Reading Want_comma (In_list (xs @ [v]) # fs)"
| "hand_in v (In_pair d k # fs) = Reading Want_comma (In_dict (dict_set k v d) # fs)"
| "hand_in v (In_dict d # fs) = Malformed"

fun read_value :: "json_token \<Rightarrow> json_frame list \<Rightarrow> json_state" where
  "read_value (T_value v) fs = hand_in v fs"
| "read_value (T_text t) fs = hand_in (PStr t) fs"
| "read_value T_open_list fs = Reading Want_value_or_close (In_list [] # fs)"
| "read_value T_open_dict fs = Reading Want_key_or_close (In_dict [] # fs)"
| "read_value T_long fs = Raised ''Exceeds the limit (4300 digits) for integer string conversion''"
| "read_value t fs = Malformed"

fun close_list :: "json_frame list \<Rightarrow> json_state" where
  "close_list (In_list xs # fs) = hand_in (PList xs) fs"
| "close_list fs = Malformed"

fun close_dict :: "json_frame list \<Rightarrow> json_state" where
  "close_dict (In_dict d # fs) = hand_in (PDict d) fs"
| "close_dict fs = Malformed"

fun next_item :: "json_frame list \<Rightarrow> json_state" where
  "next_item (In_list xs # fs) = Reading Want_value (In_list xs # fs)"
| "next_item (In_dict d # fs) = Reading Want_key (In_dict d # fs)"
| "next_item fs = Malformed"

fun keep_key :: "string \<Rightarrow> json_frame list \<Rightarrow> json_state" where
  "keep_key k (In_dict d # fs) = Reading Want_value (In_pair d k # fs)"
| "keep_key k fs = Malformed"

definition read_in :: "json_mode \<Rightarrow> json_token \<Rightarrow> json_frame list \<Rightarrow> json_state" where
  "read_in mode t fs = (case mode of
     Want_value \<Rightarrow> read_value t fs
   | Want_value_or_close \<Rightarrow> if t = T_close_list then close_list fs else read_value t fs
   | Want_key \<Rightarrow> (case t of T_text k \<Rightarrow> Reading (Want_colon k) fs | _ \<Rightarrow> Malformed)
   | Want_key_or_close \<Rightarrow> (case t of T_text k \<Rightarrow> Reading (Want_colon k) fs | T_close_dict \<Rightarrow> close_dict fs | _ \<Rightarrow> Malformed)
   | Want_colon k \<Rightarrow> if t = T_colon then keep_key k fs else Malformed
   | Want_comma \<Rightarrow> (case t of T_comma \<Rightarrow> next_item fs | T_close_list \<Rightarrow> close_list fs | T_close_dict \<Rightarrow> close_dict fs | _ \<Rightarrow> Malformed)
   | Finished v \<Rightarrow> Malformed)"

fun json_step :: "json_token \<Rightarrow> json_state \<Rightarrow> json_state" where
  "json_step t (Reading mode fs) = read_in mode t fs"
| "json_step t s = s"

definition json_loads :: "json_env \<Rightarrow> string \<Rightarrow> json_read" where
  "json_loads je s = (case fold json_step (tokens je s) (Reading Want_value []) of
     Reading (Finished v) [] \<Rightarrow> Json_value v | Raised m \<Rightarrow> Json_value_error m | _ \<Rightarrow> Malformed_json)"

end
