(* ===== verification/Py_Json_Roundtrip.thy ===== *)
theory Py_Json_Roundtrip
  imports Py_Json "HOL-Library.Multiset"
begin

text \<open>
  What \<open>json.dumps\<close> writes, \<open>json.loads\<close> reads back: the value with its keys sorted, and text in the place of
  what JSON cannot hold. The condition on the value is what the rendering needs: the keys of a dictionary
  differ, a float has at most six decimals, an integer at most 4300 digits.
\<close>

fun json_fits :: "pyval \<Rightarrow> bool" where
  "json_fits (PInt i) \<longleftrightarrow> length (str_nat (nat (abs i))) \<le> MAX_STR_DIGITS"
| "json_fits (PFloat r) \<longleftrightarrow> of_int (round (r * 1000000)) = r * 1000000"
| "json_fits (PList xs) \<longleftrightarrow> list_all json_fits xs"
| "json_fits (PDict d) \<longleftrightarrow> distinct (map fst d) \<and> list_all (\<lambda>(k, v). json_fits v) d"
| "json_fits v \<longleftrightarrow> True"

section \<open>Printing without sorting\<close>

text \<open>A value that JSON holds as it is, and its text in the order it has.\<close>

fun json_plain :: "pyval \<Rightarrow> bool" where
  "json_plain (PBytes b) \<longleftrightarrow> False"
| "json_plain (PSet s) \<longleftrightarrow> False"
| "json_plain (PList xs) \<longleftrightarrow> list_all json_plain xs"
| "json_plain (PDict d) \<longleftrightarrow> distinct (map fst d) \<and> list_all (\<lambda>(k, v). json_plain v) d"
| "json_plain v \<longleftrightarrow> json_fits v"

fun json_print :: "bool \<Rightarrow> pyval \<Rightarrow> string" where
  "json_print a (PList xs) = ''['' @ py_join '', '' (map (json_print a) xs) @ '']''"
| "json_print a (PDict d) = ''{'' @ py_join '', '' (map (\<lambda>(k, v). json_string a k @ '': '' @ json_print a v) d) @ ''}''"
| "json_print a v = json_with a v"

lemma on_snd: "(\<lambda>(k, v). (k, f v)) = map_prod id f"
  by auto

lemma sort_key_map_snd: "sort_key fst (map (map_prod id f) d) = map (map_prod id f) (sort_key fst d)"
proof -
  have ins: "insort_key fst (map_prod id f x) (map (map_prod id f) e) = map (map_prod id f) (insort_key fst x e)" for x e
    by (induction e) simp_all
  show ?thesis by (induction d) (simp_all add: ins [unfolded id_def])
qed

lemma json_with_norm: "json_with a v = json_print a (json_norm v)"
proof (induction v rule: json_norm.induct)
  case (1 xs)
  then show ?case by (simp cong: map_cong)
next
  case (2 d)
  have eq: "map ((\<lambda>(k, t). json_string a k @ '': '' @ t) \<circ> map_prod id (json_with a)) (sort_key fst d) =
      map ((\<lambda>(k, v). json_string a k @ '': '' @ json_print a v) \<circ> map_prod id json_norm) (sort_key fst d)"
    using 2 by (intro map_cong) auto
  show ?case by (simp only: json_with.simps json_norm.simps json_print.simps on_snd sort_key_map_snd map_map eq)
qed simp_all

lemma norm_plain: "json_fits v \<Longrightarrow> json_plain (json_norm v)"
proof (induction v rule: json_norm.induct)
  case (2 d)
  have "mset (map fst (sort_key fst d)) = mset (map fst d)" by simp
  then have "distinct (map fst (sort_key fst d))" using "2.prems" mset_eq_imp_distinct_iff by (metis json_fits.simps(4))
  with 2 show ?case by (auto simp: on_snd sort_key_map_snd list_all_iff)
qed (auto simp: list_all_iff)

section \<open>Texts\<close>

lemma hex_value_digit: "n < 16 \<Longrightarrow> hex_value (hex_digit n) = Some n"
  by (auto simp: hex_digit_def hex_value_def Let_def)

lemma code_below_256: "of_char c < (256 :: nat)"
proof -
  have "of_char c = of_char c mod (256 :: nat)" by simp
  then show ?thesis by (metis mod_less_divisor zero_less_numeral)
qed

lemma read_hex2: "code_point (CHR ''0'' # CHR ''0'' # hex2 (of_char c) @ r) = Some (of_char c, r)"
proof -
  have n: "of_char c div 16 < (16 :: nat)" using code_below_256 [of c] by (simp add: less_mult_imp_div_less)
  have "hex_value (CHR ''0'') = Some 0" by code_simp
  moreover have "\<not> 0xD800 \<le> (of_char c :: nat)" using code_below_256 [of c] by linarith
  ultimately show ?thesis using n by (simp add: code_point_def hex2_def hex_value_digit)
qed

lemma char_codes:
  "of_char c = (34 :: nat) \<longleftrightarrow> c = CHR 0x22" "of_char c = (92 :: nat) \<longleftrightarrow> c = CHR 0x5C" "of_char c = (8 :: nat) \<longleftrightarrow> c = CHR 0x08"
  "of_char c = (9 :: nat) \<longleftrightarrow> c = CHR 0x09" "of_char c = (10 :: nat) \<longleftrightarrow> c = CHR 0x0A" "of_char c = (12 :: nat) \<longleftrightarrow> c = CHR 0x0C"
  "of_char c = (13 :: nat) \<longleftrightarrow> c = CHR 0x0D"
  by (auto intro!: of_char_eqI [where 'a = nat])

lemma read_json_char: "read_text je (json_char a c @ s) = map_option (\<lambda>(t, r). (c # t, r)) (read_text je s)"
proof (cases "c \<in> {CHR 0x22, CHR 0x5C, CHR 0x08, CHR 0x09, CHR 0x0A, CHR 0x0C, CHR 0x0D}")
  case True
  then show ?thesis
    by (elim insertE emptyE) (simp_all add: json_char_def Let_def read_text.simps(2) simple_escapes_def)
next
  case False
  then have other: "(of_char c :: nat) \<notin> {34, 92, 8, 9, 10, 12, 13}" by (simp add: char_codes)
  have "char_text je (of_char c) = [c]" using code_below_256 [of c] by (simp add: char_text_def)
  with False other show ?thesis
    by (cases "(of_char c :: nat) < 32 \<or> a \<and> 127 \<le> (of_char c :: nat)")
      (auto simp: json_char_def Let_def read_text.simps(2) read_hex2)
qed

lemma read_json_text: "read_text je (concat (map (json_char a) t) @ CHR 0x22 # r) = Some (t, r)"
proof (induction t)
  case Nil
  show ?case by (simp add: read_text.simps(2))
qed (simp add: read_json_char)

section \<open>Numbers\<close>

text \<open>What may follow a value in a printed text.\<close>

definition boundary :: "string \<Rightarrow> bool" where
  "boundary r \<longleftrightarrow> r = [] \<or> hd r \<in> {CHR '','', CHR '']'', CHR ''}''}"

lemma digits_of_append: "list_all is_digit ds \<Longrightarrow> r = [] \<or> \<not> is_digit (hd r) \<Longrightarrow> digits_of (ds @ r) = (ds, r)"
  by (cases r) (auto simp: digits_of_def takeWhile_append dropWhile_append list_all_iff)

lemma boundary_ends:
  assumes "boundary r"
  shows "r = [] \<or> \<not> is_digit (hd r)" "fraction_part r = ([], r)" "exponent_part r = (None, r)"
  using assms by (cases r; auto simp: boundary_def is_digit_def fraction_part_def exponent_part_def split: prod.splits)+

lemma whole_str_nat:
  assumes "r = [] \<or> \<not> is_digit (hd r)"
  shows "whole_part (str_nat n @ r) = (str_nat n, r)"
proof (cases "n = 0")
  case True
  have "str_nat 0 = ''0''" by code_simp
  with True show ?thesis by (simp add: whole_part_def)
next
  case False
  obtain c cs where c: "str_nat n = c # cs" using str_nat_digits [of n] by (cases "str_nat n") auto
  with str_nat_head [OF False] have "c \<noteq> CHR ''0''" by simp
  with c digits_of_append [of "str_nat n" r] str_nat_digits [of n] assms show ?thesis by (simp add: whole_part_def)
qed

lemma str_nat_unsigned: "hd (str_nat n @ r) \<noteq> CHR ''-''"
  using str_nat_digits [of n] by (cases "str_nat n") (auto simp: is_digit_def)

text \<open>A printed number, of a sign, whole digits and what follows them.\<close>

lemma read_number_parts:
  assumes "r = [] \<or> \<not> is_digit (hd r)" "fraction_part r = (f, r2)" "exponent_part r2 = (e, r3)"
  shows "read_number (str_nat n @ r) = Some (number_token False (str_nat n) f e, r3)"
    "read_number (CHR ''-'' # str_nat n @ r) = Some (number_token True (str_nat n) f e, r3)"
  using assms str_nat_unsigned [of n r] str_nat_filled [of n]
  by (simp_all add: read_number_def whole_str_nat)

lemma read_int:
  assumes "boundary r" "json_fits (PInt i)"
  shows "read_number (str_int i @ r) = Some (T_value (PInt i), r)"
proof (cases "i < 0")
  case True
  then show ?thesis
    using assms(2) read_number_parts(2) [OF boundary_ends [OF assms(1)], of "nat (- i)"]
    by (simp add: str_int_def number_token_def dec_value_str_nat not_less [symmetric])
next
  case False
  then show ?thesis
    using assms(2) read_number_parts(1) [OF boundary_ends [OF assms(1)], of "nat i"]
    by (simp add: str_int_def number_token_def dec_value_str_nat not_less [symmetric])
qed

lemma trim_zeros_value:
  assumes "list_all is_digit s" "s \<noteq> []"
  shows "trim_zeros s \<noteq> []" "list_all is_digit (trim_zeros s)" "dec_value (trim_zeros s) * 10 ^ length s = dec_value s * 10 ^ length (trim_zeros s)"
proof -
  define u where "u = rev (dropWhile (\<lambda>c. c = CHR ''0'') (rev s))"
  have "takeWhile (\<lambda>c. c = CHR ''0'') x = replicate (length (takeWhile (\<lambda>c. c = CHR ''0'') x)) (CHR ''0'')" for x
    by (rule replicate_eqI) (auto dest: set_takeWhileD)
  moreover have "rev s = takeWhile (\<lambda>c. c = CHR ''0'') (rev s) @ rev u" by (simp add: u_def)
  ultimately have "rev s = replicate (length (takeWhile (\<lambda>c. c = CHR ''0'') (rev s))) (CHR ''0'') @ rev u" by metis
  then obtain m where s: "s = u @ replicate m (CHR ''0'')" by (metis rev_append rev_replicate rev_rev_ident)
  have t: "trim_zeros s = (if u = [] then ''0'' else u)"
    unfolding trim_zeros_def u_def [symmetric] by (cases u) simp_all
  have zero: "is_digit (CHR ''0'')" "dec_value ''0'' = 0" by code_simp+
  have "list_all is_digit u" using assms(1) by (simp add: s)
  then show "trim_zeros s \<noteq> []" "list_all is_digit (trim_zeros s)" using zero(1) by (simp_all add: t)
  show "dec_value (trim_zeros s) * 10 ^ length s = dec_value s * 10 ^ length (trim_zeros s)"
    using zero(2) by (simp add: t) (simp add: s dec_value_append dec_value_zeros power_add)
qed

text \<open>The digits after the point are the millionths.\<close>

lemma fraction_digits:
  assumes "k < 1000000"
  defines "f \<equiv> trim_zeros (pad_left 6 (str_nat k))"
  shows "f \<noteq> []" "list_all is_digit f" "of_nat (dec_value f) / 10 ^ length f = (of_nat k / 1000000 :: rat)"
proof -
  let ?s = "pad_left 6 (str_nat k)"
  have "length (str_nat k) \<le> 6" using assms(1) by (intro length_str_nat) simp_all
  then have len: "length ?s = 6" by (simp add: pad_left_def)
  have val: "dec_value ?s = k" by (simp add: pad_left_def dec_value_append dec_value_zeros dec_value_str_nat)
  have "is_digit (CHR ''0'')" by code_simp
  then have "list_all is_digit ?s" "?s \<noteq> []" using str_nat_digits [of k] by (auto simp: pad_left_def list_all_iff)
  note trim = trim_zeros_value [OF this]
  show "f \<noteq> []" "list_all is_digit f" using trim(1,2) by (simp_all add: f_def)
  have "of_nat (dec_value f * 10 ^ 6) = (of_nat (k * 10 ^ length f) :: rat)" using trim(3) by (simp add: len val f_def)
  then show "of_nat (dec_value f) / 10 ^ length f = (of_nat k / 1000000 :: rat)" by (simp add: field_simps)
qed

lemma read_seconds:
  assumes "boundary r" "0 \<le> t"
  shows "read_number (str_seconds t @ r) = Some (T_value (PFloat (of_int t / 1000000)), r)"
    "read_number (CHR ''-'' # str_seconds t @ r) = Some (T_value (PFloat (- (of_int t / 1000000))), r)"
proof -
  define n k f where "n = nat (t div 1000000)" and "k = nat (t mod 1000000)" and "f = trim_zeros (pad_left 6 (str_nat k))"
  have "k < 1000000" by (simp add: k_def nat_less_iff)
  note f = fraction_digits [OF this, folded f_def]
  have written: "str_seconds t @ r = str_nat n @ CHR ''.'' # f @ r" by (simp add: str_seconds_def n_def k_def f_def)
  have "digits_of (f @ r) = (f, r)" by (rule digits_of_append [OF f(2) boundary_ends(1) [OF assms(1)]])
  then have frac: "fraction_part (CHR ''.'' # f @ r) = (f, r)" using f(1) by (simp add: fraction_part_def)
  have point: "CHR ''.'' # f @ r = [] \<or> \<not> is_digit (hd (CHR ''.'' # f @ r))" by (simp add: is_digit_def)
  have "t = int n * 1000000 + int k" using assms(2) by (simp add: n_def k_def pos_imp_zdiv_nonneg_iff)
  then have "of_int t / 1000000 = (of_nat n + of_nat k / 1000000 :: rat)" by (simp add: field_simps)
  also have "\<dots> = of_nat (dec_value (str_nat n @ f)) / 10 ^ length f"
    using f(3) by (simp add: dec_value_append dec_value_str_nat field_simps)
  finally have "of_nat (dec_value (str_nat n @ f)) / 10 ^ length f = (of_int t / 1000000 :: rat)" by simp
  with read_number_parts [OF point frac boundary_ends(3) [OF assms(1)], of n] f(1)
  show "read_number (str_seconds t @ r) = Some (T_value (PFloat (of_int t / 1000000)), r)"
    "read_number (CHR ''-'' # str_seconds t @ r) = Some (T_value (PFloat (- (of_int t / 1000000))), r)"
    unfolding written by (simp_all add: number_token_def or_else_def scale_def)
qed

lemma round_nonneg: "0 \<le> x \<Longrightarrow> 0 \<le> round x"
  using round_mono [of 0 x] by simp

lemma read_float:
  assumes "boundary r" "json_fits (PFloat q)"
  shows "read_number (str_float q @ r) = Some (T_value (PFloat q), r)"
proof -
  have q: "of_int (round (q * 1000000)) / 1000000 = q" using assms(2) by simp
  show ?thesis
  proof (cases "q < 0")
    case True
    have "of_int (- round (q * 1000000)) = - q * 1000000" using assms(2) by simp
    then have "round (- q * 1000000) = - round (q * 1000000)" by (metis round_of_int)
    moreover have "0 \<le> round (- q * 1000000)" using True by (intro round_nonneg) simp
    ultimately show ?thesis using True read_seconds(2) [OF assms(1), of "round (- q * 1000000)"] q by (simp add: str_float_def)
  next
    case False
    then have "0 \<le> round (q * 1000000)" by (intro round_nonneg) simp
    with False read_seconds(1) [OF assms(1), of "round (q * 1000000)"] q show ?thesis by (simp add: str_float_def)
  qed
qed

section \<open>The tokens of a printed value\<close>

definition joined :: "json_token list list \<Rightarrow> json_token list" where
  "joined tss = (case tss of [] \<Rightarrow> [] | ts # rest \<Rightarrow> ts @ concat (map (\<lambda>us. T_comma # us) rest))"

fun token_list :: "pyval \<Rightarrow> json_token list" where
  "token_list (PStr t) = [T_text t]"
| "token_list (PList xs) = T_open_list # joined (map token_list xs) @ [T_close_list]"
| "token_list (PDict d) = T_open_dict # joined (map (\<lambda>(k, v). T_text k # T_colon # token_list v) d) @ [T_close_dict]"
| "token_list v = [T_value v]"

lemma tokens_mark: "map_of punctuation c = Some t \<Longrightarrow> tokens je (c # r) = t # tokens je r"
  by (auto simp: tokens.simps(2) punctuation_def is_json_space_def)

lemma tokens_blank: "tokens je (CHR '' '' # r) = tokens je r"
  by (simp add: tokens.simps(2) is_json_space_def)

lemma tokens_text: "tokens je (json_string a t @ r) = T_text t # tokens je r"
  by (simp add: json_string_def tokens.simps(2) is_json_space_def punctuation_def read_json_text)

text \<open>A number and a word start with no blank, mark or quote.\<close>

lemma tokens_number:
  assumes "read_number s = Some (t, r)"
  shows "tokens je s = t # tokens je r"
proof (cases s)
  case Nil
  with assms show ?thesis by (simp add: read_number_def whole_part_def Let_def)
next
  case (Cons c cs)
  have "c = CHR ''-'' \<or> is_digit c"
    using assms by (auto simp: Cons read_number_def whole_part_def digits_of_def Let_def is_digit_def split: if_splits prod.splits)
  then have "\<not> is_json_space c" "map_of punctuation c = None" "c \<noteq> CHR 0x22"
    by (auto simp: is_json_space_def punctuation_def is_digit_def)
  with assms Cons show ?thesis by (simp add: tokens.simps(2))
qed

lemma tokens_words:
  "tokens je (''null'' @ r) = T_value PNone # tokens je r"
  "tokens je (''true'' @ r) = T_value (PBool True) # tokens je r"
  "tokens je (''false'' @ r) = T_value (PBool False) # tokens je r"
  by (simp_all add: tokens.simps(2) is_json_space_def punctuation_def read_number_def whole_part_def digits_of_def is_digit_def
      read_literal_def literals_def fraction_part_def exponent_part_def Let_def split: prod.splits)

lemma joined_simps: "joined [] = []" "joined [ts] = ts" "joined (ts # us # rest) = ts @ T_comma # joined (us # rest)"
  by (simp_all add: joined_def)

lemma tokens_joined:
  assumes "\<And>x r. x \<in> set xs \<Longrightarrow> boundary r \<Longrightarrow> tokens je (text x @ r) = toks x @ tokens je r" "boundary r"
  shows "tokens je (py_join '', '' (map text xs) @ r) = joined (map toks xs) @ tokens je r"
  using assms(1)
proof (induction xs rule: induct_list012)
  case (3 x y zs)
  have comma: "tokens je ('', '' @ u) = T_comma # tokens je u" for u
    by (simp add: tokens_mark [of "CHR '',''"] tokens_blank punctuation_def)
  have "boundary ('', '' @ u)" for u by (simp add: boundary_def)
  with 3 comma show ?case by (simp add: joined_simps del: append_Cons)
qed (simp_all add: joined_simps assms(2))

lemma tokens_print:
  assumes "json_plain p" "boundary r"
  shows "tokens je (json_print a p @ r) = token_list p @ tokens je r"
  using assms
proof (induction a p arbitrary: r rule: json_print.induct)
  case (1 a xs)
  have close: "boundary (CHR '']'' # r)" by (simp add: boundary_def)
  have "tokens je (py_join '', '' (map (json_print a) xs) @ CHR '']'' # r) = joined (map token_list xs) @ tokens je (CHR '']'' # r)"
    by (rule tokens_joined [OF _ close]) (use 1 in \<open>auto simp: list_all_iff\<close>)
  then show ?case by (simp add: tokens_mark punctuation_def)
next
  case (2 a d)
  have close: "boundary (CHR ''}'' # r)" by (simp add: boundary_def)
  have entry: "tokens je ((case x of (k, v) \<Rightarrow> json_string a k @ '': '' @ json_print a v) @ u) =
      (case x of (k, v) \<Rightarrow> T_text k # T_colon # token_list v) @ tokens je u" if "x \<in> set d" "boundary u" for x u
  proof (cases x)
    case (Pair k v)
    have "tokens je ('': '' @ y) = T_colon # tokens je y" for y
      by (simp add: tokens_mark [of "CHR '':''"] tokens_blank punctuation_def)
    moreover have "tokens je (json_print a v @ u) = token_list v @ tokens je u"
      using 2 that by (auto simp: Pair list_all_iff)
    ultimately show ?thesis by (simp add: Pair tokens_text del: append_Cons)
  qed
  from tokens_joined [of d je "\<lambda>(k, v). json_string a k @ '': '' @ json_print a v" "\<lambda>(k, v). T_text k # T_colon # token_list v", OF entry close]
  show ?case by (simp add: tokens_mark punctuation_def)
qed (use tokens_words [of je] in \<open>auto simp: tokens_text tokens_number [OF read_int] tokens_number [OF read_float]\<close>)

section \<open>The machine on those tokens\<close>

definition awaiting :: "json_frame list \<Rightarrow> bool" where
  "awaiting fs \<longleftrightarrow> (case fs of In_dict d # _ \<Rightarrow> False | _ \<Rightarrow> True)"

lemma list_items:
  assumes "\<And>x m fs ts. x \<in> set xs \<Longrightarrow> awaiting fs \<Longrightarrow> m \<in> {Want_value, Want_value_or_close} \<Longrightarrow>
      fold json_step (token_list x @ ts) (Reading m fs) = fold json_step ts (hand_in x fs)"
  shows "fold json_step (concat (map (\<lambda>us. T_comma # us) (map token_list xs)) @ T_close_list # ts) (Reading Want_comma (In_list acc # fs))
    = fold json_step ts (hand_in (PList (acc @ xs)) fs)"
  using assms
proof (induction xs arbitrary: acc)
  case (Cons x xs)
  have "awaiting (In_list acc # fs)" by (simp add: awaiting_def)
  with Cons show ?case by (simp add: read_in_def)
qed (simp add: read_in_def)

lemma dict_items:
  assumes "\<And>k v m fs ts. (k, v) \<in> set d \<Longrightarrow> awaiting fs \<Longrightarrow> m \<in> {Want_value, Want_value_or_close} \<Longrightarrow>
      fold json_step (token_list v @ ts) (Reading m fs) = fold json_step ts (hand_in v fs)" "distinct (map fst (acc @ d))"
  shows "fold json_step (concat (map (\<lambda>us. T_comma # us) (map (\<lambda>(k, v). T_text k # T_colon # token_list v) d)) @ T_close_dict # ts)
      (Reading Want_comma (In_dict acc # fs)) = fold json_step ts (hand_in (PDict (acc @ d)) fs)"
  using assms
proof (induction d arbitrary: acc)
  case (Cons x d)
  obtain k v where x: "x = (k, v)" by (cases x)
  have "awaiting (In_pair acc k # fs)" by (simp add: awaiting_def)
  then have one: "fold json_step (token_list v @ us) (Reading Want_value (In_pair acc k # fs)) = fold json_step us (hand_in v (In_pair acc k # fs))" for us
    by (intro Cons.prems(1) [of k]) (simp_all add: x)
  have "dict_set k v acc = acc @ [(k, v)]" using Cons.prems(2) by (auto simp: x dict_set_def)
  with one [of "[]"] have first: "fold json_step (token_list v) (Reading Want_value (In_pair acc k # fs)) = Reading Want_comma (In_dict (acc @ [(k, v)]) # fs)"
    by simp
  have "fold json_step (concat (map (\<lambda>us. T_comma # us) (map (\<lambda>(k, v). T_text k # T_colon # token_list v) d)) @ T_close_dict # ts)
      (Reading Want_comma (In_dict (acc @ [(k, v)]) # fs)) = fold json_step ts (hand_in (PDict ((acc @ [(k, v)]) @ d)) fs)"
    by (rule Cons.IH, rule Cons.prems(1)) (use Cons.prems(2) in \<open>auto simp: x\<close>)
  then show ?case by (simp add: x read_in_def first)
qed (simp add: read_in_def)

lemma machine_reads:
  assumes "json_plain p" "awaiting fs" "m \<in> {Want_value, Want_value_or_close}"
  shows "fold json_step (token_list p @ ts) (Reading m fs) = fold json_step ts (hand_in p fs)"
  using assms
proof (induction p arbitrary: m fs ts rule: token_list.induct)
  case (2 xs)
  show ?case
  proof (cases xs)
    case Nil
    with "2.prems" show ?thesis by (auto simp: joined_def read_in_def)
  next
    case (Cons x ys)
    have IH: "fold json_step (token_list y @ us) (Reading k gs) = fold json_step us (hand_in y gs)"
      if "y \<in> set xs" "awaiting gs" "k \<in> {Want_value, Want_value_or_close}" for y us k gs
      using "2.IH" [OF that(1) _ that(2,3)] "2.prems"(1) that(1) by (simp add: list_all_iff)
    have first: "fold json_step (token_list x @ us) (Reading Want_value_or_close (In_list [] # fs)) = fold json_step us (Reading Want_comma (In_list [x] # fs))" for us
      using IH [of x "In_list [] # fs"] Cons by (simp add: awaiting_def)
    have "fold json_step (concat (map (\<lambda>us. T_comma # us) (map token_list ys)) @ T_close_list # ts) (Reading Want_comma (In_list [x] # fs))
        = fold json_step ts (hand_in (PList ([x] @ ys)) fs)"
      by (rule list_items) (use IH Cons in auto)
    with first "2.prems" show ?thesis by (auto simp: Cons joined_def read_in_def)
  qed
next
  case (3 d)
  show ?case
  proof (cases d)
    case Nil
    with "3.prems" show ?thesis by (auto simp: joined_def read_in_def)
  next
    case (Cons x e)
    obtain k v where x: "x = (k, v)" by (cases x)
    have IH: "fold json_step (token_list w @ us) (Reading l gs) = fold json_step us (hand_in w gs)"
      if "(j, w) \<in> set d" "awaiting gs" "l \<in> {Want_value, Want_value_or_close}" for j w us l gs
    proof -
      have "json_plain w" using "3.prems"(1) that(1) by (auto simp: list_all_iff)
      then show ?thesis using "3.IH" [OF that(1) refl _ that(2,3)] by blast
    qed
    have first: "fold json_step (token_list v @ us) (Reading Want_value (In_pair [] k # fs)) = fold json_step us (Reading Want_comma (In_dict [(k, v)] # fs))" for us
      using IH [of k v "In_pair [] k # fs"] Cons x by (simp add: awaiting_def dict_set_def)
    have "fold json_step (concat (map (\<lambda>us. T_comma # us) (map (\<lambda>(k, v). T_text k # T_colon # token_list v) e)) @ T_close_dict # ts)
        (Reading Want_comma (In_dict [(k, v)] # fs)) = fold json_step ts (hand_in (PDict ([(k, v)] @ e)) fs)"
      by (rule dict_items, rule IH) (use Cons "3.prems"(1) x in auto)
    with first "3.prems" show ?thesis by (auto simp: Cons x joined_def read_in_def)
  qed
qed (auto simp: read_in_def)

text \<open>The whole way.\<close>

theorem loads_dumps: "json_fits v \<Longrightarrow> json_loads je (json_with a v) = Json_value (json_norm v)"
proof -
  assume "json_fits v"
  then have p: "json_plain (json_norm v)" by (rule norm_plain)
  have "tokens je (json_print a (json_norm v) @ []) = token_list (json_norm v) @ tokens je []"
    by (rule tokens_print [OF p]) (simp add: boundary_def)
  moreover have "fold json_step (token_list (json_norm v) @ []) (Reading Want_value []) = Reading (Finished (json_norm v)) []"
    by (subst machine_reads [OF p]) (simp_all add: awaiting_def)
  ultimately show ?thesis by (simp add: json_loads_def json_with_norm)
qed

end
