(* ===== verification/Mem_Store.thy ===== *)
theory Mem_Store
  imports Event_Bus Obs_Redaction Core_Config Py_Json_Roundtrip
begin

text \<open>
  \<open>memory/store.py\<close>, the tables it declares, and the state all subsystems share. \<open>plane\<close> is one
  running control plane: the clock, the supply of identifiers, the tables, the events published on
  the bus, and the futures of the approval manager.

  A row keeps a JSON column as the value that reading it back gives (\<open>json_norm\<close>), and a time as a
  number; an ISO text sorts as its time does. \<open>new_id\<close> stands for \<open>uuid4\<close>: it never repeats. One
  operation reads one clock value; time passes between operations (\<open>tick\<close>), in tools and in waits.
  A store error (disk full, locked) is not modelled: every statement succeeds unless a key clashes.
\<close>

section \<open>Rows\<close>

record audit_row =
  au_id :: string
  au_timestamp :: time
  au_event_type :: event_type
  au_task_id :: "string option"
  au_actor :: string
  au_actor_id :: "string option"
  au_actor_type :: "string option"
  au_auth_method :: "string option"
  au_component :: string
  au_tool_name :: "string option"
  au_risk :: "risk_level option"
  au_decision :: "policy_decision option"
  au_success :: "bool option"
  au_duration_ms :: "rat option"
  au_payload :: pyval
  au_payload_sha256 :: "string option"

record call_row =
  cr_id :: string
  cr_task_id :: string
  cr_step_id :: "string option"
  cr_tool_name :: string
  cr_arguments :: pyval
  cr_actor :: string
  cr_actor_id :: "string option"
  cr_actor_type :: "string option"
  cr_requested_at :: time
  cr_risk_level :: risk_level
  cr_policy_decision :: "policy_decision option"
  cr_policy_rule :: "string option"
  cr_approval_id :: "string option"
  cr_approval_state :: "approval_state option"
  cr_success :: "bool option"
  cr_duration_ms :: "time option"
  cr_error :: "string option"
  cr_output_sha256 :: "string option"
  cr_output_preview :: "string option"

record approval_row =
  ar_id :: string
  ar_task_id :: string
  ar_call_id :: "string option"
  ar_tool_name :: string
  ar_arguments :: pyval
  ar_risk :: risk_level
  ar_reason :: string
  ar_summary :: string
  ar_requested_at :: time
  ar_expires_at :: "time option"
  ar_state :: approval_state
  ar_decided_by :: "string option"
  ar_decided_at :: "time option"
  ar_note :: "string option"

record observation_row =
  or_id :: string
  or_task_id :: string
  or_call_id :: "string option"
  or_created_at :: time
  or_source :: string
  or_success :: bool
  or_content :: string
  or_metadata :: pyval

section \<open>The control plane\<close>

record plane =
  pl_now :: time
  pl_fresh :: nat
  pl_sha256 :: "string \<Rightarrow> string" \<comment> \<open>\<open>hashlib.sha256(...).hexdigest()\<close>\<close>
  pl_published :: "event list"
  pl_audit :: "audit_row list"
  pl_calls :: "call_row list"
  pl_approvals :: "approval_row list"
  pl_observations :: "observation_row list"
  pl_waiters :: "(string \<times> nat) list" \<comment> \<open>approval id, future\<close>
  pl_answers :: "(nat \<times> approval_decision) list" \<comment> \<open>futures that are done\<close>

definition new_id :: "plane \<Rightarrow> string \<times> plane" where
  "new_id pl = (str_nat (pl_fresh pl), pl\<lparr>pl_fresh := Suc (pl_fresh pl)\<rparr>)"

definition tick :: "time \<Rightarrow> plane \<Rightarrow> plane" where
  "tick d pl = pl\<lparr>pl_now := pl_now pl + max 0 d\<rparr>"

text \<open>\<open>dumps\<close>, the encoding of a JSON column.\<close>

definition store_dumps :: "pyval \<Rightarrow> string" where
  "store_dumps v = json_with False v"

text \<open>\<open>loads\<close>: an empty column is an empty object, and a text that is no JSON is kept, cut, under one key.\<close>

definition store_loads :: "json_env \<Rightarrow> string option \<Rightarrow> string + pyval" where
  "store_loads je column = (case column of
     None \<Rightarrow> Inr (PDict [])
   | Some [] \<Rightarrow> Inr (PDict [])
   | Some s \<Rightarrow> (case json_loads je s of
       Json_value v \<Rightarrow> Inr v
     | Malformed_json \<Rightarrow> Inr (PDict [(''_unparseable'', PStr (take 500 s))])
     | Json_value_error m \<Rightarrow> Inl m))"

lemma store_loads_dumps: "json_fits v \<Longrightarrow> store_loads je (Some (store_dumps v)) = Inr (json_norm v)"
proof -
  assume "json_fits v"
  then have read: "json_loads je (store_dumps v) = Json_value (json_norm v)" by (simp add: store_dumps_def loads_dumps)
  moreover have "json_loads je [] = Malformed_json" by (simp add: json_loads_def)
  ultimately obtain c cs where "store_dumps v = c # cs" by (cases "store_dumps v") auto
  with read show ?thesis by (simp add: store_loads_def)
qed

text \<open>\<open>SELECT ... ORDER BY key\<close> with ties in rowid order, and \<open>LIMIT\<close> (negative is no limit).\<close>

definition sql_limit :: "int \<Rightarrow> 'a list \<Rightarrow> 'a list" where
  "sql_limit n xs = (if n < 0 then xs else take (nat n) xs)"

lemma new_id_simps [simp]:
  "fst (new_id pl) = str_nat (pl_fresh pl)"
  "snd (new_id pl) = pl\<lparr>pl_fresh := Suc (pl_fresh pl)\<rparr>"
  by (simp_all add: new_id_def)

text \<open>An empty control plane, with a digest function that keeps its argument; the witnesses use it.\<close>

definition example_plane :: plane where
  "example_plane = \<lparr>pl_now = 0, pl_fresh = 0, pl_sha256 = (\<lambda>s. s), pl_published = [], pl_audit = [],
     pl_calls = [], pl_approvals = [], pl_observations = [], pl_waiters = [], pl_answers = []\<rparr>"

section \<open>Identifiers never repeat\<close>

text \<open>Every identifier in a table is an old one.\<close>

definition ids_below :: "nat \<Rightarrow> string list \<Rightarrow> bool" where
  "ids_below n ids \<longleftrightarrow> list_all (\<lambda>i. \<forall>m\<ge>n. i \<noteq> str_nat m) ids"

lemma ids_below_mono: "ids_below n ids \<Longrightarrow> n \<le> m \<Longrightarrow> ids_below m ids"
  by (auto simp: ids_below_def list_all_iff)

lemma ids_below_append [simp]: "ids_below n (xs @ ys) \<longleftrightarrow> ids_below n xs \<and> ids_below n ys"
  by (auto simp: ids_below_def)

lemma ids_below_single [simp]: "ids_below n [str_nat m] \<longleftrightarrow> m < n"
  by (auto simp: ids_below_def not_le)

lemma fresh_not_in: "ids_below n ids \<Longrightarrow> str_nat n \<notin> set ids"
  by (auto simp: ids_below_def list_all_iff)

end
