(* ===== verification/Sec_Audit.thy ===== *)
theory Sec_Audit
  imports Mem_Store
begin

text \<open>
  \<open>security/audit.py\<close>: the append-only trail. \<open>plane_emit\<close> is \<open>events.emit\<close> on the runtime's bus, to
  which the audit log is attached as a handler: it publishes the event and records its row.
\<close>

definition MAX_STORED_OUTPUT_CHARS :: nat where
  "MAX_STORED_OUTPUT_CHARS = 4000"

definition PREVIEW_CHARS :: nat where
  "PREVIEW_CHARS = 500"

section \<open>Columns read from a payload\<close>

fun optional_str :: "pyval \<Rightarrow> string option" where
  "optional_str (PStr s) = (if s \<noteq> [] then Some s else None)"
| "optional_str v = None"

fun optional_bool :: "pyval \<Rightarrow> bool option" where
  "optional_bool (PBool b) = Some b"
| "optional_bool v = None"

fun optional_float :: "pyval \<Rightarrow> rat option" where
  "optional_float (PInt i) = Some (of_int i)"
| "optional_float (PFloat r) = Some r"
| "optional_float v = None"

fun optional_risk :: "pyval \<Rightarrow> risk_level option" where
  "optional_risk (PStr s) = (if s \<noteq> [] then risk_of_value s else None)"
| "optional_risk v = None"

fun optional_decision :: "pyval \<Rightarrow> policy_decision option" where
  "optional_decision (PStr s) = (if s \<noteq> [] then decision_of_value s else None)"
| "optional_decision v = None"

definition ms_of :: "time \<Rightarrow> rat" where
  "ms_of t = of_int t / 1000"

section \<open>Recording\<close>

text \<open>The payload column: the redacted payload, or its digest and a preview when it is long.\<close>

definition stored_payload :: "(string \<Rightarrow> string) \<Rightarrow> payload \<Rightarrow> pyval \<times> string option" where
  "stored_payload sha p =
     (let redacted = redact (PDict p); encoded = store_dumps redacted in
      if MAX_STORED_OUTPUT_CHARS < length encoded then
        (PDict [(''_hashed'', PBool True), (''_sha256'', PStr (sha encoded)),
                (''_bytes'', PInt (int (length encoded))), (''_preview'', PStr (take PREVIEW_CHARS encoded))],
         Some (sha encoded))
      else (redacted, None))"

definition audit_record :: "audit_event \<Rightarrow> rat option \<Rightarrow> plane \<Rightarrow> plane" where
  "audit_record e duration pl =
     (let (stored, digest) = stored_payload (pl_sha256 pl) (ae_payload e) in
      pl\<lparr>pl_audit := or_else (tbl_insert au_id
        \<lparr>au_id = ae_id e, au_timestamp = ae_timestamp e, au_event_type = ae_event_type e,
         au_task_id = ae_task_id e, au_actor = ae_actor e, au_actor_id = ae_actor_id e,
         au_actor_type = ae_actor_type e, au_auth_method = ae_auth_method e,
         au_component = ae_component e, au_tool_name = ae_tool_name e, au_risk = ae_risk e,
         au_decision = ae_decision e, au_success = ae_success e, au_duration_ms = duration,
         au_payload = json_norm stored, au_payload_sha256 = digest\<rparr> (pl_audit pl)) (pl_audit pl)\<rparr>)"

definition audit_on_event :: "event \<Rightarrow> plane \<Rightarrow> plane" where
  "audit_on_event e pl =
     (let p = e_payload e; (i, pl1) = new_id pl in
      audit_record
        \<lparr>ae_id = i, ae_timestamp = pl_now pl1, ae_event_type = e_type e, ae_task_id = e_task_id e,
         ae_actor = str_val (pget_or ''actor'' (PStr ''scrappy'') p),
         ae_actor_id = optional_str (pget ''actor_id'' p),
         ae_actor_type = optional_str (pget ''actor_type'' p),
         ae_auth_method = optional_str (pget ''auth_method'' p),
         ae_component = e_component e,
         ae_tool_name = optional_str (pget ''tool_name'' p),
         ae_risk = optional_risk (pget ''risk'' p),
         ae_decision = optional_decision (pget ''decision'' p),
         ae_success = optional_bool (pget ''success'' p),
         ae_duration_ms = None,
         ae_payload = p, ae_payload_sha256 = None\<rparr>
        (optional_float (pget ''duration_ms'' p)) pl1)"

definition plane_emit ::
  "event_type \<Rightarrow> string option \<Rightarrow> string \<Rightarrow> actor option \<Rightarrow> payload \<Rightarrow> plane \<Rightarrow> plane" where
  "plane_emit ty task_id component identity payload pl =
     (let (i, pl1) = new_id pl;
          e = emit_event i (pl_now pl1) ty task_id component identity payload
      in audit_on_event e (pl1\<lparr>pl_published := pl_published pl1 @ [e]\<rparr>))"

section \<open>The tool-call ledger\<close>

definition call_to_row :: "tool_call \<Rightarrow> call_row" where
  "call_to_row c =
     \<lparr>cr_id = c_id c, cr_task_id = c_task_id c, cr_step_id = c_step_id c, cr_tool_name = c_tool_name c,
      cr_arguments = json_norm (redact (PDict (c_arguments c))), cr_actor = c_actor c,
      cr_actor_id = map_option a_id (c_identity c),
      cr_actor_type = map_option (\<lambda>a. actor_type_value (a_type a)) (c_identity c),
      cr_requested_at = c_requested_at c, cr_risk_level = c_risk_level c,
      cr_policy_decision = c_policy_decision c, cr_policy_rule = c_policy_rule c,
      cr_approval_id = c_approval_id c, cr_approval_state = c_approval_state c,
      cr_success = None, cr_duration_ms = None, cr_error = None, cr_output_sha256 = None,
      cr_output_preview = None\<rparr>"

definition record_call :: "tool_call \<Rightarrow> plane \<Rightarrow> plane" where
  "record_call c pl = pl\<lparr>pl_calls := tbl_replace cr_id (call_to_row c) (pl_calls pl)\<rparr>"

definition complete_row :: "(string \<Rightarrow> string) \<Rightarrow> tool_result \<Rightarrow> call_row \<Rightarrow> call_row" where
  "complete_row sha r row =
     (let encoded = store_dumps (redact (PDict (r_output r))) in
      row\<lparr>cr_success := Some (r_success r), cr_duration_ms := Some (r_duration_ms r),
          cr_error := r_error r, cr_output_sha256 := Some (sha encoded),
          cr_output_preview := Some (if length encoded \<le> MAX_STORED_OUTPUT_CHARS then encoded
            else take PREVIEW_CHARS encoded)\<rparr>)"

definition record_result :: "tool_result \<Rightarrow> plane \<Rightarrow> plane" where
  "record_result r pl =
     pl\<lparr>pl_calls := tbl_update cr_id (r_call_id r) (complete_row (pl_sha256 pl) r) (pl_calls pl)\<rparr>"

section \<open>Queries\<close>

text \<open>
  \<open>_decode\<close>, of the two columns of a fetched row it touches; a row here keeps what they read as.
\<close>

definition audit_decode :: "json_env \<Rightarrow> string option \<Rightarrow> int option \<Rightarrow> string + pyval \<times> bool option" where
  "audit_decode je payload_text success = map_sum id (\<lambda>v. (v, map_option (\<lambda>n. n \<noteq> 0) success)) (store_loads je payload_text)"

text \<open>Newest first, ties by descending rowid.\<close>

definition audit_recent :: "int \<Rightarrow> plane \<Rightarrow> audit_row list" where
  "audit_recent limit pl = sql_limit limit (rev (sort_key au_timestamp (pl_audit pl)))"

definition audit_for_task :: "string \<Rightarrow> int \<Rightarrow> plane \<Rightarrow> audit_row list" where
  "audit_for_task task_id limit pl =
     sql_limit limit (sort_key au_timestamp (filter (\<lambda>r. au_task_id r = Some task_id) (pl_audit pl)))"

definition calls_for_task :: "string \<Rightarrow> plane \<Rightarrow> call_row list" where
  "calls_for_task task_id pl = sort_key cr_requested_at (filter (\<lambda>r. cr_task_id r = task_id) (pl_calls pl))"

definition audit_count :: "plane \<Rightarrow> nat" where
  "audit_count pl = length (pl_audit pl)"

definition audit_denied :: "string \<Rightarrow> string \<Rightarrow> risk_level \<Rightarrow> string \<Rightarrow> string \<Rightarrow> plane \<Rightarrow> plane" where
  "audit_denied task_id tool_name risk rule reason pl =
     (let (i, pl1) = new_id pl in
      audit_record
        \<lparr>ae_id = i, ae_timestamp = pl_now pl1, ae_event_type = SECURITY_DENIED, ae_task_id = Some task_id,
         ae_actor = ''scrappy'', ae_actor_id = None, ae_actor_type = None, ae_auth_method = None,
         ae_component = ''policy'', ae_tool_name = Some tool_name, ae_risk = Some risk,
         ae_decision = Some DENY, ae_success = Some False, ae_duration_ms = None,
         ae_payload = [(''rule'', PStr rule), (''reason'', PStr reason)], ae_payload_sha256 = None\<rparr>
        None pl1)"

section \<open>Lemmas\<close>

text \<open>The invariant of the trail: identifiers are old ones, and there are no duplicates.\<close>

definition audit_ok :: "plane \<Rightarrow> bool" where
  "audit_ok pl \<longleftrightarrow> tbl_wf au_id (pl_audit pl) \<and> ids_below (pl_fresh pl) (map au_id (pl_audit pl))"

lemma audit_record_frame [simp]:
  "pl_now (audit_record e d pl) = pl_now pl" "pl_fresh (audit_record e d pl) = pl_fresh pl"
  "pl_sha256 (audit_record e d pl) = pl_sha256 pl" "pl_published (audit_record e d pl) = pl_published pl"
  "pl_calls (audit_record e d pl) = pl_calls pl" "pl_approvals (audit_record e d pl) = pl_approvals pl"
  "pl_observations (audit_record e d pl) = pl_observations pl"
  "pl_waiters (audit_record e d pl) = pl_waiters pl" "pl_answers (audit_record e d pl) = pl_answers pl"
  by (simp_all add: audit_record_def split_beta)

lemma plane_emit_frame [simp]:
  "pl_now (plane_emit ty t c a p pl) = pl_now pl"
  "pl_fresh (plane_emit ty t c a p pl) = pl_fresh pl + 2"
  "pl_sha256 (plane_emit ty t c a p pl) = pl_sha256 pl"
  "pl_calls (plane_emit ty t c a p pl) = pl_calls pl"
  "pl_approvals (plane_emit ty t c a p pl) = pl_approvals pl"
  "pl_observations (plane_emit ty t c a p pl) = pl_observations pl"
  "pl_waiters (plane_emit ty t c a p pl) = pl_waiters pl"
  "pl_answers (plane_emit ty t c a p pl) = pl_answers pl"
  by (simp_all add: plane_emit_def audit_on_event_def Let_def split_beta)

lemma plane_emit_published:
  "pl_published (plane_emit ty t c a p pl) =
    pl_published pl @ [emit_event (str_nat (pl_fresh pl)) (pl_now pl) ty t c a p]"
  by (simp add: plane_emit_def audit_on_event_def Let_def split_beta)

lemma record_call_frame [simp]:
  "pl_now (record_call c pl) = pl_now pl" "pl_fresh (record_call c pl) = pl_fresh pl"
  "pl_sha256 (record_call c pl) = pl_sha256 pl" "pl_published (record_call c pl) = pl_published pl"
  "pl_audit (record_call c pl) = pl_audit pl" "pl_approvals (record_call c pl) = pl_approvals pl"
  "pl_observations (record_call c pl) = pl_observations pl"
  "pl_waiters (record_call c pl) = pl_waiters pl" "pl_answers (record_call c pl) = pl_answers pl"
  by (simp_all add: record_call_def)

lemma record_result_frame [simp]:
  "pl_now (record_result r pl) = pl_now pl" "pl_fresh (record_result r pl) = pl_fresh pl"
  "pl_sha256 (record_result r pl) = pl_sha256 pl" "pl_published (record_result r pl) = pl_published pl"
  "pl_audit (record_result r pl) = pl_audit pl" "pl_approvals (record_result r pl) = pl_approvals pl"
  "pl_observations (record_result r pl) = pl_observations pl"
  "pl_waiters (record_result r pl) = pl_waiters pl" "pl_answers (record_result r pl) = pl_answers pl"
  by (simp_all add: record_result_def)

lemma call_row_key [simp]: "cr_id (call_to_row c) = c_id c" "cr_id (complete_row sha r row) = cr_id row"
  by (simp_all add: call_to_row_def complete_row_def Let_def)

lemma ledger_get [table_simps]:
  "tbl_get cr_id k (pl_calls (record_call c pl)) =
    (if k = c_id c then Some (call_to_row c) else tbl_get cr_id k (pl_calls pl))"
  "tbl_get cr_id k (pl_calls (record_result r pl)) =
    (if k = r_call_id r then map_option (complete_row (pl_sha256 pl) r) (tbl_get cr_id k (pl_calls pl))
     else tbl_get cr_id k (pl_calls pl))"
  by (simp_all add: record_call_def record_result_def tbl_get_replace tbl_get_update)

text \<open>Emitting appends exactly one row to the trail.\<close>

lemma audit_record_audit:
  "audit_ok pl \<Longrightarrow> ae_id e = str_nat (pl_fresh pl) \<Longrightarrow> \<exists>row. pl_audit (audit_record e d pl) = pl_audit pl @ [row]
    \<and> au_id row = ae_id e \<and> au_event_type row = ae_event_type e \<and> au_task_id row = ae_task_id e
    \<and> au_actor_id row = ae_actor_id e \<and> au_payload row = json_norm (fst (stored_payload (pl_sha256 pl) (ae_payload e)))"
  using fresh_not_in [of "pl_fresh pl" "map au_id (pl_audit pl)"]
  by (auto simp: audit_record_def audit_ok_def split_beta tbl_insert_def tbl_get_None)

lemma plane_emit_audit:
  assumes "audit_ok pl"
  shows "\<exists>row. pl_audit (plane_emit ty t c a p pl) = pl_audit pl @ [row]
    \<and> au_id row = str_nat (Suc (pl_fresh pl)) \<and> au_event_type row = ty \<and> au_task_id row = t
    \<and> au_payload row = json_norm (fst (stored_payload (pl_sha256 pl) (e_payload (emit_event [] 0 ty t c a p))))"
proof -
  let ?e = "emit_event (str_nat (pl_fresh pl)) (pl_now pl) ty t c a p"
  let ?pl = "pl\<lparr>pl_fresh := Suc (Suc (pl_fresh pl)), pl_published := pl_published pl @ [?e]\<rparr>"
  have nin: "str_nat (Suc (pl_fresh pl)) \<notin> set (map au_id (pl_audit pl))"
    using assms ids_below_mono [of "pl_fresh pl" _ "Suc (pl_fresh pl)"] fresh_not_in
    by (fastforce simp: audit_ok_def)
  then show ?thesis
    by (auto simp: plane_emit_def audit_on_event_def Let_def audit_record_def split_beta tbl_insert_def
        tbl_get_None emit_event_def)
qed

lemma plane_emit_ok [inv_intros]:
  assumes "audit_ok pl"
  shows "audit_ok (plane_emit ty t c a p pl)"
proof -
  obtain row where row: "pl_audit (plane_emit ty t c a p pl) = pl_audit pl @ [row]"
      "au_id row = str_nat (Suc (pl_fresh pl))"
    using plane_emit_audit [OF assms] by blast
  have b: "ids_below (pl_fresh pl + 2) (map au_id (pl_audit pl))" "ids_below (Suc (pl_fresh pl)) (map au_id (pl_audit pl))"
    using assms by (auto simp: audit_ok_def intro: ids_below_mono)
  from fresh_not_in [OF b(2)] assms row b(1) show ?thesis
    by (auto simp: audit_ok_def tbl_wf_def)
qed

lemma audit_ok_record [inv_intros]:
  "audit_ok pl \<Longrightarrow> audit_ok (record_call c pl)" "audit_ok pl \<Longrightarrow> audit_ok (record_result r pl)"
  by (simp_all add: audit_ok_def)

text \<open>The trail only grows.\<close>

definition trail_grows :: "plane \<Rightarrow> plane \<Rightarrow> bool" where
  "trail_grows pl pl' \<longleftrightarrow> prefix (pl_audit pl) (pl_audit pl') \<and> prefix (pl_published pl) (pl_published pl')"

lemma trail_grows_refl [simp]: "trail_grows pl pl"
  by (simp add: trail_grows_def)

lemma trail_grows_trans: "trail_grows a b \<Longrightarrow> trail_grows b c \<Longrightarrow> trail_grows a c"
  by (auto simp: trail_grows_def intro: prefix_order.trans)

lemma trail_grows_emit [inv_intros]: "audit_ok pl \<Longrightarrow> trail_grows pl (plane_emit ty t c a p pl)"
  using plane_emit_audit [of pl ty t c a p] by (auto simp: trail_grows_def plane_emit_published)

lemma trail_grows_record [inv_intros]: "trail_grows pl (record_call c pl)" "trail_grows pl (record_result r pl)"
  by (simp_all add: trail_grows_def)

text \<open>One plane follows another: time and the trail only move forward.\<close>

definition advance :: "plane \<Rightarrow> plane \<Rightarrow> bool" where
  "advance pl pl' \<longleftrightarrow> (audit_ok pl \<longrightarrow> audit_ok pl' \<and> trail_grows pl pl')
     \<and> pl_now pl \<le> pl_now pl' \<and> pl_fresh pl \<le> pl_fresh pl' \<and> pl_sha256 pl' = pl_sha256 pl"

lemma advance_refl [simp]: "advance pl pl"
  by (simp add: advance_def)

lemma advance_trans: "advance a b \<Longrightarrow> advance b c \<Longrightarrow> advance a c"
  by (auto simp: advance_def intro: trail_grows_trans)

lemma advance_same:
  "pl_audit pl' = pl_audit pl \<Longrightarrow> pl_published pl' = pl_published pl \<Longrightarrow> pl_now pl \<le> pl_now pl' \<Longrightarrow>
   pl_fresh pl \<le> pl_fresh pl' \<Longrightarrow> pl_sha256 pl' = pl_sha256 pl \<Longrightarrow> advance pl pl'"
  by (auto simp: advance_def audit_ok_def trail_grows_def intro: ids_below_mono)

lemma advance_steps [simp]:
  "advance pl (plane_emit ty t c a p pl)" "advance pl (record_call call pl)" "advance pl (record_result r pl)"
  "advance pl (tick d pl)"
  by (simp add: advance_def plane_emit_ok trail_grows_emit) (auto simp: tick_def intro: advance_same)

lemma advance_then:
  "advance a b \<Longrightarrow> advance a (plane_emit ty t c i p b)" "advance a b \<Longrightarrow> advance a (record_call call b)"
  "advance a b \<Longrightarrow> advance a (record_result r b)" "advance a b \<Longrightarrow> advance a (tick d b)"
  by (blast intro: advance_trans advance_steps)+

section \<open>Properties\<close>

text \<open>
  The row an event leaves in the audit table says nothing about values held under a sensitive
  key: changing them changes no column of the row. What is stored of the payload is the redacted
  payload, or, when its encoding is longer than 4000 characters, its digest and a preview.
\<close>

theorem audit_payload_redacted:
  "stored_payload sha p = stored_payload sha (case wipe (PDict p) of PDict q \<Rightarrow> q | _ \<Rightarrow> [])
   \<and> (let redacted = redact (PDict p); encoded = store_dumps redacted in
      case snd (stored_payload sha p) of
        None \<Rightarrow> fst (stored_payload sha p) = redacted \<and> redacted_ok redacted
          \<and> length encoded \<le> MAX_STORED_OUTPUT_CHARS
      | Some digest \<Rightarrow> digest = sha encoded \<and> MAX_STORED_OUTPUT_CHARS < length encoded
          \<and> map_of (case fst (stored_payload sha p) of PDict d \<Rightarrow> d | _ \<Rightarrow> []) ''_preview'' =
              Some (PStr (take PREVIEW_CHARS encoded)))"
proof -
  have w: "redact (PDict (case wipe (PDict p) of PDict q \<Rightarrow> q | _ \<Rightarrow> [])) = redact (PDict p)"
    using redact_at_wipe [of 0 12 "PDict p"] by (simp add: redact_def)
  have ok: "redacted_ok (redact (PDict p))" by (simp add: redact_def redact_at_ok)
  show ?thesis unfolding stored_payload_def w using ok by (simp add: Let_def not_less)
qed

end
