(* ===== verification/Sec_Approvals.thy ===== *)
theory Sec_Approvals
  imports Sec_Audit
begin

text \<open>
  \<open>security/approvals.py\<close>: requests held for a human, their resolution, and their single use.
  Every operation reads and writes the approvals table of the plane; the futures \<open>wait_for\<close>
  creates are numbered.
\<close>

definition CONFIRMATION_PHRASE :: string where
  "CONFIRMATION_PHRASE = ''I ACCEPT THE RISK''"

section \<open>Describing an operation\<close>

definition py_or :: "pyval \<Rightarrow> pyval \<Rightarrow> pyval" where
  "py_or a b = (if py_truth a then a else b)"

definition after_dot :: "string \<Rightarrow> string" where
  "after_dot name = (case py_split_max (CHR ''.'') 1 name of _ # rest # _ \<Rightarrow> rest | _ \<Rightarrow> [])"

definition describe_operation :: "string \<Rightarrow> payload \<Rightarrow> string" where
  "describe_operation tool_name arguments =
     (let safe = redact_payload arguments in
      if tool_name = ''shell.run'' then
        ''run: '' @ (case py_or (pget ''argv'' safe) (PList []) of
            PList parts \<Rightarrow> py_join '' '' (map str_val parts)
          | v \<Rightarrow> str_val v)
      else if prefix ''fs.'' tool_name then
        after_dot tool_name @ '' '' @
          str_val (py_or (pget ''path'' safe) (py_or (pget ''source'' safe) (PStr ''?'')))
      else if tool_name = ''http.get'' then ''HTTP GET '' @ str_val (pget_or ''url'' (PStr ''?'') safe)
      else if tool_name = ''process.kill'' then
        ''send signal '' @ str_val (pget_or ''signal'' (PStr ''TERM'') safe) @ '' to pid '' @
          str_val (pget_or ''pid'' (PStr ''?'') safe)
      else tool_name @ '' '' @ take 200 (json_dumps (PDict safe)))"

section \<open>Rows and requests\<close>

definition request_to_row :: "approval_request \<Rightarrow> approval_row" where
  "request_to_row q =
     \<lparr>ar_id = q_id q, ar_task_id = q_task_id q, ar_call_id = q_call_id q, ar_tool_name = q_tool_name q,
      ar_arguments = json_norm (PDict (q_arguments q)), ar_risk = q_risk q, ar_reason = q_reason q,
      ar_summary = q_summary q, ar_requested_at = q_requested_at q, ar_expires_at = q_expires_at q,
      ar_state = q_state q, ar_decided_by = None, ar_decided_at = None, ar_note = None\<rparr>"

definition row_to_request :: "approval_row \<Rightarrow> approval_request" where
  "row_to_request r =
     \<lparr>q_id = ar_id r, q_task_id = ar_task_id r, q_call_id = ar_call_id r, q_tool_name = ar_tool_name r,
      q_arguments = (case ar_arguments r of PDict d \<Rightarrow> d | _ \<Rightarrow> []), q_risk = ar_risk r,
      q_reason = ar_reason r, q_summary = ar_summary r, q_requested_at = ar_requested_at r,
      q_expires_at = ar_expires_at r, q_state = ar_state r,
      q_requires_phrase = (ar_risk r = DESTRUCTIVE),
      q_phrase = (if ar_risk r = DESTRUCTIVE then Some CONFIRMATION_PHRASE else None)\<rparr>"

definition get_approval :: "string \<Rightarrow> plane \<Rightarrow> approval_request option" where
  "get_approval i pl = map_option row_to_request (tbl_get ar_id i (pl_approvals pl))"

definition persist :: "approval_request \<Rightarrow> plane \<Rightarrow> plane" where
  "persist q pl = pl\<lparr>pl_approvals := or_else (tbl_insert ar_id (request_to_row q) (pl_approvals pl)) (pl_approvals pl)\<rparr>"

definition set_state :: "string \<Rightarrow> approval_state \<Rightarrow> plane \<Rightarrow> plane" where
  "set_state i s pl = pl\<lparr>pl_approvals := tbl_update ar_id i (\<lambda>r. r\<lparr>ar_state := s\<rparr>) (pl_approvals pl)\<rparr>"

definition update_state :: "string \<Rightarrow> approval_state \<Rightarrow> approval_decision \<Rightarrow> bool \<Rightarrow> plane \<Rightarrow> plane" where
  "update_state i s d expired pl = pl\<lparr>pl_approvals := tbl_update ar_id i
     (\<lambda>r. r\<lparr>ar_state := s, ar_decided_by := Some (dc_decided_by d), ar_decided_at := Some (dc_decided_at d),
            ar_note := (if expired then Some ''expired before decision'' else dc_note d)\<rparr>) (pl_approvals pl)\<rparr>"

section \<open>Creation\<close>

definition approval_ttl :: "settings \<Rightarrow> time" where
  "approval_ttl s = approval_ttl_minutes s * seconds 60"

definition request_approval ::
  "settings \<Rightarrow> tool_call \<Rightarrow> risk_level \<Rightarrow> string \<Rightarrow> bool \<Rightarrow> plane \<Rightarrow> approval_request \<times> plane" where
  "request_approval s call risk reason phrase pl =
     (let (i, pl1) = new_id pl;
          q = \<lparr>q_id = i, q_task_id = c_task_id call, q_call_id = Some (c_id call),
               q_tool_name = c_tool_name call, q_arguments = redact_payload (c_arguments call),
               q_risk = risk, q_reason = reason,
               q_summary = describe_operation (c_tool_name call) (c_arguments call),
               q_requested_at = pl_now pl1, q_expires_at = Some (pl_now pl1 + approval_ttl s),
               q_state = A_PENDING, q_requires_phrase = phrase,
               q_phrase = (if phrase then Some CONFIRMATION_PHRASE else None)\<rparr>
      in (q, plane_emit APPROVAL_REQUESTED (Some (q_task_id q)) ''approvals'' None
            [(''approval_id'', PStr (q_id q)), (''tool_name'', PStr (q_tool_name q)),
             (''risk'', PStr (risk_value risk)), (''summary'', PStr (q_summary q)), (''reason'', PStr reason)]
            (persist q pl1)))"

section \<open>Resolution\<close>

definition not_found :: "string \<Rightarrow> scrappy_error" where
  "not_found i = ApprovalNotFound (''No approval request '' @ i)"

text \<open>The waiting future, if any, gets the decision.\<close>

definition answer_waiter :: "string \<Rightarrow> approval_decision \<Rightarrow> plane \<Rightarrow> plane" where
  "answer_waiter i d pl = (case map_of (pl_waiters pl) i of
     None \<Rightarrow> pl
   | Some w \<Rightarrow> pl\<lparr>pl_waiters := filter (\<lambda>(j, v). j \<noteq> i) (pl_waiters pl),
       pl_answers := (if w \<in> fst ` set (pl_answers pl) then pl_answers pl else pl_answers pl @ [(w, d)])\<rparr>)"

definition resolve_approval ::
  "approval_decision \<Rightarrow> plane \<Rightarrow> (scrappy_error + approval_request) \<times> plane" where
  "resolve_approval d pl =
     (case get_approval (dc_request_id d) pl of
        None \<Rightarrow> (Inl (not_found (dc_request_id d)), pl)
      | Some q \<Rightarrow>
          if q_state q \<noteq> A_PENDING then
            (Inl (ScrappyError (''Approval '' @ q_id q @ '' is already '' @ approval_value (q_state q))), pl)
          else if request_is_expired (pl_now pl) q then
            (Inl (ApprovalExpired (''Approval '' @ q_id q @ '' expired at '' @
               (case q_expires_at q of None \<Rightarrow> ''None'' | Some t \<Rightarrow> iso_datetime '' '' t))),
             update_state (q_id q) A_EXPIRED d True pl)
          else if dc_approved d \<and> q_requires_phrase q \<and> dc_phrase d \<noteq> q_phrase q then
            (Inl (ScrappyError ''Destructive operations require the exact confirmation phrase''), pl)
          else
            let q' = q\<lparr>q_state := (if dc_approved d then A_APPROVED else A_DENIED)\<rparr>;
                pl1 = update_state (q_id q) (q_state q') d False pl;
                pl2 = plane_emit APPROVAL_RESOLVED (Some (q_task_id q)) ''approvals'' None
                  [(''approval_id'', PStr (q_id q)), (''approved'', PBool (dc_approved d)),
                   (''decided_by'', PStr (dc_decided_by d)), (''tool_name'', PStr (q_tool_name q))] pl1
            in (Inr q', answer_waiter (q_id q) d pl2))"

definition expire_approval :: "string \<Rightarrow> plane \<Rightarrow> plane" where
  "expire_approval i pl = pl\<lparr>pl_approvals := tbl_update ar_id i
     (\<lambda>r. if ar_state r = A_PENDING then r\<lparr>ar_state := A_EXPIRED\<rparr> else r) (pl_approvals pl)\<rparr>"

text \<open>
  \<open>wait_for\<close> up to the wait: an answer at once, or a registered future. \<open>wait_answered\<close> and
  \<open>wait_timed_out\<close> are its two endings; both drop the registration under the approval's id.
\<close>

datatype wait_start = Immediate approval_decision | Future nat

definition stored_decision :: "string \<Rightarrow> bool \<Rightarrow> time \<Rightarrow> approval_decision" where
  "stored_decision i ok now = \<lparr>dc_request_id = i, dc_approved = ok, dc_decided_by = ''stored'',
     dc_identity = None, dc_decided_at = now, dc_note = None, dc_phrase = None\<rparr>"

definition wait_begin :: "string \<Rightarrow> plane \<Rightarrow> (scrappy_error + wait_start) \<times> plane" where
  "wait_begin i pl =
     (case get_approval i pl of
        None \<Rightarrow> (Inl (not_found i), pl)
      | Some q \<Rightarrow>
          if q_state q = A_APPROVED then (Inr (Immediate (stored_decision i True (pl_now pl))), pl)
          else if q_state q \<in> {A_DENIED, A_EXPIRED} then
            (Inr (Immediate (stored_decision i False (pl_now pl))), pl)
          else (Inr (Future (pl_fresh pl)),
            pl\<lparr>pl_fresh := Suc (pl_fresh pl), pl_waiters := dict_set i (pl_fresh pl) (pl_waiters pl)\<rparr>))"

definition drop_waiter :: "string \<Rightarrow> plane \<Rightarrow> plane" where
  "drop_waiter i pl = pl\<lparr>pl_waiters := filter (\<lambda>(j, v). j \<noteq> i) (pl_waiters pl)\<rparr>"

definition wait_answered :: "string \<Rightarrow> nat \<Rightarrow> plane \<Rightarrow> approval_decision option \<times> plane" where
  "wait_answered i w pl = (case map_of (pl_answers pl) w of
     None \<Rightarrow> (None, pl) | Some d \<Rightarrow> (Some d, drop_waiter i pl))"

definition wait_timed_out :: "string \<Rightarrow> time \<Rightarrow> plane \<Rightarrow> approval_decision \<times> plane" where
  "wait_timed_out i timeout pl =
     (\<lparr>dc_request_id = i, dc_approved = False, dc_decided_by = ''timeout'', dc_identity = None,
       dc_decided_at = pl_now pl, dc_note = Some (''no answer within '' @ str_whole_seconds timeout @ ''s''),
       dc_phrase = None\<rparr>, drop_waiter i (expire_approval i pl))"

section \<open>Spending\<close>

text \<open>\<open>consume\<close>: its read of the row with the checks, and the write that follows the await.\<close>

definition consume_read :: "string \<Rightarrow> plane \<Rightarrow> scrappy_error + approval_request" where
  "consume_read i pl =
     (case get_approval i pl of
        None \<Rightarrow> Inl (not_found i)
      | Some q \<Rightarrow>
          if q_state q \<noteq> A_APPROVED then
            Inl (ScrappyError (''Approval '' @ i @ '' is '' @ approval_value (q_state q) @ '', not approved''))
          else if request_is_expired (pl_now pl) q then
            Inl (ApprovalExpired (''Approval '' @ i @ '' expired before it was used''))
          else Inr (q\<lparr>q_state := A_CONSUMED\<rparr>))"

definition consume_write :: "string \<Rightarrow> scrappy_error + approval_request \<Rightarrow> plane \<Rightarrow> plane" where
  "consume_write i r pl = (case r of
     Inr q \<Rightarrow> set_state i A_CONSUMED pl
   | Inl (ApprovalExpired m) \<Rightarrow> set_state i A_EXPIRED pl
   | Inl e \<Rightarrow> pl)"

definition consume_approval :: "string \<Rightarrow> plane \<Rightarrow> (scrappy_error + approval_request) \<times> plane" where
  "consume_approval i pl = (consume_read i pl, consume_write i (consume_read i pl) pl)"

section \<open>Queries\<close>

definition pending_approvals :: "string option \<Rightarrow> plane \<Rightarrow> approval_request list" where
  "pending_approvals task_id pl = map row_to_request (sort_key ar_requested_at
     (filter (\<lambda>r. ar_state r = A_PENDING \<and>
        (case task_id of None \<Rightarrow> True | Some t \<Rightarrow> t = [] \<or> ar_task_id r = t)) (pl_approvals pl)))"

section \<open>Lemmas\<close>

lemma get_approval_Some: "get_approval i pl = Some q \<longleftrightarrow> (\<exists>r. tbl_get ar_id i (pl_approvals pl) = Some r \<and> q = row_to_request r)"
  by (auto simp: get_approval_def)

lemma request_of_row [simp]:
  "q_id (row_to_request r) = ar_id r" "q_state (row_to_request r) = ar_state r"
  "q_risk (row_to_request r) = ar_risk r" "q_task_id (row_to_request r) = ar_task_id r"
  "q_expires_at (row_to_request r) = ar_expires_at r"
  "q_requires_phrase (row_to_request r) = (ar_risk r = DESTRUCTIVE)"
  "q_phrase (row_to_request r) = (if ar_risk r = DESTRUCTIVE then Some CONFIRMATION_PHRASE else None)"
  by (simp_all add: row_to_request_def)

lemma request_to_row_simps [simp]:
  "ar_id (request_to_row q) = q_id q" "ar_state (request_to_row q) = q_state q"
  "ar_risk (request_to_row q) = q_risk q" "ar_expires_at (request_to_row q) = q_expires_at q"
  by (simp_all add: request_to_row_def)

lemma answer_waiter_frame [simp]:
  "pl_now (answer_waiter i d pl) = pl_now pl" "pl_fresh (answer_waiter i d pl) = pl_fresh pl"
  "pl_sha256 (answer_waiter i d pl) = pl_sha256 pl" "pl_published (answer_waiter i d pl) = pl_published pl"
  "pl_audit (answer_waiter i d pl) = pl_audit pl" "pl_calls (answer_waiter i d pl) = pl_calls pl"
  "pl_approvals (answer_waiter i d pl) = pl_approvals pl"
  "pl_observations (answer_waiter i d pl) = pl_observations pl"
  by (simp_all add: answer_waiter_def split: option.splits)

lemma approvals_frame [simp]:
  "pl_audit (persist q pl) = pl_audit pl" "pl_audit (set_state i st pl) = pl_audit pl"
  "pl_audit (update_state i st d b pl) = pl_audit pl"
  "pl_published (persist q pl) = pl_published pl" "pl_published (set_state i st pl) = pl_published pl"
  "pl_published (update_state i st d b pl) = pl_published pl"
  "pl_fresh (persist q pl) = pl_fresh pl" "pl_fresh (set_state i st pl) = pl_fresh pl"
  "pl_fresh (update_state i st d b pl) = pl_fresh pl"
  "pl_now (persist q pl) = pl_now pl" "pl_now (set_state i st pl) = pl_now pl"
  "pl_now (update_state i st d b pl) = pl_now pl"
  "pl_calls (persist q pl) = pl_calls pl" "pl_calls (set_state i st pl) = pl_calls pl"
  "pl_calls (update_state i st d b pl) = pl_calls pl"
  "pl_sha256 (persist q pl) = pl_sha256 pl" "pl_sha256 (set_state i st pl) = pl_sha256 pl"
  "pl_sha256 (update_state i st d b pl) = pl_sha256 pl"
  by (simp_all add: persist_def set_state_def update_state_def)

text \<open>What each operation does to the table.\<close>

lemma resolve_cases:
  obtains (missing) "tbl_get ar_id (dc_request_id d) (pl_approvals pl) = None"
      "resolve_approval d pl = (Inl (not_found (dc_request_id d)), pl)"
  | (rejected) r e where "tbl_get ar_id (dc_request_id d) (pl_approvals pl) = Some r"
      "resolve_approval d pl = (Inl e, pl)"
      "ar_state r \<noteq> A_PENDING \<or> dc_approved d \<and> ar_risk r = DESTRUCTIVE \<and> dc_phrase d \<noteq> Some CONFIRMATION_PHRASE"
  | (late) r m where "tbl_get ar_id (dc_request_id d) (pl_approvals pl) = Some r" "ar_state r = A_PENDING"
      "request_is_expired (pl_now pl) (row_to_request r)"
      "resolve_approval d pl = (Inl (ApprovalExpired m), update_state (dc_request_id d) A_EXPIRED d True pl)"
  | (decided) r q pl' where "tbl_get ar_id (dc_request_id d) (pl_approvals pl) = Some r"
      "ar_state r = A_PENDING" "\<not> request_is_expired (pl_now pl) (row_to_request r)"
      "\<not> (dc_approved d \<and> ar_risk r = DESTRUCTIVE \<and> dc_phrase d \<noteq> Some CONFIRMATION_PHRASE)"
      "resolve_approval d pl = (Inr q, pl')" "q_id q = dc_request_id d"
      "q_state q = (if dc_approved d then A_APPROVED else A_DENIED)"
      "pl_approvals pl' = pl_approvals (update_state (dc_request_id d) (q_state q) d False pl)"
      "pl_now pl' = pl_now pl" "pl_fresh pl' = pl_fresh pl + 2"
proof (cases "tbl_get ar_id (dc_request_id d) (pl_approvals pl)")
  case None
  then show thesis by (intro missing) (simp_all add: resolve_approval_def get_approval_def)
next
  case (Some r)
  have id: "ar_id r = dc_request_id d" using Some by (rule tbl_get_key)
  consider "ar_state r \<noteq> A_PENDING" | "ar_state r = A_PENDING" "request_is_expired (pl_now pl) (row_to_request r)"
    | "ar_state r = A_PENDING" "\<not> request_is_expired (pl_now pl) (row_to_request r)"
      "dc_approved d \<and> ar_risk r = DESTRUCTIVE \<and> dc_phrase d \<noteq> Some CONFIRMATION_PHRASE"
    | "ar_state r = A_PENDING" "\<not> request_is_expired (pl_now pl) (row_to_request r)"
      "\<not> (dc_approved d \<and> ar_risk r = DESTRUCTIVE \<and> dc_phrase d \<noteq> Some CONFIRMATION_PHRASE)" by blast
  then show thesis
  proof cases
    case 1
    then show thesis using Some id by (intro rejected [OF Some]) (simp_all add: resolve_approval_def get_approval_def)
  next
    case 2
    then show thesis using Some id by (intro late [OF Some 2]) (simp add: resolve_approval_def get_approval_def)
  next
    case 3
    then show thesis using Some id by (intro rejected [OF Some]) (simp_all add: resolve_approval_def get_approval_def)
  next
    case 4
    define q where "q = (row_to_request r)\<lparr>q_state := (if dc_approved d then A_APPROVED else A_DENIED)\<rparr>"
    define pl' where "pl' = snd (resolve_approval d pl)"
    have "resolve_approval d pl = (Inr q, pl')"
      using Some id 4 by (auto simp: pl'_def q_def resolve_approval_def get_approval_def Let_def)
    moreover have "pl_approvals pl' = pl_approvals (update_state (dc_request_id d) (q_state q) d False pl)"
      "pl_now pl' = pl_now pl" "pl_fresh pl' = pl_fresh pl + 2"
      using Some id 4 by (auto simp: pl'_def q_def resolve_approval_def get_approval_def Let_def)
    moreover have "q_id q = dc_request_id d" "q_state q = (if dc_approved d then A_APPROVED else A_DENIED)"
      by (simp_all add: q_def id)
    ultimately show thesis by (intro decided [OF Some 4])
  qed
qed

lemma consume_read_Inr: "consume_read i pl = Inr q \<longleftrightarrow>
    (\<exists>r. tbl_get ar_id i (pl_approvals pl) = Some r \<and> ar_state r = A_APPROVED
      \<and> \<not> request_is_expired (pl_now pl) (row_to_request r) \<and> q = (row_to_request r)\<lparr>q_state := A_CONSUMED\<rparr>)"
  by (auto simp: consume_read_def get_approval_def split: option.splits)

lemma request_approval_effect:
  assumes "request_approval s call risk reason phrase pl = (q, pl')"
  shows "q_id q = str_nat (pl_fresh pl)" "q_state q = A_PENDING" "q_risk q = risk"
    "q_expires_at q = Some (pl_now pl + approval_ttl s)"
    "pl_approvals pl' = pl_approvals (persist q pl)" "pl_now pl' = pl_now pl" "pl_fresh pl' = pl_fresh pl + 3"
proof -
  from assms have q: "q = fst (request_approval s call risk reason phrase pl)"
    and p: "pl' = snd (request_approval s call risk reason phrase pl)" by simp_all
  show "q_id q = str_nat (pl_fresh pl)" "q_state q = A_PENDING" "q_risk q = risk"
    "q_expires_at q = Some (pl_now pl + approval_ttl s)"
    "pl_approvals pl' = pl_approvals (persist q pl)" "pl_now pl' = pl_now pl" "pl_fresh pl' = pl_fresh pl + 3"
    unfolding q p by (simp_all add: request_approval_def Let_def new_id_def) (simp add: persist_def)
qed

section \<open>Runs of the approval manager\<close>

text \<open>
  One step of any client: an operation of the manager, or anything that leaves the approvals table
  alone (time passing, other subsystems). The label says whether an approval was granted or spent.
\<close>

datatype approval_label = Granted string | Spent string | Quiet

inductive approval_step :: "settings \<Rightarrow> plane \<Rightarrow> approval_label \<Rightarrow> plane \<Rightarrow> bool" for s where
  step_request: "request_approval s call risk reason phrase pl = (q, pl') \<Longrightarrow> approval_step s pl Quiet pl'"
| step_grant: "resolve_approval d pl = (Inr q, pl') \<Longrightarrow> dc_approved d \<Longrightarrow>
    approval_step s pl (Granted (dc_request_id d)) pl'"
| step_refuse: "resolve_approval d pl = (Inr q, pl') \<Longrightarrow> \<not> dc_approved d \<Longrightarrow> approval_step s pl Quiet pl'"
| step_resolve_error: "resolve_approval d pl = (Inl e, pl') \<Longrightarrow> approval_step s pl Quiet pl'"
| step_spend: "consume_approval i pl = (Inr q, pl') \<Longrightarrow> approval_step s pl (Spent i) pl'"
| step_spend_error: "consume_approval i pl = (Inl e, pl') \<Longrightarrow> approval_step s pl Quiet pl'"
| step_expire: "approval_step s pl Quiet (expire_approval i pl)"
| step_wait: "wait_begin i pl = (r, pl') \<Longrightarrow> approval_step s pl Quiet pl'"
| step_wait_end: "wait_answered i w pl = (r, pl') \<Longrightarrow> approval_step s pl Quiet pl'"
| step_wait_timeout: "wait_timed_out i timeout pl = (d, pl') \<Longrightarrow> approval_step s pl Quiet pl'"
| step_other: "pl_approvals pl' = pl_approvals pl \<Longrightarrow> pl_fresh pl \<le> pl_fresh pl' \<Longrightarrow> approval_step s pl Quiet pl'"

inductive approval_run :: "settings \<Rightarrow> plane \<Rightarrow> approval_label list \<Rightarrow> plane \<Rightarrow> bool" for s where
  run_start: "approval_run s pl [] pl"
| run_step: "approval_run s pl tr pl1 \<Longrightarrow> approval_step s pl1 l pl2 \<Longrightarrow> approval_run s pl (tr @ [l]) pl2"

inductive_cases approval_stepE: "approval_step s pl l pl'"
inductive_simps approval_run_nil: "approval_run s pl [] pl'"

text \<open>What the state of a row says about the past.\<close>

definition row_history :: "approval_label list \<Rightarrow> approval_row \<Rightarrow> bool" where
  "row_history tr r =
     (let g = count_list tr (Granted (ar_id r)); n = count_list tr (Spent (ar_id r)) in
      case ar_state r of
        A_PENDING \<Rightarrow> g = 0 \<and> n = 0
      | A_APPROVED \<Rightarrow> g = 1 \<and> n = 0
      | A_CONSUMED \<Rightarrow> g = 1 \<and> n = 1
      | A_DENIED \<Rightarrow> g = 0 \<and> n = 0
      | A_EXPIRED \<Rightarrow> g \<le> 1 \<and> n = 0)"

definition approvals_inv :: "approval_label list \<Rightarrow> plane \<Rightarrow> bool" where
  "approvals_inv tr pl \<longleftrightarrow> tbl_wf ar_id (pl_approvals pl) \<and> ids_below (pl_fresh pl) (map ar_id (pl_approvals pl))
     \<and> (\<forall>r\<in>set (pl_approvals pl). row_history tr r)
     \<and> (\<forall>i. tbl_get ar_id i (pl_approvals pl) = None \<longrightarrow>
          count_list tr (Granted i) = 0 \<and> count_list tr (Spent i) = 0)"

lemma count_list_snoc [simp]: "count_list (xs @ [y]) x = count_list xs x + (if x = y then 1 else 0)"
  by (simp add: count_list_append)

lemma row_history_quiet [simp]: "row_history (tr @ [Quiet]) r = row_history tr r"
  by (simp add: row_history_def)

lemma approvals_inv_frame:
  "approvals_inv tr pl \<Longrightarrow> pl_approvals pl' = pl_approvals pl \<Longrightarrow> pl_fresh pl \<le> pl_fresh pl' \<Longrightarrow>
    approvals_inv (tr @ [Quiet]) pl'"
  by (auto simp: approvals_inv_def intro: ids_below_mono)

text \<open>An update of one row, with a label about that row or none.\<close>

lemma approvals_inv_update:
  assumes inv: "approvals_inv tr pl"
    and tab: "pl_approvals pl' = tbl_update ar_id i f (pl_approvals pl)" "pl_fresh pl \<le> pl_fresh pl'"
    and f: "\<And>r. ar_id (f r) = ar_id r"
    and row: "\<And>r. tbl_get ar_id i (pl_approvals pl) = Some r \<Longrightarrow> row_history tr r \<Longrightarrow> row_history (tr @ [l]) (f r)"
    and l: "l = Quiet \<or> (l = Granted i \<or> l = Spent i) \<and> tbl_get ar_id i (pl_approvals pl) \<noteq> None"
  shows "approvals_inv (tr @ [l]) pl'"
proof -
  have wf: "tbl_wf ar_id (pl_approvals pl)" and hist: "\<forall>r\<in>set (pl_approvals pl). row_history tr r"
    using inv by (auto simp: approvals_inv_def)
  have "row_history (tr @ [l]) r'" if "r' \<in> set (pl_approvals pl')" for r'
  proof -
    from that obtain r where r: "r \<in> set (pl_approvals pl)" "r' = (if ar_id r = i then f r else r)"
      by (auto simp: tab tbl_update_def)
    show ?thesis
    proof (cases "ar_id r = i")
      case True
      with wf r(1) have "tbl_get ar_id i (pl_approvals pl) = Some r" by (auto dest: tbl_get_wf)
      with True r hist row show ?thesis by simp
    next
      case False
      with l have "row_history (tr @ [l]) r = row_history tr r" by (auto simp: row_history_def)
      with False r hist show ?thesis by simp
    qed
  qed
  moreover have "map ar_id (pl_approvals pl') = map ar_id (pl_approvals pl)"
    by (simp add: tab map_key_update f)
  ultimately show ?thesis
    using inv l tab(2) by (auto simp: approvals_inv_def tab(1) tbl_get_update f tbl_wf_update intro: ids_below_mono)
qed

lemma row_state_update:
  "row_history tr r \<Longrightarrow> ar_state r = A_PENDING \<Longrightarrow> row_history (tr @ [Granted (ar_id r)]) (r\<lparr>ar_state := A_APPROVED\<rparr>)"
  "row_history tr r \<Longrightarrow> ar_state r = A_APPROVED \<Longrightarrow> row_history (tr @ [Spent (ar_id r)]) (r\<lparr>ar_state := A_CONSUMED\<rparr>)"
  "row_history tr r \<Longrightarrow> ar_state r \<in> {A_PENDING, A_APPROVED} \<Longrightarrow> row_history (tr @ [Quiet]) (r\<lparr>ar_state := A_EXPIRED\<rparr>)"
  "row_history tr r \<Longrightarrow> ar_state r = A_PENDING \<Longrightarrow> row_history (tr @ [Quiet]) (r\<lparr>ar_state := A_DENIED\<rparr>)"
  by (auto simp: row_history_def Let_def)

lemma row_history_other_fields [simp]:
  "row_history tr (r\<lparr>ar_decided_by := a, ar_decided_at := b, ar_note := c\<rparr>) = row_history tr r"
  "row_history tr (r\<lparr>ar_state := s, ar_decided_by := a, ar_decided_at := b, ar_note := c\<rparr>) = row_history tr (r\<lparr>ar_state := s\<rparr>)"
  by (simp_all add: row_history_def)

lemma approvals_inv_request:
  assumes inv: "approvals_inv tr pl" and req: "request_approval s call risk reason phrase pl = (q, pl')"
  shows "approvals_inv (tr @ [Quiet]) pl'"
proof -
  note eff = request_approval_effect [OF req]
  have "q_id q \<notin> set (map ar_id (pl_approvals pl))"
    using inv fresh_not_in [of "pl_fresh pl" "map ar_id (pl_approvals pl)"] by (simp add: eff approvals_inv_def)
  then have none: "tbl_get ar_id (q_id q) (pl_approvals pl) = None" by (simp add: tbl_get_None)
  then have tab: "pl_approvals pl' = pl_approvals pl @ [request_to_row q]"
    by (simp add: eff(5) persist_def tbl_insert_def)
  have new: "row_history tr (request_to_row q)"
    using inv none by (auto simp: row_history_def approvals_inv_def eff(2))
  have below: "ids_below (pl_fresh pl + 3) (map ar_id (pl_approvals pl))"
    using inv by (auto simp: approvals_inv_def intro: ids_below_mono)
  have "tbl_wf ar_id (pl_approvals pl')"
    using inv \<open>q_id q \<notin> set (map ar_id (pl_approvals pl))\<close> by (simp add: tab approvals_inv_def tbl_wf_def)
  then show ?thesis
    using inv new below
    by (auto simp: approvals_inv_def tab eff(1,7) tbl_get_append split: option.splits if_splits)
qed

lemma approvals_inv_resolve:
  assumes inv: "approvals_inv tr pl" and res: "resolve_approval d pl = (out, pl')"
  shows "approvals_inv (tr @ [case out of Inr q \<Rightarrow> if dc_approved d then Granted (dc_request_id d) else Quiet | Inl e \<Rightarrow> Quiet]) pl'"
proof (cases rule: resolve_cases [of d pl])
  case missing
  with inv res show ?thesis by (auto intro: approvals_inv_frame)
next
  case (rejected r e)
  with inv res show ?thesis by (auto intro: approvals_inv_frame)
next
  case (late r m)
  show ?thesis
    by (rule approvals_inv_update [OF inv, of _ "dc_request_id d"
          "\<lambda>r. r\<lparr>ar_state := A_EXPIRED, ar_decided_by := Some (dc_decided_by d), ar_decided_at := Some (dc_decided_at d),
            ar_note := Some ''expired before decision''\<rparr>"])
      (use late res row_state_update(3) in \<open>auto simp: update_state_def\<close>)
next
  case (decided r q pl2)
  have id: "ar_id r = dc_request_id d" using decided(1) by (rule tbl_get_key)
  have out: "out = Inr q" "pl' = pl2" using decided(5) res by auto
  show ?thesis
    by (rule approvals_inv_update [OF inv, of _ "dc_request_id d"
          "\<lambda>r. r\<lparr>ar_state := q_state q, ar_decided_by := Some (dc_decided_by d), ar_decided_at := Some (dc_decided_at d),
            ar_note := dc_note d\<rparr>"])
      (use decided(1,2,7,8,10) id row_state_update(1,4) [of tr r] in \<open>auto simp: update_state_def out\<close>)
qed

lemma approvals_inv_consume:
  assumes inv: "approvals_inv tr pl" and con: "consume_approval i pl = (out, pl')"
  shows "approvals_inv (tr @ [case out of Inr q \<Rightarrow> Spent i | Inl e \<Rightarrow> Quiet]) pl'"
proof (cases out)
  case (Inr q)
  then obtain r where r: "tbl_get ar_id i (pl_approvals pl) = Some r" "ar_state r = A_APPROVED"
    using con by (auto simp: consume_approval_def consume_read_Inr)
  have "pl' = set_state i A_CONSUMED pl" using con Inr by (auto simp: consume_approval_def consume_write_def)
  then show ?thesis using r row_state_update(2) [of tr r] tbl_get_key [OF r(1)]
    by (intro approvals_inv_update [OF inv, of _ i "\<lambda>r. r\<lparr>ar_state := A_CONSUMED\<rparr>"]) (auto simp: set_state_def Inr)
next
  case (Inl e)
  show ?thesis
  proof (cases "\<exists>m. e = ApprovalExpired m")
    case True
    then have "pl' = set_state i A_EXPIRED pl" using con Inl by (auto simp: consume_approval_def consume_write_def)
    moreover have "ar_state r = A_APPROVED" if "tbl_get ar_id i (pl_approvals pl) = Some r" for r
      using con Inl True that
      by (auto simp: consume_approval_def consume_read_def get_approval_def not_found_def split: if_splits)
    ultimately show ?thesis using row_state_update(3)
      by (intro approvals_inv_update [OF inv, of _ i "\<lambda>r. r\<lparr>ar_state := A_EXPIRED\<rparr>"]) (auto simp: set_state_def Inl)
  next
    case False
    then have "pl' = pl" using con Inl by (auto simp: consume_approval_def consume_write_def split: scrappy_error.splits)
    with inv Inl show ?thesis by (auto intro: approvals_inv_frame)
  qed
qed

lemma approvals_inv_expire:
  "approvals_inv tr pl \<Longrightarrow> approvals_inv (tr @ [Quiet]) (expire_approval i pl)"
  by (rule approvals_inv_update [where i = i and f = "\<lambda>r. if ar_state r = A_PENDING then r\<lparr>ar_state := A_EXPIRED\<rparr> else r"])
    (auto simp: expire_approval_def intro: row_state_update(3) [simplified])

lemma approval_step_inv: "approval_step s pl l pl' \<Longrightarrow> approvals_inv tr pl \<Longrightarrow> approvals_inv (tr @ [l]) pl'"
proof (induction rule: approval_step.induct)
  case (step_request call risk reason phrase pl q pl')
  then show ?case by (blast intro: approvals_inv_request)
next
  case (step_grant d pl q pl')
  then show ?case using approvals_inv_resolve [of tr pl d "Inr q" pl'] by simp
next
  case (step_refuse d pl q pl')
  then show ?case using approvals_inv_resolve [of tr pl d "Inr q" pl'] by simp
next
  case (step_resolve_error d pl e pl')
  then show ?case using approvals_inv_resolve [of tr pl d "Inl e" pl'] by simp
next
  case (step_spend i pl q pl')
  then show ?case using approvals_inv_consume [of tr pl i "Inr q" pl'] by simp
next
  case (step_spend_error i pl e pl')
  then show ?case using approvals_inv_consume [of tr pl i "Inl e" pl'] by simp
next
  case (step_expire pl i)
  then show ?case by (rule approvals_inv_expire)
next
  case (step_wait i pl r pl')
  then show ?case
    by (intro approvals_inv_frame [of tr pl]) (auto simp: wait_begin_def split: option.splits if_splits)
next
  case (step_wait_end i w pl r pl')
  then show ?case
    by (intro approvals_inv_frame [of tr pl]) (auto simp: wait_answered_def drop_waiter_def split: option.splits)
next
  case (step_wait_timeout i timeout pl d pl')
  have "approvals_inv (tr @ [Quiet]) (expire_approval i pl)" using step_wait_timeout(2) by (rule approvals_inv_expire)
  then show ?case using step_wait_timeout(1) by (auto simp: wait_timed_out_def drop_waiter_def approvals_inv_def)
next
  case (step_other pl' pl)
  then show ?case by (blast intro: approvals_inv_frame)
qed

lemma approval_run_inv: "approval_run s pl tr pl' \<Longrightarrow> approvals_inv [] pl \<Longrightarrow> approvals_inv tr pl'"
  by (induction rule: approval_run.induct) (auto intro: approval_step_inv)

text \<open>Composing runs; what leaves the table alone is one quiet step.\<close>

lemma approval_run_trans: "approval_run s b tr2 c \<Longrightarrow> approval_run s a tr1 b \<Longrightarrow> approval_run s a (tr1 @ tr2) c"
  by (induction rule: approval_run.induct) (auto intro: run_step simp flip: append_assoc)

lemma approval_run_one: "approval_step s a l b \<Longrightarrow> approval_run s a [l] b"
  using run_step [OF run_start] by fastforce

definition quiet :: "plane \<Rightarrow> plane \<Rightarrow> bool" where
  "quiet pl pl' \<longleftrightarrow> pl_approvals pl' = pl_approvals pl \<and> pl_fresh pl \<le> pl_fresh pl'"

lemma quiet_refl [simp]: "quiet pl pl"
  by (simp add: quiet_def)

lemma quiet_trans: "quiet a b \<Longrightarrow> quiet b c \<Longrightarrow> quiet a c"
  by (simp add: quiet_def)

lemma quiet_steps [simp]:
  "quiet pl (plane_emit ty t c a p pl)" "quiet pl (record_call call pl)" "quiet pl (record_result r pl)"
  "quiet pl (tick d pl)"
  by (simp_all add: quiet_def tick_def)

lemma approval_run_quiet: "quiet a b \<Longrightarrow> approval_run s a [Quiet] b"
  by (rule approval_run_one) (simp add: quiet_def step_other)

section \<open>Two clients spending one approval\<close>

text \<open>
  \<open>consume\<close> awaits the database between reading the row and writing it, so another task of the
  event loop can run there. Each client is at its start, between the two statements, or done.
\<close>

datatype client = Idle | Mid "scrappy_error + approval_request" | Done "scrappy_error + approval_request"

definition client_step :: "string \<Rightarrow> client \<times> plane \<Rightarrow> client \<times> plane" where
  "client_step i p = (case p of
     (Idle, pl) \<Rightarrow> (Mid (consume_read i pl), pl)
   | (Mid r, pl) \<Rightarrow> (Done r, consume_write i r pl)
   | (Done r, pl) \<Rightarrow> (Done r, pl))"

fun run_schedule :: "string \<Rightarrow> bool list \<Rightarrow> client \<times> client \<times> plane \<Rightarrow> client \<times> client \<times> plane" where
  "run_schedule i [] s = s"
| "run_schedule i (first # rest) (a, b, pl) =
     (if first then (let (a', pl') = client_step i (a, pl) in run_schedule i rest (a', b, pl'))
      else (let (b', pl') = client_step i (b, pl) in run_schedule i rest (a, b', pl')))"

fun succeeded_client :: "client \<Rightarrow> bool" where
  "succeeded_client (Done (Inr q)) = True"
| "succeeded_client c = False"

definition both_spend :: "string \<Rightarrow> bool list \<Rightarrow> plane \<Rightarrow> bool" where
  "both_spend i schedule pl = (let (a, b, pl') = run_schedule i schedule (Idle, Idle, pl)
     in succeeded_client a \<and> succeeded_client b)"

text \<open>The manager leaves the ledger alone and only adds to the trail.\<close>

definition manager_frame :: "plane \<Rightarrow> plane \<Rightarrow> bool" where
  "manager_frame pl pl' \<longleftrightarrow> advance pl pl' \<and> pl_calls pl' = pl_calls pl"

lemma manager_frame_refl [simp]: "manager_frame pl pl"
  by (simp add: manager_frame_def)

lemma manager_frame_trans: "manager_frame a b \<Longrightarrow> manager_frame b c \<Longrightarrow> manager_frame a c"
  by (auto simp: manager_frame_def intro: advance_trans)

lemma manager_frame_steps [simp]:
  "manager_frame pl (plane_emit ty t c a p pl)" "manager_frame pl (tick secs pl)"
  "manager_frame pl (persist q pl)" "manager_frame pl (set_state i st pl)"
  "manager_frame pl (update_state i st d b pl)" "manager_frame pl (answer_waiter i d pl)"
  "manager_frame pl (pl\<lparr>pl_fresh := Suc (pl_fresh pl)\<rparr>)"
  by (simp_all add: manager_frame_def advance_same) (simp add: tick_def)

lemma request_manager_frame:
  "request_approval s call risk reason phrase pl = (q, pl') \<Longrightarrow> manager_frame pl pl' \<and> q_call_id q = Some (c_id call)"
  by (auto simp: request_approval_def Let_def split_beta
      intro!: manager_frame_trans [OF manager_frame_trans [OF manager_frame_steps(7) manager_frame_steps(3)] manager_frame_steps(1)])

lemma resolve_manager_frame: "resolve_approval d pl = (r, pl') \<Longrightarrow> manager_frame pl pl'"
  by (auto simp: resolve_approval_def Let_def split: option.splits if_splits
      intro!: manager_frame_trans [OF manager_frame_trans [OF manager_frame_steps(5) manager_frame_steps(1)] manager_frame_steps(6)])

lemma consume_manager_frame: "consume_approval i pl = (r, pl') \<Longrightarrow> manager_frame pl pl'"
  by (auto simp: consume_approval_def consume_write_def split: sum.splits scrappy_error.splits)

section \<open>Properties\<close>

definition example_row :: approval_row where
  "example_row = \<lparr>ar_id = ''a'', ar_task_id = ''t'', ar_call_id = None, ar_tool_name = ''fs.delete'',
     ar_arguments = PDict [], ar_risk = DESTRUCTIVE, ar_reason = [], ar_summary = [], ar_requested_at = 0,
     ar_expires_at = Some 900, ar_state = A_PENDING, ar_decided_by = None, ar_decided_at = None, ar_note = None\<rparr>"

text \<open>
  C26. Single use. In every sequence of operations on the manager, whole operations after one
  another, starting without approvals: an approval is granted at most once, spent at most once,
  and spent only if it was granted. Since every prefix of a run is a run, the grant comes first.
\<close>

theorem approval_single_use:
  assumes "approval_run s pl tr pl'" "pl_approvals pl = []"
  shows "count_list tr (Spent i) \<le> count_list tr (Granted i) \<and> count_list tr (Granted i) \<le> 1"
proof -
  have "approvals_inv [] pl" using assms(2) by (simp add: approvals_inv_def ids_below_def)
  with assms(1) have inv: "approvals_inv tr pl'" by (rule approval_run_inv)
  show ?thesis
  proof (cases "tbl_get ar_id i (pl_approvals pl')")
    case None
    with inv show ?thesis by (simp add: approvals_inv_def)
  next
    case (Some r)
    then have "row_history tr r" "ar_id r = i"
      using inv by (auto simp: approvals_inv_def dest: tbl_get_in tbl_get_key)
    then show ?thesis by (auto simp: row_history_def Let_def split: approval_state.splits)
  qed
qed

definition example_call :: tool_call where
  "example_call = \<lparr>c_id = ''c'', c_task_id = ''t'', c_step_id = None, c_tool_name = ''shell.run'', c_arguments = [],
     c_actor = ''agent:brahma'', c_identity = None, c_requested_at = 0, c_risk_level = READ,
     c_approval_state = None, c_approval_id = None, c_policy_decision = None, c_policy_rule = None\<rparr>"

theorem approval_single_use_witness:
  "\<exists>tr pl. approval_run default_settings example_plane tr pl \<and> Spent ''0'' \<in> set tr
    \<and> count_list tr (Spent ''0'') \<le> count_list tr (Granted ''0'') \<and> count_list tr (Granted ''0'') \<le> 1"
proof -
  let ?d = "(stored_decision ''0'' True 0)"
  have e: "pl_approvals example_plane = []" by (simp add: example_plane_def)
  obtain q pl1 where r1: "request_approval default_settings example_call PRIVILEGED [] False example_plane = (q, pl1)"
    by (cases "request_approval default_settings example_call PRIVILEGED [] False example_plane")
  have zero: "str_nat 0 = ''0''" by code_simp
  note eff = request_approval_effect [OF r1]
  from eff(1) have qid: "q_id q = ''0''" by (simp add: example_plane_def zero)
  have row: "tbl_get ar_id ''0'' (pl_approvals pl1) = Some (request_to_row q)"
    by (simp add: eff(5) persist_def e tbl_insert_def qid)
  have live: "\<not> request_is_expired (pl_now pl) (row_to_request (r\<lparr>ar_state := st, ar_decided_by := x, ar_decided_at := y, ar_note := z\<rparr>))
      \<and> \<not> request_is_expired (pl_now pl) (row_to_request r)"
    if "pl_now pl = 0" "ar_expires_at r = q_expires_at q" for pl r st x y z
    using that eff(4) by (simp add: request_is_expired_def row_to_request_def approval_ttl_def example_plane_def default_settings_def seconds_def)
  have now1: "pl_now pl1 = 0" by (simp add: eff(6) example_plane_def)
  obtain out pl2 where r2: "resolve_approval ?d pl1 = (out, pl2)" by (cases "resolve_approval ?d pl1")
  have d: "dc_request_id ?d = ''0''" "dc_approved ?d" by (simp_all add: stored_decision_def)
  obtain q2 where q2: "out = Inr q2" "pl_approvals pl2 = pl_approvals (update_state ''0'' A_APPROVED ?d False pl1)" "pl_now pl2 = 0"
    by (rule resolve_cases [of ?d pl1]) (use row live [OF now1] eff(2,3) r2 d now1 in auto)
  have "consume_read ''0'' pl2 = Inr ((row_to_request (the (tbl_get ar_id ''0'' (pl_approvals pl2))))\<lparr>q_state := A_CONSUMED\<rparr>)"
    using live [OF q2(3), of "request_to_row q"]
    by (simp add: consume_read_Inr q2(2) update_state_def tbl_get_update row)
  then obtain q3 pl3 where r3: "consume_approval ''0'' pl2 = (Inr q3, pl3)" by (simp add: consume_approval_def)
  have run: "approval_run default_settings example_plane ((([] @ [Quiet]) @ [Granted ''0'']) @ [Spent ''0'']) pl3"
    using step_grant [OF r2 [unfolded q2(1)] d(2), of default_settings] d(1)
    by (intro run_step [OF run_step [OF run_step [OF run_start step_request [OF r1]]] step_spend [OF r3]]) simp
  show ?thesis using approval_single_use [OF run e, of "''0''"] run by (intro exI [of _ "(([] @ [Quiet]) @ [Granted ''0'']) @ [Spent ''0'']"] exI [of _ pl3]) simp
qed

text \<open>
  C27. What a resolution demands. It succeeds only for a pending request before its deadline, and an
  approval of a destructive request only with the exact phrase; then the row carries the decision
  and who made it. A resolution that fails changes the state of no approval, except that a request
  found past its deadline expires.
\<close>

theorem resolve_approval_exact:
  "case resolve_approval d pl of
     (Inr q, pl') \<Rightarrow> (\<exists>r. tbl_get ar_id (dc_request_id d) (pl_approvals pl) = Some r \<and> ar_state r = A_PENDING
       \<and> \<not> request_is_expired (pl_now pl) (row_to_request r)
       \<and> (if dc_approved d \<and> ar_risk r = DESTRUCTIVE then dc_phrase d = Some CONFIRMATION_PHRASE else True)
       \<and> tbl_get ar_id (dc_request_id d) (pl_approvals pl') =
           Some (r\<lparr>ar_state := (if dc_approved d then A_APPROVED else A_DENIED),
             ar_decided_by := Some (dc_decided_by d), ar_decided_at := Some (dc_decided_at d), ar_note := dc_note d\<rparr>))
   | (Inl e, pl') \<Rightarrow> pl' = pl \<or> (\<exists>r. tbl_get ar_id (dc_request_id d) (pl_approvals pl) = Some r \<and> ar_state r = A_PENDING
       \<and> request_is_expired (pl_now pl) (row_to_request r) \<and> pl' = update_state (dc_request_id d) A_EXPIRED d True pl)"
  by (cases rule: resolve_cases [of d pl]) (auto simp: update_state_def tbl_get_update)

text \<open>
  The single use holds for whole \<open>consume\<close> calls, and not for interleaved ones. Two clients that
  both read an approved, unexpired row before either writes it both get the approval; run one after
  the other, only the first does. The docstring's ``single use, enforced here and nowhere else''
  needs the update to test the state it read.
\<close>

theorem consume_race:
  assumes "consume_read i pl = Inr q"
  shows "both_spend i [True, False, True, False] pl \<and> \<not> both_spend i [True, True, False, False] pl"
proof (intro conjI)
  from assms obtain r where r: "tbl_get ar_id i (pl_approvals pl) = Some r"
    by (auto simp: consume_read_Inr)
  show "both_spend i [True, False, True, False] pl"
    by (simp add: both_spend_def client_step_def assms)
  have "consume_read i (set_state i A_CONSUMED pl) \<noteq> Inr q'" for q'
    by (auto simp: consume_read_Inr set_state_def tbl_get_update r)
  then show "\<not> both_spend i [True, True, False, False] pl"
    by (cases "consume_read i (set_state i A_CONSUMED pl)")
      (auto simp: both_spend_def client_step_def assms consume_write_def)
qed

theorem consume_race_witness:
  "let pl = example_plane\<lparr>pl_approvals := [example_row\<lparr>ar_state := A_APPROVED\<rparr>]\<rparr>
   in both_spend ''a'' [True, False, True, False] pl \<and> \<not> both_spend ''a'' [True, True, False, False] pl"
proof -
  have "consume_read ''a'' (example_plane\<lparr>pl_approvals := [example_row\<lparr>ar_state := A_APPROVED\<rparr>]\<rparr>) =
      Inr ((row_to_request (example_row\<lparr>ar_state := A_APPROVED\<rparr>))\<lparr>q_state := A_CONSUMED\<rparr>)"
    by (simp add: consume_read_Inr example_row_def example_plane_def request_is_expired_def)
  from consume_race [OF this] show ?thesis by (simp add: Let_def)
qed

end
