(* ===== verification/Tool_Executor.thy ===== *)
theory Tool_Executor
  imports Tool_Base Sec_Approvals
begin

text \<open>
  \<open>tools/executor.py\<close>: the one place a tool runs. \<open>execute\<close> threads the control plane (ledger,
  approvals, trail) and the machine \<open>'w\<close>; \<open>fs_of\<close> is the machine's file system, which policy and
  classification resolve paths in. The approval prompt is the human's answer to a request and the
  time it took; what other tasks do meanwhile is outside one call. An exception that leaves
  \<open>execute\<close> is \<open>Inl\<close>.
\<close>

record outcome =
  oc_call :: tool_call
  oc_result :: tool_result
  oc_verdict :: policy_verdict
  oc_approval :: "approval_request option"

definition executed :: "outcome \<Rightarrow> bool" where
  "executed oc \<longleftrightarrow> r_success (oc_result oc) \<or> (r_error (oc_result oc) \<noteq> None \<and> 0 < r_duration_ms (oc_result oc))"

definition refused :: "outcome \<Rightarrow> bool" where
  "refused oc \<longleftrightarrow> pv_decision (oc_verdict oc) = DENY
     \<or> c_approval_state (oc_call oc) \<in> {Some A_DENIED, Some A_EXPIRED, Some A_PENDING}"

type_synonym prompt = "approval_request \<Rightarrow> approval_decision \<times> time"

record 'w executor =
  ex_settings :: settings
  ex_registry :: "'w registry"
  ex_engine :: policy_engine
  ex_prompt :: "prompt option"
  ex_fs_of :: "'w \<Rightarrow> fs"

type_synonym 'w answer = "(scrappy_error + outcome) \<times> plane \<times> 'w"

section \<open>Helpers\<close>

definition failure_result :: "tool_call \<Rightarrow> string \<Rightarrow> time \<Rightarrow> time \<Rightarrow> scrappy_error + tool_result" where
  "failure_result call message started_at duration =
     make_tool_result \<lparr>r_call_id = c_id call, r_task_id = c_task_id call, r_tool_name = c_tool_name call,
       r_success = False, r_started_at = started_at, r_duration_ms = duration, r_output = [],
       r_error = Some message, r_truncated = False, r_exit_code = None\<rparr>"

definition call_event :: "tool_call \<Rightarrow> payload" where
  "call_event call = [(''call_id'', PStr (c_id call)), (''tool_name'', PStr (c_tool_name call)),
     (''risk'', PStr (risk_value (c_risk_level call)))]"

definition finish_failure :: "tool_call \<Rightarrow> tool_result \<Rightarrow> string \<Rightarrow> plane \<Rightarrow> plane" where
  "finish_failure call result message pl =
     plane_emit TOOL_FAILED (Some (c_task_id call)) ''executor'' (c_identity call)
       (call_event call @ [(''success'', PBool False), (''error'', PStr message), (''duration_ms'', pms (r_duration_ms result))])
       (record_result result pl)"

text \<open>
  \<open>result = self._failure(...); await self._finish_failure(...); return ExecutionOutcome(...)\<close>: the
  ending of every branch that fails after the call was recorded.
\<close>

definition fail_with ::
  "tool_call \<Rightarrow> policy_verdict \<Rightarrow> approval_request option \<Rightarrow> string \<Rightarrow> time \<Rightarrow> time \<Rightarrow> plane \<Rightarrow>
   (scrappy_error + outcome) \<times> plane" where
  "fail_with call v approval message started_at duration pl =
     (case failure_result call message started_at duration of
        Inl e \<Rightarrow> (Inl e, pl)
      | Inr r \<Rightarrow> (Inr \<lparr>oc_call = call, oc_result = r, oc_verdict = v, oc_approval = approval\<rparr>,
                 finish_failure call r message pl))"

definition refuse :: "tool_call \<Rightarrow> policy_verdict \<Rightarrow> plane \<Rightarrow> (scrappy_error + outcome) \<times> plane" where
  "refuse call0 v pl =
     (let call = call0\<lparr>c_policy_decision := Some DENY, c_policy_rule := Some (pv_rule v), c_risk_level := pv_risk v\<rparr>;
          pl1 = record_call call pl;
          message = ''denied by policy ('' @ pv_rule v @ ''): '' @ pv_reason v in
      case make_tool_result \<lparr>r_call_id = c_id call, r_task_id = c_task_id call, r_tool_name = c_tool_name call,
             r_success = False, r_started_at = pl_now pl1, r_duration_ms = 0, r_output = [],
             r_error = Some message, r_truncated = False, r_exit_code = None\<rparr> of
        Inl e \<Rightarrow> (Inl e, pl1)
      | Inr r \<Rightarrow>
         (Inr \<lparr>oc_call = call, oc_result = r, oc_verdict = v, oc_approval = None\<rparr>,
          plane_emit SECURITY_DENIED (Some (c_task_id call)) ''policy'' (c_identity call)
            [(''tool_name'', PStr (c_tool_name call)), (''risk'', PStr (risk_value (pv_risk v))),
             (''decision'', PStr (decision_value DENY)), (''rule'', PStr (pv_rule v)),
             (''reason'', PStr (pv_reason v)), (''success'', PBool False)]
            (record_result r pl1)))"

section \<open>The approval step\<close>

text \<open>
  Step 5 and the spending of step 6: either the finished outcome of a refusal, or the call and the
  approval to go on with.
\<close>

definition spend_gate ::
  "tool_call \<Rightarrow> policy_verdict \<Rightarrow> approval_request \<Rightarrow> time \<Rightarrow> plane \<Rightarrow>
   ((scrappy_error + outcome) + tool_call \<times> approval_request option) \<times> plane" where
  "spend_gate call v approval started_at pl =
     (case consume_approval (q_id approval) pl of
        (Inl e, pl1) \<Rightarrow>
          (let (r, pl2) = fail_with call v (Some approval) (err_message e) started_at 0 pl1 in (Inl r, pl2))
      | (Inr q, pl1) \<Rightarrow>
          (let call' = call\<lparr>c_approval_state := Some A_CONSUMED\<rparr> in
           (Inr (call', Some approval),
            plane_emit TOOL_APPROVED (Some (c_task_id call)) ''executor'' None
              [(''call_id'', PStr (c_id call)), (''tool_name'', PStr (c_tool_name call)),
               (''approval_id'', PStr (q_id approval)), (''risk'', PStr (risk_value (c_risk_level call)))] pl1)))"

definition approval_gate ::
  "'w executor \<Rightarrow> tool_call \<Rightarrow> policy_verdict \<Rightarrow> risk_level \<Rightarrow> time \<Rightarrow> plane \<Rightarrow>
   ((scrappy_error + outcome) + tool_call \<times> approval_request option) \<times> plane" where
  "approval_gate ex call0 v risk started_at pl =
     (if pv_decision v \<noteq> REQUIRE_APPROVAL then (Inr (call0, None), pl)
      else
        let (approval, pl1) = request_approval (ex_settings ex) call0 risk (pv_reason v) (pv_requires_phrase v) pl;
            call = call0\<lparr>c_approval_id := Some (q_id approval), c_approval_state := Some A_PENDING\<rparr> in
        (case ex_prompt ex of
           None \<Rightarrow>
             (let (r, pl2) = fail_with call v (Some approval)
                (''Approval '' @ q_id approval @ '' is required for '' @ c_tool_name call @ '' ('' @ risk_value risk @
                 '') and no interactive approver is attached. Resolve it with `scrappy approve` or POST /approvals/{id}.'')
                started_at 0 pl1 in (Inl r, pl2))
         | Some ask \<Rightarrow>
             (let (decision, waited) = ask approval; pl2 = tick waited pl1 in
              case resolve_approval decision pl2 of
                (Inl e, pl3) \<Rightarrow>
                  (let (r, pl4) = fail_with (call\<lparr>c_approval_state := Some A_EXPIRED\<rparr>) v (Some approval)
                     (err_message e) started_at 0 pl3 in (Inl r, pl4))
              | (Inr resolved, pl3) \<Rightarrow>
                  if \<not> dc_approved decision then
                    (let call1 = call\<lparr>c_approval_state := Some A_DENIED\<rparr>;
                         note = (case dc_note decision of None \<Rightarrow> [] | Some n \<Rightarrow> n);
                         (r, pl4) = fail_with call1 v (Some resolved)
                           (''Operator declined '' @ c_tool_name call @ '': '' @
                            (if note = [] then ''no reason given'' else note)) started_at 0 pl3
                     in (Inl r, (case r of Inl e \<Rightarrow> pl4 | Inr oc \<Rightarrow>
                        plane_emit SECURITY_DENIED (Some (c_task_id call)) ''approvals'' None
                          [(''tool_name'', PStr (c_tool_name call)), (''risk'', PStr (risk_value risk)),
                           (''decision'', PStr (decision_value DENY)), (''reason'', PStr ''declined by operator'')] pl4)))
                  else spend_gate call v resolved started_at pl3)))"

section \<open>Running\<close>

definition run_budget :: "'w executor \<Rightarrow> time option \<Rightarrow> time" where
  "run_budget ex timeout = (case timeout of None \<Rightarrow> max_task_seconds (ex_settings ex)
     | Some t \<Rightarrow> if t = 0 then max_task_seconds (ex_settings ex) else t)"

text \<open>Step 7. The duration is what the clock shows before and after the tool.\<close>

definition run_tool ::
  "'w executor \<Rightarrow> 'w tool \<Rightarrow> payload \<Rightarrow> tool_context \<Rightarrow> tool_call \<Rightarrow> policy_verdict \<Rightarrow> approval_request option \<Rightarrow>
   time option \<Rightarrow> time \<Rightarrow> plane \<Rightarrow> 'w \<Rightarrow> 'w answer" where
  "run_tool ex tool args ctx call v approval timeout started_at pl w =
     (let pl1 = plane_emit TOOL_STARTED (Some (c_task_id call)) ''executor'' (c_identity call) (call_event call) pl;
          budget = run_budget ex timeout;
          (ended, took, w') = tl_run tool args ctx budget w;
          duration = max 0 took; pl2 = tick duration pl1;
          stop = (\<lambda>message. let (r, pl3) = fail_with call v approval message started_at duration pl2 in (r, pl3, w')) in
      case ended of
        Timed_out \<Rightarrow> stop (c_tool_name call @ '' exceeded its '' @ str_seconds budget @ ''s budget'')
      | Raised_error e \<Rightarrow> stop (err_message e)
      | Crashed text \<Rightarrow> stop text
      | Returned_output output \<Rightarrow>
          (let r = \<lparr>r_call_id = c_id call, r_task_id = c_task_id call, r_tool_name = c_tool_name call,
               r_success = True, r_started_at = started_at, r_duration_ms = duration, r_output = output,
               r_error = None, r_truncated = py_truth (pget ''truncated'' output),
               r_exit_code = (case pget ''exit_code'' output of PInt i \<Rightarrow> Some i | _ \<Rightarrow> None)\<rparr> in
           (Inr \<lparr>oc_call = call, oc_result = r, oc_verdict = v, oc_approval = approval\<rparr>,
            plane_emit TOOL_COMPLETED (Some (c_task_id call)) ''executor'' (c_identity call)
              (call_event call @ [(''success'', PBool True), (''duration_ms'', pms duration)]) (record_result r pl2),
            w')))"

section \<open>One call end to end\<close>

definition call_context :: "'w executor \<Rightarrow> tool_call \<Rightarrow> tool_context" where
  "call_context ex call = \<lparr>x_settings = ex_settings ex, x_task_id = c_task_id call, x_actor = c_actor call,
     x_identity = c_identity call, x_call_id = Some (c_id call)\<rparr>"

definition effective_risk ::
  "'w tool \<Rightarrow> payload \<Rightarrow> tool_context \<Rightarrow> 'w \<Rightarrow> scrappy_error + risk_level \<times> string" where
  "effective_risk tool args ctx w =
     (case tl_classify tool args ctx w of
        Inr (r, reason) \<Rightarrow> Inr (risk_max [r, READ], reason)
      | Inl e \<Rightarrow> if is_scrappy_error e then
            Inr (risk_max [tl_risk tool, READ], ''classification failed: '' @ err_message e)
          else Inl e)"

definition policy_context_of ::
  "'w executor \<Rightarrow> tool_call \<Rightarrow> 'w tool \<Rightarrow> payload \<Rightarrow> risk_level \<Rightarrow> bool \<Rightarrow> policy_context" where
  "policy_context_of ex call tool args max_risk dry_run =
     \<lparr>pc_max_risk = max_risk, pc_dry_run = dry_run, pc_known_tools = tool_names (ex_registry ex),
      pc_disabled_tools = rg_disabled (ex_registry ex),
      pc_paths = map parse_path (tl_affected_paths tool args), pc_actor = c_identity call\<rparr>"

definition record_request :: "tool_call \<Rightarrow> policy_verdict \<Rightarrow> plane \<Rightarrow> plane" where
  "record_request call v pl =
     plane_emit TOOL_REQUESTED (Some (c_task_id call)) ''executor'' (c_identity call)
       (call_event call @ [(''decision'', PStr (decision_value (pv_decision v))), (''rule'', PStr (pv_rule v))])
       (record_call call pl)"

definition execute ::
  "'w executor \<Rightarrow> tool_call \<Rightarrow> risk_level \<Rightarrow> bool \<Rightarrow> time option \<Rightarrow> plane \<Rightarrow> 'w \<Rightarrow> 'w answer" where
  "execute ex call0 max_risk dry_run timeout pl w =
     (let started_at = pl_now pl; ctx = call_context ex call0 in
      case get_tool (c_tool_name call0) (ex_registry ex) of
        Inl e \<Rightarrow>
          (let (r, pl1) = refuse call0 (verdict DENY DESTRUCTIVE ''unknown-tool'' (err_message e)) pl in (r, pl1, w))
      | Inr tool \<Rightarrow>
        (case parse_arguments tool (c_arguments call0) of
           Inl e \<Rightarrow>
             (let call = call0\<lparr>c_risk_level := tl_risk tool\<rparr>;
                  (r, pl1) = fail_with call (verdict DENY (tl_risk tool) ''invalid-arguments'' (err_message e)) None
                    (err_message e) started_at 0 (record_call call pl)
              in (r, pl1, w))
         | Inr args \<Rightarrow>
           (case effective_risk tool args ctx w of
              Inl e \<Rightarrow> (Inl e, pl, w)
            | Inr (risk, reason) \<Rightarrow>
              (let call1 = call0\<lparr>c_risk_level := risk\<rparr> in
               case policy_evaluate (ex_fs_of ex w) (ex_engine ex) call1 risk
                      (policy_context_of ex call1 tool args max_risk dry_run) reason of
                 Inl e \<Rightarrow> (Inl e, pl, w)
               | Inr v \<Rightarrow>
                  (let call = call1\<lparr>c_policy_decision := Some (pv_decision v), c_policy_rule := Some (pv_rule v)\<rparr>;
                       pl1 = record_request call v pl in
                   if pv_decision v = DENY then (let (r, pl2) = refuse call v pl1 in (r, pl2, w))
                   else (case approval_gate ex call v risk started_at pl1 of
                       (Inl r, pl2) \<Rightarrow> (r, pl2, w)
                     | (Inr (call2, approval), pl2) \<Rightarrow>
                         run_tool ex tool args ctx call2 v approval timeout started_at pl2 w))))))"

section \<open>Lemmas\<close>

lemma fail_with_quiet: "fail_with call v ap m st d pl = (r, pl') \<Longrightarrow> quiet pl pl'"
  by (auto simp: fail_with_def finish_failure_def intro: quiet_trans [OF quiet_steps(3) quiet_steps(1)] split: sum.splits)

lemma fail_with_quiet_snd [simp]: "quiet pl (snd (fail_with call v ap m st d pl))"
  by (cases "fail_with call v ap m st d pl") (simp add: fail_with_quiet)

lemma quiet_then_emit: "quiet a b \<Longrightarrow> quiet a (plane_emit ty t c i p b)"
  by (rule quiet_trans [OF _ quiet_steps(1)])

lemma refuse_quiet: "refuse call v pl = (r, pl') \<Longrightarrow> quiet pl pl'"
  by (auto simp: refuse_def Let_def
      intro: quiet_trans [OF quiet_steps(2) quiet_trans [OF quiet_steps(3) quiet_steps(1)]] split: sum.splits)

text \<open>The machine a run leaves is the one its tool left.\<close>

lemma run_tool_world:
  assumes "run_tool ex tool args ctx call v ap timeout st pl w = (r, pl', w')"
  shows "w' = snd (snd (tl_run tool args ctx (run_budget ex timeout) w))"
  using assms by (cases "tl_run tool args ctx (run_budget ex timeout) w")
    (auto simp: run_tool_def Let_def split_beta split: run_end.splits)

lemma run_tool_quiet: "run_tool ex tool args ctx call v ap timeout st pl w = (r, pl', w') \<Longrightarrow> quiet pl pl'"
proof -
  assume r: "run_tool ex tool args ctx call v ap timeout st pl w = (r, pl', w')"
  obtain ended took w2 where run: "tl_run tool args ctx (run_budget ex timeout) w = (ended, took, w2)"
    by (cases "tl_run tool args ctx (run_budget ex timeout) w") auto
  let ?pl2 = "tick (max 0 took) (plane_emit TOOL_STARTED (Some (c_task_id call)) ''executor'' (c_identity call) (call_event call) pl)"
  have q: "quiet pl ?pl2" by (rule quiet_trans [OF quiet_steps(1) quiet_steps(4)])
  have "quiet ?pl2 pl'"
    using r run by (cases ended)
      (auto simp: run_tool_def Let_def split_beta
        intro: fail_with_quiet [OF prod.collapse [symmetric]] quiet_trans [OF quiet_steps(3) quiet_steps(1)])
  with q show ?thesis by (rule quiet_trans)
qed

text \<open>
  What the approval step leaves behind. It lets a call through either because the policy did not
  ask, or by spending the approval the human's decision named.
\<close>

definition answered :: "'w executor \<Rightarrow> tool_call \<Rightarrow> approval_label list \<Rightarrow> bool" where
  "answered ex call tr \<longleftrightarrow> (\<exists>ask q i. ex_prompt ex = Some ask \<and> q_call_id q = Some (c_id call)
     \<and> i = dc_request_id (fst (ask q)) \<and> dc_approved (fst (ask q))
     \<and> (\<exists>tr0 n. tr = tr0 @ [Granted i, Spent i] @ replicate n Quiet))"

lemma answered_quiet: "answered ex call tr \<Longrightarrow> answered ex call (tr0 @ tr @ [Quiet])"
proof -
  assume "answered ex call tr"
  then obtain ask q i tr1 n where *: "ex_prompt ex = Some ask" "q_call_id q = Some (c_id call)"
    "i = dc_request_id (fst (ask q))" "dc_approved (fst (ask q))" "tr = tr1 @ [Granted i, Spent i] @ replicate n Quiet"
    unfolding answered_def by blast
  have "tr0 @ tr @ [Quiet] = (tr0 @ tr1) @ [Granted i, Spent i] @ replicate (Suc n) Quiet"
    by (simp add: *(5) replicate_append_same)
  with *(1-4) show ?thesis unfolding answered_def by blast
qed

lemma spend_gate_run:
  assumes "spend_gate call v ap st pl = (out, pl')"
  shows "(\<exists>r. out = Inl r \<and> (\<exists>tr. approval_run s pl tr pl'))
    \<or> (\<exists>x. out = Inr x \<and> approval_run s pl [Spent (q_id ap), Quiet] pl')"
proof -
  obtain c pl1 where c: "consume_approval (q_id ap) pl = (c, pl1)" by (cases "consume_approval (q_id ap) pl")
  show ?thesis
  proof (cases c)
    case (Inl e)
    obtain r pl2 where f: "fail_with call v (Some ap) (err_message e) st 0 pl1 = (r, pl2)"
      by (cases "fail_with call v (Some ap) (err_message e) st 0 pl1")
    from assms c Inl f have out: "out = Inl r" "pl' = pl2" by (simp_all add: spend_gate_def)
    from approval_run_trans [OF approval_run_quiet [OF fail_with_quiet [OF f]]
        approval_run_one [OF step_spend_error [OF c [unfolded Inl]]]] out
    show ?thesis by auto
  next
    case (Inr q)
    from assms c Inr obtain x where out: "out = Inr x" and q: "quiet pl1 pl'" by (auto simp: spend_gate_def Let_def)
    from approval_run_trans [OF approval_run_quiet [OF q] approval_run_one [OF step_spend [OF c [unfolded Inr]]]] out
    show ?thesis by auto
  qed
qed

lemma approval_gate_run:
  assumes "approval_gate ex call v risk st pl = (out, pl')"
  shows "\<exists>tr. approval_run (ex_settings ex) pl tr pl' \<and>
    (case out of Inl r \<Rightarrow> True | Inr x \<Rightarrow> pv_decision v \<noteq> REQUIRE_APPROVAL \<or> answered ex call tr)"
proof (cases "pv_decision v = REQUIRE_APPROVAL")
  case False
  with assms show ?thesis by (auto simp: approval_gate_def intro: run_start)
next
  case True
  obtain ap pl1 where req: "request_approval (ex_settings ex) call risk (pv_reason v) (pv_requires_phrase v) pl = (ap, pl1)"
    by (cases "request_approval (ex_settings ex) call risk (pv_reason v) (pv_requires_phrase v) pl")
  let ?call = "call\<lparr>c_approval_id := Some (q_id ap), c_approval_state := Some A_PENDING\<rparr>"
  note run1 = approval_run_one [OF step_request [OF req]]
  show ?thesis
  proof (cases "ex_prompt ex")
    case None
    have "quiet pl1 pl'" and out: "isl out"
      using assms True req None by (auto simp: approval_gate_def Let_def split_beta)
    from approval_run_trans [OF approval_run_quiet [OF this(1)] run1] out show ?thesis by (auto split: sum.splits)
  next
    case (Some ask)
    obtain d waited where d: "ask ap = (d, waited)" by (cases "ask ap")
    obtain res pl3 where res: "resolve_approval d (tick waited pl1) = (res, pl3)"
      by (cases "resolve_approval d (tick waited pl1)")
    note run2 = approval_run_trans [OF approval_run_quiet [OF quiet_steps(4)] run1]
    show ?thesis
    proof (cases res)
      case (Inl e)
      have "quiet pl3 pl'" and out: "isl out"
        using assms True req Some d res Inl by (auto simp: approval_gate_def Let_def split_beta)
      from approval_run_trans [OF approval_run_quiet [OF this(1)]
          approval_run_trans [OF approval_run_one [OF step_resolve_error [OF res [unfolded Inl]]] run2]] out
      show ?thesis by (auto split: sum.splits)
    next
      case (Inr q)
      have q: "q_id q = dc_request_id d"
        by (rule resolve_cases [of d "tick waited pl1"]) (use res Inr in auto)
      show ?thesis
      proof (cases "dc_approved d")
        case False
        note run3 = approval_run_trans [OF approval_run_one [OF step_refuse [OF res [unfolded Inr] False]] run2]
        have "quiet pl3 pl'" and out: "isl out"
          using assms True req Some d res Inr False
          by (auto simp: approval_gate_def Let_def split_beta quiet_then_emit split: sum.splits)
        from approval_run_trans [OF approval_run_quiet [OF this(1)] run3] out
        show ?thesis by (auto split: sum.splits)
      next
        case ok: True
        note run3 = approval_run_trans [OF approval_run_one [OF step_grant [OF res [unfolded Inr] ok]] run2]
        have sg: "spend_gate ?call v q st pl3 = (out, pl')"
          using assms True req Some d res Inr ok by (simp add: approval_gate_def Let_def)
        from spend_gate_run [OF sg, of "ex_settings ex"] show ?thesis
        proof (elim disjE exE conjE)
          fix r tr
          assume "out = Inl r" "approval_run (ex_settings ex) pl3 tr pl'"
          with approval_run_trans [OF _ run3] show ?thesis by fastforce
        next
          fix x
          assume x: "out = Inr x" "approval_run (ex_settings ex) pl3 [Spent (q_id q), Quiet] pl'"
          let ?tr = "(([Quiet] @ [Quiet]) @ [Granted (dc_request_id d)]) @ [Spent (q_id q), Quiet]"
          have "approval_run (ex_settings ex) pl ?tr pl'" by (rule approval_run_trans [OF x(2) run3])
          moreover have "answered ex call ?tr"
            unfolding answered_def using Some d ok q request_manager_frame [OF req]
            by (intro exI [of _ ask] exI [of _ ap] exI [of _ "dc_request_id d"])
              (auto intro!: exI [of _ "[Quiet, Quiet]"] exI [of _ "1"])
          ultimately show ?thesis using x(1) by auto
        qed
      qed
    qed
  qed
qed

text \<open>The part of the decision that needs no human, over the call as policy sees it.\<close>

definition cleared ::
  "'w executor \<Rightarrow> tool_call \<Rightarrow> risk_level \<Rightarrow> bool \<Rightarrow> bool \<Rightarrow> 'w \<Rightarrow> 'w \<Rightarrow> bool" where
  "cleared ex call max_risk dry_run escalated w w' \<longleftrightarrow>
     (\<exists>tool args risk reason. get_tool (c_tool_name call) (ex_registry ex) = Inr tool
       \<and> parse_arguments tool (c_arguments call) = Inr args
       \<and> effective_risk tool args (call_context ex call) w = Inr (risk, reason)
       \<and> c_tool_name call \<notin> set (rg_disabled (ex_registry ex)) \<and> risk \<le> max_risk \<and> (dry_run \<longrightarrow> risk = READ)
       \<and> (let inside = paths_inside (ex_fs_of ex w) (ex_engine ex) (map parse_path (tl_affected_paths tool args)) in
          if escalated then risk = WRITE \<and> \<not> inside \<or> PRIVILEGED \<le> risk \<and> allow_approvals (pe_settings (ex_engine ex))
          else risk = READ \<or> risk = WRITE \<and> inside)
       \<and> (\<exists>budget. w' = snd (snd (tl_run tool args (call_context ex call) budget w))))"

text \<open>Policy's verdict on a call that goes on, in those terms.\<close>

lemma cleared_of_verdict:
  assumes "get_tool (c_tool_name call) (ex_registry ex) = Inr tool"
    "parse_arguments tool (c_arguments call) = Inr args"
    "effective_risk tool args (call_context ex call) w = Inr (risk, reason)"
    "policy_evaluate (ex_fs_of ex w) (ex_engine ex) (call\<lparr>c_risk_level := risk\<rparr>) risk
       (policy_context_of ex (call\<lparr>c_risk_level := risk\<rparr>) tool args max_risk dry_run) reason = Inr v"
    "pv_decision v \<noteq> DENY"
  shows "cleared ex call max_risk dry_run (pv_decision v = REQUIRE_APPROVAL) w
      (snd (snd (tl_run tool args (call_context ex call) budget w)))"
  using evaluate_Inr [OF assms(4)] assms(1-3,5) unfolding cleared_def
  by (cases "pv_decision v")
    (auto simp: policy_guards_def policy_context_of_def Let_def)

text \<open>The branches of \<open>execute\<close>.\<close>

definition judged :: "tool_call \<Rightarrow> risk_level \<Rightarrow> policy_verdict \<Rightarrow> tool_call" where
  "judged call risk v = call\<lparr>c_risk_level := risk, c_policy_decision := Some (pv_decision v),
     c_policy_rule := Some (pv_rule v)\<rparr>"

lemma judged_simps [simp]: "c_id (judged call k v) = c_id call" "answered ex (judged call k v) tr = answered ex call tr"
  "c_identity (judged call k v) = c_identity call" "c_risk_level (judged call k v) = k"
  "c_approval_id (judged call k v) = c_approval_id call" "c_approval_state (judged call k v) = c_approval_state call"
  by (simp_all add: judged_def answered_def)

text \<open>The verdict policy gives a call in the state \<open>w\<close> of the machine, and the effective risk it is given for.\<close>

definition judgement :: "'w executor \<Rightarrow> tool_call \<Rightarrow> risk_level \<Rightarrow> bool \<Rightarrow> 'w \<Rightarrow> risk_level \<Rightarrow> policy_verdict \<Rightarrow> bool" where
  "judgement ex call max_risk dry_run w risk v \<longleftrightarrow>
     (\<exists>tool args reason. get_tool (c_tool_name call) (ex_registry ex) = Inr tool
       \<and> parse_arguments tool (c_arguments call) = Inr args
       \<and> effective_risk tool args (call_context ex call) w = Inr (risk, reason)
       \<and> policy_evaluate (ex_fs_of ex w) (ex_engine ex) (call\<lparr>c_risk_level := risk\<rparr>) risk
           (policy_context_of ex (call\<lparr>c_risk_level := risk\<rparr>) tool args max_risk dry_run) reason = Inr v)"

text \<open>
  What an approval in the call is: on the way from \<open>pl\<close> to \<open>pl'\<close>, and with nothing else done to the
  approvals, the approval \<open>q\<close> was requested for this very call under the verdict \<open>v\<close> that escalated it, the prompt
  attached was asked about \<open>q\<close> and its decision \<open>d\<close> was yes, the manager resolved that decision without
  an error, and the approval it resolved was then consumed.
\<close>

definition approved_in ::
  "'w executor \<Rightarrow> tool_call \<Rightarrow> risk_level \<Rightarrow> bool \<Rightarrow> 'w \<Rightarrow> plane \<Rightarrow> plane \<Rightarrow> policy_verdict \<Rightarrow> approval_request \<Rightarrow> approval_decision \<Rightarrow> bool" where
  "approved_in ex call max_risk dry_run w pl pl' v q d \<longleftrightarrow>
     (\<exists>k ask pl0 pl1 waited resolved pl2 spent pl3.
         judgement ex call max_risk dry_run w k v \<and> pv_decision v = REQUIRE_APPROVAL \<and> quiet pl pl0
       \<and> request_approval (ex_settings ex) (judged call k v) k (pv_reason v) (pv_requires_phrase v) pl0 = (q, pl1)
       \<and> ex_prompt ex = Some ask \<and> ask q = (d, waited) \<and> dc_approved d
       \<and> resolve_approval d (tick waited pl1) = (Inr resolved, pl2)
       \<and> consume_approval (q_id resolved) pl2 = (Inr spent, pl3) \<and> quiet pl3 pl')"

lemma approved_in_prompt: "approved_in ex call max_risk dry_run w pl pl' v q d \<Longrightarrow> ex_prompt ex \<noteq> None"
  by (auto simp: approved_in_def)

lemma execute_cases:
  assumes run: "execute ex call max_risk dry_run timeout pl w = (r, pl', w')"
  obtains (unknown) e where "w' = w"
      "refuse call (verdict DENY DESTRUCTIVE ''unknown-tool'' (err_message e)) pl = (r, pl')"
      "get_tool (c_tool_name call) (ex_registry ex) = Inl e"
  | (invalid) k v m where "w' = w" "pv_decision v = DENY"
      "fail_with (call\<lparr>c_risk_level := k\<rparr>) v None m (pl_now pl) 0 (record_call (call\<lparr>c_risk_level := k\<rparr>) pl) = (r, pl')"
      "\<exists>tool e. get_tool (c_tool_name call) (ex_registry ex) = Inr tool \<and> parse_arguments tool (c_arguments call) = Inl e
         \<and> k = tl_risk tool \<and> v = verdict DENY k ''invalid-arguments'' (err_message e)"
  | (escaped) e where "r = Inl e" "pl' = pl" "w' = w"
  | (denied) k v where "w' = w" "pv_decision v = DENY" "refuse (judged call k v) v (record_request (judged call k v) v pl) = (r, pl')"
      "judgement ex call max_risk dry_run w k v"
  | (stopped) k v where "w' = w" "k \<le> max_risk" "dry_run \<longrightarrow> k = READ"
      "approval_gate ex (judged call k v) v k (pl_now pl) (record_request (judged call k v) v pl) = (Inl r, pl')"
      "judgement ex call max_risk dry_run w k v" "pv_decision v \<noteq> DENY"
  | (ran) k v c ap pl2 tool args where "k \<le> max_risk" "dry_run \<longrightarrow> k = READ" "cleared ex call max_risk dry_run (pv_decision v = REQUIRE_APPROVAL) w w'"
      "judgement ex call max_risk dry_run w k v"
      "approval_gate ex (judged call k v) v k (pl_now pl) (record_request (judged call k v) v pl) = (Inr (c, ap), pl2)"
      "run_tool ex tool args (call_context ex call) c v ap timeout (pl_now pl) pl2 w = (r, pl', w')" "pv_decision v \<noteq> DENY"
proof (cases "get_tool (c_tool_name call) (ex_registry ex)")
  case (Inl e)
  with run show thesis by (intro unknown [of e]) (auto simp: execute_def Let_def split: prod.splits)
next
  case tool: (Inr tool)
  show thesis
  proof (cases "parse_arguments tool (c_arguments call)")
    case (Inl e)
    with run tool show thesis
      by (intro invalid [of "verdict DENY (tl_risk tool) ''invalid-arguments'' (err_message e)" "tl_risk tool" "err_message e"])
        (auto simp: execute_def Let_def split: prod.splits)
  next
    case args: (Inr args)
    show thesis
    proof (cases "effective_risk tool args (call_context ex call) w")
      case (Inl e)
      with run tool args show thesis by (intro escaped [of e]) (auto simp: execute_def Let_def)
    next
      case (Inr kr)
      then obtain k reason where risk: "effective_risk tool args (call_context ex call) w = Inr (k, reason)"
        by (cases kr) simp
      let ?c = "call\<lparr>c_risk_level := k\<rparr>"
      show thesis
      proof (cases "policy_evaluate (ex_fs_of ex w) (ex_engine ex) ?c k
          (policy_context_of ex ?c tool args max_risk dry_run) reason")
        case (Inl e)
        with run tool args risk show thesis by (intro escaped [of e]) (auto simp: execute_def Let_def)
      next
        case v: (Inr v)
        let ?pl1 = "record_request (judged call k v) v pl"
        have run': "(if pv_decision v = DENY then (let (r, pl2) = refuse (judged call k v) v ?pl1 in (r, pl2, w))
            else (case approval_gate ex (judged call k v) v k (pl_now pl) ?pl1 of
                (Inl r, pl2) \<Rightarrow> (r, pl2, w)
              | (Inr (call2, approval), pl2) \<Rightarrow>
                  run_tool ex tool args (call_context ex call) call2 v approval timeout (pl_now pl) pl2 w)) = (r, pl', w')"
          using run tool args risk v by (cases "pv_decision v = DENY") (simp_all add: execute_def Let_def judged_def)
        have judgement: "judgement ex call max_risk dry_run w k v" using tool args risk v unfolding judgement_def by blast
        obtain g pl2 where g: "approval_gate ex (judged call k v) v k (pl_now pl) ?pl1 = (g, pl2)"
          by (cases "approval_gate ex (judged call k v) v k (pl_now pl) ?pl1")
        show thesis
        proof (cases "pv_decision v = DENY")
          case True
          with run' judgement show thesis by (intro denied [of v k]) (auto simp: Let_def split_beta)
        next
          case ok: False
          have guards: "k \<le> max_risk" "dry_run \<longrightarrow> k = READ"
            using evaluate_Inr [OF v] ok by (cases "pv_decision v"; simp add: policy_guards_def policy_context_of_def)+
          show thesis
          proof (cases g)
            case (Inl r0)
            with run' g ok guards judgement show thesis by (intro stopped [of k v]) auto
          next
            case (Inr cap)
            then obtain c ap where "g = Inr (c, ap)" by (cases cap) simp
            with run' g ok have ran_tool:
              "run_tool ex tool args (call_context ex call) c v ap timeout (pl_now pl) pl2 w = (r, pl', w')" by simp
            from cleared_of_verdict [OF tool args risk v ok] run_tool_world [OF ran_tool]
            have "cleared ex call max_risk dry_run (pv_decision v = REQUIRE_APPROVAL) w w'" by metis
            then show thesis using judgement ok ran_tool g guards \<open>g = Inr (c, ap)\<close> by (intro ran [of k v c ap pl2 tool args]) auto
          qed
        qed
      qed
    qed
  qed
qed

section \<open>What a call leaves in the ledger and the trail\<close>

definition same_call :: "tool_call \<Rightarrow> tool_call \<Rightarrow> bool" where
  "same_call c c' \<longleftrightarrow> c'\<lparr>c_approval_id := None, c_approval_state := None\<rparr> = c\<lparr>c_approval_id := None, c_approval_state := None\<rparr>"

lemma same_call_simps:
  assumes "same_call c c'"
  shows "c_id c' = c_id c" "c_risk_level c' = c_risk_level c" "c_policy_decision c' = c_policy_decision c"
    "c_identity c' = c_identity c" "c_policy_rule c' = c_policy_rule c" "c_arguments c' = c_arguments c" "c_task_id c' = c_task_id c"
    "c_tool_name c' = c_tool_name c"
  using assms by (cases c; cases c'; simp add: same_call_def)+

lemma same_call_refl [simp]: "same_call c c"
  by (simp add: same_call_def)

lemma same_call_update [simp]:
  "same_call c (c'\<lparr>c_approval_id := i\<rparr>) = same_call c c'" "same_call c (c'\<lparr>c_approval_state := st\<rparr>) = same_call c c'"
  by (simp_all add: same_call_def)

lemma same_call_trans: "same_call a b \<Longrightarrow> same_call b c \<Longrightarrow> same_call a c"
  by (simp add: same_call_def)

definition closing_type :: "bool \<Rightarrow> event_type \<Rightarrow> bool" where
  "closing_type success ty \<longleftrightarrow> (if success then ty = TOOL_COMPLETED else ty \<in> {TOOL_FAILED, SECURITY_DENIED})"

definition closes :: "tool_call \<Rightarrow> policy_verdict \<Rightarrow> plane \<Rightarrow> outcome \<Rightarrow> plane \<Rightarrow> bool" where
  "closes c v pl oc pl' \<longleftrightarrow> same_call c (oc_call oc) \<and> oc_verdict oc = v \<and> r_call_id (oc_result oc) = c_id c
     \<and> pl_calls pl' = pl_calls (record_result (oc_result oc) pl)
     \<and> pl_published pl' \<noteq> [] \<and> closing_type (r_success (oc_result oc)) (e_type (last (pl_published pl')))"

definition ends_well :: "tool_call \<Rightarrow> policy_verdict \<Rightarrow> plane \<Rightarrow> scrappy_error + outcome \<Rightarrow> plane \<Rightarrow> bool" where
  "ends_well c v pl r pl' \<longleftrightarrow> advance pl pl' \<and> (case r of Inl e \<Rightarrow> True | Inr oc \<Rightarrow> closes c v pl oc pl')"

lemma record_result_calls:
  "pl_calls a = pl_calls b \<Longrightarrow> pl_sha256 a = pl_sha256 b \<Longrightarrow> pl_calls (record_result r a) = pl_calls (record_result r b)"
  by (simp add: record_result_def)

lemma ends_well_frame: "manager_frame pl pl1 \<Longrightarrow> ends_well c v pl1 r pl' \<Longrightarrow> ends_well c v pl r pl'"
  using record_result_calls [of pl1 pl]
  by (auto simp: ends_well_def closes_def manager_frame_def intro: advance_trans split: sum.splits)
    (auto simp: advance_def)

lemma ends_well_call: "same_call c c' \<Longrightarrow> ends_well c' v pl r pl' \<Longrightarrow> ends_well c v pl r pl'"
  by (auto simp: ends_well_def closes_def same_call_simps intro: same_call_trans split: sum.splits)

lemma fail_with_ends: "ends_well call v pl (fst (fail_with call v ap m st d pl)) (snd (fail_with call v ap m st d pl))"
proof (cases "failure_result call m st d")
  case (Inr r)
  then have "r_call_id r = c_id call" "\<not> r_success r"
    by (auto simp: failure_result_def make_tool_result_def Let_def split: if_splits)
  with Inr show ?thesis
    by (simp add: fail_with_def ends_well_def closes_def finish_failure_def closing_type_def advance_then
        plane_emit_published emit_event_def)
qed (simp add: fail_with_def ends_well_def)

lemma refuse_ends:
  assumes "refuse call v pl = (r, pl')"
  shows "ends_well (call\<lparr>c_policy_decision := Some DENY, c_policy_rule := Some (pv_rule v), c_risk_level := pv_risk v\<rparr>) v
    (record_call (call\<lparr>c_policy_decision := Some DENY, c_policy_rule := Some (pv_rule v), c_risk_level := pv_risk v\<rparr>) pl) r pl'"
  using assms unfolding refuse_def
  by (auto simp: Let_def ends_well_def closes_def closing_type_def advance_then make_tool_result_def
      plane_emit_published emit_event_def split: sum.splits if_splits)

lemma run_tool_ends:
  assumes "run_tool ex tool args ctx call v ap timeout st pl w = (r, pl', w')"
  shows "ends_well call v pl r pl'"
proof -
  obtain ended took w2 where run: "tl_run tool args ctx (run_budget ex timeout) w = (ended, took, w2)"
    by (cases "tl_run tool args ctx (run_budget ex timeout) w") auto
  let ?pl2 = "tick (max 0 took) (plane_emit TOOL_STARTED (Some (c_task_id call)) ''executor'' (c_identity call) (call_event call) pl)"
  have m: "manager_frame pl ?pl2"
    by (rule manager_frame_trans [OF manager_frame_steps(1) manager_frame_steps(2)])
  have "ends_well call v ?pl2 r pl'"
  proof (cases ended)
    case (Returned_output out)
    with assms run show ?thesis
      by (auto simp: run_tool_def Let_def ends_well_def closes_def closing_type_def advance_then
          plane_emit_published emit_event_def)
  next
    case (Raised_error e)
    with assms run fail_with_ends show ?thesis by (auto simp: run_tool_def Let_def split_beta)
  next
    case (Crashed m)
    with assms run fail_with_ends show ?thesis by (auto simp: run_tool_def Let_def split_beta)
  next
    case Timed_out
    with assms run fail_with_ends show ?thesis by (auto simp: run_tool_def Let_def split_beta)
  qed
  with m show ?thesis by (rule ends_well_frame)
qed

definition gate_ends :: "tool_call \<Rightarrow> policy_verdict \<Rightarrow> plane \<Rightarrow> (scrappy_error + outcome) + tool_call \<times> approval_request option \<Rightarrow> plane \<Rightarrow> bool" where
  "gate_ends call v pl out pl' = (case out of Inl r \<Rightarrow> ends_well call v pl r pl'
     | Inr (c, ap) \<Rightarrow> manager_frame pl pl' \<and> same_call call c)"

lemma gate_ends_after: "manager_frame pl pl1 \<Longrightarrow> same_call c c' \<Longrightarrow> gate_ends c' v pl1 out pl' \<Longrightarrow> gate_ends c v pl out pl'"
  by (auto simp: gate_ends_def intro: ends_well_frame ends_well_call manager_frame_trans same_call_trans
      split: sum.splits prod.splits)

lemma gate_ends_fail: "gate_ends call v pl (Inl (fst (fail_with call v ap m st d pl))) (snd (fail_with call v ap m st d pl))"
  using fail_with_ends [of call v pl] by (simp add: gate_ends_def)

lemma spend_gate_ends: "spend_gate call v ap st pl = (out, pl') \<Longrightarrow> gate_ends call v pl out pl'"
proof -
  assume r: "spend_gate call v ap st pl = (out, pl')"
  obtain c pl1 where c: "consume_approval (q_id ap) pl = (c, pl1)" by (cases "consume_approval (q_id ap) pl")
  have "gate_ends call v pl1 out pl'"
  proof (cases c)
    case (Inl e)
    with r c gate_ends_fail show ?thesis by (auto simp: spend_gate_def Let_def split_beta)
  next
    case (Inr q)
    with r c show ?thesis by (auto simp: spend_gate_def Let_def gate_ends_def)
  qed
  with gate_ends_after [OF consume_manager_frame [OF c] same_call_refl] show ?thesis by blast
qed

lemma denial_ends:
  "ends_well call v pl (Inr oc) pl1 \<Longrightarrow> r_success (oc_result oc) = False \<Longrightarrow>
   ends_well call v pl (Inr oc) (plane_emit SECURITY_DENIED t c i p pl1)"
  by (simp add: ends_well_def closes_def closing_type_def advance_then plane_emit_published emit_event_def)

lemma fail_with_fails: "fail_with c v ap m st d pl = (Inr oc, pl') \<Longrightarrow> \<not> r_success (oc_result oc)"
  by (auto simp: fail_with_def failure_result_def make_tool_result_def Let_def split: sum.splits if_splits)

lemma denied_gate_ends:
  "gate_ends c v pl (Inl (fst (fail_with c v ap m st d pl)))
    (case fst (fail_with c v ap m st d pl) of Inl e \<Rightarrow> snd (fail_with c v ap m st d pl)
     | Inr oc \<Rightarrow> plane_emit SECURITY_DENIED t k i p (snd (fail_with c v ap m st d pl)))"
proof (cases "fail_with c v ap m st d pl")
  case (Pair r pl1)
  have "ends_well c v pl r pl1" using fail_with_ends [of c v pl ap m st d] Pair by simp
  with Pair fail_with_fails [of c v ap m st d pl] show ?thesis
    by (cases r) (auto simp: gate_ends_def intro: denial_ends)
qed

lemma approval_gate_ends:
  assumes "approval_gate ex call v risk st pl = (out, pl')"
  shows "gate_ends call v pl out pl'"
proof (cases "pv_decision v = REQUIRE_APPROVAL")
  case False
  with assms show ?thesis by (auto simp: approval_gate_def gate_ends_def)
next
  case True
  obtain ap pl1 where req: "request_approval (ex_settings ex) call risk (pv_reason v) (pv_requires_phrase v) pl = (ap, pl1)"
    by (cases "request_approval (ex_settings ex) call risk (pv_reason v) (pv_requires_phrase v) pl")
  let ?call = "call\<lparr>c_approval_id := Some (q_id ap), c_approval_state := Some A_PENDING\<rparr>"
  have m1: "manager_frame pl pl1" using request_manager_frame [OF req] by simp
  show ?thesis
  proof (cases "ex_prompt ex")
    case None
    have "gate_ends ?call v pl1 out pl'"
      using assms True req None by (auto simp: approval_gate_def Let_def split_beta intro: gate_ends_fail)
    from gate_ends_after [OF m1 _ this, of call] show ?thesis by simp
  next
    case (Some ask)
    obtain d waited where d: "ask ap = (d, waited)" by (cases "ask ap")
    obtain res pl3 where res: "resolve_approval d (tick waited pl1) = (res, pl3)"
      by (cases "resolve_approval d (tick waited pl1)")
    note m3 = manager_frame_trans [OF manager_frame_trans [OF m1 manager_frame_steps(2)] resolve_manager_frame [OF res]]
    show ?thesis
    proof (cases res)
      case (Inl e)
      have "gate_ends (?call\<lparr>c_approval_state := Some A_EXPIRED\<rparr>) v pl3 out pl'"
        using assms True req Some d res Inl
        by (auto simp: approval_gate_def Let_def split_beta intro: gate_ends_fail)
      from gate_ends_after [OF m3 _ this, of call] show ?thesis by simp
    next
      case (Inr q)
      show ?thesis
      proof (cases "dc_approved d")
        case ok: True
        have "spend_gate ?call v q st pl3 = (out, pl')"
          using assms True req Some d res Inr ok by (simp add: approval_gate_def Let_def)
        from gate_ends_after [OF m3 _ spend_gate_ends [OF this]] show ?thesis by simp
      next
        case False
        let ?c = "?call\<lparr>c_approval_state := Some A_DENIED\<rparr>"
        have "gate_ends ?c v pl3 out pl'"
          using assms True req Some d res Inr False
          by (auto simp: approval_gate_def Let_def split_beta intro: denied_gate_ends)
        from gate_ends_after [OF m3 _ this, of call] show ?thesis by simp
      qed
    qed
  qed
qed

lemma execute_run:
  assumes run: "execute ex call max_risk dry_run timeout pl w = (r, pl', w')"
  shows "\<exists>tr. approval_run (ex_settings ex) pl tr pl' \<and>
       (w' = w \<or> cleared ex call max_risk dry_run False w w'
        \<or> cleared ex call max_risk dry_run True w w' \<and> answered ex call tr)"
proof -
  have q: "\<exists>tr. approval_run (ex_settings ex) pl tr pl'" if "quiet pl pl'"
    using approval_run_quiet [OF that] by blast
  have opened: "quiet pl (record_request c v pl)" for c v
    unfolding record_request_def by (rule quiet_then_emit) simp
  from run show ?thesis
  proof (cases rule: execute_cases)
    case unknown
    with q refuse_quiet show ?thesis by metis
  next
    case invalid
    with q quiet_trans [OF quiet_steps(2) fail_with_quiet] show ?thesis by metis
  next
    case escaped
    with q show ?thesis by simp
  next
    case denied
    with q quiet_trans [OF opened refuse_quiet] show ?thesis by metis
  next
    case stopped
    from approval_gate_run [OF stopped(4)] approval_run_trans [OF _ approval_run_quiet [OF opened]] stopped(1)
    show ?thesis by blast
  next
    case (ran k v c ap pl2 tool args)
    from approval_gate_run [OF ran(5)] obtain tr where tr: "approval_run (ex_settings ex) (record_request (judged call k v) v pl) tr pl2"
      "pv_decision v \<noteq> REQUIRE_APPROVAL \<or> answered ex (judged call k v) tr" by auto
    from approval_run_trans [OF approval_run_quiet [OF run_tool_quiet [OF ran(6)]]
        approval_run_trans [OF tr(1) approval_run_quiet [OF opened]]]
    have "approval_run (ex_settings ex) pl ([Quiet] @ tr @ [Quiet]) pl'" by simp
    moreover have "answered ex call ([Quiet] @ tr @ [Quiet])" if "pv_decision v = REQUIRE_APPROVAL"
      using tr(2) that answered_quiet [of ex call tr "[Quiet]"] by simp
    ultimately show ?thesis using ran(3) by (cases "pv_decision v = REQUIRE_APPROVAL") auto
  qed
qed

text \<open>The approval step lets an escalated call through only by an approval granted and spent in it.\<close>

lemma spend_gate_passes:
  assumes "spend_gate call v ap st pl = (Inr x, pl')"
  obtains spent pl1 where "consume_approval (q_id ap) pl = (Inr spent, pl1)" "quiet pl1 pl'"
  using assms by (auto simp: spend_gate_def Let_def split_beta prod_eq_iff split: sum.splits)

lemma approval_gate_passes:
  assumes "approval_gate ex call v risk st pl = (Inr x, pl')" "pv_decision v = REQUIRE_APPROVAL"
  obtains q pl1 ask d waited resolved pl2 spent pl3 where
    "request_approval (ex_settings ex) call risk (pv_reason v) (pv_requires_phrase v) pl = (q, pl1)"
    "ex_prompt ex = Some ask" "ask q = (d, waited)" "dc_approved d" "resolve_approval d (tick waited pl1) = (Inr resolved, pl2)"
    "consume_approval (q_id resolved) pl2 = (Inr spent, pl3)" "quiet pl3 pl'"
proof -
  obtain q pl1 where req: "request_approval (ex_settings ex) call risk (pv_reason v) (pv_requires_phrase v) pl = (q, pl1)" by fastforce
  let ?call = "call\<lparr>c_approval_id := Some (q_id q), c_approval_state := Some A_PENDING\<rparr>"
  from assms req obtain ask where ask: "ex_prompt ex = Some ask"
    by (cases "ex_prompt ex") (auto simp: approval_gate_def Let_def split_beta)
  obtain d waited where d: "ask q = (d, waited)" by fastforce
  obtain res pl2 where res: "resolve_approval d (tick waited pl1) = (res, pl2)" by fastforce
  from assms req ask d res obtain resolved where r: "res = Inr resolved"
    by (cases res) (auto simp: approval_gate_def Let_def split_beta)
  from assms req ask d res r have ok: "dc_approved d"
    by (cases "dc_approved d") (auto simp: approval_gate_def Let_def split_beta)
  with assms req ask d res r have "spend_gate ?call v resolved st pl2 = (Inr x, pl')"
    by (simp add: approval_gate_def Let_def)
  from spend_gate_passes [OF this] that [OF req ask d ok res [unfolded r]] show thesis by blast
qed

text \<open>
  A call on the control plane and the machine together: the machine is untouched, or the tool ran
  unattended and no approval was touched, or it ran on an approval granted and spent in the call.
\<close>

lemma execute_gated:
  assumes run: "execute ex call max_risk dry_run timeout pl w = (r, pl', w')"
  shows "w' = w \<and> (\<exists>tr. approval_run (ex_settings ex) pl tr pl')
     \<or> cleared ex call max_risk dry_run False w w' \<and> quiet pl pl'
     \<or> cleared ex call max_risk dry_run True w w' \<and> (\<exists>v q d. approved_in ex call max_risk dry_run w pl pl' v q d)"
proof (cases "w' = w")
  case True
  with execute_run [OF run] show ?thesis by blast
next
  case False
  from run show ?thesis
  proof (cases rule: execute_cases)
    case (ran k v c ap pl2 tool args)
    have opened: "quiet pl (record_request (judged call k v) v pl)"
      unfolding record_request_def by (rule quiet_then_emit) simp
    note last = run_tool_quiet [OF ran(6)]
    show ?thesis
    proof (cases "pv_decision v = REQUIRE_APPROVAL")
      case True
      from approval_gate_passes [OF ran(5) True] quiet_trans [OF _ last]
      have "\<exists>q d. approved_in ex call max_risk dry_run w pl pl' v q d"
        using ran(4) True opened unfolding approved_in_def by metis
      with ran(3) True show ?thesis by auto
    next
      case False
      with ran(5) have "quiet pl pl2" using opened by (auto simp: approval_gate_def)
      from quiet_trans [OF this last] ran(3) False show ?thesis by auto
    qed
  qed (use False in auto)
qed

text \<open>
  Whose verdict a call \<open>c\<close> carries: policy's, on \<open>call\<close> with the risk of its arguments, or that of an unknown
  tool or of invalid arguments, before policy is asked.
\<close>

definition given_verdict :: "'w executor \<Rightarrow> tool_call \<Rightarrow> risk_level \<Rightarrow> bool \<Rightarrow> 'w \<Rightarrow> policy_verdict \<Rightarrow> tool_call \<Rightarrow> bool" where
  "given_verdict ex call max_risk dry_run w v c \<longleftrightarrow>
     (\<exists>k. judgement ex call max_risk dry_run w k v \<and> (pv_decision v \<noteq> DENY \<longrightarrow> pv_risk v = k)) \<and> same_call (judged call (pv_risk v) v) c
     \<or> (\<exists>e. get_tool (c_tool_name call) (ex_registry ex) = Inl e
          \<and> v = verdict DENY DESTRUCTIVE ''unknown-tool'' (err_message e) \<and> same_call (judged call (pv_risk v) v) c)
     \<or> (\<exists>tool e. get_tool (c_tool_name call) (ex_registry ex) = Inr tool \<and> parse_arguments tool (c_arguments call) = Inl e
          \<and> v = verdict DENY (tl_risk tool) ''invalid-arguments'' (err_message e) \<and> same_call (call\<lparr>c_risk_level := tl_risk tool\<rparr>) c)"

lemma given_verdict_same: "given_verdict ex call max_risk dry_run w v c \<Longrightarrow> same_call c c' \<Longrightarrow> given_verdict ex call max_risk dry_run w v c'"
  unfolding given_verdict_def by (blast intro: same_call_trans)

lemma policy_risk: "policy_evaluate f e call k context reason = Inr v \<Longrightarrow> pv_decision v \<noteq> DENY \<Longrightarrow> pv_risk v = k"
  by (auto simp: policy_evaluate_def Let_def verdict_def split: if_splits option.splits sum.splits)

lemma judgement_risk: "judgement ex call max_risk dry_run w k v \<Longrightarrow> pv_decision v \<noteq> DENY \<Longrightarrow> pv_risk v = k"
  unfolding judgement_def using policy_risk by blast

lemma given_verdict_judged:
  "judgement ex call max_risk dry_run w k v \<Longrightarrow> pv_decision v \<noteq> DENY \<Longrightarrow> given_verdict ex call max_risk dry_run w v (judged call k v)"
  using judgement_risk unfolding given_verdict_def by (metis same_call_refl)

lemma given_verdict_refused:
  "judgement ex call max_risk dry_run w k v \<Longrightarrow> pv_decision v = DENY \<Longrightarrow> given_verdict ex call max_risk dry_run w v
     ((judged call k v)\<lparr>c_policy_decision := Some DENY, c_policy_rule := Some (pv_rule v), c_risk_level := pv_risk v\<rparr>)"
  unfolding given_verdict_def by (auto simp: judged_def same_call_def)

lemma execute_ends:
  assumes run: "execute ex call max_risk dry_run timeout pl w = (r, pl', w')"
  obtains (escaped) e where "r = Inl e" "pl' = pl"
  | (ended) c v pl1 where "ends_well c v pl1 r pl'" "advance pl pl1"
      "c_id c = c_id call" "c_approval_id c = c_approval_id call" "c_approval_state c = c_approval_state call"
      "c_identity c = c_identity call"
      "\<And>k. tbl_get cr_id k (pl_calls pl1) = (if k = c_id call then Some (call_to_row c) else tbl_get cr_id k (pl_calls pl))"
      "pv_decision v = DENY \<or> c_risk_level c \<le> max_risk \<and> (dry_run \<longrightarrow> c_risk_level c = READ)"
      "given_verdict ex call max_risk dry_run w v c"
proof -
  have opened: "advance pl (record_request c v pl)" "pl_calls (record_request c v pl) = pl_calls (record_call c pl)" for c v
    by (simp_all add: record_request_def advance_then)
  from run show thesis
  proof (cases rule: execute_cases)
    case (unknown e)
    from refuse_ends [OF unknown(2)] show ?thesis
      by (rule ended) (use unknown(3) in \<open>simp_all add: ledger_get given_verdict_def judged_def verdict_def same_call_def\<close>)
  next
    case (invalid k v m)
    from fail_with_ends [of "call\<lparr>c_risk_level := k\<rparr>" v "record_call (call\<lparr>c_risk_level := k\<rparr>) pl" None m "pl_now pl" 0]
    have ends: "ends_well (call\<lparr>c_risk_level := k\<rparr>) v (record_call (call\<lparr>c_risk_level := k\<rparr>) pl) r pl'" by (simp add: invalid(3))
    have given: "given_verdict ex call max_risk dry_run w v (call\<lparr>c_risk_level := k\<rparr>)"
      using invalid(4) by (auto simp: given_verdict_def)
    from ends show ?thesis by (rule ended) (use given in \<open>simp_all add: ledger_get invalid(2)\<close>)
  next
    case (escaped e)
    with that(1) show ?thesis by blast
  next
    case (denied k v)
    from refuse_ends [OF denied(3)] show ?thesis
      by (rule ended) (simp_all add: ledger_get opened advance_then denied(2) given_verdict_refused [OF denied(4,2)])
  next
    case (stopped k v)
    from approval_gate_ends [OF stopped(4)]
    have "ends_well (judged call k v) v (record_request (judged call k v) v pl) r pl'" by (simp add: gate_ends_def)
    then show ?thesis by (rule ended) (use stopped(2,3) given_verdict_judged [OF stopped(5,6)] in \<open>simp_all add: ledger_get opened\<close>)
  next
    case (ran k v c ap pl2 tool args)
    from approval_gate_ends [OF ran(5)]
    have "manager_frame (record_request (judged call k v) v pl) pl2" "same_call (judged call k v) c"
      by (simp_all add: gate_ends_def)
    with ends_well_frame ends_well_call [OF _ run_tool_ends [OF ran(6)]]
    have "ends_well (judged call k v) v (record_request (judged call k v) v pl) r pl'" by blast
    then show ?thesis by (rule ended) (use ran(1,2) given_verdict_judged [OF ran(4,7)] in \<open>simp_all add: ledger_get opened\<close>)
  qed
qed

section \<open>Properties\<close>

text \<open>
  C1. Nothing reaches the machine around the gate. If the machine is not what it was before the
  call, then it is what one run of the named tool left, and either policy let the call run unattended (a known, enabled tool with valid arguments
  whose effective risk is within the ceiling, not mutating in a dry run, reading or writing only
  inside the workspace), or it was escalated and, within this very call, a prompt answered the
  request made for it with yes and the approval its decision names was granted and then spent.
  Without a prompt nothing escalated runs, whatever was approved out of band.
\<close>

theorem execute_gate:
  "case execute ex call max_risk dry_run timeout pl w of (r, pl', w') \<Rightarrow>
     \<exists>tr. approval_run (ex_settings ex) pl tr pl' \<and>
       (w' = w \<or> cleared ex call max_risk dry_run False w w'
        \<or> cleared ex call max_risk dry_run True w w' \<and> answered ex call tr)"
  using execute_run by (cases "execute ex call max_risk dry_run timeout pl w") simp

text \<open>The row of the call the ledger ends with.\<close>

definition ledger_row :: "(string \<Rightarrow> string) \<Rightarrow> tool_call \<Rightarrow> outcome \<Rightarrow> call_row" where
  "ledger_row sha call oc = complete_row sha (oc_result oc)
     (call_to_row ((oc_call oc)\<lparr>c_approval_id := c_approval_id call, c_approval_state := c_approval_state call\<rparr>))"

text \<open>
  C2. Every call that returns is accounted for. Its outcome belongs to it, the ledger holds one row
  for it with the result and the verdict (and no other row changed), the trail only grew, and the
  last event published says how it ended: completed exactly when the result is a success, failed or
  denied otherwise. The verdict is the one policy gave this very call in the state of the machine it was made in,
  and the row has its decision, its rule and its risk; of an unknown tool likewise that denial; only for invalid
  arguments, refused before policy is asked, the row has no decision. The approval columns of the row are those of the call as it came in: the
  approval asked for, granted and spent in between is not in the ledger.
\<close>

theorem execute_accounted:
  "case execute ex call max_risk dry_run timeout pl w of
     (Inl e, pl', w') \<Rightarrow> advance pl pl'
   | (Inr oc, pl', w') \<Rightarrow>
       advance pl pl' \<and> c_id (oc_call oc) = c_id call \<and> r_call_id (oc_result oc) = c_id call
     \<and> (\<forall>k. tbl_get cr_id k (pl_calls pl') = (if k = c_id call then Some (ledger_row (pl_sha256 pl) call oc)
          else tbl_get cr_id k (pl_calls pl)))
     \<and> closing_type (r_success (oc_result oc)) (e_type (last (pl_published pl')))
     \<and> given_verdict ex call max_risk dry_run w (oc_verdict oc) (oc_call oc)"
proof (cases "execute ex call max_risk dry_run timeout pl w")
  case (fields r pl' w')
  then show ?thesis
  proof (cases rule: execute_ends)
    case (escaped e)
    with fields show ?thesis by simp
  next
    case (ended c v pl1)
    show ?thesis
    proof (cases r)
      case (Inl e)
      with ended(1,2) fields show ?thesis by (auto simp: ends_well_def intro: advance_trans)
    next
      case (Inr oc)
      with ended(1) have o: "closes c v pl1 oc pl'" "advance pl1 pl'" by (simp_all add: ends_well_def)
      have sha: "pl_sha256 pl1 = pl_sha256 pl" using ended(2) by (simp add: advance_def)
      have same: "same_call c (oc_call oc)" using o(1) by (simp add: closes_def)
      have row: "call_to_row c = call_to_row ((oc_call oc)\<lparr>c_approval_id := c_approval_id call, c_approval_state := c_approval_state call\<rparr>)"
        using same ended(4,5) by (cases c; cases "oc_call oc") (simp add: same_call_def)
      have "given_verdict ex call max_risk dry_run w (oc_verdict oc) (oc_call oc)"
        using given_verdict_same [OF ended(9) same] o(1) by (simp add: closes_def)
      with o Inr fields ended(2,3,7) sha same_call_simps(1) [OF same] row show ?thesis
        by (auto simp: closes_def ledger_get ledger_row_def intro: advance_trans)
    qed
  qed
qed

text \<open>
  The effective risk of a call is what the tool's own classification of the arguments says; the
  tool's declared risk decides nothing unless that classification fails with one of the system's
  errors.
\<close>

theorem effective_risk_exact:
  "effective_risk tool args ctx w =
     (case tl_classify tool args ctx w of
        Inr (k, reason) \<Rightarrow> Inr (k, reason)
      | Inl e \<Rightarrow> if is_scrappy_error e then Inr (tl_risk tool, ''classification failed: '' @ err_message e) else Inl e)"
  by (simp add: effective_risk_def split: sum.splits prod.splits)

end
