(* ===== verification/Memory_Episodic.thy ===== *)
theory Memory_Episodic
  imports Mem_Store
begin

text \<open>
  \<open>memory/episodic.py\<close>: the durable record of observations. Text and metadata are redacted on the
  way in; a row is validated again on the way out, so reading may raise. Search is SQLite's \<open>LIKE\<close>:
  \<open>%\<close> stands for any text, \<open>_\<close> for one character, and ASCII letters match in either case.
\<close>

definition observation_to_row :: "observation \<Rightarrow> observation_row" where
  "observation_to_row ob = \<lparr>or_id = ob_id ob, or_task_id = ob_task_id ob, or_call_id = ob_call_id ob,
     or_created_at = ob_created_at ob, or_source = ob_source ob, or_success = ob_success ob,
     or_content = redact_text (ob_content ob), or_metadata = json_norm (redact (PDict (ob_metadata ob)))\<rparr>"

definition remember :: "observation \<Rightarrow> plane \<Rightarrow> plane" where
  "remember ob pl = pl\<lparr>pl_observations := tbl_replace or_id (observation_to_row ob) (pl_observations pl)\<rparr>"

definition row_to_observation :: "observation_row \<Rightarrow> scrappy_error + observation" where
  "row_to_observation r = make_observation \<lparr>ob_id = or_id r, ob_task_id = or_task_id r,
     ob_call_id = (case or_call_id r of Some i \<Rightarrow> if i = [] then None else Some i | None \<Rightarrow> None),
     ob_created_at = or_created_at r, ob_source = or_source r, ob_content = or_content r,
     ob_success = or_success r, ob_metadata = (case or_metadata r of PDict d \<Rightarrow> d | _ \<Rightarrow> [])\<rparr>"

text \<open>\<open>[_to_observation(row) for row in rows]\<close>.\<close>

fun to_observations :: "observation_row list \<Rightarrow> scrappy_error + observation list" where
  "to_observations [] = Inr []"
| "to_observations (r # rs) = ebind (row_to_observation r) (\<lambda>ob. ebind (to_observations rs) (\<lambda>obs. Inr (ob # obs)))"

definition recall_task :: "string \<Rightarrow> int \<Rightarrow> plane \<Rightarrow> scrappy_error + observation list" where
  "recall_task task_id limit pl =
     to_observations (sql_limit limit (sort_key or_created_at (filter (\<lambda>r. or_task_id r = task_id) (pl_observations pl))))"

definition recent_observations :: "int \<Rightarrow> plane \<Rightarrow> scrappy_error + observation list" where
  "recent_observations limit pl = to_observations (sql_limit limit (sort_key (\<lambda>r. - or_created_at r) (pl_observations pl)))"

fun like :: "string \<Rightarrow> string \<Rightarrow> bool" where
  "like [] s \<longleftrightarrow> s = []"
| "like (c # p) [] \<longleftrightarrow> c = CHR ''%'' \<and> like p []"
| "like (c # p) (d # s) \<longleftrightarrow>
     (if c = CHR ''%'' then like p (d # s) \<or> like (c # p) s
      else (c = CHR ''_'' \<or> upper_ascii [c] = upper_ascii [d]) \<and> like p s)"

definition search_row :: "string \<Rightarrow> observation_row \<Rightarrow> bool" where
  "search_row query r \<longleftrightarrow> (let pattern = ''%'' @ query @ ''%'' in like pattern (or_content r) \<or> like pattern (or_source r))"

definition search_observations :: "string \<Rightarrow> int \<Rightarrow> plane \<Rightarrow> scrappy_error + observation list" where
  "search_observations query limit pl =
     to_observations (sql_limit limit (sort_key (\<lambda>r. - or_created_at r) (filter (search_row query) (pl_observations pl))))"

definition observation_count :: "plane \<Rightarrow> nat" where
  "observation_count pl = length (pl_observations pl)"

section \<open>Lemmas\<close>

lemma remember_frame [simp]:
  "pl_now (remember ob pl) = pl_now pl" "pl_fresh (remember ob pl) = pl_fresh pl"
  "pl_sha256 (remember ob pl) = pl_sha256 pl" "pl_published (remember ob pl) = pl_published pl"
  "pl_audit (remember ob pl) = pl_audit pl" "pl_calls (remember ob pl) = pl_calls pl"
  "pl_approvals (remember ob pl) = pl_approvals pl" "pl_waiters (remember ob pl) = pl_waiters pl"
  "pl_answers (remember ob pl) = pl_answers pl"
  by (simp_all add: remember_def)

lemma like_percent: "like (CHR ''%'' # p) s \<longleftrightarrow> (\<exists>a b. s = a @ b \<and> like p b)"
proof (induction s)
  case Nil
  show ?case by simp
next
  case (Cons d s)
  have "(\<exists>a b. d # s = a @ b \<and> like p b) \<longleftrightarrow> like p (d # s) \<or> (\<exists>a b. s = a @ b \<and> like p b)"
    by (metis append_Cons append_Nil list.inject neq_Nil_conv)
  with Cons.IH show ?case by simp
qed

lemma like_any [simp]: "like ''%'' s"
  using like_percent [of "[]" s] by auto

definition plain_query :: "string \<Rightarrow> bool" where
  "plain_query q \<longleftrightarrow> list_all (\<lambda>c. c \<noteq> CHR ''%'' \<and> c \<noteq> CHR ''_'') q"

lemma upper_ascii_Cons: "upper_ascii (c # s) = upper_ascii [c] @ upper_ascii s"
  by (simp add: upper_ascii_def)

lemma upper_ascii_single: "length (upper_ascii [c]) = 1"
  by (simp add: upper_ascii_def)

lemma like_plain: "plain_query q \<Longrightarrow> like (q @ p) s \<longleftrightarrow> (\<exists>a b. s = a @ b \<and> upper_ascii a = upper_ascii q \<and> like p b)"
proof (induction q arbitrary: s)
  case Nil
  then show ?case by (auto simp: upper_ascii_def)
next
  case (Cons c q)
  then have c: "c \<noteq> CHR ''%''" "c \<noteq> CHR ''_''" "plain_query q" by (simp_all add: plain_query_def)
  note IH = Cons.IH [OF c(3)]
  show ?case
  proof (cases s)
    case Nil
    then show ?thesis using c by (auto simp: upper_ascii_def)
  next
    case (Cons d t)
    have "like ((c # q) @ p) (d # t) \<longleftrightarrow> upper_ascii [c] = upper_ascii [d] \<and>
        (\<exists>a b. t = a @ b \<and> upper_ascii a = upper_ascii q \<and> like p b)" using c by (simp add: IH)
    also have "\<dots> \<longleftrightarrow> (\<exists>a b. d # t = a @ b \<and> upper_ascii a = upper_ascii (c # q) \<and> like p b)"
    proof safe
      fix a b assume "upper_ascii [c] = upper_ascii [d]" "upper_ascii a = upper_ascii q" "like p b" "t = a @ b"
      then show "\<exists>a' b'. d # a @ b = a' @ b' \<and> upper_ascii a' = upper_ascii (c # q) \<and> like p b'"
        by (intro exI [of _ "d # a"] exI [of _ b]) (simp add: upper_ascii_def)
    next
      fix a b assume *: "d # t = a @ b" "upper_ascii a = upper_ascii (c # q)" "like p b"
      then obtain a' where "a = d # a'" by (cases a) (auto simp: upper_ascii_def)
      with * show "upper_ascii [c] = upper_ascii [d]" by (simp add: upper_ascii_def)
    next
      fix a b assume *: "d # t = a @ b" "upper_ascii a = upper_ascii (c # q)" "like p b"
      then obtain a' where "a = d # a'" by (cases a) (auto simp: upper_ascii_def)
      with * show "\<exists>a b. t = a @ b \<and> upper_ascii a = upper_ascii q \<and> like p b"
        by (intro exI [of _ a'] exI [of _ b]) (simp add: upper_ascii_def)
    qed
    finally show ?thesis by (simp add: Cons)
  qed
qed

lemma like_contains: "plain_query q \<Longrightarrow> like (''%'' @ q @ ''%'') s \<longleftrightarrow> py_contains (upper_ascii q) (upper_ascii s)"
proof -
  assume q: "plain_query q"
  have "like (''%'' @ q @ ''%'') s \<longleftrightarrow> (\<exists>x a b. s = x @ a @ b \<and> upper_ascii a = upper_ascii q)"
    using like_percent [of "q @ ''%''" s] like_plain [OF q] by auto
  also have "\<dots> \<longleftrightarrow> sublist (upper_ascii q) (upper_ascii s)"
  proof
    assume "\<exists>x a b. s = x @ a @ b \<and> upper_ascii a = upper_ascii q"
    then obtain x a b where "s = x @ a @ b" "upper_ascii a = upper_ascii q" by blast
    then have "upper_ascii s = upper_ascii x @ upper_ascii q @ upper_ascii b" by (simp add: upper_ascii_def)
    then show "sublist (upper_ascii q) (upper_ascii s)" unfolding sublist_def by blast
  next
    assume "sublist (upper_ascii q) (upper_ascii s)"
    then obtain x y where xy: "upper_ascii s = x @ upper_ascii q @ y" unfolding sublist_def by blast
    let ?a = "take (length (upper_ascii q)) (drop (length x) s)"
    have "upper_ascii ?a = take (length (upper_ascii q)) (drop (length x) (upper_ascii s))"
      by (simp add: upper_ascii_def take_map drop_map)
    then have "upper_ascii ?a = upper_ascii q" by (simp add: xy)
    moreover have "s = take (length x) s @ ?a @ drop (length (upper_ascii q)) (drop (length x) s)"
      by (simp only: append_take_drop_id)
    ultimately show "\<exists>x a b. s = x @ a @ b \<and> upper_ascii a = upper_ascii q" by blast
  qed
  finally show ?thesis by (simp add: py_contains_sublist)
qed

lemma like_underscore: "like ''%_%'' s \<longleftrightarrow> s \<noteq> []"
proof -
  have "like ''_%'' b \<longleftrightarrow> b \<noteq> []" for b by (cases b) simp_all
  with like_percent [of "''_%''" s] show ?thesis by auto
qed

section \<open>Properties\<close>

text \<open>
  Search. A query without wildcard characters selects exactly the observations whose redacted
  text or source contains it, in either case of ASCII letters; but the query is a \<open>LIKE\<close> pattern:
  an underscore alone selects every observation with a non-empty text or source.
\<close>

theorem search_exact:
  "(if plain_query query
    then search_row query r \<longleftrightarrow> py_contains (upper_ascii query) (upper_ascii (or_content r))
           \<or> py_contains (upper_ascii query) (upper_ascii (or_source r))
    else True)
   \<and> (search_row ''_'' r \<longleftrightarrow> or_content r @ or_source r \<noteq> [])"
  using like_contains [of query] like_underscore by (simp add: search_row_def Let_def)

text \<open>
  What is remembered is what was observed, redacted: the row under its identifier has the same
  task, source and outcome, its text is the redacted text, and its metadata does not depend on
  values under sensitive keys. Every other row is left alone.
\<close>

theorem remember_redacts:
  "tbl_get or_id k (pl_observations (remember ob pl)) =
     (if k = ob_id ob then Some (observation_to_row (ob\<lparr>ob_metadata :=
        (case wipe (PDict (ob_metadata ob)) of PDict d \<Rightarrow> d | _ \<Rightarrow> [])\<rparr>))
      else tbl_get or_id k (pl_observations pl))
   \<and> or_content (observation_to_row ob) = redact_text (ob_content ob)
   \<and> or_metadata (observation_to_row ob) = json_norm (redact (PDict (ob_metadata ob)))"
proof -
  have "redact (PDict (case wipe (PDict (ob_metadata ob)) of PDict d \<Rightarrow> d | _ \<Rightarrow> [])) = redact (PDict (ob_metadata ob))"
    using redact_at_wipe [of 0 12 "PDict (ob_metadata ob)"] by (simp add: redact_def)
  then have "observation_to_row (ob\<lparr>ob_metadata := (case wipe (PDict (ob_metadata ob)) of PDict d \<Rightarrow> d | _ \<Rightarrow> [])\<rparr>) = observation_to_row ob"
    by (simp add: observation_to_row_def)
  then show ?thesis by (simp add: remember_def tbl_get_replace) (simp add: observation_to_row_def)
qed

end
