(* ===== verification/Model_Base.thy ===== *)
theory Model_Base
  imports Core_Models Py_Json_Roundtrip
begin

text \<open>
  \<open>models/base.py\<close>: how free text from a model becomes a typed value. The provider is a parameter:
  \<open>pv_generate\<close> is its \<open>generate\<close> over its own state \<open>'m\<close>, with the time it took, and may raise. So is
  the JSON schema text of the instruction.
  What pydantic makes of a JSON value is the argument \<open>validate\<close>, \<open>Inl\<close> the listed problems.
\<close>

datatype chat_role = CR_SYSTEM | CR_USER | CR_ASSISTANT

record chat_message =
  m_role :: chat_role
  m_content :: string

definition chat_system :: "string \<Rightarrow> chat_message" where
  "chat_system c = \<lparr>m_role = CR_SYSTEM, m_content = c\<rparr>"

definition chat_user :: "string \<Rightarrow> chat_message" where
  "chat_user c = \<lparr>m_role = CR_USER, m_content = c\<rparr>"

definition chat_assistant :: "string \<Rightarrow> chat_message" where
  "chat_assistant c = \<lparr>m_role = CR_ASSISTANT, m_content = c\<rparr>"

record 'm provider =
  pv_name :: string
  pv_model :: string
  pv_generate :: "chat_message list \<Rightarrow> 'm \<Rightarrow> (scrappy_error + string) \<times> time \<times> 'm"
  pv_json :: json_env
  pv_schema :: "string \<Rightarrow> string"

section \<open>JSON in a reply\<close>

definition code_fence :: string where
  "code_fence = replicate 3 (CHR 0x60)"

text \<open>\<open>text.split(sub, 1)\<close> at the first occurrence.\<close>

fun cut_at :: "string \<Rightarrow> string \<Rightarrow> (string \<times> string) option" where
  "cut_at sub [] = (if sub = [] then Some ([], []) else None)"
| "cut_at sub (c # cs) =
     (if prefix sub (c # cs) then Some ([], drop (length sub) (c # cs))
      else map_option (\<lambda>(a, b). (c # a, b)) (cut_at sub cs))"

text \<open>Group 1 of the first match of the fence pattern: an opening fence, perhaps \<open>json\<close>, blanks, the shortest text up to a fence.\<close>

definition fenced_block :: "string \<Rightarrow> string option" where
  "fenced_block text = (case cut_at code_fence text of
     None \<Rightarrow> None
   | Some (_, rest) \<Rightarrow>
       map_option fst (cut_at code_fence (py_lstrip (if prefix ''json'' rest then drop 4 rest else rest))))"

text \<open>From the first opener to the last closer.\<close>

definition between :: "char \<Rightarrow> char \<Rightarrow> string \<Rightarrow> string option" where
  "between opener closer text =
     (let start = length (takeWhile (\<lambda>c. c \<noteq> opener) text);
          stop = length text - length (takeWhile (\<lambda>c. c \<noteq> closer) (rev text)) in
      if opener \<in> set text \<and> start + 1 < stop then Some (drop start (take stop text)) else None)"

definition opt_list :: "'a option \<Rightarrow> 'a list" where
  "opt_list x = (case x of None \<Rightarrow> [] | Some a \<Rightarrow> [a])"

definition json_candidates :: "string \<Rightarrow> string list" where
  "json_candidates text = text # opt_list (map_option py_strip (fenced_block text))
     @ opt_list (between (CHR ''{'') (CHR ''}'') text) @ opt_list (between (CHR ''['') (CHR '']'') text)"

text \<open>The first candidate that is JSON. Only a decode error passes on to the next one.\<close>

fun first_document :: "json_env \<Rightarrow> string list \<Rightarrow> json_read" where
  "first_document je [] = Malformed_json"
| "first_document je (c # cs) = (case json_loads je c of Malformed_json \<Rightarrow> first_document je cs | r \<Rightarrow> r)"

definition extract_json :: "json_env \<Rightarrow> string \<Rightarrow> scrappy_error + pyval" where
  "extract_json je text =
     (let stripped = py_strip text in
      if stripped = [] then Inl (StructuredOutputError ''Model returned an empty response'' ''unknown'')
      else case first_document je (json_candidates stripped) of
        Json_value v \<Rightarrow> Inr v
      | Json_value_error m \<Rightarrow> Inl (Invalid m)
      | Malformed_json \<Rightarrow> Inl (StructuredOutputError ''No JSON object found in model output'' ''unknown''))"

section \<open>Structured generation\<close>

definition schema_instruction :: "'m provider \<Rightarrow> string \<Rightarrow> string" where
  "schema_instruction p schema =
     ''Respond with a single JSON object and nothing else. No prose, no code '' @
     ''fences, no explanation outside the JSON. It must validate against this '' @
     ''JSON Schema:'' @ [CHR 0x0A] @ pv_schema p schema"

definition repair_request :: "string \<Rightarrow> string" where
  "repair_request problem = ''That response was rejected: '' @ problem @ [CHR 0x0A] @
     ''Reply with corrected JSON only. No prose, no code fences.''"

text \<open>One reply: the value, the problem text of \<open>_format_error\<close>, or an error that no clause catches.\<close>

datatype 'a reply_read = Accepted 'a | Rejected string | Uncaught scrappy_error

definition read_reply :: "'m provider \<Rightarrow> (pyval \<Rightarrow> string + 'a) \<Rightarrow> string \<Rightarrow> 'a reply_read" where
  "read_reply p validate text = (case extract_json (pv_json p) text of
     Inl (StructuredOutputError m pv) \<Rightarrow> Rejected m
   | Inl e \<Rightarrow> Uncaught e
   | Inr v \<Rightarrow> (case validate v of Inl problem \<Rightarrow> Rejected problem | Inr x \<Rightarrow> Accepted x))"

text \<open>The loop with the number of repairs left.\<close>

fun ask_repeatedly ::
  "'m provider \<Rightarrow> (pyval \<Rightarrow> string + 'a) \<Rightarrow> string \<Rightarrow> chat_message list \<Rightarrow> nat \<Rightarrow> nat \<Rightarrow> chat_message list \<Rightarrow> 'm \<Rightarrow>
   (scrappy_error + 'a) \<times> time \<times> 'm" where
  "ask_repeatedly p validate schema messages max_repairs left conversation m =
     (case pv_generate p conversation m of
        (Inl e, took, m1) \<Rightarrow> (Inl e, took, m1)
      | (Inr text, took, m1) \<Rightarrow>
          (case read_reply p validate text of
             Accepted x \<Rightarrow> (Inr x, took, m1)
           | Uncaught e \<Rightarrow> (Inl e, took, m1)
           | Rejected problem \<Rightarrow>
               (case left of
                  0 \<Rightarrow> (Inl (StructuredOutputError (''Model did not return valid '' @ schema @ '' after '' @
                         str_nat (Suc max_repairs) @ '' attempts'') (pv_name p)), took, m1)
                | Suc n \<Rightarrow>
                    (let (r, took2, m2) = ask_repeatedly p validate schema messages max_repairs n
                       (messages @ [chat_system (schema_instruction p schema), chat_assistant (take 2000 text),
                          chat_user (repair_request problem)]) m1
                     in (r, took + took2, m2)))))"

declare ask_repeatedly.simps [simp del]

definition generate_structured ::
  "'m provider \<Rightarrow> (pyval \<Rightarrow> string + 'a) \<Rightarrow> string \<Rightarrow> chat_message list \<Rightarrow> nat \<Rightarrow> 'm \<Rightarrow> (scrappy_error + 'a) \<times> time \<times> 'm" where
  "generate_structured p validate schema messages max_repairs m =
     ask_repeatedly p validate schema messages max_repairs max_repairs
       (messages @ [chat_system (schema_instruction p schema)]) m"

section \<open>Lemmas\<close>

lemma cut_at_Some: "cut_at sub text = Some (a, b) \<Longrightarrow> text = a @ sub @ b"
proof (induction "text" arbitrary: a)
  case Nil
  then show ?case by (simp split: if_splits)
next
  case (Cons c cs)
  show ?case
  proof (cases "prefix sub (c # cs)")
    case True
    with Cons.prems show ?thesis by (auto simp: prefix_def)
  next
    case False
    with Cons show ?thesis by auto
  qed
qed

lemma py_lstrip_suffix: "suffix (py_lstrip s) s"
  by (simp add: py_lstrip_def suffix_dropWhile)

lemma py_strip_sublist: "sublist (py_strip s) s"
proof -
  have "prefix (rev (dropWhile py_isspace (rev t))) t" for t
    by (metis rev_rev_ident suffix_dropWhile suffix_to_prefix)
  then show ?thesis
    by (metis py_lstrip_suffix py_strip_def py_lstrip_def prefix_imp_sublist suffix_imp_sublist sublist_order.order_trans)
qed

lemma fenced_sublist: "fenced_block t = Some b \<Longrightarrow> sublist b t"
proof -
  assume "fenced_block t = Some b"
  then obtain x rest y where c: "cut_at code_fence t = Some (x, rest)"
    "cut_at code_fence (py_lstrip (if prefix ''json'' rest then drop 4 rest else rest)) = Some (b, y)"
    by (auto simp: fenced_block_def split: option.splits if_splits)
  have "sublist b (py_lstrip (if prefix ''json'' rest then drop 4 rest else rest))"
    using cut_at_Some [OF c(2)] by (simp add: sublist_append_rightI)
  also have "sublist \<dots> (if prefix ''json'' rest then drop 4 rest else rest)"
    by (rule suffix_imp_sublist [OF py_lstrip_suffix])
  also have "sublist \<dots> rest" by (simp add: sublist_drop)
  also have "sublist rest t" using cut_at_Some [OF c(1)] by (metis append_assoc sublist_append_leftI)
  finally show ?thesis .
qed

lemma between_sublist: "between p q t = Some b \<Longrightarrow> sublist b t"
  by (auto simp: between_def Let_def split: if_splits)
    (metis sublist_drop sublist_take sublist_order.order_trans)

lemma candidates_sublist: "c \<in> set (json_candidates t) \<Longrightarrow> sublist c t"
  by (auto simp: json_candidates_def opt_list_def split: option.splits
      intro: between_sublist sublist_order.order_trans [OF py_strip_sublist fenced_sublist])

lemma first_document_from: "first_document je cs = r \<Longrightarrow> r \<noteq> Malformed_json \<Longrightarrow> \<exists>c \<in> set cs. json_loads je c = r"
  by (induction cs) (auto split: json_read.splits)

lemma document_of_reply:
  assumes "first_document je (json_candidates (py_strip t)) = r" "r \<noteq> Malformed_json"
  shows "\<exists>c. sublist c t \<and> json_loads je c = r"
  using first_document_from [OF assms] by (metis candidates_sublist py_strip_sublist sublist_order.order_trans)

lemma read_reply_Accepted: "read_reply p validate text = Accepted x \<Longrightarrow>
    \<exists>c v. sublist c text \<and> json_loads (pv_json p) c = Json_value v \<and> validate v = Inr x"
  by (auto simp: read_reply_def extract_json_def Let_def dest!: document_of_reply
      split: sum.splits scrappy_error.splits json_read.splits if_splits)

lemma read_reply_Uncaught: "read_reply p validate text = Uncaught e \<Longrightarrow>
    \<exists>c msg. e = Invalid msg \<and> sublist c text \<and> json_loads (pv_json p) c = Json_value_error msg"
  by (auto simp: read_reply_def extract_json_def Let_def dest!: document_of_reply
      split: sum.splits scrappy_error.splits json_read.splits if_splits)

lemmas read_reply_ends = read_reply_Accepted read_reply_Uncaught

text \<open>\<open>n\<close> calls of the provider lead from one of its states to another.\<close>

inductive asked :: "'m provider \<Rightarrow> nat \<Rightarrow> 'm \<Rightarrow> 'm \<Rightarrow> bool" for p where
  asked_0: "asked p 0 m m"
| asked_Suc: "pv_generate p conversation m = (r, took, m1) \<Longrightarrow> asked p n m1 m2 \<Longrightarrow> asked p (Suc n) m m2"

text \<open>A JSON text inside some reply reads as \<open>r\<close>, and the ways a structured turn can end.\<close>

definition decoded :: "'m provider \<Rightarrow> json_read \<Rightarrow> bool" where
  "decoded p r \<longleftrightarrow> (\<exists>conv m text took m' c. pv_generate p conv m = (Inr text, took, m') \<and> sublist c text \<and> json_loads (pv_json p) c = r)"

lemma read_reply_decoded:
  assumes "pv_generate p conv m = (Inr text, took, m')"
  shows "read_reply p validate text = Accepted x \<Longrightarrow> \<exists>v. decoded p (Json_value v) \<and> validate v = Inr x"
    "read_reply p validate text = Uncaught e \<Longrightarrow> \<exists>msg. e = Invalid msg \<and> decoded p (Json_value_error msg)"
  using assms by (auto simp: decoded_def dest!: read_reply_Accepted read_reply_Uncaught) blast+

definition turn_ends :: "'m provider \<Rightarrow> (pyval \<Rightarrow> string + 'a) \<Rightarrow> bool \<Rightarrow> scrappy_error + 'a \<Rightarrow> bool" where
  "turn_ends p validate exhausted r \<longleftrightarrow> (case r of
     Inr x \<Rightarrow> \<exists>v. decoded p (Json_value v) \<and> validate v = Inr x
   | Inl e \<Rightarrow> (\<exists>conv m took m'. pv_generate p conv m = (Inl e, took, m'))
       \<or> (\<exists>msg. e = Invalid msg \<and> decoded p (Json_value_error msg))
       \<or> (\<exists>msg. e = StructuredOutputError msg (pv_name p)) \<and> exhausted)"

lemma ask_repeatedly_spec:
  "ask_repeatedly p validate schema messages k left conversation m = (r, took, m') \<Longrightarrow>
   \<exists>n \<le> Suc left. asked p n m m' \<and> turn_ends p validate (n = Suc left) r"
proof (induction left arbitrary: conversation m r took m')
  case 0
  obtain g t1 m1 where g: "pv_generate p conversation m = (g, t1, m1)" by (cases "pv_generate p conversation m")
  have a: "asked p (Suc 0) m m1" by (rule asked_Suc [OF g asked_0])
  from 0 g have r: "m' = m1" "turn_ends p validate True r"
    by (cases g; cases "read_reply p validate (projr g)";
      force simp: ask_repeatedly.simps turn_ends_def dest: read_reply_decoded)+
  with a show ?case by (intro exI [of _ "Suc 0"]) simp
next
  case (Suc left)
  obtain g t1 m1 where g: "pv_generate p conversation m = (g, t1, m1)" by (cases "pv_generate p conversation m")
  show ?case
  proof (cases "\<exists>text problem. g = Inr text \<and> read_reply p validate text = Rejected problem")
    case False
    have a: "asked p (Suc 0) m m1" by (rule asked_Suc [OF g asked_0])
    from False Suc.prems g have "m' = m1" "turn_ends p validate False r"
      by (cases g; cases "read_reply p validate (projr g)";
        force simp: ask_repeatedly.simps [of _ _ _ _ _ "Suc left"] turn_ends_def dest: read_reply_decoded)+
    with a show ?thesis by (intro exI [of _ "Suc 0"]) simp
  next
    case True
    then obtain reply problem where t: "g = Inr reply" "read_reply p validate reply = Rejected problem" by blast
    let ?conv = "messages @ [chat_system (schema_instruction p schema), chat_assistant (take 2000 reply), chat_user (repair_request problem)]"
    obtain r2 t2 m2 where r: "ask_repeatedly p validate schema messages k left ?conv m1 = (r2, t2, m2)"
      by (cases "ask_repeatedly p validate schema messages k left ?conv m1")
    have eq: "r = r2" "m' = m2"
      using Suc.prems g t r by (simp_all add: ask_repeatedly.simps [of _ _ _ _ _ "Suc left"])
    from Suc.IH [OF r] obtain n where "n \<le> Suc left" "asked p n m1 m2" "turn_ends p validate (n = Suc left) r2" by blast
    with asked_Suc [OF g, of n m2] show ?thesis unfolding eq
      by (intro exI [of _ "Suc n"]) simp
  qed
qed

section \<open>Properties\<close>

text \<open>
  Free text becomes a value only by validating. What structured generation returns passed the
  schema's validation, and was decoded from a contiguous part of a reply of the provider; the
  provider is asked at most once more than the number of repairs, and the only other outcomes are
  the provider's own error, the \<open>ValueError\<close> of a reply with an integer of too many digits, which no
  clause catches, and, after all attempts, a structured-output error.
\<close>

theorem generate_structured_exact:
  "case generate_structured p validate schema messages max_repairs m of (r, took, m') \<Rightarrow>
     \<exists>n \<le> Suc max_repairs. asked p n m m' \<and> turn_ends p validate (n = Suc max_repairs) r"
  by (cases "generate_structured p validate schema messages max_repairs m")
    (simp add: generate_structured_def ask_repeatedly_spec)

end
