(* ===== verification/Brain_Limits.thy ===== *)
theory Brain_Limits
  imports Core_Config Core_Errors
begin

text \<open>
  \<open>brain/limits.py\<close>: the budget of one task run. \<open>time.monotonic()\<close> is an argument; a check is the
  exception it raises, if any.
\<close>

record task_budget =
  bg_max_plan_steps :: nat
  bg_max_replans :: nat
  bg_max_task_seconds :: time
  bg_max_failures :: nat
  bg_max_model_calls :: nat
  bg_started_at :: time
  bg_steps :: nat
  bg_replans :: nat
  bg_failures :: nat
  bg_model_calls :: nat

definition budget_from_settings :: "settings \<Rightarrow> time \<Rightarrow> task_budget" where
  "budget_from_settings s now = \<lparr>bg_max_plan_steps = max_plan_steps s, bg_max_replans = max_replans s,
     bg_max_task_seconds = max_task_seconds s, bg_max_failures = max_consecutive_tool_failures s,
     bg_max_model_calls = max_model_calls s, bg_started_at = now, bg_steps = 0, bg_replans = 0,
     bg_failures = 0, bg_model_calls = 0\<rparr>"

definition budget_start :: "time \<Rightarrow> task_budget \<Rightarrow> task_budget" where
  "budget_start now b = b\<lparr>bg_started_at := now\<rparr>"

definition elapsed_seconds :: "time \<Rightarrow> task_budget \<Rightarrow> time" where
  "elapsed_seconds now b = now - bg_started_at b"

definition remaining_seconds :: "time \<Rightarrow> task_budget \<Rightarrow> time" where
  "remaining_seconds now b = max 0 (bg_max_task_seconds b - elapsed_seconds now b)"

definition check_time :: "time \<Rightarrow> task_budget \<Rightarrow> scrappy_error option" where
  "check_time now b = (if bg_max_task_seconds b \<le> elapsed_seconds now b
     then Some (LimitExceeded (''Task exceeded its '' @ str_seconds (bg_max_task_seconds b) @ ''s budget'')
       ''max_task_seconds'' (bg_max_task_seconds b))
     else None)"

definition check_steps :: "task_budget \<Rightarrow> scrappy_error option" where
  "check_steps b = (if bg_max_plan_steps b \<le> bg_steps b
     then Some (LimitExceeded (''Task reached its '' @ str_nat (bg_max_plan_steps b) @ ''-step limit'')
       ''max_plan_steps'' (int (bg_max_plan_steps b)))
     else None)"

definition check_model_calls :: "task_budget \<Rightarrow> scrappy_error option" where
  "check_model_calls b = (if bg_max_model_calls b \<le> bg_model_calls b
     then Some (LimitExceeded (''Task reached its '' @ str_nat (bg_max_model_calls b) @ ''-inference limit'')
       ''max_model_calls'' (int (bg_max_model_calls b)))
     else None)"

definition check_failures :: "task_budget \<Rightarrow> scrappy_error option" where
  "check_failures b = (if bg_max_failures b \<le> bg_failures b
     then Some (LimitExceeded (str_nat (bg_failures b) @ '' consecutive tool failures; stopping'')
       ''max_consecutive_tool_failures'' (int (bg_max_failures b)))
     else None)"

definition check_replans :: "task_budget \<Rightarrow> scrappy_error option" where
  "check_replans b = (if bg_max_replans b \<le> bg_replans b
     then Some (LimitExceeded (''Task reached its '' @ str_nat (bg_max_replans b) @ ''-replan limit'')
       ''max_replans'' (int (bg_max_replans b)))
     else None)"

text \<open>The first check that raises.\<close>

definition orelse_check :: "scrappy_error option \<Rightarrow> scrappy_error option \<Rightarrow> scrappy_error option" where
  "orelse_check a b = (case a of None \<Rightarrow> b | Some e \<Rightarrow> Some e)"

definition check_all :: "time \<Rightarrow> task_budget \<Rightarrow> scrappy_error option" where
  "check_all now b = orelse_check (check_time now b)
     (orelse_check (check_steps b) (orelse_check (check_model_calls b) (check_failures b)))"

definition record_step :: "bool \<Rightarrow> task_budget \<Rightarrow> task_budget" where
  "record_step success b = b\<lparr>bg_steps := Suc (bg_steps b), bg_failures := (if success then 0 else Suc (bg_failures b))\<rparr>"

definition record_model_call :: "task_budget \<Rightarrow> task_budget" where
  "record_model_call b = b\<lparr>bg_model_calls := Suc (bg_model_calls b)\<rparr>"

definition record_replan :: "task_budget \<Rightarrow> task_budget" where
  "record_replan b = b\<lparr>bg_replans := Suc (bg_replans b)\<rparr>"

definition budget_snapshot :: "time \<Rightarrow> task_budget \<Rightarrow> payload" where
  "budget_snapshot now b =
     [(''steps_executed'', PInt (int (bg_steps b))), (''max_plan_steps'', PInt (int (bg_max_plan_steps b))),
      (''replans'', PInt (int (bg_replans b))), (''max_replans'', PInt (int (bg_max_replans b))),
      (''model_calls'', PInt (int (bg_model_calls b))), (''max_model_calls'', PInt (int (bg_max_model_calls b))),
      (''consecutive_failures'', PInt (int (bg_failures b))),
      (''elapsed_seconds'', PFloat (of_int (round (of_int (elapsed_seconds now b) / 10000 :: rat)) / 100)),
      (''max_task_seconds'', PFloat (of_int (bg_max_task_seconds b) / 1000000))]"

section \<open>Lemmas\<close>

lemma check_None:
  "check_time now b = None \<longleftrightarrow> elapsed_seconds now b < bg_max_task_seconds b"
  "check_steps b = None \<longleftrightarrow> bg_steps b < bg_max_plan_steps b"
  "check_model_calls b = None \<longleftrightarrow> bg_model_calls b < bg_max_model_calls b"
  "check_failures b = None \<longleftrightarrow> bg_failures b < bg_max_failures b"
  "check_replans b = None \<longleftrightarrow> bg_replans b < bg_max_replans b"
  by (auto simp: check_time_def check_steps_def check_model_calls_def check_failures_def check_replans_def)

lemma orelse_check_None [simp]: "orelse_check a b = None \<longleftrightarrow> a = None \<and> b = None"
  by (cases a) (simp_all add: orelse_check_def)

lemma orelse_check_Some: "orelse_check a b = Some e \<Longrightarrow> a = Some e \<or> b = Some e"
  by (cases a) (simp_all add: orelse_check_def)

text \<open>A check only raises \<open>LimitExceeded\<close>.\<close>

lemma check_all_scrappy: "check_all now b = Some e \<Longrightarrow> is_scrappy_error e"
  by (auto simp: check_all_def check_time_def check_steps_def check_model_calls_def check_failures_def
      is_scrappy_error_def split: if_splits dest!: orelse_check_Some)

lemma check_scrappy:
  "check_time now b = Some e \<Longrightarrow> is_scrappy_error e" "check_model_calls b = Some e \<Longrightarrow> is_scrappy_error e"
  "check_replans b = Some e \<Longrightarrow> is_scrappy_error e"
  by (auto simp: check_time_def check_model_calls_def check_replans_def is_scrappy_error_def split: if_splits)

lemma record_simps [simp]:
  "bg_replans (record_step ok b) = bg_replans b" "bg_replans (record_model_call b) = bg_replans b"
  "bg_replans (record_replan b) = Suc (bg_replans b)"
  "bg_steps (record_step ok b) = Suc (bg_steps b)" "bg_steps (record_model_call b) = bg_steps b"
  "bg_steps (record_replan b) = bg_steps b"
  "bg_model_calls (record_step ok b) = bg_model_calls b" "bg_model_calls (record_model_call b) = Suc (bg_model_calls b)"
  "bg_model_calls (record_replan b) = bg_model_calls b"
  by (simp_all add: record_step_def record_model_call_def record_replan_def)

text \<open>What stays fixed in a budget once it is made.\<close>

definition same_limits :: "task_budget \<Rightarrow> task_budget \<Rightarrow> bool" where
  "same_limits b b' \<longleftrightarrow> bg_max_plan_steps b' = bg_max_plan_steps b \<and> bg_max_replans b' = bg_max_replans b
     \<and> bg_max_task_seconds b' = bg_max_task_seconds b \<and> bg_max_failures b' = bg_max_failures b
     \<and> bg_max_model_calls b' = bg_max_model_calls b \<and> bg_started_at b' = bg_started_at b"

lemma same_limits_record [simp]:
  "same_limits b (record_step ok b)" "same_limits b (record_model_call b)" "same_limits b (record_replan b)"
  "same_limits b b"
  by (simp_all add: same_limits_def record_step_def record_model_call_def record_replan_def)

lemma same_limits_trans: "same_limits a b \<Longrightarrow> same_limits b c \<Longrightarrow> same_limits a c"
  by (simp add: same_limits_def)

end
