(* ===== verification/Brain_State.thy ===== *)
theory Brain_State
  imports Tool_Executor Memory_Working Memory_Episodic Model_Base Brain_Limits
begin

text \<open>
  The state of one run of the orchestrator, and actions on it. The code mutates one \<open>Task\<close>, one
  \<open>WorkingMemory\<close>, one \<open>TaskBudget\<close> and one \<open>TaskOutcome\<close> while exceptions pass through; so an
  action takes the state and returns its exception or value with the state as it was left. The
  state also holds the control plane, the machine \<open>'w\<close> and the provider's state \<open>'m\<close>.
\<close>

record ('m, 'w) brain =
  br_task :: task
  br_memory :: working_memory
  br_budget :: task_budget
  br_decisions :: "agent_decision list"
  br_executed :: "outcome list"
  br_conclusion :: string
  br_succeeded :: bool
  br_stopped :: "string option"
  br_plane :: plane
  br_model :: 'm
  br_world :: 'w

text \<open>What the orchestrator is built with; \<open>ev_system\<close> is the standing prompt of a role.\<close>

record ('m, 'w) brain_env =
  ev_settings :: settings
  ev_provider :: "'m provider"
  ev_executor :: "'w executor"
  ev_episodic :: bool
  ev_system :: "agent_role \<Rightarrow> string"

type_synonym ('m, 'w, 'a) act = "('m, 'w) brain \<Rightarrow> (scrappy_error + 'a) \<times> ('m, 'w) brain"

definition ret :: "'a \<Rightarrow> ('m, 'w, 'a) act" where
  "ret x s = (Inr x, s)"

definition raising :: "scrappy_error \<Rightarrow> ('m, 'w, 'a) act" where
  "raising e s = (Inl e, s)"

definition andthen :: "('m, 'w, 'a) act \<Rightarrow> ('a \<Rightarrow> ('m, 'w, 'b) act) \<Rightarrow> ('m, 'w, 'b) act" where
  "andthen f g s = (case f s of (Inl e, s') \<Rightarrow> (Inl e, s') | (Inr x, s') \<Rightarrow> g x s')"

definition update :: "(('m, 'w) brain \<Rightarrow> ('m, 'w) brain) \<Rightarrow> ('m, 'w, unit) act" where
  "update f s = (Inr (), f s)"

definition reading :: "(('m, 'w) brain \<Rightarrow> ('m, 'w, 'a) act) \<Rightarrow> ('m, 'w, 'a) act" where
  "reading f s = f s s"

text \<open>A value or an exception computed from the state.\<close>

definition lift_sum :: "scrappy_error + 'a \<Rightarrow> ('m, 'w, 'a) act" where
  "lift_sum r s = (r, s)"

text \<open>A budget check.\<close>

definition checked :: "(time \<Rightarrow> task_budget \<Rightarrow> scrappy_error option) \<Rightarrow> ('m, 'w, unit) act" where
  "checked c s = (case c (pl_now (br_plane s)) (br_budget s) of Some e \<Rightarrow> (Inl e, s) | None \<Rightarrow> (Inr (), s))"

definition upd_budget :: "(task_budget \<Rightarrow> task_budget) \<Rightarrow> ('m, 'w, unit) act" where
  "upd_budget f = update (\<lambda>s. s\<lparr>br_budget := f (br_budget s)\<rparr>)"

definition emitting ::
  "event_type \<Rightarrow> string \<Rightarrow> (('m, 'w) brain \<Rightarrow> payload) \<Rightarrow> ('m, 'w, unit) act" where
  "emitting ty component payload = update (\<lambda>s. s\<lparr>br_plane := plane_emit ty (Some (t_id (br_task s))) component
     (o_identity (t_objective (br_task s))) (payload s) (br_plane s)\<rparr>)"

definition transition :: "task_state \<Rightarrow> ('m, 'w, unit) act" where
  "transition target s = (case transition_to (pl_now (br_plane s)) target (br_task s) of
     Inl e \<Rightarrow> (Inl e, s) | Inr t \<Rightarrow> (Inr (), s\<lparr>br_task := t\<rparr>))"

section \<open>Reasoning about actions\<close>

lemma act_simps [simp]:
  "ret x s = (Inr x, s)" "raising e s = (Inl e, s)" "update f s = (Inr (), f s)" "reading h s = h s s" "lift_sum r s = (r, s)"
  by (simp_all add: ret_def raising_def update_def reading_def lift_sum_def)

lemma andthen_cases:
  assumes "andthen f g s = (r, s')"
  obtains (fails) e where "f s = (Inl e, s')" "r = Inl e"
  | (goes) x s1 where "f s = (Inr x, s1)" "g x s1 = (r, s')"
  using assms by (cases "f s"; cases "fst (f s)") (auto simp: andthen_def)

text \<open>
  Every action is judged by a relation between the state before and the state after, whatever the
  outcome. For a preorder, sequences and choices of good actions are good.
\<close>

definition moves :: "(('m, 'w) brain \<Rightarrow> ('m, 'w) brain \<Rightarrow> bool) \<Rightarrow> ('m, 'w, 'a) act \<Rightarrow> bool" where
  "moves R f \<longleftrightarrow> (\<forall>s. R s (snd (f s)))"

locale brain_relation =
  fixes R :: "('m, 'w) brain \<Rightarrow> ('m, 'w) brain \<Rightarrow> bool"
  assumes R_refl: "R s s"
    and R_trans: "R s1 s2 \<Longrightarrow> R s2 s3 \<Longrightarrow> R s1 s3"
begin

lemma moves_ret: "moves R (ret x)" "moves R (raising e)" "moves R (lift_sum r)" "moves R (checked c)"
  by (auto simp: moves_def R_refl checked_def split: option.splits)

lemma moves_andthen: "moves R f \<Longrightarrow> (\<And>x. moves R (g x)) \<Longrightarrow> moves R (andthen f g)"
  unfolding moves_def
proof
  fix s
  assume f: "\<forall>s. R s (snd (f s))" and g: "\<And>x. \<forall>s. R s (snd (g x s))"
  show "R s (snd (andthen f g s))"
  proof (cases "f s")
    case (Pair r s1)
    with f have "R s s1" by (metis snd_conv)
    show ?thesis
    proof (cases r)
      case (Inl e)
      with Pair \<open>R s s1\<close> show ?thesis by (simp add: andthen_def)
    next
      case (Inr x)
      have "R s1 (snd (g x s1))" using g by blast
      with \<open>R s s1\<close> have "R s (snd (g x s1))" by (rule R_trans)
      with Pair Inr show ?thesis by (simp add: andthen_def)
    qed
  qed
qed

lemma moves_reading: "(\<And>s. R s (snd (f s s))) \<Longrightarrow> moves R (reading f)"
  by (simp add: moves_def)

lemma moves_reading_all: "(\<And>t. moves R (f t)) \<Longrightarrow> moves R (reading f)"
  by (simp add: moves_def)

lemma moves_update: "(\<And>s. R s (f s)) \<Longrightarrow> moves R (update f)"
  by (simp add: moves_def)

lemma moves_choice:
  "moves R f \<Longrightarrow> moves R g \<Longrightarrow> moves R (if b then f else g)"
  "(\<And>a b. moves R (h a b)) \<Longrightarrow> moves R (case p of (a, b) \<Rightarrow> h a b)"
  "moves R f \<Longrightarrow> (\<And>x. moves R (k x)) \<Longrightarrow> moves R (case z of None \<Rightarrow> f | Some x \<Rightarrow> k x)"
  by (simp_all split: prod.splits option.splits)

lemmas moves_structure = moves_ret moves_andthen moves_reading_all moves_choice

lemma movesD: "moves R f \<Longrightarrow> f s = (r, s') \<Longrightarrow> R s s'"
  unfolding moves_def by (metis snd_conv)

end

text \<open>
  Triples with two postconditions, for a returned value and for an exception.
\<close>

definition triple ::
  "(('m, 'w) brain \<Rightarrow> bool) \<Rightarrow> ('m, 'w, 'a) act \<Rightarrow> ('a \<Rightarrow> ('m, 'w) brain \<Rightarrow> bool) \<Rightarrow>
   (scrappy_error \<Rightarrow> ('m, 'w) brain \<Rightarrow> bool) \<Rightarrow> bool" where
  "triple P f Q E \<longleftrightarrow> (\<forall>s. P s \<longrightarrow> (case f s of (Inr x, s') \<Rightarrow> Q x s' | (Inl e, s') \<Rightarrow> E e s'))"

lemma tripleD: "triple P f Q E \<Longrightarrow> P s \<Longrightarrow> f s = (Inr x, s') \<Longrightarrow> Q x s'"
  "triple P f Q E \<Longrightarrow> P s \<Longrightarrow> f s = (Inl e, s') \<Longrightarrow> E e s'"
  by (force simp: triple_def)+

lemma triple_andthen: "triple P f Q E \<Longrightarrow> (\<And>x. triple (Q x) (g x) R E) \<Longrightarrow> triple P (andthen f g) R E"
  unfolding triple_def andthen_def
  by (auto split: prod.splits sum.splits) (metis (no_types, lifting) old.prod.case old.sum.simps)+

lemma triple_weaken: "triple P f Q E \<Longrightarrow> (\<And>s. P' s \<Longrightarrow> P s) \<Longrightarrow> (\<And>x s. Q x s \<Longrightarrow> Q' x s) \<Longrightarrow>
    (\<And>e s. E e s \<Longrightarrow> E' e s) \<Longrightarrow> triple P' f Q' E'"
  unfolding triple_def by (force split: prod.splits sum.splits)

lemma triple_ret: "(\<And>s. P s \<Longrightarrow> Q x s) \<Longrightarrow> triple P (ret x) Q E" "(\<And>s. P s \<Longrightarrow> E e s) \<Longrightarrow> triple P (raising e) Q E"
  "(\<And>s. P s \<Longrightarrow> R (f s)) \<Longrightarrow> triple P (update f) (\<lambda>_. R) E"
  by (simp_all add: triple_def)

lemma triple_reading: "(\<And>t. triple (\<lambda>s. s = t \<and> P s) (f t) Q E) \<Longrightarrow> triple P (reading f) Q E"
  by (simp add: triple_def)

lemma triple_choice:
  "(b \<Longrightarrow> triple P f Q E) \<Longrightarrow> (\<not> b \<Longrightarrow> triple P g Q E) \<Longrightarrow> triple P (if b then f else g) Q E"
  "(\<And>u v. p = (u, v) \<Longrightarrow> triple P (h u v) Q E) \<Longrightarrow> triple P (case p of (u, v) \<Rightarrow> h u v) Q E"
  "(z = None \<Longrightarrow> triple P f Q E) \<Longrightarrow> (\<And>x. z = Some x \<Longrightarrow> triple P (k x) Q E) \<Longrightarrow>
    triple P (case z of None \<Rightarrow> f | Some x \<Rightarrow> k x) Q E"
  by (simp_all split: prod.splits option.splits)

lemma triple_moves:
  assumes "moves R f" "\<And>s s'. P s \<Longrightarrow> R s s' \<Longrightarrow> P s'" "\<And>e s. P s \<Longrightarrow> E e s"
  shows "triple P f (\<lambda>_. P) E"
  unfolding triple_def
proof (intro allI impI)
  fix s assume "P s"
  with assms(1,2) have "P (snd (f s))" unfolding moves_def by blast
  with assms(3) show "case f s of (Inr x, s') \<Rightarrow> P s' | (Inl e, s') \<Rightarrow> E e s'"
    by (cases "f s"; cases "fst (f s)") auto
qed

end
