(* ===== verification/Agents.thy ===== *)
theory Agents
  imports Brain_State
begin

text \<open>
  \<open>agents/\<close>: the typed shapes a model may emit (\<open>schemas.py\<close>), the shared turn (\<open>base.py\<close>), and the
  three roles. Decoding a JSON value into the fields of a shape is pydantic's (\<open>'m schemas\<close> below, a
  parameter); the declared limits and the validators, which decide what is accepted, are checked
  here. An agent changes nothing but the task's count of model calls.
\<close>

section \<open>Shapes\<close>

record proposed_step =
  ps_intent :: string
  ps_tool :: string
  ps_arguments :: payload
  ps_expected_risk :: risk_level
  ps_side_effects :: "string list"
  ps_success_criteria :: "string option"
  ps_rollback_hint :: "string option"

record plan_proposal =
  pp_reasoning :: string
  pp_steps :: "proposed_step list"
  pp_capabilities :: "string list"
  pp_side_effects :: "string list"

record reviewed_plan =
  rp_approved :: bool
  rp_reasoning :: string
  rp_concerns :: "string list"
  rp_steps :: "proposed_step list"

datatype verdict_kind = V_CONTINUE | V_REPLAN | V_COMPLETE | V_ROLLBACK | V_ABORT

fun verdict_value :: "verdict_kind \<Rightarrow> string" where
  "verdict_value V_CONTINUE = ''continue''"
| "verdict_value V_REPLAN = ''replan''"
| "verdict_value V_COMPLETE = ''complete''"
| "verdict_value V_ROLLBACK = ''rollback''"
| "verdict_value V_ABORT = ''abort''"

record verification =
  vf_satisfied :: bool
  vf_decision :: verdict_kind
  vf_confidence :: rat
  vf_reasoning :: string
  vf_conclusion :: string
  vf_concerns :: "string list"

record recovery_plan =
  rc_diagnosis :: string
  rc_recoverable :: bool
  rc_reasoning :: string
  rc_steps :: "proposed_step list"

definition fits_in :: "nat \<Rightarrow> string option \<Rightarrow> bool" where
  "fits_in n x \<longleftrightarrow> (case x of None \<Rightarrow> True | Some t \<Rightarrow> length t \<le> n)"

text \<open>\<open>_clean_tool_name\<close> runs on a name whose length was already checked.\<close>

definition clean_tool_name :: "string \<Rightarrow> string option" where
  "clean_tool_name v = (let cleaned = py_strip v in
     if py_isalnum (remove_char (CHR ''_'') (remove_char (CHR ''.'') cleaned)) then Some cleaned else None)"

definition check_step :: "proposed_step \<Rightarrow> string + proposed_step" where
  "check_step p =
     (if length (ps_intent p) < 1 \<or> 500 < length (ps_intent p) then Inl ''intent''
      else if length (ps_tool p) < 1 \<or> 64 < length (ps_tool p) then Inl ''tool''
      else case clean_tool_name (ps_tool p) of
        None \<Rightarrow> Inl ''tool''
      | Some t \<Rightarrow>
          if 20 < length (ps_side_effects p) then Inl ''expected_side_effects''
          else if \<not> fits_in 500 (ps_success_criteria p) then Inl ''success_criteria''
          else if \<not> fits_in 500 (ps_rollback_hint p) then Inl ''rollback_hint''
          else Inr (p\<lparr>ps_tool := t\<rparr>))"

fun check_all_steps :: "proposed_step list \<Rightarrow> string + proposed_step list" where
  "check_all_steps [] = Inr []"
| "check_all_steps (p # ps) = ebind (check_step p) (\<lambda>q. ebind (check_all_steps ps) (\<lambda>qs. Inr (q # qs)))"

definition check_proposal :: "plan_proposal \<Rightarrow> string + plan_proposal" where
  "check_proposal p =
     (if 4000 < length (pp_reasoning p) then Inl ''reasoning''
      else if 50 < length (pp_steps p) then Inl ''steps''
      else if 20 < length (pp_capabilities p) then Inl ''required_capabilities''
      else if 20 < length (pp_side_effects p) then Inl ''predicted_side_effects''
      else ebind (check_all_steps (pp_steps p)) (\<lambda>steps. Inr (p\<lparr>pp_steps := steps\<rparr>)))"

definition check_review :: "reviewed_plan \<Rightarrow> string + reviewed_plan" where
  "check_review p =
     (if 4000 < length (rp_reasoning p) then Inl ''reasoning''
      else if 20 < length (rp_concerns p) then Inl ''concerns''
      else if 50 < length (rp_steps p) then Inl ''steps''
      else ebind (check_all_steps (rp_steps p)) (\<lambda>steps. Inr (p\<lparr>rp_steps := steps\<rparr>)))"

definition check_verification :: "verification \<Rightarrow> string + verification" where
  "check_verification v =
     (if vf_confidence v < 0 \<or> 1 < vf_confidence v then Inl ''confidence''
      else if 4000 < length (vf_reasoning v) then Inl ''reasoning''
      else if 8000 < length (vf_conclusion v) then Inl ''conclusion''
      else if 20 < length (vf_concerns v) then Inl ''concerns''
      else Inr v)"

definition check_recovery :: "recovery_plan \<Rightarrow> string + recovery_plan" where
  "check_recovery p =
     (if 4000 < length (rc_diagnosis p) then Inl ''diagnosis''
      else if 4000 < length (rc_reasoning p) then Inl ''reasoning''
      else if 20 < length (rc_steps p) then Inl ''steps''
      else ebind (check_all_steps (rc_steps p)) (\<lambda>steps. Inr (p\<lparr>rc_steps := steps\<rparr>)))"

text \<open>The fields pydantic reads from a JSON value, \<open>Inl\<close> its problems.\<close>

record decoders =
  dec_proposal :: "pyval \<Rightarrow> string + plan_proposal"
  dec_review :: "pyval \<Rightarrow> string + reviewed_plan"
  dec_verification :: "pyval \<Rightarrow> string + verification"
  dec_recovery :: "pyval \<Rightarrow> string + recovery_plan"

section \<open>The shared turn\<close>

definition render_context :: "task \<Rightarrow> working_memory \<Rightarrow> 'w registry \<Rightarrow> bool \<Rightarrow> string list" where
  "render_context t wm r include_observations =
     [''OBJECTIVE'' @ line_feed @ o_text (t_objective t),
      ''RISK CEILING'' @ line_feed @ ''Steps above `'' @ risk_value (o_max_risk (t_objective t)) @ ''` will be refused by policy.'',
      ''AVAILABLE TOOLS'' @ line_feed @ catalogue (Some (o_max_risk (t_objective t))) r]
     @ (if wm_facts wm = [] then [] else [''KNOWN FACTS'' @ line_feed @ render_facts wm])
     @ (if include_observations
        then [''OBSERVATIONS'' @ line_feed @ render_observations (int MAX_OBSERVATIONS) wm] else [])"

definition paragraphs :: "string list \<Rightarrow> string" where
  "paragraphs = py_join (line_feed @ line_feed)"

text \<open>\<open>_ask\<close>: on an exception of the provider the count of calls is not raised.\<close>

definition ask_agent ::
  "('m, 'w) brain_env \<Rightarrow> agent_role \<Rightarrow> (pyval \<Rightarrow> string + 'a) \<Rightarrow> string \<Rightarrow> string \<Rightarrow> ('m, 'w, 'a \<times> time) act" where
  "ask_agent ev role validate schema user_prompt s =
     (let (r, took, m) = generate_structured (ev_provider ev) validate schema
            [chat_system (ev_system ev role), chat_user user_prompt] 1 (br_model s);
          s1 = s\<lparr>br_model := m, br_plane := tick took (br_plane s)\<rparr> in
      case r of
        Inl e \<Rightarrow> (Inl e, s1)
      | Inr x \<Rightarrow> (Inr (x, max 0 took),
          s1\<lparr>br_task := (br_task s1)\<lparr>t_model_calls := Suc (t_model_calls (br_task s1))\<rparr>\<rparr>))"

definition fresh_id :: "('m, 'w, string) act" where
  "fresh_id s = (let (i, pl) = new_id (br_plane s) in (Inr i, s\<lparr>br_plane := pl\<rparr>))"

definition decide ::
  "('m, 'w) brain_env \<Rightarrow> agent_role \<Rightarrow> string \<Rightarrow> string \<Rightarrow> rat \<Rightarrow> string list \<Rightarrow> time \<Rightarrow> ('m, 'w, agent_decision) act" where
  "decide ev role decision reasoning confidence concerns duration =
     andthen fresh_id (\<lambda>i. reading (\<lambda>s. lift_sum (make_agent_decision
       \<lparr>d_id = i, d_task_id = t_id (br_task s), d_role = role, d_created_at = pl_now (br_plane s),
        d_decision = decision, d_confidence = confidence, d_reasoning = reasoning, d_concerns = concerns,
        d_model = Some (pv_model (ev_provider ev)), d_provider = Some (pv_name (ev_provider ev)),
        d_duration_ms = duration\<rparr>)))"

text \<open>The plan an agent hands over: one step per proposed step, with fresh identifiers.\<close>

fun plan_steps :: "nat \<Rightarrow> proposed_step list \<Rightarrow> ('m, 'w, plan_step list) act" where
  "plan_steps i [] = ret []"
| "plan_steps i (p # ps) =
     andthen fresh_id (\<lambda>j. andthen (plan_steps (Suc i) ps) (\<lambda>rest. ret
       (\<lparr>s_id = j, s_index = i, s_intent = ps_intent p, s_tool_name = ps_tool p, s_arguments = ps_arguments p,
         s_expected_risk = ps_expected_risk p, s_expected_side_effects = ps_side_effects p,
         s_success_criteria = ps_success_criteria p, s_rollback_hint = ps_rollback_hint p\<rparr> # rest)))"

definition build_plan ::
  "agent_role \<Rightarrow> string \<Rightarrow> proposed_step list \<Rightarrow> nat \<Rightarrow> bool \<Rightarrow> string option \<Rightarrow> ('m, 'w, plan) act" where
  "build_plan author reasoning steps revision approved notes =
     andthen (plan_steps 0 steps) (\<lambda>ss. andthen fresh_id (\<lambda>i. reading (\<lambda>s. lift_sum (make_plan
       \<lparr>p_id = i, p_task_id = t_id (br_task s), p_author = author, p_created_at = pl_now (br_plane s),
        p_reasoning = reasoning, p_steps = ss, p_revision = revision, p_approved = approved, p_review_notes = notes\<rparr>))))"

section \<open>Brahma\<close>

definition brahma_prompt :: "task \<Rightarrow> working_memory \<Rightarrow> 'w registry \<Rightarrow> nat \<Rightarrow> string option \<Rightarrow> string" where
  "brahma_prompt t wm r max_steps feedback = paragraphs (
     [paragraphs (render_context t wm r (has_observations wm)),
      ''CONSTRAINTS'' @ line_feed @ ''- At most '' @ str_nat max_steps @ '' steps.'' @ line_feed @
      ''- Steps above `'' @ risk_value (o_max_risk (t_objective t)) @ ''` will be refused outright.'' @ line_feed @
      ''- Dry run: '' @ (if o_dry_run (t_objective t) then ''True'' else ''False'')]
     @ (case feedback of None \<Rightarrow> [] | Some f \<Rightarrow> if f = [] then [] else
         [''PREVIOUS ATTEMPT'' @ line_feed @ ''Your last plan was not accepted. Address this before proposing again:'' @ line_feed @ f])
     @ [''TASK'' @ line_feed @ ''Produce a PlanProposal. Use only listed tools and their exact argument names.''])"

definition brahma_plan ::
  "('m, 'w) brain_env \<Rightarrow> decoders \<Rightarrow> nat \<Rightarrow> string option \<Rightarrow> ('m, 'w, plan \<times> agent_decision) act" where
  "brahma_plan ev dc max_steps feedback = reading (\<lambda>s.
     andthen (ask_agent ev BRAHMA (\<lambda>v. ebind (dec_proposal dc v) check_proposal) ''PlanProposal''
         (brahma_prompt (br_task s) (br_memory s) (ex_registry (ev_executor ev)) max_steps feedback)) (\<lambda>(p, took).
     andthen (build_plan BRAHMA (pp_reasoning p) (take max_steps (pp_steps p)) (t_replan_count (br_task s)) False None) (\<lambda>plan.
     andthen (decide ev BRAHMA ''continue'' (pp_reasoning p) (3/5) (pp_side_effects p) took) (\<lambda>d. ret (plan, d)))))"

section \<open>Vishnu\<close>

definition plan_lines :: "plan_step \<Rightarrow> string list" where
  "plan_lines st =
     [str_nat (Suc (s_index st)) @ ''. '' @ s_intent st @ '' [tool='' @ s_tool_name st @ '' args='' @ json_dumps (PDict (s_arguments st)) @ '']'']
     @ (case s_success_criteria st of None \<Rightarrow> [] | Some c \<Rightarrow> if c = [] then [] else [''   success: '' @ c])
     @ (if s_expected_side_effects st = [] then [] else [''   side effects: '' @ py_join '', '' (s_expected_side_effects st)])"

definition render_plan :: "plan \<Rightarrow> string" where
  "render_plan p = (if p_steps p = [] then ''(empty plan)'' else py_join line_feed (concat (map plan_lines (p_steps p))))"

definition review_prompt :: "task \<Rightarrow> working_memory \<Rightarrow> 'w registry \<Rightarrow> plan \<Rightarrow> string" where
  "review_prompt t wm r p = paragraphs
     [paragraphs (render_context t wm r (has_observations wm)),
      ''PROPOSED PLAN'' @ line_feed @ ''Brahma'' @ [CHR 0x27] @ ''s reasoning: '' @ p_reasoning p @ line_feed @ render_plan p,
      ''TASK'' @ line_feed @ ''Produce a ReviewedPlan. `steps` is the plan you are willing to run: '' @
      ''copy the steps you accept, drop the ones you do not, keep their order. '' @
      ''Set approved=false only if the plan cannot be fixed by removing steps.'']"

definition vishnu_review :: "('m, 'w) brain_env \<Rightarrow> decoders \<Rightarrow> plan \<Rightarrow> ('m, 'w, plan \<times> agent_decision) act" where
  "vishnu_review ev dc p = reading (\<lambda>s.
     andthen (ask_agent ev VISHNU (\<lambda>v. ebind (dec_review dc v) check_review) ''ReviewedPlan''
         (review_prompt (br_task s) (br_memory s) (ex_registry (ev_executor ev)) p)) (\<lambda>(review, took).
     andthen (build_plan VISHNU (rp_reasoning review) (rp_steps review) (p_revision p)
         (rp_approved review \<and> rp_steps review \<noteq> []) (Some (rp_reasoning review))) (\<lambda>reviewed.
     andthen (decide ev VISHNU (if p_approved reviewed then ''continue'' else ''replan'') (rp_reasoning review)
         (if p_approved reviewed then 7/10 else 3/10) (rp_concerns review) took) (\<lambda>d. ret (reviewed, d)))))"

definition verify_prompt :: "task \<Rightarrow> working_memory \<Rightarrow> 'w registry \<Rightarrow> string" where
  "verify_prompt t wm r = paragraphs
     [paragraphs (render_context t wm r True),
      ''TASK'' @ line_feed @ ''Produce a Verification. Decide from the observations alone whether the objective is satisfied.'' @ line_feed @
      ''- `complete`: the objective is answered; write the answer in `conclusion`.'' @ line_feed @
      ''- `continue`: more of the current plan is needed.'' @ line_feed @
      ''- `replan`: the approach was wrong; a new plan is needed.'' @ line_feed @
      ''- `rollback`: something was changed and should be undone.'' @ line_feed @
      ''- `abort`: the objective cannot be satisfied; explain why in `conclusion`.'']"

definition vishnu_verify :: "('m, 'w) brain_env \<Rightarrow> decoders \<Rightarrow> ('m, 'w, verification \<times> agent_decision) act" where
  "vishnu_verify ev dc = reading (\<lambda>s.
     andthen (ask_agent ev VISHNU (\<lambda>v. ebind (dec_verification dc v) check_verification) ''Verification''
         (verify_prompt (br_task s) (br_memory s) (ex_registry (ev_executor ev)))) (\<lambda>(v, took).
     andthen (decide ev VISHNU (verdict_value (vf_decision v)) (vf_reasoning v) (vf_confidence v) (vf_concerns v) took) (\<lambda>d.
     ret (v, d))))"

section \<open>Mahesh\<close>

definition executed_lines :: "plan_step list \<Rightarrow> string" where
  "executed_lines steps = (if steps = [] then ''(no steps were executed)'' else py_join line_feed
     (map (\<lambda>(i, st). str_nat (Suc i) @ ''. '' @ s_tool_name st @ '' - '' @ s_intent st @
        (case s_rollback_hint st of None \<Rightarrow> [] | Some h \<Rightarrow> if h = [] then [] else '' (rollback hint: '' @ h @ '')''))
      (enumerate 0 steps)))"

definition recover_prompt :: "task \<Rightarrow> working_memory \<Rightarrow> 'w registry \<Rightarrow> string \<Rightarrow> plan_step list \<Rightarrow> string" where
  "recover_prompt t wm r reason steps = paragraphs
     [paragraphs (render_context t wm r True), ''FAILURE'' @ line_feed @ reason,
      ''STEPS THAT RAN'' @ line_feed @ executed_lines steps,
      ''TASK'' @ line_feed @ ''Produce a RecoveryPlan. Diagnose first. Propose steps only for '' @
      ''changes you can see were made. If nothing was changed, return no steps and say so in the diagnosis.'']"

definition mahesh_recover ::
  "('m, 'w) brain_env \<Rightarrow> decoders \<Rightarrow> string \<Rightarrow> plan_step list \<Rightarrow> ('m, 'w, plan \<times> recovery_plan \<times> agent_decision) act" where
  "mahesh_recover ev dc reason steps = reading (\<lambda>s.
     andthen (ask_agent ev MAHESH (\<lambda>v. ebind (dec_recovery dc v) check_recovery) ''RecoveryPlan''
         (recover_prompt (br_task s) (br_memory s) (ex_registry (ev_executor ev)) reason steps)) (\<lambda>(rc, took).
     andthen (build_plan MAHESH (rc_diagnosis rc) (rc_steps rc) (t_replan_count (br_task s)) False None) (\<lambda>plan.
     andthen (decide ev MAHESH (if rc_recoverable rc \<and> p_steps plan \<noteq> [] then ''rollback'' else ''abort'') (rc_diagnosis rc)
         (if rc_recoverable rc then 1/2 else 1/5)
         (if rc_recoverable rc then [] else [''automatic recovery is not possible'']) took) (\<lambda>d. ret (plan, rc, d)))))"

section \<open>What an agent leaves alone\<close>

text \<open>
  A relation that a turn of the provider, a counted call and a fresh identifier respect is
  respected by every agent.
\<close>

locale agent_relation = brain_relation R for R :: "('m, 'w) brain \<Rightarrow> ('m, 'w) brain \<Rightarrow> bool" +
  assumes R_turn: "R s (s\<lparr>br_model := m, br_plane := tick took (br_plane s)\<rparr>)"
    and R_called: "R s (s\<lparr>br_task := (br_task s)\<lparr>t_model_calls := n\<rparr>\<rparr>)"
    and R_fresh: "R s (s\<lparr>br_plane := snd (new_id (br_plane s))\<rparr>)"
begin

lemma moves_ask: "moves R (ask_agent ev role validate schema user_prompt)"
proof -
  have "R s (snd (ask_agent ev role validate schema user_prompt s))" for s
  proof -
    obtain r took m where g: "generate_structured (ev_provider ev) validate schema
            [chat_system (ev_system ev role), chat_user user_prompt] (Suc 0) (br_model s) = (r, took, m)"
      by (cases "generate_structured (ev_provider ev) validate schema
            [chat_system (ev_system ev role), chat_user user_prompt] 1 (br_model s)") auto
    show ?thesis
      using R_turn [where s = s] R_trans [OF R_turn [where s = s] R_called]
      by (cases r) (simp_all add: ask_agent_def g Let_def)
  qed
  then show ?thesis by (simp add: moves_def)
qed

lemma moves_fresh: "moves R fresh_id"
  using R_fresh by (simp add: moves_def fresh_id_def Let_def split_beta)

lemma moves_decide: "moves R (decide ev role decision reasoning confidence concerns duration)"
  unfolding decide_def by (intro moves_structure moves_fresh)

lemma moves_plan_steps: "moves R (plan_steps i ps)"
  by (induction ps arbitrary: i) (auto intro!: moves_structure moves_fresh)

lemma moves_build_plan: "moves R (build_plan author reasoning steps revision approved notes)"
  unfolding build_plan_def by (intro moves_structure moves_fresh moves_plan_steps)

lemma moves_agents:
  "moves R (brahma_plan ev dc max_steps feedback)" "moves R (vishnu_review ev dc p)"
  "moves R (vishnu_verify ev dc)" "moves R (mahesh_recover ev dc reason steps)"
  unfolding brahma_plan_def vishnu_review_def vishnu_verify_def mahesh_recover_def
  by (intro moves_structure moves_ask moves_decide moves_build_plan)+

end

section \<open>Lemmas on the shapes\<close>

lemma check_all_steps_Inr: "check_all_steps ps = Inr qs \<Longrightarrow> length qs = length ps \<and> list_all (\<lambda>q. \<exists>p. check_step p = Inr q) qs"
  by (induction ps arbitrary: qs) auto

definition well_named :: "string \<Rightarrow> bool" where
  "well_named t \<longleftrightarrow> t \<noteq> [] \<and> list_all (\<lambda>c. alnum_char c \<or> c = CHR ''.'' \<or> c = CHR ''_'') t"

lemma clean_tool_name_named: "clean_tool_name v = Some t \<Longrightarrow> well_named t"
  by (auto simp: clean_tool_name_def Let_def py_isalnum_def remove_char_def well_named_def list_all_iff split: if_splits)

lemma check_step_named: "check_step p = Inr q \<Longrightarrow> well_named (ps_tool q) \<and> ps_intent q \<noteq> [] \<and> length (ps_intent q) \<le> 500"
  by (auto simp: check_step_def clean_tool_name_named split: if_splits option.splits)

end
