(* ===== verification/Brain_Orchestrator.thy ===== *)
theory Brain_Orchestrator
  imports Agents
begin

text \<open>
  \<open>brain/orchestrator.py\<close>: one objective from statement to conclusion. Every loop of \<open>_drive\<close> is one
  \<open>cycle\<close>; \<open>drive\<close> repeats it while a cycle asks for another, which costs a replan. Log lines are
  not modelled.
\<close>

section \<open>One step\<close>

definition run_call ::
  "('m, 'w) brain_env \<Rightarrow> plan_step \<Rightarrow> string \<Rightarrow> ('m, 'w, outcome) act" where
  "run_call ev st i s =
     (let ob = t_objective (br_task s);
          call = \<lparr>c_id = i, c_task_id = t_id (br_task s), c_step_id = Some (s_id st), c_tool_name = s_tool_name st,
            c_arguments = s_arguments st, c_actor = ''agent:'' @ role_value BRAHMA, c_identity = o_identity ob,
            c_requested_at = pl_now (br_plane s), c_risk_level = s_expected_risk st, c_approval_state = None,
            c_approval_id = None, c_policy_decision = None, c_policy_rule = None\<rparr>;
          (r, pl, w) = execute (ev_executor ev) call (o_max_risk ob) (o_dry_run ob) None (br_plane s) (br_world s);
          s1 = s\<lparr>br_plane := pl, br_world := w\<rparr>
      in case r of Inl e \<Rightarrow> (Inl e, s1) | Inr oc \<Rightarrow> (Inr oc, s1\<lparr>br_executed := br_executed s1 @ [oc]\<rparr>))"

definition observe :: "('m, 'w) brain_env \<Rightarrow> plan_step \<Rightarrow> outcome \<Rightarrow> string \<Rightarrow> ('m, 'w, unit) act" where
  "observe ev st oc i s =
     (case note_result (oc_result oc) (Some (s_tool_name st)) i (pl_now (br_plane s)) (br_memory s) of
        (Inl e, wm) \<Rightarrow> (Inl e, s\<lparr>br_memory := wm\<rparr>)
      | (Inr ob, wm) \<Rightarrow> (Inr (), s\<lparr>br_memory := wm,
          br_plane := (if ev_episodic ev then remember ob (br_plane s) else br_plane s)\<rparr>))"

definition execute_step :: "('m, 'w) brain_env \<Rightarrow> plan_step \<Rightarrow> ('m, 'w, outcome) act" where
  "execute_step ev st =
     andthen fresh_id (\<lambda>i. andthen (run_call ev st i) (\<lambda>oc.
     andthen fresh_id (\<lambda>j. andthen (observe ev st oc j) (\<lambda>_. ret oc))))"

text \<open>The loop over the reviewed steps: what was executed so far and the last failure.\<close>

fun run_steps ::
  "('m, 'w) brain_env \<Rightarrow> plan_step list \<Rightarrow> plan_step list \<Rightarrow> string option \<Rightarrow> ('m, 'w, plan_step list \<times> string option) act" where
  "run_steps ev [] done failure = ret (done, failure)"
| "run_steps ev (st # sts) done failure = reading (\<lambda>s.
     case check_all (pl_now (br_plane s)) (br_budget s) of
       Some e \<Rightarrow> andthen (update (\<lambda>s. s\<lparr>br_stopped := Some (err_message e)\<rparr>)) (\<lambda>_. ret (done, Some (err_message e)))
     | None \<Rightarrow>
         andthen (execute_step ev st) (\<lambda>oc.
         andthen (upd_budget (record_step (r_success (oc_result oc)))) (\<lambda>_.
           if \<not> r_success (oc_result oc) \<and> pv_decision (oc_verdict oc) = DENY
           then ret (done @ [st], r_error (oc_result oc))
           else run_steps ev sts (done @ [st]) (if r_success (oc_result oc) then failure else r_error (oc_result oc)))))"

section \<open>Phases of a cycle\<close>

definition publish_decision :: "agent_decision \<Rightarrow> ('m, 'w, unit) act" where
  "publish_decision d = emitting AGENT_DECIDED (role_value (d_role d))
     (\<lambda>_. [(''decision'', PStr (d_decision d)), (''confidence'', PFloat (d_confidence d)),
           (''reasoning'', PStr (take 1000 (d_reasoning d))), (''concerns'', PList (map PStr (d_concerns d))),
           (''duration_ms'', pms (d_duration_ms d))])"

text \<open>\<open>budget.record_model_call(); outcome.decisions.append(d); await self._publish_decision(d, task)\<close>.\<close>

definition count_turn :: "agent_decision \<Rightarrow> ('m, 'w, unit) act" where
  "count_turn d = andthen (upd_budget record_model_call) (\<lambda>_.
     andthen (update (\<lambda>s. s\<lparr>br_decisions := br_decisions s @ [d]\<rparr>)) (\<lambda>_. publish_decision d))"

definition plan_phase :: "('m, 'w) brain_env \<Rightarrow> decoders \<Rightarrow> string option \<Rightarrow> ('m, 'w, plan) act" where
  "plan_phase ev dc feedback = andthen (transition PLANNING) (\<lambda>_. reading (\<lambda>s.
     andthen (brahma_plan ev dc (max 1 (bg_max_plan_steps (br_budget s) - bg_steps (br_budget s))) feedback) (\<lambda>(plan, d).
     andthen (count_turn d) (\<lambda>_.
     andthen (emitting PLAN_CREATED ''brahma''
        (\<lambda>_. [(''plan_id'', PStr (p_id plan)), (''steps'', PInt (int (length (p_steps plan)))),
              (''revision'', PInt (int (p_revision plan))), (''max_risk'', PStr (risk_value (plan_max_risk plan)))])) (\<lambda>_.
     ret plan)))))"

definition review_phase :: "('m, 'w) brain_env \<Rightarrow> decoders \<Rightarrow> plan \<Rightarrow> ('m, 'w, plan) act" where
  "review_phase ev dc plan =
     andthen (vishnu_review ev dc plan) (\<lambda>(reviewed, d).
     andthen (count_turn d) (\<lambda>_.
     andthen (update (\<lambda>s. s\<lparr>br_memory := add_plan reviewed (br_memory s),
        br_task := (br_task s)\<lparr>t_plan_id := Some (p_id reviewed)\<rparr>\<rparr>)) (\<lambda>_. ret reviewed)))"

definition verify_phase :: "('m, 'w) brain_env \<Rightarrow> decoders \<Rightarrow> ('m, 'w, verification) act" where
  "verify_phase ev dc = andthen (transition VERIFYING) (\<lambda>_.
     andthen (vishnu_verify ev dc) (\<lambda>(v, d). andthen (count_turn d) (\<lambda>_. ret v)))"

text \<open>\<open>x or y\<close> on strings.\<close>

definition str_or :: "string \<Rightarrow> string \<Rightarrow> string" where
  "str_or x y = (if x = [] then y else x)"

definition notes_or :: "plan \<Rightarrow> string \<Rightarrow> string" where
  "notes_or p y = (case p_review_notes p of None \<Rightarrow> y | Some n \<Rightarrow> str_or n y)"

section \<open>Endings\<close>

definition complete_task :: "verification \<Rightarrow> ('m, 'w, unit) act" where
  "complete_task v =
     andthen (update (\<lambda>s. s\<lparr>br_task := (br_task s)\<lparr>t_summary := Some (str_or (vf_conclusion v) (vf_reasoning v))\<rparr>\<rparr>)) (\<lambda>_.
     andthen (transition COMPLETED) (\<lambda>_.
     andthen (update (\<lambda>s. s\<lparr>br_conclusion := str_or (vf_conclusion v) (vf_reasoning v), br_succeeded := True\<rparr>)) (\<lambda>_.
     emitting TASK_COMPLETED ''orchestrator''
       (\<lambda>s. [(''success'', PBool True), (''duration_ms'', pms (duration_seconds (pl_now (br_plane s)) (br_task s))),
             (''steps_executed'', PInt (int (bg_steps (br_budget s)))), (''confidence'', PFloat (vf_confidence v))]))))"

definition failure_summary :: "working_memory \<Rightarrow> string \<Rightarrow> string" where
  "failure_summary wm reason = py_join line_feed (
     [''Task did not complete: '' @ reason]
     @ (if has_observations wm
        then [[], str_nat (length (wm_observations wm)) @ '' observation(s) were collected before stopping:'']
             @ map (\<lambda>ob. ''- '' @ ob_source ob @ '' ('' @ (if ob_success ob then ''ok'' else ''failed'') @ ''): '' @ take 300 (ob_content ob))
                 (py_last 3 (wm_observations wm))
        else []))"

definition fail_task :: "string \<Rightarrow> ('m, 'w, unit) act" where
  "fail_task reason =
     andthen (update (\<lambda>s. s\<lparr>br_task := (br_task s)\<lparr>t_error := Some reason,
        t_summary := Some (failure_summary (br_memory s) reason)\<rparr>\<rparr>)) (\<lambda>_.
     andthen (reading (\<lambda>s. if is_terminal (t_state (br_task s)) then ret () else transition FAILED)) (\<lambda>_.
     andthen (update (\<lambda>s. s\<lparr>br_conclusion := or_else (t_summary (br_task s)) [], br_succeeded := False\<rparr>)) (\<lambda>_.
     emitting TASK_FAILED ''orchestrator''
       (\<lambda>s. [(''success'', PBool False), (''error'', PStr reason), (''steps_executed'', PInt (int (bg_steps (br_budget s))))]))))"

text \<open>The loop over the recovery steps; the value counts those that succeeded.\<close>

fun recovery_steps :: "('m, 'w) brain_env \<Rightarrow> plan_step list \<Rightarrow> nat \<Rightarrow> ('m, 'w, nat) act" where
  "recovery_steps ev [] n = ret n"
| "recovery_steps ev (st # sts) n = reading (\<lambda>s.
     case orelse_check (check_time (pl_now (br_plane s)) (br_budget s)) (check_steps (br_budget s)) of
       Some e \<Rightarrow> ret n
     | None \<Rightarrow>
         andthen (execute_step ev st) (\<lambda>oc.
         andthen (upd_budget (record_step (r_success (oc_result oc)))) (\<lambda>_.
         recovery_steps ev sts (if r_success (oc_result oc) then Suc n else n))))"

definition recovery_summary :: "recovery_plan \<Rightarrow> plan \<Rightarrow> nat \<Rightarrow> string" where
  "recovery_summary rc plan n =
     (if p_steps plan \<noteq> [] then rc_diagnosis rc @ line_feed @ line_feed @ ''Recovery: '' @ str_nat n @ '' of '' @
        str_nat (length (p_steps plan)) @ '' steps completed.''
      else rc_diagnosis rc)"

definition rollback :: "('m, 'w) brain_env \<Rightarrow> decoders \<Rightarrow> string \<Rightarrow> plan_step list \<Rightarrow> ('m, 'w, unit) act" where
  "rollback ev dc reason executed_steps =
     andthen (transition ROLLING_BACK) (\<lambda>_.
     andthen (emitting ROLLBACK_STARTED ''mahesh'' (\<lambda>_. [(''reason'', PStr reason)])) (\<lambda>_.
     andthen (mahesh_recover ev dc reason executed_steps) (\<lambda>(plan, rc, d).
     andthen (count_turn d) (\<lambda>_.
     andthen (recovery_steps ev (p_steps plan) 0) (\<lambda>n.
     andthen (emitting ROLLBACK_COMPLETED ''mahesh''
        (\<lambda>_. [(''recoverable'', PBool (rc_recoverable rc)), (''steps_attempted'', PInt (int (length (p_steps plan)))),
              (''steps_succeeded'', PInt (int n))])) (\<lambda>_.
     andthen (update (\<lambda>s. s\<lparr>br_task := (br_task s)\<lparr>t_error := Some reason, t_summary := Some (recovery_summary rc plan n)\<rparr>\<rparr>)) (\<lambda>_.
     andthen (transition FAILED) (\<lambda>_.
     andthen (update (\<lambda>s. s\<lparr>br_conclusion := recovery_summary rc plan n, br_succeeded := False\<rparr>)) (\<lambda>_.
     emitting TASK_FAILED ''orchestrator''
       (\<lambda>_. [(''success'', PBool False), (''error'', PStr reason), (''rolled_back'', PBool True)]))))))))))"

section \<open>The loop\<close>

text \<open>What follows the verification: \<open>None\<close> is a return, \<open>Some\<close> the feedback of a replan.\<close>

definition conclude ::
  "('m, 'w) brain_env \<Rightarrow> decoders \<Rightarrow> verification \<Rightarrow> plan_step list \<Rightarrow> string option \<Rightarrow> ('m, 'w, string option) act" where
  "conclude ev dc v executed_steps failure =
     (case vf_decision v of
        V_COMPLETE \<Rightarrow> andthen (complete_task v) (\<lambda>_. ret None)
      | V_ABORT \<Rightarrow> andthen (fail_task (str_or (vf_conclusion v) ''aborted by verification'')) (\<lambda>_. ret None)
      | V_ROLLBACK \<Rightarrow> andthen (rollback ev dc (case failure of None \<Rightarrow> vf_reasoning v | Some f \<Rightarrow> str_or f (vf_reasoning v))
          executed_steps) (\<lambda>_. ret None)
      | _ \<Rightarrow> ret (Some (''Verification returned '' @ [CHR 0x27] @ verdict_value (vf_decision v) @ [CHR 0x27] @ '': '' @ vf_reasoning v @
          (case failure of None \<Rightarrow> [] | Some f \<Rightarrow> if f = [] then [] else '' Last failure: '' @ f))))"

definition cycle_body :: "('m, 'w) brain_env \<Rightarrow> decoders \<Rightarrow> string option \<Rightarrow> ('m, 'w, string option) act" where
  "cycle_body ev dc feedback =
     andthen (checked check_time) (\<lambda>_.
     andthen (checked (\<lambda>_. check_model_calls)) (\<lambda>_.
     andthen (plan_phase ev dc feedback) (\<lambda>plan.
     andthen (review_phase ev dc plan) (\<lambda>reviewed.
       if \<not> p_approved reviewed \<or> p_steps reviewed = [] then
         andthen (emitting PLAN_REJECTED ''vishnu''
            (\<lambda>_. [(''plan_id'', PStr (p_id reviewed)), (''reason'', PStr (notes_or reviewed ''no acceptable steps''))])) (\<lambda>_.
         ret (Some (''Vishnu rejected the plan: '' @ notes_or reviewed ''no reason given'')))
       else
         andthen (emitting PLAN_APPROVED ''vishnu''
            (\<lambda>_. [(''plan_id'', PStr (p_id reviewed)), (''steps'', PInt (int (length (p_steps reviewed))))])) (\<lambda>_.
         andthen (transition EXECUTING) (\<lambda>_.
         andthen (run_steps ev (p_steps reviewed) [] None) (\<lambda>(executed_steps, failure).
         andthen (verify_phase ev dc) (\<lambda>v. conclude ev dc v executed_steps failure))))))))"

definition replan :: "('m, 'w, unit) act" where
  "replan = andthen (checked (\<lambda>_. check_replans)) (\<lambda>_.
     andthen (upd_budget record_replan) (\<lambda>_.
     update (\<lambda>s. s\<lparr>br_task := (br_task s)\<lparr>t_replan_count := Suc (t_replan_count (br_task s))\<rparr>\<rparr>)))"

definition cycle :: "('m, 'w) brain_env \<Rightarrow> decoders \<Rightarrow> string option \<Rightarrow> ('m, 'w, string option) act" where
  "cycle ev dc feedback = andthen (cycle_body ev dc feedback) (\<lambda>next_feedback.
     case next_feedback of None \<Rightarrow> ret None | Some f \<Rightarrow> andthen replan (\<lambda>_. ret (Some f)))"

section \<open>What every part of a run respects\<close>

text \<open>
  What a relation needs so that the parts of a run respect it, in layers: \<open>event_relation\<close> for
  events and what the orchestrator keeps for its report, \<open>call_relation\<close> for an executed step,
  \<open>report_relation\<close> for legal transitions and the texts of the endings, and \<open>run_relation\<close>, which
  also tolerates the counters going up, for a whole cycle.
\<close>

locale event_relation = agent_relation R for R :: "('m, 'w) brain \<Rightarrow> ('m, 'w) brain \<Rightarrow> bool" +
  assumes R_emit: "R s (s\<lparr>br_plane := plane_emit ty t c i p (br_plane s)\<rparr>)"
    and R_remember: "R s (s\<lparr>br_plane := remember ob (br_plane s)\<rparr>)"
    and R_memory: "R s (s\<lparr>br_memory := wm\<rparr>)"
    and R_decisions: "R s (s\<lparr>br_decisions := ds\<rparr>)"
    and R_stopped: "R s (s\<lparr>br_stopped := x\<rparr>)"
    and R_plan_id: "R s (s\<lparr>br_task := (br_task s)\<lparr>t_plan_id := x'\<rparr>\<rparr>)"
begin

lemma moves_emitting: "moves R (emitting ty c p)"
  unfolding emitting_def by (rule moves_update) (rule R_emit)

lemma moves_publish: "moves R (publish_decision d)"
  unfolding publish_decision_def by (rule moves_emitting)

lemma moves_note_decision: "moves R (update (\<lambda>s. s\<lparr>br_decisions := br_decisions s @ [d]\<rparr>))"
  by (rule moves_update) (rule R_decisions)

lemma moves_stop: "moves R (update (\<lambda>s. s\<lparr>br_stopped := x\<rparr>))"
  by (rule moves_update) (rule R_stopped)

lemma moves_add_plan:
  "moves R (update (\<lambda>s. s\<lparr>br_memory := add_plan p (br_memory s), br_task := (br_task s)\<lparr>t_plan_id := x'\<rparr>\<rparr>))"
proof (rule moves_update)
  fix s
  have "R (s\<lparr>br_memory := add_plan p (br_memory s)\<rparr>)
      (s\<lparr>br_memory := add_plan p (br_memory s), br_task := (br_task s)\<lparr>t_plan_id := x'\<rparr>\<rparr>)"
    using R_plan_id [of "s\<lparr>br_memory := add_plan p (br_memory s)\<rparr>"] by simp
  with R_memory show "R s (s\<lparr>br_memory := add_plan p (br_memory s), br_task := (br_task s)\<lparr>t_plan_id := x'\<rparr>\<rparr>)"
    using R_trans by blast
qed

lemma moves_observe: "moves R (observe ev st oc i)"
proof -
  have "R s (snd (observe ev st oc i s))" for s
  proof -
    obtain r wm where n: "note_result (oc_result oc) (Some (s_tool_name st)) i (pl_now (br_plane s)) (br_memory s) = (r, wm)"
      by (cases "note_result (oc_result oc) (Some (s_tool_name st)) i (pl_now (br_plane s)) (br_memory s)")
    have "R (s\<lparr>br_memory := wm\<rparr>) (s\<lparr>br_memory := wm, br_plane := remember ob (br_plane s)\<rparr>)" for ob
      using R_remember [of "s\<lparr>br_memory := wm\<rparr>"] by simp
    with R_memory R_trans have "R s (s\<lparr>br_memory := wm, br_plane := remember ob (br_plane s)\<rparr>)" for ob by blast
    with R_memory [of s wm] show ?thesis by (cases r) (simp_all add: observe_def n)
  qed
  then show ?thesis by (simp add: moves_def)
qed

end

locale call_relation = event_relation R for R :: "('m, 'w) brain \<Rightarrow> ('m, 'w) brain \<Rightarrow> bool" +
  fixes ev :: "('m, 'w) brain_env"
  assumes R_call: "run_call ev step j s = (r, s') \<Longrightarrow> R s s'"
begin

lemma moves_run_call: "moves R (run_call ev st i)"
  unfolding moves_def using R_call by (metis prod.collapse)

lemma moves_execute_step: "moves R (execute_step ev st)"
  unfolding execute_step_def by (intro moves_structure moves_fresh moves_run_call moves_observe)

end

locale report_relation = event_relation R for R :: "('m, 'w) brain \<Rightarrow> ('m, 'w) brain \<Rightarrow> bool" +
  assumes R_transition: "transition_to now target (br_task s) = Inr t \<Longrightarrow> R s (s\<lparr>br_task := t\<rparr>)"
    and R_report: "R s (s\<lparr>br_task := (br_task s)\<lparr>t_error := e, t_summary := m\<rparr>\<rparr>)"
      "R s (s\<lparr>br_task := (br_task s)\<lparr>t_replan_count := n\<rparr>\<rparr>)" "R s (s\<lparr>br_conclusion := c, br_succeeded := b\<rparr>)"
begin

lemma moves_transition: "moves R (transition target)"
  unfolding moves_def transition_def by (auto simp: R_refl R_transition split: sum.splits)

lemma moves_report:
  "moves R (update (\<lambda>s. s\<lparr>br_task := (br_task s)\<lparr>t_error := e, t_summary := m s\<rparr>\<rparr>))"
  "moves R (update (\<lambda>s. s\<lparr>br_task := (br_task s)\<lparr>t_summary := m s\<rparr>\<rparr>))"
  "moves R (update (\<lambda>s. s\<lparr>br_task := (br_task s)\<lparr>t_replan_count := n s\<rparr>\<rparr>))"
  "moves R (update (\<lambda>s. s\<lparr>br_conclusion := c s, br_succeeded := b\<rparr>))"
proof -
  have "R s (s\<lparr>br_task := (br_task s)\<lparr>t_summary := m s\<rparr>\<rparr>)" for s
    using R_report(1) [where s = s and e = "t_error (br_task s)" and m = "m s"] by simp
  then show "moves R (update (\<lambda>s. s\<lparr>br_task := (br_task s)\<lparr>t_summary := m s\<rparr>\<rparr>))" by (rule moves_update)
qed (intro moves_update R_report)+

lemma moves_simple_endings: "moves R (complete_task v)" "moves R (fail_task reason)"
  unfolding complete_task_def fail_task_def
  by (intro moves_structure moves_transition moves_report moves_emitting)+

end

locale run_relation = call_relation R ev + report_relation R for R :: "('m, 'w) brain \<Rightarrow> ('m, 'w) brain \<Rightarrow> bool" and ev +
  assumes R_counters: "R s (s\<lparr>br_budget := record_step ok (br_budget s)\<rparr>)"
      "R s (s\<lparr>br_budget := record_model_call (br_budget s)\<rparr>)" "R s (s\<lparr>br_budget := record_replan (br_budget s)\<rparr>)"
begin

lemma moves_counters: "moves R (upd_budget (record_step ok))" "moves R (upd_budget record_model_call)"
  "moves R (upd_budget record_replan)"
  unfolding upd_budget_def by (intro moves_update R_counters)+

lemma moves_count_turn: "moves R (count_turn d)"
  unfolding count_turn_def by (intro moves_structure moves_counters moves_note_decision moves_publish)

lemma moves_run_steps: "moves R (run_steps ev sts done failure)"
proof (induction sts arbitrary: "done" failure)
  case (Cons st sts)
  show ?case unfolding run_steps.simps
    by (intro moves_structure moves_execute_step moves_counters moves_stop Cons.IH)
qed (simp add: moves_ret)

lemma moves_recovery_steps: "moves R (recovery_steps ev sts n)"
proof (induction sts arbitrary: n)
  case (Cons st sts)
  show ?case unfolding recovery_steps.simps
    by (intro moves_structure moves_execute_step moves_counters Cons.IH)
qed (simp add: moves_ret)

lemma moves_phases: "moves R (plan_phase ev dc feedback)" "moves R (review_phase ev dc plan)" "moves R (verify_phase ev dc)"
  unfolding plan_phase_def review_phase_def verify_phase_def
  by (intro moves_structure moves_transition moves_agents moves_count_turn moves_emitting moves_add_plan)+

lemma moves_rollback: "moves R (rollback ev dc reason steps)"
  unfolding rollback_def
  by (intro moves_structure moves_transition moves_report moves_emitting moves_agents moves_count_turn moves_recovery_steps)

lemma moves_conclude: "moves R (conclude ev dc v steps failure)"
  unfolding conclude_def by (cases "vf_decision v") (auto intro!: moves_structure moves_simple_endings moves_rollback)

lemma moves_cycle_body: "moves R (cycle_body ev dc feedback)"
  unfolding cycle_body_def
  by (intro moves_structure moves_phases moves_emitting moves_transition moves_run_steps moves_conclude)

lemma moves_replan: "moves R replan"
  unfolding replan_def by (intro moves_structure moves_counters moves_report)

lemma moves_cycle: "moves R (cycle ev dc feedback)"
  unfolding cycle_def by (intro moves_structure moves_cycle_body moves_replan)

end

end
