(* ===== verification/Brain_Run.thy ===== *)
theory Brain_Run
  imports Brain_Orchestrator
begin

text \<open>
  \<open>_drive\<close> and \<open>run\<close> of \<open>brain/orchestrator.py\<close>, with the two relations every part of a run respects:
  \<open>still\<close>, for what leaves the task's state and the budget alone, and \<open>evolves\<close>, for what a whole run
  may do to the machine, the trail and the record of calls. \<open>drive\<close> terminates because a cycle that
  asks for another has used up a replan.
\<close>

section \<open>What a step leaves alone\<close>

definition still :: "('m, 'w) brain \<Rightarrow> ('m, 'w) brain \<Rightarrow> bool" where
  "still s s' \<longleftrightarrow> t_state (br_task s') = t_state (br_task s) \<and> br_succeeded s' = br_succeeded s
     \<and> br_budget s' = br_budget s"

lemma run_call_frame:
  assumes "run_call ev st i s = (r, s')"
  shows "br_task s' = br_task s \<and> br_budget s' = br_budget s \<and> br_succeeded s' = br_succeeded s"
  using assms by (auto simp: run_call_def Let_def split: prod.splits sum.splits)

interpretation still: call_relation still ev for ev
  by unfold_locales (auto simp: still_def dest: run_call_frame)

section \<open>What a run may do\<close>

text \<open>
  One step of a run on the control plane and the machine together. Bookkeeping leaves the machine and
  the approvals as they are. A call carries the principal of the objective. Either it leaves the
  machine as it was (it was refused, failed, or its approval was not given), whatever it did to the
  approvals; or the machine is what one run of its tool left, and policy let it run unattended under the
  objective's ceiling and no approval changed; or policy escalated it and, between the plane before and the
  plane after, the approval requested for it was granted by the prompt and spent. \<open>P\<close> is what else is known
  of such a request and of the decision on it.
\<close>

definition gated_with ::
  "(approval_request \<Rightarrow> approval_decision \<Rightarrow> bool) \<Rightarrow> 'w executor \<Rightarrow> objective \<Rightarrow> plane \<times> 'w \<Rightarrow> plane \<times> 'w \<Rightarrow> bool" where
  "gated_with P ex ob x x' \<longleftrightarrow> (case (x, x') of ((pl, w), (pl', w')) \<Rightarrow>
     w' = w \<and> quiet pl pl'
     \<or> (\<exists>call. c_identity call = o_identity ob \<and>
         (w' = w \<and> (\<exists>tr. approval_run (ex_settings ex) pl tr pl')
          \<or> cleared ex call (o_max_risk ob) (o_dry_run ob) False w w' \<and> quiet pl pl'
          \<or> cleared ex call (o_max_risk ob) (o_dry_run ob) True w w'
            \<and> (\<exists>v q d. approved_in ex call (o_max_risk ob) (o_dry_run ob) w pl pl' v q d \<and> P q d))))"

definition gated_step :: "'w executor \<Rightarrow> objective \<Rightarrow> plane \<times> 'w \<Rightarrow> plane \<times> 'w \<Rightarrow> bool" where
  "gated_step = gated_with (\<lambda>q d. True)"

text \<open>What the prompt attached guarantees of every decision for yes is known of every approval.\<close>

lemma gated_with_prompt:
  assumes "gated_step ex ob x x'" "ex_prompt ex = Some ask" "\<And>q. dc_approved (fst (ask q)) \<Longrightarrow> P q (fst (ask q))"
  shows "gated_with P ex ob x x'"
proof -
  have "P q d" if "approved_in ex call k dry w pl pl' v q d" for call k dry w pl pl' v q d
  proof -
    from that assms(2) obtain t where "ask q = (d, t)" "dc_approved d" by (auto simp: approved_in_def)
    with assms(3) [of q] show ?thesis by simp
  qed
  with assms(1) show ?thesis unfolding gated_step_def gated_with_def by (cases x; cases x') (simp; blast)
qed

text \<open>What of it the machine alone shows.\<close>

definition cleared_step :: "'w executor \<Rightarrow> objective \<Rightarrow> 'w \<Rightarrow> 'w \<Rightarrow> bool" where
  "cleared_step ex ob w w' \<longleftrightarrow> (\<exists>call esc. c_identity call = o_identity ob
     \<and> cleared ex call (o_max_risk ob) (o_dry_run ob) esc w w' \<and> (esc \<longrightarrow> ex_prompt ex \<noteq> None))"

lemma gated_cleared:
  assumes "gated_step ex ob (pl, w) (pl', w')"
  shows "w' = w \<or> cleared_step ex ob w w'"
proof (cases "w' = w")
  case False
  with assms obtain call esc where c: "c_identity call = o_identity ob" "cleared ex call (o_max_risk ob) (o_dry_run ob) esc w w'"
    "esc \<Longrightarrow> \<exists>v q d. approved_in ex call (o_max_risk ob) (o_dry_run ob) w pl pl' v q d"
    unfolding gated_step_def gated_with_def prod.case by blast
  then have "esc \<longrightarrow> ex_prompt ex \<noteq> None" using approved_in_prompt by metis
  with c(1,2) show ?thesis unfolding cleared_step_def by blast
qed simp

lemma gated_steps_cleared: "(gated_step ex ob)\<^sup>*\<^sup>* x x' \<Longrightarrow> (cleared_step ex ob)\<^sup>*\<^sup>* (snd x) (snd x')"
proof (induction rule: rtranclp_induct)
  case (step y z)
  from gated_cleared [of ex ob "fst y" "snd y" "fst z" "snd z"] step.hyps(2)
  have "snd z = snd y \<or> cleared_step ex ob (snd y) (snd z)" by simp
  with step.IH show ?case by auto
qed simp

lemma gated_quiet: "quiet pl pl' \<Longrightarrow> gated_step ex ob (pl, w) (pl', w)"
  by (simp add: gated_step_def gated_with_def)

text \<open>An outcome of a run: made for the principal, and refused or within the ceiling.\<close>

definition outcome_ok :: "objective \<Rightarrow> outcome \<Rightarrow> bool" where
  "outcome_ok ob oc \<longleftrightarrow> c_identity (oc_call oc) = o_identity ob
     \<and> (pv_decision (oc_verdict oc) = DENY
        \<or> c_risk_level (oc_call oc) \<le> o_max_risk ob \<and> (o_dry_run ob \<longrightarrow> c_risk_level (oc_call oc) = READ))"

definition evolves :: "('m, 'w) brain_env \<Rightarrow> ('m, 'w) brain \<Rightarrow> ('m, 'w) brain \<Rightarrow> bool" where
  "evolves ev s s' \<longleftrightarrow> t_id (br_task s') = t_id (br_task s) \<and> t_objective (br_task s') = t_objective (br_task s)
     \<and> same_limits (br_budget s) (br_budget s') \<and> bg_replans (br_budget s) \<le> bg_replans (br_budget s')
     \<and> advance (br_plane s) (br_plane s')
     \<and> (gated_step (ev_executor ev) (t_objective (br_task s)))\<^sup>*\<^sup>* (br_plane s, br_world s) (br_plane s', br_world s')
     \<and> (\<exists>new. br_executed s' = br_executed s @ new \<and> list_all (outcome_ok (t_objective (br_task s))) new)"

lemma evolves_refl: "evolves ev s s"
  by (simp add: evolves_def)

lemma evolves_trans: "evolves ev s1 s2 \<Longrightarrow> evolves ev s2 s3 \<Longrightarrow> evolves ev s1 s3"
  by (auto simp: evolves_def intro: same_limits_trans advance_trans)

text \<open>What a change of the bookkeeping alone satisfies.\<close>

definition same_run :: "('m, 'w) brain \<Rightarrow> ('m, 'w) brain \<Rightarrow> bool" where
  "same_run s s' \<longleftrightarrow> t_id (br_task s') = t_id (br_task s) \<and> t_objective (br_task s') = t_objective (br_task s)
     \<and> same_limits (br_budget s) (br_budget s') \<and> bg_replans (br_budget s) \<le> bg_replans (br_budget s')
     \<and> br_world s' = br_world s \<and> br_executed s' = br_executed s"

lemma evolves_same_run: "same_run s s' \<Longrightarrow> advance (br_plane s) (br_plane s') \<Longrightarrow> quiet (br_plane s) (br_plane s') \<Longrightarrow> evolves ev s s'"
  by (simp add: evolves_def same_run_def gated_quiet r_into_rtranclp)

lemma fresh_advance: "advance pl (pl\<lparr>pl_fresh := Suc (pl_fresh pl)\<rparr>)" "quiet pl (pl\<lparr>pl_fresh := Suc (pl_fresh pl)\<rparr>)"
  by (auto simp: quiet_def intro: advance_same)

lemma remember_advance: "advance pl (remember ob pl)" "quiet pl (remember ob pl)"
  by (auto simp: quiet_def intro: advance_same)

lemma run_call_evolves:
  assumes "run_call ev st i s = (r, s')"
  shows "evolves ev s s'"
proof -
  let ?ob = "t_objective (br_task s)"
  define call where "call = \<lparr>c_id = i, c_task_id = t_id (br_task s), c_step_id = Some (s_id st), c_tool_name = s_tool_name st,
            c_arguments = s_arguments st, c_actor = ''agent:'' @ role_value BRAHMA, c_identity = o_identity ?ob,
            c_requested_at = pl_now (br_plane s), c_risk_level = s_expected_risk st, c_approval_state = None,
            c_approval_id = None, c_policy_decision = None, c_policy_rule = None\<rparr>"
  obtain r0 pl w where x: "execute (ev_executor ev) call (o_max_risk ?ob) (o_dry_run ?ob) None (br_plane s) (br_world s) = (r0, pl, w)"
    by (cases "execute (ev_executor ev) call (o_max_risk ?ob) (o_dry_run ?ob) None (br_plane s) (br_world s)")
  have s': "s' = s\<lparr>br_plane := pl, br_world := w, br_executed := br_executed s @ (case r0 of Inl e \<Rightarrow> [] | Inr oc \<Rightarrow> [oc])\<rparr>"
    using assms x unfolding call_def by (cases r0) (auto simp: run_call_def Let_def)
  have id: "c_identity call = o_identity ?ob" by (simp add: call_def)
  have "gated_step (ev_executor ev) ?ob (br_plane s, br_world s) (pl, w)"
    using execute_gated [OF x] id unfolding gated_step_def gated_with_def prod.case by blast
  then have w: "(gated_step (ev_executor ev) ?ob)\<^sup>*\<^sup>* (br_plane s, br_world s) (pl, w)" by (rule r_into_rtranclp)
  have "advance (br_plane s) pl \<and> (case r0 of Inl e \<Rightarrow> True | Inr oc \<Rightarrow> outcome_ok ?ob oc)"
    using x
  proof (cases rule: execute_ends)
    case (escaped e)
    then show ?thesis by simp
  next
    case (ended c v pl1)
    show ?thesis
    proof (cases r0)
      case (Inl e)
      with ended(1,2) show ?thesis by (auto simp: ends_well_def intro: advance_trans)
    next
      case (Inr oc)
      with ended(1) have o: "closes c v pl1 oc pl" "advance pl1 pl" by (simp_all add: ends_well_def)
      then have "same_call c (oc_call oc)" "oc_verdict oc = v" by (simp_all add: closes_def)
      with ended(2,6,8) o(2) Inr id show ?thesis
        by (auto simp: outcome_ok_def same_call_simps intro: advance_trans)
    qed
  qed
  with w show ?thesis by (cases r0) (auto simp: evolves_def s')
qed

lemma transition_frame:
  assumes "transition_to now target t = Inr t'"
  shows "t_id t' = t_id t \<and> t_objective t' = t_objective t"
  using assms by (auto simp: transition_to_def split: if_splits)

interpretation evolves: run_relation "evolves ev" ev for ev
proof
  show "evolves ev s s" for s by (rule evolves_refl)
  show "evolves ev s1 s2 \<Longrightarrow> evolves ev s2 s3 \<Longrightarrow> evolves ev s1 s3" for s1 s2 s3 by (rule evolves_trans)
  show "evolves ev s s'" if "run_call ev st i s = (r, s')" for s s' st i r
    using that by (rule run_call_evolves)
  show "evolves ev s (s\<lparr>br_task := t\<rparr>)" if "transition_to now target (br_task s) = Inr t" for s t now target
    using transition_frame [OF that] by (intro evolves_same_run) (auto simp: same_run_def)
qed (intro evolves_same_run; auto simp: same_run_def fresh_advance remember_advance)+

section \<open>The loop\<close>

lemma replan_used:
  assumes "replan s = (Inr u, s')"
  shows "bg_replans (br_budget s) < bg_max_replans (br_budget s) \<and> bg_max_replans (br_budget s') = bg_max_replans (br_budget s)
     \<and> bg_replans (br_budget s') = Suc (bg_replans (br_budget s))"
  using assms check_None(5) [of "br_budget s"]
  by (auto simp: replan_def andthen_def checked_def upd_budget_def record_replan_def split: option.splits)

lemma cycle_again:
  assumes "cycle ev dc feedback s = (Inr (Some f), s')"
  obtains s1 where "cycle_body ev dc feedback s = (Inr (Some f), s1)" "replan s1 = (Inr (), s')"
proof -
  from assms show thesis unfolding cycle_def
  proof (cases rule: andthen_cases)
    case (goes x s1)
    then obtain g where x: "x = Some g" by (cases x) simp_all
    from goes(2)[unfolded x option.case] show ?thesis
      by (cases rule: andthen_cases) (use goes(1) x that in auto)
  qed simp
qed

lemma cycle_costs:
  assumes "cycle ev dc feedback s = (Inr (Some f), s')"
  shows "bg_max_replans (br_budget s') = bg_max_replans (br_budget s)"
    "bg_max_replans (br_budget s') - bg_replans (br_budget s') < bg_max_replans (br_budget s) - bg_replans (br_budget s)"
proof -
  from assms obtain s1 where s1: "cycle_body ev dc feedback s = (Inr (Some f), s1)" "replan s1 = (Inr (), s')" by (rule cycle_again)
  from evolves.movesD [OF evolves.moves_cycle_body s1(1)] have "evolves ev s s1" .
  then have "bg_max_replans (br_budget s1) = bg_max_replans (br_budget s)" "bg_replans (br_budget s) \<le> bg_replans (br_budget s1)"
    by (simp_all add: evolves_def same_limits_def)
  with replan_used [OF s1(2)] show "bg_max_replans (br_budget s') = bg_max_replans (br_budget s)"
    "bg_max_replans (br_budget s') - bg_replans (br_budget s') < bg_max_replans (br_budget s) - bg_replans (br_budget s)"
    by auto
qed

function drive :: "('m, 'w) brain_env \<Rightarrow> decoders \<Rightarrow> string option \<Rightarrow> ('m, 'w, unit) act" where
  "drive ev dc feedback s =
     (case cycle ev dc feedback s of
        (Inl e, s') \<Rightarrow> (Inl e, s')
      | (Inr None, s') \<Rightarrow> (Inr (), s')
      | (Inr (Some f), s') \<Rightarrow> drive ev dc (Some f) s')"
  by pat_completeness auto

termination
  by (relation "measure (\<lambda>(ev, dc, feedback, s). bg_max_replans (br_budget s) - bg_replans (br_budget s))")
    (auto dest!: sym [of _ "cycle _ _ _ _"] cycle_costs(2))

declare drive.simps [simp del]

section \<open>One objective\<close>

definition new_brain :: "settings \<Rightarrow> objective \<Rightarrow> string \<Rightarrow> plane \<Rightarrow> 'm \<Rightarrow> 'w \<Rightarrow> ('m, 'w) brain" where
  "new_brain st ob i pl m w = \<lparr>br_task = new_task i (pl_now pl) ob, br_memory = new_working_memory i (o_text ob),
     br_budget = budget_from_settings st (pl_now pl), br_decisions = [], br_executed = [], br_conclusion = [],
     br_succeeded = False, br_stopped = None, br_plane = pl, br_model = m, br_world = w\<rparr>"

text \<open>The \<open>except\<close> clauses; \<open>LimitExceeded\<close> is not a \<open>ProviderError\<close>.\<close>

definition handle_failure :: "scrappy_error \<Rightarrow> ('m, 'w, unit) act" where
  "handle_failure e =
     (if \<not> is_scrappy_error e then raising e
      else andthen (update (\<lambda>s. s\<lparr>br_stopped := Some (err_message e)\<rparr>)) (\<lambda>_.
        fail_task (if is_provider_error e then ''model provider failed: '' @ err_message e else err_message e)))"

definition run_objective ::
  "('m, 'w) brain_env \<Rightarrow> decoders \<Rightarrow> objective \<Rightarrow> string option \<Rightarrow> plane \<Rightarrow> 'm \<Rightarrow> 'w \<Rightarrow> (scrappy_error + unit) \<times> ('m, 'w) brain" where
  "run_objective ev dc ob task_id pl m w =
     (let (i, pl1) = (case task_id of None \<Rightarrow> new_id pl | Some j \<Rightarrow> (j, pl));
          (u, s1) = emitting TASK_CREATED ''orchestrator''
            (\<lambda>_. [(''objective'', PStr (o_text ob)), (''actor'', PStr (o_actor ob)),
                  (''max_risk'', PStr (risk_value (o_max_risk ob))), (''dry_run'', PBool (o_dry_run ob))])
            (new_brain (ev_settings ev) ob i pl1 m w)
      in case drive ev dc None s1 of
           (Inr _, s2) \<Rightarrow> (Inr (), s2)
         | (Inl e, s2) \<Rightarrow> handle_failure e s2)"

record task_outcome =
  to_task :: task
  to_conclusion :: string
  to_succeeded :: bool
  to_plans :: "plan list"
  to_observations :: "observation list"
  to_decisions :: "agent_decision list"
  to_executed :: "outcome list"
  to_budget :: payload
  to_stopped :: "string option"

definition outcome_of :: "('m, 'w) brain \<Rightarrow> task_outcome" where
  "outcome_of s = \<lparr>to_task = br_task s, to_conclusion = br_conclusion s, to_succeeded = br_succeeded s,
     to_plans = wm_plans (br_memory s), to_observations = wm_observations (br_memory s),
     to_decisions = br_decisions s, to_executed = br_executed s,
     to_budget = budget_snapshot (pl_now (br_plane s)) (br_budget s), to_stopped = br_stopped s\<rparr>"

definition outcome_tool_calls :: "task_outcome \<Rightarrow> nat" where
  "outcome_tool_calls o0 = length (to_executed o0)"

definition outcome_refused :: "task_outcome \<Rightarrow> outcome list" where
  "outcome_refused o0 = filter (\<lambda>oc. pv_decision (oc_verdict oc) = DENY) (to_executed o0)"

section \<open>A run evolves\<close>

lemma drive_evolves: "evolves ev s (snd (drive ev dc feedback s))"
proof (induction ev dc feedback s rule: drive.induct)
  case (1 ev dc feedback s)
  obtain r s1 where c: "cycle ev dc feedback s = (r, s1)" by (cases "cycle ev dc feedback s")
  from evolves.movesD [OF evolves.moves_cycle c] have e: "evolves ev s s1" .
  show ?case
  proof (cases r)
    case (Inl x)
    with c e show ?thesis by (subst drive.simps) simp
  next
    case (Inr z)
    show ?thesis
    proof (cases z)
      case None
      with c e Inr show ?thesis by (subst drive.simps) simp
    next
      case (Some f)
      from "1.IH" [OF c [symmetric] Inr Some] have "evolves ev s1 (snd (drive ev dc (Some f) s1))" .
      from evolves_trans [OF e this] c Inr Some show ?thesis by (subst drive.simps) simp
    qed
  qed
qed

lemma handle_evolves: "evolves ev s (snd (handle_failure e s))"
proof -
  have "moves (evolves ev) (handle_failure e)"
    unfolding handle_failure_def
    by (intro evolves.moves_structure evolves.moves_stop evolves.moves_simple_endings)
  then show ?thesis by (simp add: moves_def)
qed

lemma run_start:
  obtains i pl1 s1 where "advance pl pl1 \<and> quiet pl pl1" "evolves ev (new_brain (ev_settings ev) ob i pl1 m w) s1"
    "still (new_brain (ev_settings ev) ob i pl1 m w) s1" "br_executed s1 = []"
    "run_objective ev dc ob task_id pl m w =
       (case drive ev dc None s1 of (Inr _, s2) \<Rightarrow> (Inr (), s2) | (Inl e, s2) \<Rightarrow> handle_failure e s2)"
proof -
  obtain i pl1 where i: "(case task_id of None \<Rightarrow> new_id pl | Some j \<Rightarrow> (j, pl)) = (i, pl1)" by fastforce
  then have a: "advance pl pl1 \<and> quiet pl pl1" by (auto simp: new_id_def fresh_advance split: option.splits)
  let ?e = "emitting TASK_CREATED ''orchestrator''
            (\<lambda>_. [(''objective'', PStr (o_text ob)), (''actor'', PStr (o_actor ob)),
                  (''max_risk'', PStr (risk_value (o_max_risk ob))), (''dry_run'', PBool (o_dry_run ob))])"
  obtain u s1 where s1: "?e (new_brain (ev_settings ev) ob i pl1 m w) = (u, s1)" by (cases "?e (new_brain (ev_settings ev) ob i pl1 m w)")
  have "br_executed s1 = []" using s1 by (auto simp: emitting_def new_brain_def)
  with that [OF a evolves.movesD [OF evolves.moves_emitting s1] still.movesD [OF still.moves_emitting s1]] i s1
  show thesis by (simp add: run_objective_def)
qed

lemma run_evolves:
  obtains i pl1 where "advance pl pl1" "quiet pl pl1"
    "evolves ev (new_brain (ev_settings ev) ob i pl1 m w) (snd (run_objective ev dc ob task_id pl m w))"
proof -
  obtain i pl1 s1 where s1: "advance pl pl1 \<and> quiet pl pl1" "evolves ev (new_brain (ev_settings ev) ob i pl1 m w) s1"
    "run_objective ev dc ob task_id pl m w =
       (case drive ev dc None s1 of (Inr _, s2) \<Rightarrow> (Inr (), s2) | (Inl e, s2) \<Rightarrow> handle_failure e s2)"
    by (rule run_start [of pl ev ob m w dc task_id]) blast
  obtain r s2 where d: "drive ev dc None s1 = (r, s2)" by (cases "drive ev dc None s1")
  from drive_evolves [of ev s1 dc None] d have "evolves ev s1 s2" by simp
  with s1(2) have "evolves ev (new_brain (ev_settings ev) ob i pl1 m w) s2" by (rule evolves_trans)
  with evolves_trans [OF this handle_evolves] s1(1,3) d that show thesis by (cases r) auto
qed

text \<open>All a run does to the machine and to the approvals is made of such steps.\<close>

lemma run_gated:
  "(gated_step (ev_executor ev) ob)\<^sup>*\<^sup>* (pl, w) (br_plane (snd (run_objective ev dc ob task_id pl m w)), br_world (snd (run_objective ev dc ob task_id pl m w)))"
proof -
  obtain i pl1 where q: "quiet pl pl1"
    and "evolves ev (new_brain (ev_settings ev) ob i pl1 m w) (snd (run_objective ev dc ob task_id pl m w))"
    by (rule run_evolves)
  then have "(gated_step (ev_executor ev) ob)\<^sup>*\<^sup>* (pl1, w) (br_plane (snd (run_objective ev dc ob task_id pl m w)), br_world (snd (run_objective ev dc ob task_id pl m w)))"
    by (simp add: evolves_def new_brain_def new_task_def)
  with gated_quiet [OF q] show ?thesis by (rule converse_rtranclp_into_rtranclp)
qed

lemma run_cleared_steps: "(cleared_step (ev_executor ev) ob)\<^sup>*\<^sup>* w (br_world (snd (run_objective ev dc ob task_id pl m w)))"
  using gated_steps_cleared [OF run_gated] by simp

end
