(* ===== verification/Brain_Endings.thy ===== *)
theory Brain_Endings
  imports Brain_Run
begin

text \<open>
  How a run of the orchestrator ends: every part of it either leaves the task open or closes it with
  the matching event, and the loop returns within its number of replans.
\<close>

definition alive :: "('m, 'w) brain \<Rightarrow> bool" where
  "alive s \<longleftrightarrow> \<not> is_terminal (t_state (br_task s)) \<and> \<not> br_succeeded s"

definition closed_task :: "('m, 'w) brain \<Rightarrow> bool" where
  "closed_task s \<longleftrightarrow> t_state (br_task s) = (if br_succeeded s then COMPLETED else FAILED)
     \<and> t_finished_at (br_task s) \<noteq> None \<and> t_summary (br_task s) = Some (br_conclusion s)
     \<and> pl_published (br_plane s) \<noteq> []
     \<and> e_type (last (pl_published (br_plane s))) = (if br_succeeded s then TASK_COMPLETED else TASK_FAILED)"

abbreviation lives :: "('m, 'w, 'a) act \<Rightarrow> bool" where
  "lives f \<equiv> triple alive f (\<lambda>_. alive) (\<lambda>_. alive)"

section \<open>What leaves the task open\<close>

lemma lives_still: "moves still f \<Longrightarrow> lives f"
  by (rule triple_moves [where R = still]) (simp_all add: still_def alive_def)

lemma lives_then: "lives f \<Longrightarrow> (\<And>x. triple alive (g x) Q (\<lambda>_. alive)) \<Longrightarrow> triple alive (andthen f g) Q (\<lambda>_. alive)"
  by (rule triple_andthen)

lemma lives_transition: "\<not> is_terminal target \<Longrightarrow> lives (transition target)"
  by (auto simp: triple_def transition_def alive_def transition_to_def split: sum.splits if_splits)

lemma lives_checked: "lives (checked c)"
  by (auto simp: triple_def checked_def split: option.splits)

lemma lives_budget: "lives (upd_budget f)"
  by (simp add: triple_def upd_budget_def alive_def)

lemma lives_ret: "lives (ret x)"
  by (simp add: triple_ret)

lemma lives_update:
  "lives (update (\<lambda>s. s\<lparr>br_task := (br_task s)\<lparr>t_replan_count := n s\<rparr>\<rparr>))"
  "lives (update (\<lambda>s. s\<lparr>br_task := (br_task s)\<lparr>t_error := e, t_summary := m s\<rparr>\<rparr>))"
  "lives (update (\<lambda>s. s\<lparr>br_task := (br_task s)\<lparr>t_summary := m s\<rparr>\<rparr>))"
  by (simp_all add: triple_def alive_def)

lemma lives_reading: "(\<And>t. lives (f t)) \<Longrightarrow> lives (reading f)"
  by (simp add: triple_def)

lemma lives_choice:
  "lives f \<Longrightarrow> lives g \<Longrightarrow> lives (if b then f else g)"
  "(\<And>u v. lives (h u v)) \<Longrightarrow> lives (case p of (u, v) \<Rightarrow> h u v)"
  "lives f \<Longrightarrow> (\<And>x. lives (k x)) \<Longrightarrow> lives (case z of None \<Rightarrow> f | Some x \<Rightarrow> k x)"
  by (simp_all split: prod.splits option.splits)

lemmas lives_structure = lives_ret lives_then lives_reading lives_choice

lemmas lives_agents = still.moves_agents [THEN lives_still]
lemmas lives_emitting = still.moves_emitting [THEN lives_still]
lemmas lives_execute_step = still.moves_execute_step [THEN lives_still]
lemmas lives_bookkeeping = still.moves_note_decision [THEN lives_still]
  still.moves_publish [THEN lives_still]
  still.moves_add_plan [THEN lives_still] still.moves_stop [THEN lives_still]

lemma lives_count_turn: "lives (count_turn d)"
  unfolding count_turn_def by (intro lives_structure lives_budget lives_bookkeeping)

lemma lives_run_steps: "lives (run_steps ev sts done failure)"
proof (induction sts arbitrary: "done" failure)
  case (Cons st sts)
  show ?case unfolding run_steps.simps
    by (intro lives_structure lives_execute_step lives_budget lives_bookkeeping Cons.IH)
qed (simp add: lives_ret)

lemma lives_recovery_steps: "lives (recovery_steps ev sts n)"
proof (induction sts arbitrary: n)
  case (Cons st sts)
  show ?case unfolding recovery_steps.simps
    by (intro lives_structure lives_execute_step lives_budget Cons.IH)
qed (simp add: lives_ret)

lemma lives_phases: "lives (plan_phase ev dc feedback)" "lives (review_phase ev dc plan)" "lives (verify_phase ev dc)"
  unfolding plan_phase_def review_phase_def verify_phase_def
  by ((intro lives_structure lives_transition lives_agents lives_count_turn lives_emitting lives_bookkeeping)?; (simp add: is_terminal_def)?)+

lemma lives_replan: "lives replan"
  unfolding replan_def by (intro lives_structure lives_checked lives_budget lives_update)

section \<open>What closes it\<close>

lemma fail_transition:
  "\<not> is_terminal st \<Longrightarrow> st = t_state t \<Longrightarrow>
   \<exists>t'. transition_to now FAILED t = Inr t' \<and> t_state t' = FAILED \<and> t_finished_at t' = Some now
     \<and> t_summary t' = t_summary t"
  by (cases st) (auto simp: transition_to_def can_transition_def is_terminal_def)

text \<open>The task has failed with the summary \<open>m\<close>; what is left is the report.\<close>

definition failing :: "string \<Rightarrow> ('m, 'w) brain \<Rightarrow> bool" where
  "failing m s \<longleftrightarrow> t_state (br_task s) = FAILED \<and> t_finished_at (br_task s) \<noteq> None \<and> t_summary (br_task s) = Some m"

lemma transition_fails: "triple (\<lambda>s. alive s \<and> t_summary (br_task s) = Some m) (transition FAILED) (\<lambda>_. failing m) E"
  unfolding triple_def
proof (intro allI impI)
  fix s :: "('a, 'b) brain" assume s: "alive s \<and> t_summary (br_task s) = Some m"
  then have "\<not> is_terminal (t_state (br_task s))" by (simp add: alive_def)
  from fail_transition [OF this refl, of "pl_now (br_plane s)"] s
  show "case transition FAILED s of (Inl e, s') \<Rightarrow> E e s' | (Inr x, s') \<Rightarrow> failing m s'"
    by (auto simp: transition_def failing_def)
qed

lemma report_closes:
  "(\<And>s. failing m s \<Longrightarrow> c s = m) \<Longrightarrow>
   triple (failing m) (andthen (update (\<lambda>s. s\<lparr>br_conclusion := c s, br_succeeded := False\<rparr>)) (\<lambda>_. emitting TASK_FAILED cm p))
     (\<lambda>_. closed_task) E"
  by (simp add: triple_def andthen_def emitting_def failing_def closed_task_def plane_emit_published emit_event_def)

lemma triple_pointwise: "(\<And>t. P t \<Longrightarrow> triple (\<lambda>s. s = t) f Q E) \<Longrightarrow> triple P f Q E"
  by (simp add: triple_def)

lemma fail_task_closes: "triple alive (fail_task reason) (\<lambda>_. closed_task) E"
proof (rule triple_pointwise)
  fix t :: "('a, 'b) brain" assume t: "alive t"
  define m where "m = failure_summary (br_memory t) reason"
  let ?ready = "\<lambda>s :: ('a, 'b) brain. alive s \<and> t_summary (br_task s) = Some m"
  have "triple ?ready (reading (\<lambda>s. if is_terminal (t_state (br_task s)) then ret () else transition FAILED)) (\<lambda>_. failing m) E"
    using transition_fails [of m E] by (auto simp: triple_def alive_def)
  then show "triple (\<lambda>s. s = t) (fail_task reason) (\<lambda>_. closed_task) E"
    unfolding fail_task_def
    by (intro triple_andthen [where Q = "\<lambda>_. ?ready"] triple_andthen [where Q = "\<lambda>_. failing m"] report_closes triple_ret)
      (use t in \<open>simp_all add: alive_def m_def failing_def\<close>)
qed

lemma complete_task_closes: "triple alive (complete_task v) (\<lambda>_. closed_task) (\<lambda>_. alive)"
  by (auto simp: triple_def complete_task_def andthen_def transition_def emitting_def closed_task_def alive_def
      transition_to_def plane_emit_published emit_event_def is_terminal_def split: sum.splits if_splits)

lemma rollback_closes: "triple alive (rollback ev dc reason steps) (\<lambda>_. closed_task) (\<lambda>_. alive)"
proof -
  have finish: "triple alive (andthen (update (\<lambda>s. s\<lparr>br_task := (br_task s)\<lparr>t_error := Some reason, t_summary := Some m\<rparr>\<rparr>)) (\<lambda>_.
     andthen (transition FAILED) (\<lambda>_.
     andthen (update (\<lambda>s. s\<lparr>br_conclusion := m, br_succeeded := False\<rparr>)) (\<lambda>_. emitting TASK_FAILED cm p))))
     (\<lambda>_. closed_task) (\<lambda>_. alive)" for m cm and p :: "('a, 'b) brain \<Rightarrow> payload"
  proof (rule triple_andthen)
    show "triple alive (update (\<lambda>s :: ('a, 'b) brain. s\<lparr>br_task := (br_task s)\<lparr>t_error := Some reason, t_summary := Some m\<rparr>\<rparr>))
        (\<lambda>_ s. alive s \<and> t_summary (br_task s) = Some m) (\<lambda>_. alive)"
      by (simp add: triple_def alive_def)
    show "triple (\<lambda>s. alive s \<and> t_summary (br_task s) = Some m) (andthen (transition FAILED) (\<lambda>_.
     andthen (update (\<lambda>s. s\<lparr>br_conclusion := m, br_succeeded := False\<rparr>)) (\<lambda>_. emitting TASK_FAILED cm p)))
     (\<lambda>_. closed_task) (\<lambda>_. alive)"
      by (rule triple_andthen [OF transition_fails report_closes]) simp
  qed
  show ?thesis unfolding rollback_def
    by (intro lives_then lives_transition lives_emitting lives_agents lives_count_turn
        lives_recovery_steps finish triple_choice) (simp_all add: is_terminal_def)
qed

definition settled :: "string option \<Rightarrow> ('m, 'w) brain \<Rightarrow> bool" where
  "settled next_feedback = (case next_feedback of None \<Rightarrow> closed_task | Some f \<Rightarrow> alive)"

lemma conclude_settles: "triple alive (conclude ev dc v steps failure) settled (\<lambda>_. alive)"
proof -
  have end_with: "triple alive (andthen f (\<lambda>_. ret None)) settled (\<lambda>_. alive)"
    if "triple alive f (\<lambda>_. closed_task) (\<lambda>_. alive)" for f :: "('m, 'w, unit) act"
    using that by (rule triple_andthen) (rule triple_ret, simp add: settled_def)
  have again: "triple alive (ret (Some f)) settled (\<lambda>_. alive)" for f
    by (rule triple_ret) (simp add: settled_def)
  show ?thesis unfolding conclude_def
    by (cases "vf_decision v")
      (simp_all add: again end_with complete_task_closes fail_task_closes rollback_closes)
qed

lemma cycle_body_settles: "triple alive (cycle_body ev dc feedback) settled (\<lambda>_. alive)"
proof -
  have again: "triple alive (ret (Some f)) settled (\<lambda>_. alive)" for f
    by (rule triple_ret) (simp add: settled_def)
  show ?thesis unfolding cycle_body_def
    by (intro lives_then lives_checked lives_phases lives_emitting lives_run_steps
        lives_transition conclude_settles triple_choice again) (simp_all add: is_terminal_def)
qed

lemma cycle_settles: "triple alive (cycle ev dc feedback) settled (\<lambda>_. alive)"
proof -
  have "triple (settled x) (case x of None \<Rightarrow> ret None | Some f \<Rightarrow> andthen replan (\<lambda>_. ret (Some f))) settled (\<lambda>_. alive)" for x
  proof (cases x)
    case None
    then show ?thesis by (simp add: triple_ret)
  next
    case (Some f)
    have "triple alive (andthen replan (\<lambda>_. ret (Some f))) settled (\<lambda>_. alive)"
      by (rule triple_andthen [OF lives_replan]) (rule triple_ret, simp add: settled_def)
    with Some show ?thesis by (simp add: settled_def)
  qed
  with cycle_body_settles show ?thesis unfolding cycle_def by (rule triple_andthen)
qed

lemma drive_settles: "alive s \<Longrightarrow> case drive ev dc feedback s of (Inr u, s') \<Rightarrow> closed_task s' | (Inl e, s') \<Rightarrow> alive s'"
proof (induction ev dc feedback s rule: drive.induct)
  case (1 ev dc feedback s)
  obtain r s1 where c: "cycle ev dc feedback s = (r, s1)" by (cases "cycle ev dc feedback s")
  show ?case
  proof (cases r)
    case (Inl x)
    with tripleD(2) [OF cycle_settles "1.prems"] c show ?thesis by (subst drive.simps) simp
  next
    case (Inr z)
    from tripleD(1) [OF cycle_settles "1.prems"] c Inr have z: "settled z s1" by blast
    show ?thesis
    proof (cases z)
      case None
      with c Inr z show ?thesis by (subst drive.simps) (simp add: settled_def)
    next
      case (Some f)
      with z have "alive s1" by (simp add: settled_def)
      from "1.IH" [OF c [symmetric] Inr Some this] c Inr Some show ?thesis by (subst drive.simps) simp
    qed
  qed
qed

section \<open>The loop as the code has it\<close>

text \<open>\<open>while True\<close> with fuel: \<open>None\<close> when the fuel does not suffice.\<close>

fun drive_loop :: "nat \<Rightarrow> ('m, 'w) brain_env \<Rightarrow> decoders \<Rightarrow> string option \<Rightarrow> ('m, 'w) brain \<Rightarrow>
    ((scrappy_error + unit) \<times> ('m, 'w) brain) option" where
  "drive_loop 0 ev dc feedback s = None"
| "drive_loop (Suc n) ev dc feedback s =
     (case cycle ev dc feedback s of
        (Inl e, s') \<Rightarrow> Some (Inl e, s')
      | (Inr None, s') \<Rightarrow> Some (Inr (), s')
      | (Inr (Some f), s') \<Rightarrow> drive_loop n ev dc (Some f) s')"

lemma drive_loop_enough:
  "bg_max_replans (br_budget s) - bg_replans (br_budget s) < n \<Longrightarrow> drive_loop n ev dc feedback s = Some (drive ev dc feedback s)"
proof (induction n arbitrary: feedback s)
  case (Suc n)
  obtain r s1 where c: "cycle ev dc feedback s = (r, s1)" by (cases "cycle ev dc feedback s")
  show ?case
  proof (cases r)
    case (Inl x)
    with c show ?thesis by (subst drive.simps) simp
  next
    case (Inr z)
    show ?thesis
    proof (cases z)
      case None
      with c Inr show ?thesis by (subst drive.simps) simp
    next
      case (Some f)
      from cycle_costs(2) c Inr Some
      have "bg_max_replans (br_budget s1) - bg_replans (br_budget s1) < bg_max_replans (br_budget s) - bg_replans (br_budget s)"
        by blast
      with Suc.prems have "bg_max_replans (br_budget s1) - bg_replans (br_budget s1) < n" by simp
      from Suc.IH [OF this] c Inr Some show ?thesis by (subst drive.simps) simp
    qed
  qed
qed simp

section \<open>Properties\<close>

text \<open>
  C6. The loop of a run returns, whatever the models, the tools and the operator do: \<open>while True\<close>
  goes round at most once more than the replans the budget still has.
\<close>

theorem drive_terminates:
  "drive_loop (Suc (bg_max_replans (br_budget s) - bg_replans (br_budget s))) ev dc feedback s = Some (drive ev dc feedback s)"
  by (rule drive_loop_enough) simp

text \<open>
  C5. How a run ends. A run that returns has closed its task: it is completed exactly when the run
  succeeded and failed otherwise, with a finishing time, the conclusion as its summary, and the
  matching event as the last one published. The only other way out is an exception that is not one
  of the system's own (a validation error, say): then the task is left open, and no closing event
  was published for it.
\<close>

theorem run_closes_task:
  "case run_objective ev dc ob task_id pl m w of
     (Inr u, s) \<Rightarrow> closed_task s
   | (Inl e, s) \<Rightarrow> \<not> is_scrappy_error e \<and> alive s"
proof -
  obtain i pl1 s1 where s1: "still (new_brain (ev_settings ev) ob i pl1 m w) s1"
    "run_objective ev dc ob task_id pl m w =
       (case drive ev dc None s1 of (Inr _, s2) \<Rightarrow> (Inr (), s2) | (Inl e, s2) \<Rightarrow> handle_failure e s2)"
    by (rule run_start [of pl ev ob m w dc task_id]) blast
  have "alive s1" using s1(1) by (simp add: still_def alive_def new_brain_def new_task_def is_terminal_def)
  note d = drive_settles [OF this, of ev dc None]
  obtain r s2 where r: "drive ev dc None s1 = (r, s2)" by (cases "drive ev dc None s1")
  show ?thesis
  proof (cases r)
    case (Inr u)
    with d r s1(2) show ?thesis by simp
  next
    case (Inl e)
    with d r have a: "alive s2" by simp
    have "triple alive (handle_failure e) (\<lambda>_. closed_task) (\<lambda>e s. \<not> is_scrappy_error e \<and> alive s)"
      unfolding handle_failure_def
    proof (rule triple_choice)
      show "triple alive (raising e) (\<lambda>_. closed_task) (\<lambda>e s. \<not> is_scrappy_error e \<and> alive s)" if "\<not> is_scrappy_error e"
        using that by (intro triple_ret) simp
      show "triple alive (andthen (update (\<lambda>s. s\<lparr>br_stopped := Some (err_message e)\<rparr>)) (\<lambda>_.
          fail_task (if is_provider_error e then ''model provider failed: '' @ err_message e else err_message e)))
          (\<lambda>_. closed_task) (\<lambda>e s. \<not> is_scrappy_error e \<and> alive s)"
        by (rule triple_andthen [OF _ fail_task_closes]) (simp add: triple_def alive_def)
    qed
    from tripleD [OF this a] r Inl s1(2) show ?thesis
      by (cases "handle_failure e s2"; cases "fst (handle_failure e s2)") auto
  qed
qed

end
