(* ===== verification/Brain_Bounds.thy ===== *)
theory Brain_Bounds
  imports Brain_Endings
begin

text \<open>
  What a run may spend and what it may do, under the limits of its settings: the budget's checks are
  made between the phases, so the bounds below are what they amount to over a whole run.
\<close>

section \<open>Spending\<close>

text \<open>Neither the budget nor the record of executed calls changes.\<close>

definition idle :: "('m, 'w) brain \<Rightarrow> ('m, 'w) brain \<Rightarrow> bool" where
  "idle s s' \<longleftrightarrow> br_budget s' = br_budget s \<and> br_executed s' = br_executed s"

interpretation idle: report_relation idle
  by unfold_locales (auto simp: idle_def)

definition within_replans :: "task_budget \<Rightarrow> bool" where
  "within_replans b \<longleftrightarrow> bg_replans b \<le> bg_max_replans b"

definition calls_below :: "nat \<Rightarrow> task_budget \<Rightarrow> bool" where
  "calls_below k b \<longleftrightarrow> bg_model_calls b < bg_max_model_calls b + k"

text \<open>Between two steps; after a call whose step is not counted yet; after an exception.\<close>

definition steady :: "nat \<Rightarrow> ('m, 'w) brain \<Rightarrow> bool" where
  "steady k s \<longleftrightarrow> length (br_executed s) = bg_steps (br_budget s) \<and> bg_steps (br_budget s) \<le> bg_max_plan_steps (br_budget s)
     \<and> within_replans (br_budget s) \<and> calls_below k (br_budget s)"

definition pending :: "nat \<Rightarrow> ('m, 'w) brain \<Rightarrow> bool" where
  "pending k s \<longleftrightarrow> length (br_executed s) = Suc (bg_steps (br_budget s)) \<and> bg_steps (br_budget s) < bg_max_plan_steps (br_budget s)
     \<and> within_replans (br_budget s) \<and> calls_below k (br_budget s)"

definition bounded :: "('m, 'w) brain \<Rightarrow> bool" where
  "bounded s \<longleftrightarrow> length (br_executed s) \<le> bg_max_plan_steps (br_budget s)
     \<and> within_replans (br_budget s) \<and> calls_below 4 (br_budget s)"

lemmas spending = steady_def pending_def bounded_def within_replans_def calls_below_def

lemma steady_bounded: "steady k s \<Longrightarrow> k \<le> 4 \<Longrightarrow> bounded s"
  by (auto simp: spending)

lemma steady_more: "steady k s \<Longrightarrow> k \<le> n \<Longrightarrow> steady n s"
  by (auto simp: spending)

abbreviation spends :: "nat \<Rightarrow> nat \<Rightarrow> ('m, 'w, 'a) act \<Rightarrow> bool" where
  "spends k n f \<equiv> triple (steady k) f (\<lambda>_. steady n) (\<lambda>_. bounded)"

lemma spends_idle: "moves idle f \<Longrightarrow> k \<le> 4 \<Longrightarrow> spends k k f"
  by (rule triple_moves [where R = idle]) (auto simp: idle_def spending)

lemma spends_then: "spends k n f \<Longrightarrow> (\<And>x. triple (steady n) (g x) Q (\<lambda>_. bounded)) \<Longrightarrow> triple (steady k) (andthen f g) Q (\<lambda>_. bounded)"
  by (rule triple_andthen)

lemma spends_more: "spends k n f \<Longrightarrow> n \<le> m \<Longrightarrow> spends k m f"
  by (erule triple_weaken) (auto intro: steady_more)

lemma spends_ret: "k \<le> n \<Longrightarrow> spends k n (ret x)"
  by (rule triple_ret) (rule steady_more)

lemma spends_model_call: "k < 4 \<Longrightarrow> spends k (Suc k) (upd_budget record_model_call)"
  by (simp add: triple_def upd_budget_def spending record_model_call_def)

lemma spends_count_turn: "k < 4 \<Longrightarrow> spends k (Suc k) (count_turn d)"
  unfolding count_turn_def
  by (rule spends_then [OF spends_model_call])
    (auto intro!: spends_idle idle.moves_structure idle.moves_note_decision idle.moves_publish)

text \<open>One executed step: a call that did not start leaves no trace, one that ended leaves one.\<close>

lemma run_call_pending:
  "triple (\<lambda>s. steady k s \<and> bg_steps (br_budget s) < bg_max_plan_steps (br_budget s)) (run_call ev st i) (\<lambda>_. pending k) (\<lambda>_. bounded)"
  if "k \<le> 4"
  using that by (auto simp: triple_def run_call_def Let_def spending split: prod.splits sum.splits)

lemma execute_step_pending:
  assumes "k \<le> 4"
  shows "triple (\<lambda>s. steady k s \<and> bg_steps (br_budget s) < bg_max_plan_steps (br_budget s)) (execute_step ev st) (\<lambda>_. pending k) (\<lambda>_. bounded)"
proof -
  let ?P = "\<lambda>s. steady k s \<and> bg_steps (br_budget s) < bg_max_plan_steps (br_budget s)"
  have fresh: "triple ?P fresh_id (\<lambda>_. ?P) (\<lambda>_. bounded)"
    by (rule triple_moves [OF idle.moves_fresh]) (use assms in \<open>auto simp: idle_def spending\<close>)
  have after: "triple (pending k) (andthen fresh_id (\<lambda>j. andthen (observe ev st oc j) (\<lambda>_. ret oc))) (\<lambda>_. pending k) (\<lambda>_. bounded)" for oc
    by (rule triple_moves [where R = idle], intro idle.moves_structure idle.moves_fresh idle.moves_observe)
      (use assms in \<open>auto simp: idle_def spending\<close>)
  show ?thesis unfolding execute_step_def
    by (rule triple_andthen [OF fresh], rule triple_andthen [OF run_call_pending [OF assms]]) (rule after)
qed

lemma record_step_steady: "triple (pending k) (upd_budget (record_step ok)) (\<lambda>_. steady k) (\<lambda>_. bounded)"
  by (simp add: triple_def upd_budget_def spending record_step_def)

lemma triple_guard: "triple (\<lambda>s. P s \<and> c s = None) f Q E \<Longrightarrow> (\<And>e. triple P (h e) Q E) \<Longrightarrow>
    triple P (reading (\<lambda>s. case c s of Some e \<Rightarrow> h e | None \<Rightarrow> f)) Q E"
  by (auto simp: triple_def split: option.splits)

lemma spends_run_steps: "spends 2 2 (run_steps ev sts done failure)"
proof (induction sts arbitrary: "done" failure)
  case (Cons st sts)
  have room: "check_all now b = None \<Longrightarrow> bg_steps b < bg_max_plan_steps b" for now b
    by (simp add: check_all_def check_None)
  have step: "triple (\<lambda>s. steady 2 s \<and> check_all (pl_now (br_plane s)) (br_budget s) = None)
     (execute_step ev st) (\<lambda>_. pending 2) (\<lambda>_. bounded)"
    by (rule triple_weaken [OF execute_step_pending [of 2]]) (auto dest: room)
  show ?case unfolding run_steps.simps
  proof (rule triple_guard)
    show "spends 2 2 (andthen (update (\<lambda>s. s\<lparr>br_stopped := Some (err_message e)\<rparr>)) (\<lambda>_. ret (done, Some (err_message e))))" for e
      by (intro spends_idle idle.moves_structure idle.moves_stop) simp
  qed (rule triple_andthen [OF step] triple_andthen [OF record_step_steady] triple_choice spends_ret order.refl Cons.IH)+
qed (simp add: spends_ret)

lemma spends_recovery_steps: "spends 4 4 (recovery_steps ev sts n)"
proof (induction sts arbitrary: n)
  case (Cons st sts)
  have step: "triple (\<lambda>s. steady 4 s \<and> orelse_check (check_time (pl_now (br_plane s)) (br_budget s)) (check_steps (br_budget s)) = None)
     (execute_step ev st) (\<lambda>_. pending 4) (\<lambda>_. bounded)"
    by (rule triple_weaken [OF execute_step_pending [of 4]]) (auto simp: check_None)
  show ?case unfolding recovery_steps.simps
    by (rule triple_guard)
      (rule triple_andthen [OF step] triple_andthen [OF record_step_steady] spends_ret order.refl Cons.IH)+
qed (simp add: spends_ret)

text \<open>The phases: each model turn costs one call.\<close>

lemma spends_case_pair: "(\<And>u v. triple P (h u v) Q E) \<Longrightarrow> triple P (case p of (u, v) \<Rightarrow> h u v) Q E"
  by (cases p) simp

lemma spends_agents:
  "k \<le> 4 \<Longrightarrow> spends k k (brahma_plan ev dc n feedback)" "k \<le> 4 \<Longrightarrow> spends k k (vishnu_review ev dc p)"
  "k \<le> 4 \<Longrightarrow> spends k k (vishnu_verify ev dc)" "k \<le> 4 \<Longrightarrow> spends k k (mahesh_recover ev dc reason steps)"
  "k \<le> 4 \<Longrightarrow> spends k k (emitting ty c pay)" "k \<le> 4 \<Longrightarrow> spends k k (transition target)"
  by (intro spends_idle idle.moves_agents idle.moves_emitting idle.moves_transition; assumption)+

lemma spends_reading: "(\<And>t. triple P (f t) Q E) \<Longrightarrow> triple P (reading f) Q E"
  by (simp add: triple_def)

lemma spends_plan_phase: "spends 0 1 (plan_phase ev dc feedback)"
  unfolding plan_phase_def
  by (rule spends_then [OF spends_agents(6)] spends_reading spends_then [OF spends_agents(1)] spends_case_pair
      spends_then [OF spends_count_turn] spends_then [OF spends_agents(5)] spends_ret | simp)+

lemma spends_review_phase: "spends 1 2 (review_phase ev dc plan)"
  unfolding review_phase_def
  by (rule spends_then [OF spends_agents(2)] spends_case_pair spends_then [OF spends_count_turn]
      spends_then [OF spends_idle [OF idle.moves_add_plan]] spends_ret | simp)+

lemma spends_verify_phase: "spends 2 3 (verify_phase ev dc)"
  unfolding verify_phase_def
  by (rule spends_then [OF spends_agents(6)] spends_then [OF spends_agents(3)] spends_case_pair
      spends_then [OF spends_count_turn] spends_ret | simp)+

lemma spends_rollback: "spends 3 4 (rollback ev dc reason steps)"
proof -
  have report: "moves idle (andthen (update (\<lambda>s. s\<lparr>br_task := (br_task s)\<lparr>t_error := Some reason, t_summary := Some m\<rparr>\<rparr>)) (\<lambda>_.
     andthen (transition FAILED) (\<lambda>_. andthen (update (\<lambda>s. s\<lparr>br_conclusion := m, br_succeeded := False\<rparr>)) (\<lambda>_.
     emitting TASK_FAILED ''orchestrator'' p))))" for m p
    by (intro idle.moves_structure idle.moves_report idle.moves_transition idle.moves_emitting)
  show ?thesis unfolding rollback_def
    by (rule spends_then [OF spends_agents(6)] spends_then [OF spends_agents(5)] spends_then [OF spends_agents(4)] spends_case_pair
      spends_then [OF spends_count_turn] spends_then [OF spends_recovery_steps] spends_idle [OF report]
      | (simp del: One_nat_def))+
qed

lemma spends_conclude: "spends 3 4 (conclude ev dc v steps failure)"
proof -
  have simple: "spends 3 4 (andthen f (\<lambda>_. ret x))" if "moves idle f" for f :: "('m, 'w, unit) act" and x :: "string option"
    by (rule spends_then [OF spends_idle [OF that]]) (simp_all add: spends_ret)
  have rolled: "spends 3 4 (andthen (rollback ev dc reason steps) (\<lambda>_. ret x))" for reason and x :: "string option"
    by (rule spends_then [OF spends_rollback]) (simp add: spends_ret)
  show ?thesis unfolding conclude_def
    by (cases "vf_decision v") (simp_all add: simple idle.moves_simple_endings rolled spends_ret)
qed

lemma spends_head: "triple (steady 4) (checked (\<lambda>_. check_model_calls)) (\<lambda>_. steady 0) (\<lambda>_. bounded)"
  by (auto simp: triple_def checked_def spending check_None split: option.splits)

lemma spends_cycle_body: "spends 4 4 (cycle_body ev dc feedback)"
proof -
  have rejected: "spends 2 4 (andthen (emitting ty c p) (\<lambda>_. ret x))" for ty c p and x :: "string option"
    by (rule spends_then [OF spends_agents(5)]) (simp_all add: spends_ret)
  have run: "spends 2 4 (andthen (run_steps ev sts [] None) (\<lambda>(executed_steps, failure).
      andthen (verify_phase ev dc) (\<lambda>v. conclude ev dc v executed_steps failure)))" for sts
    by (rule spends_then [OF spends_run_steps] spends_case_pair spends_then [OF spends_verify_phase] spends_conclude)+
  show ?thesis unfolding cycle_body_def
    by (rule spends_then [OF spends_idle [OF idle.moves_ret(4)]] spends_then [OF spends_head] spends_then [OF spends_plan_phase]
        spends_then [OF spends_review_phase] triple_choice rejected spends_then [OF spends_agents(5)]
        spends_then [OF spends_agents(6)] run | (simp del: One_nat_def))+
qed

lemma spends_replan: "spends 4 4 replan"
proof -
  have "triple (steady 4) (checked (\<lambda>_. check_replans)) (\<lambda>_ s. steady 4 s \<and> bg_replans (br_budget s) < bg_max_replans (br_budget s)) (\<lambda>_. bounded)"
    by (auto simp: triple_def checked_def spending check_None split: option.splits)
  moreover have "triple (\<lambda>s. steady 4 s \<and> bg_replans (br_budget s) < bg_max_replans (br_budget s)) (upd_budget record_replan) (\<lambda>_. steady 4) (\<lambda>_. bounded)"
    by (simp add: triple_def upd_budget_def spending record_replan_def)
  moreover have "spends 4 4 (update (\<lambda>s. s\<lparr>br_task := (br_task s)\<lparr>t_replan_count := Suc (t_replan_count (br_task s))\<rparr>\<rparr>))"
    by (intro spends_idle idle.moves_report) simp
  ultimately show ?thesis unfolding replan_def by (blast intro: triple_andthen)
qed

lemma spends_cycle: "spends 4 4 (cycle ev dc feedback)"
  unfolding cycle_def
  by (rule spends_then [OF spends_cycle_body] triple_choice spends_then [OF spends_replan] spends_ret order.refl)+

lemma spends_drive: "steady 4 s \<Longrightarrow> bounded (snd (drive ev dc feedback s))"
proof (induction ev dc feedback s rule: drive.induct)
  case (1 ev dc feedback s)
  obtain r s1 where c: "cycle ev dc feedback s = (r, s1)" by (cases "cycle ev dc feedback s")
  show ?case
  proof (cases r)
    case (Inl x)
    with tripleD(2) [OF spends_cycle "1.prems"] c show ?thesis by (subst drive.simps) simp
  next
    case (Inr z)
    with tripleD(1) [OF spends_cycle "1.prems"] c have s1: "steady 4 s1" by blast
    show ?thesis
    proof (cases z)
      case None
      with c Inr steady_bounded [OF s1] show ?thesis by (subst drive.simps) simp
    next
      case (Some f)
      from "1.IH" [OF c [symmetric] Inr Some s1] c Inr Some show ?thesis by (subst drive.simps) simp
    qed
  qed
qed

lemma bounded_failure: "bounded s \<Longrightarrow> bounded (snd (handle_failure e s))" for s :: "('m, 'w) brain"
proof -
  assume s: "bounded s"
  have "moves idle (handle_failure e :: ('m, 'w, unit) act)" unfolding handle_failure_def
    by (intro idle.moves_structure idle.moves_stop idle.moves_simple_endings)
  then have "idle s (snd (handle_failure e s))" by (simp add: moves_def)
  with s show ?thesis by (simp add: idle_def bounded_def)
qed

section \<open>Properties\<close>

text \<open>
  C4. What a run spends, however it ends and whatever the models ask for: it executes at most
  \<open>max_plan_steps\<close> tool calls, recovery included, and replans at most \<open>max_replans\<close> times; its model
  turns may exceed \<open>max_model_calls\<close>, but by at most three, since the limit is tested once per cycle.
\<close>

theorem run_bounded:
  "case run_objective ev dc ob task_id pl m w of (r, s) \<Rightarrow>
     length (br_executed s) \<le> max_plan_steps (ev_settings ev)
     \<and> bg_replans (br_budget s) \<le> max_replans (ev_settings ev)
     \<and> bg_model_calls (br_budget s) \<le> max_model_calls (ev_settings ev) + 3"
proof -
  obtain i pl1 s1 where s1: "evolves ev (new_brain (ev_settings ev) ob i pl1 m w) s1"
    "still (new_brain (ev_settings ev) ob i pl1 m w) s1" "br_executed s1 = []"
    "run_objective ev dc ob task_id pl m w =
       (case drive ev dc None s1 of (Inr _, s2) \<Rightarrow> (Inr (), s2) | (Inl e, s2) \<Rightarrow> handle_failure e s2)"
    by (rule run_start [of pl ev ob m w dc task_id]) blast
  have "steady 4 s1" using s1(2,3) by (simp add: still_def new_brain_def budget_from_settings_def spending)
  note d = spends_drive [OF this, of ev dc None]
  obtain r s where r: "run_objective ev dc ob task_id pl m w = (r, s)" by (cases "run_objective ev dc ob task_id pl m w")
  have b: "bounded s"
  proof -
    obtain r1 s2 where "drive ev dc None s1 = (r1, s2)" by (cases "drive ev dc None s1")
    with d r s1(4) bounded_failure [of s2] show ?thesis by (cases r1) (auto, metis snd_conv)
  qed
  obtain i' pl' where "evolves ev (new_brain (ev_settings ev) ob i' pl' m w) s"
    using run_evolves [of pl ev ob m w dc task_id] r by (metis snd_conv)
  then have "same_limits (budget_from_settings (ev_settings ev) (pl_now pl')) (br_budget s)"
    by (simp add: evolves_def new_brain_def)
  with b r show ?thesis
    by (simp add: same_limits_def budget_from_settings_def bounded_def within_replans_def calls_below_def)
qed

text \<open>
  C3. What a run may do, whatever the models propose. From the control plane and the machine it starts
  with to those it ends with, it is a chain of steps, each of which leaves the machine alone or is a call
  made for the objective's principal that policy cleared under the objective's risk ceiling and dry-run
  flag. A cleared call ran unattended and touched no approval, or it was escalated, and then on the
  control plane of that very step the approval requested for it was granted by the prompt attached and consumed.
  Every outcome on record was refused or is within the ceiling; and the trail only grows. This holds of
  recovery steps as of planned ones.
\<close>

theorem run_governed:
  "case run_objective ev dc ob task_id pl m w of (r, s) \<Rightarrow>
     (gated_step (ev_executor ev) ob)\<^sup>*\<^sup>* (pl, w) (br_plane s, br_world s) \<and> list_all (outcome_ok ob) (br_executed s)
     \<and> advance pl (br_plane s)"
proof -
  obtain i pl1 where "advance pl pl1"
    "evolves ev (new_brain (ev_settings ev) ob i pl1 m w) (snd (run_objective ev dc ob task_id pl m w))"
    by (rule run_evolves)
  with run_gated [of ev ob pl w dc task_id m] show ?thesis
    by (auto simp: evolves_def new_brain_def new_task_def intro: advance_trans split: prod.splits)
qed

end
