(* ===== verification/Tool_Filesystem_Safe.thy ===== *)
theory Tool_Filesystem_Safe
  imports Tool_Filesystem Brain_Bounds
begin

text \<open>
  What the file tools can reach: in a workspace without links, only the workspace, and the sibling
  that would hold a backup of the workspace itself. The bound holds for every run of an objective
  whose tools are the file tools.
\<close>

section \<open>The territory of a workspace\<close>

definition territory_of :: "path \<Rightarrow> path \<Rightarrow> bool" where
  "territory_of r q \<longleftrightarrow> prefix r q \<or> prefix (backup_path r) q"

interpretation ws: territory "territory_of r" for r
  by unfold_locales (auto simp: territory_of_def)

definition ws_ok :: "path \<Rightarrow> fs \<Rightarrow> bool" where
  "ws_ok r f \<longleftrightarrow> fs_ok f \<and> link_free (territory_of r) f \<and> (\<forall>q. strict_prefix q r \<longrightarrow> nodes f q = Some Dir)"

lemma is_symlink_iff: "is_symlink f q \<longleftrightarrow> (\<exists>t. nodes f q = Some (Link t))"
  by (simp add: is_symlink_def split: option.splits node.splits)

lemma keeps_symlink: "keeps T f f' \<Longrightarrow> link_free T f \<Longrightarrow> is_symlink f' q = is_symlink f q"
  unfolding keeps_def link_free_def is_symlink_def by (cases "T q") auto

lemma keeps_canonical: "keeps T f f' \<Longrightarrow> link_free T f \<Longrightarrow> canonical f' q = canonical f q"
  by (simp add: canonical_def keeps_symlink)

lemma keeps_link: "keeps T f f' \<Longrightarrow> link_free T f \<Longrightarrow> nodes f' q = Some (Link t) \<longleftrightarrow> nodes f q = Some (Link t)"
  unfolding keeps_def link_free_def is_symlink_iff by (cases "T q") auto

lemma walk_same_links:
  "(\<And>q t. nodes f' q = Some (Link t) \<longleftrightarrow> nodes f q = Some (Link t)) \<Longrightarrow> walk f' n acc cs = walk f n acc cs"
proof (induction f n acc cs rule: walk.induct)
  case (2 f n acc c cs)
  consider (skip) "c = [] \<or> c = ''.''" | (up) "c = ''..''" | (down) "c \<noteq> []" "c \<noteq> ''.''" "c \<noteq> ''..''" by blast
  then show ?case
  proof cases
    case down
    show ?thesis
    proof (cases "\<exists>t. nodes f (acc @ [c]) = Some (Link t)")
      case True
      then obtain t where "nodes f (acc @ [c]) = Some (Link t)" "nodes f' (acc @ [c]) = Some (Link t)" using "2.prems" by blast
      with down "2.IH"(6) [OF _ down(3) _ refl _ "2.prems"] show ?thesis by simp
    next
      case False
      then have "walk f n acc (c # cs) = walk f n (acc @ [c]) cs" using down by (auto split: option.splits node.splits)
      moreover from False "2.prems" have "walk f' n acc (c # cs) = walk f' n (acc @ [c]) cs"
        using down by (auto split: option.splits node.splits)
      moreover have "walk f' n (acc @ [c]) cs = walk f n (acc @ [c]) cs"
      proof (cases "nodes f (acc @ [c])")
        case None
        show ?thesis by (rule "2.IH"(3) [OF _ down(3) None "2.prems"]) (use down in simp)
      next
        case (Some nd)
        then show ?thesis using False "2.IH"(4,5) [OF _ down(3) Some _ "2.prems"] down by (cases nd) auto
      qed
      ultimately show ?thesis by simp
    qed
  qed (use 2 in auto)
qed simp

lemma keeps_expand_resolve:
  assumes "keeps T f f'" "link_free T f"
  shows "expand_resolve f' p = expand_resolve f p"
proof -
  have "walk f' n acc cs = walk f n acc cs" for n acc cs by (rule walk_same_links) (rule keeps_link [OF assms])
  moreover have "home_of f' = home_of f" using assms(1) by (simp add: keeps_def)
  then have "expanduser f' q = expanduser f q" for q unfolding expanduser_def by (rule ssubst) (rule refl)
  ultimately show ?thesis using assms(1) by (auto simp: expand_resolve_def resolve_path_def keeps_def split: option.splits)
qed

lemma ws_ok_keeps:
  assumes "ws_ok r f" "keeps (territory_of r) f f'"
  shows "ws_ok r f'"
proof -
  have outside: "\<not> territory_of r q" if "strict_prefix q r" for q
  proof
    assume "territory_of r q"
    then have "length r \<le> length q"
      by (auto simp: territory_of_def backup_path_def dest!: prefix_length_le)
    with that show False by (meson linorder_not_less prefix_length_less)
  qed
  from assms show ?thesis
    using keeps_canonical [OF assms(2)] keeps_symlink [OF assms(2)] outside
    by (auto simp: ws_ok_def fs_ok_def keeps_def)
qed

section \<open>What a validated path is\<close>

lemma writable_below:
  assumes "writable t ctx f = Inr p" "context_workspace f ctx = Some r" "fs_ok f"
  shows "canonical f p" "prefix r p"
proof -
  from assms(1,2) have v: "validate_write_path f t (of_resolved r) [] = Inr p" by (simp add: writable_def workspace_of_def)
  from validate_write_again(1) [OF assms(3) v] show "canonical f p" .
  have "canonical f r" using assms(2,3) by (auto simp: context_workspace_def intro: expand_resolve_canonical)
  then have "resolve_roots f [of_resolved r] = Inr [r]" by (rule resolve_roots_resolved)
  with v show "prefix r p" by (auto simp: validate_write_Inr)
qed

lemma dirs_along:
  assumes "ws_ok r f" "prefix r p" "prefix q p"
  shows "territory_of r q \<or> nodes f q = Some Dir"
proof (cases "prefix r q")
  case False
  with prefix_same_cases [OF assms(2,3)] have "strict_prefix q r" by (auto simp: strict_prefix_def)
  with assms(1) show ?thesis by (simp add: ws_ok_def)
qed (simp add: territory_of_def)

lemma keeps_dirs:
  assumes "ws_ok r f" "prefix r p" "prefix d p"
  shows "keeps (territory_of r) f (snd (make_dirs os [] d f))"
  by (rule ws.keeps_make_dirs) (use dirs_along [OF assms(1,2)] assms(3) in \<open>auto intro: prefix_order.trans\<close>)

lemma canonical_ext: "canonical f p \<Longrightarrow> plain_name c \<Longrightarrow> territory_of r (p @ [c]) \<Longrightarrow> link_free (territory_of r) f \<Longrightarrow> canonical f (p @ [c])"
  by (simp add: canonical_snoc link_free_def)

lemma canonical_last: "canonical f p \<Longrightarrow> p \<noteq> [] \<Longrightarrow> plain_name (last p)"
  by (simp add: canonical_iff list_all_iff)

lemma backup_within:
  assumes "canonical f p" "prefix r p" "p \<noteq> []" "link_free (territory_of r) f"
  shows "territory_of r (backup_path p)" "canonical f (backup_path p)" "canonical f (backup_path p @ [last p])"
proof -
  show t: "territory_of r (backup_path p)"
  proof (cases "p = r")
    case False
    with assms(2) have "prefix r (butlast p)" using assms(3) by (metis append_butlast_last_id prefix_snoc)
    then show ?thesis by (simp add: territory_of_def backup_path_def prefix_prefix)
  qed (simp add: territory_of_def)
  have "plain_name (last p @ ''.scrappy-bak'')" by (simp add: plain_name_def)
  with t assms(1,4) show c: "canonical f (backup_path p)"
    unfolding backup_path_def by (intro canonical_ext [where r = r] canonical_butlast)
  from t have "territory_of r (backup_path p @ [last p])" by (rule ws.T_closed) (simp add: prefix_def)
  with c canonical_last [OF assms(1,3)] assms(4) show "canonical f (backup_path p @ [last p])" by (intro canonical_ext [where r = r])
qed

section \<open>Each tool stays in the territory\<close>

lemma write_keeps:
  assumes ok: "ws_ok r f" and p: "canonical f p" "prefix r p" "existed \<longrightarrow> p \<noteq> []"
  shows "keeps (territory_of r) f (snd (write_steps os existed p a f))"
proof -
  let ?T = "territory_of r"
  have lf: "link_free ?T f" using ok by (simp add: ws_ok_def)
  have w: "keeps ?T f2 (snd (write_file os p content f2))" if "keeps ?T f f2" for f2 content
    by (rule ws.keeps_write_file)
      (use that p(1,2) lf in \<open>auto simp: keeps_canonical follow_canonical territory_of_def\<close>)
  have c: "keeps ?T f1 (snd (copy2 os shown p (backup_path p) f1))" if "keeps ?T f f1" existed for f1 shown
  proof -
    have f1: "canonical f1 p" "link_free ?T f1"
      using keeps_canonical [OF that(1) lf] p(1) that(1) lf by (simp_all add: keeps_def)
    have np: "p \<noteq> []" using p(3) that(2) by simp
    note b = backup_within [OF f1(1) p(2) np f1(2)]
    have "territory_of r (backup_path p @ path_base p)" by (rule ws.T_closed [OF b(1)]) simp
    with b np show ?thesis
      by (intro ws.keeps_copy2) (auto simp: follow_canonical path_base_def)
  qed
  obtain e1 f1 where d: "(if wa_create_parents a then make_dirs os [] (butlast p) f else (None, f)) = (e1, f1)" by fastforce
  have k1: "keeps ?T f f1"
    using keeps_dirs [OF ok p(2), where d = "butlast p" and os = os] d by (auto simp: prefixeq_butlast split: if_splits)
  obtain e2 f2 where b: "(if existed then copy2 os posix_path p (backup_path p) f1 else (None, f1)) = (e2, f2)" by fastforce
  have k2: "keeps ?T f f2"
    using c [OF k1, of posix_path] b k1 by (auto split: if_splits intro: keeps_trans)
  from keeps_trans [OF k2 w [OF k2]] have "keeps ?T f (snd (write_file os p (utf8_encode (wa_content a)) f2))" .
  with d b k1 k2 show ?thesis by (cases e1; cases e2) (simp_all add: write_steps_def)
qed

lemma run_file_keeps:
  assumes os: "os_ok os" and ok: "ws_ok r f" and w: "context_workspace f ctx = Some r"
  shows "keeps (territory_of r) f (snd (run_file os decode c ctx f))"
proof -
  let ?T = "territory_of r"
  have fs: "fs_ok f" and lf: "link_free ?T f" using ok by (simp_all add: ws_ok_def)
  have below: "canonical f p" "prefix r p" "?T p" if "writable t ctx f = Inr p" for t p
    using writable_below [OF that w fs] by (simp_all add: territory_of_def)
  show ?thesis
  proof (cases c)
    case (F_mkdir t)
    have "keeps ?T f f'" if "writable t ctx f = Inr p" "make_dirs os [] p f = (e, f')" for p e f'
      using keeps_dirs [OF ok below(2) [OF that(1)], where d = p and os = os] that(2) by simp
    with F_mkdir show ?thesis by (auto simp: fs_mkdir_run_def run_mkdir_def Let_def split: sum.splits prod.splits option.splits)
  next
    case (F_write a)
    have "keeps ?T f f'" if "writable (wa_path a) ctx f = Inr p" "path_exists f p \<longrightarrow> p \<noteq> []"
        "write_steps os (path_exists f p) p a f = (e, f')" for p e f'
      using write_keeps [OF ok below(1,2) [OF that(1)] that(2), where os = os and a = a] that(3) by simp
    with F_write show ?thesis
      by (force simp: fs_write_run_def run_write_def Let_def split: sum.splits prod.splits option.splits)
  next
    case (F_move a)
    have "keeps ?T f (snd (run_move os src dst ov f))" if "writable (ma_source a) ctx f = Inr src" "writable (ma_destination a) ctx f = Inr dst" for src dst ov
    proof -
      have d: "keeps ?T f f1" if "make_dirs os [] (butlast dst) f = (e, f1)" for e f1
        using keeps_dirs [OF ok below(2) [OF \<open>writable (ma_destination a) ctx f = Inr dst\<close>], where d = "butlast dst" and os = os] that
        by (simp add: prefixeq_butlast)
      have m: "keeps ?T f1 (snd (move_path os src dst f1))" if k: "keeps ?T f f1" for f1
      proof -
        have f1: "canonical f1 dst" "canonical f1 src" "link_free ?T f1"
          using keeps_canonical [OF k lf] k lf below(1) \<open>writable (ma_source a) ctx f = Inr src\<close> \<open>writable (ma_destination a) ctx f = Inr dst\<close>
          by (auto simp: keeps_def)
        have dst: "?T dst" and src: "?T src"
          using below(3) \<open>writable (ma_source a) ctx f = Inr src\<close> \<open>writable (ma_destination a) ctx f = Inr dst\<close> by blast+
        have "canonical f1 (dst @ path_base src)"
          using f1 canonical_last [OF f1(2)] ws.T_closed [OF dst, of "dst @ path_base src"]
          by (auto simp: path_base_def intro: canonical_ext [where r = r])
        then show ?thesis by (intro ws.keeps_move_path os src dst f1(1))
      qed
      show ?thesis unfolding run_move_def
        by (auto split: prod.splits option.splits dest!: d) (use m keeps_trans in \<open>force+\<close>)
    qed
    with F_move show ?thesis by (auto split: sum.splits prod.splits simp: fs_move_run_def ebind_def)
  next
    case (F_delete a)
    have "keeps ?T f (snd (run_delete os p rec f))" if "writable (da_path a) ctx f = Inr p" for p rec
      using ws.keeps_rmtree [OF os below(3) [OF that], of f] ws.keeps_unlink [OF below(3) [OF that], where f = f and os = os]
      unfolding run_delete_def Let_def by (auto split: prod.splits option.splits)
    with F_delete show ?thesis by (auto simp: fs_delete_run_def split: sum.splits)
  qed simp_all
qed


section \<open>A whole run\<close>

lemma file_tool_step:
  assumes "t \<in> set (filesystem_tools os decode dec)"
  shows "snd (snd (tl_run t args ctx budget f)) = f
     \<or> (\<exists>c. snd (snd (tl_run t args ctx budget f)) = snd (run_file os decode c ctx f))"
proof -
  obtain cls where "t = file_tool os decode dec cls" using assms by (auto simp: filesystem_tools_def)
  then show ?thesis
    by (cases "parse_file dec (tl_name cls) args") (auto simp: file_tool_def Let_def split_beta)
qed

definition only_file_tools :: "os \<Rightarrow> (string \<Rightarrow> string \<Rightarrow> string option) \<Rightarrow> (string \<Rightarrow> payload \<Rightarrow> string + file_call) \<Rightarrow> fs executor \<Rightarrow> bool" where
  "only_file_tools os decode dec ex \<longleftrightarrow> (\<forall>t \<in> snd ` set (rg_tools (ex_registry ex)). t \<in> set (filesystem_tools os decode dec))"

lemma gated_file_step:
  assumes "os_ok os" "only_file_tools os decode dec ex" "cleared_step ex ob f f'"
    "ws_ok r f" "expand_resolve f (workspace (ex_settings ex)) = Some r"
  shows "keeps (territory_of r) f f'"
proof -
  from assms(3) obtain call tool args budget where c: "get_tool (c_tool_name call) (ex_registry ex) = Inr tool"
    "f' = snd (snd (tl_run tool args (call_context ex call) budget f))"
    unfolding cleared_step_def cleared_def by blast
  from c(1) have "tool \<in> snd ` set (rg_tools (ex_registry ex))" by (force simp: get_tool_Inr dest: map_of_SomeD)
  with assms(2) have "tool \<in> set (filesystem_tools os decode dec)" by (auto simp: only_file_tools_def)
  from file_tool_step [OF this, of args "call_context ex call" budget f]
  consider "f' = f" | k where "f' = snd (run_file os decode k (call_context ex call) f)" using c(2) by auto
  then show ?thesis
  proof cases
    case (2 k)
    have "context_workspace f (call_context ex call) = Some r" using assms(5) by (simp add: context_workspace_def call_context_def)
    from run_file_keeps [OF assms(1,4) this] 2 show ?thesis by simp
  qed simp
qed

lemma gated_file_steps:
  assumes os: "os_ok os" and tools: "only_file_tools os decode dec ex"
    and ok: "ws_ok r f" and w: "expand_resolve f (workspace (ex_settings ex)) = Some r"
    and steps: "(cleared_step ex ob)\<^sup>*\<^sup>* f f'"
  shows "keeps (territory_of r) f f'"
  using steps
proof (induction rule: rtranclp_induct)
  case (step f1 f2)
  have "link_free (territory_of r) f" using ok by (simp add: ws_ok_def)
  with w have "expand_resolve f1 (workspace (ex_settings ex)) = Some r" by (simp add: keeps_expand_resolve [OF step.IH])
  from gated_file_step [OF os tools step.hyps(2) ws_ok_keeps [OF ok step.IH] this] show ?case by (rule keeps_trans [OF step.IH])
qed simp

section \<open>Writing and reading back\<close>

lemma make_dirs_existing: "(\<And>q. prefix q (acc @ cs) \<Longrightarrow> q \<noteq> [] \<Longrightarrow> nodes f q = Some Dir) \<Longrightarrow> make_dirs os acc cs f = (None, f)"
proof (induction cs arbitrary: acc)
  case (Cons c cs)
  from Cons.prems [of "acc @ [c]"] have "nodes f (acc @ [c]) = Some Dir" by (simp add: prefix_def)
  moreover have "make_dirs os (acc @ [c]) cs f = (None, f)" by (rule Cons.IH) (use Cons.prems in simp)
  ultimately show ?case by simp
qed simp

text \<open>A path whose directory exists, with a file or nothing at it and at its backup.\<close>

definition plain_spot :: "path \<Rightarrow> fs \<Rightarrow> bool" where
  "plain_spot p f \<longleftrightarrow> (case nodes f p of None \<Rightarrow> True | Some (File t) \<Rightarrow> True | _ \<Rightarrow> False)"

definition writable_spot :: "path \<Rightarrow> fs \<Rightarrow> bool" where
  "writable_spot p f \<longleftrightarrow> p \<noteq> [] \<and> canonical f p \<and> (\<forall>q. strict_prefix q p \<longrightarrow> nodes f q = Some Dir)
     \<and> plain_spot p f \<and> plain_spot (backup_path p) f"

lemma backup_spot:
  assumes "writable_spot p f"
  shows "canonical f (backup_path p)" "backup_path p \<noteq> p" "butlast (backup_path p) = butlast p" "nodes f (butlast p) = Some Dir"
    "nodes f (backup_path p) \<noteq> Some Dir"
proof -
  have p: "p \<noteq> []" "canonical f p" "plain_spot (backup_path p) f" using assms by (simp_all add: writable_spot_def)
  have "plain_name (last p @ ''.scrappy-bak'')" by (simp add: plain_name_def)
  moreover have "\<not> is_symlink f (backup_path p)" using p(3) by (auto simp: plain_spot_def is_symlink_iff)
  ultimately show "canonical f (backup_path p)" using p(2) by (simp add: backup_path_def canonical_snoc canonical_butlast)
  show "backup_path p \<noteq> p"
  proof
    assume "backup_path p = p"
    then have "last p @ ''.scrappy-bak'' = last p" by (metis backup_path_def last_snoc)
    then show False by simp
  qed
  show "butlast (backup_path p) = butlast p" by (simp add: backup_path_def)
  have "strict_prefix (butlast p) p" using p(1) by (metis append_butlast_last_id prefixI strict_prefix_def not_Cons_self2 append_self_conv)
  with assms show "nodes f (butlast p) = Some Dir" by (simp add: writable_spot_def)
  show "nodes f (backup_path p) \<noteq> Some Dir" using p(3) by (auto simp: plain_spot_def)
qed

lemma write_file_effect:
  assumes "canonical f p" "write_file os p content f = (r, f')"
  shows "q \<noteq> p \<Longrightarrow> nodes f' q = nodes f q" "is_symlink f' q = is_symlink f q" "r = None \<Longrightarrow> nodes f' p = Some (File content)"
  using assms canonical_not_symlink [OF assms(1)]
  by (auto simp: write_file_def follow_canonical sys_def put_node_def is_symlink_iff split: if_splits option.splits)

lemma copy2_effect:
  assumes spot: "writable_spot p f" and t: "nodes f p = Some (File t)" and c: "copy2 os shown p (backup_path p) f = (r, f')"
  shows "q \<noteq> backup_path p \<Longrightarrow> nodes f' q = nodes f q" "is_symlink f' q = is_symlink f q"
    "r = None \<Longrightarrow> nodes f' (backup_path p) = Some (File t)"
proof -
  note b = backup_spot [OF spot]
  have p: "canonical f p" using spot by (simp add: writable_spot_def)
  have plain: "\<not> path_is_dir f (backup_path p)" "follow f p \<noteq> follow f (backup_path p)"
    using b(1,2,5) p by (simp_all add: path_is_dir_def look_canonical follow_canonical)
  have "look f p = Some (File t)" using p t by (simp add: look_canonical)
  with c plain have "f' = f \<and> r \<noteq> None \<or> (\<exists>r0. write_file os (backup_path p) t f = (r0, f') \<and> (r = None \<longrightarrow> r0 = None))"
    by (cases "os_fault os Sys_read p") (auto simp: copy2_def Let_def read_file_def split: option.splits prod.splits)
  then consider "f' = f" "r \<noteq> None" | r0 where "write_file os (backup_path p) t f = (r0, f')" "r = None \<Longrightarrow> r0 = None" by blast
  then show "q \<noteq> backup_path p \<Longrightarrow> nodes f' q = nodes f q" "is_symlink f' q = is_symlink f q"
    "r = None \<Longrightarrow> nodes f' (backup_path p) = Some (File t)"
    by (cases; auto dest: write_file_effect [OF b(1)])+
qed

lemma parents_exist: "writable_spot p f \<Longrightarrow> make_dirs os [] (butlast p) f = (None, f)"
proof (rule make_dirs_existing)
  fix q assume spot: "writable_spot p f" and q: "prefix q ([] @ butlast p)"
  then have "p \<noteq> []" by (simp add: writable_spot_def)
  then have "length q < length p" using prefix_length_le [OF q] by (cases p rule: rev_cases) auto
  moreover have "prefix q p" using q prefixeq_butlast prefix_order.trans by fastforce
  ultimately have "strict_prefix q p" by (auto simp: strict_prefix_def)
  with spot show "nodes f q = Some Dir" by (simp add: writable_spot_def)
qed

lemma parents_step: "writable_spot p f \<Longrightarrow> (if b then make_dirs os [] (butlast p) f else (None, f)) = (None, f)"
  by (simp add: parents_exist)

lemma exists_spot: "writable_spot p f \<Longrightarrow> path_exists f p \<longleftrightarrow> (\<exists>t. nodes f p = Some (File t))"
  by (auto simp: writable_spot_def path_exists_def look_canonical plain_spot_def split: option.splits node.splits)

text \<open>The stages of a write to such a path: the backup, then the new content.\<close>

lemma write_steps_effect:
  assumes spot: "writable_spot p f" and w: "write_steps os (path_exists f p) p a f = (r, f')"
  shows "q \<noteq> p \<Longrightarrow> q \<noteq> backup_path p \<Longrightarrow> nodes f' q = nodes f q"
    "nodes f p = Some (File t) \<Longrightarrow> nodes f' p = Some (File t) \<or> nodes f' (backup_path p) = Some (File t)"
    "r = None \<Longrightarrow> nodes f' p = Some (File (utf8_encode (wa_content a)))" "is_symlink f' q = is_symlink f q"
proof -
  note b = backup_spot [OF spot]
  have p: "canonical f p" using spot by (simp add: writable_spot_def)
  have same: "canonical f2 p" if "\<And>q. is_symlink f2 q = is_symlink f q" for f2 using p that by (simp add: canonical_def)
  obtain r2 f2 where s: "(if path_exists f p then copy2 os posix_path p (backup_path p) f else (None, f)) = (r2, f2)" by fastforce
  have k: "q \<noteq> backup_path p \<Longrightarrow> nodes f2 q = nodes f q" "is_symlink f2 q = is_symlink f q"
    "r2 = None \<Longrightarrow> nodes f p = Some (File t) \<Longrightarrow> nodes f2 (backup_path p) = Some (File t)" for q t
    using s exists_spot [OF spot] by (auto dest: copy2_effect [OF spot] split: if_splits)
  have end_of_write: "write_steps os (path_exists f p) p a f = (case r2 of Some e \<Rightarrow> (Some e, f2) | None \<Rightarrow> write_file os p (utf8_encode (wa_content a)) f2)"
    using s parents_exist [OF spot] by (auto simp: write_steps_def split: option.splits)
  consider (refused) e where "r2 = Some e" "f' = f2" "r \<noteq> None"
    | (goes) "r2 = None" "write_file os p (utf8_encode (wa_content a)) f2 = (r, f')"
    using end_of_write w by (cases r2) auto
  note cases_of_write = this
  note wf = write_file_effect [OF same [OF k(2)]]
  show "q \<noteq> p \<Longrightarrow> q \<noteq> backup_path p \<Longrightarrow> nodes f' q = nodes f q"
    by (cases rule: cases_of_write) (simp_all add: k(1) wf(1))
  show "is_symlink f' q = is_symlink f q" by (cases rule: cases_of_write) (simp_all add: k(2) wf(2))
  show "r = None \<Longrightarrow> nodes f' p = Some (File (utf8_encode (wa_content a)))" by (cases rule: cases_of_write) (simp_all add: wf(3))
  show "nodes f' p = Some (File t) \<or> nodes f' (backup_path p) = Some (File t)" if t: "nodes f p = Some (File t)"
  proof (cases rule: cases_of_write)
    case refused
    with k(1) [OF b(2) [symmetric]] t show ?thesis by simp
  next
    case goes
    with k(3) [OF goes(1) t] wf(1) [OF goes(2) b(2)] show ?thesis by simp
  qed
qed

section \<open>Two behaviours outside these conditions\<close>

text \<open>
  With a link under the backup's name, the old text is written to where the link leads, here a file
  outside the workspace that the call was not classified for.
\<close>

definition linked_files :: fs where
  "linked_files = \<lparr>nodes = map_of [([], Dir), ([''srv''], Dir), ([''srv'', ''ws''], Dir), ([''srv'', ''ws'', ''a''], File ''old''),
       ([''srv'', ''ws'', ''a.scrappy-bak''], Link ''/home/x''), ([''home''], Dir), ([''home'', ''x''], File ''mine'')],
     cwd = [''srv''], home_of = (\<lambda>u. None), link_budget = 40\<rparr>"

text \<open>An operating system that refuses nothing.\<close>

definition quiet_os :: os where
  "quiet_os = \<lparr>os_fault = (\<lambda>c p. None), os_partial = (\<lambda>p t. []), os_left = (\<lambda>c p f. f), os_scan = (\<lambda>f p. []),
     os_stat = (\<lambda>f p. \<lparr>st_size = 0, st_mode = 0, st_uid = 0, st_gid = 0, st_mtime = 0\<rparr>), os_took = (\<lambda>n. 0)\<rparr>"

lemma backup_follows_link:
  "(let (r, f') = run_write quiet_os [''srv'', ''ws'', ''a'']
      \<lparr>wa_path = ''a'', wa_content = ''new'', wa_create_parents = True, wa_overwrite = True\<rparr> linked_files
    in (isl r, nodes f' [''home'', ''x''], nodes f' [''srv'', ''ws'', ''a''])) = (False, Some (File ''old''), Some (File ''new''))"
  by code_simp

text \<open>
  A move onto an existing directory, with \<open>overwrite\<close>, replaces nothing: the file goes into it, and the
  result names the directory as the destination.
\<close>

lemma move_into_directory:
  "(let (r, f') = run_move quiet_os [''srv'', ''ws'', ''a''] [''home''] True linked_files
    in (r, nodes f' [''home''], nodes f' [''home'', ''a''])) =
   (Inr [(''source'', PStr ''/srv/ws/a''), (''destination'', PStr ''/home''), (''moved'', PBool True)], Some Dir, Some (File ''old''))"
  by code_simp

section \<open>Properties\<close>

text \<open>A file system with one file in the workspace.\<close>

definition example_files :: fs where
  "example_files = \<lparr>nodes = map_of [([], Dir), ([''srv''], Dir), ([''srv'', ''ws''], Dir), ([''srv'', ''ws'', ''a''], File ''old'')],
     cwd = [''srv''], home_of = (\<lambda>u. None), link_budget = 40\<rparr>"

definition example_write :: write_args where
  "example_write = \<lparr>wa_path = ''a'', wa_content = ''new'', wa_create_parents = True, wa_overwrite = True\<rparr>"

lemma no_links_example: "\<not> is_symlink example_files q"
  by (simp add: is_symlink_def example_files_def)

lemma example_spot: "writable_spot [''srv'', ''ws'', ''a''] example_files"
proof -
  have "nodes example_files q = Some Dir" if "strict_prefix q [''srv'', ''ws'', ''a'']" for q
    using that by (auto simp: strict_prefix_def prefix_Cons example_files_def)
  then show ?thesis
    by (simp add: writable_spot_def canonical_iff no_links_example plain_name_def plain_spot_def backup_path_def)
      (simp add: example_files_def)
qed

lemma example_ws_ok: "ws_ok [''srv'', ''ws''] example_files"
proof -
  have "nodes example_files q = Some Dir" if "strict_prefix q [''srv'', ''ws'']" for q
    using that by (auto simp: strict_prefix_def prefix_Cons example_files_def)
  moreover have "cwd example_files = [''srv'']" by (simp add: example_files_def)
  ultimately show ?thesis
    by (simp add: ws_ok_def fs_ok_def link_free_def canonical_iff no_links_example plain_name_def)
qed

text \<open>
  C8. Overwriting loses nothing. Whatever the operating system refuses, and at whichever point, the
  text a file had before \<open>fs.write\<close> is afterwards still in the file or in its backup, and no other
  entry has changed, provided the backup's name is not taken by a directory or a link.
\<close>

theorem write_keeps_old_content:
  assumes "writable_spot p f"
  shows "case run_write os p a f of (r, f') \<Rightarrow>
     (case nodes f p of Some (File t) \<Rightarrow> Some (File t) \<in> {nodes f' p, nodes f' (backup_path p)} | _ \<Rightarrow> True)
     \<and> (\<forall>q \<in> - {p, backup_path p}. nodes f' q = nodes f q)"
proof -
  obtain r f' where w: "write_steps os (path_exists f p) p a f = (r, f')" by fastforce
  from write_steps_effect(1,2) [OF assms w] assms show ?thesis
    by (auto simp: run_write_def Let_def w writable_spot_def split: option.splits node.splits)
qed

theorem write_keeps_old_content_witness:
  "(case run_write quiet_os [''srv'', ''ws'', ''a''] example_write example_files of (r, f') \<Rightarrow>
     (case nodes example_files [''srv'', ''ws'', ''a''] of
        Some (File t) \<Rightarrow> Some (File t) \<in> {nodes f' [''srv'', ''ws'', ''a''], nodes f' (backup_path [''srv'', ''ws'', ''a''])} | _ \<Rightarrow> True)
     \<and> (\<forall>q \<in> - {[''srv'', ''ws'', ''a''], backup_path [''srv'', ''ws'', ''a'']}. nodes f' q = nodes example_files q))
   \<and> nodes example_files [''srv'', ''ws'', ''a''] = Some (File ''old'')"
proof
  show "nodes example_files [''srv'', ''ws'', ''a''] = Some (File ''old'')" by (simp add: example_files_def)
qed (rule write_keeps_old_content [OF example_spot])

text \<open>
  C9. Round trip. With no call refused, \<open>fs.write\<close> of a text succeeds, and reading the file back gives
  that text, whole, with its size and its number of lines; \<open>decode\<close> is only asked to invert UTF-8.
\<close>

theorem write_then_read:
  assumes "writable_spot p f" "\<forall>c q. os_fault os c q = None" "nodes f p = None \<or> wa_overwrite a"
    "decode ''utf-8'' (utf8_encode (wa_content a)) = Some (wa_content a)" "int (length (utf8_encode (wa_content a))) \<le> n"
  shows "case run_write os p a f of (r, f') \<Rightarrow> isl r = False \<and> run_read os decode p n ''utf-8'' f' = Inr
     [(''path'', PStr (str_path p)), (''content'', PStr (wa_content a)),
      (''bytes_read'', PInt (int (length (utf8_encode (wa_content a))))), (''truncated'', PBool False),
      (''lines'', PInt (int (count_lines (wa_content a))))]"
proof -
  note b = backup_spot [OF assms(1)]
  have p: "canonical f p" "nodes f p \<noteq> Some Dir" using assms(1) by (auto simp: writable_spot_def plain_spot_def)
  obtain r f' where w: "write_steps os (path_exists f p) p a f = (r, f')" by fastforce
  have wf: "\<exists>g. write_file os q content h = (None, g)" if "canonical h q" "nodes h q \<noteq> Some Dir" "nodes h (butlast q) = Some Dir" for q content h
    using that assms(2) by (simp add: write_file_def follow_canonical sys_def)
  have r: "r = None"
  proof (cases "path_exists f p")
    case True
    then obtain t where t: "nodes f p = Some (File t)" using exists_spot [OF assms(1)] by blast
    obtain g where g: "copy2 os posix_path p (backup_path p) f = (None, g)"
      using wf [OF b(1,5), of t] b p(1) t assms(2)
      by (auto simp: copy2_def Let_def read_file_def path_is_dir_def look_canonical follow_canonical)
    note e = copy2_effect [OF assms(1) t g]
    have "canonical g p" "nodes g p \<noteq> Some Dir" "nodes g (butlast p) = Some Dir"
      using p e b by (auto simp: canonical_def) (metis b(4,5) e(1))
    then obtain h where "write_file os p (utf8_encode (wa_content a)) g = (None, h)" using wf by blast
    with g w True show ?thesis by (auto simp: write_steps_def parents_step [OF assms(1)])
  next
    case False
    obtain h where "write_file os p (utf8_encode (wa_content a)) f = (None, h)" using wf [OF p b(4)] by blast
    with w False show ?thesis by (auto simp: write_steps_def parents_step [OF assms(1)])
  qed
  with w have f': "nodes f' p = Some (File (utf8_encode (wa_content a)))" "\<And>q. is_symlink f' q = is_symlink f q"
    using write_steps_effect(3,4) [OF assms(1) w] by simp_all
  then have "look f' p = Some (File (utf8_encode (wa_content a)))" using p(1) by (simp add: look_canonical canonical_def)
  then have read: "run_read os decode p n ''utf-8'' f' = Inr
     [(''path'', PStr (str_path p)), (''content'', PStr (wa_content a)),
      (''bytes_read'', PInt (int (length (utf8_encode (wa_content a))))), (''truncated'', PBool False),
      (''lines'', PInt (int (count_lines (wa_content a))))]"
    using assms(2,4,5) by (simp add: run_read_def path_is_dir_def read_file_def)
  have ov: "path_exists f p \<Longrightarrow> wa_overwrite a" using assms(3) exists_spot [OF assms(1)] by auto
  have np: "p \<noteq> []" using assms(1) by (simp add: writable_spot_def)
  show ?thesis using ov np w r read by (auto simp: run_write_def Let_def)
qed

theorem write_then_read_witness:
  "case run_write quiet_os [''srv'', ''ws'', ''a''] example_write example_files of (r, f') \<Rightarrow> isl r = False \<and>
     run_read quiet_os (\<lambda>e t. if e = ''utf-8'' then Some t else None) [''srv'', ''ws'', ''a''] 100 ''utf-8'' f' = Inr
     [(''path'', PStr (str_path [''srv'', ''ws'', ''a''])), (''content'', PStr (wa_content example_write)),
      (''bytes_read'', PInt (int (length (utf8_encode (wa_content example_write))))), (''truncated'', PBool False),
      (''lines'', PInt (int (count_lines (wa_content example_write))))]"
proof -
  have "utf8_encode ''new'' = ''new''" by code_simp
  then show ?thesis
    by (intro write_then_read [OF example_spot]) (simp_all add: quiet_os_def example_write_def)
qed

text \<open>
  C7. From the objective to the disk. If the only tools are the file tools, and the workspace holds
  no link, then whatever the models propose and policy or an operator lets through, a run of an
  objective changes no file outside the workspace but, when the workspace itself was replaced by a
  file, the backup beside it; and there is still no link in it.
\<close>

theorem file_run_confined:
  assumes "os_ok os" "only_file_tools os decode dec (ev_executor ev)" "ws_ok r f"
    "expand_resolve f (workspace (ex_settings (ev_executor ev))) = Some r"
  shows "case run_objective ev dc ob task_id pl m f of (res, s) \<Rightarrow>
     (\<forall>q \<in> - Collect (territory_of r). nodes (br_world s) q = nodes f q) \<and> link_free (territory_of r) (br_world s)"
  using gated_file_steps [OF assms run_cleared_steps] assms(3)
  by (auto simp: keeps_def ws_ok_def split_beta)

text \<open>An executor with the file tools, no prompt, and a provider that never answers.\<close>

definition example_env :: "(unit, fs) brain_env" where
  "example_env =
     (let st = default_settings\<lparr>workspace := parse_path ''/srv/ws''\<rparr>;
          tools = filesystem_tools quiet_os (\<lambda>e t. Some t) (\<lambda>n p. Inl ''bad'')
      in \<lparr>ev_settings = st,
          ev_provider = \<lparr>pv_name = ''none'', pv_model = ''none'', pv_generate = (\<lambda>c m. (Inl (ProviderUnavailable ''down'' ''none''), 0, m)),
            pv_json = example_json_env, pv_schema = (\<lambda>n. [])\<rparr>,
          ev_executor = \<lparr>ex_settings = st, ex_registry = \<lparr>rg_tools = map (\<lambda>t. (tl_name t, t)) tools, rg_disabled = []\<rparr>,
            ex_engine = \<lparr>pe_settings = st, pe_workspace = [''srv'', ''ws'']\<rparr>, ex_prompt = None, ex_fs_of = id\<rparr>,
          ev_episodic = False, ev_system = (\<lambda>r. [])\<rparr>)"

theorem file_run_confined_witness:
  "case run_objective example_env \<lparr>dec_proposal = (\<lambda>v. Inl []), dec_review = (\<lambda>v. Inl []), dec_verification = (\<lambda>v. Inl []), dec_recovery = (\<lambda>v. Inl [])\<rparr>
       example_objective None example_plane () example_files of (res, s) \<Rightarrow>
     (\<forall>q \<in> - Collect (territory_of [''srv'', ''ws'']). nodes (br_world s) q = nodes example_files q)
     \<and> link_free (territory_of [''srv'', ''ws'']) (br_world s)"
proof (rule file_run_confined [where os = quiet_os and decode = "\<lambda>e t. Some t" and dec = "\<lambda>n p. Inl ''bad''"])
  show "os_ok quiet_os" by (simp add: os_ok_def quiet_os_def)
  show "only_file_tools quiet_os (\<lambda>e t. Some t) (\<lambda>n p. Inl ''bad'') (ev_executor example_env)"
    by (auto simp: only_file_tools_def example_env_def Let_def)
  show "expand_resolve example_files (workspace (ex_settings (ev_executor example_env))) = Some [''srv'', ''ws'']"
    by (simp add: example_env_def Let_def) code_simp
qed (rule example_ws_ok)

end
