(* ===== verification/Tools_Observe.thy ===== *)
theory Tools_Observe
  imports Tools_Default Tool_Filesystem_Safe
begin

text \<open>
  What a run that may only read does to the machine, with the standard tools: it starts processes that
  read, and nothing else. A dry run is such a run, whatever its ceiling.
\<close>

section \<open>What reading amounts to\<close>

text \<open>The processes a READ call may start: a reading \<open>git\<close> command, or an allowed command line classified READ.\<close>

definition git_reading :: "'w host \<Rightarrow> settings \<Rightarrow> spawn \<Rightarrow> 'w \<Rightarrow> bool" where
  "git_reading h st s w \<longleftrightarrow> (\<exists>binary repo_path repo c ctx. x_settings ctx = st \<and> h_which h ''git'' SAFE_PATH w = Some binary
     \<and> git_repo h (git_tool_name c) repo_path ctx w = Inr repo \<and> s = git_spawn h binary repo c w)"

definition command_reading :: "'w host \<Rightarrow> settings \<Rightarrow> spawn \<Rightarrow> 'w \<Rightarrow> bool" where
  "command_reading h st s w \<longleftrightarrow> (\<exists>a. check_shell_args a = Inr a \<and> fst (classify_command (sh_argv a)) = READ \<and> allowed_spawn h a st s w)"

text \<open>One process, and for a command that outlives its limit the signals that end its group.\<close>

definition reading_process :: "'w host \<Rightarrow> settings \<Rightarrow> 'w \<Rightarrow> 'w \<Rightarrow> bool" where
  "reading_process h st w w' \<longleftrightarrow> (\<exists>s limit.
     git_reading h st s w \<and> w' = snd (h_spawn h s limit w)
     \<or> command_reading h st s w \<and> (w' = snd (h_spawn h s limit w)
          \<or> (\<exists>left. w' = snd (terminate_within h left (snd (h_spawn h s limit w))))))"

section \<open>Each tool\<close>

lemma git_run_observes:
  "snd (git_run pt (repo_path, c) ctx budget w) = w \<or> reading_process (pt_host pt) (x_settings ctx) w (snd (git_run pt (repo_path, c) ctx budget w))"
proof -
  let ?h = "under_budget budget (pt_host pt)"
  have fs: "h_fs ?h = h_fs (pt_host pt)" "h_environ ?h = h_environ (pt_host pt)" by (simp_all add: under_budget_def)
  have h: "h_which ?h = h_which (pt_host pt)" "git_repo ?h = git_repo (pt_host pt)" "git_spawn ?h = git_spawn (pt_host pt)"
    "h_spawn ?h = (\<lambda>s t. h_spawn (pt_host pt) s (min t budget))"
    unfolding git_repo_def git_spawn_def fs by (simp_all add: under_budget_def)
  have run: "snd (git_run pt (repo_path, c) ctx budget w) = snd (git_tool ?h repo_path c ctx w)"
    by (simp add: git_run_def Let_def split_beta)
  show ?thesis
  proof (cases rule: git_tool_world [of ?h repo_path c ctx w])
    case (ran binary repo)
    then have "git_reading (pt_host pt) (x_settings ctx) (git_spawn (pt_host pt) binary repo c w) w"
      unfolding git_reading_def h by blast
    with ran(3) run show ?thesis unfolding reading_process_def h by auto
  qed (simp add: run)
qed

lemma shell_run_world:
  "snd (shell_run pt a ctx budget w) = w \<or>
   (\<exists>s limit. allowed_spawn (pt_host pt) a (x_settings ctx) s w \<and>
      (snd (shell_run pt a ctx budget w) = snd (h_spawn (pt_host pt) s limit w)
       \<or> (\<exists>left. snd (shell_run pt a ctx budget w) = snd (terminate_within (pt_host pt) left (snd (h_spawn (pt_host pt) s limit w))))))"
proof (cases "shell_start (pt_host pt) a ctx w")
  case (Inl e)
  then show ?thesis by (simp add: shell_run_def)
next
  case (Inr settled)
  obtain argv dir timeout n where s: "settled = (argv, dir, timeout, n)" by (cases settled)
  let ?s = "spawn_of (pt_host pt) argv dir w" and ?limit = "min timeout budget"
  obtain e w1 where sp: "h_spawn (pt_host pt) ?s ?limit w = (e, w1)" by fastforce
  have x: "snd (shell_execute (pt_host pt) argv dir ?limit n w) = w1" if "\<And>t. e \<noteq> Spawn_running t"
    using shell_execute_world [of "pt_host pt" argv dir ?limit n w] that sp
    by (cases "shell_execute (pt_host pt) argv dir ?limit n w"; cases e) auto
  have "snd (shell_run pt a ctx budget w) = w1 \<or> (\<exists>left. snd (shell_run pt a ctx budget w) = snd (terminate_within (pt_host pt) left w1))"
  proof (cases "\<exists>t. e = Spawn_running t")
    case True
    have "snd (shell_run pt a ctx budget w) = (if budget \<le> timeout then w1 else snd (terminate_within (pt_host pt) (budget - timeout) w1))"
      using True sp by (auto simp: shell_run_def Inr s split_beta Let_def min_def split: if_splits)
    then show ?thesis by auto
  next
    case False
    then have "snd (shell_run pt a ctx budget w) = snd (shell_execute (pt_host pt) argv dir ?limit n w)"
      by (cases e) (simp_all add: shell_run_def Inr s sp split_beta Let_def)
    with x False show ?thesis by blast
  qed
  then show ?thesis using shell_start_allowed [of "pt_host pt" a ctx w argv dir timeout n] Inr s sp by (metis snd_conv)
qed

lemma shell_run_observes:
  assumes "fst (shell_classify a (x_settings ctx)) = READ" "check_shell_args a = Inr a"
  shows "snd (shell_run pt a ctx budget w) = w \<or> reading_process (pt_host pt) (x_settings ctx) w (snd (shell_run pt a ctx budget w))"
proof -
  have "fst (classify_command (sh_argv a)) = READ"
    using assms(1) by (auto simp: shell_classify_def Let_def split: if_splits)
  with assms(2) have "command_reading (pt_host pt) (x_settings ctx) s w" if "allowed_spawn (pt_host pt) a (x_settings ctx) s w" for s
    using that unfolding command_reading_def by blast
  with shell_run_world [of pt a ctx budget w] show ?thesis unfolding reading_process_def by metis
qed

text \<open>The file tools that are READ leave the files as they are; the others are never READ.\<close>

lemma classify_changes_not_READ:
  "classify_path_write f p ws \<noteq> Inr (READ, reason)" "classify_path_delete f p ws \<noteq> Inr (READ, reason)"
  by (auto simp: classify_path_write_def classify_path_delete_def)

lemma file_classify_READ:
  assumes "file_classify c ctx f = Inr (READ, reason)"
  shows "snd (run_file os decode c ctx f) = f"
proof (cases c)
  case (F_mkdir p)
  with assms show ?thesis by (auto simp: classify_changes_not_READ)
next
  case (F_write a)
  with assms show ?thesis by (auto simp: classify_changes_not_READ)
next
  case (F_move a)
  with assms show ?thesis by (auto simp: classify_move_def classify_path_delete_def classify_path_write_def split: if_splits)
next
  case (F_delete a)
  with assms show ?thesis by (auto simp: classify_delete_def classify_path_delete_def split: if_splits)
qed simp_all

lemma effective_READ:
  assumes "effective_risk t args ctx w = Inr (READ, reason)"
  obtains (judged) "tl_classify t args ctx w = Inr (READ, reason)"
  | (declared) e where "tl_classify t args ctx w = Inl e" "is_scrappy_error e" "tl_risk t = READ"
  using assms by (auto simp: effective_risk_def split: sum.splits prod.splits if_splits)

lemma reading_tool_still: "snd (snd (tl_run (reading_tool pt cls rd answer) args ctx budget w)) = w"
  by (auto simp: reading_tool_def typed_tool_def split: sum.splits)

lemma typed_tool_run:
  "rd args = Inr a \<Longrightarrow> snd (snd (tl_run (typed_tool pt cls rd judge run) args ctx budget w)) = snd (run a ctx budget w)"
  by (simp add: typed_tool_def split_beta)

text \<open>What is never READ is never run by such a call.\<close>

lemma typed_tool_above:
  assumes "effective_risk (typed_tool pt cls rd judge run) args ctx w = Inr (READ, reason)"
    "tl_risk cls \<noteq> READ" "\<And>a. rd args = Inr a \<Longrightarrow> judge a ctx w \<noteq> Inr (READ, reason)"
  shows False
  using assms(1)
proof (cases rule: effective_READ)
  case judged
  with assms(3) show False by (auto simp: typed_tool_def split: sum.splits)
qed (use assms(2) in \<open>simp add: typed_tool_def\<close>)

lemma file_tool_still:
  assumes "t \<in> set (filesystem_tools os decode dec)" "effective_risk t args ctx f = Inr (READ, reason)"
  shows "snd (snd (tl_run t args ctx budget f)) = f"
proof (cases "\<exists>m. parse_file dec (tl_name t) args = Inl m")
  case True
  with assms(1) show ?thesis by (auto simp: filesystem_tools_def file_tool_def Let_def)
next
  case False
  then obtain c where c: "parse_file dec (tl_name t) args = Inr c" by (cases "parse_file dec (tl_name t) args") auto
  then have name: "file_tool_name c = tl_name t" by (auto simp: parse_file_def split: if_splits)
  have risk: "tl_risk t = READ \<Longrightarrow> tl_name t \<in> {''fs.list'', ''fs.stat'', ''fs.read''}"
    using assms(1) by (auto simp: filesystem_tools_def file_class_defs)
  have run: "snd (snd (tl_run t args ctx budget f)) = snd (run_file os decode c ctx f)"
    "tl_classify t args ctx f = file_classify c ctx f"
    using assms(1) c by (auto simp: filesystem_tools_def file_tool_def Let_def split_beta)
  from assms(2) show ?thesis
  proof (cases rule: effective_READ)
    case judged
    then have "file_classify c ctx f = Inr (READ, reason)" using run(2) by simp
    from file_classify_READ [OF this] run(1) show ?thesis by simp
  next
    case (declared e)
    with risk name show ?thesis by (cases c) (auto simp: run)
  qed
qed

lemma effective_on_files: "effective_risk (on_files pt u) args ctx w = effective_risk u args ctx (pt_files pt w)"
proof -
  have "tl_classify (on_files pt u) args ctx w = tl_classify u args ctx (pt_files pt w)" "tl_risk (on_files pt u) = tl_risk u"
    by (simp_all add: on_files_def)
  then show ?thesis by (simp only: effective_risk_def)
qed

lemma kill_tool_above: "effective_risk (kill_tool pt rd) args ctx w \<noteq> Inr (READ, reason)"
proof
  have floor: "kill_classify (pt_ps pt) a w \<noteq> (READ, reason)" for a
    using kill_classify_floor [of "pt_ps pt" a w] by auto
  assume "effective_risk (kill_tool pt rd) args ctx w = Inr (READ, reason)"
  then show False unfolding kill_tool_def by (rule typed_tool_above) (simp_all add: floor ProcessKillTool_def)
qed

lemma http_tool_above: "effective_risk (http_tool pt rd) args ctx w \<noteq> Inr (READ, reason)"
proof
  assume "effective_risk (http_tool pt rd) args ctx w = Inr (READ, reason)"
  then show False unfolding http_tool_def
    by (rule typed_tool_above) (auto simp: http_classify_def HTTPGetTool_def split: option.splits)
qed

text \<open>A git tool reads, at whatever risk it is called.\<close>

lemma git_tool_observes:
  assumes "t \<in> set (git_tools pt rd)"
  shows "snd (snd (tl_run t args ctx budget w)) = w
     \<or> reading_process (pt_host pt) (x_settings ctx) w (snd (snd (tl_run t args ctx budget w)))"
proof -
  from assms obtain cls where g: "t = typed_tool pt cls (read_git rd (tl_name cls)) (declared_risk cls) (git_run pt)"
    by (auto simp: git_tools_def)
  show ?thesis
  proof (cases "read_git rd (tl_name cls) args")
    case (Inr a)
    with git_run_observes [of pt "fst a" "snd a" ctx budget w] show ?thesis
      by (simp add: g typed_tool_run [where rd = "read_git rd (tl_name cls)" and a = a])
  qed (simp add: g typed_tool_def)
qed

text \<open>One READ call of any of the standard tools.\<close>

lemma default_tool_observes:
  assumes t: "t \<in> set (default_tools pt rd include_shell include_http)" and put: "\<And>w. pt_put_files pt (pt_files pt w) w = w"
    and risk: "effective_risk t args ctx w = Inr (READ, reason)"
  shows "snd (snd (tl_run t args ctx budget w)) = w
     \<or> reading_process (pt_host pt) (x_settings ctx) w (snd (snd (tl_run t args ctx budget w)))"
proof -
  from t consider (plain) "t \<in> set (system_tools pt rd)"
    | (disk) u where "u \<in> set (filesystem_tools (pt_os pt) (pt_decode pt) (rd_file rd))" "t = on_files pt u"
    | (process) "t \<in> set (process_tools pt rd)" | (git) "t \<in> set (git_tools pt rd)"
    | (shell) "t = shell_tool pt rd" | (http) "t = http_tool pt rd"
    by (auto simp: default_tools_def split: if_splits)
  then show ?thesis
  proof cases
    case plain
    then show ?thesis by (auto simp: system_tools_def Let_def reading_tool_still)
  next
    case disk
    have "effective_risk u args ctx (pt_files pt w) = Inr (READ, reason)"
      using risk by (simp add: disk(2) effective_on_files)
    from file_tool_still [OF disk(1) this] put show ?thesis by (simp add: disk(2) on_files_def split_beta)
  next
    case process
    have "t \<noteq> kill_tool pt rd" using risk kill_tool_above [of pt rd args ctx w reason] by auto
    with process show ?thesis by (auto simp: process_tools_def Let_def reading_tool_still)
  next
    case git
    then show ?thesis by (rule git_tool_observes)
  next
    case shell
    let ?rd = "\<lambda>p. ebind (rd_shell rd p) check_shell_args"
    show ?thesis
    proof (cases "?rd args")
      case (Inr a)
      then have ok: "check_shell_args a = Inr a"
        by (auto simp: check_shell_args_def split: if_splits)
      from risk have "fst (shell_classify a (x_settings ctx)) = READ"
        by (cases rule: effective_READ) (use Inr in \<open>auto simp: shell shell_tool_def typed_tool_def ShellRunTool_def split: sum.splits\<close>)
      from shell_run_observes [OF this ok, of pt budget w] Inr show ?thesis
        by (simp add: shell shell_tool_def typed_tool_run [where a = a])
    qed (simp add: shell shell_tool_def typed_tool_def)
  next
    case http
    with risk http_tool_above [of pt rd args ctx w reason] show ?thesis by simp
  qed
qed

section \<open>A run\<close>

definition standard_tools :: "'w parts \<Rightarrow> readers \<Rightarrow> 'w executor \<Rightarrow> bool" where
  "standard_tools pt rd ex \<longleftrightarrow> (\<exists>include_shell include_http r. build_default_registry pt rd include_shell include_http = Inr r
     \<and> rg_tools (ex_registry ex) = rg_tools r)"

lemma standard_tool: "standard_tools pt rd ex \<Longrightarrow> get_tool n (ex_registry ex) = Inr t \<Longrightarrow> \<exists>include_shell include_http.
    t \<in> set (default_tools pt rd include_shell include_http)"
  by (auto simp: standard_tools_def default_registry get_tool_Inr dest!: map_of_SomeD) blast

lemma gated_observation:
  assumes "standard_tools pt rd (ev_executor ev)" "\<And>w. pt_put_files pt (pt_files pt w) w = w" "o_max_risk ob = READ \<or> o_dry_run ob"
    "cleared_step (ev_executor ev) ob w w'"
  shows "(reading_process (pt_host pt) (ex_settings (ev_executor ev)))\<^sup>*\<^sup>* w w'"
proof -
  from assms(4) obtain call tool args risk reason budget where c: "get_tool (c_tool_name call) (ex_registry (ev_executor ev)) = Inr tool"
    "effective_risk tool args (call_context (ev_executor ev) call) w = Inr (risk, reason)"
    "risk \<le> o_max_risk ob" "o_dry_run ob \<longrightarrow> risk = READ"
    "w' = snd (snd (tl_run tool args (call_context (ev_executor ev) call) budget w))"
    unfolding cleared_step_def cleared_def by blast
  have "risk = READ" using c(3,4) assms(3) by (cases risk) (auto simp: less_eq_risk_level_def)
  with c(2) have "effective_risk tool args (call_context (ev_executor ev) call) w = Inr (READ, reason)" by simp
  from standard_tool [OF assms(1) c(1)] default_tool_observes [OF _ assms(2) this, of rd _ _ budget] c(5)
  have "w' = w \<or> reading_process (pt_host pt) (ex_settings (ev_executor ev)) w w'"
    by (auto simp: call_context_def)
  then show ?thesis by auto
qed

section \<open>Properties\<close>

text \<open>
  C14. A run that may only read, and a dry run, change nothing by themselves. With the standard tools,
  whatever the models propose and whoever approves it, all the run does to the machine is start
  processes, one after the other: a reading \<open>git\<close> command, or a command line of an allowlisted
  executable that is classified READ, whose group is signalled when it outlives its limit. No file is
  written, no process of the machine is signalled and no request leaves it but through those.
\<close>

theorem read_run_only_observes:
  assumes "standard_tools pt rd (ev_executor ev)" "\<forall>w. pt_put_files pt (pt_files pt w) w = w" "o_max_risk ob = READ \<or> o_dry_run ob"
  shows "case run_objective ev dc ob task_id pl m w of (res, s) \<Rightarrow>
     (reading_process (pt_host pt) (ex_settings (ev_executor ev)))\<^sup>*\<^sup>* w (br_world s)"
proof -
  have "(cleared_step (ev_executor ev) ob)\<^sup>*\<^sup>* w (br_world (snd (run_objective ev dc ob task_id pl m w)))"
    by (rule run_cleared_steps)
  then have "(reading_process (pt_host pt) (ex_settings (ev_executor ev)))\<^sup>*\<^sup>* w (br_world (snd (run_objective ev dc ob task_id pl m w)))"
  proof induction
    case (step w1 w2)
    from gated_observation [OF assms(1) _ assms(3) step.hyps(2)] assms(2) step.IH show ?case by auto
  qed simp
  then show ?thesis by (simp add: split_beta)
qed

text \<open>
  A bare machine whose world is its files: no process but the runtime's own, no network, no executable.
  The readers accept nothing, and the provider never answers.
\<close>

definition bare_machine :: machine where
  "bare_machine =
     (let none = \<lparr>mm_total = 0, mm_available = 0, mm_used = 0, mm_percent = 0\<rparr> in
      \<lparr>mc_hostname = ''host'', mc_system = ''Linux'', mc_release = [], mc_version = [], mc_arch = ''x86_64'', mc_processor = [],
       mc_python = ''3.12'', mc_os_release = None, mc_boot = 0, mc_now = 0, mc_logical = None, mc_physical = None, mc_percpu = [],
       mc_freq = None, mc_memory = none, mc_swap = none, mc_partitions = [], mc_load = Inl ''none'', mc_addrs = [], mc_stats = [],
       mc_counters = []\<rparr>)"

definition bare_parts :: "fs parts" where
  "bare_parts =
     \<lparr>pt_os = quiet_os, pt_decode = (\<lambda>e t. Some t), pt_files = id, pt_put_files = (\<lambda>f w. f), pt_machine = (\<lambda>w. bare_machine),
      pt_ps = \<lparr>ps_iter = (\<lambda>w. []), ps_detail = (\<lambda>p w. Inl No_such_process), ps_name = (\<lambda>p w. Inl No_such_process),
        ps_signal = (\<lambda>p g w. (Some No_such_process, w)), ps_own_pid = 2\<rparr>,
      pt_host = \<lparr>h_which = (\<lambda>x p w. None), h_environ = (\<lambda>w. []), h_fs = id, h_isdir = (\<lambda>p w. True), h_spawn = (\<lambda>s t w. (Spawn_missing, w)),
        h_exited = (\<lambda>w. True), h_killpg = (\<lambda>g w. w), h_wait = (\<lambda>t w. (True, w)), h_decode = id\<rparr>,
      pt_net = \<lparr>n_bracket_ok = (\<lambda>t. False), n_ip = (\<lambda>t. None), n_str_ip = (\<lambda>a. []), n_getaddrinfo = (\<lambda>n w. (Inl ''down'', w)),
        n_fetch = (\<lambda>u hs t w. (Fetch_error Timeout_error, w)), n_decode = (\<lambda>e t. t), n_took = 0\<rparr>,
      pt_hops = (\<lambda>a b w. None), pt_took = (\<lambda>n p w. 0)\<rparr>"

definition bare_readers :: readers where
  "bare_readers = \<lparr>rd_file = (\<lambda>n p. Inl ''bad''), rd_disk = (\<lambda>p. Inl ''bad''), rd_list = (\<lambda>p. Inl ''bad''), rd_pid = (\<lambda>p. Inl ''bad''),
     rd_kill = (\<lambda>p. Inl ''bad''), rd_git = (\<lambda>n p. Inl ''bad''), rd_shell = (\<lambda>p. Inl ''bad''), rd_http = (\<lambda>p. Inl ''bad'')\<rparr>"

definition bare_env :: "(unit, fs) brain_env" where
  "bare_env = example_env\<lparr>ev_executor := (ev_executor example_env)\<lparr>ex_registry :=
     (case build_default_registry bare_parts bare_readers True True of Inr r \<Rightarrow> r | Inl e \<Rightarrow> empty_registry)\<rparr>\<rparr>"

lemma bare_standard_tools: "standard_tools bare_parts bare_readers (ev_executor bare_env)"
  unfolding standard_tools_def bare_env_def by (auto simp: default_registry intro!: exI [of _ True])

theorem read_run_only_observes_witness:
  "case run_objective bare_env \<lparr>dec_proposal = (\<lambda>v. Inl []), dec_review = (\<lambda>v. Inl []), dec_verification = (\<lambda>v. Inl []), dec_recovery = (\<lambda>v. Inl [])\<rparr>
       example_objective None example_plane () example_files of (res, s) \<Rightarrow>
     (reading_process (pt_host bare_parts) (ex_settings (ev_executor bare_env)))\<^sup>*\<^sup>* example_files (br_world s)"
proof (rule read_run_only_observes)
  show "standard_tools bare_parts bare_readers (ev_executor bare_env)" by (rule bare_standard_tools)
  show "\<forall>w. pt_put_files bare_parts (pt_files bare_parts w) w = w" by (simp add: bare_parts_def)
  show "o_max_risk example_objective = READ \<or> o_dry_run example_objective" by (simp add: example_objective_def)
qed

end
