(* ===== verification/Tools_Unattended.thy ===== *)
theory Tools_Unattended
  imports Tools_Observe
begin

text \<open>
  What a run does to the machine when nobody answers its approvals, or when its ceiling is WRITE, with
  the standard tools: it reads, starts allowed commands that are not privileged, sends checked
  requests, and changes files of the workspace. Nothing else is within its reach.
\<close>

section \<open>The steps\<close>

text \<open>An allowed command line classified at most WRITE, and for one that outlives its limit the signals that end its group.\<close>

definition modest_command :: "'w host \<Rightarrow> settings \<Rightarrow> 'w \<Rightarrow> 'w \<Rightarrow> bool" where
  "modest_command h st w w' \<longleftrightarrow> (\<exists>a s limit. check_shell_args a = Inr a \<and> fst (classify_command (sh_argv a)) \<le> WRITE
     \<and> allowed_spawn h a st s w
     \<and> (w' = snd (h_spawn h s limit w) \<or> (\<exists>left. w' = snd (terminate_within h left (snd (h_spawn h s limit w))))))"

text \<open>The requests of one \<open>http.get\<close>, each after its check.\<close>

definition checked_requests :: "'w net \<Rightarrow> settings \<Rightarrow> 'w \<Rightarrow> 'w \<Rightarrow> bool" where
  "checked_requests n st w w' \<longleftrightarrow> http_enabled st \<and> (\<exists>a urls. check_http_args a = Inr a
     \<and> requests n (http_limits_of a st) urls w w' \<and> length urls \<le> Suc (http_max_redirects st))"

text \<open>A change of the files that stays in the workspace, when the workspace holds no link.\<close>

definition workspace_change :: "'w parts \<Rightarrow> settings \<Rightarrow> 'w \<Rightarrow> 'w \<Rightarrow> bool" where
  "workspace_change pt st w w' \<longleftrightarrow> (\<exists>f. w' = pt_put_files pt f w
     \<and> (\<forall>r. ws_ok r (pt_files pt w) \<and> expand_resolve (pt_files pt w) (workspace st) = Some r
          \<longrightarrow> keeps (territory_of r) (pt_files pt w) f))"

definition unprivileged_step :: "'w parts \<Rightarrow> settings \<Rightarrow> 'w \<Rightarrow> 'w \<Rightarrow> bool" where
  "unprivileged_step pt st w w' \<longleftrightarrow> reading_process (pt_host pt) st w w' \<or> modest_command (pt_host pt) st w w'
     \<or> checked_requests (pt_net pt) st w w' \<or> workspace_change pt st w w'"

section \<open>Each tool\<close>

lemma effective_judged:
  assumes "effective_risk t args ctx w = Inr (risk, reason)"
  obtains (judged) "tl_classify t args ctx w = Inr (risk, reason)"
  | (declared) e where "tl_classify t args ctx w = Inl e" "is_scrappy_error e" "tl_risk t = risk"
proof -
  have "risk_max [k, READ] = k" for k by (cases k) (simp_all add: risk_max_def)
  with assms that show thesis by (auto simp: effective_risk_def split: sum.splits prod.splits if_splits)
qed

lemma kill_never_modest:
  assumes "effective_risk (kill_tool pt rd) args ctx w = Inr (risk, reason)"
  shows "\<not> risk \<le> WRITE"
  using assms
proof (cases rule: effective_judged)
  case judged
  then have "\<exists>a. kill_classify (pt_ps pt) a w = (risk, reason)"
    by (auto simp: kill_tool_def typed_tool_def split: sum.splits)
  then obtain a where "kill_classify (pt_ps pt) a w = (risk, reason)" by blast
  with kill_classify_floor [of "pt_ps pt" a w] show ?thesis by (cases risk) (simp_all add: less_eq_risk_level_def)
next
  case (declared e)
  then have "risk = DESTRUCTIVE" by (simp add: kill_tool_def ProcessKillTool_def)
  then show ?thesis by (simp add: less_eq_risk_level_def)
qed

lemma shell_run_modest:
  assumes "fst (shell_classify a (x_settings ctx)) \<le> WRITE" "check_shell_args a = Inr a"
  shows "snd (shell_run pt a ctx budget w) = w \<or> modest_command (pt_host pt) (x_settings ctx) w (snd (shell_run pt a ctx budget w))"
proof -
  have "fst (classify_command (sh_argv a)) \<le> WRITE"
    using assms(1) by (auto simp: shell_classify_def Let_def less_eq_risk_level_def split: if_splits)
  with shell_run_world [of pt a ctx budget w] assms(2) show ?thesis unfolding modest_command_def by metis
qed

lemma http_run_checked:
  assumes "check_http_args a = Inr a"
  shows "snd (http_run pt a ctx budget w) = w \<or> checked_requests (pt_net pt) (x_settings ctx) w (snd (http_run pt a ctx budget w))"
proof (cases "http_enabled (x_settings ctx)")
  case False
  then show ?thesis by (simp add: http_run_def run_http_def Let_def)
next
  case True
  let ?st = "x_settings ctx" and ?max = "http_max_redirects (x_settings ctx)"
  have loop: "checked_requests (pt_net pt) ?st w (snd (http_loop (pt_net pt) (http_limits_of a ?st) ?max left (hg_url a) [] w))"
    if "left \<le> ?max" for left
  proof -
    obtain r w1 where r: "http_loop (pt_net pt) (http_limits_of a ?st) ?max left (hg_url a) [] w = (r, w1)" by fastforce
    from http_loop_requests [OF this] obtain urls where
      "requests (pt_net pt) (http_limits_of a ?st) urls w w1" "length urls \<le> Suc left" by blast
    with True assms that r show ?thesis unfolding checked_requests_def by (auto intro!: exI [of _ a] exI [of _ urls])
  qed
  show ?thesis
  proof (cases "pt_hops pt a budget w")
    case None
    then show ?thesis using loop [of ?max] by (simp add: http_run_def run_http_def True Let_def split_beta)
  next
    case (Some k)
    then show ?thesis using loop by (cases k) (simp_all add: http_run_def True Let_def)
  qed
qed

lemma file_tool_change:
  assumes "os_ok (pt_os pt)" "u \<in> set (filesystem_tools (pt_os pt) decode dec)"
  shows "workspace_change pt (x_settings ctx) w (snd (snd (tl_run (on_files pt u) args ctx budget w)))"
proof -
  let ?f = "snd (snd (tl_run u args ctx budget (pt_files pt w)))"
  have "keeps (territory_of r) (pt_files pt w) ?f"
    if "ws_ok r (pt_files pt w)" "expand_resolve (pt_files pt w) (workspace (x_settings ctx)) = Some r" for r
    using file_tool_step [OF assms(2), of args ctx budget "pt_files pt w"]
      run_file_keeps [OF assms(1) that(1), of ctx] that(2)
    by (auto simp: context_workspace_def)
  then show ?thesis unfolding workspace_change_def by (intro exI [of _ ?f]) (simp add: on_files_def split_beta)
qed

text \<open>One call of any of the standard tools that is effectively at most WRITE.\<close>

lemma default_tool_modest:
  assumes os: "os_ok (pt_os pt)" and t: "t \<in> set (default_tools pt rd include_shell include_http)"
    and risk: "effective_risk t args ctx w = Inr (risk, reason)" "risk \<le> WRITE"
  shows "snd (snd (tl_run t args ctx budget w)) = w
     \<or> unprivileged_step pt (x_settings ctx) w (snd (snd (tl_run t args ctx budget w)))"
proof -
  from t consider (plain) "t \<in> set (system_tools pt rd)"
    | (disk) u where "u \<in> set (filesystem_tools (pt_os pt) (pt_decode pt) (rd_file rd))" "t = on_files pt u"
    | (process) "t \<in> set (process_tools pt rd)" | (git) "t \<in> set (git_tools pt rd)"
    | (shell) "t = shell_tool pt rd" | (http) "t = http_tool pt rd"
    by (auto simp: default_tools_def split: if_splits)
  then show ?thesis
  proof cases
    case plain
    then show ?thesis by (auto simp: system_tools_def Let_def reading_tool_still)
  next
    case disk
    from file_tool_change [OF os disk(1)] show ?thesis by (simp add: disk(2) unprivileged_step_def)
  next
    case process
    have "t \<noteq> kill_tool pt rd" using risk kill_never_modest by metis
    with process show ?thesis by (auto simp: process_tools_def Let_def reading_tool_still)
  next
    case git
    from git_tool_observes [OF git, of args ctx budget w] show ?thesis by (auto simp: unprivileged_step_def)
  next
    case shell
    show ?thesis
    proof (cases "ebind (rd_shell rd args) check_shell_args")
      case (Inr a)
      then have ok: "check_shell_args a = Inr a" by (auto simp: check_shell_args_def split: if_splits)
      from risk(1) have "fst (shell_classify a (x_settings ctx)) = risk"
        by (cases rule: effective_judged) (use Inr in \<open>auto simp: shell shell_tool_def typed_tool_def\<close>)
      with shell_run_modest [of a ctx pt budget w] ok risk(2) Inr show ?thesis
        by (simp add: shell shell_tool_def typed_tool_run [where a = a] unprivileged_step_def) blast
    qed (simp add: shell shell_tool_def typed_tool_def)
  next
    case http
    show ?thesis
    proof (cases "ebind (rd_http rd args) check_http_args")
      case (Inr a)
      then have "check_http_args a = Inr a" by (auto simp: check_http_args_def split: if_splits)
      from http_run_checked [OF this, of pt ctx budget w] Inr show ?thesis
        by (simp add: http http_tool_def typed_tool_run [where a = a] unprivileged_step_def) blast
    qed (simp add: http http_tool_def typed_tool_def)
  qed
qed

section \<open>A run\<close>

text \<open>One call of a run: with nobody to answer, or under such a ceiling, it is not above WRITE.\<close>

lemma gated_unprivileged:
  assumes "standard_tools pt rd ex" "os_ok (pt_os pt)" "ex_prompt ex = None \<or> o_max_risk ob \<le> WRITE" "cleared_step ex ob w w'"
  shows "(unprivileged_step pt (ex_settings ex))\<^sup>*\<^sup>* w w'"
proof -
  from assms(4) obtain call esc where call: "cleared ex call (o_max_risk ob) (o_dry_run ob) esc w w'"
    "esc \<longrightarrow> ex_prompt ex \<noteq> None"
    unfolding cleared_step_def by blast
  then obtain tool args risk reason budget where c: "get_tool (c_tool_name call) (ex_registry ex) = Inr tool"
    "effective_risk tool args (call_context ex call) w = Inr (risk, reason)" "risk \<le> o_max_risk ob"
    "\<not> esc \<longrightarrow> risk = READ \<or> risk = WRITE" "w' = snd (snd (tl_run tool args (call_context ex call) budget w))"
    unfolding cleared_def Let_def by (cases esc; simp; blast)
  have "risk \<le> WRITE" using c(3,4) call(2) assms(3) by (cases esc) auto
  with standard_tool [OF assms(1) c(1)] c(5) have "w' = w \<or> unprivileged_step pt (x_settings (call_context ex call)) w w'"
    using default_tool_modest [OF assms(2) _ c(2)] by blast
  then show ?thesis by (auto simp: call_context_def)
qed

section \<open>Properties\<close>

text \<open>
  C15. What a run may do without a human. With the standard tools, when no prompt is attached or the
  objective's ceiling is at most WRITE, then whatever the models propose, all the run does to the machine
  is, one after the other: start processes that read; start a command line of an allowlisted executable
  that is classified at most WRITE, whose group is signalled when it outlives its limit; send the requests
  of an \<open>http.get\<close>, redirects included, each right after its URL was checked and only with HTTP enabled;
  or change files, and then, if the workspace holds no link at that moment, only files of the workspace
  and the backup beside it. No process of the machine is signalled, and no command that is privileged
  or destructive is started.
\<close>

theorem unattended_run_unprivileged:
  assumes "standard_tools pt rd (ev_executor ev)" "os_ok (pt_os pt)"
    "ex_prompt (ev_executor ev) = None \<or> o_max_risk ob \<le> WRITE"
  shows "case run_objective ev dc ob task_id pl m w of (res, s) \<Rightarrow>
     (unprivileged_step pt (ex_settings (ev_executor ev)))\<^sup>*\<^sup>* w (br_world s)"
proof -
  let ?w = "br_world (snd (run_objective ev dc ob task_id pl m w))"
  have "(unprivileged_step pt (ex_settings (ev_executor ev)))\<^sup>*\<^sup>* w ?w" using run_cleared_steps [of ev ob w dc task_id pl m]
  proof induction
    case (step w1 w2)
    from gated_unprivileged [OF assms step.hyps(2)] step.IH show ?case by auto
  qed simp
  then show ?thesis by (simp add: split_beta)
qed

theorem unattended_run_unprivileged_witness:
  "case run_objective bare_env \<lparr>dec_proposal = (\<lambda>v. Inl []), dec_review = (\<lambda>v. Inl []), dec_verification = (\<lambda>v. Inl []), dec_recovery = (\<lambda>v. Inl [])\<rparr>
       example_objective None example_plane () example_files of (res, s) \<Rightarrow>
     (unprivileged_step bare_parts (ex_settings (ev_executor bare_env)))\<^sup>*\<^sup>* example_files (br_world s)"
proof (rule unattended_run_unprivileged)
  show "standard_tools bare_parts bare_readers (ev_executor bare_env)" by (rule bare_standard_tools)
  show "os_ok (pt_os bare_parts)" by (simp add: os_ok_def quiet_os_def bare_parts_def)
  show "ex_prompt (ev_executor bare_env) = None \<or> o_max_risk example_objective \<le> WRITE" by (simp add: example_objective_def)
qed

end
