(* ===== verification/Tools_Catalogue.thy ===== *)
theory Tools_Catalogue
  imports Tools_Unattended
begin

text \<open>
  The list of tools a planner is shown (\<open>ToolRegistry.by_max_risk\<close>) against what a run then executes, with
  the standard tools. A tool is shown by the least risk it declares and judged by its arguments; the
  two agree because every standard tool is classified between its declared floor and ceiling.
\<close>

definition banded :: "'w tool \<Rightarrow> bool" where
  "banded t \<longleftrightarrow> risk_floor t \<le> tl_risk t
     \<and> (\<forall>args ctx w k reason. tl_classify t args ctx w = Inr (k, reason) \<longrightarrow> risk_floor t \<le> k \<and> k \<le> tl_risk t)"

text \<open>The classes whose risk is fixed declare no floor.\<close>

lemma no_floor [simp]:
  "tl_min_risk SystemInfoTool = None" "tl_min_risk SystemCPUTool = None" "tl_min_risk SystemMemoryTool = None"
  "tl_min_risk SystemDiskTool = None" "tl_min_risk SystemUptimeTool = None" "tl_min_risk SystemLoadTool = None"
  "tl_min_risk SystemNetworkTool = None" "tl_min_risk ProcessListTool = None" "tl_min_risk ProcessInspectTool = None"
  "tl_min_risk ProcessResourcesTool = None" "tl_min_risk GitStatusTool = None" "tl_min_risk GitLogTool = None"
  "tl_min_risk GitDiffTool = None" "tl_min_risk GitBranchTool = None"
  by (simp_all add: default_class_defs)

lemma DESTRUCTIVE_greatest: "r \<le> DESTRUCTIVE"
  by (cases r) (simp_all add: less_eq_risk_level_def)

lemma banded_declared: "tl_min_risk cls = None \<Longrightarrow> banded (typed_tool pt cls rd (declared_risk cls) run)"
  by (auto simp: banded_def risk_floor_def typed_tool_def declared_risk_def default_classify_def split: sum.splits)

lemma banded_reading: "tl_min_risk cls = None \<Longrightarrow> banded (reading_tool pt cls rd answer)"
  by (simp add: reading_tool_def banded_declared)

lemma kill_classify_above: "kill_classify ps a w = (k, reason) \<Longrightarrow> PRIVILEGED \<le> k"
  using kill_classify_floor [of ps a w] by (simp add: less_eq_risk_level_def)

lemma banded_kill: "banded (kill_tool pt rd)"
  by (auto simp: banded_def risk_floor_def kill_tool_def typed_tool_def ProcessKillTool_def DESTRUCTIVE_greatest kill_classify_above
      split: sum.splits)

lemma banded_shell: "banded (shell_tool pt rd)"
  by (simp add: banded_def risk_floor_def shell_tool_def typed_tool_def ShellRunTool_def DESTRUCTIVE_greatest)

lemma banded_http: "banded (http_tool pt rd)"
  by (auto simp: banded_def risk_floor_def http_tool_def typed_tool_def HTTPGetTool_def base_class_def http_classify_def
      split: sum.splits option.splits)

text \<open>The file tools: a change inside the workspace is a WRITE, one outside is what the class declares at worst.\<close>

lemma classify_path_band:
  "classify_path_write f p ws = Inr (k, reason) \<Longrightarrow> WRITE \<le> k \<and> k \<le> PRIVILEGED"
  "classify_path_delete f p ws = Inr (k, reason) \<Longrightarrow> WRITE \<le> k"
  by (auto simp: classify_path_write_def classify_path_delete_def less_eq_risk_level_def split: if_splits)

lemma file_classify_band:
  assumes "file_classify c ctx f = Inr (k, reason)"
  shows "file_tool_name c \<in> {''fs.list'', ''fs.stat'', ''fs.read''} \<Longrightarrow> k = READ"
    "file_tool_name c \<in> {''fs.mkdir'', ''fs.write''} \<Longrightarrow> WRITE \<le> k \<and> k \<le> PRIVILEGED"
    "file_tool_name c \<in> {''fs.move'', ''fs.delete''} \<Longrightarrow> WRITE \<le> k"
proof -
  show "file_tool_name c \<in> {''fs.list'', ''fs.stat'', ''fs.read''} \<Longrightarrow> k = READ"
    using assms by (cases c) (simp_all add: default_classify_def)
  show "file_tool_name c \<in> {''fs.mkdir'', ''fs.write''} \<Longrightarrow> WRITE \<le> k \<and> k \<le> PRIVILEGED"
    using assms by (cases c) (auto dest: classify_path_band)
  show "file_tool_name c \<in> {''fs.move'', ''fs.delete''} \<Longrightarrow> WRITE \<le> k"
    using assms classify_path_band
    by (cases c) (fastforce simp: classify_move_def classify_delete_def split: if_splits)+
qed

lemma banded_file:
  assumes "t \<in> set (filesystem_tools os decode dec)"
  shows "banded t"
proof -
  obtain cls where cls: "t = file_tool os decode dec cls" "cls \<in> {FSListTool, FSStatTool, FSReadTool, FSMkdirTool, FSWriteTool, FSMoveTool, FSDeleteTool}"
    using assms by (auto simp: filesystem_tools_def)
  have "or_else (tl_min_risk cls) (tl_risk cls) \<le> k \<and> k \<le> tl_risk cls"
    if c: "tl_classify t args ctx w = Inr (k, reason)" for args ctx w k reason
  proof -
    from c obtain c where "file_tool_name c = tl_name cls" "file_classify c ctx w = Inr (k, reason)"
      by (auto simp: cls(1) file_tool_def Let_def parse_file_def split: sum.splits if_splits)
    with file_classify_band [OF this(2)] cls(2) show ?thesis
      by (elim insertE emptyE) (simp_all add: file_class_defs DESTRUCTIVE_greatest)
  qed
  moreover have "or_else (tl_min_risk cls) (tl_risk cls) \<le> tl_risk cls"
    using cls(2) by (elim insertE emptyE) (simp_all add: file_class_defs less_eq_risk_level_def)
  ultimately show ?thesis by (simp add: banded_def risk_floor_def cls(1))
qed

lemma banded_on_files: "banded u \<Longrightarrow> banded (on_files pt u)"
  by (simp add: banded_def risk_floor_def) (simp add: on_files_def)

lemma default_tools_banded:
  assumes "t \<in> set (default_tools pt rd include_shell include_http)"
  shows "banded t"
proof -
  from assms consider (plain) "t \<in> set (system_tools pt rd)"
    | (disk) u where "u \<in> set (filesystem_tools (pt_os pt) (pt_decode pt) (rd_file rd))" "t = on_files pt u"
    | (process) "t \<in> set (process_tools pt rd)" | (git) "t \<in> set (git_tools pt rd)"
    | (shell) "t = shell_tool pt rd" | (http) "t = http_tool pt rd"
    by (auto simp: default_tools_def split: if_splits)
  then show ?thesis
  proof cases
    case plain
    have "list_all banded (system_tools pt rd)" by (simp add: system_tools_def Let_def banded_reading)
    with plain show ?thesis by (simp add: list_all_iff)
  next
    case process
    have "list_all banded (process_tools pt rd)" by (simp add: process_tools_def Let_def banded_reading banded_kill)
    with process show ?thesis by (simp add: list_all_iff)
  next
    case git
    have "list_all banded (git_tools pt rd)" by (simp add: git_tools_def banded_declared)
    with git show ?thesis by (simp add: list_all_iff)
  qed (simp_all add: banded_file banded_on_files banded_shell banded_http)
qed

lemma banded_effective:
  assumes "banded t" "effective_risk t args ctx w = Inr (k, reason)"
  shows "risk_floor t \<le> k \<and> k \<le> tl_risk t"
  using assms(2)
proof (cases rule: effective_judged)
  case judged
  with assms(1) show ?thesis unfolding banded_def by blast
next
  case (declared e)
  with assms(1) show ?thesis unfolding banded_def by simp
qed

section \<open>Properties\<close>

text \<open>A run of a tool that is on the list for a ceiling, at a risk in its declared band and under that ceiling.\<close>

definition shown_step :: "'w registry \<Rightarrow> risk_level \<Rightarrow> 'w \<Rightarrow> 'w \<Rightarrow> bool" where
  "shown_step r bound w w' \<longleftrightarrow> (\<exists>t \<in> set (by_max_risk bound r). \<exists>args ctx budget k reason.
     effective_risk t args ctx w = Inr (k, reason) \<and> risk_floor t \<le> k \<and> k \<le> tl_risk t \<and> k \<le> bound
     \<and> w' = snd (snd (tl_run t args ctx budget w)))"

lemma standard_enabled:
  assumes "standard_tools pt rd ex" "get_tool n (ex_registry ex) = Inr t" "n \<notin> set (rg_disabled (ex_registry ex))"
  shows "t \<in> set (enabled_tools (ex_registry ex))"
proof -
  from assms(1) obtain include_shell include_http where
    "rg_tools (ex_registry ex) = map (\<lambda>t. (tl_name t, t)) (default_tools pt rd include_shell include_http)"
    by (auto simp: standard_tools_def default_registry)
  with assms(2,3) show ?thesis
    by (auto simp: get_tool_Inr enabled_tools_def all_tools_def dest!: map_of_SomeD intro: rev_image_eqI)
qed

lemma gated_shown:
  assumes "standard_tools pt rd ex" "cleared_step ex ob w w'"
  shows "shown_step (ex_registry ex) (o_max_risk ob) w w'"
proof -
  from assms(2) obtain call tool args k reason budget where c: "get_tool (c_tool_name call) (ex_registry ex) = Inr tool"
    "effective_risk tool args (call_context ex call) w = Inr (k, reason)" "k \<le> o_max_risk ob"
    "c_tool_name call \<notin> set (rg_disabled (ex_registry ex))"
    "w' = snd (snd (tl_run tool args (call_context ex call) budget w))"
    unfolding cleared_step_def cleared_def by blast
  from standard_tool [OF assms(1) c(1)] have b: "banded tool" by (auto intro: default_tools_banded)
  from banded_effective [OF this c(2)] c(3) have "rank (risk_floor tool) \<le> rank (o_max_risk ob)"
    by (auto simp: rank_le intro: order_trans)
  with standard_enabled [OF assms(1) c(1,4)] have "tool \<in> set (by_max_risk (o_max_risk ob) (ex_registry ex))"
    by (simp add: by_max_risk_def)
  with c banded_effective [OF b c(2)] show ?thesis unfolding shown_step_def by blast
qed

text \<open>
  C16. Nothing runs that the planner was not shown. With the standard tools, every change a run makes is
  one run of a tool that is enabled and on the list for the objective's ceiling, although the list is
  made from what the tools declare and the call is judged by its arguments: whatever the arguments,
  a call is classified between the floor and the ceiling its tool declares. In particular no
  standard tool exceeds its declared ceiling.
\<close>

theorem run_uses_shown_tools:
  assumes "standard_tools pt rd (ev_executor ev)"
  shows "case run_objective ev dc ob task_id pl m w of (res, s) \<Rightarrow>
     (shown_step (ex_registry (ev_executor ev)) (o_max_risk ob))\<^sup>*\<^sup>* w (br_world s)"
proof -
  have "shown_step (ex_registry (ev_executor ev)) (o_max_risk ob) a b" if "cleared_step (ev_executor ev) ob a b" for a b
    by (rule gated_shown [OF assms that])
  with run_cleared_steps [of ev ob w dc task_id pl m] show ?thesis
    by (simp add: split_beta) (metis (no_types, lifting) mono_rtranclp)
qed

theorem run_uses_shown_tools_witness:
  "case run_objective bare_env \<lparr>dec_proposal = (\<lambda>v. Inl []), dec_review = (\<lambda>v. Inl []), dec_verification = (\<lambda>v. Inl []), dec_recovery = (\<lambda>v. Inl [])\<rparr>
       example_objective None example_plane () example_files of (res, s) \<Rightarrow>
     (shown_step (ex_registry (ev_executor bare_env)) (o_max_risk example_objective))\<^sup>*\<^sup>* example_files (br_world s)"
  by (rule run_uses_shown_tools [OF bare_standard_tools])

end
