(* ===== verification/Sec_Credentials.thy ===== *)
theory Sec_Credentials
  imports Core_Identity Py_Regex
begin

text \<open>
  \<open>security/credentials.py\<close>: the token format, the keyed verifier, the lifecycle of a stored
  credential, and issuing one. The random id digits and the random secret are arguments;
  \<open>HMAC-SHA256(pepper, secret)\<close> of the standard library is the argument \<open>hmac\<close>, and
  \<open>compare_digest\<close> is equality.
\<close>

definition TOKEN_PREFIX :: string where
  "TOKEN_PREFIX = ''scrp''"

definition CREDENTIAL_ID_PREFIX :: string where
  "CREDENTIAL_ID_PREFIX = ''cred''"

definition ID_HEX_LENGTH :: nat where
  "ID_HEX_LENGTH = 12"

definition MAX_TOKEN_LENGTH :: nat where
  "MAX_TOKEN_LENGTH = 512"

definition is_hex :: "char \<Rightarrow> bool" where
  "is_hex c \<longleftrightarrow> is_digit c \<or> c \<in> set ''abcdef''"

definition CREDENTIAL_ID_RE :: regex where
  "CREDENTIAL_ID_RE = seq_all [AtStart, lit (CREDENTIAL_ID_PREFIX @ ''_''),
     exactly_r ID_HEX_LENGTH (Cls is_hex), AtDollar]"

datatype credential_status = S_ACTIVE | S_EXPIRED | S_REVOKED

definition new_credential_id :: "string \<Rightarrow> string" where
  "new_credential_id token_hex = CREDENTIAL_ID_PREFIX @ ''_'' @ token_hex"

section \<open>Tokens\<close>

definition format_token :: "string \<Rightarrow> string \<Rightarrow> scrappy_error + string" where
  "format_token credential_id secret =
     (if \<not> re_match CREDENTIAL_ID_RE credential_id then
        Inl (CredentialError (''not a well-formed credential id: '' @ py_repr credential_id))
      else Inr (TOKEN_PREFIX @ ''_'' @ (py_split_max (CHR ''_'') 1 credential_id ! 1) @ ''_'' @ secret))"

definition parse_token :: "string \<Rightarrow> scrappy_error + string \<times> string" where
  "parse_token raw =
     (if raw = [] \<or> MAX_TOKEN_LENGTH < length raw then
        Inl (CredentialError ''token is empty or implausibly long'')
      else (case py_split_max (CHR ''_'') 2 raw of
        [pre, id_hex, secret] \<Rightarrow>
          if pre \<noteq> TOKEN_PREFIX \<or> secret = [] then
            Inl (CredentialError ''token prefix or secret is missing'')
          else let credential_id = CREDENTIAL_ID_PREFIX @ ''_'' @ id_hex in
            if \<not> re_match CREDENTIAL_ID_RE credential_id then
              Inl (CredentialError ''token does not carry a well-formed credential id'')
            else Inr (credential_id, secret)
      | _ \<Rightarrow> Inl (CredentialError ''token does not have the expected three parts'')))"

definition compute_verifier :: "(string \<Rightarrow> string \<Rightarrow> string) \<Rightarrow> string \<Rightarrow> string \<Rightarrow> scrappy_error + string" where
  "compute_verifier hmac secret pepper =
     (if pepper = [] then Inl (CredentialError ''refusing to compute a verifier without a pepper'')
      else Inr (hmac pepper secret))"

definition verify_secret :: "(string \<Rightarrow> string \<Rightarrow> string) \<Rightarrow> string \<Rightarrow> string \<Rightarrow> string \<Rightarrow> bool" where
  "verify_secret hmac secret expected pepper =
     (case compute_verifier hmac secret pepper of Inl e \<Rightarrow> False | Inr candidate \<Rightarrow> candidate = expected)"

section \<open>Credentials\<close>

record credential =
  k_id :: string
  k_actor_id :: string
  k_actor_type :: actor_type
  k_display_name :: "string option"
  k_scopes :: "scope set"
  k_verifier :: string
  k_created_at :: time
  k_expires_at :: "time option"
  k_revoked_at :: "time option"
  k_last_used_at :: "time option"
  k_auth_method :: auth_method
  k_metadata :: "(string \<times> string) list"

definition credential_valid :: "credential \<Rightarrow> bool" where
  "credential_valid c \<longleftrightarrow> 1 \<le> length (k_id c) \<and> length (k_id c) \<le> 64
     \<and> 1 \<le> length (k_actor_id c) \<and> length (k_actor_id c) \<le> 128
     \<and> (case k_display_name c of None \<Rightarrow> True | Some n \<Rightarrow> length n \<le> 128)
     \<and> 1 \<le> length (k_verifier c) \<and> length (k_verifier c) \<le> 128
     \<and> re_match CREDENTIAL_ID_RE (k_id c)"

definition make_credential :: "credential \<Rightarrow> scrappy_error + credential" where
  "make_credential c = (if credential_valid c then Inr c else Inl (Invalid ''Credential''))"

definition status_at :: "time \<Rightarrow> credential \<Rightarrow> credential_status" where
  "status_at now c =
     (if k_revoked_at c \<noteq> None then S_REVOKED
      else if (case k_expires_at c of None \<Rightarrow> False | Some e \<Rightarrow> e \<le> now) then S_EXPIRED
      else S_ACTIVE)"

definition is_usable_at :: "time \<Rightarrow> credential \<Rightarrow> bool" where
  "is_usable_at now c \<longleftrightarrow> status_at now c = S_ACTIVE"

definition credential_to_actor :: "credential \<Rightarrow> scrappy_error + actor" where
  "credential_to_actor c = make_actor \<lparr>a_id = k_actor_id c, a_type = k_actor_type c,
     a_display_name = k_display_name c, a_scopes = k_scopes c, a_auth_method = k_auth_method c,
     a_metadata = [(''credential_id'', k_id c)]\<rparr>"

definition opt_time :: "time option \<Rightarrow> pyval" where
  "opt_time t = (case t of None \<Rightarrow> PNone | Some u \<Rightarrow> PStr (iso_datetime ''T'' u))"

definition credential_redacted :: "credential \<Rightarrow> payload" where
  "credential_redacted c =
     [(''credential_id'', PStr (k_id c)), (''actor_id'', PStr (k_actor_id c)),
      (''actor_type'', PStr (actor_type_value (k_actor_type c))),
      (''display_name'', pstr_opt (k_display_name c)),
      (''scopes'', PList (map PStr (scope_names (k_scopes c)))),
      (''created_at'', opt_time (Some (k_created_at c))), (''expires_at'', opt_time (k_expires_at c)),
      (''revoked_at'', opt_time (k_revoked_at c)), (''last_used_at'', opt_time (k_last_used_at c)),
      (''auth_method'', PStr (auth_method_value (k_auth_method c))),
      (''metadata'', PDict (map (\<lambda>(k, v). (k, PStr v)) (k_metadata c)))]"

definition credential_audit_fields :: "credential \<Rightarrow> payload" where
  "credential_audit_fields c =
     [(''credential_id'', PStr (k_id c)), (''actor_id'', PStr (k_actor_id c)),
      (''actor_type'', PStr (actor_type_value (k_actor_type c)))]"

definition with_revoked_at :: "time \<Rightarrow> credential \<Rightarrow> credential" where
  "with_revoked_at t c = c\<lparr>k_revoked_at := Some t\<rparr>"

definition with_last_used_at :: "time \<Rightarrow> credential \<Rightarrow> credential" where
  "with_last_used_at t c = c\<lparr>k_last_used_at := Some t\<rparr>"

section \<open>Issuing\<close>

record issued =
  is_credential :: credential
  is_token :: string

definition issue_credential ::
  "(string \<Rightarrow> string \<Rightarrow> string) \<Rightarrow> string \<Rightarrow> string \<Rightarrow> string \<Rightarrow> actor_type \<Rightarrow> scope set \<Rightarrow> string \<Rightarrow>
   string option \<Rightarrow> time option \<Rightarrow> time \<Rightarrow> (string \<times> string) list \<Rightarrow> scrappy_error + issued" where
  "issue_credential hmac token_hex secret actor_id actor_type scopes pepper display_name expires_at now metadata =
     (if (case expires_at of None \<Rightarrow> False | Some e \<Rightarrow> e \<le> now) then
        Inl (CredentialError ''expires_at is in the past; the credential would be born expired'')
      else let credential_id = new_credential_id token_hex in
        ebind (compute_verifier hmac secret pepper) (\<lambda>v.
        ebind (make_credential
          \<lparr>k_id = credential_id, k_actor_id = actor_id, k_actor_type = actor_type,
           k_display_name = display_name, k_scopes = scopes, k_verifier = v, k_created_at = now,
           k_expires_at = expires_at, k_revoked_at = None, k_last_used_at = None,
           k_auth_method = BEARER_TOKEN, k_metadata = metadata\<rparr>) (\<lambda>c.
        ebind (format_token credential_id secret) (\<lambda>t.
          Inr \<lparr>is_credential = c, is_token = t\<rparr>))))"

section \<open>Lemmas\<close>

text \<open>What the id pattern accepts: \<open>$\<close> also matches before a final line break.\<close>

definition hex_id :: "string \<Rightarrow> bool" where
  "hex_id h \<longleftrightarrow> (\<exists>d. length d = ID_HEX_LENGTH \<and> list_all is_hex d \<and> (h = d \<or> h = d @ [CHR 0x0A]))"

lemma id_pattern: "re_match CREDENTIAL_ID_RE s \<longleftrightarrow> (\<exists>h. s = ''cred_'' @ h \<and> hex_id h)"
proof -
  have "re_match CREDENTIAL_ID_RE s \<longleftrightarrow>
      (\<exists>r. s = ''cred_'' @ r \<and> ID_HEX_LENGTH \<le> length r \<and> list_all is_hex (take ID_HEX_LENGTH r)
        \<and> (drop ID_HEX_LENGTH r = [] \<or> drop ID_HEX_LENGTH r = [CHR 0x0A]))"
    unfolding re_match_def CREDENTIAL_ID_RE_def seq_all.simps rmatch.simps(3)
    by (auto simp: rmatch_lit rmatch_exactly_cls CREDENTIAL_ID_PREFIX_def prefix_def split: if_splits)
  also have "\<dots> \<longleftrightarrow> (\<exists>h. s = ''cred_'' @ h \<and> hex_id h)"
  proof (rule arg_cong [of _ _ Ex], rule ext, rule conj_cong [OF refl])
    fix r
    show "(ID_HEX_LENGTH \<le> length r \<and> list_all is_hex (take ID_HEX_LENGTH r)
        \<and> (drop ID_HEX_LENGTH r = [] \<or> drop ID_HEX_LENGTH r = [CHR 0x0A])) \<longleftrightarrow> hex_id r"
    proof
      assume l: "ID_HEX_LENGTH \<le> length r \<and> list_all is_hex (take ID_HEX_LENGTH r)
        \<and> (drop ID_HEX_LENGTH r = [] \<or> drop ID_HEX_LENGTH r = [CHR 0x0A])"
      then have "r = take ID_HEX_LENGTH r \<or> r = take ID_HEX_LENGTH r @ [CHR 0x0A]"
        using append_take_drop_id [of ID_HEX_LENGTH r] by (metis append_Nil2)
      with l show "hex_id r" unfolding hex_id_def by (intro exI [of _ "take ID_HEX_LENGTH r"]) auto
    qed (auto simp: hex_id_def)
  qed
  finally show ?thesis .
qed

lemma underscore_not_hex: "\<not> is_hex (CHR ''_'')"
  by code_simp

lemma hex_id_no_underscore: "hex_id h \<Longrightarrow> CHR ''_'' \<notin> set h"
  using underscore_not_hex by (auto simp: hex_id_def list_all_iff)

lemma format_token_Inr: "format_token cid secret = Inr t \<longleftrightarrow>
    (\<exists>h. cid = ''cred_'' @ h \<and> hex_id h \<and> t = ''scrp_'' @ h @ ''_'' @ secret)"
proof -
  have "py_split_max (CHR ''_'') 1 (''cred_'' @ h) ! 1 = h" for h
    using py_split_max_step [of "CHR ''_''" "''cred''" 0 h] by simp
  then show ?thesis by (auto simp: format_token_def id_pattern TOKEN_PREFIX_def)
qed

lemma parse_token_Inr: "parse_token raw = Inr (cid, secret) \<longleftrightarrow>
    (\<exists>h. raw = ''scrp_'' @ h @ ''_'' @ secret \<and> cid = ''cred_'' @ h \<and> hex_id h \<and> secret \<noteq> []
      \<and> length raw \<le> MAX_TOKEN_LENGTH)"
proof
  assume p: "parse_token raw = Inr (cid, secret)"
  then obtain pre h where s: "py_split_max (CHR ''_'') 2 raw = [pre, h, secret]" "pre = TOKEN_PREFIX"
      "secret \<noteq> []" "cid = ''cred_'' @ h" "re_match CREDENTIAL_ID_RE cid" "length raw \<le> MAX_TOKEN_LENGTH"
    by (auto simp: parse_token_def Let_def CREDENTIAL_ID_PREFIX_def split: if_splits list.splits)
  from s(1) have "raw = pre @ CHR ''_'' # h @ CHR ''_'' # secret" by (simp only: py_split_max_two)
  with s show "\<exists>h. raw = ''scrp_'' @ h @ ''_'' @ secret \<and> cid = ''cred_'' @ h \<and> hex_id h \<and> secret \<noteq> []
      \<and> length raw \<le> MAX_TOKEN_LENGTH"
    by (auto simp: TOKEN_PREFIX_def id_pattern)
next
  assume "\<exists>h. raw = ''scrp_'' @ h @ ''_'' @ secret \<and> cid = ''cred_'' @ h \<and> hex_id h \<and> secret \<noteq> []
      \<and> length raw \<le> MAX_TOKEN_LENGTH"
  then obtain h where h: "raw = ''scrp_'' @ h @ ''_'' @ secret" "cid = ''cred_'' @ h" "hex_id h" "secret \<noteq> []"
      "length raw \<le> MAX_TOKEN_LENGTH" by blast
  have "py_split_max (CHR ''_'') 2 raw = [''scrp'', h, secret]"
    using h(1) hex_id_no_underscore [OF h(3)] by (simp add: py_split_max_two)
  moreover have "re_match CREDENTIAL_ID_RE (''cred_'' @ h)" using h(3) by (auto simp: id_pattern)
  ultimately show "parse_token raw = Inr (cid, secret)"
    using h by (simp add: parse_token_def TOKEN_PREFIX_def CREDENTIAL_ID_PREFIX_def)
qed

lemma parse_token_Inl: "parse_token raw = Inl e \<Longrightarrow> \<exists>m. e = CredentialError m"
  by (auto simp: parse_token_def Let_def split: if_splits list.splits)

lemma issue_Inr:
  assumes "issue_credential hmac hex secret aid ty sc pepper dn ex now md = Inr i"
  shows "pepper \<noteq> []" "k_verifier (is_credential i) = hmac pepper secret"
    "format_token (k_id (is_credential i)) secret = Inr (is_token i)" "k_id (is_credential i) = new_credential_id hex"
    "k_scopes (is_credential i) = sc" "k_actor_id (is_credential i) = aid" "k_auth_method (is_credential i) = BEARER_TOKEN"
    "k_revoked_at (is_credential i) = None" "k_expires_at (is_credential i) = ex" "credential_valid (is_credential i)"
    "status_at now (is_credential i) = S_ACTIVE"
    "k_actor_type (is_credential i) = ty" "k_display_name (is_credential i) = dn" "k_metadata (is_credential i) = md"
  using assms
  by (auto simp: issue_credential_def Let_def compute_verifier_def make_credential_def status_at_def split: if_splits)

section \<open>Properties\<close>

text \<open>
  Which strings are tokens, and how a token round-trips. A string parses exactly when it is
  \<open>scrp_\<close>, the id, an underscore and a non-empty secret (underscores allowed in it) within 512
  characters, and every token the formatter builds parses back to its id and secret. The id is
  twelve hex digits, or twelve hex digits and a final line break, which the \<open>$\<close> of the pattern
  lets through.
\<close>

theorem token_format_exact:
  "(parse_token raw = Inr (cid, secret)) =
     (format_token cid secret = Inr raw \<and> secret \<noteq> [] \<and> length raw \<le> 512)
   \<and> (format_token cid secret = Inr raw) =
     (\<exists>d. length d = 12 \<and> list_all is_hex d \<and>
        (cid = ''cred_'' @ d \<and> raw = ''scrp_'' @ d @ ''_'' @ secret
         \<or> cid = ''cred_'' @ d @ [CHR 0x0A] \<and> raw = ''scrp_'' @ d @ [CHR 0x0A] @ ''_'' @ secret))"
  by (auto simp: parse_token_Inr format_token_Inr hex_id_def ID_HEX_LENGTH_def MAX_TOKEN_LENGTH_def)

end
