(* ===== verification/Sec_Credential_Store.thy ===== *)
theory Sec_Credential_Store
  imports Sec_Credentials
begin

text \<open>
  \<open>security/credential_store.py\<close>: the contract of a credential store as a locale, and the SQLite
  implementation, which satisfies it. A row holds the scopes by name, as the table does.
\<close>

record cred_row =
  kr_id :: string
  kr_actor_id :: string
  kr_actor_type :: actor_type
  kr_display_name :: "string option"
  kr_scopes :: "string list"
  kr_verifier :: string
  kr_created_at :: time
  kr_expires_at :: "time option"
  kr_revoked_at :: "time option"
  kr_last_used_at :: "time option"
  kr_auth_method :: auth_method
  kr_metadata :: "(string \<times> string) list"

text \<open>The fields read from a row. A scope name this build does not know is dropped.\<close>

definition stored_fields :: "cred_row \<Rightarrow> credential" where
  "stored_fields r =
     \<lparr>k_id = kr_id r, k_actor_id = kr_actor_id r, k_actor_type = kr_actor_type r,
      k_display_name = kr_display_name r,
      k_scopes = set (List.map_filter scope_of_value (kr_scopes r)),
      k_verifier = kr_verifier r, k_created_at = kr_created_at r, k_expires_at = kr_expires_at r,
      k_revoked_at = kr_revoked_at r, k_last_used_at = kr_last_used_at r,
      k_auth_method = kr_auth_method r, k_metadata = kr_metadata r\<rparr>"

text \<open>\<open>Credential\<close> validates them: a row that is no credential is not read, and the error passes through every reader.\<close>

definition row_to_credential :: "cred_row \<Rightarrow> scrappy_error + credential" where
  "row_to_credential r = make_credential (stored_fields r)"

fun rows_to_credentials :: "cred_row list \<Rightarrow> scrappy_error + credential list" where
  "rows_to_credentials [] = Inr []"
| "rows_to_credentials (r # rs) = ebind (row_to_credential r) (\<lambda>c. ebind (rows_to_credentials rs) (\<lambda>cs. Inr (c # cs)))"

definition credential_params :: "credential \<Rightarrow> cred_row" where
  "credential_params c =
     \<lparr>kr_id = k_id c, kr_actor_id = k_actor_id c, kr_actor_type = k_actor_type c,
      kr_display_name = k_display_name c, kr_scopes = scope_names (k_scopes c),
      kr_verifier = k_verifier c, kr_created_at = k_created_at c, kr_expires_at = k_expires_at c,
      kr_revoked_at = k_revoked_at c, kr_last_used_at = k_last_used_at c,
      kr_auth_method = k_auth_method c, kr_metadata = k_metadata c\<rparr>"

section \<open>The contract\<close>

text \<open>
  What the callers of a \<open>CredentialStore\<close> rely on. A lookup returns what was stored, whatever its
  state, or raises when it is no credential; revoking keeps the first timestamp; rotating adds the replacement and revokes the original
  only if asked, in one step.
\<close>

definition revoke_once :: "time \<Rightarrow> credential \<Rightarrow> credential" where
  "revoke_once t c = (if k_revoked_at c = None then with_revoked_at t c else c)"

locale credential_store =
  fixes get :: "'s \<Rightarrow> string \<Rightarrow> scrappy_error + credential option"
    and create :: "credential \<Rightarrow> 's \<Rightarrow> scrappy_error + 's"
    and revoke :: "string \<Rightarrow> time \<Rightarrow> 's \<Rightarrow> (scrappy_error + credential option) \<times> 's"
    and touch :: "string \<Rightarrow> time \<Rightarrow> 's \<Rightarrow> 's"
    and rotate :: "string \<Rightarrow> credential \<Rightarrow> time option \<Rightarrow> 's \<Rightarrow> scrappy_error + credential option \<times> 's"
  assumes create_clash: "get s (k_id c) \<noteq> Inr None \<Longrightarrow> \<exists>e. create c s = Inl e"
    and create_get: "create c s = Inr s' \<Longrightarrow> get s' i = (if i = k_id c then map_sum id Some (make_credential c) else get s i)"
    and revoke_result: "fst (revoke i t s) = map_sum id (map_option (revoke_once t)) (get s i)"
    and revoke_get: "get (snd (revoke i t s)) j = (if j = i then map_sum id (map_option (revoke_once t)) (get s i) else get s j)"
    and touch_get: "get (touch i t s) j = (if j = i then map_sum id (map_option (with_last_used_at t)) (get s i) else get s j)"
    and rotate_absent: "get s i = Inr None \<Longrightarrow> rotate i c u s = Inr (None, s)"
    and rotate_none: "rotate i c u s = Inr (None, s') \<Longrightarrow> get s i = Inr None"
    and rotate_result: "rotate i c u s = Inr (Some old, s') \<Longrightarrow> get s i = Inr (Some old)"
    and rotate_clash: "rotate i c u s = Inr (Some old, s') \<Longrightarrow> get s (k_id c) = Inr None"
    and rotate_get: "rotate i c u s = Inr (Some old, s') \<Longrightarrow>
      get s' j = (if j = k_id c then map_sum id Some (make_credential c)
        else if j = i then map_sum id (map_option (case u of None \<Rightarrow> (\<lambda>k. k) | Some v \<Rightarrow> revoke_once v)) (get s i)
        else get s j)"
begin

text \<open>Revocation is final, and its moment is kept, under every operation of the contract.\<close>

definition revoked_at :: "'s \<Rightarrow> string \<Rightarrow> time \<Rightarrow> bool" where
  "revoked_at s i t \<longleftrightarrow> (\<exists>c. get s i = Inr (Some c) \<and> k_revoked_at c = Some t)"

lemma revoked_create: "revoked_at s i t \<Longrightarrow> create c s = Inr s' \<Longrightarrow> revoked_at s' i t"
  using create_clash [of s c] create_get [of c s s'] by (auto simp: revoked_at_def)

lemma revoked_revoke: "revoked_at s i t \<Longrightarrow> revoked_at (snd (revoke j u s)) i t"
proof -
  assume "revoked_at s i t"
  then obtain c where c: "get s i = Inr (Some c)" "k_revoked_at c = Some t" by (auto simp: revoked_at_def)
  have "get (snd (revoke j u s)) i = Inr (Some (if i = j then revoke_once u c else c))"
    using c(1) by (auto simp: revoke_get)
  with c(2) show ?thesis by (simp add: revoked_at_def revoke_once_def)
qed

lemma revoked_touch: "revoked_at s i t \<Longrightarrow> revoked_at (touch j u s) i t"
  by (cases "j = i") (auto simp: revoked_at_def touch_get with_last_used_at_def)

lemma revoked_rotate:
  assumes "revoked_at s i t" "rotate j c u s = Inr (old, s')"
  shows "revoked_at s' i t"
proof -
  from assms(1) obtain k where k: "get s i = Inr (Some k)" "k_revoked_at k = Some t" by (auto simp: revoked_at_def)
  show ?thesis
  proof (cases old)
    case None
    with assms(2) have r: "rotate j c u s = Inr (None, s')" by simp
    from rotate_absent [OF rotate_none [OF r], of c u] r assms(1) show ?thesis by simp
  next
    case (Some o2)
    note r = assms(2) [unfolded Some]
    from rotate_clash [OF r] k(1) have "i \<noteq> k_id c" by auto
    then have "get s' i = Inr (Some k) \<or> (\<exists>v. get s' i = Inr (Some (revoke_once v k)))"
      using rotate_get [OF r, of i] k(1) by (cases u) (auto split: if_splits)
    with k(2) show ?thesis by (auto simp: revoked_at_def revoke_once_def)
  qed
qed

lemma revoke_revokes: "get s i = Inr (Some c) \<Longrightarrow> \<exists>t'. revoked_at (snd (revoke i t s)) i t'"
  by (auto simp: revoked_at_def revoke_get revoke_once_def with_revoked_at_def)

end

section \<open>The SQLite store\<close>

definition store_get :: "cred_row list \<Rightarrow> string \<Rightarrow> scrappy_error + credential option" where
  "store_get rows i = (case tbl_get kr_id i rows of None \<Rightarrow> Inr None | Some r \<Rightarrow> map_sum id Some (row_to_credential r))"

definition store_create :: "credential \<Rightarrow> cred_row list \<Rightarrow> scrappy_error + cred_row list" where
  "store_create c rows = (case tbl_insert kr_id (credential_params c) rows of
     None \<Rightarrow> Inl (CredentialError (''could not store credential '' @ k_id c))
   | Some rows' \<Rightarrow> Inr rows')"

text \<open>\<open>ORDER BY created_at DESC\<close>.\<close>

definition store_list :: "string option \<Rightarrow> cred_row list \<Rightarrow> scrappy_error + credential list" where
  "store_list actor_id rows = rows_to_credentials (sort_key (\<lambda>r. - kr_created_at r)
     (filter (\<lambda>r. case actor_id of None \<Rightarrow> True | Some a \<Rightarrow> kr_actor_id r = a) rows))"

definition store_revoke :: "string \<Rightarrow> time \<Rightarrow> cred_row list \<Rightarrow> (scrappy_error + credential option) \<times> cred_row list" where
  "store_revoke i t rows = (case store_get rows i of
     Inl e \<Rightarrow> (Inl e, rows)
   | Inr None \<Rightarrow> (Inr None, rows)
   | Inr (Some existing) \<Rightarrow>
       if k_revoked_at existing \<noteq> None then (Inr (Some existing), rows)
       else (Inr (Some (with_revoked_at t existing)),
         tbl_update kr_id i (\<lambda>r. r\<lparr>kr_revoked_at := Some t\<rparr>) rows))"

definition store_touch :: "string \<Rightarrow> time \<Rightarrow> cred_row list \<Rightarrow> cred_row list" where
  "store_touch i t rows = tbl_update kr_id i (\<lambda>r. r\<lparr>kr_last_used_at := Some t\<rparr>) rows"

text \<open>One transaction: a key clash rolls it back and leaves the exception of the driver.\<close>

definition store_rotate ::
  "string \<Rightarrow> credential \<Rightarrow> time option \<Rightarrow> cred_row list \<Rightarrow> scrappy_error + credential option \<times> cred_row list" where
  "store_rotate i replacement revoke_old_at rows = (case store_get rows i of
     Inl e \<Rightarrow> Inl e
   | Inr None \<Rightarrow> Inr (None, rows)
   | Inr (Some existing) \<Rightarrow>
       (case tbl_insert kr_id (credential_params replacement) rows of
          None \<Rightarrow> Inl (Invalid ''IntegrityError'')
        | Some rows1 \<Rightarrow> Inr (Some existing,
            case revoke_old_at of
              None \<Rightarrow> rows1
            | Some t \<Rightarrow> if k_revoked_at existing = None
                then tbl_update kr_id i (\<lambda>r. r\<lparr>kr_revoked_at := Some t\<rparr>) rows1 else rows1)))"

definition store_delete_many :: "string list \<Rightarrow> cred_row list \<Rightarrow> nat \<times> cred_row list" where
  "store_delete_many ids rows = (length ids, fold (tbl_delete kr_id) ids rows)"

definition store_count_active :: "time \<Rightarrow> cred_row list \<Rightarrow> scrappy_error + nat" where
  "store_count_active now rows = map_sum id (\<lambda>cs. length (filter (is_usable_at now) cs)) (store_list None rows)"

section \<open>The store satisfies the contract\<close>

lemma fields_of_params [simp]: "stored_fields (credential_params c) = c"
proof -
  have "set (List.map_filter scope_of_value (scope_names s)) = s" for s
    by (auto simp: List.map_filter_def image_iff)
  then show ?thesis by (simp add: stored_fields_def credential_params_def)
qed

lemma row_of_params [simp]: "row_to_credential (credential_params c) = make_credential c"
  by (simp add: row_to_credential_def)

lemma make_valid [simp]: "credential_valid c \<Longrightarrow> make_credential c = Inr c"
  by (simp add: make_credential_def)

lemma row_Inr: "row_to_credential r = Inr c \<longleftrightarrow> c = stored_fields r \<and> credential_valid c"
  by (auto simp: row_to_credential_def make_credential_def)

lemma rows_read: "rows_to_credentials rs =
    (if list_all (\<lambda>r. credential_valid (stored_fields r)) rs then Inr (map stored_fields rs) else Inl (Invalid ''Credential''))"
  by (induction rs) (simp_all add: ebind_def row_to_credential_def make_credential_def)

lemma params_id [simp]: "kr_id (credential_params c) = k_id c"
  by (simp add: credential_params_def)

lemma row_id [simp]: "k_id (stored_fields r) = kr_id r"
  by (simp add: stored_fields_def)

lemma valid_stamped [simp]: "credential_valid (with_revoked_at t c) = credential_valid c" "credential_valid (with_last_used_at t c) = credential_valid c"
  by (simp_all add: credential_valid_def with_revoked_at_def with_last_used_at_def)

lemma row_revoked: "row_to_credential (r\<lparr>kr_revoked_at := Some t\<rparr>) = map_sum id (with_revoked_at t) (row_to_credential r)"
proof -
  have "stored_fields (r\<lparr>kr_revoked_at := Some t\<rparr>) = with_revoked_at t (stored_fields r)" by (simp add: stored_fields_def with_revoked_at_def)
  then show ?thesis by (simp add: row_to_credential_def make_credential_def)
qed

lemma row_touched: "row_to_credential (r\<lparr>kr_last_used_at := Some t\<rparr>) = map_sum id (with_last_used_at t) (row_to_credential r)"
proof -
  have "stored_fields (r\<lparr>kr_last_used_at := Some t\<rparr>) = with_last_used_at t (stored_fields r)" by (simp add: stored_fields_def with_last_used_at_def)
  then show ?thesis by (simp add: row_to_credential_def make_credential_def)
qed

lemma row_revoked_at [simp]: "k_revoked_at (stored_fields r) = kr_revoked_at r"
  by (simp add: stored_fields_def)

lemma store_get_Some: "store_get rows i = Inr (Some c) \<longleftrightarrow>
    (\<exists>r. tbl_get kr_id i rows = Some r \<and> c = stored_fields r \<and> credential_valid c)"
proof (cases "tbl_get kr_id i rows")
  case (Some r)
  then show ?thesis by (cases "row_to_credential r") (auto simp: store_get_def row_Inr row_to_credential_def make_credential_def split: if_splits)
qed (simp add: store_get_def)

lemma store_get_None: "store_get rows i = Inr None \<longleftrightarrow> tbl_get kr_id i rows = None"
  by (auto simp: store_get_def row_to_credential_def make_credential_def split: option.splits)

lemma store_get_wf: "store_get rows i = Inr (Some c) \<Longrightarrow> credential_valid c"
  by (auto simp: store_get_Some)

interpretation sqlite: credential_store store_get store_create store_revoke store_touch store_rotate
proof unfold_locales
  fix s :: "cred_row list" and s' and c old :: credential and i j :: string and t :: time and u :: "time option"
  show "store_get s (k_id c) \<noteq> Inr None \<Longrightarrow> \<exists>e. store_create c s = Inl e"
    by (auto simp: store_get_None store_create_def tbl_insert_def)
  show "store_create c s = Inr s' \<Longrightarrow> store_get s' i = (if i = k_id c then map_sum id Some (make_credential c) else store_get s i)"
    by (auto simp: store_get_def store_create_def tbl_get_insert split: option.splits)
  have once: "map_sum id Some (map_sum id (with_revoked_at t) x) = map_sum id (map_option (revoke_once t)) (map_sum id Some x)"
    if "\<And>k. x = Inr k \<Longrightarrow> k_revoked_at k = None" for x :: "scrappy_error + credential" and t
    using that by (cases x) (simp_all add: revoke_once_def)
  have keeps: "map_sum id (map_option (revoke_once t)) (store_get s i) = store_get s i"
    if "\<And>k. store_get s i = Inr (Some k) \<Longrightarrow> k_revoked_at k \<noteq> None" for t i s
    using that by (cases "store_get s i"; cases "projr (store_get s i)") (auto simp: revoke_once_def)
  show "fst (store_revoke i t s) = map_sum id (map_option (revoke_once t)) (store_get s i)"
    by (auto simp: store_revoke_def revoke_once_def split: option.splits sum.splits)
  show "store_get (snd (store_revoke i t s)) j =
      (if j = i then map_sum id (map_option (revoke_once t)) (store_get s i) else store_get s j)"
  proof (cases "\<exists>k. store_get s i = Inr (Some k) \<and> k_revoked_at k = None")
    case True
    then obtain r where r: "tbl_get kr_id i s = Some r" "kr_revoked_at r = None" "credential_valid (stored_fields r)"
      "store_get s i = Inr (Some (stored_fields r))" by (auto simp: store_get_Some)
    then have "snd (store_revoke i t s) = tbl_update kr_id i (\<lambda>r. r\<lparr>kr_revoked_at := Some t\<rparr>) s" by (simp add: store_revoke_def)
    with r once [of "row_to_credential r" t] show ?thesis
      by (auto simp: store_get_def tbl_get_update row_revoked row_Inr)
  next
    case False
    then have "snd (store_revoke i t s) = s" by (auto simp: store_revoke_def split: sum.splits option.splits)
    with keeps [of s i t] False show ?thesis by auto
  qed
  show "store_get (store_touch i t s) j =
      (if j = i then map_sum id (map_option (with_last_used_at t)) (store_get s i) else store_get s j)"
  proof (cases "tbl_get kr_id i s")
    case (Some r)
    then show ?thesis by (cases "row_to_credential r") (auto simp: store_touch_def store_get_def tbl_get_update row_touched)
  qed (auto simp: store_touch_def store_get_def tbl_get_update)
  show "store_get s i = Inr None \<Longrightarrow> store_rotate i c u s = Inr (None, s)"
    by (simp add: store_rotate_def)
  show "store_rotate i c u s = Inr (None, s') \<Longrightarrow> store_get s i = Inr None"
    by (auto simp: store_rotate_def split: option.splits sum.splits)
  show "store_rotate i c u s = Inr (Some old, s') \<Longrightarrow> store_get s i = Inr (Some old)"
    by (auto simp: store_rotate_def split: option.splits sum.splits)
  show "store_rotate i c u s = Inr (Some old, s') \<Longrightarrow> store_get s (k_id c) = Inr None"
    by (auto simp: store_rotate_def store_get_None tbl_insert_def split: option.splits sum.splits if_splits)
  show "store_get s' j = (if j = k_id c then map_sum id Some (make_credential c)
        else if j = i then map_sum id (map_option (case u of None \<Rightarrow> (\<lambda>k. k) | Some v \<Rightarrow> revoke_once v)) (store_get s i)
        else store_get s j)"
    if r: "store_rotate i c u s = Inr (Some old, s')"
  proof -
    from r have old: "store_get s i = Inr (Some old)" by (auto simp: store_rotate_def split: option.splits sum.splits)
    then obtain row where row: "tbl_get kr_id i s = Some row" "old = stored_fields row" "credential_valid (stored_fields row)"
      by (auto simp: store_get_Some)
    from r old obtain rows1 where ins: "tbl_insert kr_id (credential_params c) s = Some rows1"
      by (auto simp: store_rotate_def split: option.splits)
    from ins row(1) have ne: "i \<noteq> k_id c" by (auto simp: tbl_insert_def split: if_splits)
    have g: "tbl_get kr_id k rows1 = (if k = k_id c then Some (credential_params c) else tbl_get kr_id k s)" for k
      using tbl_get_insert [OF ins, of k] by simp
    have s': "s' = (case u of None \<Rightarrow> rows1 | Some t \<Rightarrow> if kr_revoked_at row = None
        then tbl_update kr_id i (\<lambda>r. r\<lparr>kr_revoked_at := Some t\<rparr>) rows1 else rows1)"
      using r old row ins by (cases u) (auto simp: store_rotate_def)
    have row': "row_to_credential row = Inr old" using row by (simp add: row_Inr)
    show ?thesis
    proof (cases u)
      case None
      then show ?thesis using row row' old by (simp add: s' store_get_def g)
    next
      case (Some v)
      then show ?thesis using row(1,2) row' old ne
        by (cases "kr_revoked_at row") (auto simp: s' store_get_def g tbl_get_update revoke_once_def row_revoked)
    qed
  qed
qed

lemma delete_many_get: "tbl_get kr_id i (snd (store_delete_many ids rows)) =
    (if i \<in> set ids then None else tbl_get kr_id i rows)"
proof -
  have "tbl_get kr_id i (fold (tbl_delete kr_id) ids rs) = (if i \<in> set ids then None else tbl_get kr_id i rs)" for rs
    by (induction ids arbitrary: rs) (auto simp: tbl_get_delete)
  from this [of rows] show ?thesis by (simp add: store_delete_many_def)
qed

section \<open>Runs of the store\<close>

text \<open>Every operation of the contract, in any order; an operation that raises changes nothing.\<close>

datatype store_op = OpCreate credential | OpRevoke string time | OpTouch string time
  | OpRotate string credential "time option"

fun store_step :: "store_op \<Rightarrow> cred_row list \<Rightarrow> cred_row list" where
  "store_step (OpCreate c) rows = (case store_create c rows of Inl e \<Rightarrow> rows | Inr rows' \<Rightarrow> rows')"
| "store_step (OpRevoke i t) rows = snd (store_revoke i t rows)"
| "store_step (OpTouch i t) rows = store_touch i t rows"
| "store_step (OpRotate i c t) rows = (case store_rotate i c t rows of Inl e \<Rightarrow> rows | Inr (old, rows') \<Rightarrow> rows')"

fun_cases store_createE: "store_step (OpCreate c) rows = rows'"

lemma revoked_step: "sqlite.revoked_at rows i t \<Longrightarrow> sqlite.revoked_at (store_step op rows) i t"
  by (cases op) (auto intro: sqlite.revoked_create sqlite.revoked_revoke sqlite.revoked_touch sqlite.revoked_rotate
      split: sum.splits)

lemma revoked_run: "sqlite.revoked_at rows i t \<Longrightarrow> sqlite.revoked_at (fold store_step ops rows) i t"
  by (induction ops arbitrary: rows) (auto intro: revoked_step)

end
