(* ===== verification/Sec_Credential_Service.thy ===== *)
theory Sec_Credential_Service
  imports Sec_Credential_Store Sec_Audit
begin

text \<open>
  \<open>security/credential_service.py\<close>: administration of credentials, with an audit row for every
  change. The state is the credentials table and the plane that holds the trail. Random values and
  the clock readings of one call are arguments (\<open>fresh_token\<close>).
\<close>

record fresh_token =
  ft_hex :: string
  ft_secret :: string
  ft_now :: time

record service =
  sv_hmac :: "string \<Rightarrow> string \<Rightarrow> string"
  sv_pepper :: string
  sv_actor :: actor

type_synonym cred_state = "cred_row list \<times> plane"

definition service_payload :: "service \<Rightarrow> credential \<Rightarrow> payload \<Rightarrow> payload" where
  "service_payload sv c extra = dict_update (credential_audit_fields c)
     ([(''scopes'', PList (map PStr (scope_names (k_scopes c)))),
       (''administered_by'', PStr (a_id (sv_actor sv))),
       (''administrator_scopes'', PList (map PStr (scope_names (a_scopes (sv_actor sv)))))] @ extra)"

definition service_record :: "service \<Rightarrow> event_type \<Rightarrow> credential \<Rightarrow> payload \<Rightarrow> plane \<Rightarrow> plane" where
  "service_record sv ty c extra pl =
     (let (i, pl1) = new_id pl; a = sv_actor sv in
      audit_record
        \<lparr>ae_id = i, ae_timestamp = pl_now pl1, ae_event_type = ty, ae_task_id = None,
         ae_actor = actor_label a, ae_actor_id = Some (a_id a),
         ae_actor_type = Some (actor_type_value (a_type a)),
         ae_auth_method = Some (auth_method_value (a_auth_method a)),
         ae_component = ''credentials'', ae_tool_name = None, ae_risk = None, ae_decision = None,
         ae_success = None, ae_duration_ms = None,
         ae_payload = service_payload sv c extra, ae_payload_sha256 = None\<rparr> None pl1)"

definition service_create ::
  "service \<Rightarrow> fresh_token \<Rightarrow> string \<Rightarrow> actor_type \<Rightarrow> scope set \<Rightarrow> string option \<Rightarrow> time option \<Rightarrow>
   cred_state \<Rightarrow> (scrappy_error + issued) \<times> cred_state" where
  "service_create sv ft actor_id actor_type scopes name expires st =
     (let (rows, pl) = st in
      case issue_credential (sv_hmac sv) (ft_hex ft) (ft_secret ft) actor_id actor_type scopes (sv_pepper sv)
             name expires (ft_now ft) [(''created_by'', a_id (sv_actor sv))] of
        Inl e \<Rightarrow> (Inl e, st)
      | Inr i \<Rightarrow>
          (case store_create (is_credential i) rows of
             Inl e \<Rightarrow> (Inl e, st)
           | Inr rows' \<Rightarrow> (Inr i, (rows', service_record sv CREDENTIAL_CREATED (is_credential i) [] pl))))"

definition no_credential :: "string \<Rightarrow> scrappy_error" where
  "no_credential i = CredentialNotFound (''no credential with id '' @ i)"

definition service_get :: "string \<Rightarrow> cred_state \<Rightarrow> scrappy_error + credential" where
  "service_get i st = (case store_get (fst st) i of
     Inl e \<Rightarrow> Inl e | Inr None \<Rightarrow> Inl (no_credential i) | Inr (Some c) \<Rightarrow> Inr c)"

definition service_revoke ::
  "service \<Rightarrow> string \<Rightarrow> time \<Rightarrow> cred_state \<Rightarrow> (scrappy_error + credential) \<times> cred_state" where
  "service_revoke sv i moment st =
     (let (rows, pl) = st; (updated, rows') = store_revoke i moment rows in
      case updated of
        Inl e \<Rightarrow> (Inl e, (rows', pl))
      | Inr None \<Rightarrow> (Inl (no_credential i), (rows', pl))
      | Inr (Some c) \<Rightarrow> (Inr c, (rows', service_record sv CREDENTIAL_REVOKED c
            [(''revoked_at'', PStr (iso_datetime ''T'' moment))] pl)))"

record rotation =
  ro_issued :: issued
  ro_previous :: credential
  ro_previous_revoked :: bool

definition service_rotate ::
  "service \<Rightarrow> fresh_token \<Rightarrow> string \<Rightarrow> bool \<Rightarrow> time option \<Rightarrow> time \<Rightarrow> cred_state \<Rightarrow>
   (scrappy_error + rotation) \<times> cred_state" where
  "service_rotate sv ft i revoke_previous expires moment st =
     (let (rows, pl) = st in
      case service_get i st of
        Inl e \<Rightarrow> (Inl e, st)
      | Inr existing \<Rightarrow>
        (case issue_credential (sv_hmac sv) (ft_hex ft) (ft_secret ft) (k_actor_id existing) (k_actor_type existing)
               (k_scopes existing) (sv_pepper sv) (k_display_name existing) expires (ft_now ft)
               [(''created_by'', a_id (sv_actor sv)), (''rotated_from'', i)] of
           Inl e \<Rightarrow> (Inl e, st)
         | Inr iss \<Rightarrow>
           (case store_rotate i (is_credential iss) (if revoke_previous then Some moment else None) rows of
              Inl e \<Rightarrow> (Inl e, st)
            | Inr (None, rows') \<Rightarrow> (Inl (no_credential i), st)
            | Inr (Some previous, rows') \<Rightarrow>
                let pl1 = service_record sv CREDENTIAL_ROTATED (is_credential iss)
                      [(''rotated_from'', PStr i), (''previous_revoked'', PBool revoke_previous)] pl;
                    pl2 = (if revoke_previous then service_record sv CREDENTIAL_REVOKED previous
                        [(''revoked_at'', PStr (iso_datetime ''T'' moment)), (''reason'', PStr ''rotation'')] pl1
                      else pl1)
                in (Inr \<lparr>ro_issued = iss, ro_previous = previous, ro_previous_revoked = revoke_previous\<rparr>,
                    (rows', pl2)))))"

text \<open>The moment a credential left service, as \<open>prune\<close> reads it.\<close>

definition retired_at :: "credential \<Rightarrow> time option" where
  "retired_at c = (case k_revoked_at c of Some t \<Rightarrow> Some t | None \<Rightarrow> k_expires_at c)"

definition prunable :: "time \<Rightarrow> time \<Rightarrow> credential \<Rightarrow> bool" where
  "prunable older_than moment c \<longleftrightarrow> status_at moment c \<noteq> S_ACTIVE
     \<and> (case retired_at c of None \<Rightarrow> False | Some t \<Rightarrow> t < older_than)"

text \<open>The store can delete: it is the SQLite one.\<close>

definition service_prune :: "service \<Rightarrow> time \<Rightarrow> time \<Rightarrow> cred_state \<Rightarrow> (scrappy_error + string list) \<times> cred_state" where
  "service_prune sv older_than moment st =
     (let (rows, pl) = st in
      case store_list None rows of
        Inl e \<Rightarrow> (Inl e, st)
      | Inr cs \<Rightarrow>
          (let doomed = filter (prunable older_than moment) cs in
           if doomed = [] then (Inr [], st)
           else (Inr (map k_id doomed),
             (snd (store_delete_many (map k_id doomed) rows),
              fold (\<lambda>c. service_record sv CREDENTIAL_PRUNED c []) doomed pl))))"

section \<open>Lemmas\<close>

lemma service_record_row:
  assumes "audit_ok pl"
  shows "\<exists>row. pl_audit (service_record sv ty c extra pl) = pl_audit pl @ [row] \<and> au_event_type row = ty
    \<and> au_actor_id row = Some (a_id (sv_actor sv))
    \<and> au_payload row = json_norm (fst (stored_payload (pl_sha256 pl) (service_payload sv c extra)))"
proof -
  have "str_nat (pl_fresh pl) \<notin> set (map au_id (pl_audit pl))"
    by (rule fresh_not_in) (use assms in \<open>simp add: audit_ok_def\<close>)
  then show ?thesis
    by (auto simp: service_record_def Let_def new_id_def audit_record_def split_beta tbl_insert_def tbl_get_None)
qed

lemma store_list_None: "store_list None rows = Inr cs \<longleftrightarrow>
    cs = map stored_fields (sort_key (\<lambda>r. - kr_created_at r) rows) \<and> list_all (\<lambda>r. credential_valid (stored_fields r)) rows"
  by (auto simp: store_list_def rows_read list_all_iff)

lemma set_store_list: "store_list None rows = Inr cs \<Longrightarrow> set cs = stored_fields ` set rows"
  by (auto simp: store_list_None)

lemma store_list_in:
  assumes "tbl_wf kr_id rows" "store_list None rows = Inr cs"
  shows "c \<in> set cs \<longleftrightarrow> store_get rows (k_id c) = Inr (Some c)"
proof
  assume "c \<in> set cs"
  then obtain r where "r \<in> set rows" "c = stored_fields r" "credential_valid c"
    using assms(2) by (auto simp: store_list_None list_all_iff)
  with tbl_get_wf [OF assms(1)] show "store_get rows (k_id c) = Inr (Some c)" by (auto simp: store_get_Some)
next
  assume "store_get rows (k_id c) = Inr (Some c)"
  then show "c \<in> set cs" using set_store_list [OF assms(2)] by (auto simp: store_get_Some dest: tbl_get_in)
qed

section \<open>Properties\<close>

text \<open>
  Pruning deletes exactly the credentials that are not active at the given moment and whose
  revocation, or else expiry, lies before the cutoff; every other credential stays as it was, and
  an active one always does. A credential that expired long ago and was revoked recently is dated
  by the revocation, although it stopped being usable when it expired.
\<close>

theorem prune_exact:
  assumes "tbl_wf kr_id rows" "store_list None rows = Inr cs"
  shows "store_get (fst (snd (service_prune sv older_than moment (rows, pl)))) i =
    (case store_get rows i of
       Inr (Some c) \<Rightarrow> if status_at moment c \<noteq> S_ACTIVE \<and>
           (case k_revoked_at c of Some t \<Rightarrow> t < older_than
             | None \<Rightarrow> (case k_expires_at c of Some t \<Rightarrow> t < older_than | None \<Rightarrow> False))
         then Inr None else Inr (Some c)
     | other \<Rightarrow> other)"
proof -
  define d where "d = filter (prunable older_than moment) cs"
  have rows': "store_get (fst (snd (service_prune sv older_than moment (rows, pl)))) i =
      (if i \<in> k_id ` set d then Inr None else store_get rows i)"
    unfolding service_prune_def Let_def prod.case assms(2) sum.case d_def [symmetric]
    by (simp add: store_get_def delete_many_get)
  have "i \<in> k_id ` set d \<longleftrightarrow> (\<exists>c. store_get rows i = Inr (Some c) \<and> prunable older_than moment c)"
  proof
    assume "i \<in> k_id ` set d"
    then obtain c where "c \<in> set cs" "prunable older_than moment c" "i = k_id c" by (auto simp: d_def)
    then show "\<exists>c. store_get rows i = Inr (Some c) \<and> prunable older_than moment c"
      using store_list_in [OF assms, of c] by blast
  next
    assume "\<exists>c. store_get rows i = Inr (Some c) \<and> prunable older_than moment c"
    then obtain c where c: "store_get rows i = Inr (Some c)" "prunable older_than moment c" by blast
    then have "k_id c = i" by (auto simp: store_get_Some dest: tbl_get_key)
    with c store_list_in [OF assms, of c] show "i \<in> k_id ` set d" by (force simp: d_def)
  qed
  then show ?thesis unfolding rows'
    by (auto simp: prunable_def retired_at_def split: option.splits sum.splits)
qed

text \<open>One row that is no credential, and nothing can be listed, counted or pruned.\<close>

lemma bad_row_blocks:
  assumes "r \<in> set rows" "\<not> credential_valid (stored_fields r)"
  shows "store_list None rows = Inl (Invalid ''Credential'')" "store_count_active now rows = Inl (Invalid ''Credential'')"
    "service_prune sv older_than moment (rows, pl) = (Inl (Invalid ''Credential''), (rows, pl))"
proof -
  show "store_list None rows = Inl (Invalid ''Credential'')" using assms by (auto simp: store_list_def rows_read list_all_iff)
  then show "store_count_active now rows = Inl (Invalid ''Credential'')"
    "service_prune sv older_than moment (rows, pl) = (Inl (Invalid ''Credential''), (rows, pl))"
    by (simp_all add: store_count_active_def service_prune_def)
qed

definition example_credential :: credential where
  "example_credential = \<lparr>k_id = ''cred_0123456789ab'', k_actor_id = ''ci'', k_actor_type = SERVICE, k_display_name = None,
     k_scopes = {TASK_READ}, k_verifier = ''v'', k_created_at = 0, k_expires_at = Some 10, k_revoked_at = Some 500,
     k_last_used_at = None, k_auth_method = BEARER_TOKEN, k_metadata = []\<rparr>"

definition example_service :: service where
  "example_service = \<lparr>sv_hmac = (\<lambda>k m. k @ m), sv_pepper = ''p'', sv_actor = SYSTEM_ACTOR\<rparr>"

lemma example_valid: "credential_valid example_credential"
  by (simp add: credential_valid_def example_credential_def id_pattern hex_id_def)
    (auto simp: ID_HEX_LENGTH_def is_hex_def is_digit_def)

lemma example_get: "store_get [credential_params example_credential] ''cred_0123456789ab'' = Inr (Some example_credential)"
  by (simp add: store_get_def example_valid) (simp add: example_credential_def)

theorem prune_exact_witness:
  "store_get (fst (snd (service_prune example_service 400 600 ([credential_params example_credential], example_plane))))
     ''cred_0123456789ab'' = Inr (Some example_credential)
   \<and> store_get (fst (snd (service_prune example_service 501 600 ([credential_params example_credential], example_plane))))
     ''cred_0123456789ab'' = Inr None"
proof -
  have w: "tbl_wf kr_id [credential_params example_credential]" by (simp add: tbl_wf_def)
  have l: "store_list None [credential_params example_credential] = Inr [example_credential]"
    by (simp add: store_list_None example_valid)
  have f: "k_revoked_at example_credential = Some 500" "status_at 600 example_credential = S_REVOKED"
    by (simp_all add: example_credential_def status_at_def)
  show ?thesis by (simp add: prune_exact [OF w l] example_get f)
qed

text \<open>
  A rotation adds a credential with the same actor and scopes that is active at once, whatever
  the state of the original, a revoked or expired one included; the original is left as it is
  unless its revocation was asked, and then keeps its first revocation time. When the rotation
  fails, nothing changes.
\<close>

theorem rotate_exact:
  "case service_rotate sv ft i revoke_previous expires moment (rows, pl) of
     (Inr r, (rows', pl')) \<Rightarrow>
       (\<exists>old c. store_get rows i = Inr (Some old) \<and> c = is_credential (ro_issued r)
         \<and> store_get rows (k_id c) = Inr None \<and> store_get rows' (k_id c) = Inr (Some c)
         \<and> k_actor_id c = k_actor_id old \<and> k_actor_type c = k_actor_type old \<and> k_scopes c = k_scopes old
         \<and> status_at (ft_now ft) c = S_ACTIVE
         \<and> store_get rows' i = Inr (Some (if revoke_previous then revoke_once moment old else old)))
   | (Inl e, st') \<Rightarrow> st' = (rows, pl)"
proof -
  obtain out st' where Pair: "service_rotate sv ft i revoke_previous expires moment (rows, pl) = (out, st')"
    by (cases "service_rotate sv ft i revoke_previous expires moment (rows, pl)") blast
  show ?thesis
  proof (cases out)
    case (Inl e)
    then show ?thesis using Pair
      by (auto simp: service_rotate_def Let_def split: sum.splits option.splits prod.splits)
  next
    case (Inr r)
    obtain rows' pl' where st': "st' = (rows', pl')" by (cases st')
    from Pair Inr st' obtain old where old: "store_get rows i = Inr (Some old)"
      by (auto simp: service_rotate_def service_get_def split: option.splits sum.splits)
    from Pair Inr st' old obtain iss where iss:
        "issue_credential (sv_hmac sv) (ft_hex ft) (ft_secret ft) (k_actor_id old) (k_actor_type old)
           (k_scopes old) (sv_pepper sv) (k_display_name old) expires (ft_now ft)
           [(''created_by'', a_id (sv_actor sv)), (''rotated_from'', i)] = Inr iss"
      by (auto simp: service_rotate_def service_get_def split: sum.splits)
    from Pair Inr st' old iss obtain prev where rot:
        "store_rotate i (is_credential iss) (if revoke_previous then Some moment else None) rows = Inr (Some prev, rows')"
        "r = \<lparr>ro_issued = iss, ro_previous = prev, ro_previous_revoked = revoke_previous\<rparr>"
      by (auto simp: service_rotate_def service_get_def Let_def split: sum.splits option.splits prod.splits)
    note c = issue_Inr [OF iss]
    have clash: "store_get rows (k_id (is_credential iss)) = Inr None" by (rule sqlite.rotate_clash [OF rot(1)])
    with old have ne: "i \<noteq> k_id (is_credential iss)" by auto
    have "store_get rows' (k_id (is_credential iss)) = Inr (Some (is_credential iss))"
      using sqlite.rotate_get [OF rot(1), of "k_id (is_credential iss)"] c(10) by simp
    moreover have "store_get rows' i = Inr (Some (if revoke_previous then revoke_once moment old else old))"
      using sqlite.rotate_get [OF rot(1), of i] ne old by (cases revoke_previous) auto
    ultimately show ?thesis using Pair Inr st' rot(2) old clash c(5,6,11,12) by simp
  qed
qed

text \<open>
  What a revocation leaves. The stored credential is revoked, at the first moment it ever was;
  the audit row of this call says \<open>revoked_at\<close> is the moment of this call, so after a second
  revocation the trail and the store disagree on when the authority was withdrawn.
\<close>

theorem service_revoke_audit:
  assumes "audit_ok pl"
  shows "case service_revoke sv i moment (rows, pl) of
     (Inl e, st') \<Rightarrow> (store_get rows i = Inr None \<or> store_get rows i = Inl e) \<and> st' = (rows, pl)
   | (Inr c, (rows', pl')) \<Rightarrow>
       (\<exists>old row p. store_get rows i = Inr (Some old) \<and> store_get rows' i = Inr (Some c)
         \<and> k_revoked_at c = Some (or_else (k_revoked_at old) moment)
         \<and> pl_audit pl' = pl_audit pl @ [row] \<and> au_event_type row = CREDENTIAL_REVOKED
         \<and> au_payload row = json_norm (fst (stored_payload (pl_sha256 pl) p))
         \<and> map_of p ''revoked_at'' = Some (PStr (iso_datetime ''T'' moment)))"
proof (cases "\<exists>old. store_get rows i = Inr (Some old)")
  case False
  then show ?thesis by (cases "store_get rows i"; cases "projr (store_get rows i)") (auto simp: service_revoke_def store_revoke_def)
next
  case True
  then obtain old where Some: "store_get rows i = Inr (Some old)" by blast
  let ?c = "revoke_once moment old"
  have f: "fst (store_revoke i moment rows) = Inr (Some ?c)" using Some sqlite.revoke_result [of i moment rows] by simp
  have g: "store_get (snd (store_revoke i moment rows)) i = Inr (Some ?c)"
    using Some sqlite.revoke_get [of i moment rows i] by simp
  have r: "k_revoked_at ?c = Some (or_else (k_revoked_at old) moment)"
    by (cases "k_revoked_at old") (simp_all add: revoke_once_def with_revoked_at_def)
  obtain row where row: "pl_audit (service_record sv CREDENTIAL_REVOKED ?c [(''revoked_at'', PStr (iso_datetime ''T'' moment))] pl) = pl_audit pl @ [row]"
      "au_event_type row = CREDENTIAL_REVOKED"
      "au_payload row = json_norm (fst (stored_payload (pl_sha256 pl)
         (service_payload sv ?c [(''revoked_at'', PStr (iso_datetime ''T'' moment))])))"
    using service_record_row [OF assms] by blast
  have "map_of (service_payload sv ?c [(''revoked_at'', PStr (iso_datetime ''T'' moment))]) ''revoked_at'' =
      Some (PStr (iso_datetime ''T'' moment))"
    by (simp add: service_payload_def)
  with f g r row Some show ?thesis by (auto simp: service_revoke_def split_beta)
qed

theorem service_revoke_audit_witness:
  "\<exists>c rows' pl' row p. service_revoke example_service ''cred_0123456789ab'' 700
       ([credential_params example_credential], example_plane) = (Inr c, (rows', pl'))
     \<and> k_revoked_at c = Some 500 \<and> pl_audit pl' = [row]
     \<and> au_payload row = json_norm (fst (stored_payload (pl_sha256 example_plane) p))
     \<and> map_of p ''revoked_at'' = Some (PStr (iso_datetime ''T'' 700))"
proof -
  have ok: "audit_ok example_plane" by (simp add: audit_ok_def example_plane_def ids_below_def)
  note g = example_get
  obtain out rows' pl' where r: "service_revoke example_service ''cred_0123456789ab'' 700
      ([credential_params example_credential], example_plane) = (out, (rows', pl'))"
    by (cases "service_revoke example_service ''cred_0123456789ab'' 700
      ([credential_params example_credential], example_plane)") auto
  show ?thesis
    using service_revoke_audit [OF ok, where sv = example_service and i = "''cred_0123456789ab''" and moment = 700
        and rows = "[credential_params example_credential]"] r g
    by (cases out) (auto simp: example_credential_def example_plane_def)
qed

end
