(* ===== verification/Iface_Terminal.thy ===== *)
theory Iface_Terminal
  imports Tool_System
begin

text \<open>
  \<open>interface/formatting.py\<close>: what the commands print, as the list of the texts given to
  \<open>typer.echo\<close>. Whether the output is a terminal is an argument.
\<close>

type_synonym screen = "string list"

definition escape_char :: char where
  "escape_char = CHR 0x1B"

definition wrap_code :: "bool \<Rightarrow> string \<Rightarrow> string \<Rightarrow> string" where
  "wrap_code tty text0 code = (if tty then escape_char # ''['' @ code @ ''m'' @ text0 @ escape_char # ''[0m'' else text0)"

definition bold :: "bool \<Rightarrow> string \<Rightarrow> string" where
  "bold tty t = wrap_code tty t ''1''"

definition dim :: "bool \<Rightarrow> string \<Rightarrow> string" where
  "dim tty t = wrap_code tty t ''2''"

definition green :: "bool \<Rightarrow> string \<Rightarrow> string" where
  "green tty t = wrap_code tty t ''32''"

definition yellow :: "bool \<Rightarrow> string \<Rightarrow> string" where
  "yellow tty t = wrap_code tty t ''33''"

definition red :: "bool \<Rightarrow> string \<Rightarrow> string" where
  "red tty t = wrap_code tty t ''31''"

definition success :: "bool \<Rightarrow> string \<Rightarrow> string" where
  "success tty t = green tty t"

definition warn :: "bool \<Rightarrow> bool \<Rightarrow> string \<Rightarrow> string" where
  "warn tty prefix0 t = yellow tty (if prefix0 then ''  warning: '' @ t else t)"

text \<open>\<open>ljust\<close>, and the upper case of the fixed words the commands print.\<close>

definition ljust :: "nat \<Rightarrow> string \<Rightarrow> string" where
  "ljust n t = t @ replicate (n - length t) (CHR '' '')"

definition upper_word :: "string \<Rightarrow> string" where
  "upper_word t = map (\<lambda>c. if is_lower_az c then char_of (of_char c - 32 :: nat) else c) t"

definition error_text :: "bool \<Rightarrow> string \<Rightarrow> string" where
  "error_text tty t = red tty t"

definition heading :: "bool \<Rightarrow> string \<Rightarrow> screen" where
  "heading tty t = ['''', bold tty (''  '' @ t), dim tty (''  '' @ replicate (max (length t) 10) (CHR ''-''))]"

definition key_value :: "string \<Rightarrow> string \<Rightarrow> screen" where
  "key_value k v = [''  '' @ ljust 20 k @ '' '' @ v]"

definition status_badge :: "bool \<Rightarrow> string \<Rightarrow> string" where
  "status_badge tty status =
     (let rendered = upper_word status in
      if status \<in> {''healthy'', ''up'', ''PASS'', ''completed''} then green tty rendered
      else if status \<in> {''degraded'', ''unknown'', ''WARN'', ''starting'', ''stopping''} then yellow tty rendered
      else if status \<in> {''down'', ''FAIL'', ''failed''} then red tty rendered
      else rendered)"

section \<open>Tables\<close>

definition ANSI_RE :: regex where
  "ANSI_RE = seq_all [lit [escape_char], lit ''['', Greedy (Cls (\<lambda>c. is_digit c \<or> c = CHR '';'')), lit ''m'']"

definition strip_ansi :: "string \<Rightarrow> string" where
  "strip_ansi t = re_sub ANSI_RE [] t"

definition cell_of :: "string list \<Rightarrow> nat \<Rightarrow> string" where
  "cell_of row i = (if i < length row then row ! i else [])"

definition column_widths :: "string list \<Rightarrow> string list list \<Rightarrow> nat list" where
  "column_widths headers rows =
     map (\<lambda>i. fold (\<lambda>row w. max w (length (strip_ansi (cell_of row i)))) rows (length (headers ! i))) [0..<length headers]"

definition pad_cell :: "string \<Rightarrow> nat \<Rightarrow> string" where
  "pad_cell c w = c @ replicate (w - length (strip_ansi c)) (CHR '' '')"

definition table_row :: "nat list \<Rightarrow> string list \<Rightarrow> string" where
  "table_row widths row = ''  '' @ py_join ''  '' (map (\<lambda>i. pad_cell (cell_of row i) (widths ! i)) [0..<length widths])"

definition render_table :: "bool \<Rightarrow> string list \<Rightarrow> string list list \<Rightarrow> screen" where
  "render_table tty headers rows =
     (if rows = [] then [dim tty ''  (nothing to show)'']
      else let widths = column_widths headers rows in
        (''  '' @ dim tty (py_join ''  '' (map (\<lambda>i. ljust (widths ! i) (headers ! i)) [0..<length headers]))) # map (table_row widths) rows)"

section \<open>The approval block\<close>

definition render_approval_prompt :: "bool \<Rightarrow> approval_request \<Rightarrow> string \<Rightarrow> string" where
  "render_approval_prompt tty q objective0 =
     (let risk = upper_word (risk_value (q_risk q)); colour = (if risk = ''DESTRUCTIVE'' then red tty else yellow tty) in
      py_join [CHR 0x0A]
        (['''', colour ''  Approval required'',
          ''  Task:    '' @ (if objective0 = [] then q_task_id q else objective0),
          ''  Action:  '' @ bold tty (q_summary q),
          ''  Risk:    '' @ colour risk,
          ''  Reason:  '' @ q_reason q] @
         (case q_expires_at q of None \<Rightarrow> [] | Some t \<Rightarrow> [''  Expires: '' @ iso_datetime ''T'' (t div 1000000 * 1000000)]) @
         (if q_requires_phrase q then [red tty ''  This operation destroys data or availability.''] else [])))"

text \<open>The block \<open>security/approvals.py\<close> offers other callers.\<close>

definition render_prompt :: "approval_request \<Rightarrow> string \<Rightarrow> string" where
  "render_prompt q objective0 =
     py_join [CHR 0x0A]
       ([[], ''  Approval required'',
         ''  Task:   '' @ (if objective0 = [] then q_task_id q else objective0),
         ''  Action: '' @ q_summary q,
         ''  Risk:   '' @ upper_word (risk_value (q_risk q)),
         ''  Reason: '' @ q_reason q] @
        (case q_expires_at q of None \<Rightarrow> [] | Some t \<Rightarrow> [''  Expires: '' @ iso_datetime ''T'' (t div 1000000 * 1000000)]) @
        (if q_requires_phrase q then [''  This is DESTRUCTIVE. Type exactly: '' @ (case q_phrase q of None \<Rightarrow> ''None'' | Some t \<Rightarrow> t)] else []) @
        [[]])"

section \<open>The result of a run\<close>

text \<open>
  \<open>render_outcome\<close> on the dictionary \<open>scrappy ask\<close> builds, which has every key that is read by index.
  \<open>whole\<close> is the format \<open>.0f\<close>; \<open>words\<close> is \<open>payload.get(key) or ""\<close>.
\<close>

definition whole :: "rat \<Rightarrow> string" where
  "whole r = (let q = \<lfloor>r\<rfloor>; d = r - of_int q in str_int (if d < 1 / 2 \<or> d = 1 / 2 \<and> even q then q else q + 1))"

fun as_rat :: "pyval \<Rightarrow> rat" where
  "as_rat (PFloat r) = r"
| "as_rat (PInt i) = of_int i"
| "as_rat v = 0"

fun as_list :: "pyval \<Rightarrow> pyval list" where
  "as_list (PList xs) = xs"
| "as_list v = []"

fun as_dict :: "pyval \<Rightarrow> payload" where
  "as_dict (PDict d) = d"
| "as_dict v = []"

definition step_row :: "bool \<Rightarrow> payload \<Rightarrow> string list" where
  "step_row tty call = [str_val (pget ''tool'' call), upper_word (str_val (pget ''risk'' call)), str_val (pget ''rule'' call),
     if py_truth (pget ''success'' call) then green tty ''ok'' else red tty ''failed'', whole (as_rat (pget ''duration_ms'' call))]"

definition render_outcome :: "bool \<Rightarrow> payload \<Rightarrow> screen" where
  "render_outcome tty p =
     (let calls = map as_dict (as_list (pget ''tool_calls'' p)); refused0 = filter (\<lambda>c. pget ''decision'' c = PStr ''deny'') calls;
          conclusion = pget ''conclusion'' p; budget = as_dict (pget ''budget'' p) in
      heading tty ''Result'' @
      key_value ''task'' (str_val (pget ''task_id'' p)) @
      key_value ''state'' (status_badge tty (str_val (pget ''state'' p))) @
      (if calls = [] then [] else
        heading tty ''Steps'' @
        render_table tty [''tool'', ''risk'', ''policy'', ''outcome'', ''ms''] (map (step_row tty) calls) @
        (if refused0 = [] then [] else
          [''''] @ map (\<lambda>c. yellow tty (''  refused: '' @ str_val (pget ''tool'' c) @ '' - '' @ str_val (pget ''error'' c))) refused0)) @
      heading tty ''Conclusion'' @
      map (\<lambda>line. ''  '' @ line) (py_splitlines (if py_truth conclusion then str_val conclusion else ''(no conclusion)'')) @
      (if py_truth (pget ''stopped_because'' p) then ['''', yellow tty (''  stopped: '' @ str_val (pget ''stopped_because'' p))] else []) @
      (if budget = [] then [] else
        ['''', dim tty (''  '' @ str_val (pget_or ''steps_executed'' (PInt 0) budget) @ '' step(s), '' @
           str_val (pget_or ''model_calls'' (PInt 0) budget) @ '' inference call(s), '' @
           str_val (pget_or ''elapsed_seconds'' (PInt 0) budget) @ ''s'')]) @
      (if py_truth (pget ''development_provider'' p) then
        [dim tty (''  Provider: deterministic development stub. '' @
           ''Set SCRAPPY_MODEL_PROVIDER=openai or ollama for real reasoning.'')] else []))"

end
