(* ===== verification/Sec_Pepper.thy ===== *)
theory Sec_Pepper
  imports Py_Files Core_Errors
begin

text \<open>
  \<open>security/pepper.py\<close>: where the server-side key comes from. The data directory is a resolved path;
  \<open>fresh\<close> is the generated value, whose characters are their own encoding; \<open>decode\<close> is the reading of
  a file as text, \<open>None\<close> when it is not UTF-8. An \<open>OSError\<close> leaves as it is.
\<close>

definition PEPPER_FILENAME :: string where
  "PEPPER_FILENAME = ''token_pepper''"

definition MIN_PEPPER_LENGTH :: nat where
  "MIN_PEPPER_LENGTH = 16"

datatype pepper_source = ENVIRONMENT | DATA_DIRECTORY

record resolved_pepper =
  pp_value :: string
  pp_source :: pepper_source

definition is_environment :: "resolved_pepper \<Rightarrow> bool" where
  "is_environment p \<longleftrightarrow> pp_source p = ENVIRONMENT"

definition describe_pepper :: "resolved_pepper \<Rightarrow> string" where
  "describe_pepper p = (case pp_source p of ENVIRONMENT \<Rightarrow> ''SCRAPPY_TOKEN_PEPPER (environment)''
     | DATA_DIRECTORY \<Rightarrow> ''generated, stored in the data directory as '' @ PEPPER_FILENAME)"

text \<open>\<open>os.open(path, O_WRONLY | O_CREAT | O_EXCL, 0o600)\<close> and the write: a link at the path is a file that exists.\<close>

definition create_exclusive :: "os \<Rightarrow> path \<Rightarrow> string \<Rightarrow> fs \<Rightarrow> os_error option \<times> fs" where
  "create_exclusive os p content f =
     (if nodes f p \<noteq> None then (Some (file_exists p), f)
      else if nodes f (butlast p) = None then (Some (no_entry p), f)
      else if nodes f (butlast p) \<noteq> Some Dir then (Some (not_a_directory p), f)
      else (case os_fault os Sys_open p of
          Some e \<Rightarrow> (Some e, f)
        | None \<Rightarrow> sys os Sys_write p (put_node p (Some (File (os_partial os p content)))) (put_node p (Some (File content))) f))"

definition pepper_path :: "path \<Rightarrow> path" where
  "pepper_path data_dir = data_dir @ [PEPPER_FILENAME]"

definition empty_pepper :: "path \<Rightarrow> scrappy_error" where
  "empty_pepper p = ConfigurationError (str_path p @ '' exists but is empty. Every credential was verified with the '' @
     ''pepper that used to be there; restore it from backup, or set '' @
     ''SCRAPPY_TOKEN_PEPPER, or delete the file and reissue all credentials.'')"

definition read_or_create ::
  "os \<Rightarrow> (string \<Rightarrow> string option) \<Rightarrow> path \<Rightarrow> string \<Rightarrow> fs \<Rightarrow> (scrappy_error + string) \<times> fs" where
  "read_or_create os decode data_dir fresh f =
     (let p = pepper_path data_dir in
      if path_exists f p then
        (case read_file os p f of
           Inl e \<Rightarrow> (Inl (Invalid (os_text e)), f)
         | Inr bytes \<Rightarrow>
             (case decode bytes of
                None \<Rightarrow> (Inl (Invalid ''UnicodeDecodeError''), f)
              | Some t \<Rightarrow> if py_strip t \<noteq> [] then (Inr (py_strip t), f) else (Inl (empty_pepper p), f)))
      else
        (case make_dirs os [] data_dir f of
           (Some e, f1) \<Rightarrow> (Inl (Invalid (os_text e)), f1)
         | (None, f1) \<Rightarrow>
             (case create_exclusive os p fresh f1 of
                (Some e, f2) \<Rightarrow> (Inl (Invalid (os_text e)), f2)
              | (None, f2) \<Rightarrow> (Inr fresh, f2))))"

definition resolve_pepper ::
  "os \<Rightarrow> (string \<Rightarrow> string option) \<Rightarrow> string option \<Rightarrow> path \<Rightarrow> string \<Rightarrow> fs \<Rightarrow> (scrappy_error + resolved_pepper) \<times> fs" where
  "resolve_pepper os decode configured data_dir fresh f =
     (let given = (case configured of None \<Rightarrow> [] | Some c \<Rightarrow> py_strip c) in
      if given \<noteq> [] then
        (if length given < MIN_PEPPER_LENGTH then
           (Inl (ConfigurationError (''SCRAPPY_TOKEN_PEPPER is only '' @ str_nat (length given) @ '' characters; use at least '' @
              str_nat MIN_PEPPER_LENGTH @ ''. Generate one with '' @
              ''`python -c \"import secrets; print(secrets.token_urlsafe(32))\"`.'')), f)
         else (Inr \<lparr>pp_value = given, pp_source = ENVIRONMENT\<rparr>, f))
      else (case read_or_create os decode data_dir fresh f of
          (Inl e, f') \<Rightarrow> (Inl e, f')
        | (Inr v, f') \<Rightarrow> (Inr \<lparr>pp_value = v, pp_source = DATA_DIRECTORY\<rparr>, f')))"

section \<open>Lemmas\<close>

lemma create_exclusive_None:
  "create_exclusive os p content f = (None, f') \<Longrightarrow> nodes f' p = Some (File content) \<and> nodes f p = None"
  by (auto simp: create_exclusive_def sys_def put_node_def split: if_splits option.splits)

text \<open>An existing pepper, or a link in its place, is never overwritten.\<close>

lemma pepper_kept:
  assumes "nodes f (pepper_path data_dir) = Some x" "path_exists f (pepper_path data_dir)"
  shows "nodes (snd (read_or_create os decode data_dir fresh f)) (pepper_path data_dir) = Some x"
  using assms by (simp add: read_or_create_def Let_def split: sum.splits option.splits)

lemma read_or_create_Inr:
  assumes "read_or_create os decode data_dir fresh f = (Inr v, f')" "canonical f' (pepper_path data_dir)"
    "os_fault os Sys_read (pepper_path data_dir) = None" "decode fresh = Some fresh" "py_strip fresh = fresh" "fresh \<noteq> []"
  shows "read_or_create os decode data_dir other f' = (Inr v, f')"
proof (cases "path_exists f (pepper_path data_dir)")
  case True
  have "snd (read_or_create os decode data_dir fresh f) = f"
    using True by (simp add: read_or_create_def Let_def split: sum.split option.split)
  with assms(1) have "f' = f" by simp
  moreover have "read_or_create os decode data_dir other f = read_or_create os decode data_dir fresh f"
    using True by (simp only: read_or_create_def Let_def if_True)
  ultimately show ?thesis using assms(1) by simp
next
  case False
  obtain e f1 where m: "make_dirs os [] data_dir f = (e, f1)" by fastforce
  obtain e2 f2 where x: "create_exclusive os (pepper_path data_dir) fresh f1 = (e2, f2)" by fastforce
  note run = assms(1) [unfolded read_or_create_def Let_def if_not_P [OF False] m prod.case]
  from run have "e = None" by (cases e) simp_all
  with run x have "e2 = None" by (cases e2) simp_all
  with run x \<open>e = None\<close> have c: "create_exclusive os (pepper_path data_dir) fresh f1 = (None, f')" and v: "v = fresh"
    by simp_all
  from create_exclusive_None [OF c] have "look f' (pepper_path data_dir) = Some (File fresh)"
    by (simp add: look_canonical [OF assms(2)])
  then have "path_exists f' (pepper_path data_dir)" "read_file os (pepper_path data_dir) f' = Inr fresh"
    using assms(3) by (simp_all add: path_exists_def read_file_def)
  then show ?thesis by (simp add: read_or_create_def Let_def assms(4,5,6) v)
qed

section \<open>Properties\<close>

text \<open>
  C32. The generated pepper survives restarts: once a start without a configured pepper has succeeded,
  every later one resolves to the same value, whatever it would generate, and changes no file.
\<close>

theorem pepper_survives_restart:
  assumes "resolve_pepper os decode None data_dir fresh f = (Inr p, f')" "canonical f' (pepper_path data_dir)"
    "os_fault os Sys_read (pepper_path data_dir) = None" "decode fresh = Some fresh" "py_strip fresh = fresh" "fresh \<noteq> []"
  shows "resolve_pepper os decode None data_dir other f' = (Inr p, f')"
proof -
  obtain v where v: "read_or_create os decode data_dir fresh f = (Inr v, f')" "p = \<lparr>pp_value = v, pp_source = DATA_DIRECTORY\<rparr>"
    using assms(1) by (auto simp: resolve_pepper_def Let_def split: prod.splits sum.splits)
  from read_or_create_Inr [OF v(1) assms(2-6)] v(2) show ?thesis by (simp add: resolve_pepper_def Let_def)
qed

definition bare_os :: os where
  "bare_os = \<lparr>os_fault = (\<lambda>c p. None), os_partial = (\<lambda>p t. []), os_left = (\<lambda>c p f. f), os_scan = (\<lambda>f p. []),
     os_stat = (\<lambda>f p. \<lparr>st_size = 0, st_mode = 0, st_uid = 0, st_gid = 0, st_mtime = 0\<rparr>), os_took = (\<lambda>n. 0)\<rparr>"

definition new_data_dir :: fs where
  "new_data_dir = \<lparr>nodes = map_of [([], Dir), ([''var''], Dir)], cwd = [], home_of = (\<lambda>u. None), link_budget = 40\<rparr>"

definition first_start :: "(scrappy_error + resolved_pepper) \<times> fs" where
  "first_start = resolve_pepper bare_os Some None [''var''] ''k1'' new_data_dir"

text \<open>The first start generates the key ''k1''; the second finds it and does not use ''k2''.\<close>

theorem pepper_survives_restart_witness:
  "resolve_pepper bare_os Some None [''var''] ''k2'' (snd first_start) =
     (Inr \<lparr>pp_value = ''k1'', pp_source = DATA_DIRECTORY\<rparr>, snd first_start)"
proof (rule pepper_survives_restart)
  have "fst first_start = Inr \<lparr>pp_value = ''k1'', pp_source = DATA_DIRECTORY\<rparr>" by code_simp
  then show "resolve_pepper bare_os Some None [''var''] ''k1'' new_data_dir =
     (Inr \<lparr>pp_value = ''k1'', pp_source = DATA_DIRECTORY\<rparr>, snd first_start)"
    by (metis first_start_def prod.collapse)
  show "canonical (snd first_start) (pepper_path [''var''])" by code_simp
  show "os_fault bare_os Sys_read (pepper_path [''var'']) = None" by (simp add: bare_os_def)
qed (code_simp | simp)+

end
