(* ===== verification/Iface_Token_Cli.thy ===== *)
theory Iface_Token_Cli
  imports Iface_Terminal Sec_Credential_Service Sec_Pepper
begin

text \<open>
  \<open>interface/token_cli.py\<close>: credential administration from the terminal. A command reads its
  options, opens the service and prints; it ends in the ways \<open>ended\<close> lists, \<open>E_raised\<close> and
  \<open>E_crash\<close> being exceptions no clause of the command catches. The reading of an ISO timestamp is an
  argument: \<open>None\<close> where \<open>fromisoformat\<close> raises, \<open>Some None\<close> for a time without a zone.
\<close>

datatype ended = E_done | E_exit nat | E_usage string \<comment> \<open>\<open>BadParameter\<close>\<close> | E_raised scrappy_error | E_crash string | E_abort

type_synonym iso_reader = "string \<Rightarrow> time option option"

section \<open>Options\<close>

fun unit_of :: "char \<Rightarrow> time option" where
  "unit_of c = (if c = CHR ''s'' then Some (seconds 1) else if c = CHR ''m'' then Some (seconds 60)
     else if c = CHR ''h'' then Some (seconds 3600) else if c = CHR ''d'' then Some (seconds 86400)
     else if c = CHR ''w'' then Some (seconds 604800) else None)"

declare unit_of.simps [simp del]

text \<open>A \<open>timedelta\<close> holds at most 999999999 days.\<close>

definition MAX_DELTA :: time where
  "MAX_DELTA = 1000000000 * seconds 86400"

definition parse_duration :: "string \<Rightarrow> ended + time option" where
  "parse_duration t =
     (let ds = takeWhile is_digit t in
      case dropWhile is_digit t of
        [u] \<Rightarrow> (case unit_of u of
            None \<Rightarrow> Inr None
          | Some unit \<Rightarrow>
              if ds = [] then Inr None
              else if dec_value ds = 0 then Inl (E_usage ''a duration must be greater than zero'')
              else if MAX_DELTA \<le> int (dec_value ds) * unit then Inl (E_crash ''OverflowError'')
              else Inr (Some (int (dec_value ds) * unit)))
      | _ \<Rightarrow> Inr None)"

definition parse_absolute :: "iso_reader \<Rightarrow> string \<Rightarrow> string \<Rightarrow> ended + time" where
  "parse_absolute rd t what =
     (case rd t of
        None \<Rightarrow> Inl (E_usage (py_repr t @ '' is neither a duration like '30d' nor an ISO-8601 timestamp''))
      | Some None \<Rightarrow> Inl (E_usage (''an absolute '' @ what @ '' must carry a timezone, e.g. 2026-09-16T10:30:00Z. '' @
          ''Naive timestamps mean different instants on different hosts.''))
      | Some (Some moment) \<Rightarrow> Inr moment)"

text \<open>The years 1 to 9999, outside which the sum of a time and a duration is an \<open>OverflowError\<close>.\<close>

definition datetime_range :: "time \<Rightarrow> bool" where
  "datetime_range t \<longleftrightarrow> - 62135596800000000 \<le> t \<and> t < 253402300800000000"

definition in_range :: "time \<Rightarrow> ended + time option" where
  "in_range t = (if datetime_range t then Inr (Some t) else Inl (E_crash ''OverflowError''))"

definition parse_moment :: "(time \<Rightarrow> time) \<Rightarrow> string \<Rightarrow> iso_reader \<Rightarrow> string option \<Rightarrow> ended + time option" where
  "parse_moment shift what rd raw =
     (let t = (case raw of None \<Rightarrow> [] | Some r \<Rightarrow> py_strip r) in
      if t = [] then Inr None
      else ebind (parse_duration t) (\<lambda>d. case d of
          Some duration \<Rightarrow> in_range (shift duration)
        | None \<Rightarrow> ebind (parse_absolute rd t what) (\<lambda>m. Inr (Some m))))"

definition parse_expiry :: "iso_reader \<Rightarrow> time \<Rightarrow> string option \<Rightarrow> ended + time option" where
  "parse_expiry rd now raw = parse_moment (\<lambda>d. now + d) ''expiry'' rd raw"

definition parse_cutoff :: "iso_reader \<Rightarrow> time \<Rightarrow> string option \<Rightarrow> ended + time option" where
  "parse_cutoff rd now raw = parse_moment (\<lambda>d. now - d) ''cutoff'' rd raw"

definition known_scopes :: string where
  "known_scopes = py_join '', '' (sort (map scope_value scope_members))"

definition parse_scope_list :: "string option \<Rightarrow> ended + scope set" where
  "parse_scope_list raw =
     (case raw of
        None \<Rightarrow> Inl (E_usage (''--scopes is required. Grant the narrowest set that works; known scopes are '' @ known_scopes))
      | Some r \<Rightarrow>
          if py_strip r = [] then Inl (E_usage (''--scopes is required. Grant the narrowest set that works; known scopes are '' @ known_scopes))
          else (let (resolved, unknown) = scan_scopes (py_split (CHR '','') r) in
            if unknown \<noteq> [] then Inl (E_usage (''unknown scope(s): '' @ py_join '', '' unknown @ ''. Known scopes are '' @ known_scopes))
            else if resolved = {} then Inl (E_usage ''--scopes resolved to nothing'')
            else Inr resolved))"

definition ACTOR_TYPES :: "actor_type list" where
  "ACTOR_TYPES = [HUMAN, SERVICE, NODE, SYSTEM]"

definition parse_actor_type :: "string \<Rightarrow> ended + actor_type" where
  "parse_actor_type t = (case find (\<lambda>a. actor_type_value a = t) ACTOR_TYPES of
     Some a \<Rightarrow> Inr a
   | None \<Rightarrow> Inl (E_usage (''unknown actor type '' @ py_repr t @ ''; known types are '' @ py_join '', '' (map actor_type_value ACTOR_TYPES))))"

section \<open>The service of a command\<close>

record console =
  cn_os :: os
  cn_decode :: "string \<Rightarrow> string option"
  cn_fresh_pepper :: string
  cn_pepper :: "string option" \<comment> \<open>\<open>settings.token_pepper\<close>\<close>
  cn_data_dir :: path
  cn_open :: "scrappy_error option" \<comment> \<open>what opening the database raises\<close>
  cn_hmac :: "string \<Rightarrow> string \<Rightarrow> string"
  cn_user :: "string option" \<comment> \<open>\<open>getpass.getuser()\<close>\<close>
  cn_iso :: iso_reader
  cn_tty :: bool

type_synonym console_state = "fs \<times> cred_state"

definition with_service ::
  "console \<Rightarrow> (service \<Rightarrow> cred_state \<Rightarrow> (scrappy_error + 'a) \<times> cred_state) \<Rightarrow> console_state \<Rightarrow> (scrappy_error + 'a) \<times> console_state" where
  "with_service cn action st =
     (case resolve_pepper (cn_os cn) (cn_decode cn) (cn_pepper cn) (cn_data_dir cn) (cn_fresh_pepper cn) (fst st) of
        (Inl e, f) \<Rightarrow> (Inl e, (f, snd st))
      | (Inr p, f) \<Rightarrow>
          (case cn_open cn of
             Some e \<Rightarrow> (Inl e, (f, snd st))
           | None \<Rightarrow>
               (case local_cli_actor None (cn_user cn) of
                  Inl e \<Rightarrow> (Inl e, (f, snd st))
                | Inr a \<Rightarrow> (let (r, cs) = action \<lparr>sv_hmac = cn_hmac cn, sv_pepper = pp_value p, sv_actor = a\<rparr> (snd st) in (r, (f, cs))))))"

text \<open>\<open>except CredentialError\<close> and \<open>except CredentialNotFound\<close>, each with the message and exit code 1.\<close>

definition is_credential_not_found :: "scrappy_error \<Rightarrow> bool" where
  "is_credential_not_found e = (case e of CredentialNotFound m \<Rightarrow> True | _ \<Rightarrow> False)"

definition failed :: "console \<Rightarrow> (scrappy_error \<Rightarrow> bool) \<Rightarrow> scrappy_error \<Rightarrow> screen \<times> ended" where
  "failed cn caught e = (if caught e then ([red (cn_tty cn) (err_message e)], E_exit 1) else ([], E_raised e))"

definition iso_or :: "string \<Rightarrow> time option \<Rightarrow> string" where
  "iso_or dflt t = (case t of None \<Rightarrow> dflt | Some u \<Rightarrow> iso_datetime ''T'' u)"

definition text_not_empty :: "string option \<Rightarrow> string \<Rightarrow> string" where
  "text_not_empty t dflt = (case t of None \<Rightarrow> dflt | Some u \<Rightarrow> if u = [] then dflt else u)"

fun credential_status_value :: "credential_status \<Rightarrow> string" where
  "credential_status_value S_ACTIVE = ''active''"
| "credential_status_value S_EXPIRED = ''expired''"
| "credential_status_value S_REVOKED = ''revoked''"

definition status_label :: "time \<Rightarrow> credential \<Rightarrow> string" where
  "status_label now c = upper_word (credential_status_value (status_at now c))"

definition expiry_label :: "credential \<Rightarrow> string" where
  "expiry_label c = (case k_expires_at c of None \<Rightarrow> ''never'' | Some t \<Rightarrow> take 10 (iso_datetime ''T'' t))"

definition scope_lines :: "credential \<Rightarrow> screen" where
  "scope_lines c = ''  Scopes:'' # map (\<lambda>s. ''    '' @ s) (scope_names (k_scopes c))"

section \<open>Commands\<close>

definition token_screen :: "bool \<Rightarrow> string \<Rightarrow> screen" where
  "token_screen tty token = [[], ''  Token:'', [], ''    '' @ bold tty token, [],
     warn tty True ''This token will not be shown again. Store it securely.'']"

definition created_screen :: "bool \<Rightarrow> issued \<Rightarrow> screen" where
  "created_screen tty i =
     (let c = is_credential i in
      heading tty ''Credential created'' @
      key_value ''Credential ID'' (k_id c) @
      key_value ''Actor'' (k_actor_id c) @
      key_value ''Actor Type'' (actor_type_value (k_actor_type c)) @
      (case k_display_name c of None \<Rightarrow> [] | Some n \<Rightarrow> if n = [] then [] else key_value ''Name'' n) @
      [[]] @ scope_lines c @ [[]] @
      key_value ''Expires'' (iso_or ''never'' (k_expires_at c)) @
      token_screen tty (is_token i) @
      [dim tty ''  Nothing recorded it: only a keyed verifier was written to the database.''])"

record create_options =
  co_actor :: string
  co_scopes :: string
  co_type :: string
  co_name :: "string option"
  co_expires_in :: "string option"

text \<open>The options in the order they are read.\<close>

definition read_create_options :: "iso_reader \<Rightarrow> time \<Rightarrow> create_options \<Rightarrow> ended + scope set \<times> time option \<times> actor_type" where
  "read_create_options rd now o1 =
     ebind (parse_scope_list (Some (co_scopes o1))) (\<lambda>granted.
     ebind (parse_expiry rd now (co_expires_in o1)) (\<lambda>expires.
     ebind (parse_actor_type (co_type o1)) (\<lambda>ty. Inr (granted, expires, ty))))"

definition cmd_create :: "console \<Rightarrow> fresh_token \<Rightarrow> time \<Rightarrow> create_options \<Rightarrow> console_state \<Rightarrow> (screen \<times> ended) \<times> console_state" where
  "cmd_create cn ft now o1 st =
     (case read_create_options (cn_iso cn) now o1 of
        Inl e \<Rightarrow> (([], e), st)
      | Inr (granted, expires, ty) \<Rightarrow>
          (case with_service cn (\<lambda>sv. service_create sv ft (co_actor o1) ty granted (co_name o1) expires) st of
             (Inl e, st') \<Rightarrow> (failed cn is_credential_error e, st')
           | (Inr i, st') \<Rightarrow> ((created_screen (cn_tty cn) i, E_done), st')))"

definition listed_row :: "time \<Rightarrow> credential \<Rightarrow> string list" where
  "listed_row now c = [k_id c, k_actor_id c, actor_type_value (k_actor_type c), status_label now c, expiry_label c,
     case k_last_used_at c of None \<Rightarrow> ''never'' | Some t \<Rightarrow> take 16 (iso_datetime '' '' t)]"

definition list_screen :: "bool \<Rightarrow> time \<Rightarrow> bool \<Rightarrow> credential list \<Rightarrow> screen" where
  "list_screen tty now show_all cs =
     (let shown = (if show_all then cs else filter (is_usable_at now) cs) in
      if shown = [] then heading tty ''Credentials'' @ [dim tty (''  none'' @ (if show_all then [] else '' active - pass --all to include retired''))]
      else heading tty (str_nat (length shown) @ '' credential(s)'') @
        render_table tty [''ID'', ''Actor'', ''Type'', ''Status'', ''Expires'', ''Last used''] (map (listed_row now) shown))"

definition cmd_list :: "console \<Rightarrow> time \<Rightarrow> string option \<Rightarrow> bool \<Rightarrow> console_state \<Rightarrow> (screen \<times> ended) \<times> console_state" where
  "cmd_list cn now actor_id show_all st =
     (case with_service cn (\<lambda>sv cs. (store_list actor_id (fst cs), cs)) st of
        (Inl e, st') \<Rightarrow> (([], E_raised e), st')
      | (Inr cs, st') \<Rightarrow> ((list_screen (cn_tty cn) now show_all cs, E_done), st'))"

definition inspect_screen :: "bool \<Rightarrow> time \<Rightarrow> credential \<Rightarrow> screen" where
  "inspect_screen tty now c =
     heading tty (''Credential '' @ k_id c) @
     key_value ''Actor'' (k_actor_id c) @
     key_value ''Actor Type'' (actor_type_value (k_actor_type c)) @
     key_value ''Name'' (text_not_empty (k_display_name c) ''-'') @
     key_value ''Status'' (status_label now c) @
     key_value ''Auth method'' (auth_method_value (k_auth_method c)) @
     key_value ''Created'' (iso_datetime ''T'' (k_created_at c)) @
     key_value ''Expires'' (iso_or ''never'' (k_expires_at c)) @
     key_value ''Revoked'' (iso_or ''-'' (k_revoked_at c)) @
     key_value ''Last used'' (iso_or ''never'' (k_last_used_at c)) @
     [[]] @ scope_lines c @
     (if k_metadata c = [] then []
      else [[], ''  Metadata:''] @ map (\<lambda>(k, v). ''    '' @ k @ '': '' @ v) (sort_key fst (k_metadata c)))"

definition cmd_inspect :: "console \<Rightarrow> time \<Rightarrow> string \<Rightarrow> console_state \<Rightarrow> (screen \<times> ended) \<times> console_state" where
  "cmd_inspect cn now i st =
     (case with_service cn (\<lambda>sv cs. (service_get i cs, cs)) st of
        (Inl e, st') \<Rightarrow> (failed cn is_credential_not_found e, st')
      | (Inr c, st') \<Rightarrow> ((inspect_screen (cn_tty cn) now c, E_done), st'))"

definition revoked_screen :: "bool \<Rightarrow> credential \<Rightarrow> screen" where
  "revoked_screen tty c =
     heading tty ''Credential revoked'' @
     key_value ''Credential ID'' (k_id c) @
     key_value ''Actor'' (k_actor_id c) @
     key_value ''Revoked'' (iso_or ''-'' (k_revoked_at c)) @
     [[], dim tty ''  Authentication reads the row on every request, so this is already in force.'']"

definition cmd_revoke :: "console \<Rightarrow> time \<Rightarrow> string \<Rightarrow> console_state \<Rightarrow> (screen \<times> ended) \<times> console_state" where
  "cmd_revoke cn now i st =
     (case with_service cn (\<lambda>sv. service_revoke sv i now) st of
        (Inl e, st') \<Rightarrow> (failed cn is_credential_not_found e, st')
      | (Inr c, st') \<Rightarrow> ((revoked_screen (cn_tty cn) c, E_done), st'))"

definition rotated_screen :: "bool \<Rightarrow> rotation \<Rightarrow> screen" where
  "rotated_screen tty r =
     (let c = is_credential (ro_issued r); old = k_id (ro_previous r) in
      heading tty ''Credential rotated'' @
      key_value ''New credential'' (k_id c) @
      key_value ''Replaces'' old @
      key_value ''Actor'' (k_actor_id c) @
      key_value ''Expires'' (iso_or ''never'' (k_expires_at c)) @
      token_screen tty (is_token (ro_issued r)) @ [[]] @
      (if ro_previous_revoked r then [''  '' @ old @ '' is revoked and no longer authenticates.'']
       else [''  '' @ old @ '' is still valid. Move clients over, then:'', ''    scrappy token revoke '' @ old]))"

definition cmd_rotate ::
  "console \<Rightarrow> fresh_token \<Rightarrow> time \<Rightarrow> string \<Rightarrow> bool \<Rightarrow> string option \<Rightarrow> console_state \<Rightarrow> (screen \<times> ended) \<times> console_state" where
  "cmd_rotate cn ft now i revoke_previous expires_in st =
     (case parse_expiry (cn_iso cn) now expires_in of
        Inl e \<Rightarrow> (([], e), st)
      | Inr expires \<Rightarrow>
          (case with_service cn (\<lambda>sv. service_rotate sv ft i revoke_previous expires now) st of
             (Inl e, st') \<Rightarrow> (failed cn is_credential_not_found e, st')
           | (Inr r, st') \<Rightarrow> ((rotated_screen (cn_tty cn) r, E_done), st')))"

text \<open>
  \<open>prune\<close>: the preview over one connection, the question, and the deletion over another; \<open>meanwhile\<close>
  is what other processes do to the database in between.
\<close>

definition prune_preview :: "time \<Rightarrow> time \<Rightarrow> credential list \<Rightarrow> credential list" where
  "prune_preview cutoff now cs = filter (\<lambda>c. status_at now c \<noteq> S_ACTIVE \<and>
     (case (case k_revoked_at c of Some t \<Rightarrow> Some t | None \<Rightarrow> k_expires_at c) of None \<Rightarrow> False | Some t \<Rightarrow> t < cutoff)) cs"

definition preview_screen :: "bool \<Rightarrow> time \<Rightarrow> credential list \<Rightarrow> screen" where
  "preview_screen tty now doomed =
     heading tty (str_nat (length doomed) @ '' credential(s) eligible for deletion'') @
     render_table tty [''ID'', ''Actor'', ''Status''] (map (\<lambda>c. [k_id c, k_actor_id c, status_label now c]) doomed)"

definition cmd_prune ::
  "console \<Rightarrow> time \<Rightarrow> string \<Rightarrow> bool \<Rightarrow> bool \<Rightarrow> (cred_state \<Rightarrow> cred_state) \<Rightarrow> console_state \<Rightarrow> (screen \<times> ended) \<times> console_state" where
  "cmd_prune cn now older_than yes confirmed meanwhile st =
     (case parse_cutoff (cn_iso cn) now (Some older_than) of
        Inl e \<Rightarrow> (([], e), st)
      | Inr None \<Rightarrow> (([], E_usage ''--older-than is required''), st)
      | Inr (Some cutoff) \<Rightarrow>
         (case with_service cn (\<lambda>sv cs. (map_sum id (prune_preview cutoff now) (store_list None (fst cs)), cs)) st of
            (Inl e, st1) \<Rightarrow> (([], E_raised e), st1)
          | (Inr doomed, st1) \<Rightarrow>
              if doomed = [] then
                (([dim (cn_tty cn) (''  Nothing retired before '' @ take 10 (iso_datetime ''T'' cutoff) @ ''. Nothing to prune.'')], E_done), st1)
              else let shown = preview_screen (cn_tty cn) now doomed @ (if yes then [] else [[]]) in
                if \<not> yes \<and> \<not> confirmed then ((shown, E_abort), st1)
                else case with_service cn (\<lambda>sv. service_prune sv cutoff now)
                       (fst st1, meanwhile (snd st1)) of
                  (Inl e, st2) \<Rightarrow> ((shown, E_raised e), st2)
                | (Inr ids, st2) \<Rightarrow> ((shown @ [[], ''  Deleted '' @ str_nat (length ids) @ '' credential record(s).''], E_done), st2)))"

section \<open>Lemmas\<close>

lemma preview_is_prunable: "prune_preview cutoff now cs = filter (prunable cutoff now) cs"
  unfolding prune_preview_def by (rule filter_cong) (simp_all add: prunable_def retired_at_def)

lemma delete_many_rows: "snd (store_delete_many ids rows) = filter (\<lambda>r. kr_id r \<notin> set ids) rows"
proof -
  have "fold (tbl_delete kr_id) ids rows = filter (\<lambda>r. kr_id r \<notin> set ids) rows"
    by (induction ids arbitrary: rows) (auto simp: tbl_delete_def intro: filter_cong)
  then show ?thesis by (simp add: store_delete_many_def)
qed

lemma service_prune_rows:
  "service_prune sv cutoff now (rows, pl) = (r, (rows', pl')) \<Longrightarrow>
   (case r of Inl e \<Rightarrow> rows' = rows \<and> pl' = pl
    | Inr ids \<Rightarrow> \<exists>cs. store_list None rows = Inr cs \<and> ids = map k_id (prune_preview cutoff now cs)
        \<and> rows' = filter (\<lambda>r. kr_id r \<notin> set ids) rows)"
  by (auto simp: service_prune_def Let_def preview_is_prunable delete_many_rows split: if_splits sum.splits)

text \<open>A command that only reads leaves the credentials and the trail alone, and one that is refused its service does.\<close>

lemma with_service_Inl_or_action:
  "with_service cn action st = (r, (f, cs)) \<Longrightarrow>
   (\<exists>e. r = Inl e \<and> cs = snd st) \<or> (\<exists>sv. action sv (snd st) = (r, cs))"
  by (auto simp: with_service_def Let_def split: prod.splits sum.splits option.splits)

text \<open>What a duration means, and what it is when it is too long: an exception no clause turns into a message.\<close>

lemma takeWhile_digits: "list_all is_digit ds \<Longrightarrow> \<not> is_digit u \<Longrightarrow> takeWhile is_digit (ds @ [u]) = ds \<and> dropWhile is_digit (ds @ [u]) = [u]"
  by (induction ds) auto

lemma parse_duration_of:
  assumes "unit_of u = Some unit" "\<not> is_digit u" "0 < n"
  shows "parse_duration (str_nat n @ [u]) =
    (if MAX_DELTA \<le> int n * unit then Inl (E_crash ''OverflowError'') else Inr (Some (int n * unit)))"
  using takeWhile_digits [OF conjunct1 [OF str_nat_digits] assms(2), of n] str_nat_digits [of n] assms
  by (simp add: parse_duration_def Let_def)

text \<open>\<open>--expires-in\<close> with a time that is over: \<open>create\<close> reports it, \<open>rotate\<close> ends in a traceback.\<close>

lemma failed_past_expiry:
  "failed cn is_credential_error (CredentialError m) = ([red (cn_tty cn) m], E_exit 1)"
  "failed cn is_credential_not_found (CredentialError m) = ([], E_raised (CredentialError m))"
  by (simp_all add: failed_def is_credential_error_def is_credential_not_found_def)

lemma rotate_past_expiry_escapes:
  assumes "parse_expiry (cn_iso cn) now e = Inr (Some t)" "t \<le> ft_now ft" "store_get (fst (snd st)) i = Inr (Some c)"
    "with_service cn (\<lambda>sv. service_rotate sv ft i b (Some t) now) st = (r, st')" "\<nexists>e'. cn_open cn = Some e'"
    "local_cli_actor None (cn_user cn) = Inr a"
    "resolve_pepper (cn_os cn) (cn_decode cn) (cn_pepper cn) (cn_data_dir cn) (cn_fresh_pepper cn) (fst st) = (Inr p, f)"
  shows "\<exists>m. fst (cmd_rotate cn ft now i b e st) = ([], E_raised (CredentialError m))"
proof -
  have "\<exists>m. r = Inl (CredentialError m)"
    using assms(2-7)
    by (auto simp: with_service_def service_rotate_def service_get_def issue_credential_def Let_def split_beta split: option.splits)
  then show ?thesis using assms(1,4) by (auto simp: cmd_rotate_def failed_past_expiry)
qed

section \<open>What the screens show\<close>

text \<open>
  A credential, and a table, without their verifiers: every verifier a credential may have is replaced by
  one and the same. A text no credential may have as its verifier is left, for the row is not read then.
\<close>

definition mask :: "string \<Rightarrow> string" where
  "mask v = (if 1 \<le> length v \<and> length v \<le> 128 then ''*'' else v)"

definition blank :: "credential \<Rightarrow> credential" where
  "blank c = c\<lparr>k_verifier := mask (k_verifier c)\<rparr>"

definition blank_rows :: "cred_row list \<Rightarrow> cred_row list" where
  "blank_rows rows = map (\<lambda>r. r\<lparr>kr_verifier := mask (kr_verifier r)\<rparr>) rows"

lemma blank_simps [simp]:
  "k_id (blank c) = k_id c" "k_actor_id (blank c) = k_actor_id c" "k_actor_type (blank c) = k_actor_type c"
  "k_scopes (blank c) = k_scopes c" "k_expires_at (blank c) = k_expires_at c" "k_revoked_at (blank c) = k_revoked_at c"
  "k_last_used_at (blank c) = k_last_used_at c" "k_created_at (blank c) = k_created_at c" "k_metadata (blank c) = k_metadata c"
  "k_auth_method (blank c) = k_auth_method c" "k_display_name (blank c) = k_display_name c"
  "status_at now (blank c) = status_at now c" "is_usable_at now (blank c) = is_usable_at now c"
  by (simp_all add: blank_def status_at_def is_usable_at_def)

lemma sort_key_map: "sort_key f (map g xs) = map g (sort_key (\<lambda>x. f (g x)) xs)"
proof -
  have "insort_key f (g x) (map g ys) = map g (insort_key (\<lambda>x. f (g x)) x ys)" for x ys by (induction ys) auto
  then show ?thesis by (induction xs) auto
qed

lemma listed_row_blank [simp]: "listed_row now (blank c) = listed_row now c"
  by (cases "k_last_used_at c"; cases "k_expires_at c") (simp_all add: listed_row_def status_label_def expiry_label_def)

lemma prunable_blank [simp]: "prunable cutoff now (blank c) = prunable cutoff now c"
  by (cases "k_revoked_at c"; cases "k_expires_at c") (simp_all add: prunable_def retired_at_def)

lemma blank_lists:
  "filter (is_usable_at now) (map blank cs) = map blank (filter (is_usable_at now) cs)"
  "prune_preview cutoff now (map blank cs) = map blank (prune_preview cutoff now cs)"
  by (simp_all add: filter_map comp_def preview_is_prunable)

lemma blank_screens:
  "list_screen tty now show_all (map blank cs) = list_screen tty now show_all cs"
  "inspect_screen tty now (blank c) = inspect_screen tty now c"
  "revoked_screen tty (blank c) = revoked_screen tty c"
  "preview_screen tty now (map blank cs) = preview_screen tty now cs"
proof -
  have "(if show_all then map blank cs else filter (is_usable_at now) (map blank cs)) =
      map blank (if show_all then cs else filter (is_usable_at now) cs)"
    by (simp add: blank_lists)
  then show "list_screen tty now show_all (map blank cs) = list_screen tty now show_all cs"
    by (simp add: list_screen_def Let_def comp_def)
  show "inspect_screen tty now (blank c) = inspect_screen tty now c"
    "revoked_screen tty (blank c) = revoked_screen tty c"
    "preview_screen tty now (map blank cs) = preview_screen tty now cs"
    by (simp_all add: inspect_screen_def status_label_def scope_lines_def revoked_screen_def preview_screen_def comp_def)
qed

lemma valid_blank [simp]: "credential_valid (blank c) = credential_valid c"
  by (simp add: credential_valid_def blank_def mask_def)

lemma fields_blank [simp]: "stored_fields (r\<lparr>kr_verifier := mask (kr_verifier r)\<rparr>) = blank (stored_fields r)"
  by (simp add: stored_fields_def blank_def)

lemma row_blank: "row_to_credential (r\<lparr>kr_verifier := mask (kr_verifier r)\<rparr>) = map_sum id blank (row_to_credential r)"
  by (simp add: row_to_credential_def make_credential_def)

lemma blank_store:
  "store_list a (blank_rows rows) = map_sum id (map blank) (store_list a rows)"
  "store_get (blank_rows rows) i = map_sum id (map_option blank) (store_get rows i)"
  "fst (store_revoke i t (blank_rows rows)) = map_sum id (map_option blank) (fst (store_revoke i t rows))"
proof -
  show "store_list a (blank_rows rows) = map_sum id (map blank) (store_list a rows)"
    by (cases a) (simp_all add: store_list_def rows_read blank_rows_def filter_map sort_key_map comp_def list.pred_map)
  have "tbl_get kr_id i (blank_rows rows) = map_option (\<lambda>r. r\<lparr>kr_verifier := mask (kr_verifier r)\<rparr>) (tbl_get kr_id i rows)"
    by (induction rows) (simp_all add: blank_rows_def)
  then show g: "store_get (blank_rows rows) i = map_sum id (map_option blank) (store_get rows i)"
    by (cases "tbl_get kr_id i rows") (simp_all add: store_get_def row_blank sum.map_comp comp_def)
  have "revoke_once t (blank c) = blank (revoke_once t c)" for c by (simp add: revoke_once_def blank_def with_revoked_at_def)
  then show "fst (store_revoke i t (blank_rows rows)) = map_sum id (map_option blank) (fst (store_revoke i t rows))"
    by (simp add: sqlite.revoke_result g sum.map_comp comp_def option.map_comp)
qed

text \<open>Two actions whose results a screen does not tell apart leave a command with the same screen.\<close>

lemma with_service_related:
  assumes "\<And>sv. (case fst (a1 sv cs1) of Inl e \<Rightarrow> fst (a2 sv cs2) = Inl e | Inr x \<Rightarrow> (\<exists>y. fst (a2 sv cs2) = Inr y \<and> P x y))"
  shows "case with_service cn a1 (f, cs1) of
      (Inl e, (g, _)) \<Rightarrow> \<exists>cs. with_service cn a2 (f, cs2) = (Inl e, (g, cs))
    | (Inr x, (g, _)) \<Rightarrow> \<exists>y cs. with_service cn a2 (f, cs2) = (Inr y, (g, cs)) \<and> P x y"
proof -
  obtain rp g where p: "resolve_pepper (cn_os cn) (cn_decode cn) (cn_pepper cn) (cn_data_dir cn) (cn_fresh_pepper cn) f = (rp, g)"
    by fastforce
  show ?thesis
  proof (cases "(\<exists>e. rp = Inl e) \<or> cn_open cn \<noteq> None \<or> (\<exists>e. local_cli_actor None (cn_user cn) = Inl e)")
    case True
    with p show ?thesis by (auto simp: with_service_def split: sum.splits option.splits)
  next
    case False
    then obtain pp a where "rp = Inr pp" "cn_open cn = None" "local_cli_actor None (cn_user cn) = Inr a"
      by (cases rp; cases "local_cli_actor None (cn_user cn)") auto
    with p assms [of "\<lparr>sv_hmac = cn_hmac cn, sv_pepper = pp_value pp, sv_actor = a\<rparr>"] show ?thesis
      by (auto simp: with_service_def split_beta split: sum.splits)
  qed
qed

lemma with_service_prune:
  assumes "with_service cn (\<lambda>sv. service_prune sv cutoff now) (f1, (rows, pl)) = (r2, (f2, (rows2, pl2)))" "store_list None rows = Inr cs"
  shows "case r2 of Inl e \<Rightarrow> rows2 = rows \<and> pl2 = pl
    | Inr ids \<Rightarrow> rows2 = filter (\<lambda>r. kr_id r \<notin> k_id ` set (prune_preview cutoff now cs)) rows"
proof (cases r2)
  case (Inr ids)
  with with_service_Inl_or_action [OF assms(1)] obtain sv where "service_prune sv cutoff now (rows, pl) = (Inr ids, (rows2, pl2))" by auto
  from service_prune_rows [OF this] Inr assms(2) show ?thesis by auto
next
  case (Inl e)
  with with_service_Inl_or_action [OF assms(1)] consider "rows2 = rows" "pl2 = pl"
    | sv where "service_prune sv cutoff now (rows, pl) = (Inl e, (rows2, pl2))" by auto
  then show ?thesis
  proof cases
    case (2 sv)
    from service_prune_rows [OF this(1)] Inl show ?thesis by simp
  qed (simp add: Inl)
qed

lemma preview_is_eligible:
  "prune_preview cutoff now cs = filter (\<lambda>c. status_at now c \<noteq> S_ACTIVE \<and> (\<exists>t. retired_at c = Some t \<and> t < cutoff)) cs"
  unfolding preview_is_prunable by (rule filter_cong) (auto simp: prunable_def split: option.splits)

lemma filter_keeps_all: "(\<forall>x \<in> set xs. P x) \<Longrightarrow> filter P xs = xs"
  by simp

lemma parse_cutoff_ends: "parse_cutoff rd now raw \<noteq> Inl E_done"
  by (auto simp: parse_cutoff_def parse_moment_def parse_duration_def parse_absolute_def in_range_def Let_def ebind_def
      split: option.splits list.splits sum.splits if_splits)

section \<open>Properties\<close>

text \<open>
  C33. What the reading commands print tells nothing of the verifiers: \<open>list\<close>, \<open>inspect\<close> and \<open>revoke\<close>
  print the same, and end the same, on a table in which every verifier is masked. That holds of tables with rows
  that are no credentials too, on which they raise.
\<close>

theorem screens_hide_verifiers:
  "fst (cmd_list cn now a show_all (f, (blank_rows rows, pl))) = fst (cmd_list cn now a show_all (f, (rows, pl)))
   \<and> fst (cmd_inspect cn now i (f, (blank_rows rows, pl))) = fst (cmd_inspect cn now i (f, (rows, pl)))
   \<and> fst (cmd_revoke cn now i (f, (blank_rows rows, pl))) = fst (cmd_revoke cn now i (f, (rows, pl)))"
proof (intro conjI)
  have lst: "case fst (store_list a (fst (rows, pl)), (rows, pl)) of
      Inl e \<Rightarrow> fst (store_list a (fst (blank_rows rows, pl)), (blank_rows rows, pl)) = Inl e
    | Inr x \<Rightarrow> \<exists>y. fst (store_list a (fst (blank_rows rows, pl)), (blank_rows rows, pl)) = Inr y \<and> y = map blank x"
    by (cases "store_list a rows") (simp_all add: blank_store)
  show "fst (cmd_list cn now a show_all (f, (blank_rows rows, pl))) = fst (cmd_list cn now a show_all (f, (rows, pl)))"
    using with_service_related [where ?a1.0 = "\<lambda>sv cs. (store_list a (fst cs), cs)" and ?cs1.0 = "(rows, pl)" and
        ?a2.0 = "\<lambda>sv cs. (store_list a (fst cs), cs)" and ?cs2.0 = "(blank_rows rows, pl)" and P = "\<lambda>x y. y = map blank x" and cn = cn and f = f,
        OF lst]
    by (auto simp: cmd_list_def blank_screens split: prod.splits sum.splits)
  have get: "case fst (service_get i (rows, pl), (rows, pl)) of
      Inl e \<Rightarrow> fst (service_get i (blank_rows rows, pl), (blank_rows rows, pl)) = Inl e
    | Inr x \<Rightarrow> \<exists>y. fst (service_get i (blank_rows rows, pl), (blank_rows rows, pl)) = Inr y \<and> y = blank x"
    by (auto simp: service_get_def blank_store split: sum.splits option.splits)
  show "fst (cmd_inspect cn now i (f, (blank_rows rows, pl))) = fst (cmd_inspect cn now i (f, (rows, pl)))"
    using with_service_related [where ?a1.0 = "\<lambda>sv cs. (service_get i cs, cs)" and ?cs1.0 = "(rows, pl)" and
        ?a2.0 = "\<lambda>sv cs. (service_get i cs, cs)" and ?cs2.0 = "(blank_rows rows, pl)" and P = "\<lambda>x y. y = blank x" and cn = cn and f = f,
        OF get]
    by (auto simp: cmd_inspect_def blank_screens split: prod.splits sum.splits)
  have rev: "case fst (service_revoke sv i now (rows, pl)) of
      Inl e \<Rightarrow> fst (service_revoke sv i now (blank_rows rows, pl)) = Inl e
    | Inr x \<Rightarrow> \<exists>y. fst (service_revoke sv i now (blank_rows rows, pl)) = Inr y \<and> y = blank x" for sv
    using blank_store(3) [of i now rows]
    by (cases "fst (store_revoke i now rows)") (auto simp: service_revoke_def split_beta split: option.splits)
  show "fst (cmd_revoke cn now i (f, (blank_rows rows, pl))) = fst (cmd_revoke cn now i (f, (rows, pl)))"
    using with_service_related [where ?a1.0 = "\<lambda>sv. service_revoke sv i now" and ?cs1.0 = "(rows, pl)" and
        ?a2.0 = "\<lambda>sv. service_revoke sv i now" and ?cs2.0 = "(blank_rows rows, pl)" and P = "\<lambda>x y. y = blank x" and cn = cn and f = f,
        OF rev]
    by (auto simp: cmd_revoke_def blank_screens split: prod.splits sum.splits)
qed

text \<open>
  C34. \<open>prune\<close> deletes what it showed. When nothing else writes between the preview and the deletion,
  a prune that comes to its end leaves exactly the credentials that were not listed as eligible, each
  of those listed being revoked or expired before the cutoff; in every other case, a declined
  question included, it leaves all of them, and the trail.
\<close>

theorem prune_deletes_what_it_shows:
  "let (out, f', rows', pl') = cmd_prune cn now older_than yes confirmed id (f, (rows, pl)) in
   if snd out = E_done then
     (\<exists>cutoff cs doomed. parse_cutoff (cn_iso cn) now (Some older_than) = Inr (Some cutoff) \<and> store_list None rows = Inr cs
        \<and> doomed = filter (\<lambda>c. status_at now c \<noteq> S_ACTIVE \<and> (\<exists>t. retired_at c = Some t \<and> t < cutoff)) cs
        \<and> rows' = filter (\<lambda>r. kr_id r \<notin> k_id ` set doomed) rows
        \<and> (doomed = [] \<or> (yes \<or> confirmed) \<and> (\<exists>rest. fst out = preview_screen (cn_tty cn) now doomed @ rest)))
   else rows' = rows \<and> pl' = pl"
proof -
  obtain out f' rows' pl' where run: "cmd_prune cn now older_than yes confirmed id (f, (rows, pl)) = (out, f', rows', pl')"
    by (cases "cmd_prune cn now older_than yes confirmed id (f, (rows, pl))") auto
  let ?preview = "\<lambda>cutoff. \<lambda>(sv :: service) cs. (map_sum id (prune_preview cutoff now) (store_list None (fst cs)), cs)"
  consider (none) e where "out = ([], e)" "e \<noteq> E_done" "rows' = rows" "pl' = pl"
    | (read) cutoff where "parse_cutoff (cn_iso cn) now (Some older_than) = Inr (Some cutoff)"
  proof (cases "parse_cutoff (cn_iso cn) now (Some older_than)")
    case (Inl e)
    note run [unfolded cmd_prune_def Inl sum.case]
    with Inl parse_cutoff_ends [of "cn_iso cn" now "Some older_than"] show ?thesis by (intro that(1) [of e]) auto
  next
    case (Inr c)
    show ?thesis
    proof (cases c)
      case None
      note run [unfolded cmd_prune_def Inr None sum.case option.case]
      then show ?thesis by (intro that(1)) auto
    next
      case (Some cutoff)
      with Inr show ?thesis by (intro that(2)) simp
    qed
  qed
  then show ?thesis
  proof cases
    case none
    then show ?thesis by (simp add: run)
  next
    case (read cutoff)
    obtain r1 f1 cs1 where one: "with_service cn (?preview cutoff) (f, (rows, pl)) = (r1, (f1, cs1))"
      by (cases "with_service cn (?preview cutoff) (f, (rows, pl))") auto
    have cs1: "cs1 = (rows, pl)" using with_service_Inl_or_action [OF one] by auto
    note eq = run [unfolded cmd_prune_def read sum.case option.case one [unfolded cs1] prod.case]
    show ?thesis
    proof (cases r1)
      case (Inl e)
      with eq have "out = ([], E_raised e)" "rows' = rows" "pl' = pl" by auto
      then show ?thesis unfolding run by simp
    next
      case (Inr doomed)
      with with_service_Inl_or_action [OF one] obtain cs where l: "store_list None rows = Inr cs" and d: "doomed = prune_preview cutoff now cs"
        by (cases "store_list None rows") auto
      note eq = eq [unfolded Inr sum.case]
      have el: "filter (\<lambda>c. status_at now c \<noteq> S_ACTIVE \<and> (\<exists>t. retired_at c = Some t \<and> t < cutoff)) cs = doomed"
        by (simp add: d preview_is_eligible)
      have ends: ?thesis if "snd out = E_done" "rows' = filter (\<lambda>r. kr_id r \<notin> k_id ` set doomed) rows"
          "doomed = [] \<or> (yes \<or> confirmed) \<and> (\<exists>rest. fst out = preview_screen (cn_tty cn) now doomed @ rest)"
        unfolding run Let_def prod.case if_P [OF that(1)]
        by (intro exI [of _ cutoff] exI [of _ cs] exI [of _ doomed] conjI) (rule read l el [symmetric] that(2) that(3))+
      consider (empty) "doomed = []" | (declined) "doomed \<noteq> []" "\<not> yes \<and> \<not> confirmed" | (go) "doomed \<noteq> []" "yes \<or> confirmed" by blast
      then show ?thesis
      proof cases
        case empty
        with eq have "snd out = E_done" "rows' = rows" by auto
        with empty show ?thesis by (intro ends) simp_all
      next
        case declined
        with eq have "snd out = E_abort" "rows' = rows" "pl' = pl" by (auto simp: Let_def)
        then show ?thesis unfolding run by simp
      next
        case go
        obtain r2 f2 rows2 pl2 where two: "with_service cn (\<lambda>sv. service_prune sv cutoff now) (f1, (rows, pl)) = (r2, (f2, (rows2, pl2)))"
          by (cases "with_service cn (\<lambda>sv. service_prune sv cutoff now) (f1, (rows, pl))") auto
        note done2 = with_service_prune [OF two l]
        from go have ng: "\<not> (\<not> yes \<and> \<not> confirmed)" by blast
        note eq = eq [unfolded if_not_P [OF go(1)] Let_def if_not_P [OF ng] fst_conv snd_conv id_apply two prod.case]
        show ?thesis
        proof (cases r2)
          case (Inl e)
          with eq done2 have "snd out = E_raised e" "rows' = rows" "pl' = pl" by auto
          then show ?thesis unfolding run by simp
        next
          case (Inr ids)
          with eq have o: "out = ((preview_screen (cn_tty cn) now doomed @ (if yes then [] else [[]])) @
              [[], ''  Deleted '' @ str_nat (length ids) @ '' credential record(s).''], E_done)" "rows' = rows2"
            by auto
          from done2 Inr have "rows2 = filter (\<lambda>r. kr_id r \<notin> k_id ` set doomed) rows" by (simp add: d)
          with o go show ?thesis by (intro ends) simp_all
        qed
      qed
    qed
  qed
qed

end
