(* ===== verification/Heart_Runtime.thy ===== *)
theory Heart_Runtime
  imports Brain_Run Event_Bus
begin

text \<open>
  \<open>heart/runtime.py\<close> and \<open>breath/heartbeat.py\<close>: start, stop, the work in flight, health and the
  periodic beat. The audit handler is part of the control plane (\<open>plane_emit\<close>); the bus here
  carries the counter handler, the history and the subscriptions. What is published by a task while
  it runs reaches the bus when its events are relayed. Log lines are not modelled.
\<close>

text \<open>A background run: still going, ended with its outcome or exception, or cancelled.\<close>

datatype handle = H_running | H_returned task_outcome | H_raised scrappy_error | H_cancelled

record heart =
  ht_state :: runtime_state
  ht_handles :: "(string \<times> handle) list" \<comment> \<open>every \<open>asyncio.Task\<close> made, by the key it is active under\<close>
  ht_active :: "string list" \<comment> \<open>the keys of \<open>_active\<close>\<close>
  ht_task_ids :: "(string \<times> string) list"
  ht_work :: "(string \<times> objective) list" \<comment> \<open>what each spawned run was given, by its task id\<close>
  ht_started :: bool
  ht_beats :: "nat option" \<comment> \<open>the running heartbeat\<close>
  ht_connected :: bool
  ht_bus :: "runtime_state event_bus"
  ht_plane :: plane

fun runtime_status_value :: "runtime_status \<Rightarrow> string" where
  "runtime_status_value R_STARTING = ''starting''"
| "runtime_status_value R_HEALTHY = ''healthy''"
| "runtime_status_value R_DEGRADED = ''degraded''"
| "runtime_status_value R_STOPPING = ''stopping''"
| "runtime_status_value R_STOPPED = ''stopped''"

text \<open>\<open>round(seconds, 1)\<close>, from microseconds.\<close>

definition tenth_seconds :: "time \<Rightarrow> pyval" where
  "tenth_seconds t = PFloat (of_int (round (of_int t / 100000 :: rat)) / 10)"

section \<open>Events\<close>

definition track_task_counters :: "event \<Rightarrow> runtime_state \<Rightarrow> runtime_state" where
  "track_task_counters e s =
     (if e_type e = TASK_COMPLETED then s\<lparr>rs_completed_tasks := Suc (rs_completed_tasks s)\<rparr>
      else if e_type e = TASK_FAILED then s\<lparr>rs_failed_tasks := Suc (rs_failed_tasks s)\<rparr>
      else if e_type e = HEARTBEAT then
        s\<lparr>rs_heartbeats := Suc (rs_heartbeats s), rs_last_heartbeat_at := Some (e_timestamp e)\<rparr>
      else s)"

definition counter_handler :: "runtime_state handler" where
  "counter_handler = Handler ''Runtime._track_task_counters'' None (\<lambda>e s. (False, track_task_counters e s))"

definition heart_publish :: "event \<Rightarrow> heart \<Rightarrow> heart" where
  "heart_publish e h = (let (b, s) = publish e (ht_bus h) (ht_state h) in h\<lparr>ht_bus := b, ht_state := s\<rparr>)"

text \<open>The plane moves on to \<open>pl\<close>, and what was published meanwhile reaches the bus.\<close>

definition relay :: "plane \<Rightarrow> heart \<Rightarrow> heart" where
  "relay pl h = fold heart_publish (drop (length (pl_published (ht_plane h))) (pl_published pl)) (h\<lparr>ht_plane := pl\<rparr>)"

definition heart_emit :: "event_type \<Rightarrow> string \<Rightarrow> payload \<Rightarrow> heart \<Rightarrow> heart" where
  "heart_emit ty component payload h =
     relay (plane_emit ty None component (Some SYSTEM_ACTOR) payload (ht_plane h)) h"

section \<open>Lifecycle\<close>

text \<open>What a constructed runtime knows of itself: version, host, process, provider and model.\<close>

definition new_heart :: "runtime_state \<Rightarrow> nat \<Rightarrow> plane \<Rightarrow> heart" where
  "new_heart s history_size pl =
     \<lparr>ht_state = s\<lparr>rs_status := R_STARTING, rs_active_task_ids := [], rs_completed_tasks := 0, rs_failed_tasks := 0,
        rs_heartbeats := 0, rs_last_heartbeat_at := None, rs_components := []\<rparr>,
      ht_handles = [], ht_active = [], ht_task_ids = [], ht_work = [], ht_started = False, ht_beats = None, ht_connected = False,
      ht_bus = new_bus history_size, ht_plane = pl\<lparr>pl_published := []\<rparr>\<rparr>"

text \<open>
  \<open>start\<close> waits when it opens the store and when it announces itself; \<open>start_ready\<close> is what happens between the two waits. \<open>heart_start\<close>
  is the whole of it when nothing else happens during the waits, as in the commands of \<open>scrappy\<close>, which start and stop a runtime
  of their own around the one thing they do. What else may happen then is in \<open>Heart_Interleaved\<close>. \<open>connect\<close>
  is what opening the store raises; \<open>enabled\<close> the number of enabled tools.
\<close>

definition start_ready :: "bool \<Rightarrow> heart \<Rightarrow> heart" where
  "start_ready with_heartbeat h =
     h\<lparr>ht_connected := True, ht_bus := add_handler counter_handler (ht_bus h),
       ht_state := (ht_state h)\<lparr>rs_status := R_HEALTHY, rs_started_at := pl_now (ht_plane h)\<rparr>, ht_started := True,
       ht_beats := (if with_heartbeat then Some 0 else ht_beats h)\<rparr>"

definition started_payload :: "nat \<Rightarrow> heart \<Rightarrow> payload" where
  "started_payload enabled h =
     (let s = ht_state h in
      [(''version'', PStr (rs_version s)), (''pid'', PInt (int (rs_pid s))), (''hostname'', PStr (rs_hostname s)),
       (''provider'', pstr_opt (rs_provider s)), (''model'', pstr_opt (rs_model s)), (''tools'', PInt (int enabled))])"

definition heart_start :: "bool \<Rightarrow> scrappy_error option \<Rightarrow> nat \<Rightarrow> heart \<Rightarrow> scrappy_error option \<times> heart" where
  "heart_start with_heartbeat connect enabled h =
     (if ht_started h then (None, h)
      else case connect of Some e \<Rightarrow> (Some e, h)
      | None \<Rightarrow> (let h1 = start_ready with_heartbeat h in (None, heart_emit RUNTIME_STARTED ''heart'' (started_payload enabled h1) h1)))"

text \<open>
  The segments of \<open>stop\<close>: up to its first wait (for the heartbeat, then for the running tasks); the
  cancellation of what still runs, with what is then announced; the closing of the bus; and what follows
  the closing of the store. \<open>stop_end\<close> is what comes after the waits when nothing intervenes.
\<close>

definition stop_begin :: "heart \<Rightarrow> heart" where
  "stop_begin h = (if \<not> ht_started h then h\<lparr>ht_connected := False\<rparr>
     else h\<lparr>ht_state := (ht_state h)\<lparr>rs_status := R_STOPPING\<rparr>, ht_beats := None\<rparr>)"

definition cancel_running :: "string list \<Rightarrow> (string \<times> handle) list \<Rightarrow> (string \<times> handle) list" where
  "cancel_running keys hs = map (\<lambda>(k, x). if k \<in> set keys \<and> x = H_running then (k, H_cancelled) else (k, x)) hs"

definition stop_cancel :: "heart \<Rightarrow> heart" where
  "stop_cancel h = h\<lparr>ht_handles := cancel_running (ht_active h) (ht_handles h)\<rparr>"

definition stopped_payload :: "heart \<Rightarrow> payload" where
  "stopped_payload h =
     [(''uptime_seconds'', tenth_seconds (uptime_seconds (pl_now (ht_plane h)) (ht_state h))),
      (''completed_tasks'', PInt (int (rs_completed_tasks (ht_state h)))),
      (''failed_tasks'', PInt (int (rs_failed_tasks (ht_state h))))]"

definition stop_bus :: "heart \<Rightarrow> heart" where
  "stop_bus h = h\<lparr>ht_bus := bus_aclose (ht_bus h)\<rparr>"

definition stop_closed :: "heart \<Rightarrow> heart" where
  "stop_closed h = h\<lparr>ht_connected := False, ht_state := (ht_state h)\<lparr>rs_status := R_STOPPED\<rparr>, ht_started := False\<rparr>"

definition stop_end :: "heart \<Rightarrow> heart" where
  "stop_end h = (let h1 = stop_cancel h in stop_closed (stop_bus (heart_emit RUNTIME_STOPPED ''heart'' (stopped_payload h1) h1)))"

section \<open>Work\<close>

text \<open>\<open>_active[key] = task\<close>, \<open>_active.pop(key, None)\<close>, each with the list of keys renewed.\<close>

definition activate :: "string \<Rightarrow> heart \<Rightarrow> heart" where
  "activate key h =
     (let keys = (if key \<in> set (ht_active h) then ht_active h else ht_active h @ [key]) in
      h\<lparr>ht_handles := dict_set key H_running (ht_handles h), ht_active := keys, ht_state := (ht_state h)\<lparr>rs_active_task_ids := keys\<rparr>\<rparr>)"

definition forget :: "string \<Rightarrow> heart \<Rightarrow> heart" where
  "forget key h =
     (let keys = removeAll key (ht_active h) in
      h\<lparr>ht_active := keys, ht_state := (ht_state h)\<lparr>rs_active_task_ids := keys\<rparr>\<rparr>)"

definition not_started :: scrappy_error where
  "not_started = Invalid ''Runtime.start() must be awaited before submitting work''"

definition heart_spawn :: "objective \<Rightarrow> heart \<Rightarrow> (scrappy_error + string) \<times> heart" where
  "heart_spawn ob h =
     (if \<not> ht_started h then (Inl not_started, h)
      else let (task_id, pl) = new_id (ht_plane h);
               h1 = h\<lparr>ht_plane := pl, ht_task_ids := dict_set (o_id ob) task_id (ht_task_ids h),
                       ht_work := dict_set task_id ob (ht_work h)\<rparr>
           in (Inr task_id, activate task_id h1))"

definition task_id_for :: "string \<Rightarrow> heart \<Rightarrow> string option" where
  "task_id_for objective_id h = map_of (ht_task_ids h) objective_id"

text \<open>
  \<open>submit\<close> runs the objective and waits for it. It is active under the objective's id, whatever way
  the run ends.
\<close>

definition heart_submit ::
  "('m, 'w) brain_env \<Rightarrow> decoders \<Rightarrow> objective \<Rightarrow> 'm \<Rightarrow> 'w \<Rightarrow> heart \<Rightarrow> (scrappy_error + task_outcome) \<times> heart \<times> 'm \<times> 'w" where
  "heart_submit ev dc ob m w h =
     (if \<not> ht_started h then (Inl not_started, h, m, w)
      else let h1 = activate (o_id ob) h;
               (r, s) = run_objective ev dc ob None (ht_plane h1) m w;
               h2 = relay (br_plane s) h1;
               ended = (case r of Inl e \<Rightarrow> H_raised e | Inr _ \<Rightarrow> H_returned (outcome_of s));
               h3 = h2\<lparr>ht_handles := dict_set (o_id ob) ended (ht_handles h2)\<rparr>
           in ((case r of Inl e \<Rightarrow> Inl e | Inr _ \<Rightarrow> Inr (outcome_of s)), forget (o_id ob) h3, br_model s, br_world s))"

section \<open>Health\<close>

definition health_components :: "time \<Rightarrow> bool \<times> string \<Rightarrow> string \<Rightarrow> bool \<times> string \<Rightarrow> nat \<Rightarrow> nat \<Rightarrow> nat \<Rightarrow> component_health list" where
  "health_components now store provider_name provider enabled disabled pending =
     (let part = (\<lambda>name status detail. \<lparr>h_name = name, h_status = status, h_detail = Some detail, h_checked_at = now\<rparr>) in
      [part ''store'' (if fst store then C_UP else C_DOWN) (snd store),
       part ''model_provider'' (if fst provider then C_UP else C_DEGRADED) (provider_name @ '': '' @ snd provider),
       part ''tools'' C_UP (str_nat enabled @ '' enabled, '' @ str_nat disabled @ '' disabled''),
       part ''semantic_memory'' C_UNKNOWN ''not configured in v0.1'',
       part ''approvals'' C_UP (str_nat pending @ '' pending'')])"

text \<open>The end of \<open>health\<close>, after its waits.\<close>

definition health_conclude :: "component_health list \<Rightarrow> bool \<Rightarrow> bool \<Rightarrow> heart \<Rightarrow> heart" where
  "health_conclude components store_ok provider_ok h =
     (let s = (ht_state h)\<lparr>rs_components := components\<rparr> in
      h\<lparr>ht_state := (if \<not> store_ok then s\<lparr>rs_status := R_DEGRADED\<rparr>
         else if ht_started h then s\<lparr>rs_status := (if provider_ok then R_HEALTHY else R_DEGRADED)\<rparr>
         else s)\<rparr>)"

text \<open>
  \<open>store\<close> is the answer of the store's probe, \<open>reads\<close> what reading the pending approvals raises, and
  \<open>provider\<close> the answer of the provider's probe.
\<close>

definition heart_health ::
  "bool \<times> string \<Rightarrow> scrappy_error option \<Rightarrow> string \<Rightarrow> bool \<times> string \<Rightarrow> nat \<Rightarrow> nat \<Rightarrow> heart \<Rightarrow> (scrappy_error + runtime_state) \<times> heart" where
  "heart_health store reads provider_name provider enabled disabled h =
     (case reads of Some e \<Rightarrow> (Inl e, h)
      | None \<Rightarrow>
         (let h' = health_conclude (health_components (pl_now (ht_plane h)) store provider_name provider enabled disabled
                (length (pending_approvals None (ht_plane h)))) (fst store) (fst provider) h
          in (Inr (ht_state h'), h')))"

section \<open>The beat\<close>

text \<open>\<open>_collect\<close>; the metrics are three percentages, or the text of the error that reading them raised.\<close>

definition collect :: "string + rat \<times> rat \<times> rat \<Rightarrow> nat \<Rightarrow> heart \<Rightarrow> payload" where
  "collect metrics beats h =
     (let s = ht_state h in
      [(''uptime_seconds'', tenth_seconds (uptime_seconds (pl_now (ht_plane h)) s)), (''status'', PStr (runtime_status_value (rs_status s))),
       (''active_tasks'', PInt (int (length (rs_active_task_ids s)))), (''completed_tasks'', PInt (int (rs_completed_tasks s))),
       (''failed_tasks'', PInt (int (rs_failed_tasks s))), (''beat'', PInt (int (Suc beats)))] @
      (case metrics of
         Inl text0 \<Rightarrow> [(''metrics_error'', PStr text0)]
       | Inr (memory, load, disk) \<Rightarrow> [(''memory_percent'', PFloat memory), (''load_1m'', PFloat load), (''disk_percent'', PFloat disk)]))"

definition heart_beat :: "string + rat \<times> rat \<times> rat \<Rightarrow> heart \<Rightarrow> heart" where
  "heart_beat metrics h = (case ht_beats h of None \<Rightarrow> h
     | Some n \<Rightarrow> heart_emit HEARTBEAT ''breath'' (collect metrics n h) (h\<lparr>ht_beats := Some (Suc n)\<rparr>))"

section \<open>Lemmas\<close>

lemma track_keeps [simp]:
  "rs_active_task_ids (track_task_counters e s) = rs_active_task_ids s"
  "rs_status (track_task_counters e s) = rs_status s"
  by (simp_all add: track_task_counters_def)

definition of_type :: "event_type \<Rightarrow> event list \<Rightarrow> nat" where
  "of_type ty es = length (filter (\<lambda>e. e_type e = ty) es)"

lemma of_type_simps [simp]:
  "of_type ty [] = 0" "of_type ty (e # es) = (if e_type e = ty then Suc (of_type ty es) else of_type ty es)"
  "of_type ty (es @ fs) = of_type ty es + of_type ty fs"
  by (simp_all add: of_type_def)

lemma fold_track:
  "rs_completed_tasks (fold track_task_counters es s) = rs_completed_tasks s + of_type TASK_COMPLETED es"
  "rs_failed_tasks (fold track_task_counters es s) = rs_failed_tasks s + of_type TASK_FAILED es"
  "rs_heartbeats (fold track_task_counters es s) = rs_heartbeats s + of_type HEARTBEAT es"
  "rs_active_task_ids (fold track_task_counters es s) = rs_active_task_ids s"
  "rs_status (fold track_task_counters es s) = rs_status s"
  by (induction es arbitrary: s) (simp_all add: track_task_counters_def)

text \<open>With the counter attached, delivering events moves the counters and the history, and nothing else.\<close>

definition only_delivered :: "event list \<Rightarrow> heart \<Rightarrow> heart \<Rightarrow> bool" where
  "only_delivered es h h' \<longleftrightarrow> ht_state h' = fold track_task_counters es (ht_state h)
     \<and> b_handlers (ht_bus h') = b_handlers (ht_bus h) \<and> b_history_size (ht_bus h') = b_history_size (ht_bus h)
     \<and> b_history (ht_bus h') = fold (\<lambda>e l. bounded_append (b_history_size (ht_bus h)) l e) es (b_history (ht_bus h))
     \<and> ht_handles h' = ht_handles h \<and> ht_active h' = ht_active h \<and> ht_task_ids h' = ht_task_ids h \<and> ht_work h' = ht_work h \<and> ht_started h' = ht_started h
     \<and> ht_beats h' = ht_beats h \<and> ht_connected h' = ht_connected h \<and> ht_plane h' = ht_plane h"

lemma publish_delivered:
  "b_handlers (ht_bus h) = [counter_handler] \<Longrightarrow> only_delivered [e] h (heart_publish e h)"
  by (simp add: only_delivered_def heart_publish_def publish_def counter_handler_def handler_selects_def Let_def)

lemma fold_delivered:
  "b_handlers (ht_bus h) = [counter_handler] \<Longrightarrow> only_delivered es h (fold heart_publish es h)"
proof (induction es arbitrary: h)
  case (Cons e es)
  from publish_delivered [OF Cons.prems] have one: "only_delivered [e] h (heart_publish e h)" .
  with Cons.prems have "b_handlers (ht_bus (heart_publish e h)) = [counter_handler]" by (simp add: only_delivered_def)
  from Cons.IH [OF this] one show ?case by (simp add: only_delivered_def)
qed (simp add: only_delivered_def)

definition heart_ok :: "heart \<Rightarrow> bool" where
  "heart_ok h \<longleftrightarrow> rs_active_task_ids (ht_state h) = ht_active h \<and> distinct (ht_active h) \<and> distinct (map fst (ht_handles h))
     \<and> (\<forall>k. (k, H_running) \<in> set (ht_handles h) \<longrightarrow> k \<in> set (ht_active h) \<and> ht_started h)
     \<and> b_handlers (ht_bus h) = (if ht_started h then [counter_handler] else [])
     \<and> rs_completed_tasks (ht_state h) = of_type TASK_COMPLETED (pl_published (ht_plane h))
     \<and> rs_failed_tasks (ht_state h) = of_type TASK_FAILED (pl_published (ht_plane h))
     \<and> rs_heartbeats (ht_state h) = of_type HEARTBEAT (pl_published (ht_plane h))
     \<and> (ht_started h \<longrightarrow> ht_connected h \<and> rs_status (ht_state h) \<in> {R_HEALTHY, R_DEGRADED, R_STOPPING})
     \<and> (ht_beats h \<noteq> None \<longrightarrow> ht_started h) \<and> audit_ok (ht_plane h)"

lemma heart_ok_relay:
  assumes "heart_ok h" "ht_started h" "advance (ht_plane h) pl"
  shows "heart_ok (relay pl h)"
proof -
  let ?es = "drop (length (pl_published (ht_plane h))) (pl_published pl)"
  have p: "pl_published pl = pl_published (ht_plane h) @ ?es"
    using assms(1,3) by (auto simp: heart_ok_def advance_def trail_grows_def prefix_def)
  have "only_delivered ?es (h\<lparr>ht_plane := pl\<rparr>) (relay pl h)"
    unfolding relay_def by (rule fold_delivered) (use assms in \<open>simp add: heart_ok_def\<close>)
  moreover have "audit_ok pl" using assms by (simp add: heart_ok_def advance_def)
  moreover have "of_type ty (pl_published pl) = of_type ty (pl_published (ht_plane h)) + of_type ty ?es" for ty
    by (subst p) simp
  ultimately show ?thesis using assms(1,2) by (simp add: heart_ok_def only_delivered_def fold_track)
qed

lemma heart_ok_emit: "heart_ok h \<Longrightarrow> ht_started h \<Longrightarrow> heart_ok (heart_emit ty c p h)"
  unfolding heart_emit_def by (rule heart_ok_relay) simp_all

lemma heart_emit_frame:
  assumes "heart_ok h" "ht_started h"
  shows "ht_started (heart_emit ty c p h)" "ht_beats (heart_emit ty c p h) = ht_beats h"
    "ht_handles (heart_emit ty c p h) = ht_handles h" "ht_active (heart_emit ty c p h) = ht_active h"
proof -
  have "only_delivered (drop (length (pl_published (ht_plane h))) (pl_published (plane_emit ty None c (Some SYSTEM_ACTOR) p (ht_plane h))))
      (h\<lparr>ht_plane := plane_emit ty None c (Some SYSTEM_ACTOR) p (ht_plane h)\<rparr>) (heart_emit ty c p h)"
    unfolding heart_emit_def relay_def by (rule fold_delivered) (use assms in \<open>simp add: heart_ok_def\<close>)
  with assms show "ht_started (heart_emit ty c p h)" "ht_beats (heart_emit ty c p h) = ht_beats h"
    "ht_handles (heart_emit ty c p h) = ht_handles h" "ht_active (heart_emit ty c p h) = ht_active h"
    by (simp_all add: only_delivered_def)
qed

lemma heart_ok_start: "heart_ok h \<Longrightarrow> heart_ok (snd (heart_start beating connect enabled h))"
  unfolding heart_start_def Let_def
  by (auto split: option.splits intro!: heart_ok_emit) (auto simp: heart_ok_def add_handler_def start_ready_def)

lemma set_cancelled: "(k, H_running) \<in> set (cancel_running keys hs) \<longleftrightarrow> (k, H_running) \<in> set hs \<and> k \<notin> set keys"
  by (auto simp: cancel_running_def split: if_splits) force

lemma fst_cancel_running [simp]: "map fst (cancel_running keys hs) = map fst hs"
  by (induction hs) (auto simp: cancel_running_def)

lemma heart_ok_cancel: "heart_ok h \<Longrightarrow> heart_ok (stop_cancel h)"
  by (auto simp: heart_ok_def set_cancelled stop_cancel_def)

lemma heart_ok_stop_end:
  assumes "heart_ok h" "ht_started h" "ht_beats h = None"
  shows "heart_ok (stop_end h)"
proof -
  let ?h1 = "stop_cancel h"
  from assms have h1: "heart_ok ?h1" "ht_started ?h1" by (simp_all add: heart_ok_cancel) (simp add: stop_cancel_def)
  have idle: "(k, H_running) \<notin> set (ht_handles ?h1)" for k
    using assms(1) by (auto simp: set_cancelled heart_ok_def stop_cancel_def)
  have "ht_beats ?h1 = None" using assms(3) by (simp add: stop_cancel_def)
  show ?thesis
    using heart_ok_emit [OF h1] heart_emit_frame [OF h1] idle \<open>ht_beats ?h1 = None\<close>
    by (simp add: stop_end_def Let_def heart_ok_def bus_aclose_def stop_bus_def stop_closed_def)
qed

lemma heart_ok_activate: "heart_ok h \<Longrightarrow> ht_started h \<Longrightarrow> heart_ok (activate key h)"
  by (auto simp: heart_ok_def activate_def Let_def keys_dict_set dest!: set_dict_set)

lemma heart_ok_forget: "heart_ok h \<Longrightarrow> (key, H_running) \<notin> set (ht_handles h) \<Longrightarrow> heart_ok (forget key h)"
  by (auto simp: heart_ok_def forget_def Let_def distinct_removeAll)

text \<open>A submission whose objective is not active yet leaves the runtime consistent and nothing of itself active.\<close>

lemma relay_keeps:
  assumes "heart_ok h" "ht_started h"
  shows "ht_started (relay pl h)" "ht_active (relay pl h) = ht_active h" "ht_handles (relay pl h) = ht_handles h"
    "ht_plane (relay pl h) = pl"
proof -
  have "only_delivered (drop (length (pl_published (ht_plane h))) (pl_published pl)) (h\<lparr>ht_plane := pl\<rparr>) (relay pl h)"
    unfolding relay_def by (rule fold_delivered) (use assms in \<open>simp add: heart_ok_def\<close>)
  with assms show "ht_started (relay pl h)" "ht_active (relay pl h) = ht_active h" "ht_handles (relay pl h) = ht_handles h"
    "ht_plane (relay pl h) = pl"
    by (simp_all add: only_delivered_def)
qed

lemma heart_ok_submit:
  assumes "heart_ok h" "o_id ob \<notin> set (ht_active h)" "heart_submit ev dc ob m w h = (r, h', m', w')"
  shows "heart_ok h' \<and> ht_active h' = ht_active h"
proof (cases "ht_started h")
  case True
  let ?h1 = "activate (o_id ob) h"
  obtain u s where run: "run_objective ev dc ob None (ht_plane ?h1) m w = (u, s)" by fastforce
  have h1: "heart_ok ?h1" "ht_started ?h1" "ht_active ?h1 = ht_active h @ [o_id ob]" "ht_plane ?h1 = ht_plane h"
    using assms(2) True heart_ok_activate [OF assms(1) True, of "o_id ob"] by (auto simp: activate_def Let_def)
  obtain i pl1 where "advance (ht_plane ?h1) pl1" "evolves ev (new_brain (ev_settings ev) ob i pl1 m w) s"
    using run_evolves [of "ht_plane ?h1" ev ob m w dc None] run by (metis snd_conv)
  then have adv: "advance (ht_plane ?h1) (br_plane s)"
    by (auto simp: evolves_def new_brain_def intro: advance_trans)
  let ?h2 = "relay (br_plane s) ?h1"
  have h2: "heart_ok ?h2" by (rule heart_ok_relay [OF h1(1,2) adv])
  let ?x = "case u of Inl e \<Rightarrow> H_raised e | Inr _ \<Rightarrow> H_returned (outcome_of s)"
  have x: "?x \<noteq> H_running" by (cases u) auto
  let ?h3 = "?h2\<lparr>ht_handles := dict_set (o_id ob) ?x (ht_handles ?h2)\<rparr>"
  have "heart_ok ?h3" using h2 x by (auto simp: heart_ok_def keys_dict_set dest!: set_dict_set)
  moreover have "(o_id ob, H_running) \<notin> set (ht_handles ?h3)"
  proof -
    have "distinct (map fst (ht_handles ?h3))" using \<open>heart_ok ?h3\<close> by (simp add: heart_ok_def)
    moreover have "map_of (ht_handles ?h3) (o_id ob) = Some ?x" by simp
    ultimately show ?thesis using x by (metis map_of_is_SomeI option.inject)
  qed
  moreover have "h' = forget (o_id ob) ?h3"
    using assms(3) True run by (simp add: heart_submit_def Let_def)
  moreover have "ht_active ?h3 = ht_active h @ [o_id ob]" using relay_keeps [OF h1(1,2)] h1(3) by simp
  ultimately show ?thesis using assms(2) heart_ok_forget [of ?h3 "o_id ob"] by (simp add: forget_def Let_def)
qed (use assms in \<open>simp add: heart_submit_def\<close>)

text \<open>A probe during the shutdown reports the runtime as healthy again.\<close>

lemma health_hides_shutdown:
  "ht_started h \<Longrightarrow> fst store \<Longrightarrow> fst provider \<Longrightarrow>
   rs_status (ht_state (snd (heart_health store None name provider n d (stop_begin h)))) = R_HEALTHY"
  by (simp add: stop_begin_def heart_health_def health_conclude_def Let_def)

text \<open>When the store cannot be read, \<open>health\<close> raises instead of reporting the store as down.\<close>

lemma unreadable_store_raises:
  "heart_health store (Some e) name provider n d h = (Inl e, h)"
  by (simp add: heart_health_def)

text \<open>What a beat may say: nothing but these keys, whatever goes on in the runtime.\<close>

lemma beat_keys:
  "fst ` set (collect metrics n h) \<subseteq> {''uptime_seconds'', ''status'', ''active_tasks'', ''completed_tasks'', ''failed_tasks'',
     ''beat'', ''metrics_error'', ''memory_percent'', ''load_1m'', ''disk_percent''}"
  by (auto simp: collect_def Let_def split: sum.splits)

definition example_state :: runtime_state where
  "example_state = \<lparr>rs_instance_id = ''i'', rs_version = ''0.2'', rs_status = R_STARTING, rs_started_at = 0, rs_hostname = ''h'',
     rs_pid = 1, rs_active_task_ids = [], rs_completed_tasks = 0, rs_failed_tasks = 0, rs_heartbeats = 0,
     rs_last_heartbeat_at = None, rs_components = [], rs_provider = Some ''mock'', rs_model = None\<rparr>"

end
