(* ===== verification/Sec_Authn.thy ===== *)
theory Sec_Authn
  imports Sec_Credential_Store
begin

text \<open>
  \<open>security/authn.py\<close>: from an \<open>Authorization\<close> header to an actor. The contract of an authenticator
  is a locale, and each of the three implementations satisfies it. \<open>sha256\<close> and \<open>hmac\<close> of the
  standard library are arguments. \<open>AuthRaised\<close> is an exception that is not an authentication
  failure.
\<close>

datatype auth_reason = MISSING_CREDENTIAL | MALFORMED_CREDENTIAL | UNKNOWN_CREDENTIAL | NO_CREDENTIALS_CONFIGURED

fun reason_value :: "auth_reason \<Rightarrow> string" where
  "reason_value MISSING_CREDENTIAL = ''missing_credential''"
| "reason_value MALFORMED_CREDENTIAL = ''malformed_credential''"
| "reason_value UNKNOWN_CREDENTIAL = ''unknown_credential''"
| "reason_value NO_CREDENTIALS_CONFIGURED = ''no_credentials_configured''"

datatype auth_detail = DUPLICATE_HEADER | NOT_A_CREDENTIAL_TOKEN | NO_SUCH_CREDENTIAL | SECRET_MISMATCH
  | CREDENTIAL_EXPIRED | CREDENTIAL_REVOKED_DETAIL

fun detail_value :: "auth_detail \<Rightarrow> string" where
  "detail_value DUPLICATE_HEADER = ''duplicate_authorization_header''"
| "detail_value NOT_A_CREDENTIAL_TOKEN = ''not_a_credential_token''"
| "detail_value NO_SUCH_CREDENTIAL = ''no_such_credential''"
| "detail_value SECRET_MISMATCH = ''secret_mismatch''"
| "detail_value CREDENTIAL_EXPIRED = ''credential_expired''"
| "detail_value CREDENTIAL_REVOKED_DETAIL = ''credential_revoked''"

datatype auth_error = AuthFailed auth_reason string "auth_detail option" | AuthRaised scrappy_error

definition BEARER_SCHEME :: string where
  "BEARER_SCHEME = ''bearer''"

section \<open>The header\<close>

definition parse_bearer :: "string option \<Rightarrow> auth_error + string" where
  "parse_bearer header =
     (if (case header of None \<Rightarrow> True | Some h \<Rightarrow> py_strip h = []) then
        Inl (AuthFailed MISSING_CREDENTIAL
          ''authentication required: send 'Authorization: Bearer <token>' '' None)
      else (case py_split_ws (the header) of
        [scheme, token] \<Rightarrow>
          if py_lower scheme \<noteq> BEARER_SCHEME \<or> token = [] then
            Inl (AuthFailed MALFORMED_CREDENTIAL ''malformed Authorization header: expected 'Bearer <token>' '' None)
          else Inr token
      | _ \<Rightarrow> Inl (AuthFailed MALFORMED_CREDENTIAL ''malformed Authorization header: expected 'Bearer <token>' '' None)))"

section \<open>The contract\<close>

text \<open>
  Every authenticator refuses a header without a well-formed bearer token with the reason of
  \<open>parse_bearer\<close>, and answers only with valid actors.
\<close>

locale authenticator =
  fixes authenticate :: "string option \<Rightarrow> 's \<Rightarrow> (auth_error + actor) \<times> 's"
  assumes refuses_malformed: "parse_bearer h = Inl e \<Longrightarrow> authenticate h s = (Inl e, s)"
    and actor_wf: "fst (authenticate h s) = Inr a \<Longrightarrow> actor_valid a"
begin

lemma no_header: "\<exists>m. fst (authenticate None s) = Inl (AuthFailed MISSING_CREDENTIAL m None)"
proof -
  obtain m where m: "parse_bearer None = Inl (AuthFailed MISSING_CREDENTIAL m None)" by (simp add: parse_bearer_def)
  show ?thesis using refuses_malformed [OF m, of s] by simp
qed

lemma accepted_header: "fst (authenticate h s) = Inr a \<Longrightarrow> \<exists>t. parse_bearer h = Inr t"
  using refuses_malformed [of h _ s] by (cases "parse_bearer h") auto

text \<open>An actor that authenticated as nobody holds no scope.\<close>

lemma unauthenticated_scopeless:
  "fst (authenticate h s) = Inr a \<Longrightarrow> a_auth_method a = AM_NONE \<Longrightarrow> a_scopes a = {}"
  using actor_wf by (auto simp: actor_valid_def)

end

section \<open>Configured tokens\<close>

record token_credential =
  tc_token :: string
  tc_actor_id :: string
  tc_actor_type :: actor_type
  tc_scopes :: "scope set"
  tc_display_name :: "string option"

definition token_to_actor :: "token_credential \<Rightarrow> scrappy_error + actor" where
  "token_to_actor c = make_actor \<lparr>a_id = tc_actor_id c, a_type = tc_actor_type c,
     a_display_name = tc_display_name c, a_scopes = tc_scopes c, a_auth_method = BEARER_TOKEN, a_metadata = []\<rparr>"

definition lift_actor :: "scrappy_error + actor \<Rightarrow> auth_error + actor" where
  "lift_actor r = (case r of Inl e \<Rightarrow> Inl (AuthRaised e) | Inr a \<Rightarrow> Inr a)"

definition unconfigured :: auth_error where
  "unconfigured = AuthFailed NO_CREDENTIALS_CONFIGURED
     ''no API credentials are configured; set SCRAPPY_API_TOKEN to enable API access'' None"

definition unknown_credential :: "auth_detail option \<Rightarrow> auth_error" where
  "unknown_credential d = AuthFailed UNKNOWN_CREDENTIAL ''the presented credential is not recognised'' d"

text \<open>The loop compares every entry and keeps the last match.\<close>

definition last_match :: "(string \<Rightarrow> string) \<Rightarrow> token_credential list \<Rightarrow> string \<Rightarrow> token_credential option" where
  "last_match sha256 creds presented =
     fold (\<lambda>c matched. if sha256 presented = sha256 (tc_token c) then Some c else matched) creds None"

definition static_authenticate ::
  "(string \<Rightarrow> string) \<Rightarrow> token_credential list \<Rightarrow> string option \<Rightarrow> 's \<Rightarrow> (auth_error + actor) \<times> 's" where
  "static_authenticate sha256 creds header s =
     (ebind (parse_bearer header) (\<lambda>presented.
        if creds = [] then Inl unconfigured
        else (case last_match sha256 creds presented of
          None \<Rightarrow> Inl (unknown_credential None)
        | Some c \<Rightarrow> lift_actor (token_to_actor c))), s)"

definition null_authenticate :: "string option \<Rightarrow> 's \<Rightarrow> (auth_error + actor) \<times> 's" where
  "null_authenticate header s = (ebind (parse_bearer header) (\<lambda>presented. Inl unconfigured), s)"

datatype configured_authenticator = NullAuth | StaticAuth "token_credential list"

definition build_authenticator ::
  "string option \<Rightarrow> string \<Rightarrow> scope set option \<Rightarrow> configured_authenticator" where
  "build_authenticator token actor_id scopes =
     (case token of
        None \<Rightarrow> NullAuth
      | Some t \<Rightarrow> if py_strip t = [] then NullAuth
          else StaticAuth [\<lparr>tc_token = t, tc_actor_id = actor_id, tc_actor_type = SERVICE,
            tc_scopes = or_else scopes all_scopes, tc_display_name = Some ''configured API token''\<rparr>])"

definition run_configured ::
  "(string \<Rightarrow> string) \<Rightarrow> configured_authenticator \<Rightarrow> string option \<Rightarrow> 's \<Rightarrow> (auth_error + actor) \<times> 's" where
  "run_configured sha256 a = (case a of NullAuth \<Rightarrow> null_authenticate | StaticAuth cs \<Rightarrow> static_authenticate sha256 cs)"

fun configured :: "configured_authenticator \<Rightarrow> bool" where
  "configured NullAuth = False"
| "configured (StaticAuth cs) = (cs \<noteq> [])"

fun credential_count :: "configured_authenticator \<Rightarrow> nat" where
  "credential_count NullAuth = 0"
| "credential_count (StaticAuth cs) = length cs"

text \<open>Of the authenticator for stored credentials, which is always configured, with its legacy one.\<close>

definition legacy_enabled :: "configured_authenticator option \<Rightarrow> bool" where
  "legacy_enabled legacy = (case legacy of None \<Rightarrow> False | Some a \<Rightarrow> configured a)"

text \<open>What is not configured lets nobody in, and a configured token is the only one of its authenticator.\<close>

lemma configured_built:
  "configured (build_authenticator token i scopes) \<longleftrightarrow> (\<exists>t. token = Some t \<and> py_strip t \<noteq> [])"
  "credential_count (build_authenticator token i scopes) = (if configured (build_authenticator token i scopes) then 1 else 0)"
  by (simp_all add: build_authenticator_def split: option.splits)

lemma unconfigured_refuses: "\<not> configured a \<Longrightarrow> \<exists>e. run_configured sha256 a header s = (Inl e, s)"
  by (cases a; cases "parse_bearer header")
    (simp_all add: run_configured_def null_authenticate_def static_authenticate_def ebind_def)

section \<open>Stored credentials\<close>

definition ABSENT_CREDENTIAL_VERIFIER :: string where
  "ABSENT_CREDENTIAL_VERIFIER = replicate 64 (CHR ''0'')"

text \<open>
  \<open>get\<close> is the store's lookup, \<open>on_auth\<close> the hook that maintains \<open>last_used_at\<close>, \<open>legacy\<close> the
  fallback. The verification against the absent verifier is spent for its time only.
\<close>

definition credential_authenticate ::
  "(string \<Rightarrow> string \<Rightarrow> string) \<Rightarrow> string \<Rightarrow> (string option \<Rightarrow> 's \<Rightarrow> (auth_error + actor) \<times> 's) option \<Rightarrow>
   ('s \<Rightarrow> string \<Rightarrow> scrappy_error + credential option) \<Rightarrow> (credential \<Rightarrow> 's \<Rightarrow> 's) \<Rightarrow> time \<Rightarrow>
   string option \<Rightarrow> 's \<Rightarrow> (auth_error + actor) \<times> 's" where
  "credential_authenticate hmac pepper legacy get on_auth now header s =
     (case parse_bearer header of
        Inl e \<Rightarrow> (Inl e, s)
      | Inr presented \<Rightarrow>
        (case parse_token presented of
           Inl e \<Rightarrow> (case legacy of
               None \<Rightarrow> (Inl (unknown_credential (Some NOT_A_CREDENTIAL_TOKEN)), s)
             | Some l \<Rightarrow> l header s)
         | Inr (credential_id, secret) \<Rightarrow>
             (case get s credential_id of
                Inl e \<Rightarrow> (Inl (AuthRaised e), s)
              | Inr None \<Rightarrow>
                  let spent = verify_secret hmac secret ABSENT_CREDENTIAL_VERIFIER pepper in
                  (Inl (unknown_credential (Some NO_SUCH_CREDENTIAL)), s)
              | Inr (Some c) \<Rightarrow>
                  if \<not> verify_secret hmac secret (k_verifier c) pepper then
                    (Inl (unknown_credential (Some SECRET_MISMATCH)), s)
                  else (case status_at now c of
                      S_REVOKED \<Rightarrow> (Inl (unknown_credential (Some CREDENTIAL_REVOKED_DETAIL)), s)
                    | S_EXPIRED \<Rightarrow> (Inl (unknown_credential (Some CREDENTIAL_EXPIRED)), s)
                    | S_ACTIVE \<Rightarrow> (lift_actor (credential_to_actor c), on_auth c s)))))"

text \<open>\<open>_record_last_used\<close> of the API: at most one write per five minutes.\<close>

definition LAST_USED_RESOLUTION :: time where
  "LAST_USED_RESOLUTION = 300 * 1000000"

definition record_last_used :: "time \<Rightarrow> credential \<Rightarrow> cred_row list \<Rightarrow> cred_row list" where
  "record_last_used now c rows =
     (case k_last_used_at c of
        Some previous \<Rightarrow> if now - previous < LAST_USED_RESOLUTION then rows else store_touch (k_id c) now rows
      | None \<Rightarrow> store_touch (k_id c) now rows)"

section \<open>Lemmas\<close>

lemma parse_bearer_Inr: "parse_bearer h = Inr t \<longleftrightarrow>
    (\<exists>x scheme. h = Some x \<and> py_split_ws x = [scheme, t] \<and> py_lower scheme = BEARER_SCHEME \<and> t \<noteq> [] \<and> py_strip x \<noteq> [])"
  by (cases h) (auto simp: parse_bearer_def split: list.splits if_splits)

lemma parse_bearer_Inl: "parse_bearer h = Inl e \<Longrightarrow> \<exists>r m. e = AuthFailed r m None"
  by (cases h) (auto simp: parse_bearer_def split: list.splits if_splits)

lemma lift_actor_Inr: "lift_actor r = Inr a \<longleftrightarrow> r = Inr a"
  by (auto simp: lift_actor_def split: sum.splits)

lemma last_match_in: "last_match sha256 creds p = Some c \<Longrightarrow> c \<in> set creds \<and> sha256 p = sha256 (tc_token c)"
proof -
  have "fold (\<lambda>c matched. if sha256 p = sha256 (tc_token c) then Some c else matched) creds m = Some c \<Longrightarrow>
      m = Some c \<or> c \<in> set creds \<and> sha256 p = sha256 (tc_token c)" for m
    by (induction creds arbitrary: m) (auto split: if_splits)
  then show "last_match sha256 creds p = Some c \<Longrightarrow> c \<in> set creds \<and> sha256 p = sha256 (tc_token c)"
    by (fastforce simp: last_match_def)
qed

interpretation null: authenticator null_authenticate
  by unfold_locales (auto simp: null_authenticate_def)

interpretation static: authenticator "static_authenticate sha256 creds"
  by unfold_locales
    (auto simp: static_authenticate_def lift_actor_Inr token_to_actor_def make_actor_Inr split: option.splits if_splits)

interpretation stored: authenticator
  "credential_authenticate hmac pepper (map_option (run_configured sha256) legacy) store_get (record_last_used now) now"
proof unfold_locales
  fix h :: "string option" and s e and a :: actor
  show "parse_bearer h = Inl e \<Longrightarrow> credential_authenticate hmac pepper (map_option (run_configured sha256) legacy)
      store_get (record_last_used now) now h s = (Inl e, s)"
    by (simp add: credential_authenticate_def)
  show "fst (credential_authenticate hmac pepper (map_option (run_configured sha256) legacy)
      store_get (record_last_used now) now h s) = Inr a \<Longrightarrow> actor_valid a"
    by (auto simp: credential_authenticate_def lift_actor_Inr credential_to_actor_def make_actor_Inr
        run_configured_def Let_def intro: null.actor_wf static.actor_wf
        split: sum.splits option.splits if_splits credential_status.splits configured_authenticator.splits)
qed

text \<open>What is accepted.\<close>

lemma credential_accepts:
  "fst (credential_authenticate hmac pepper legacy get on_auth now header s) = Inr a \<longleftrightarrow>
    (\<exists>t. parse_bearer header = Inr t \<and>
      (case parse_token t of
         Inl e \<Rightarrow> (\<exists>l. legacy = Some l \<and> fst (l header s) = Inr a)
       | Inr (i, secret) \<Rightarrow> (\<exists>c. get s i = Inr (Some c) \<and> pepper \<noteq> [] \<and> hmac pepper secret = k_verifier c
           \<and> status_at now c = S_ACTIVE \<and> credential_to_actor c = Inr a)))"
  by (auto simp: credential_authenticate_def lift_actor_Inr verify_secret_def compute_verifier_def Let_def
      split: sum.splits option.splits credential_status.splits)

text \<open>Splitting \<open>Bearer token\<close>.\<close>

lemma words_of_run: "list_all (\<lambda>c. \<not> py_isspace c) t \<Longrightarrow> words_of w t = flush_word (rev t @ w) []"
  by (induction t arbitrary: w) auto

lemma split_bearer:
  assumes "list_all (\<lambda>c. \<not> py_isspace c) t" "t \<noteq> []"
  shows "py_split_ws (''Bearer '' @ t) = [''Bearer'', t]"
  using assms by (simp add: py_split_ws_def words_of_run flush_word_def py_isspace_def)

lemma parse_bearer_token:
  assumes "list_all (\<lambda>c. \<not> py_isspace c) t" "t \<noteq> []"
  shows "parse_bearer (Some (''Bearer '' @ t)) = Inr t"
proof -
  have "dropWhile py_isspace (''Bearer '' @ t) = ''Bearer '' @ t" by (simp add: py_isspace_def)
  moreover have "dropWhile py_isspace (rev (''Bearer '' @ t)) \<noteq> []"
    using assms by (auto simp: dropWhile_eq_Nil_conv py_isspace_def)
  ultimately have "py_strip (''Bearer '' @ t) \<noteq> []" by (simp add: py_strip_def)
  moreover have "py_lower ''Bearer'' = BEARER_SCHEME" by code_simp
  ultimately show ?thesis using split_bearer [OF assms] assms(2) by (simp add: parse_bearer_Inr del: append.simps)
qed

section \<open>Properties\<close>

text \<open>
  C28. Who a stored credential lets in, and that a refusal tells nothing. Without a legacy token, a
  header is accepted for an actor if and only if it is a bearer token of the format whose id is stored, whose
  secret matches the keyed verifier, and whose credential is active at that moment and is of that actor;
  only then, or when the stored fields make no actor, is the use of the credential noted, and otherwise nothing changes. Every well-formed header that
  is refused is refused with the same reason and message, whether the id is unknown, the secret wrong, or
  the credential revoked or expired. No other exception comes out of it but those of the stored row: that of
  reading it, and, once it was accepted, that of its actor.
\<close>

theorem credential_authenticate_exact:
  "let (r, s') = credential_authenticate hmac pepper None get on_auth now header s;
       proves = (\<lambda>c. \<exists>t i secret. parse_bearer header = Inr t \<and> parse_token t = Inr (i, secret) \<and> get s i = Inr (Some c)
         \<and> pepper \<noteq> [] \<and> hmac pepper secret = k_verifier c \<and> status_at now c = S_ACTIVE)
   in ((r = Inr a) = (\<exists>c. proves c \<and> credential_to_actor c = Inr a))
    \<and> (case r of
         Inr b \<Rightarrow> \<exists>c. proves c \<and> s' = on_auth c s
       | Inl (AuthFailed rs m d) \<Rightarrow> s' = s \<and> (case parse_bearer header of
            Inl e \<Rightarrow> AuthFailed rs m d = e
          | Inr t \<Rightarrow> rs = UNKNOWN_CREDENTIAL \<and> m = ''the presented credential is not recognised'')
       | Inl (AuthRaised e) \<Rightarrow> (\<exists>c. proves c \<and> credential_to_actor c = Inl e \<and> s' = on_auth c s)
          \<or> s' = s \<and> (\<exists>t i secret. parse_bearer header = Inr t \<and> parse_token t = Inr (i, secret) \<and> get s i = Inl e))"
proof (cases "parse_bearer header")
  case (Inl e)
  with parse_bearer_Inl [OF Inl] show ?thesis by (auto simp: credential_authenticate_def)
next
  case bearer: (Inr t)
  show ?thesis
  proof (cases "\<exists>i secret c. parse_token t = Inr (i, secret) \<and> get s i = Inr (Some c)")
    case False
    then show ?thesis using bearer
      by (auto simp: credential_authenticate_def unknown_credential_def Let_def split: sum.splits option.splits)
  next
    case True
    then obtain i secret c where c: "parse_token t = Inr (i, secret)" "get s i = Inr (Some c)" by blast
    then show ?thesis using bearer
      by (cases "status_at now c"; cases "credential_to_actor c")
        (auto simp: credential_authenticate_def unknown_credential_def lift_actor_def Let_def verify_secret_def compute_verifier_def)
  qed
qed

text \<open>
  Revocation is immediate and final. Once a stored credential is revoked, no sequence of
  creations, revocations, rotations and last-use updates makes the store accept any token carrying
  its id again, whatever the secret and the time; the moment of revocation is kept.
\<close>

theorem revoked_credential_refused:
  "if \<nexists>c. store_get rows i = Inr (Some c) then True
   else (let rows' = fold store_step ops (snd (store_revoke i t rows)) in
     (\<exists>t' c. store_get rows' i = Inr (Some c) \<and> k_revoked_at c = Some t')
     \<and> (case fst (credential_authenticate hmac pepper None store_get (record_last_used now) now header rows') of
          Inr a \<Rightarrow> (\<exists>tok j secret. parse_bearer header = Inr tok \<and> parse_token tok = Inr (j, secret) \<and> j \<noteq> i)
        | Inl e \<Rightarrow> True))"
proof (cases "\<exists>c. store_get rows i = Inr (Some c)")
  case True
  then obtain c where Some: "store_get rows i = Inr (Some c)" by blast
  define rows' where "rows' = fold store_step ops (snd (store_revoke i t rows))"
  obtain t' where "sqlite.revoked_at (snd (store_revoke i t rows)) i t'"
    using sqlite.revoke_revokes [OF Some] by blast
  then have "sqlite.revoked_at rows' i t'" unfolding rows'_def by (rule revoked_run)
  then obtain k where k: "store_get rows' i = Inr (Some k)" "k_revoked_at k = Some t'"
    by (auto simp: sqlite.revoked_at_def)
  have "\<exists>tok j secret. parse_bearer header = Inr tok \<and> parse_token tok = Inr (j, secret) \<and> j \<noteq> i"
    if "fst (credential_authenticate hmac pepper None store_get (record_last_used now) now header rows') = Inr a" for a
  proof -
    from that obtain tok where tok: "parse_bearer header = Inr tok"
      and acc: "case parse_token tok of Inl e \<Rightarrow> False
        | Inr (j, secret) \<Rightarrow> (\<exists>c. store_get rows' j = Inr (Some c) \<and> pepper \<noteq> [] \<and> hmac pepper secret = k_verifier c
           \<and> status_at now c = S_ACTIVE \<and> credential_to_actor c = Inr a)"
      unfolding credential_accepts by (auto cong: sum.case_cong prod.case_cong)
    then obtain j secret c where j: "parse_token tok = Inr (j, secret)" "store_get rows' j = Inr (Some c)" "status_at now c = S_ACTIVE"
      by (cases "parse_token tok") auto
    from j(2,3) k have "j \<noteq> i" by (auto simp: status_at_def)
    with tok(1) j(1) show ?thesis by blast
  qed
  then show ?thesis using k Some unfolding rows'_def [symmetric] by (auto simp: Let_def split: sum.splits)
qed simp

text \<open>
  C29. A freshly issued token works. Stored under a new id, presented as a bearer header at any time
  before its expiry, it authenticates as the actor and with the scopes it was issued for.
\<close>

theorem issued_token_authenticates:
  assumes issued: "issue_credential hmac hex secret aid ty scopes pepper name expires now md = Inr i"
    and stored: "store_create (is_credential i) rows = Inr rows'"
    and secret: "secret \<noteq> []" "list_all (\<lambda>c. \<not> py_isspace c) (hex @ secret)" "length (is_token i) \<le> 512"
    and live: "case expires of None \<Rightarrow> True | Some e \<Rightarrow> later < e"
  shows "\<exists>a. fst (credential_authenticate hmac pepper legacy store_get on_auth later (Some (''Bearer '' @ is_token i)) rows') = Inr a
    \<and> a_id a = aid \<and> a_type a = ty \<and> a_scopes a = scopes \<and> a_auth_method a = BEARER_TOKEN"
proof -
  note c = issue_Inr [OF issued]
  let ?c = "is_credential i"
  from c(3,4) have tok: "is_token i = ''scrp_'' @ hex @ ''_'' @ secret" and "hex_id hex"
    by (auto simp: format_token_Inr new_credential_id_def CREDENTIAL_ID_PREFIX_def)
  with c(3) secret have p: "parse_token (is_token i) = Inr (k_id ?c, secret)"
    by (auto simp: parse_token_Inr format_token_Inr MAX_TOKEN_LENGTH_def)
  have b: "parse_bearer (Some (''Bearer '' @ is_token i)) = Inr (is_token i)"
    using secret(1,2) by (intro parse_bearer_token) (auto simp: tok py_isspace_def)
  have g: "store_get rows' (k_id ?c) = Inr (Some ?c)" using sqlite.create_get [OF stored, of "k_id ?c"] c(10) by simp
  have st: "status_at later ?c = S_ACTIVE" using c(8,9) live by (auto simp: status_at_def split: option.splits)
  obtain a where a: "credential_to_actor ?c = Inr a" "a_id a = aid" "a_type a = ty" "a_scopes a = scopes"
      "a_auth_method a = BEARER_TOKEN"
    using c(5,6,7,10,12) by (auto simp: credential_to_actor_def make_actor_def actor_valid_def credential_valid_def split: option.splits)
  from a c(1,2) b p g st show ?thesis by (auto simp: credential_accepts)
qed

definition toy_hmac :: "string \<Rightarrow> string \<Rightarrow> string" where
  "toy_hmac key message = key @ ''/'' @ message"

theorem issued_token_authenticates_witness:
  "\<exists>i rows' a. issue_credential toy_hmac ''0123456789ab'' ''s_1'' ''laptop'' HUMAN {TASK_READ} ''pepper'' None (Some 100) 0 [] = Inr i
    \<and> store_create (is_credential i) [] = Inr rows'
    \<and> fst (credential_authenticate toy_hmac ''pepper'' None store_get (record_last_used 50) 50
          (Some (''Bearer '' @ is_token i)) rows') = Inr a \<and> a_id a = ''laptop'' \<and> a_scopes a = {TASK_READ}"
proof -
  have f: "format_token ''cred_0123456789ab'' ''s_1'' = Inr ''scrp_0123456789ab_s_1''"
    by (auto simp: format_token_Inr hex_id_def ID_HEX_LENGTH_def is_hex_def is_digit_def)
  then have r: "re_match CREDENTIAL_ID_RE ''cred_0123456789ab''" by (auto simp: format_token_def split: if_splits)
  obtain i where i: "issue_credential toy_hmac ''0123456789ab'' ''s_1'' ''laptop'' HUMAN {TASK_READ} ''pepper'' None (Some 100) 0 [] = Inr i"
      "is_token i = ''scrp_0123456789ab_s_1''"
    using f r by (auto simp: issue_credential_def compute_verifier_def make_credential_def credential_valid_def
        new_credential_id_def CREDENTIAL_ID_PREFIX_def toy_hmac_def)
  obtain rows' where s: "store_create (is_credential i) [] = Inr rows'"
    by (simp add: store_create_def tbl_insert_def)
  have "\<exists>a. fst (credential_authenticate toy_hmac ''pepper'' None store_get (record_last_used 50) 50
        (Some (''Bearer '' @ is_token i)) rows') = Inr a \<and> a_id a = ''laptop'' \<and> a_type a = HUMAN
        \<and> a_scopes a = {TASK_READ} \<and> a_auth_method a = BEARER_TOKEN"
    by (rule issued_token_authenticates [OF i(1) s]) (simp_all add: i(2) py_isspace_def)
  with i(1) s show ?thesis by blast
qed

text \<open>
  The configured token fails closed. A deployment whose token is absent or blank accepts
  nothing; with a token, only a bearer value with the digest of that token is accepted, as the
  configured principal with the configured scopes.
\<close>

theorem configured_token_exact:
  "case fst (run_configured sha256 (build_authenticator token actor_id scopes) header s) of
     Inr a \<Rightarrow> (\<exists>t p. token = Some t \<and> py_strip t \<noteq> [] \<and> parse_bearer header = Inr p \<and> sha256 p = sha256 t
       \<and> a_id a = actor_id \<and> a_type a = SERVICE \<and> a_scopes a = or_else scopes all_scopes \<and> a_auth_method a = BEARER_TOKEN)
   | Inl e \<Rightarrow> snd (run_configured sha256 (build_authenticator token actor_id scopes) header s) = s"
  by (auto simp: build_authenticator_def run_configured_def null_authenticate_def static_authenticate_def
      last_match_def lift_actor_Inr token_to_actor_def make_actor_Inr split: option.splits sum.splits if_splits)

end
