(* ===== verification/Iface_Security.thy ===== *)
theory Iface_Security
  imports Sec_Authn Sec_Audit
begin

text \<open>
  \<open>interface/security.py\<close>: the dependencies every endpoint of the API runs first. The
  authenticator is an argument (any that satisfies the contract); \<open>'s\<close> is the state it works on. A
  failure to write the audit row is swallowed by the code and is not modelled;
  \<open>audit_up\<close> says whether the runtime is there.
\<close>

datatype http_error = Http nat string | HttpCrash scrappy_error

record security_context =
  sc_actor :: actor
  sc_request_id :: string
  sc_granted_scope :: "string option"

record request =
  rq_authorization :: "string list" \<comment> \<open>every \<open>Authorization\<close> header, in order\<close>
  rq_method :: string
  rq_path :: string
  rq_peer :: "string option"
  rq_cached :: "security_context option" \<comment> \<open>\<open>request.state.security\<close>\<close>

definition context_audit_fields :: "security_context \<Rightarrow> payload" where
  "context_audit_fields c =
     dict_update (actor_audit_fields (sc_actor c))
       ([(''request_id'', PStr (sc_request_id c))] @
        (case sc_granted_scope c of Some g \<Rightarrow> if g = [] then [] else [(''granted_scope'', PStr g)] | None \<Rightarrow> []))"

definition security_record :: "bool \<Rightarrow> event_type \<Rightarrow> actor \<Rightarrow> payload \<Rightarrow> plane \<Rightarrow> plane" where
  "security_record audit_up ty a payload pl =
     (if \<not> audit_up then pl
      else let (i, pl1) = new_id pl in
        audit_record
          \<lparr>ae_id = i, ae_timestamp = pl_now pl1, ae_event_type = ty, ae_task_id = None,
           ae_actor = actor_label a, ae_actor_id = Some (a_id a),
           ae_actor_type = Some (actor_type_value (a_type a)),
           ae_auth_method = Some (auth_method_value (a_auth_method a)),
           ae_component = ''api.security'', ae_tool_name = None, ae_risk = None, ae_decision = None,
           ae_success = Some (ty = AUTH_SUCCEEDED), ae_duration_ms = None,
           ae_payload = payload, ae_payload_sha256 = None\<rparr> None pl1)"

definition request_facts :: "request \<Rightarrow> payload" where
  "request_facts rq = [(''method'', PStr (rq_method rq)), (''path'', PStr (rq_path rq)), (''peer'', pstr_opt (rq_peer rq))]"

definition proving_credential :: "actor \<Rightarrow> payload" where
  "proving_credential a = (case map_of (a_metadata a) ''credential_id'' of
     Some i \<Rightarrow> if i = [] then [] else [(''credential_id'', PStr i)] | None \<Rightarrow> [])"

type_synonym 's auth = "string option \<Rightarrow> 's \<Rightarrow> (auth_error + actor) \<times> 's"

definition present :: "'s auth \<Rightarrow> request \<Rightarrow> 's \<Rightarrow> (auth_error + actor) \<times> 's" where
  "present auth rq s = (case rq_authorization rq of
     [] \<Rightarrow> auth None s
   | [h] \<Rightarrow> auth (Some h) s
   | _ \<Rightarrow> (Inl (AuthFailed MALFORMED_CREDENTIAL ''exactly one Authorization header is permitted''
             (Some DUPLICATE_HEADER)), s))"

definition unauthorized :: http_error where
  "unauthorized = Http 401 ''authentication required''"

definition authenticate_request ::
  "bool \<Rightarrow> 's auth \<Rightarrow> request \<Rightarrow> plane \<Rightarrow> 's \<Rightarrow> (http_error + security_context) \<times> request \<times> plane \<times> 's" where
  "authenticate_request audit_up auth rq pl s =
     (case rq_cached rq of
        Some c \<Rightarrow> (Inr c, rq, pl, s)
      | None \<Rightarrow>
        (let (r, s1) = present auth rq s in
         case r of
           Inl (AuthFailed reason m detail) \<Rightarrow>
             (Inl unauthorized, rq,
              security_record audit_up AUTH_FAILED ANONYMOUS_ACTOR
                (dict_update [] ([(''reason'', PStr (reason_value reason))] @
                   (case detail of None \<Rightarrow> [] | Some d \<Rightarrow> [(''detail'', PStr (detail_value d))]) @
                   request_facts rq)) pl, s1)
         | Inl (AuthRaised e) \<Rightarrow> (Inl (HttpCrash e), rq, pl, s1)
         | Inr a \<Rightarrow>
             let (i, pl1) = new_id pl; c = \<lparr>sc_actor = a, sc_request_id = i, sc_granted_scope = None\<rparr> in
             (Inr c, rq\<lparr>rq_cached := Some c\<rparr>,
              security_record audit_up AUTH_SUCCEEDED a
                (dict_update (actor_audit_fields a) (proving_credential a @ [(''request_id'', PStr i)] @ request_facts rq)) pl1,
              s1)))"

definition require_scope ::
  "bool \<Rightarrow> 's auth \<Rightarrow> scope \<Rightarrow> request \<Rightarrow> plane \<Rightarrow> 's \<Rightarrow> (http_error + security_context) \<times> request \<times> plane \<times> 's" where
  "require_scope audit_up auth scope rq pl s =
     (let (r, rq1, pl1, s1) = authenticate_request audit_up auth rq pl s in
      case r of
        Inl e \<Rightarrow> (Inl e, rq1, pl1, s1)
      | Inr c \<Rightarrow>
          (let v = authz_evaluate (sc_actor c) (AsScope scope) in
           if \<not> v_allowed v then
             (Inl (Http 403 (''this action requires the '' @ scope_value scope @ '' scope'')), rq1,
              security_record audit_up AUTHZ_DENIED (sc_actor c)
                (dict_update (context_audit_fields c) (verdict_to_dict v @ request_facts rq)) pl1, s1)
           else (Inr \<lparr>sc_actor = sc_actor c, sc_request_id = sc_request_id c,
                     sc_granted_scope = Some (scope_value scope)\<rparr>, rq1, pl1, s1)))"

definition optional_identity ::
  "bool \<Rightarrow> 's auth \<Rightarrow> request \<Rightarrow> plane \<Rightarrow> 's \<Rightarrow> (http_error + security_context) \<times> request \<times> plane \<times> 's" where
  "optional_identity audit_up auth rq pl s =
     (let (i, pl1) = new_id pl;
          anonymous = \<lparr>sc_actor = ANONYMOUS_ACTOR, sc_request_id = i, sc_granted_scope = None\<rparr> in
      if rq_authorization rq = [] then (Inr anonymous, rq, pl1, s)
      else (case authenticate_request audit_up auth rq pl s of
          (Inl (Http n m), rq1, pl2, s1) \<Rightarrow>
            (let (j, pl3) = new_id pl2 in (Inr (anonymous\<lparr>sc_request_id := j\<rparr>), rq1, pl3, s1))
        | r \<Rightarrow> r))"

section \<open>Lemmas\<close>

lemma present_Inr: "fst (present auth rq s) = Inr a \<longleftrightarrow>
    (rq_authorization rq = [] \<and> fst (auth None s) = Inr a \<or> (\<exists>h. rq_authorization rq = [h] \<and> fst (auth (Some h) s) = Inr a))"
  by (auto simp: present_def split: list.splits)

lemma authenticate_request_Inr:
  "rq_cached rq = None \<Longrightarrow> fst (authenticate_request up auth rq pl s) = Inr c \<Longrightarrow>
    fst (present auth rq s) = Inr (sc_actor c)"
  by (auto simp: authenticate_request_def Let_def split_beta split: sum.splits auth_error.splits)

lemma authenticate_request_Inl:
  "rq_cached rq = None \<Longrightarrow> fst (authenticate_request up auth rq pl s) = Inl e \<Longrightarrow>
    (\<exists>r m d. fst (present auth rq s) = Inl (AuthFailed r m d) \<and> e = unauthorized)
    \<or> (\<exists>x. fst (present auth rq s) = Inl (AuthRaised x) \<and> e = HttpCrash x)"
  by (auto simp: authenticate_request_def Let_def split_beta split: sum.splits auth_error.splits)

context authenticator
begin

text \<open>Behind any authenticator, a request without a credential is never let in.\<close>

lemma no_credential_refused:
  assumes "rq_cached rq = None" "rq_authorization rq = []"
  shows "fst (require_scope up authenticate scope rq pl s) = Inl unauthorized"
proof -
  obtain m where m: "fst (authenticate None s) = Inl (AuthFailed MISSING_CREDENTIAL m None)"
    using no_header [of s] by blast
  then have "fst (present authenticate rq s) = Inl (AuthFailed MISSING_CREDENTIAL m None)"
    by (simp add: present_def assms)
  then have "fst (authenticate_request up authenticate rq pl s) = Inl unauthorized"
    by (simp add: authenticate_request_def assms split_beta Let_def)
  then show ?thesis by (auto simp: require_scope_def split_beta Let_def split: sum.splits)
qed

text \<open>An actor let through really authenticated: nobody's identity holds no scope.\<close>

lemma granted_identity:
  assumes "rq_cached rq = None" "fst (require_scope up authenticate scope rq pl s) = Inr c"
  shows "actor_valid (sc_actor c) \<and> a_auth_method (sc_actor c) \<noteq> AM_NONE \<and> scope \<in> a_scopes (sc_actor c)"
proof -
  from assms(2) obtain c0 where c0: "fst (authenticate_request up authenticate rq pl s) = Inr c0"
      "v_allowed (authz_evaluate (sc_actor c0) (AsScope scope))" "sc_actor c = sc_actor c0"
    by (auto simp: require_scope_def Let_def split_beta split: sum.splits if_splits)
  from authenticate_request_Inr [OF assms(1) c0(1)] have "actor_valid (sc_actor c0)"
    by (auto simp: present_Inr intro: actor_wf)
  with c0 show ?thesis by (auto simp: evaluate_allowed_iff has_scope_def scope_value_inj)
qed

end

section \<open>Properties\<close>

text \<open>
  Every scoped endpoint, behind the stored credentials with the configured token as fallback.
  A first dependency lets a request through only with exactly one \<open>Authorization\<close> header, for the
  actor the authenticator proved, who holds the scope; a request that cannot be authenticated gets
  the same 401 whatever the reason, and one that can but lacks the scope gets 403.
\<close>

theorem require_scope_exact:
  "let auth = credential_authenticate hmac pepper (map_option (run_configured sha256) legacy) store_get (record_last_used now) now;
       fresh = rq\<lparr>rq_cached := None\<rparr>
   in case fst (require_scope up auth scope fresh pl rows) of
     Inr c \<Rightarrow> (\<exists>h. rq_authorization rq = [h] \<and> fst (auth (Some h) rows) = Inr (sc_actor c)
        \<and> scope \<in> a_scopes (sc_actor c) \<and> a_auth_method (sc_actor c) \<noteq> AM_NONE
        \<and> sc_granted_scope c = Some (scope_value scope))
   | Inl e \<Rightarrow> e = Http 401 ''authentication required''
        \<or> (\<exists>h a. rq_authorization rq = [h] \<and> fst (auth (Some h) rows) = Inr a \<and> e = Http 403 (''this action requires the '' @ scope_value scope @ '' scope''))
        \<or> (\<exists>x. e = HttpCrash x)"
proof -
  define auth where "auth = credential_authenticate hmac pepper (map_option (run_configured sha256) legacy) store_get (record_last_used now) now"
  have none: "\<exists>m. fst (auth None rows) = Inl (AuthFailed MISSING_CREDENTIAL m None)"
    unfolding auth_def by (rule stored.no_header)
  let ?rq = "rq\<lparr>rq_cached := None\<rparr>"
  have one: "\<exists>h. rq_authorization rq = [h] \<and> fst (auth (Some h) rows) = Inr a"
    if "fst (present auth ?rq rows) = Inr a" for a
    using that none by (auto simp: present_Inr)
  show ?thesis
  proof (cases "fst (require_scope up auth scope ?rq pl rows)")
    case (Inr c)
    from stored.granted_identity [of ?rq] Inr have g: "a_auth_method (sc_actor c) \<noteq> AM_NONE \<and> scope \<in> a_scopes (sc_actor c)"
      unfolding auth_def by simp
    from Inr obtain c0 where c0: "fst (authenticate_request up auth ?rq pl rows) = Inr c0" "sc_actor c = sc_actor c0"
        "sc_granted_scope c = Some (scope_value scope)"
      by (auto simp: require_scope_def Let_def split_beta split: sum.splits if_splits)
    from one authenticate_request_Inr [OF _ c0(1)] c0(2) have "\<exists>h. rq_authorization rq = [h] \<and> fst (auth (Some h) rows) = Inr (sc_actor c)"
      by simp
    with Inr g c0(3) show ?thesis unfolding auth_def [symmetric] by (auto simp: Let_def)
  next
    case (Inl e)
    show ?thesis
    proof (cases "fst (authenticate_request up auth ?rq pl rows)")
      case e2: (Inl e2)
      with Inl have "e = e2" by (auto simp: require_scope_def Let_def split_beta split: sum.splits)
      with authenticate_request_Inl [OF _ e2] Inl show ?thesis
        unfolding auth_def [symmetric] by (auto simp: Let_def unauthorized_def)
    next
      case c0: (Inr c0)
      from one authenticate_request_Inr [OF _ c0] obtain h where
        "rq_authorization rq = [h]" "fst (auth (Some h) rows) = Inr (sc_actor c0)" by auto
      moreover have "e = Http 403 (''this action requires the '' @ scope_value scope @ '' scope'')"
        using Inl c0 by (auto simp: require_scope_def Let_def split_beta split: if_splits)
      ultimately show ?thesis using Inl unfolding auth_def [symmetric] by (auto simp: Let_def)
    qed
  qed
qed

end
