(* ===== verification/Iface_Api.thy ===== *)
theory Iface_Api
  imports Heart_Runtime Iface_Security
begin

text \<open>
  \<open>interface/api.py\<close>: the routes over the runtime, each behind the scope it declares. A request
  arrives with its path and body already parsed and within the limits of its fields. What the
  routes read of the surroundings (the probes, the enabled tools, the rendering of a time in JSON)
  is a record of parameters. Log lines are not modelled.
\<close>

definition MAX_TRACKED_TASKS :: nat where
  "MAX_TRACKED_TASKS = 200"

definition DEFAULT_QUEUE_SIZE :: nat where
  "DEFAULT_QUEUE_SIZE = 512"

record task_request =
  tr_objective :: string
  tr_max_risk :: risk_level
  tr_dry_run :: bool

record approval_body =
  bd_approved :: bool
  bd_note :: "string option"
  bd_phrase :: "string option"

definition check_task_request :: "task_request \<Rightarrow> bool" where
  "check_task_request b \<longleftrightarrow> 1 \<le> length (tr_objective b) \<and> length (tr_objective b) \<le> 8000"

definition check_approval_body :: "approval_body \<Rightarrow> bool" where
  "check_approval_body b \<longleftrightarrow> (case bd_note b of None \<Rightarrow> True | Some n \<Rightarrow> length n \<le> 1000)
     \<and> (case bd_phrase b of None \<Rightarrow> True | Some n \<Rightarrow> length n \<le> 200)"

datatype route = R_health | R_status | R_create task_request | R_task string | R_events string bool
  | R_approvals | R_resolve string approval_body | R_audit "string option" int

text \<open>The scope a route depends on; \<open>None\<close> for the one with an optional identity.\<close>

fun route_scope :: "route \<Rightarrow> scope option" where
  "route_scope R_health = None"
| "route_scope R_status = Some SYSTEM_READ"
| "route_scope (R_create b) = Some TASK_CREATE"
| "route_scope (R_task i) = Some TASK_READ"
| "route_scope (R_events i replay) = Some TASK_READ"
| "route_scope R_approvals = Some APPROVAL_READ"
| "route_scope (R_resolve i b) = Some APPROVAL_GRANT"
| "route_scope (R_audit t n) = Some AUDIT_READ"

datatype reply = Json nat payload | Rows "string option" "audit_row list" "call_row list" | Events nat string

record surroundings =
  su_store :: "bool \<times> string"
  su_reads :: "scrappy_error option"
  su_provider_name :: string
  su_provider :: "bool \<times> string"
  su_development :: bool
  su_enabled :: "string list"
  su_disabled :: nat
  su_time :: "time \<Rightarrow> string"

record api =
  ap_heart :: heart
  ap_tasks :: "(string \<times> string) list" \<comment> \<open>objective id, the key of its run\<close>

section \<open>Rendering\<close>

fun component_status_value :: "component_status \<Rightarrow> string" where
  "component_status_value C_UP = ''up''"
| "component_status_value C_DEGRADED = ''degraded''"
| "component_status_value C_DOWN = ''down''"
| "component_status_value C_UNKNOWN = ''unknown''"

definition opt_val :: "('a \<Rightarrow> pyval) \<Rightarrow> 'a option \<Rightarrow> pyval" where
  "opt_val f x = (case x of None \<Rightarrow> PNone | Some v \<Rightarrow> f v)"

definition component_json :: "(time \<Rightarrow> string) \<Rightarrow> component_health \<Rightarrow> pyval" where
  "component_json tm c = PDict [(''name'', PStr (h_name c)), (''status'', PStr (component_status_value (h_status c))),
     (''detail'', pstr_opt (h_detail c)), (''checked_at'', PStr (tm (h_checked_at c)))]"

definition state_json :: "(time \<Rightarrow> string) \<Rightarrow> runtime_state \<Rightarrow> payload" where
  "state_json tm s =
     [(''instance_id'', PStr (rs_instance_id s)), (''version'', PStr (rs_version s)),
      (''status'', PStr (runtime_status_value (rs_status s))), (''started_at'', PStr (tm (rs_started_at s))),
      (''hostname'', PStr (rs_hostname s)), (''pid'', PInt (int (rs_pid s))),
      (''active_task_ids'', PList (map PStr (rs_active_task_ids s))), (''completed_tasks'', PInt (int (rs_completed_tasks s))),
      (''failed_tasks'', PInt (int (rs_failed_tasks s))), (''heartbeats'', PInt (int (rs_heartbeats s))),
      (''last_heartbeat_at'', opt_val (\<lambda>t. PStr (tm t)) (rs_last_heartbeat_at s)),
      (''components'', PList (map (component_json tm) (rs_components s))),
      (''provider'', pstr_opt (rs_provider s)), (''model'', pstr_opt (rs_model s))]"

definition approval_json :: "(time \<Rightarrow> string) \<Rightarrow> approval_request \<Rightarrow> pyval" where
  "approval_json tm q = PDict
     [(''id'', PStr (q_id q)), (''task_id'', PStr (q_task_id q)), (''call_id'', pstr_opt (q_call_id q)),
      (''tool_name'', PStr (q_tool_name q)), (''arguments'', PDict (q_arguments q)), (''risk'', PStr (risk_value (q_risk q))),
      (''reason'', PStr (q_reason q)), (''summary'', PStr (q_summary q)), (''requested_at'', PStr (tm (q_requested_at q))),
      (''expires_at'', opt_val (\<lambda>t. PStr (tm t)) (q_expires_at q)), (''state'', PStr (approval_value (q_state q))),
      (''requires_confirmation_phrase'', PBool (q_requires_phrase q)), (''confirmation_phrase'', pstr_opt (q_phrase q))]"

definition step_json :: "outcome \<Rightarrow> pyval" where
  "step_json oc = PDict
     [(''tool'', PStr (c_tool_name (oc_call oc))), (''risk'', PStr (risk_value (c_risk_level (oc_call oc)))),
      (''decision'', PStr (decision_value (pv_decision (oc_verdict oc)))), (''rule'', PStr (pv_rule (oc_verdict oc))),
      (''success'', PBool (r_success (oc_result oc))), (''error'', pstr_opt (r_error (oc_result oc))),
      (''duration_ms'', pms (r_duration_ms (oc_result oc)))]"

section \<open>The routes\<close>

definition not_ready :: http_error where
  "not_ready = Http 503 ''runtime is not ready''"

definition set_heart :: "heart \<Rightarrow> api \<Rightarrow> api" where
  "set_heart h ap = ap\<lparr>ap_heart := h\<rparr>"

definition probe :: "surroundings \<Rightarrow> heart \<Rightarrow> (scrappy_error + runtime_state) \<times> heart" where
  "probe su h = heart_health (su_store su) (su_reads su) (su_provider_name su) (su_provider su) (length (su_enabled su)) (su_disabled su) h"

definition route_health :: "surroundings \<Rightarrow> actor \<Rightarrow> api \<Rightarrow> (http_error + reply) \<times> api" where
  "route_health su a ap =
     (case probe su (ap_heart ap) of
        (Inl e, h) \<Rightarrow> (Inl (HttpCrash e), set_heart h ap)
      | (Inr s, h) \<Rightarrow>
          (Inr (Json 200 ([(''healthy'', PBool (rs_status s \<in> {R_HEALTHY, R_DEGRADED})), (''status'', PStr (runtime_status_value (rs_status s))),
              (''version'', PStr (rs_version s)), (''uptime_seconds'', tenth_seconds (uptime_seconds (pl_now (ht_plane h)) s))] @
              (if has_scope a SYSTEM_READ then [(''components'', PList (map (component_json (su_time su)) (rs_components s)))] else []))),
           set_heart h ap))"

definition route_status :: "surroundings \<Rightarrow> api \<Rightarrow> (http_error + reply) \<times> api" where
  "route_status su ap =
     (case probe su (ap_heart ap) of
        (Inl e, h) \<Rightarrow> (Inl (HttpCrash e), set_heart h ap)
      | (Inr s, h) \<Rightarrow>
          (Inr (Json 200 (state_json (su_time su) s @ [(''development_provider'', PBool (su_development su)),
              (''tools'', PList (map PStr (su_enabled su))), (''pending_approvals'', PInt (int (length (pending_approvals None (ht_plane h)))))])),
           set_heart h ap))"

text \<open>\<open>_track\<close>: a new entry at the end, and the oldest dropped while there are too many.\<close>

definition track :: "string \<Rightarrow> string \<Rightarrow> (string \<times> string) list \<Rightarrow> (string \<times> string) list" where
  "track objective_id key tasks = (let ts = dict_set objective_id key tasks in drop (length ts - MAX_TRACKED_TASKS) ts)"

definition route_create :: "task_request \<Rightarrow> actor \<Rightarrow> api \<Rightarrow> (http_error + reply) \<times> api" where
  "route_create body a ap =
     (let (i, pl) = new_id (ht_plane (ap_heart ap)); h = (ap_heart ap)\<lparr>ht_plane := pl\<rparr> in
      case make_objective \<lparr>o_id = i, o_text = tr_objective body, o_actor = ''cli'', o_identity = Some a, o_created_at = pl_now pl,
             o_max_risk = tr_max_risk body, o_context = [], o_dry_run = tr_dry_run body\<rparr> of
        Inl e \<Rightarrow> (Inl (HttpCrash e), set_heart h ap)
      | Inr ob \<Rightarrow>
          (case heart_spawn ob h of
             (Inl e, h1) \<Rightarrow> (Inl (HttpCrash e), set_heart h1 ap)
           | (Inr key, h1) \<Rightarrow>
               (Inr (Json 202 [(''objective_id'', PStr (o_id ob)), (''status'', PStr ''accepted''), (''actor_id'', PStr (a_id a)),
                   (''max_risk'', PStr (risk_value (tr_max_risk body))),
                   (''note'', PStr (''Steps above WRITE will park at an approval request. '' @
                      ''Resolve them with POST /approvals/{approval_id}.'')),
                   (''events_url'', PStr (''/tasks/'' @ o_id ob @ ''/events''))]),
                (set_heart h1 ap)\<lparr>ap_tasks := track (o_id ob) key (ap_tasks ap)\<rparr>)))"

definition unknown_task :: "string \<Rightarrow> http_error" where
  "unknown_task i = Http 404 (''unknown task '' @ i)"

definition handle_of :: "string \<Rightarrow> api \<Rightarrow> handle option" where
  "handle_of i ap = (case map_of (ap_tasks ap) i of None \<Rightarrow> None | Some key \<Rightarrow> map_of (ht_handles (ap_heart ap)) key)"

text \<open>\<open>render\<close> is \<open>f"{type(exception).__name__}: {exception}"\<close>.\<close>

definition route_task :: "(scrappy_error \<Rightarrow> string) \<Rightarrow> string \<Rightarrow> api \<Rightarrow> http_error + reply" where
  "route_task render i ap =
     (case handle_of i ap of
        None \<Rightarrow> Inl (unknown_task i)
      | Some H_running \<Rightarrow> Inr (Json 200 [(''objective_id'', PStr i), (''state'', PStr ''running'')])
      | Some H_cancelled \<Rightarrow> Inl (HttpCrash (Invalid ''CancelledError''))
      | Some (H_raised e) \<Rightarrow> Inr (Json 200 [(''objective_id'', PStr i), (''state'', PStr ''crashed''), (''error'', PStr (render e))])
      | Some (H_returned out) \<Rightarrow> Inr (Json 200
          [(''objective_id'', PStr i), (''task_id'', PStr (t_id (to_task out))), (''state'', PStr (task_state_value (t_state (to_task out)))),
           (''succeeded'', PBool (to_succeeded out)), (''conclusion'', PStr (to_conclusion out)), (''stopped_because'', pstr_opt (to_stopped out)),
           (''budget'', PDict (to_budget out)), (''steps'', PList (map step_json (to_executed out)))]))"

definition route_events :: "string \<Rightarrow> api \<Rightarrow> (http_error + reply) \<times> api" where
  "route_events i ap =
     (case handle_of i ap of
        None \<Rightarrow> (Inl (unknown_task i), ap)
      | Some _ \<Rightarrow>
          (let resolved = (case task_id_for i (ap_heart ap) of None \<Rightarrow> i | Some t \<Rightarrow> if t = [] then i else t);
               (sub, b) = subscribe None (Some resolved) DEFAULT_QUEUE_SIZE (ht_bus (ap_heart ap))
           in (Inr (Events sub resolved), set_heart ((ap_heart ap)\<lparr>ht_bus := b\<rparr>) ap)))"

definition route_approvals :: "surroundings \<Rightarrow> api \<Rightarrow> http_error + reply" where
  "route_approvals su ap = (let pending = pending_approvals None (ht_plane (ap_heart ap)) in
     Inr (Json 200 [(''pending'', PList (map (approval_json (su_time su)) pending)), (''count'', PInt (int (length pending)))]))"

text \<open>The status an exception of \<open>resolve\<close> is answered with.\<close>

fun approval_failure :: "scrappy_error \<Rightarrow> http_error" where
  "approval_failure (ApprovalNotFound m) = Http 404 m"
| "approval_failure (ApprovalExpired m) = Http 410 m"
| "approval_failure e = (if is_scrappy_error e then Http 409 (err_message e) else HttpCrash e)"

definition decision_of :: "string \<Rightarrow> approval_body \<Rightarrow> actor \<Rightarrow> time \<Rightarrow> approval_decision" where
  "decision_of i body a now = make_approval_decision \<lparr>dc_request_id = i, dc_approved = bd_approved body, dc_decided_by = ''operator'',
     dc_identity = Some a, dc_decided_at = now, dc_note = bd_note body, dc_phrase = bd_phrase body\<rparr>"

definition route_resolve :: "string \<Rightarrow> approval_body \<Rightarrow> actor \<Rightarrow> api \<Rightarrow> (http_error + reply) \<times> api" where
  "route_resolve i body a ap =
     (let h = ap_heart ap in
      case resolve_approval (decision_of i body a (pl_now (ht_plane h))) (ht_plane h) of
        (Inl e, pl) \<Rightarrow> (Inl (approval_failure e), set_heart (relay pl h) ap)
      | (Inr q, pl) \<Rightarrow>
          (Inr (Json 200 [(''approval_id'', PStr (q_id q)), (''state'', PStr (approval_value (q_state q))), (''tool_name'', PStr (q_tool_name q)),
              (''risk'', PStr (risk_value (q_risk q))), (''decided_by'', PStr (actor_label a))]), set_heart (relay pl h) ap))"

definition route_audit :: "string option \<Rightarrow> int \<Rightarrow> api \<Rightarrow> http_error + reply" where
  "route_audit task_id limit ap =
     (let pl = ht_plane (ap_heart ap); t = (case task_id of None \<Rightarrow> [] | Some t \<Rightarrow> t) in
      Inr (if t = [] then Rows None (audit_recent limit pl) [] else Rows (Some t) (audit_for_task t limit pl) (calls_for_task t pl)))"

text \<open>A route, for the actor its dependency let in.\<close>

fun run_route :: "surroundings \<Rightarrow> (scrappy_error \<Rightarrow> string) \<Rightarrow> route \<Rightarrow> actor \<Rightarrow> api \<Rightarrow> (http_error + reply) \<times> api" where
  "run_route su render R_health a ap = route_health su a ap"
| "run_route su render R_status a ap = route_status su ap"
| "run_route su render (R_create b) a ap = route_create b a ap"
| "run_route su render (R_task i) a ap = (route_task render i ap, ap)"
| "run_route su render (R_events i replay) a ap = route_events i ap"
| "run_route su render R_approvals a ap = (route_approvals su ap, ap)"
| "run_route su render (R_resolve i b) a ap = route_resolve i b a ap"
| "run_route su render (R_audit t n) a ap = (route_audit t n ap, ap)"

text \<open>\<open>_runtime\<close> is asked by every route but the one for a task's result.\<close>

fun needs_runtime :: "route \<Rightarrow> bool" where
  "needs_runtime (R_task i) = False"
| "needs_runtime r = True"

definition admit ::
  "'s auth \<Rightarrow> route \<Rightarrow> request \<Rightarrow> plane \<Rightarrow> 's \<Rightarrow> (http_error + security_context) \<times> request \<times> plane \<times> 's" where
  "admit auth r rq pl s = (case route_scope r of
     None \<Rightarrow> optional_identity True auth rq pl s
   | Some sc \<Rightarrow> require_scope True auth sc rq pl s)"

definition serve ::
  "surroundings \<Rightarrow> (scrappy_error \<Rightarrow> string) \<Rightarrow> 's auth \<Rightarrow> request \<Rightarrow> route \<Rightarrow> api \<times> 's \<Rightarrow> (http_error + reply) \<times> api \<times> 's" where
  "serve su render auth rq r st =
     (let (ap, s) = st; (c, rq1, pl, s1) = admit auth r rq (ht_plane (ap_heart ap)) s;
          ap1 = set_heart ((ap_heart ap)\<lparr>ht_plane := pl\<rparr>) ap
      in case c of
           Inl e \<Rightarrow> (Inl e, ap1, s1)
         | Inr sc \<Rightarrow>
             if needs_runtime r \<and> \<not> ht_started (ap_heart ap1) then (Inl not_ready, ap1, s1)
             else (let (x, ap2) = run_route su render r (sc_actor sc) ap1 in (x, ap2, s1)))"

text \<open>The authenticator of the lifespan: the stored credentials, with the configured token as fallback.\<close>

definition api_authenticator ::
  "(string \<Rightarrow> string \<Rightarrow> string) \<Rightarrow> (string \<Rightarrow> string) \<Rightarrow> string \<Rightarrow> configured_authenticator option \<Rightarrow> time \<Rightarrow> cred_row list auth" where
  "api_authenticator hmac sha256 pepper legacy now =
     credential_authenticate hmac pepper (map_option (run_configured sha256) legacy) store_get (record_last_used now) now"

section \<open>The event stream\<close>

text \<open>
  What the stream sends, and whether it returns: first the replayed history, then what the
  subscription delivers. An item is a disconnected client, a timeout of 15 seconds, or what
  \<open>get\<close> answers.
\<close>

datatype sent = S_event event | S_keepalive

datatype item = I_gone | I_timeout | I_got "event option"

definition terminal_event :: "event \<Rightarrow> bool" where
  "terminal_event e \<longleftrightarrow> e_type e \<in> {TASK_COMPLETED, TASK_FAILED, TASK_CANCELLED}"

fun replay_events :: "event list \<Rightarrow> sent list \<times> bool" where
  "replay_events [] = ([], False)"
| "replay_events (e # es) = (if terminal_event e then ([S_event e], True)
     else let (out, ended) = replay_events es in (S_event e # out, ended))"

fun live_events :: "item list \<Rightarrow> sent list \<times> bool" where
  "live_events [] = ([], False)"
| "live_events (I_gone # xs) = ([], True)"
| "live_events (I_timeout # xs) = (let (out, ended) = live_events xs in (S_keepalive # out, ended))"
| "live_events (I_got None # xs) = ([], True)"
| "live_events (I_got (Some e) # xs) = (if terminal_event e then ([S_event e], True)
     else let (out, ended) = live_events xs in (S_event e # out, ended))"

definition task_stream :: "bool \<Rightarrow> event list \<Rightarrow> bool \<Rightarrow> item list \<Rightarrow> sent list \<times> bool" where
  "task_stream replay hist finished items =
     (let (out, ended) = (if replay then replay_events hist else ([], False)) in
      if ended \<or> finished then (out, True)
      else let (more, ended') = live_events items in (out @ more, ended'))"

section \<open>Lemmas\<close>

text \<open>The dependencies write to the trail, and nowhere else.\<close>

definition audited_only :: "plane \<Rightarrow> plane \<Rightarrow> bool" where
  "audited_only pl pl' \<longleftrightarrow> (\<exists>rows n. pl' = pl\<lparr>pl_audit := pl_audit pl @ rows, pl_fresh := n\<rparr>)"

lemma audited_only_refl [simp]: "audited_only pl pl"
  unfolding audited_only_def by (rule exI [of _ "[]"], rule exI [of _ "pl_fresh pl"]) simp

lemma audited_only_trans: "audited_only a b \<Longrightarrow> audited_only b c \<Longrightarrow> audited_only a c"
  unfolding audited_only_def by (elim exE) (simp, metis append_assoc)

lemma audited_only_fresh: "audited_only pl (pl\<lparr>pl_fresh := n\<rparr>)"
  unfolding audited_only_def by (rule exI [of _ "[]"], rule exI [of _ n]) simp

lemma audited_only_record: "audited_only pl (audit_record e d pl)"
proof -
  have "\<exists>rows. pl_audit (audit_record e d pl) = pl_audit pl @ rows"
    by (auto simp: audit_record_def tbl_insert_def Let_def split_beta or_else_def)
  then obtain rows where "audit_record e d pl = pl\<lparr>pl_audit := pl_audit pl @ rows\<rparr>"
    by (auto simp: audit_record_def Let_def split_beta)
  then show ?thesis unfolding audited_only_def by (intro exI [of _ rows] exI [of _ "pl_fresh pl"]) simp
qed

lemma audited_only_security: "audited_only pl (security_record up ty a p pl)"
  by (auto simp: security_record_def Let_def split_beta intro: audited_only_trans [OF audited_only_fresh audited_only_record])

lemma authenticate_request_only:
  "authenticate_request up auth rq pl s = (c, rq1, pl1, s1) \<Longrightarrow> audited_only pl pl1"
  by (auto simp: authenticate_request_def Let_def split_beta audited_only_security
      intro: audited_only_trans [OF audited_only_fresh audited_only_security]
      split: option.splits sum.splits auth_error.splits)

lemma require_scope_only:
  "require_scope up auth scope rq pl s = (c, rq1, pl1, s1) \<Longrightarrow> audited_only pl pl1"
  by (cases "authenticate_request up auth rq pl s")
    (auto simp: require_scope_def Let_def dest!: authenticate_request_only
      intro: audited_only_trans [OF _ audited_only_security] split: sum.splits if_splits)

context authenticator
begin

lemma require_scope_actor:
  assumes "rq_cached rq = None" "fst (require_scope up authenticate scope rq pl s) = Inr c"
  shows "\<exists>h. rq_authorization rq = [h] \<and> fst (authenticate (Some h) s) = Inr (sc_actor c) \<and> scope \<in> a_scopes (sc_actor c)
    \<and> a_auth_method (sc_actor c) \<noteq> AM_NONE"
proof -
  from assms(2) obtain c0 where c0: "fst (authenticate_request up authenticate rq pl s) = Inr c0" "sc_actor c = sc_actor c0"
    by (auto simp: require_scope_def Let_def split_beta split: sum.splits if_splits)
  from authenticate_request_Inr [OF assms(1) c0(1)] have "fst (present authenticate rq s) = Inr (sc_actor c0)" .
  moreover obtain m where "fst (authenticate None s) = Inl (AuthFailed MISSING_CREDENTIAL m None)" using no_header by blast
  ultimately show ?thesis using granted_identity [OF assms] c0(2) by (auto simp: present_Inr)
qed

end

text \<open>The API with a trail that has grown.\<close>

definition with_trail :: "plane \<Rightarrow> api \<Rightarrow> api" where
  "with_trail pl ap = set_heart ((ap_heart ap)\<lparr>ht_plane := pl\<rparr>) ap"

lemma with_trail_simps [simp]:
  "ap_tasks (with_trail pl ap) = ap_tasks ap" "ht_plane (ap_heart (with_trail pl ap)) = pl"
  "ht_started (ap_heart (with_trail pl ap)) = ht_started (ap_heart ap)"
  "ht_work (ap_heart (with_trail pl ap)) = ht_work (ap_heart ap)"
  by (simp_all add: with_trail_def set_heart_def)

lemma optional_identity_only:
  "optional_identity up auth rq pl s = (c, rq1, pl1, s1) \<Longrightarrow> audited_only pl pl1"
proof -
  assume o: "optional_identity up auth rq pl s = (c, rq1, pl1, s1)"
  obtain c2 rq2 pl2 s2 where a: "authenticate_request up auth rq pl s = (c2, rq2, pl2, s2)" by (metis prod_cases4)
  from o a authenticate_request_only [OF a] show ?thesis
    by (auto simp: optional_identity_def Let_def new_id_def audited_only_fresh
        intro: audited_only_trans [OF _ audited_only_fresh] split: if_splits sum.splits http_error.splits)
qed

lemma admit_only: "admit auth r rq pl s = (c, rq1, pl1, s1) \<Longrightarrow> audited_only pl pl1"
  by (auto simp: admit_def split: option.splits dest: optional_identity_only require_scope_only)

lemma serve_cases:
  assumes "serve su render auth rq r (ap, s) = (x, ap', s')"
  obtains (refused) e pl where "audited_only (ht_plane (ap_heart ap)) pl" "x = Inl e" "ap' = with_trail pl ap"
  | (ran) c pl where "audited_only (ht_plane (ap_heart ap)) pl" "fst (admit auth r rq (ht_plane (ap_heart ap)) s) = Inr c"
      "run_route su render r (sc_actor c) (with_trail pl ap) = (x, ap')" "needs_runtime r \<longrightarrow> ht_started (ap_heart ap)"
proof -
  obtain c rq1 pl s1 where a: "admit auth r rq (ht_plane (ap_heart ap)) s = (c, rq1, pl, s1)" by (metis prod_cases4)
  note only = admit_only [OF a]
  show thesis
  proof (cases c)
    case (Inl e)
    with assms a show thesis by (intro refused [OF only, of e]) (auto simp: serve_def with_trail_def)
  next
    case (Inr sc)
    show thesis
    proof (cases "needs_runtime r \<and> \<not> ht_started (ap_heart ap)")
      case True
      with assms a Inr show thesis
        by (intro refused [OF only, of not_ready]) (auto simp: serve_def with_trail_def [symmetric])
    next
      case False
      with assms a Inr show thesis
        by (intro ran [OF only, of sc]) (auto simp: serve_def with_trail_def [symmetric] split: prod.splits)
    qed
  qed
qed

lemma audited_only_frame:
  "audited_only pl pl' \<Longrightarrow> pl_approvals pl' = pl_approvals pl \<and> pl_now pl' = pl_now pl \<and> pl_published pl' = pl_published pl"
  by (auto simp: audited_only_def)

lemma resolve_now: "resolve_approval d pl = (r, pl') \<Longrightarrow> pl_now pl' = pl_now pl"
  by (auto simp: resolve_approval_def Let_def update_state_def answer_waiter_def split: option.splits if_splits)

lemma relay_plane [simp]: "ht_plane (relay pl h) = pl"
proof -
  have "ht_plane (fold heart_publish es h) = ht_plane h" for es h
    by (induction es arbitrary: h) (simp_all add: heart_publish_def split_beta)
  then show ?thesis by (simp add: relay_def)
qed

lemma route_create_Inr:
  assumes "route_create body a ap = (Inr out, ap')"
  obtains ob where "o_identity ob = Some a" "o_actor ob = actor_label a" "o_text ob = py_strip (tr_objective body)"
    "o_max_risk ob = tr_max_risk body" "o_dry_run ob = tr_dry_run body"
    "ht_work (ap_heart ap') = dict_set (str_nat (Suc (pl_fresh (ht_plane (ap_heart ap))))) ob (ht_work (ap_heart ap))"
    "ap_tasks ap' = track (o_id ob) (str_nat (Suc (pl_fresh (ht_plane (ap_heart ap))))) (ap_tasks ap)"
    "map_of (ht_handles (ap_heart ap')) (str_nat (Suc (pl_fresh (ht_plane (ap_heart ap))))) = Some H_running"
    "\<exists>kvs. out = Json 202 kvs \<and> map_of kvs ''objective_id'' = Some (PStr (o_id ob)) \<and> map_of kvs ''actor_id'' = Some (PStr (a_id a))"
proof -
  let ?pl = "ht_plane (ap_heart ap)"
  let ?h = "(ap_heart ap)\<lparr>ht_plane := ?pl\<lparr>pl_fresh := Suc (pl_fresh ?pl)\<rparr>\<rparr>"
  let ?raw = "\<lparr>o_id = str_nat (pl_fresh ?pl), o_text = tr_objective body, o_actor = ''cli'', o_identity = Some a, o_created_at = pl_now ?pl,
             o_max_risk = tr_max_risk body, o_context = [], o_dry_run = tr_dry_run body\<rparr>"
  obtain ob where ob: "make_objective ?raw = Inr ob"
    using assms by (cases "make_objective ?raw") (auto simp: route_create_def Let_def new_id_def)
  obtain key h1 where sp: "heart_spawn ob ?h = (Inr key, h1)"
    using assms ob by (cases "heart_spawn ob ?h"; cases "fst (heart_spawn ob ?h)") (auto simp: route_create_def Let_def new_id_def)
  have mk: "o_identity ob = Some a" "o_actor ob = actor_label a" "o_text ob = py_strip (tr_objective body)"
    "o_max_risk ob = tr_max_risk body" "o_dry_run ob = tr_dry_run body"
    using ob by (auto simp: make_objective_def Let_def split: if_splits)
  have h1: "key = str_nat (Suc (pl_fresh ?pl))" "ht_work h1 = dict_set key ob (ht_work (ap_heart ap))"
    "map_of (ht_handles h1) key = Some H_running"
    using sp by (auto simp: heart_spawn_def new_id_def Let_def activate_def split: if_splits)
  have r: "ap' = (set_heart h1 ap)\<lparr>ap_tasks := track (o_id ob) key (ap_tasks ap)\<rparr>"
    "\<exists>kvs. out = Json 202 kvs \<and> map_of kvs ''objective_id'' = Some (PStr (o_id ob)) \<and> map_of kvs ''actor_id'' = Some (PStr (a_id a))"
    using assms ob sp by (auto simp: route_create_def Let_def new_id_def)
  show thesis by (rule that [OF mk]) (use h1 r in \<open>auto simp: set_heart_def\<close>)
qed

section \<open>Properties\<close>

text \<open>
  C17. Nothing behind a scope happens without it. Whatever route with a scope is asked for, either the
  request is refused and nothing but the audit trail has changed, or it carried exactly one
  credential, the actor it authenticates holds the scope, and what happened is that route run for
  that very actor.
\<close>

theorem api_requires_scope:
  "let auth = api_authenticator hmac sha256 pepper legacy now in
   case serve su render auth (rq\<lparr>rq_cached := None\<rparr>) r (ap, rows) of (x, ap', rows') \<Rightarrow>
     route_scope r = None
     \<or> (\<exists>e pl. x = Inl e \<and> audited_only (ht_plane (ap_heart ap)) pl \<and> ap' = with_trail pl ap)
     \<or> (\<exists>scope h a pl. route_scope r = Some scope \<and> rq_authorization rq = [h] \<and> fst (auth (Some h) rows) = Inr a
          \<and> scope \<in> a_scopes a \<and> a_auth_method a \<noteq> AM_NONE
          \<and> audited_only (ht_plane (ap_heart ap)) pl \<and> run_route su render r a (with_trail pl ap) = (x, ap'))"
proof -
  define auth where "auth = api_authenticator hmac sha256 pepper legacy now"
  obtain x ap' rows' where sv: "serve su render auth (rq\<lparr>rq_cached := None\<rparr>) r (ap, rows) = (x, ap', rows')" by (metis prod_cases3)
  have "route_scope r = None \<or> (\<exists>e pl. x = Inl e \<and> audited_only (ht_plane (ap_heart ap)) pl \<and> ap' = with_trail pl ap)
     \<or> (\<exists>scope h a pl. route_scope r = Some scope \<and> rq_authorization rq = [h] \<and> fst (auth (Some h) rows) = Inr a
          \<and> scope \<in> a_scopes a \<and> a_auth_method a \<noteq> AM_NONE
          \<and> audited_only (ht_plane (ap_heart ap)) pl \<and> run_route su render r a (with_trail pl ap) = (x, ap'))"
    using sv
  proof (cases rule: serve_cases)
    case (ran c pl)
    show ?thesis
    proof (cases "route_scope r")
      case (Some scope)
      with ran(2) have "fst (require_scope True auth scope (rq\<lparr>rq_cached := None\<rparr>) (ht_plane (ap_heart ap)) rows) = Inr c"
        by (simp add: admit_def)
      from stored.require_scope_actor [OF _ this [unfolded auth_def api_authenticator_def]] ran Some show ?thesis
        unfolding auth_def api_authenticator_def by fastforce
    qed simp
  qed auto
  with sv show ?thesis unfolding auth_def by (simp add: Let_def)
qed

text \<open>
  C18. An approval is the credential holder's own. Whatever the body says, a request that resolves an
  approval leaves its row with the label of the actor its one credential authenticates, who holds
  the grant scope; the row was pending and not expired, a destructive grant carried the exact
  phrase, and the answer names that actor. Any other request to the route leaves every approval as
  it was, or, made with that scope, marks the one it names as expired, which was pending and past its time.
\<close>

theorem api_approval_attributed:
  "let auth = api_authenticator hmac sha256 pepper legacy now; pl = ht_plane (ap_heart ap) in
   case serve su render auth (rq\<lparr>rq_cached := None\<rparr>) (R_resolve i body) (ap, rows) of
     (Inr out, ap', rows') \<Rightarrow>
       (\<exists>h a row. rq_authorization rq = [h] \<and> fst (auth (Some h) rows) = Inr a \<and> APPROVAL_GRANT \<in> a_scopes a
         \<and> tbl_get ar_id i (pl_approvals pl) = Some row \<and> ar_state row = A_PENDING
         \<and> \<not> request_is_expired (pl_now pl) (row_to_request row)
         \<and> (if bd_approved body \<and> ar_risk row = DESTRUCTIVE then bd_phrase body = Some CONFIRMATION_PHRASE else True)
         \<and> tbl_get ar_id i (pl_approvals (ht_plane (ap_heart ap'))) =
             Some (row\<lparr>ar_state := (if bd_approved body then A_APPROVED else A_DENIED),
               ar_decided_by := Some (actor_label a), ar_decided_at := Some (pl_now pl), ar_note := bd_note body\<rparr>))
   | (Inl e, ap', rows') \<Rightarrow> pl_approvals (ht_plane (ap_heart ap')) = pl_approvals pl
       \<or> (\<exists>h a row. rq_authorization rq = [h] \<and> fst (auth (Some h) rows) = Inr a \<and> APPROVAL_GRANT \<in> a_scopes a
         \<and> tbl_get ar_id i (pl_approvals pl) = Some row \<and> ar_state row = A_PENDING \<and> request_is_expired (pl_now pl) (row_to_request row)
         \<and> pl_approvals (ht_plane (ap_heart ap')) = pl_approvals (update_state i A_EXPIRED (decision_of i body a (pl_now pl)) True pl))"
proof -
  define auth where "auth = api_authenticator hmac sha256 pepper legacy now"
  let ?pl = "ht_plane (ap_heart ap)"
  obtain x ap' rows' where sv: "serve su render auth (rq\<lparr>rq_cached := None\<rparr>) (R_resolve i body) (ap, rows) = (x, ap', rows')"
    by (metis prod_cases3)
  show ?thesis
    using sv
  proof (cases rule: serve_cases)
    case (refused e pl)
    with sv show ?thesis unfolding auth_def by (simp add: Let_def audited_only_frame)
  next
    case (ran c pl)
    from ran(2) have "fst (require_scope True auth APPROVAL_GRANT (rq\<lparr>rq_cached := None\<rparr>) ?pl rows) = Inr c"
      by (simp add: admit_def)
    from stored.require_scope_actor [OF _ this [unfolded auth_def api_authenticator_def]]
    obtain h where h: "rq_authorization rq = [h]" "fst (auth (Some h) rows) = Inr (sc_actor c)" "APPROVAL_GRANT \<in> a_scopes (sc_actor c)"
      unfolding auth_def api_authenticator_def by auto
    let ?d = "decision_of i body (sc_actor c) (pl_now ?pl)"
    have d: "dc_request_id ?d = i" "dc_approved ?d = bd_approved body" "dc_decided_by ?d = actor_label (sc_actor c)"
      "dc_decided_at ?d = pl_now ?pl" "dc_note ?d = bd_note body" "dc_phrase ?d = bd_phrase body"
      by (simp_all add: decision_of_def make_approval_decision_def)
    note same = audited_only_frame [OF ran(1)]
    have resolved: "route_resolve i body (sc_actor c) (with_trail pl ap) = (x, ap')" using ran(3) by simp
    show ?thesis
    proof (cases rule: resolve_cases [of ?d pl])
      case missing
      with resolved same sv show ?thesis unfolding auth_def by (auto simp: route_resolve_def Let_def d set_heart_def)
    next
      case (rejected r e)
      with resolved same sv show ?thesis unfolding auth_def by (auto simp: route_resolve_def Let_def d set_heart_def)
    next
      case (late r m)
      with resolved same have "\<exists>e. x = Inl e" "pl_approvals (ht_plane (ap_heart ap')) = pl_approvals (update_state i A_EXPIRED ?d True ?pl)"
        by (auto simp: route_resolve_def Let_def d set_heart_def update_state_def)
      moreover have "tbl_get ar_id i (pl_approvals ?pl) = Some r" "ar_state r = A_PENDING" "request_is_expired (pl_now ?pl) (row_to_request r)"
        using late(1-3) by (simp_all add: d same)
      ultimately show ?thesis using h sv unfolding auth_def by (auto simp: Let_def)
    next
      case (decided r q pl')
      from decided resolved have x: "\<exists>out. x = Inr out" "pl_approvals (ht_plane (ap_heart ap')) = pl_approvals pl'"
        by (auto simp: route_resolve_def Let_def d set_heart_def same)
      have pre: "tbl_get ar_id i (pl_approvals ?pl) = Some r" "\<not> request_is_expired (pl_now ?pl) (row_to_request r)"
        using decided(1,3) by (simp_all add: d same)
      have phrase: "if bd_approved body \<and> ar_risk r = DESTRUCTIVE then bd_phrase body = Some CONFIRMATION_PHRASE else True"
        using decided(4) by (auto simp: d)
      have "tbl_get ar_id i (pl_approvals (ht_plane (ap_heart ap'))) =
             Some (r\<lparr>ar_state := (if bd_approved body then A_APPROVED else A_DENIED),
               ar_decided_by := Some (actor_label (sc_actor c)), ar_decided_at := Some (pl_now ?pl), ar_note := bd_note body\<rparr>)"
        using pre(1) decided(7,8) by (simp add: x(2) d update_state_def tbl_get_update same)
      with h pre phrase decided(2) have "\<exists>h a row. rq_authorization rq = [h] \<and> fst (auth (Some h) rows) = Inr a \<and> APPROVAL_GRANT \<in> a_scopes a
         \<and> tbl_get ar_id i (pl_approvals ?pl) = Some row \<and> ar_state row = A_PENDING
         \<and> \<not> request_is_expired (pl_now ?pl) (row_to_request row)
         \<and> (if bd_approved body \<and> ar_risk row = DESTRUCTIVE then bd_phrase body = Some CONFIRMATION_PHRASE else True)
         \<and> tbl_get ar_id i (pl_approvals (ht_plane (ap_heart ap'))) =
             Some (row\<lparr>ar_state := (if bd_approved body then A_APPROVED else A_DENIED),
               ar_decided_by := Some (actor_label a), ar_decided_at := Some (pl_now ?pl), ar_note := bd_note body\<rparr>)"
        by blast
      moreover obtain out where "x = Inr out" using x(1) by blast
      ultimately show ?thesis using sv unfolding auth_def by (simp only: Let_def prod.case sum.case)
    qed
  qed
qed

text \<open>
  Work runs for the actor who asked. An accepted \<open>POST /tasks\<close> has started exactly one run, of an
  objective whose identity is the actor its one credential authenticates, who holds the create
  scope, with the text of the body stripped and its ceiling and dry-run flag as the body has them;
  the answer names that actor and the id under which the run can be looked up.
\<close>

theorem api_objective_attributed:
  "let auth = api_authenticator hmac sha256 pepper legacy now in
   case serve su render auth (rq\<lparr>rq_cached := None\<rparr>) (R_create body) (ap, rows) of
     (Inr out, ap', rows') \<Rightarrow>
       (\<exists>h a i key ob. rq_authorization rq = [h] \<and> fst (auth (Some h) rows) = Inr a \<and> TASK_CREATE \<in> a_scopes a
         \<and> o_identity ob = Some a \<and> o_actor ob = actor_label a \<and> o_text ob = py_strip (tr_objective body) \<and> o_id ob = i
         \<and> o_max_risk ob = tr_max_risk body \<and> o_dry_run ob = tr_dry_run body
         \<and> ht_work (ap_heart ap') = dict_set key ob (ht_work (ap_heart ap)) \<and> ap_tasks ap' = track i key (ap_tasks ap)
         \<and> map_of (ht_handles (ap_heart ap')) key = Some H_running
         \<and> (case out of Json code kvs \<Rightarrow> code = 202 \<and> map_of kvs ''objective_id'' = Some (PStr i)
              \<and> map_of kvs ''actor_id'' = Some (PStr (a_id a)) | _ \<Rightarrow> False))
   | (Inl e, ap', rows') \<Rightarrow> ht_work (ap_heart ap') = ht_work (ap_heart ap) \<and> ap_tasks ap' = ap_tasks ap"
proof -
  define auth where "auth = api_authenticator hmac sha256 pepper legacy now"
  obtain x ap' rows' where sv: "serve su render auth (rq\<lparr>rq_cached := None\<rparr>) (R_create body) (ap, rows) = (x, ap', rows')"
    by (metis prod_cases3)
  show ?thesis
    using sv
  proof (cases rule: serve_cases)
    case (refused e pl)
    with sv show ?thesis unfolding auth_def by (simp add: Let_def)
  next
    case (ran c pl)
    from ran(2) have "fst (require_scope True auth TASK_CREATE (rq\<lparr>rq_cached := None\<rparr>) (ht_plane (ap_heart ap)) rows) = Inr c"
      by (simp add: admit_def)
    from stored.require_scope_actor [OF _ this [unfolded auth_def api_authenticator_def]]
    obtain h where h: "rq_authorization rq = [h]" "fst (auth (Some h) rows) = Inr (sc_actor c)" "TASK_CREATE \<in> a_scopes (sc_actor c)"
      unfolding auth_def api_authenticator_def by auto
    have created: "route_create body (sc_actor c) (with_trail pl ap) = (x, ap')" using ran(3) by simp
    have started: "ht_started (ap_heart ap)" using ran(4) by simp
    show ?thesis
    proof (cases x)
      case (Inl e)
      with created started have "ht_work (ap_heart ap') = ht_work (ap_heart ap) \<and> ap_tasks ap' = ap_tasks ap"
        by (auto simp: route_create_def Let_def new_id_def set_heart_def heart_spawn_def split: sum.splits)
      with sv Inl show ?thesis unfolding auth_def by (simp add: Let_def)
    next
      case (Inr out)
      from route_create_Inr [OF created [unfolded Inr]] obtain ob where ob: "o_identity ob = Some (sc_actor c)"
          "o_actor ob = actor_label (sc_actor c)"
          "o_text ob = py_strip (tr_objective body)" "o_max_risk ob = tr_max_risk body" "o_dry_run ob = tr_dry_run body"
          "ht_work (ap_heart ap') = dict_set (str_nat (Suc (pl_fresh pl))) ob (ht_work (ap_heart ap))"
          "ap_tasks ap' = track (o_id ob) (str_nat (Suc (pl_fresh pl))) (ap_tasks ap)"
          "map_of (ht_handles (ap_heart ap')) (str_nat (Suc (pl_fresh pl))) = Some H_running"
          "\<exists>kvs. out = Json 202 kvs \<and> map_of kvs ''objective_id'' = Some (PStr (o_id ob)) \<and> map_of kvs ''actor_id'' = Some (PStr (a_id (sc_actor c)))"
        by auto
      obtain kvs where kvs: "out = Json 202 kvs" "map_of kvs ''objective_id'' = Some (PStr (o_id ob))"
          "map_of kvs ''actor_id'' = Some (PStr (a_id (sc_actor c)))"
        using ob(9) by blast
      have "\<exists>h a i key ob. rq_authorization rq = [h] \<and> fst (auth (Some h) rows) = Inr a \<and> TASK_CREATE \<in> a_scopes a
         \<and> o_identity ob = Some a \<and> o_actor ob = actor_label a \<and> o_text ob = py_strip (tr_objective body) \<and> o_id ob = i
         \<and> o_max_risk ob = tr_max_risk body \<and> o_dry_run ob = tr_dry_run body
         \<and> ht_work (ap_heart ap') = dict_set key ob (ht_work (ap_heart ap)) \<and> ap_tasks ap' = track i key (ap_tasks ap)
         \<and> map_of (ht_handles (ap_heart ap')) key = Some H_running
         \<and> (case out of Json code kvs \<Rightarrow> code = 202 \<and> map_of kvs ''objective_id'' = Some (PStr i)
              \<and> map_of kvs ''actor_id'' = Some (PStr (a_id a)) | _ \<Rightarrow> False)"
        by (intro exI [of _ h] exI [of _ "sc_actor c"] exI [of _ "o_id ob"] exI [of _ "str_nat (Suc (pl_fresh pl))"] exI [of _ ob])
          (use h ob kvs in simp)
      with sv Inr show ?thesis unfolding auth_def by (simp only: Let_def prod.case sum.case)
    qed
  qed
qed

definition ends_stream :: "item \<Rightarrow> bool" where
  "ends_stream x \<longleftrightarrow> (case x of I_gone \<Rightarrow> True | I_timeout \<Rightarrow> False | I_got None \<Rightarrow> True | I_got (Some e) \<Rightarrow> terminal_event e)"

definition shown_item :: "item \<Rightarrow> sent list" where
  "shown_item x = (case x of I_timeout \<Rightarrow> [S_keepalive] | I_got (Some e) \<Rightarrow> [S_event e] | _ \<Rightarrow> [])"

text \<open>
  What an event stream sends after its subscription opened: a keepalive for every timeout and
  every event, in order, up to and with the first ending item (a client gone, the sentinel, a task
  event that closes the task); and it returns exactly when there is one. In particular the stream
  of a run that crashed, which publishes no closing event, never returns by itself.
\<close>

theorem live_events_exact:
  "live_events items =
     (concat (map shown_item (takeWhile (\<lambda>x. \<not> ends_stream x) items @ take 1 (dropWhile (\<lambda>x. \<not> ends_stream x) items))),
      list_ex ends_stream items)"
  by (induction items rule: live_events.induct) (auto simp: ends_stream_def shown_item_def Let_def split_beta)

text \<open>The tracked tasks stay bounded, and a new one is found.\<close>

lemma track_bounded: "length (track i key ts) \<le> max MAX_TRACKED_TASKS (length ts)"
  by (simp add: track_def Let_def)

lemma track_found:
  assumes "i \<notin> fst ` set ts"
  shows "map_of (track i key ts) i = Some key"
proof -
  have "dict_set i key ts = ts @ [(i, key)]" using assms by (simp add: dict_set_def)
  moreover have "length (ts @ [(i, key)]) - MAX_TRACKED_TASKS \<le> length ts" by (simp add: MAX_TRACKED_TASKS_def)
  moreover have "i \<notin> fst ` set (drop n ts)" for n using assms set_drop_subset [of n ts] by blast
  ultimately show ?thesis by (simp add: track_def Let_def map_add_def map_of_eq_None_iff [THEN iffD2])
qed

text \<open>
  An event published after the subscription was opened and before the history was read is sent
  twice, and a storage failure is answered as a conflict of the client.
\<close>

lemma event_sent_twice:
  "\<not> terminal_event e \<Longrightarrow> fst (task_stream True [e] False [I_got (Some e), I_gone]) = [S_event e, S_event e]"
  by (simp add: task_stream_def)

lemma storage_failure_is_conflict: "approval_failure (StoreError m) = Http 409 (err_message (StoreError m))"
  by (simp add: is_scrappy_error_def)

text \<open>A body of blanks passes its limits and fails in the objective, which no clause catches.\<close>

lemma blank_objective_crashes:
  "check_task_request \<lparr>tr_objective = ''  '', tr_max_risk = READ, tr_dry_run = False\<rparr>
   \<and> (\<exists>e. fst (route_create \<lparr>tr_objective = ''  '', tr_max_risk = READ, tr_dry_run = False\<rparr> a ap) = Inl (HttpCrash e))"
  by (simp add: check_task_request_def route_create_def Let_def new_id_def make_objective_def py_strip_def py_lstrip_def
      py_isspace_def py_spaces_def)

end
