(* ===== verification/Core_Directories.thy ===== *)
theory Core_Directories
  imports Core_Config Py_Files
begin

text \<open>
  \<open>ensure_directories\<close> of \<open>core/config.py\<close>, with \<open>Path.mkdir(parents=True, exist_ok=True)\<close> over the file
  system of \<open>Py_Files\<close>: from the leaf upwards, following links on the way. Paths have no component \<open>..\<close>;
  the permissions of a new directory are not kept.
\<close>

section \<open>Creating a directory with its parents\<close>

definition mkdir_one :: "os \<Rightarrow> bool \<Rightarrow> string list \<Rightarrow> string \<Rightarrow> fs \<Rightarrow> os_error option \<times> fs" where
  "mkdir_one os absolute parent c f =
     (let shown = parent @ [c] in
      case resolve_path f (PPath absolute parent) of
        None \<Rightarrow> (Some (Failed (errno_text ''40'' ''Too many levels of symbolic links'' shown)), f)
      | Some d \<Rightarrow>
          (case nodes f d of
             None \<Rightarrow> (Some (no_entry shown), f)
           | Some Dir \<Rightarrow> if nodes f (d @ [c]) \<noteq> None then (Some (file_exists shown), f)
               else sys os Sys_mkdir (d @ [c]) id (put_node (d @ [c]) (Some Dir)) f
           | Some _ \<Rightarrow> (Some (not_a_directory shown), f)))"

definition dir_at :: "fs \<Rightarrow> ppath \<Rightarrow> bool" where
  "dir_at f p = (case resolve_path f p of None \<Rightarrow> False | Some q \<Rightarrow> nodes f q = Some Dir)"

text \<open>An error that is no \<open>FileNotFoundError\<close> is ignored when a directory is there.\<close>

definition unless_dir :: "bool \<Rightarrow> string list \<Rightarrow> os_error option \<times> fs \<Rightarrow> os_error option \<times> fs" where
  "unless_dir absolute parts r = (case r of
     (Some (Missing t), f) \<Rightarrow> (Some (Missing t), f)
   | (Some e, f) \<Rightarrow> if dir_at f (PPath absolute parts) then (None, f) else (Some e, f)
   | (None, f) \<Rightarrow> (None, f))"

text \<open>The components are given last first.\<close>

fun mkdir_parents :: "os \<Rightarrow> bool \<Rightarrow> string list \<Rightarrow> fs \<Rightarrow> os_error option \<times> fs" where
  "mkdir_parents os absolute [] f = (None, f)"
| "mkdir_parents os absolute (c # up) f =
     (case mkdir_one os absolute (rev up) c f of
        (Some (Missing t), f1) \<Rightarrow>
          (case mkdir_parents os absolute up f1 of
             (Some e, f2) \<Rightarrow> (Some e, f2)
           | (None, f2) \<Rightarrow> unless_dir absolute (rev up @ [c]) (mkdir_one os absolute (rev up) c f2))
      | r \<Rightarrow> unless_dir absolute (rev up @ [c]) r)"

definition mkdir_path :: "os \<Rightarrow> ppath \<Rightarrow> fs \<Rightarrow> os_error option \<times> fs" where
  "mkdir_path os p f = mkdir_parents os (p_abs p) (rev (p_parts p)) f"

fun ensure_all :: "os \<Rightarrow> ppath list \<Rightarrow> fs \<Rightarrow> scrappy_error option \<times> fs" where
  "ensure_all os [] f = (None, f)"
| "ensure_all os (p # ps) f =
     (case mkdir_path os p f of
        (Some e, f1) \<Rightarrow> (Some (ConfigurationError (''Cannot create directory '' @ str_ppath p @ '': '' @ os_text e)), f1)
      | (None, f1) \<Rightarrow> ensure_all os ps f1)"

definition ensure_directories :: "os \<Rightarrow> settings \<Rightarrow> fs \<Rightarrow> scrappy_error option \<times> fs" where
  "ensure_directories os s f = ensure_all os [data_dir s, workspace s] f"

section \<open>Lemmas\<close>

text \<open>Only directories are made, where nothing was.\<close>

definition only_dirs_made :: "fs \<Rightarrow> fs \<Rightarrow> bool" where
  "only_dirs_made f f' \<longleftrightarrow> cwd f' = cwd f \<and> home_of f' = home_of f \<and> link_budget f' = link_budget f
     \<and> (\<forall>q. nodes f' q = nodes f q \<or> nodes f q = None \<and> nodes f' q = Some Dir)"

lemma only_dirs_refl [simp]: "only_dirs_made f f"
  by (simp add: only_dirs_made_def)

lemma only_dirs_trans: "only_dirs_made f g \<Longrightarrow> only_dirs_made g h \<Longrightarrow> only_dirs_made f h"
  unfolding only_dirs_made_def by (metis option.distinct(1))

lemma mkdir_one_dirs: "only_dirs_made f (snd (mkdir_one os absolute up c f))"
  by (auto simp: mkdir_one_def Let_def sys_def put_node_def only_dirs_made_def split: option.split node.split)

lemma snd_unless_dir [simp]: "snd (unless_dir absolute parts r) = snd r"
  by (auto simp: unless_dir_def split: prod.split option.split os_error.split)

lemma mkdir_parents_dirs: "only_dirs_made f (snd (mkdir_parents os absolute rp f))"
proof (induction rp arbitrary: f)
  case (Cons c up)
  have one: "only_dirs_made g (snd (mkdir_one os absolute (rev up) c g))" for g by (rule mkdir_one_dirs)
  obtain r f1 where m: "mkdir_one os absolute (rev up) c f = (r, f1)" by fastforce
  with one [of f] have f1: "only_dirs_made f f1" by simp
  obtain r2 f2 where m2: "mkdir_parents os absolute up f1 = (r2, f2)" by fastforce
  with Cons.IH [of f1] f1 have f2: "only_dirs_made f f2" by (auto intro: only_dirs_trans)
  from only_dirs_trans [OF f2 one [of f2]] f1 f2 show ?case
    by (auto simp: m m2 split: option.split os_error.split)
qed simp

lemma mkdir_path_dirs: "only_dirs_made f (snd (mkdir_path os p f))"
  by (simp add: mkdir_path_def mkdir_parents_dirs)

text \<open>New directories do not change where a path leads.\<close>

lemma walk_only_dirs: "only_dirs_made f f' \<Longrightarrow> walk f' n acc cs = walk f n acc cs"
proof (induction f n acc cs rule: walk.induct)
  case (2 f n acc c cs)
  from "2.prems" have "nodes f' (acc @ [c]) = nodes f (acc @ [c]) \<or> nodes f (acc @ [c]) = None \<and> nodes f' (acc @ [c]) = Some Dir"
    by (simp add: only_dirs_made_def)
  with 2 show ?case by (auto split: option.split node.split)
qed simp

lemma resolve_only_dirs: "only_dirs_made f f' \<Longrightarrow> resolve_path f' p = resolve_path f p"
  by (simp add: resolve_path_def walk_only_dirs) (simp add: only_dirs_made_def)

lemma dir_at_stays: "only_dirs_made f f' \<Longrightarrow> dir_at f p \<Longrightarrow> dir_at f' p"
  by (auto simp: dir_at_def resolve_only_dirs only_dirs_made_def split: option.splits) (metis option.distinct(1))

lemma walk_snoc:
  "walk f n acc cs = Some d \<Longrightarrow> plain_name c \<Longrightarrow> \<not> is_symlink f (d @ [c]) \<Longrightarrow> walk f n acc (cs @ [c]) = Some (d @ [c])"
proof (induction f n acc cs rule: walk.induct)
  case (1 f n acc)
  then show ?case by (auto simp: plain_name_def is_symlink_def split: option.split node.split)
next
  case (2 f n acc b cs)
  then show ?case by (auto split: option.split node.split if_splits)
qed

lemma walk_snoc_Some:
  "walk f n acc (cs @ [c]) = Some q \<Longrightarrow> \<exists>d. walk f n acc cs = Some d \<and> (plain_name c \<longrightarrow> \<not> is_symlink f (d @ [c]) \<longrightarrow> q = d @ [c])"
proof (induction f n acc cs rule: walk.induct)
  case (1 f n acc)
  then show ?case by (auto simp: plain_name_def is_symlink_def split: option.splits node.splits if_splits)
next
  case (2 f n acc b cs)
  then show ?case by (auto split: option.splits node.splits if_splits)
qed

text \<open>A file system in which what holds an entry is a directory, the root and the current one included.\<close>

definition tree_shaped :: "fs \<Rightarrow> bool" where
  "tree_shaped f \<longleftrightarrow> nodes f [] = Some Dir \<and> nodes f (cwd f) = Some Dir \<and> (\<forall>p c. nodes f (p @ [c]) \<noteq> None \<longrightarrow> nodes f p = Some Dir)"

lemma tree_parent: "tree_shaped f \<Longrightarrow> nodes f (p @ [c]) = Some x \<Longrightarrow> nodes f p = Some Dir"
  unfolding tree_shaped_def by blast

lemma mkdir_one_made:
  assumes "mkdir_one os absolute up c f = (None, f')" "plain_name c"
  shows "dir_at f' (PPath absolute (up @ [c]))"
proof -
  from assms(1) obtain d where d: "resolve_path f (PPath absolute up) = Some d" "f' = put_node (d @ [c]) (Some Dir) f"
    by (auto simp: mkdir_one_def Let_def sys_def split: option.splits node.splits if_splits)
  have dirs: "only_dirs_made f f'" using mkdir_one_dirs [of f os absolute up c] assms(1) by simp
  have "\<not> is_symlink f' (d @ [c])" "nodes f' (d @ [c]) = Some Dir" by (simp_all add: d(2) put_node_def is_symlink_def)
  moreover have "resolve_path f' (PPath absolute up) = Some d" by (simp add: resolve_only_dirs [OF dirs] d(1))
  ultimately show ?thesis using assms(2) by (simp add: dir_at_def resolve_path_def walk_snoc)
qed

lemma unless_dir_made:
  "unless_dir absolute parts r = (None, f) \<Longrightarrow> (fst r = None \<Longrightarrow> dir_at (snd r) (PPath absolute parts)) \<Longrightarrow> dir_at f (PPath absolute parts)"
  by (auto simp: unless_dir_def split: prod.splits option.splits os_error.splits if_splits)

lemma mkdir_parents_made:
  assumes "mkdir_parents os absolute rp f = (None, f')" "list_all plain_name rp" "tree_shaped f"
  shows "dir_at f' (PPath absolute (rev rp))"
proof (cases rp)
  case Nil
  with assms show ?thesis by (simp add: dir_at_def resolve_path_def tree_shaped_def)
next
  case (Cons c up)
  with assms(2) have c: "plain_name c" by simp
  have one: "fst (mkdir_one os absolute (rev up) c g) = None \<Longrightarrow> dir_at (snd (mkdir_one os absolute (rev up) c g)) (PPath absolute (rev up @ [c]))" for g
    by (rule mkdir_one_made [OF _ c]) (rule prod_eqI; simp)
  obtain r f1 where m: "mkdir_one os absolute (rev up) c f = (r, f1)" by fastforce
  show ?thesis
  proof (cases "\<exists>t. r = Some (Missing t)")
    case True
    obtain r2 f2 where m2: "mkdir_parents os absolute up f1 = (r2, f2)" by fastforce
    with True m Cons assms(1) have "unless_dir absolute (rev up @ [c]) (mkdir_one os absolute (rev up) c f2) = (None, f')"
      by (auto split: option.splits)
    from unless_dir_made [OF this one] show ?thesis by (simp add: Cons)
  next
    case False
    with m Cons assms(1) have "unless_dir absolute (rev up @ [c]) (mkdir_one os absolute (rev up) c f) = (None, f')"
      by (auto split: option.splits os_error.splits)
    from unless_dir_made [OF this one] show ?thesis by (simp add: Cons)
  qed
qed

lemma mkdir_path_made:
  "mkdir_path os p f = (None, f') \<Longrightarrow> list_all plain_name (p_parts p) \<Longrightarrow> tree_shaped f \<Longrightarrow> dir_at f' p"
  using mkdir_parents_made [of os "p_abs p" "rev (p_parts p)" f f'] by (simp add: mkdir_path_def)

lemma mkdir_one_there:
  assumes "dir_at f (PPath absolute (up @ [c]))" "plain_name c" "tree_shaped f"
  shows "\<exists>e. mkdir_one os absolute up c f = (Some (Failed e), f)"
proof -
  from assms(1) obtain q where q: "resolve_path f (PPath absolute (up @ [c])) = Some q" "nodes f q = Some Dir"
    by (auto simp: dir_at_def split: option.splits)
  with walk_snoc_Some obtain d where d: "resolve_path f (PPath absolute up) = Some d" "\<not> is_symlink f (d @ [c]) \<longrightarrow> q = d @ [c]"
    using assms(2) by (fastforce simp: resolve_path_def)
  obtain x where "nodes f (d @ [c]) = Some x" using d(2) q(2) by (cases "nodes f (d @ [c])") (auto simp: is_symlink_def)
  moreover from tree_parent [OF assms(3) this] have "nodes f d = Some Dir" .
  ultimately show ?thesis by (auto simp: mkdir_one_def d(1) file_exists_def)
qed

lemma mkdir_path_again:
  assumes "dir_at f p" "list_all plain_name (p_parts p)" "tree_shaped f"
  shows "mkdir_path os p f = (None, f)"
proof (cases "rev (p_parts p)")
  case (Cons c up)
  then have p: "p = PPath (p_abs p) (rev up @ [c])" by (cases p) simp
  then have c: "plain_name c" using assms(2) by (metis list_all_append list.pred_inject(2) ppath.sel(2))
  have there: "dir_at f (PPath (p_abs p) (rev up @ [c]))" using assms(1) p by simp
  from mkdir_one_there [OF this c assms(3)] obtain e where "mkdir_one os (p_abs p) (rev up) c f = (Some (Failed e), f)" by blast
  then show ?thesis using there by (simp add: mkdir_path_def Cons unless_dir_def)
qed (simp add: mkdir_path_def)

lemma tree_shaped_mkdir_one:
  assumes "tree_shaped f"
  shows "tree_shaped (snd (mkdir_one os absolute up c f))"
proof -
  have "tree_shaped (put_node (d @ [c]) (Some Dir) f)" if "nodes f d = Some Dir" for d
    using assms that by (auto simp: tree_shaped_def put_node_def)
  with assms show ?thesis by (auto simp: mkdir_one_def Let_def sys_def split: option.split node.split)
qed

lemma tree_shaped_mkdir_parents: "tree_shaped f \<Longrightarrow> tree_shaped (snd (mkdir_parents os absolute rp f))"
proof (induction rp arbitrary: f)
  case (Cons c up)
  have one: "tree_shaped g \<Longrightarrow> tree_shaped (snd (mkdir_one os absolute (rev up) c g))" for g by (rule tree_shaped_mkdir_one)
  obtain r f1 where m: "mkdir_one os absolute (rev up) c f = (r, f1)" by fastforce
  with one [OF Cons.prems] have f1: "tree_shaped f1" by simp
  obtain r2 f2 where m2: "mkdir_parents os absolute up f1 = (r2, f2)" by fastforce
  with Cons.IH [OF f1] have f2: "tree_shaped f2" by simp
  from one [OF f2] f1 f2 show ?case by (auto simp: m m2 split: option.split os_error.split)
qed simp

lemma tree_shaped_mkdir: "tree_shaped f \<Longrightarrow> tree_shaped (snd (mkdir_path os p f))"
  by (simp add: mkdir_path_def tree_shaped_mkdir_parents)

section \<open>Properties\<close>

text \<open>
  A start leaves both directories in place. When \<open>ensure_directories\<close> succeeds, the data directory
  and the workspace lead to directories, through whatever links; nothing was changed but that
  directories were made where nothing was; and doing it again succeeds, whatever the operating system
  would refuse, and changes nothing.
\<close>

theorem directories_ready:
  assumes "ensure_directories os s f = (None, f')" "list_all plain_name (p_parts (data_dir s))"
    "list_all plain_name (p_parts (workspace s))" "tree_shaped f"
  shows "dir_at f' (data_dir s) \<and> dir_at f' (workspace s) \<and> only_dirs_made f f' \<and> ensure_directories os2 s f' = (None, f')"
proof -
  from assms(1) obtain f1 where m: "mkdir_path os (data_dir s) f = (None, f1)" "mkdir_path os (workspace s) f1 = (None, f')"
    by (auto simp: ensure_directories_def split: prod.splits option.splits)
  have d: "only_dirs_made f f1" "only_dirs_made f1 f'" using mkdir_path_dirs m by (metis snd_conv)+
  have t: "tree_shaped f1" "tree_shaped f'" using tree_shaped_mkdir m assms(4) by (metis snd_conv)+
  have a: "dir_at f' (data_dir s)" using mkdir_path_made [OF m(1) assms(2,4)] d(2) by (rule dir_at_stays [rotated])
  have b: "dir_at f' (workspace s)" by (rule mkdir_path_made [OF m(2) assms(3) t(1)])
  have "ensure_directories os2 s f' = (None, f')"
    by (simp add: ensure_directories_def mkdir_path_again a b assms(2,3) t(2))
  with a b only_dirs_trans [OF d] show ?thesis by blast
qed

text \<open>A data directory two levels below \<open>/srv\<close>, reached by a link, and a workspace within it.\<close>

definition linked_srv :: fs where
  "linked_srv = \<lparr>nodes = map_of [([], Dir), ([''srv''], Dir), ([''data''], Link ''/srv'')], cwd = [], home_of = (\<lambda>u. None), link_budget = 40\<rparr>"

definition willing_os :: os where
  "willing_os = \<lparr>os_fault = (\<lambda>c p. None), os_partial = (\<lambda>p t. []), os_left = (\<lambda>c p f. f), os_scan = (\<lambda>f p. []),
     os_stat = (\<lambda>f p. \<lparr>st_size = 0, st_mode = 448, st_uid = 0, st_gid = 0, st_mtime = 0\<rparr>), os_took = (\<lambda>n. 0)\<rparr>"

definition srv_settings :: settings where
  "srv_settings = default_settings\<lparr>data_dir := parse_path ''/data/scrappy/state'', workspace := parse_path ''/data/scrappy/state/work''\<rparr>"

lemmas evaluate_mkdir =
  ensure_directories_def mkdir_path_def mkdir_one_def srv_settings_def linked_srv_def willing_os_def parse_path_def path_parts_def
  is_abs_text_def resolve_path_def sys_def unless_dir_def put_node_def dir_at_def Let_def no_entry_def file_exists_def

theorem directories_ready_witness:
  "nodes (snd (ensure_directories willing_os srv_settings linked_srv)) [''srv'', ''scrappy'', ''state'', ''work''] = Some Dir
   \<and> dir_at (snd (ensure_directories willing_os srv_settings linked_srv)) (workspace srv_settings)"
proof -
  let ?f = "snd (ensure_directories willing_os srv_settings linked_srv)"
  have ok: "fst (ensure_directories willing_os srv_settings linked_srv) = None" by (simp add: evaluate_mkdir)
  have e: "nodes linked_srv q = (if q = [] then Some Dir else if q = [''srv''] then Some Dir else if q = [''data''] then Some (Link ''/srv'') else None)" for q
    by (simp add: linked_srv_def)
  have "nodes linked_srv p = Some Dir" if "nodes linked_srv (p @ [c]) \<noteq> None" for p c
    using that by (cases p) (simp_all add: e split: if_splits)
  then have "tree_shaped linked_srv" unfolding tree_shaped_def by (simp add: e) (simp add: linked_srv_def)
  moreover have "list_all plain_name (p_parts (data_dir srv_settings))" "list_all plain_name (p_parts (workspace srv_settings))" 
    by (simp_all add: srv_settings_def parse_path_def path_parts_def plain_name_def)
  moreover have "ensure_directories willing_os srv_settings linked_srv = (None, ?f)" using ok by (simp add: prod_eq_iff)
  ultimately have "dir_at ?f (workspace srv_settings)" using directories_ready by blast
  moreover have "nodes ?f [''srv'', ''scrappy'', ''state'', ''work''] = Some Dir"
    by (simp add: evaluate_mkdir)
  ultimately show ?thesis by blast
qed

end
