(* ===== verification/Mem_Connection.thy ===== *)
theory Mem_Connection
  imports Sec_Credential_Store
begin

text \<open>
  \<open>memory/store.py\<close>: the one SQLite connection all subsystems share, with the database file under it.
  \<open>'d\<close> is the database. A connection has a view of it, with what was executed and not committed;
  a statement is a function on the view, or the error it fails with. Creating the file's directory,
  its permissions and the pragmas are not modelled.
\<close>

type_synonym 'd statement = "'d \<Rightarrow> string + 'd"

record 'd store =
  sf_file :: 'd \<comment> \<open>what is committed\<close>
  sf_view :: "'d option" \<comment> \<open>the view of the open connection\<close>

definition at_rest :: "'d \<Rightarrow> 'd store" where
  "at_rest d = \<lparr>sf_file = d, sf_view = Some d\<rparr>"

text \<open>Statements one after the other, up to the first that fails; the view keeps what was done.\<close>

fun run_statements :: "'d statement list \<Rightarrow> 'd \<Rightarrow> string option \<times> 'd" where
  "run_statements [] d = (None, d)"
| "run_statements (stmt # rest) d = (case stmt d of Inl e \<Rightarrow> (Some e, d) | Inr d' \<Rightarrow> run_statements rest d')"

text \<open>
  \<open>schema\<close> is what brings the file up to date: the tables, the additive columns, the version. A
  statement on the schema commits itself, so when one fails, those before it stay done.
\<close>

definition store_connect :: "string \<Rightarrow> 'd statement list \<Rightarrow> 'd store \<Rightarrow> scrappy_error option \<times> 'd store" where
  "store_connect path schema s =
     (if sf_view s \<noteq> None then (None, s)
      else case run_statements schema (sf_file s) of
        (Some e, d) \<Rightarrow> (Some (StoreError (''Cannot open state database at '' @ path @ '': '' @ e)), s\<lparr>sf_file := d\<rparr>)
      | (None, d) \<Rightarrow> (None, \<lparr>sf_file = d, sf_view = Some d\<rparr>))"

definition store_close :: "'d store \<Rightarrow> 'd store" where
  "store_close s = s\<lparr>sf_view := None\<rparr>"

definition not_connected :: scrappy_error where
  "not_connected = StoreError ''Store is not connected; call connect() first''"

text \<open>A write of its own: the statement, and a commit of whatever the view then holds.\<close>

definition store_execute :: "'d statement \<Rightarrow> 'd store \<Rightarrow> scrappy_error option \<times> 'd store" where
  "store_execute stmt s = (case sf_view s of
     None \<Rightarrow> (Some not_connected, s)
   | Some d \<Rightarrow> (case stmt d of Inl e \<Rightarrow> (Some (StoreError (''Write failed: '' @ e)), s)
       | Inr d' \<Rightarrow> (None, \<lparr>sf_file = d', sf_view = Some d'\<rparr>)))"

definition store_fetch :: "('d \<Rightarrow> string + 'r list) \<Rightarrow> 'd store \<Rightarrow> scrappy_error + 'r list" where
  "store_fetch query s = (case sf_view s of
     None \<Rightarrow> Inl not_connected
   | Some d \<Rightarrow> (case query d of Inl e \<Rightarrow> Inl (StoreError (''Read failed: '' @ e)) | Inr rows \<Rightarrow> Inr rows))"

definition store_health :: "string \<Rightarrow> ('d \<Rightarrow> string + string list) \<Rightarrow> 'd store \<Rightarrow> bool \<times> string" where
  "store_health path version s = (case store_fetch version s of
     Inl e \<Rightarrow> (False, err_message e)
   | Inr [] \<Rightarrow> (False, ''schema_meta is empty; database may be corrupt'')
   | Inr (v # _) \<Rightarrow> (True, ''schema v'' @ v @ '' at '' @ path))"

definition is_open :: "'d store \<Rightarrow> bool" where
  "is_open s \<longleftrightarrow> sf_view s \<noteq> None"

definition store_fetch_one :: "('d \<Rightarrow> string + 'r list) \<Rightarrow> 'd store \<Rightarrow> scrappy_error + 'r option" where
  "store_fetch_one query s = map_sum id (\<lambda>rows. case rows of [] \<Rightarrow> None | r # _ \<Rightarrow> Some r) (store_fetch query s)"

text \<open>\<open>open_store\<close> on a file, around a body that may raise: the connection is closed either way.\<close>

definition open_store ::
  "string \<Rightarrow> 'd statement list \<Rightarrow> ('d store \<Rightarrow> (scrappy_error + 'x) \<times> 'd store) \<Rightarrow> 'd \<Rightarrow> (scrappy_error + 'x) \<times> 'd store" where
  "open_store path schema body file =
     (case store_connect path schema \<lparr>sf_file = file, sf_view = None\<rparr> of
        (Some e, s) \<Rightarrow> (Inl e, store_close s)
      | (None, s) \<Rightarrow> (case body s of (r, s') \<Rightarrow> (r, store_close s')))"

lemma open_store_closes: "\<not> is_open (snd (open_store path schema body file))"
  by (simp add: open_store_def is_open_def store_close_def split: prod.splits option.splits)

text \<open>What a body has not committed is gone.\<close>

lemma open_store_keeps_committed:
  "open_store path schema body file = (Inr x, s) \<Longrightarrow> \<exists>d s'. run_statements schema file = (None, d) \<and> body (at_rest d) = (Inr x, s') \<and> sf_file s = sf_file s'"
  by (auto simp: open_store_def store_connect_def store_close_def at_rest_def split: prod.splits option.splits)

section \<open>Transactions\<close>

text \<open>
  What goes wrong at one wait for the connection: SQLite refuses, and nothing happens; or the waiting task is cancelled, and
  what was asked for happens all the same, on the thread of the connection.
\<close>

datatype fault = Refused string | Interrupted

text \<open>What the body of a transaction does to the connection, and its two endings.\<close>

definition tx_statement :: "fault option \<Rightarrow> 'd statement \<Rightarrow> 'd store \<Rightarrow> string option \<times> 'd store" where
  "tx_statement fault stmt s = (case sf_view s of
     None \<Rightarrow> (Some ''closed'', s)
   | Some d \<Rightarrow> (case fault of
        Some (Refused e) \<Rightarrow> (Some e, s)
      | Some Interrupted \<Rightarrow> (Some ''CancelledError'', case stmt d of Inl e \<Rightarrow> s | Inr d' \<Rightarrow> s\<lparr>sf_view := Some d'\<rparr>)
      | None \<Rightarrow> (case stmt d of Inl e \<Rightarrow> (Some e, s) | Inr d' \<Rightarrow> (None, s\<lparr>sf_view := Some d'\<rparr>))))"

definition tx_commit :: "'d store \<Rightarrow> 'd store" where
  "tx_commit s = (case sf_view s of None \<Rightarrow> s | Some d \<Rightarrow> s\<lparr>sf_file := d\<rparr>)"

definition tx_rollback :: "'d store \<Rightarrow> 'd store" where
  "tx_rollback s = (case sf_view s of None \<Rightarrow> s | Some d \<Rightarrow> s\<lparr>sf_view := Some (sf_file s)\<rparr>)"

fun tx_body :: "(fault option \<times> 'd statement) list \<Rightarrow> 'd store \<Rightarrow> string option \<times> 'd store" where
  "tx_body [] s = (None, s)"
| "tx_body ((fault, stmt) # rest) s = (case tx_statement fault stmt s of (Some e, s') \<Rightarrow> (Some e, s') | (None, s') \<Rightarrow> tx_body rest s')"

text \<open>
  A whole transaction: the exception it ends with, and the store. Whatever the body raises is followed
  by a rollback; what the commit raises is not.
\<close>

definition store_transaction ::
  "(fault option \<times> 'd statement) list \<Rightarrow> fault option \<Rightarrow> 'd store \<Rightarrow> scrappy_error option \<times> 'd store" where
  "store_transaction body commit s =
     (if sf_view s = None then (Some not_connected, s)
      else case tx_body body s of
        (Some e, s') \<Rightarrow> (Some (Invalid e), tx_rollback s')
      | (None, s') \<Rightarrow> (case commit of
            None \<Rightarrow> (None, tx_commit s')
          | Some (Refused e) \<Rightarrow> (Some (Invalid e), s')
          | Some Interrupted \<Rightarrow> (Some (Invalid ''CancelledError''), tx_commit s')))"

text \<open>The statements of a body, each with what happens at its wait.\<close>

definition with_faults :: "(nat \<Rightarrow> fault option) \<Rightarrow> 'd statement list \<Rightarrow> (fault option \<times> 'd statement) list" where
  "with_faults faults stmts = map (\<lambda>(k, stmt). (faults k, stmt)) (enumerate 0 stmts)"

section \<open>Lemmas\<close>

text \<open>Whatever the body does and however far it comes, the file is as it was, and the connection is open.\<close>

lemma tx_body_file:
  assumes "tx_body body s = (r, s')"
  shows "sf_file s' = sf_file s \<and> (sf_view s' = None) = (sf_view s = None)"
  using assms
proof (induction body arbitrary: s)
  case (Cons x xs)
  obtain fault stmt where x: "x = (fault, stmt)" by fastforce
  obtain r1 s1 where t: "tx_statement fault stmt s = (r1, s1)" by fastforce
  then have "sf_file s1 = sf_file s \<and> (sf_view s1 = None) = (sf_view s = None)"
    by (auto simp: tx_statement_def split: option.splits sum.splits fault.splits)
  with Cons.IH [of s1] Cons.prems x t show ?case by (cases r1) auto
qed simp

text \<open>Alone on the connection, a transaction whose body fails leaves nothing, wherever it fails.\<close>

lemma failed_body_rolled_back:
  assumes "fst (tx_body body (at_rest d)) \<noteq> None"
  shows "\<exists>e. store_transaction body commit (at_rest d) = (Some e, at_rest d)"
proof -
  obtain e s where b: "tx_body body (at_rest d) = (Some e, s)" using assms by (cases "tx_body body (at_rest d)") auto
  from tx_body_file [OF b] have "tx_rollback s = at_rest d" by (cases s) (auto simp: tx_rollback_def at_rest_def)
  with b show ?thesis by (simp add: store_transaction_def at_rest_def)
qed

lemma tx_body_runs:
  "fst (tx_body body \<lparr>sf_file = f, sf_view = Some d\<rparr>) = None \<longleftrightarrow> list_all (\<lambda>x. fst x = None) body \<and> fst (run_statements (map snd body) d) = None"
  "tx_body body \<lparr>sf_file = f, sf_view = Some d\<rparr> = (None, s) \<Longrightarrow> s = \<lparr>sf_file = f, sf_view = Some (snd (run_statements (map snd body) d))\<rparr>"
proof -
  show "fst (tx_body body \<lparr>sf_file = f, sf_view = Some d\<rparr>) = None \<longleftrightarrow> list_all (\<lambda>x. fst x = None) body \<and> fst (run_statements (map snd body) d) = None"
    by (induction body arbitrary: d) (auto simp: tx_statement_def split: sum.splits option.splits fault.splits)
  show "tx_body body \<lparr>sf_file = f, sf_view = Some d\<rparr> = (None, s) \<Longrightarrow> s = \<lparr>sf_file = f, sf_view = Some (snd (run_statements (map snd body) d))\<rparr>"
    by (induction body arbitrary: d) (auto simp: tx_statement_def split: sum.splits option.splits fault.splits)
qed

lemma connect_twice:
  "store_connect path schema s = (None, s') \<Longrightarrow> store_connect path schema s' = (None, s')"
  by (auto simp: store_connect_def split: if_splits prod.splits option.splits)

text \<open>
  Another task's write between two statements of a transaction commits the first of them: rolled back
  after that, or cut off by a crash, the transaction is half applied.
\<close>

lemma write_commits_half:
  assumes "stmt d = Inr d1" "write d1 = Inr d2"
  shows "tx_rollback (snd (store_execute write (snd (tx_statement None stmt (at_rest d))))) = at_rest d2"
  using assms by (simp add: at_rest_def tx_statement_def store_execute_def tx_rollback_def)

text \<open>
  A commit that SQLite refuses is not rolled back: the statements stay pending on the shared connection, and the
  next write of anyone commits them, although the transaction was reported as failed.
\<close>

lemma refused_commit_lingers:
  assumes "tx_body body (at_rest d) = (None, s')" "sf_view s' = Some d'" "write d' = Inr d2"
  shows "store_transaction body (Some (Refused e)) (at_rest d) = (Some (Invalid e), \<lparr>sf_file = d, sf_view = Some d'\<rparr>)"
    "snd (store_execute write (snd (store_transaction body (Some (Refused e)) (at_rest d)))) = at_rest d2"
proof -
  have "s' = \<lparr>sf_file = d, sf_view = Some d'\<rparr>" using tx_body_file [OF assms(1)] assms(2) by (cases s') (simp add: at_rest_def)
  with assms show "store_transaction body (Some (Refused e)) (at_rest d) = (Some (Invalid e), \<lparr>sf_file = d, sf_view = Some d'\<rparr>)"
    by (simp add: store_transaction_def at_rest_def)
  with assms(3) show "snd (store_execute write (snd (store_transaction body (Some (Refused e)) (at_rest d)))) = at_rest d2"
    by (simp add: store_execute_def at_rest_def)
qed

section \<open>Rotation over the connection\<close>

definition rotate_statements :: "string \<Rightarrow> credential \<Rightarrow> time option \<Rightarrow> credential \<Rightarrow> cred_row list statement list" where
  "rotate_statements i replacement revoke_old_at existing =
     (\<lambda>rows. case tbl_insert kr_id (credential_params replacement) rows of None \<Rightarrow> Inl ''IntegrityError'' | Some rows1 \<Rightarrow> Inr rows1) #
     (case revoke_old_at of None \<Rightarrow> []
      | Some t \<Rightarrow> if k_revoked_at existing = None then [\<lambda>rows. Inr (tbl_update kr_id i (\<lambda>r. r\<lparr>kr_revoked_at := Some t\<rparr>) rows)] else [])"

text \<open>After the insert, any write of another task leaves both credentials, none of them revoked.\<close>

lemma rotation_half_applied:
  assumes "store_get rows i = Inr (Some existing)" "k_revoked_at existing = None" "store_get rows (k_id replacement) = Inr None"
    "credential_valid replacement" "k_revoked_at replacement = None" "k_id replacement \<noteq> i"
  shows "\<exists>half. tx_rollback (snd (store_execute Inr (snd (tx_statement None (hd (rotate_statements i replacement revoke_old_at existing)) (at_rest rows)))))
      = at_rest half \<and> store_get half i = Inr (Some existing) \<and> store_get half (k_id replacement) = Inr (Some replacement)"
proof -
  from assms(3) obtain half where half: "store_create replacement rows = Inr half"
    by (auto simp: store_create_def store_get_None tbl_insert_def split: option.splits)
  then have "hd (rotate_statements i replacement revoke_old_at existing) rows = Inr half"
    by (auto simp: rotate_statements_def store_create_def split: option.splits)
  then have applied: "tx_rollback (snd (store_execute Inr (snd (tx_statement None (hd (rotate_statements i replacement revoke_old_at existing)) (at_rest rows)))))
      = at_rest half"
    by (rule write_commits_half) simp
  from sqlite.create_get [OF half] applied assms show ?thesis by (intro exI [of _ half]) simp
qed

section \<open>Properties\<close>

text \<open>
  C31. Rotation is one step, whatever goes wrong. Run alone as a transaction on the connection, each of its
  statements and its commit may be refused or interrupted. After any part of it, the file holds the
  old table. When any statement fails, also the second, with the replacement inserted, the transaction
  raises, and file and connection hold the old table with nothing pending. When none does, the outcome is the table
  \<open>store_rotate\<close> specifies: in the file, unless the commit is refused, and then still pending on the connection,
  while the file holds the old one. The body succeeds just when no fault happens and \<open>store_rotate\<close> does.
\<close>

theorem rotation_refines:
  "case store_get rows i of
     Inl e \<Rightarrow> store_rotate i replacement u rows = Inl e
   | Inr None \<Rightarrow> store_rotate i replacement u rows = Inr (None, rows)
   | Inr (Some existing) \<Rightarrow>
       (let stmts = rotate_statements i replacement u existing; body = with_faults faults stmts;
            completes = (fst (tx_body body (at_rest rows)) = None); (r, s) = store_transaction body commit (at_rest rows) in
        (\<forall>n. sf_file (snd (tx_body (take n body) (at_rest rows))) = rows)
        \<and> completes = (list_all (\<lambda>k. faults k = None) [0..<length stmts] \<and> (\<exists>x. store_rotate i replacement u rows = Inr x))
        \<and> (if \<not> completes then r \<noteq> None \<and> s = at_rest rows
           else \<exists>rows'. store_rotate i replacement u rows = Inr (Some existing, rows')
             \<and> (case commit of
                  None \<Rightarrow> r = None \<and> s = at_rest rows'
                | Some (Refused e) \<Rightarrow> r = Some (Invalid e) \<and> s = \<lparr>sf_file = rows, sf_view = Some rows'\<rparr>
                | Some Interrupted \<Rightarrow> r \<noteq> None \<and> s = at_rest rows')))"
proof (cases "\<exists>existing. store_get rows i = Inr (Some existing)")
  case True
  then obtain existing where get: "store_get rows i = Inr (Some existing)" by blast
  define stmts where "stmts = rotate_statements i replacement u existing"
  define body where "body = with_faults faults stmts"
  have maps: "map snd body = stmts" "list_all (\<lambda>x. fst x = None) body = list_all (\<lambda>k. faults k = None) [0..<length stmts]"
    by (simp_all add: body_def with_faults_def comp_def split_def list_all_length nth_enumerate_eq)
  have spec: "(case run_statements stmts rows of (None, d) \<Rightarrow> store_rotate i replacement u rows = Inr (Some existing, d)
      | (Some e, d) \<Rightarrow> store_rotate i replacement u rows = Inl (Invalid ''IntegrityError''))"
    using get unfolding stmts_def rotate_statements_def store_rotate_def
    by (cases "tbl_insert kr_id (credential_params replacement) rows") (auto split: option.splits)
  have kept: "sf_file (snd (tx_body (take n body) (at_rest rows))) = rows" for n
    using tx_body_file [of "take n body" "at_rest rows"] by (cases "tx_body (take n body) (at_rest rows)") (auto simp: at_rest_def)
  have done0: "fst (tx_body body (at_rest rows)) = None \<longleftrightarrow>
      list_all (\<lambda>k. faults k = None) [0..<length stmts] \<and> (\<exists>x. store_rotate i replacement u rows = Inr x)"
    using tx_body_runs(1) [of body rows rows] spec unfolding maps at_rest_def
    by (cases "run_statements stmts rows"; cases "fst (run_statements stmts rows)") auto
  have ends: "let (r, s) = store_transaction body commit (at_rest rows) in
      if fst (tx_body body (at_rest rows)) \<noteq> None then r \<noteq> None \<and> s = at_rest rows
      else \<exists>rows'. store_rotate i replacement u rows = Inr (Some existing, rows')
        \<and> (case commit of None \<Rightarrow> r = None \<and> s = at_rest rows'
            | Some (Refused e) \<Rightarrow> r = Some (Invalid e) \<and> s = \<lparr>sf_file = rows, sf_view = Some rows'\<rparr>
            | Some Interrupted \<Rightarrow> r \<noteq> None \<and> s = at_rest rows')"
  proof (cases "fst (tx_body body (at_rest rows)) = None")
    case False
    with failed_body_rolled_back [of body rows commit] show ?thesis by auto
  next
    case True
    then obtain s where b: "tx_body body (at_rest rows) = (None, s)" by (cases "tx_body body (at_rest rows)") auto
    from True tx_body_runs(1) [of body rows rows] have "fst (run_statements stmts rows) = None" by (simp add: maps at_rest_def)
    with spec obtain rows' where rows': "run_statements stmts rows = (None, rows')" "store_rotate i replacement u rows = Inr (Some existing, rows')"
      by (cases "run_statements stmts rows") auto
    from tx_body_runs(2) [OF b [unfolded at_rest_def]] rows'(1) have s: "s = \<lparr>sf_file = rows, sf_view = Some rows'\<rparr>" by (simp add: maps)
    show ?thesis using b s rows'(2)
      by (auto simp: store_transaction_def at_rest_def tx_commit_def split: option.split fault.split)
  qed
  show ?thesis
    unfolding get sum.case option.case Let_def stmts_def [symmetric] body_def [symmetric]
    using kept done0 ends by (cases "store_transaction body commit (at_rest rows)") (simp add: Let_def)
next
  case False
  then show ?thesis by (cases "store_get rows i"; cases "projr (store_get rows i)") (auto simp: store_rotate_def)
qed

end
