(* ===== verification/Model_Providers.thy ===== *)
theory Model_Providers
  imports Model_Base Core_Config
begin

text \<open>
  \<open>models/openai_compat.py\<close>, \<open>models/ollama.py\<close> and \<open>models/registry.py\<close>: the two HTTP clients and
  the router. The network is a parameter over the state \<open>'m\<close>: what a POST and a GET answer and how
  long they take. \<open>w_int\<close> is pydantic's reading of a value other than null as an integer. Log lines
  are not modelled.
\<close>

section \<open>The wire\<close>

record wire_request =
  rq_url :: string
  rq_body :: payload
  rq_header_lines :: "(string \<times> string) list"
  rq_timeout :: time

text \<open>An answer has its status, its text, and the value \<open>response.json()\<close> gives or the text of its \<open>ValueError\<close>.\<close>

datatype wire_answer = W_timeout string | W_error string \<comment> \<open>another \<open>httpx.HTTPError\<close>\<close> | W_other string \<comment> \<open>any other exception\<close>
  | W_answer nat string "string + pyval"

record 'm wire =
  w_post :: "wire_request \<Rightarrow> 'm \<Rightarrow> wire_answer \<times> time \<times> 'm"
  w_get :: "wire_request \<Rightarrow> 'm \<Rightarrow> wire_answer \<times> time \<times> 'm"
  w_int :: "pyval \<Rightarrow> int option"

record client_settings =
  cl_model :: string
  cl_api_key :: "string option"
  cl_base_url :: string
  cl_timeout :: time
  cl_temperature :: rat
  cl_max_tokens :: int

record generation =
  gn_text :: string
  gn_model :: string
  gn_provider :: string
  gn_prompt_tokens :: "int option"
  gn_completion_tokens :: "int option"
  gn_duration_ms :: time
  gn_finish_reason :: "string option"

record provider_info =
  pi_name :: string
  pi_kind :: provider_name
  pi_model :: string
  pi_base_url :: "string option"
  pi_requires_network :: bool
  pi_requires_credentials :: bool

record provider_health =
  ph_healthy :: bool
  ph_detail :: string
  ph_latency_ms :: "time option"

fun chat_role_value :: "chat_role \<Rightarrow> string" where
  "chat_role_value CR_SYSTEM = ''system''"
| "chat_role_value CR_USER = ''user''"
| "chat_role_value CR_ASSISTANT = ''assistant''"

definition to_wire :: "chat_message \<Rightarrow> pyval" where
  "to_wire m = PDict [(''role'', PStr (chat_role_value (m_role m))), (''content'', PStr (m_content m))]"

definition rstrip_slash :: "string \<Rightarrow> string" where
  "rstrip_slash u = rev (dropWhile (\<lambda>c. c = CHR ''/'') (rev u))"

section \<open>Reading an answer\<close>

text \<open>\<open>value[key]\<close> and \<open>value[0]\<close>: the value, or the text of the \<open>KeyError\<close>, \<open>TypeError\<close> or \<open>IndexError\<close>.\<close>

fun type_name :: "pyval \<Rightarrow> string" where
  "type_name PNone = ''NoneType''"
| "type_name (PBool b) = ''bool''"
| "type_name (PInt i) = ''int''"
| "type_name (PFloat r) = ''float''"
| "type_name (PStr s) = ''str''"
| "type_name (PBytes b) = ''bytes''"
| "type_name (PSet xs) = ''set''"
| "type_name (PList xs) = ''list''"
| "type_name (PDict d) = ''dict''"

definition attribute_error :: "pyval \<Rightarrow> string \<Rightarrow> string" where
  "attribute_error v attr = ''AttributeError: '' @ CHR 0x27 # type_name v @ CHR 0x27 # '' object has no attribute '' @ CHR 0x27 # attr @ [CHR 0x27]"

definition not_subscriptable :: "pyval \<Rightarrow> string" where
  "not_subscriptable v = CHR 0x27 # type_name v @ CHR 0x27 # '' object is not subscriptable''"

fun item_of :: "string \<Rightarrow> pyval \<Rightarrow> string + pyval" where
  "item_of k (PDict d) = (case map_of d k of None \<Rightarrow> Inl (py_repr k) | Some v \<Rightarrow> Inr v)"
| "item_of k (PList xs) = Inl ''list indices must be integers or slices, not str''"
| "item_of k (PStr s) = Inl (''string indices must be integers, not '' @ CHR 0x27 # ''str'' @ [CHR 0x27])"
| "item_of k v = Inl (not_subscriptable v)"

fun first_of :: "pyval \<Rightarrow> string + pyval" where
  "first_of (PList xs) = (case xs of [] \<Rightarrow> Inl ''list index out of range'' | x # _ \<Rightarrow> Inr x)"
| "first_of (PStr s) = (case s of [] \<Rightarrow> Inl ''string index out of range'' | c # _ \<Rightarrow> Inr (PStr [c]))"
| "first_of (PDict d) = Inl ''0''"
| "first_of v = Inl (not_subscriptable v)"

text \<open>The fields of \<open>GenerationResult\<close>, as pydantic reads them.\<close>

definition read_text :: "pyval \<Rightarrow> string option" where
  "read_text v = (case v of PStr s \<Rightarrow> Some s | _ \<Rightarrow> None)"

definition read_optional :: "(pyval \<Rightarrow> 'a option) \<Rightarrow> pyval \<Rightarrow> 'a option option" where
  "read_optional rd v = (if v = PNone then Some None else map_option Some (rd v))"

definition make_generation :: "'m wire \<Rightarrow> string \<Rightarrow> pyval \<Rightarrow> pyval \<Rightarrow> pyval \<Rightarrow> pyval \<Rightarrow> time \<Rightarrow> pyval \<Rightarrow> scrappy_error + generation" where
  "make_generation w provider_id text0 model prompt_tokens completion_tokens took finish =
     (case (read_text text0, read_text model, read_optional (w_int w) prompt_tokens, read_optional (w_int w) completion_tokens,
            read_optional read_text finish) of
        (Some t, Some m, Some p, Some c, Some f) \<Rightarrow>
          Inr \<lparr>gn_text = t, gn_model = m, gn_provider = provider_id, gn_prompt_tokens = p, gn_completion_tokens = c, gn_duration_ms = took,
               gn_finish_reason = f\<rparr>
      | _ \<Rightarrow> Inl (Invalid ''GenerationResult''))"

definition with_stop :: "string list \<Rightarrow> payload \<Rightarrow> payload" where
  "with_stop stop d = (if stop = [] then d else d @ [(''stop'', PList (map PStr stop))])"

section \<open>The OpenAI-compatible client\<close>

definition openai_info :: "client_settings \<Rightarrow> provider_info" where
  "openai_info c = \<lparr>pi_name = ''openai'', pi_kind = OPENAI, pi_model = cl_model c, pi_base_url = Some (cl_base_url c),
     pi_requires_network = True, pi_requires_credentials = True\<rparr>"

definition openai_headers :: "client_settings \<Rightarrow> (string \<times> string) list" where
  "openai_headers c = (''Content-Type'', ''application/json'') #
     (case cl_api_key c of None \<Rightarrow> [] | Some k \<Rightarrow> [(''Authorization'', ''Bearer '' @ k)])"

definition openai_request :: "client_settings \<Rightarrow> chat_message list \<Rightarrow> rat option \<Rightarrow> int option \<Rightarrow> string list \<Rightarrow> wire_request" where
  "openai_request c messages temperature max_tokens stop =
     \<lparr>rq_url = cl_base_url c @ ''/chat/completions'',
      rq_body = with_stop stop
        [(''model'', PStr (cl_model c)), (''messages'', PList (map to_wire messages)),
         (''temperature'', PFloat (or_else temperature (cl_temperature c))), (''max_tokens'', PInt (or_else max_tokens (cl_max_tokens c)))],
      rq_header_lines = openai_headers c, rq_timeout = cl_timeout c\<rparr>"

definition openai_error :: "string \<Rightarrow> scrappy_error" where
  "openai_error m = ProviderError m ''openai''"

text \<open>\<open>choice["message"]["content"] or ""\<close>, with the choice and the whole answer, or the text of the exception.\<close>

definition openai_choice :: "string + pyval \<Rightarrow> string + pyval \<times> pyval \<times> pyval" where
  "openai_choice body =
     ebind body (\<lambda>answer. ebind (item_of ''choices'' answer) (\<lambda>cs. ebind (first_of cs) (\<lambda>choice.
     ebind (item_of ''message'' choice) (\<lambda>message. ebind (item_of ''content'' message) (\<lambda>content.
     Inr (answer, choice, if py_truth content then content else PStr []))))))"

fun dict_get :: "string \<Rightarrow> pyval \<Rightarrow> pyval option" where
  "dict_get k (PDict d) = Some (pget k d)"
| "dict_get k v = None" \<comment> \<open>\<open>AttributeError\<close>\<close>

definition dict_get_or :: "string \<Rightarrow> pyval \<Rightarrow> pyval \<Rightarrow> pyval" where
  "dict_get_or k dflt v = (case v of PDict d \<Rightarrow> pget_or k dflt d | _ \<Rightarrow> dflt)"

definition openai_result :: "'m wire \<Rightarrow> client_settings \<Rightarrow> time \<Rightarrow> pyval \<times> pyval \<times> pyval \<Rightarrow> scrappy_error + generation" where
  "openai_result w c took r =
     (let (answer, choice, text0) = r; given = dict_get_or ''usage'' PNone answer; usage = (if py_truth given then given else PDict []) in
      case (dict_get ''prompt_tokens'' usage, dict_get ''completion_tokens'' usage) of
        (Some p, Some q) \<Rightarrow> make_generation w ''openai'' text0 (dict_get_or ''model'' (PStr (cl_model c)) answer) p q took
            (dict_get_or ''finish_reason'' PNone choice)
      | _ \<Rightarrow> Inl (Invalid (attribute_error usage ''get'')))"

definition openai_generate ::
  "'m wire \<Rightarrow> client_settings \<Rightarrow> rat option \<Rightarrow> int option \<Rightarrow> string list \<Rightarrow> chat_message list \<Rightarrow> 'm \<Rightarrow> (scrappy_error + generation) \<times> time \<times> 'm" where
  "openai_generate w c temperature max_tokens stop messages m =
     (if cl_api_key c = None then (Inl (openai_error ''OPENAI_API_KEY is not set; configure it or switch SCRAPPY_MODEL_PROVIDER''), 0, m)
      else let (a, took, m1) = w_post w (openai_request c messages temperature max_tokens stop) m in
       (case a of
          W_timeout exc \<Rightarrow> Inl (ProviderUnavailable (''Request to '' @ cl_base_url c @ '' timed out after '' @ str_seconds (cl_timeout c) @ ''s'') ''openai'')
        | W_error exc \<Rightarrow> Inl (ProviderUnavailable (''Cannot reach '' @ cl_base_url c @ '': '' @ exc) ''openai'')
        | W_other exc \<Rightarrow> Inl (Invalid exc)
        | W_answer status body json \<Rightarrow>
            if 400 \<le> status then Inl (openai_error (''Provider returned HTTP '' @ str_nat status))
            else (case openai_choice json of
                Inl exc \<Rightarrow> Inl (openai_error (''Malformed chat-completions response: '' @ exc))
              | Inr r \<Rightarrow> openai_result w c took r), took, m1))"

definition openai_health :: "'m wire \<Rightarrow> client_settings \<Rightarrow> 'm \<Rightarrow> (string + provider_health) \<times> 'm" where
  "openai_health w c m =
     (let down = (\<lambda>d. Inr \<lparr>ph_healthy = False, ph_detail = d, ph_latency_ms = None\<rparr>) in
      if cl_api_key c = None then (down ''OPENAI_API_KEY is not set'', m)
      else let (a, took, m1) = w_get w \<lparr>rq_url = cl_base_url c @ ''/models'', rq_body = [], rq_header_lines = openai_headers c,
                  rq_timeout = min (cl_timeout c) (seconds 10)\<rparr> m in
       (case a of
          W_timeout exc \<Rightarrow> down (''unreachable: '' @ exc)
        | W_error exc \<Rightarrow> down (''unreachable: '' @ exc)
        | W_other exc \<Rightarrow> Inl exc
        | W_answer status body json \<Rightarrow>
            if status = 401 then down ''credentials rejected (HTTP 401)''
            else if 400 \<le> status then down (''HTTP '' @ str_nat status @ '' from '' @ cl_base_url c)
            else Inr \<lparr>ph_healthy = True, ph_detail = cl_base_url c @ '' reachable, model='' @ cl_model c, ph_latency_ms = Some took\<rparr>, m1))"

section \<open>The Ollama client\<close>

text \<open>
  \<open>json_mode\<close> is the value of the context variable, which \<open>generate_structured\<close> sets around the turn
  it makes and which no other task sees.
\<close>

definition ollama_info :: "client_settings \<Rightarrow> provider_info" where
  "ollama_info c = \<lparr>pi_name = ''ollama'', pi_kind = OLLAMA, pi_model = cl_model c, pi_base_url = Some (cl_base_url c),
     pi_requires_network = False, pi_requires_credentials = False\<rparr>"

definition ollama_request :: "client_settings \<Rightarrow> bool \<Rightarrow> chat_message list \<Rightarrow> rat option \<Rightarrow> int option \<Rightarrow> string list \<Rightarrow> wire_request" where
  "ollama_request c json_mode messages temperature max_tokens stop =
     \<lparr>rq_url = cl_base_url c @ ''/api/chat'',
      rq_body =
        [(''model'', PStr (cl_model c)), (''messages'', PList (map to_wire messages)), (''stream'', PBool False),
         (''options'', PDict (with_stop stop
            [(''temperature'', PFloat (or_else temperature (cl_temperature c))), (''num_predict'', PInt (or_else max_tokens (cl_max_tokens c)))]))] @
        (if json_mode then [(''format'', PStr ''json'')] else []),
      rq_header_lines = [], rq_timeout = cl_timeout c\<rparr>"

definition ollama_content :: "string + pyval \<Rightarrow> string + pyval \<times> pyval" where
  "ollama_content body =
     ebind body (\<lambda>answer. ebind (item_of ''message'' answer) (\<lambda>message. ebind (item_of ''content'' message) (\<lambda>content. Inr (answer, content))))"

definition ollama_generate ::
  "'m wire \<Rightarrow> client_settings \<Rightarrow> bool \<Rightarrow> rat option \<Rightarrow> int option \<Rightarrow> string list \<Rightarrow> chat_message list \<Rightarrow> 'm \<Rightarrow>
   (scrappy_error + generation) \<times> time \<times> 'm" where
  "ollama_generate w c json_mode temperature max_tokens stop messages m =
     (let (a, took, m1) = w_post w (ollama_request c json_mode messages temperature max_tokens stop) m in
       (case a of
          W_timeout exc \<Rightarrow> Inl (ProviderUnavailable (''Ollama at '' @ cl_base_url c @ '' timed out after '' @ str_seconds (cl_timeout c) @ ''s'') ''ollama'')
        | W_error exc \<Rightarrow> Inl (ProviderUnavailable (''Cannot reach Ollama at '' @ cl_base_url c @ '': '' @ exc @ ''. Is `ollama serve` running?'') ''ollama'')
        | W_other exc \<Rightarrow> Inl (Invalid exc)
        | W_answer status body json \<Rightarrow>
            if 400 \<le> status then Inl (ProviderError (''Ollama returned HTTP '' @ str_nat status) ''ollama'')
            else (case ollama_content json of
                Inl exc \<Rightarrow> Inl (ProviderError (''Malformed Ollama response: '' @ exc) ''ollama'')
              | Inr (answer, content) \<Rightarrow>
                  make_generation w ''ollama'' content (dict_get_or ''model'' (PStr (cl_model c)) answer)
                    (dict_get_or ''prompt_eval_count'' PNone answer) (dict_get_or ''eval_count'' PNone answer) took
                    (dict_get_or ''done_reason'' PNone answer)), took, m1))"

text \<open>The names of the pulled models, or the \<open>AttributeError\<close> of \<open>.get\<close>, which nothing catches.\<close>

fun entry_names :: "pyval list \<Rightarrow> pyval list option" where
  "entry_names [] = Some []"
| "entry_names (e # es) = (case item_of ''name'' e of Inl exc \<Rightarrow> None
     | Inr n \<Rightarrow> (case entry_names es of None \<Rightarrow> None | Some ns \<Rightarrow> Some (n # ns)))"

definition pulled_models :: "string + pyval \<Rightarrow> string + pyval list" where
  "pulled_models body =
     (case body of
        Inl exc \<Rightarrow> Inr []
      | Inr (PDict d) \<Rightarrow> (case pget_or ''models'' (PList []) d of
            PList es \<Rightarrow> Inr (case entry_names es of None \<Rightarrow> [] | Some ns \<Rightarrow> ns)
          | _ \<Rightarrow> Inr [])
      | Inr v \<Rightarrow> Inl (attribute_error v ''get''))"

definition family_of :: "string \<Rightarrow> string" where
  "family_of name = takeWhile (\<lambda>c. c \<noteq> CHR '':'') name"

text \<open>\<open>any(...)\<close> over the names, up to the first that matches; a name that is no string has no \<open>split\<close>.\<close>

fun installed_in :: "string \<Rightarrow> pyval list \<Rightarrow> string + bool" where
  "installed_in model [] = Inr False"
| "installed_in model (PStr n # ns) = (if n = model \<or> family_of n = family_of model then Inr True else installed_in model ns)"
| "installed_in model (v # ns) = Inl (attribute_error v ''split'')"

definition ollama_health :: "'m wire \<Rightarrow> client_settings \<Rightarrow> 'm \<Rightarrow> (string + provider_health) \<times> 'm" where
  "ollama_health w c m =
     (let (a, took, m1) = w_get w \<lparr>rq_url = cl_base_url c @ ''/api/tags'', rq_body = [], rq_header_lines = [], rq_timeout = seconds 10\<rparr> m;
          unreachable = (\<lambda>exc. Inr \<lparr>ph_healthy = False,
            ph_detail = ''cannot reach '' @ cl_base_url c @ '': '' @ exc @ ''. Is `ollama serve` running?'', ph_latency_ms = None\<rparr>) in
       (case a of
          W_timeout exc \<Rightarrow> unreachable exc
        | W_error exc \<Rightarrow> unreachable exc
        | W_other exc \<Rightarrow> Inl exc
        | W_answer status body json \<Rightarrow>
            if 400 \<le> status then Inr \<lparr>ph_healthy = False, ph_detail = ''HTTP '' @ str_nat status, ph_latency_ms = None\<rparr>
            else (case pulled_models json of
                Inl exc \<Rightarrow> Inl exc
              | Inr names \<Rightarrow>
                  (case installed_in (cl_model c) names of
                     Inl exc \<Rightarrow> Inl exc
                   | Inr False \<Rightarrow> Inr \<lparr>ph_healthy = False,
                       ph_detail = cl_model c @ '' is not pulled. Run: ollama pull '' @ cl_model c, ph_latency_ms = Some took\<rparr>
                   | Inr True \<Rightarrow> Inr \<lparr>ph_healthy = True,
                       ph_detail = cl_base_url c @ '' reachable, model='' @ cl_model c, ph_latency_ms = Some took\<rparr>)), m1))"

section \<open>The registry and the router\<close>

definition openai_client :: "settings \<Rightarrow> client_settings" where
  "openai_client s = \<lparr>cl_model = model_name s, cl_api_key = openai_api_key s, cl_base_url = rstrip_slash (openai_base_url s),
     cl_timeout = model_timeout_seconds s, cl_temperature = model_temperature s, cl_max_tokens = model_max_tokens s\<rparr>"

definition ollama_client :: "settings \<Rightarrow> client_settings" where
  "ollama_client s = \<lparr>cl_model = model_name s, cl_api_key = None, cl_base_url = rstrip_slash (ollama_base_url s),
     cl_timeout = model_timeout_seconds s, cl_temperature = model_temperature s, cl_max_tokens = model_max_tokens s\<rparr>"

datatype built_provider = Built_mock | Built_openai client_settings | Built_ollama client_settings

text \<open>The factories by name, as \<open>register_provider\<close> leaves them.\<close>

type_synonym factories = "(string \<times> (settings \<Rightarrow> built_provider)) list"

definition PROVIDER_FACTORIES :: factories where
  "PROVIDER_FACTORIES = [(''mock'', \<lambda>s. Built_mock), (''openai'', \<lambda>s. Built_openai (openai_client s)), (''ollama'', \<lambda>s. Built_ollama (ollama_client s))]"

definition register_provider :: "string \<Rightarrow> (settings \<Rightarrow> built_provider) \<Rightarrow> factories \<Rightarrow> factories" where
  "register_provider name factory fs = dict_set name factory fs"

definition build_provider :: "factories \<Rightarrow> settings \<Rightarrow> scrappy_error + built_provider" where
  "build_provider fs s =
     (let name = provider_value (model_provider s) in
      case map_of fs name of
        None \<Rightarrow> Inl (ConfigurationError (''Unknown model provider '' @ py_repr name @ ''. Known: '' @ py_join '', '' (sort (map fst fs))))
      | Some factory \<Rightarrow> Inr (factory s))"

definition MOCK_MODEL :: string where
  "MOCK_MODEL = ''mock-deterministic-v1''"

definition mock_info :: provider_info where
  "mock_info = \<lparr>pi_name = ''mock'', pi_kind = MOCK, pi_model = MOCK_MODEL, pi_base_url = None,
     pi_requires_network = False, pi_requires_credentials = False\<rparr>"

fun info_of :: "built_provider \<Rightarrow> provider_info" where
  "info_of Built_mock = mock_info"
| "info_of (Built_openai c) = openai_info c"
| "info_of (Built_ollama c) = ollama_info c"

definition is_development_provider :: "built_provider \<Rightarrow> bool" where
  "is_development_provider p \<longleftrightarrow> pi_kind (info_of p) = MOCK"

definition mock_health :: provider_health where
  "mock_health = \<lparr>ph_healthy = True, ph_detail = ''deterministic development provider (no model, no network)'', ph_latency_ms = Some 0\<rparr>"

fun provider_health_check :: "'m wire \<Rightarrow> built_provider \<Rightarrow> 'm \<Rightarrow> (string + provider_health) \<times> 'm" where
  "provider_health_check w Built_mock m = (Inr mock_health, m)"
| "provider_health_check w (Built_openai c) m = openai_health w c m"
| "provider_health_check w (Built_ollama c) m = ollama_health w c m"

definition router_health :: "'m wire \<Rightarrow> built_provider \<Rightarrow> 'm \<Rightarrow> provider_health \<times> 'm" where
  "router_health w p m =
     (case provider_health_check w p m of
        (Inr h, m1) \<Rightarrow> (h, m1)
      | (Inl exc, m1) \<Rightarrow> (\<lparr>ph_healthy = False, ph_detail = exc, ph_latency_ms = None\<rparr>, m1))"

text \<open>
  The provider the agents' turns go through. The structured turn is the one of the base class, with
  Ollama in its JSON mode, and passes neither temperature nor limits on.
\<close>

definition openai_provider :: "'m wire \<Rightarrow> json_env \<Rightarrow> (string \<Rightarrow> string) \<Rightarrow> client_settings \<Rightarrow> 'm provider" where
  "openai_provider w je schema c =
     \<lparr>pv_name = ''openai'', pv_model = cl_model c,
      pv_generate = (\<lambda>messages m. let (r, took, m1) = openai_generate w c None None [] messages m in (map_sum id gn_text r, took, m1)),
      pv_json = je, pv_schema = schema\<rparr>"

definition ollama_provider :: "'m wire \<Rightarrow> json_env \<Rightarrow> (string \<Rightarrow> string) \<Rightarrow> client_settings \<Rightarrow> 'm provider" where
  "ollama_provider w je schema c =
     \<lparr>pv_name = ''ollama'', pv_model = cl_model c,
      pv_generate = (\<lambda>messages m. let (r, took, m1) = ollama_generate w c True None None [] messages m in (map_sum id gn_text r, took, m1)),
      pv_json = je, pv_schema = schema\<rparr>"

section \<open>Lemmas\<close>

text \<open>A probe that raises instead of reporting, against its contract: the URL no client accepts, the tags that are no object.\<close>

lemma probe_raises:
  "w_get w \<lparr>rq_url = cl_base_url c @ ''/api/tags'', rq_body = [], rq_header_lines = [], rq_timeout = seconds 10\<rparr> m =
     (W_answer 200 b (Inr (PList xs)), took, m1) \<Longrightarrow> \<exists>exc. fst (ollama_health w c m) = Inl exc"
  "w_get w \<lparr>rq_url = cl_base_url c @ ''/models'', rq_body = [], rq_header_lines = openai_headers c, rq_timeout = min (cl_timeout c) (seconds 10)\<rparr> m =
     (W_other e, took, m1) \<Longrightarrow> cl_api_key c \<noteq> None \<Longrightarrow> fst (openai_health w c m) = Inl e"
  by (simp_all add: ollama_health_def openai_health_def pulled_models_def)

text \<open>A model of another size counts as pulled.\<close>

lemma other_tag_is_installed: "installed_in ''llama3:70b'' [PStr ''llama3:8b''] = Inr True"
  by (simp add: family_of_def)

text \<open>An answer without text is not a provider error but a validation error, which leaves the run open.\<close>

lemma null_content_escapes:
  "ollama_content (Inr (PDict [(''message'', PDict [(''content'', PNone)])])) = Inr (PDict [(''message'', PDict [(''content'', PNone)])], PNone)
   \<and> make_generation w ''ollama'' PNone mo p q took f = Inl (Invalid ''GenerationResult'')"
  by (simp add: ollama_content_def ebind_def make_generation_def read_text_def)

lemma provider_error_cases [simp]:
  "is_provider_error (ProviderError x y)" "is_provider_error (ProviderUnavailable x y)" "\<not> is_provider_error (Invalid x)"
  by (simp_all add: is_provider_error_def)

lemma made_not_provider: "make_generation w pv a b p q u f = Inl e \<Longrightarrow> \<not> is_provider_error e"
  by (auto simp: make_generation_def split: option.splits)

lemma result_not_provider: "openai_result w c u r = Inl e \<Longrightarrow> \<not> is_provider_error e"
  by (auto simp: openai_result_def Let_def dest: made_not_provider split: prod.splits option.splits)

section \<open>Properties\<close>

text \<open>A network whose answer does not depend on the headers it is sent.\<close>

definition headers_unread :: "'m wire \<Rightarrow> 'm wire" where
  "headers_unread w = w\<lparr>w_post := (\<lambda>rq. w_post w (rq\<lparr>rq_header_lines := []\<rparr>)), w_get := (\<lambda>rq. w_get w (rq\<lparr>rq_header_lines := []\<rparr>))\<rparr>"

text \<open>
  The API key goes into one header line and nowhere else. Whatever the key, the address, the body and
  the time limit of a request are the same and its headers are the content type and one bearer line;
  and on a network that does not read headers a turn and a probe end the same for any two keys, the
  texts of their errors included.
\<close>

theorem key_only_in_header:
  "(\<exists>rq. \<forall>key. openai_request (c\<lparr>cl_api_key := Some key\<rparr>) messages t n stop =
        rq\<lparr>rq_header_lines := [(''Content-Type'', ''application/json''), (''Authorization'', ''Bearer '' @ key)]\<rparr>)
   \<and> openai_generate (headers_unread w) (c\<lparr>cl_api_key := Some k1\<rparr>) t n stop messages m =
       openai_generate (headers_unread w) (c\<lparr>cl_api_key := Some k2\<rparr>) t n stop messages m
   \<and> openai_health (headers_unread w) (c\<lparr>cl_api_key := Some k1\<rparr>) m = openai_health (headers_unread w) (c\<lparr>cl_api_key := Some k2\<rparr>) m"
proof -
  have one: "openai_request (c\<lparr>cl_api_key := Some key\<rparr>) messages t n stop =
      (openai_request (c\<lparr>cl_api_key := None\<rparr>) messages t n stop)
        \<lparr>rq_header_lines := [(''Content-Type'', ''application/json''), (''Authorization'', ''Bearer '' @ key)]\<rparr>" for key
    by (simp add: openai_request_def openai_headers_def)
  have res: "openai_result v (c\<lparr>cl_api_key := key\<rparr>) took r = openai_result v c took r" for v :: "'a wire" and key took r
  proof -
    have k: "cl_model (c\<lparr>cl_api_key := key\<rparr>) = cl_model c" by simp
    show ?thesis unfolding openai_result_def k by (rule refl)
  qed
  have "openai_generate (headers_unread w) (c\<lparr>cl_api_key := Some k1\<rparr>) t n stop messages m =
      openai_generate (headers_unread w) (c\<lparr>cl_api_key := Some k2\<rparr>) t n stop messages m"
    by (simp add: openai_generate_def one headers_unread_def res split: prod.split wire_answer.split sum.split)
  moreover have "openai_health (headers_unread w) (c\<lparr>cl_api_key := Some k1\<rparr>) m = openai_health (headers_unread w) (c\<lparr>cl_api_key := Some k2\<rparr>) m"
    by (simp add: openai_health_def headers_unread_def split: prod.split wire_answer.split)
  ultimately show ?thesis using one by blast
qed

text \<open>
  C35. How a turn fails. A turn of the OpenAI client that returns text had a key and an answer of a
  status below 400 with a first choice; when it fails, the error is one the orchestrator knows as the
  provider's exactly if the key is missing, the request timed out or failed to connect, the status is
  400 or above, or the answer has no such choice. What else the client raises, and a choice whose
  fields do not validate, is no provider error. The same holds of Ollama, which has no key.
\<close>

theorem turn_failures_classified:
  "(case fst (openai_generate w c t n stop messages m) of
     Inr g \<Rightarrow> cl_api_key c \<noteq> None \<and> (\<exists>status b json r. fst (w_post w (openai_request c messages t n stop) m) = W_answer status b json
         \<and> status < 400 \<and> openai_choice json = Inr r)
   | Inl e \<Rightarrow> is_provider_error e \<longleftrightarrow> cl_api_key c = None \<or>
       (case fst (w_post w (openai_request c messages t n stop) m) of
          W_timeout x \<Rightarrow> True | W_error x \<Rightarrow> True | W_other x \<Rightarrow> False
        | W_answer status b json \<Rightarrow> 400 \<le> status \<or> isl (openai_choice json)))
   \<and> (case fst (ollama_generate w c json_mode t n stop messages m) of
     Inr g \<Rightarrow> \<exists>status b json r. fst (w_post w (ollama_request c json_mode messages t n stop) m) = W_answer status b json
         \<and> status < 400 \<and> ollama_content json = Inr r
   | Inl e \<Rightarrow> is_provider_error e \<longleftrightarrow>
       (case fst (w_post w (ollama_request c json_mode messages t n stop) m) of
          W_timeout x \<Rightarrow> True | W_error x \<Rightarrow> True | W_other x \<Rightarrow> False
        | W_answer status b json \<Rightarrow> 400 \<le> status \<or> isl (ollama_content json)))"
proof (rule conjI)
  show "case fst (openai_generate w c t n stop messages m) of
     Inr g \<Rightarrow> cl_api_key c \<noteq> None \<and> (\<exists>status b json r. fst (w_post w (openai_request c messages t n stop) m) = W_answer status b json
         \<and> status < 400 \<and> openai_choice json = Inr r)
   | Inl e \<Rightarrow> is_provider_error e \<longleftrightarrow> cl_api_key c = None \<or>
       (case fst (w_post w (openai_request c messages t n stop) m) of
          W_timeout x \<Rightarrow> True | W_error x \<Rightarrow> True | W_other x \<Rightarrow> False
        | W_answer status b json \<Rightarrow> 400 \<le> status \<or> isl (openai_choice json))"
  proof (cases "fst (w_post w (openai_request c messages t n stop) m)")
    case (W_answer status b json)
    then show ?thesis
      by (cases "openai_choice json")
        (auto simp: openai_generate_def split_beta Let_def openai_error_def dest: result_not_provider split: sum.split)
  qed (simp_all add: openai_generate_def split_beta Let_def openai_error_def)
  show "case fst (ollama_generate w c json_mode t n stop messages m) of
     Inr g \<Rightarrow> \<exists>status b json r. fst (w_post w (ollama_request c json_mode messages t n stop) m) = W_answer status b json
         \<and> status < 400 \<and> ollama_content json = Inr r
   | Inl e \<Rightarrow> is_provider_error e \<longleftrightarrow>
       (case fst (w_post w (ollama_request c json_mode messages t n stop) m) of
          W_timeout x \<Rightarrow> True | W_error x \<Rightarrow> True | W_other x \<Rightarrow> False
        | W_answer status b json \<Rightarrow> 400 \<le> status \<or> isl (ollama_content json))"
  proof (cases "fst (w_post w (ollama_request c json_mode messages t n stop) m)")
    case (W_answer status b json)
    then show ?thesis
      by (cases "ollama_content json")
        (auto simp: ollama_generate_def split_beta Let_def dest: made_not_provider split: sum.split)
  qed (simp_all add: ollama_generate_def split_beta Let_def)
qed

end
