(* ===== verification/Iface_Doctor.thy ===== *)
theory Iface_Doctor
  imports Core_Directories Iface_Terminal Sec_Pepper Sec_Authn Mem_Connection Model_Providers
begin

text \<open>
  \<open>interface/doctor.py\<close>: the checks behind \<open>scrappy doctor\<close>. The host is a parameter: the interpreter's
  version, the account, what \<open>os.access\<close> and \<open>shutil.which\<close> say, what SQLite finds in the database
  file, and the network of the provider's probe. A check that may raise outside \<open>_safely\<close> returns
  the exception as \<open>Inl\<close>, and no report is made.
\<close>

section \<open>Reports\<close>

datatype check_status = CS_PASS | CS_WARN | CS_FAIL

fun check_status_value :: "check_status \<Rightarrow> string" where
  "check_status_value CS_PASS = ''PASS''"
| "check_status_value CS_WARN = ''WARN''"
| "check_status_value CS_FAIL = ''FAIL''"

record check_result =
  ck_name :: string
  ck_status :: check_status
  ck_detail :: string
  ck_remedy :: "string option"

definition check_ok :: "check_result \<Rightarrow> bool" where
  "check_ok r \<longleftrightarrow> ck_status r \<noteq> CS_FAIL"

definition healthy_report :: "check_result list \<Rightarrow> bool" where
  "healthy_report rs \<longleftrightarrow> list_all check_ok rs"

definition report_counts :: "check_result list \<Rightarrow> (string \<times> nat) list" where
  "report_counts rs = map (\<lambda>st. (check_status_value st, length (filter (\<lambda>r. ck_status r = st) rs))) [CS_PASS, CS_WARN, CS_FAIL]"

definition passes :: "string \<Rightarrow> string \<Rightarrow> check_result" where
  "passes n d = \<lparr>ck_name = n, ck_status = CS_PASS, ck_detail = d, ck_remedy = None\<rparr>"

definition warns :: "string \<Rightarrow> string \<Rightarrow> string \<Rightarrow> check_result" where
  "warns n d r = \<lparr>ck_name = n, ck_status = CS_WARN, ck_detail = d, ck_remedy = Some r\<rparr>"

definition fails :: "string \<Rightarrow> string \<Rightarrow> string \<Rightarrow> check_result" where
  "fails n d r = \<lparr>ck_name = n, ck_status = CS_FAIL, ck_detail = d, ck_remedy = Some r\<rparr>"

section \<open>The host\<close>

text \<open>What an opened database holds; every read fails with \<open>op_broken\<close> when there is such a text.\<close>

record opened =
  op_credentials :: "cred_row list"
  op_version :: "string list" \<comment> \<open>the rows of \<open>schema_meta\<close> with the key \<open>version\<close>\<close>
  op_broken :: "string option"

record 'm doctor_host =
  dh_os :: os
  dh_writable :: "fs \<Rightarrow> ppath \<Rightarrow> bool"
  dh_python :: "nat \<times> nat \<times> nat"
  dh_euid :: nat
  dh_which :: "string \<Rightarrow> bool"
  dh_sqlite :: "fs \<Rightarrow> (string + opened) \<times> fs" \<comment> \<open>opening the file and bringing its schema up to date\<close>
  dh_now :: time
  dh_wire :: "'m wire"

definition SCRAPPY_VERSION :: string where
  "SCRAPPY_VERSION = ''0.2.0''"

text \<open>\<open>path.stat().st_mode & 0o777\<close>.\<close>

definition stat_mode :: "os \<Rightarrow> fs \<Rightarrow> ppath \<Rightarrow> string + nat" where
  "stat_mode os f p = (case resolve_path f p of
     None \<Rightarrow> Inl ''OSError: [Errno 40] Too many levels of symbolic links''
   | Some q \<Rightarrow> (case os_fault os Sys_stat q of Some e \<Rightarrow> Inl (os_raised e) | None \<Rightarrow> Inr (st_mode (os_stat os f q) mod 512)))"

text \<open>\<open>oct(mode)\<close> and the format \<open>#o\<close>.\<close>

definition oct_text :: "nat \<Rightarrow> string" where
  "oct_text n = ''0o'' @ octal n"

section \<open>The database\<close>

definition cannot_open :: "settings \<Rightarrow> string \<Rightarrow> scrappy_error" where
  "cannot_open s e = StoreError (''Cannot open state database at '' @ str_ppath (db_path s) @ '': '' @ e)"

definition open_database :: "'m doctor_host \<Rightarrow> settings \<Rightarrow> fs \<Rightarrow> (scrappy_error + opened) \<times> fs" where
  "open_database h s f =
     (case mkdir_path (dh_os h) (data_dir s) f of
        (Some e, f1) \<Rightarrow> (Inl (cannot_open s (os_text e)), f1)
      | (None, f1) \<Rightarrow> (case dh_sqlite h f1 of (Inl e, f2) \<Rightarrow> (Inl (cannot_open s e), f2) | (Inr d, f2) \<Rightarrow> (Inr d, f2)))"

definition reading_opened :: "(opened \<Rightarrow> 'r list) \<Rightarrow> opened \<Rightarrow> string + 'r list" where
  "reading_opened sel d = (case op_broken d of Some e \<Rightarrow> Inl e | None \<Rightarrow> Inr (sel d))"

definition count_active :: "time \<Rightarrow> opened \<Rightarrow> scrappy_error + nat" where
  "count_active now d = ebind (store_fetch (reading_opened op_credentials) (at_rest d)) (store_count_active now)"

definition count_active_credentials :: "'m doctor_host \<Rightarrow> settings \<Rightarrow> fs \<Rightarrow> nat option \<times> fs" where
  "count_active_credentials h s f = (case open_database h s f of
     (Inl e, f1) \<Rightarrow> (None, f1)
   | (Inr d, f1) \<Rightarrow> (case count_active (dh_now h) d of Inl e \<Rightarrow> (None, f1) | Inr n \<Rightarrow> (Some n, f1)))"

text \<open>\<open>_safely\<close>: the text of an exception, with its class, becomes a failure of the check.\<close>

definition safely :: "string \<Rightarrow> (string + check_result) \<times> fs \<Rightarrow> check_result \<times> fs" where
  "safely n r = (case r of
     (Inr c, f) \<Rightarrow> (c, f)
   | (Inl exc, f) \<Rightarrow> (fails n exc ''This is unexpected; please report it with the message above.'', f))"

text \<open>What reading the store raises: its own error, or the validation of a row that is no credential, whose text is abridged.\<close>

definition store_raised :: "scrappy_error \<Rightarrow> string" where
  "store_raised e = (case e of StoreError m \<Rightarrow> ''StoreError: '' | _ \<Rightarrow> ''ValidationError: '') @ err_message e"

section \<open>The checks\<close>

definition check_python :: "'m doctor_host \<Rightarrow> check_result" where
  "check_python h =
     (let (major, minor, micro) = dh_python h; rendered = str_nat major @ ''.'' @ str_nat minor @ ''.'' @ str_nat micro in
      if major < 3 \<or> major = 3 \<and> minor < 12 then
        fails ''python'' (''Python '' @ rendered @ '' is too old'') ''Scrappy OS needs Python 3.12 or newer.''
      else passes ''python'' (''Python '' @ rendered @ '', scrappy-os '' @ SCRAPPY_VERSION))"

definition check_settings :: "settings \<Rightarrow> check_result" where
  "check_settings s =
     (if model_provider s = OPENAI \<and> openai_api_key s = None then
        fails ''configuration'' (''provider is '' @ py_repr ''openai'' @ '' but OPENAI_API_KEY is not set'')
          ''Set OPENAI_API_KEY in .env, or set SCRAPPY_MODEL_PROVIDER=ollama or mock.''
      else if seconds 3600 < max_task_seconds s then
        warns ''configuration'' (''max_task_seconds is '' @ str_whole_seconds (max_task_seconds s))
          ''A task budget over an hour weakens the runaway-loop protection.''
      else passes ''configuration'' (''provider='' @ provider_value (model_provider s) @ '' model='' @ model_name s @
          '' max_steps='' @ str_nat (max_plan_steps s) @ '' max_risk='' @ risk_value (default_max_risk s)))"

definition check_data_dir :: "'m doctor_host \<Rightarrow> settings \<Rightarrow> fs \<Rightarrow> (string + check_result) \<times> fs" where
  "check_data_dir h s f =
     (let p = data_dir s; shown = str_ppath p in
      case mkdir_path (dh_os h) p f of
        (Some e, f1) \<Rightarrow> (Inr (fails ''data directory'' (''cannot create '' @ shown @ '': '' @ os_text e)
            ''Set SCRAPPY_DATA_DIR to a directory this user can write to.''), f1)
      | (None, f1) \<Rightarrow>
          if \<not> dh_writable h f1 p then
            (Inr (fails ''data directory'' (shown @ '' is not writable'') (''chown this directory to the user running Scrappy OS: '' @ shown)), f1)
          else (case stat_mode (dh_os h) f1 p of
              Inl exc \<Rightarrow> (Inl exc, f1)
            | Inr mode \<Rightarrow>
                if mode mod 64 \<noteq> 0 then
                  (Inr (warns ''data directory'' (shown @ '' is mode '' @ oct_text mode) (''The audit trail lives here. Tighten it: chmod 700 '' @ shown)), f1)
                else (Inr (passes ''data directory'' (shown @ '' (mode '' @ oct_text mode @ '')'')), f1)))"

definition dangerous :: "path list" where
  "dangerous = [[], [''etc''], [''usr''], [''var''], [''home''], [''root'']]"

text \<open>\<open>resolve\<close> raises where links run in a circle.\<close>

definition link_loop :: "string \<Rightarrow> string" where
  "link_loop shown = ''RuntimeError: Symlink loop from '' @ py_repr shown"

definition check_workspace :: "'m doctor_host \<Rightarrow> settings \<Rightarrow> fs \<Rightarrow> (string + check_result) \<times> fs" where
  "check_workspace h s f =
     (let p = workspace s; shown = str_ppath p in
      case mkdir_path (dh_os h) p f of
        (Some e, f1) \<Rightarrow> (Inr (fails ''workspace'' (''cannot create '' @ shown @ '': '' @ os_text e)
            ''Set SCRAPPY_WORKSPACE to a directory this user can write to.''), f1)
      | (None, f1) \<Rightarrow>
          (case resolve_path f1 p of
             None \<Rightarrow> (Inl (link_loop shown), f1)
           | Some q \<Rightarrow>
               if q \<in> set dangerous then
                 (Inr (fails ''workspace'' (''workspace is '' @ str_path q @ '', which makes WRITE operations unrestricted'')
                    ''Point SCRAPPY_WORKSPACE at a dedicated directory.''), f1)
               else (Inr (passes ''workspace'' (str_path q @ '' (writes confined here)'')), f1)))"

text \<open>The roots with their home directories put in, each lookup of which may raise; the ones that do not exist.\<close>

fun expanded_roots :: "fs \<Rightarrow> ppath list \<Rightarrow> string + ppath list" where
  "expanded_roots f [] = Inr []"
| "expanded_roots f (p # ps) = (case expanduser f p of
     None \<Rightarrow> Inl ''RuntimeError: Could not determine home directory.''
   | Some q \<Rightarrow> ebind (expanded_roots f ps) (\<lambda>qs. Inr (q # qs)))"

fun resolved_roots :: "fs \<Rightarrow> ppath list \<Rightarrow> string + path list" where
  "resolved_roots f [] = Inr []"
| "resolved_roots f (p # ps) = (case resolve_path f p of
     None \<Rightarrow> Inl (link_loop (str_ppath p))
   | Some q \<Rightarrow> ebind (resolved_roots f ps) (\<lambda>qs. Inr (q # qs)))"

fun missing_roots :: "os \<Rightarrow> fs \<Rightarrow> ppath list \<Rightarrow> string + string list" where
  "missing_roots os f [] = Inr []"
| "missing_roots os f (p # ps) = ebind (exists_or_raises os f p) (\<lambda>there.
     ebind (missing_roots os f ps) (\<lambda>ms. Inr (if there then ms else str_ppath p # ms)))"

definition check_read_roots :: "'m doctor_host \<Rightarrow> settings \<Rightarrow> fs \<Rightarrow> string + check_result" where
  "check_read_roots h s f =
     ebind (expanded_roots f (allowed_read_roots s)) (\<lambda>roots.
       if roots = [] then
         Inr (warns ''read roots'' ''no read roots configured; only the workspace is readable''
           ''Set SCRAPPY_ALLOWED_READ_ROOTS if the agent needs to inspect /etc or /var/log.'')
       else ebind (resolved_roots f roots) (\<lambda>resolved.
         if [] \<in> set resolved then
           Inr (warns ''read roots'' (py_repr ''/'' @ '' is an allowed read root, so every readable file on the host is in scope'')
             ''Narrow SCRAPPY_ALLOWED_READ_ROOTS to the directories actually needed.'')
         else ebind (missing_roots (dh_os h) f roots) (\<lambda>missing.
           let detail = py_join '', '' (map str_ppath roots) in
           if missing \<noteq> [] then
             Inr (warns ''read roots'' (detail @ '' (missing: '' @ py_join '', '' missing @ '')'') ''Remove paths that do not exist on this host.'')
           else Inr (passes ''read roots'' detail))))"

definition bind_address :: "settings \<Rightarrow> string" where
  "bind_address s = api_host s @ '':'' @ str_int (api_port s)"

definition check_privileges :: "'m doctor_host \<Rightarrow> settings \<Rightarrow> check_result" where
  "check_privileges h s =
     (if dh_euid h \<noteq> 0 then passes ''privileges'' (''running as uid '' @ str_nat (dh_euid h) @ '' (unprivileged)'')
      else if \<not> api_is_local_only s then
        fails ''privileges'' (''running as root AND the API binds '' @ bind_address s @ '', which is reachable off this host'')
          (''This combination is an unauthenticated remote root control plane. '' @
           ''Set SCRAPPY_API_HOST=127.0.0.1 and run as a dedicated account (deploy/README.md) before giving this instance any work.'')
      else warns ''privileges'' ''running as root; the policy engine is the only thing confining generated actions''
          (''Run as a dedicated unprivileged account - see deploy/README.md. '' @ ''The shipped systemd unit already does this.''))"

section \<open>The API\<close>

definition some_stored :: "nat option \<Rightarrow> bool" where
  "some_stored stored \<longleftrightarrow> stored \<noteq> None \<and> stored \<noteq> Some 0"

definition can_identify_a_caller :: "settings \<Rightarrow> nat option \<Rightarrow> bool" where
  "can_identify_a_caller s stored \<longleftrightarrow> api_auth_configured s \<or> some_stored stored"

definition stored_text :: "nat option \<Rightarrow> string" where
  "stored_text stored = (case stored of None \<Rightarrow> [] | Some n \<Rightarrow> str_nat n @ '' stored credential(s)'')"

definition describe_identity_sources :: "settings \<Rightarrow> nat option \<Rightarrow> string" where
  "describe_identity_sources s stored =
     (if stored = None then ''credential count unavailable''
      else let parts = (if api_auth_configured s then [''SCRAPPY_API_TOKEN set''] else []) @ (if some_stored stored then [stored_text stored] else [])
        in if parts = [] then ''no credential'' else py_join '', '' parts)"

definition check_api_binding :: "settings \<Rightarrow> nat option \<Rightarrow> check_result" where
  "check_api_binding s stored =
     (if \<not> api_is_local_only s \<and> \<not> can_identify_a_caller s stored then
        fails ''api binding''
          (''API binds '' @ bind_address s @ '' - reachable off this host - and nothing can authenticate, so no caller can be identified'')
          (''Issue a credential with `scrappy token create`, or bind loopback with SCRAPPY_API_HOST=127.0.0.1. '' @
           ''Until then every authenticated endpoint refuses, so this instance is exposed and useless at the same time.'')
      else if api_is_local_only s then
        passes ''api binding'' (bind_address s @ '' (local only, '' @ describe_identity_sources s stored @ '')'')
      else warns ''api binding'' (''API binds '' @ bind_address s @ '', reachable off this host; bearer authentication is configured'')
          (''A bearer token is a shared secret sent on every request: it is replayable if intercepted and it does not '' @
           ''authenticate the server to the client. Terminate TLS in front of this, or bind loopback and reach it over SSH.''))"

definition MIN_TOKEN_LENGTH :: nat where
  "MIN_TOKEN_LENGTH = 16"

definition generate_command :: string where
  "generate_command = ''python -c \"import secrets; print(secrets.token_urlsafe(32))\"''"

definition check_api_authentication :: "settings \<Rightarrow> nat option \<Rightarrow> scrappy_error + check_result" where
  "check_api_authentication s stored =
     (let n = ''api authentication''; len = (case api_token s of None \<Rightarrow> 0 | Some t \<Rightarrow> length t) in
      if some_stored stored then
        Inr (if api_auth_configured s then
               warns n (stored_text stored @ '' can authenticate; SCRAPPY_API_TOKEN is also set and still accepted'')
                 (''The legacy token has no expiry and needs a restart to withdraw. '' @ ''Once every client is on an issued credential, unset it.'')
             else passes n (stored_text stored @ '' can authenticate''))
      else if \<not> api_auth_configured s then
        Inr (if api_is_local_only s then
               warns n (''nothing can authenticate; every authenticated endpoint will refuse '' @ ''(the API is loopback-only, so nothing is exposed)'')
                 (''Run `scrappy token create` to use the HTTP API. '' @ ''The CLI works without one - it drives the runtime in-process.'')
             else fails n ''nothing can authenticate; every authenticated endpoint will refuse''
                 ''Issue a credential with `scrappy token create` before binding a non-loopback address.'')
      else if len < MIN_TOKEN_LENGTH then
        Inr (if \<not> api_is_local_only s then
               fails n (''SCRAPPY_API_TOKEN is only '' @ str_nat len @ '' characters and the API binds '' @ bind_address s @ '', reachable off this host'')
                 (''A token this short is brute-forceable. Use at least '' @ str_nat MIN_TOKEN_LENGTH @ '' characters from `'' @ generate_command @
                  ''`, or bind loopback with SCRAPPY_API_HOST=127.0.0.1.'')
             else warns n (''SCRAPPY_API_TOKEN is only '' @ str_nat len @ '' characters'')
                 (''Use at least '' @ str_nat MIN_TOKEN_LENGTH @ '', ideally from `'' @ generate_command @ ''`.''))
      else ebind (api_token_scopes s) (\<lambda>granted. let scopes = scope_names granted in
        Inr (passes n (''bearer token configured for actor '' @ py_repr (api_token_actor_id s) @ '' with '' @ str_nat (length scopes) @
          '' scope(s): '' @ py_join '', '' scopes))))"

section \<open>Shell, binaries, tools\<close>

definition check_shell_config :: "settings \<Rightarrow> check_result" where
  "check_shell_config s =
     (let allowed = shell_allowlist s; denied = shell_denylist s; overlap = sort (remdups (filter (\<lambda>c. c \<in> set denied) allowed)) in
      if allowed = [] then passes ''shell tool'' ''disabled (empty allowlist)''
      else if overlap \<noteq> [] then
        warns ''shell tool'' (py_join '', '' overlap @ '' appear on both lists; the denylist wins'')
          ''Remove them from SCRAPPY_SHELL_ALLOWLIST to make the intent clear.''
      else passes ''shell tool'' (str_nat (length allowed) @ '' allowed, '' @ str_nat (length denied) @ '' denied, timeout '' @
          str_whole_seconds (shell_timeout_seconds s) @ ''s''))"

definition check_optional_binaries :: "'m doctor_host \<Rightarrow> check_result" where
  "check_optional_binaries h =
     (let optional = [''git'', ''systemctl'', ''journalctl'', ''docker'']; found = filter (dh_which h) optional;
          missing = filter (\<lambda>n. n \<notin> set found) optional in
      passes ''optional tools''
        (''available: '' @ (if found = [] then ''none'' else py_join '', '' found) @
         (if missing = [] then [] else ''; unavailable: '' @ py_join '', '' missing)))"

definition check_tools :: "'w registry \<Rightarrow> check_result" where
  "check_tools r =
     (let enabled = enabled_tools r; read_only = filter (\<lambda>t. tl_risk t = READ) enabled in
      passes ''tool registry'' (str_nat (length enabled) @ '' tools registered ('' @ str_nat (length read_only) @ '' read-only), '' @
        str_nat (length (rg_disabled r)) @ '' disabled''))"

section \<open>Database, credentials, provider\<close>

definition check_database :: "'m doctor_host \<Rightarrow> settings \<Rightarrow> fs \<Rightarrow> (string + check_result) \<times> fs" where
  "check_database h s f = (case open_database h s f of
     (Inl e, f1) \<Rightarrow> (Inl (store_raised e), f1)
   | (Inr d, f1) \<Rightarrow>
       (let (ok, detail) = store_health (str_ppath (db_path s)) (reading_opened op_version) (at_rest d) in
        if ok then (Inr (passes ''database'' detail), f1)
        else (Inr (fails ''database'' detail (''Check permissions on '' @ str_ppath (db_path s) @ '', or remove it to recreate the schema.'')), f1)))"

definition pepper_ppath :: "settings \<Rightarrow> ppath" where
  "pepper_ppath s = PPath (p_abs (data_dir s)) (p_parts (data_dir s) @ [PEPPER_FILENAME])"

definition pepper_from_environment :: "settings \<Rightarrow> bool" where
  "pepper_from_environment s = (case token_pepper s of None \<Rightarrow> False | Some t \<Rightarrow> py_strip t \<noteq> [])"

definition judge_pepper :: "os \<Rightarrow> settings \<Rightarrow> string \<Rightarrow> fs \<Rightarrow> string + check_result" where
  "judge_pepper os s summary f =
     (let p = pepper_ppath s; n = ''credentials'' in
      if pepper_from_environment s then Inr (passes n (summary @ ''; pepper from SCRAPPY_TOKEN_PEPPER (environment)''))
      else ebind (exists_or_raises os f p) (\<lambda>there.
        if \<not> there then
          Inr (warns n (summary @ ''; no token pepper yet - one will be generated in the data directory on first use'')
            (''Set SCRAPPY_TOKEN_PEPPER before issuing credentials. '' @
             ''Introducing it later invalidates every credential issued under the generated one.''))
        else ebind (stat_mode os f p) (\<lambda>mode.
          if mode \<noteq> 384 then
            Inr (fails n (summary @ ''; token pepper at '' @ str_ppath p @ '' is mode '' @ oct_text mode @ '', not 0o600 - readable beyond its owner'')
              (''chmod 600 '' @ str_ppath p @ ''. Anything that can read the pepper and the database together can test guessed tokens offline.''))
          else Inr (warns n (summary @ ''; token pepper generated in the data directory, beside the database it protects'')
              (''Set SCRAPPY_TOKEN_PEPPER so the key lives outside the data directory. As it stands, one stolen directory '' @
               ''yields both the verifiers and the key needed to test guesses against them.'')))))"

definition check_credentials :: "'m doctor_host \<Rightarrow> settings \<Rightarrow> fs \<Rightarrow> (string + check_result) \<times> fs" where
  "check_credentials h s f = (case open_database h s f of
     (Inl e, f1) \<Rightarrow> (Inl (store_raised e), f1)
   | (Inr d, f1) \<Rightarrow> (case count_active (dh_now h) d of
        Inl e \<Rightarrow> (Inl (store_raised e), f1)
      | Inr active \<Rightarrow> (judge_pepper (dh_os h) s (str_nat active @ '' active credential(s)'') f1, f1)))"

definition check_provider :: "'m wire \<Rightarrow> built_provider \<Rightarrow> 'm \<Rightarrow> check_result \<times> 'm" where
  "check_provider w p m =
     (let (health, m1) = router_health w p m; n = ''model provider''; name = pi_name (info_of p) in
      ((if is_development_provider p then
         warns n ''using the deterministic development provider; no model is being consulted'' ''Set SCRAPPY_MODEL_PROVIDER=openai or ollama for real reasoning.''
       else if \<not> ph_healthy health then
         fails n (name @ '': '' @ ph_detail health) ''Fix connectivity or credentials, or switch SCRAPPY_MODEL_PROVIDER=mock to work offline.''
       else passes n (name @ '': '' @ ph_detail health @
         (case ph_latency_ms health of None \<Rightarrow> [] | Some t \<Rightarrow> if t = 0 then [] else '' ('' @ whole (of_int t / 1000) @ ''ms)''))), m1))"

section \<open>The whole run\<close>

text \<open>The directories, in order; then the checks that read; \<open>Inl\<close> is the exception that ends the command.\<close>

definition local_checks :: "'m doctor_host \<Rightarrow> settings \<Rightarrow> nat option \<Rightarrow> fs \<Rightarrow> (string + check_result list) \<times> fs" where
  "local_checks h s stored f =
     (case check_data_dir h s f of
        (Inl exc, f1) \<Rightarrow> (Inl exc, f1)
      | (Inr c1, f1) \<Rightarrow>
          (case check_workspace h s f1 of
             (Inl exc, f2) \<Rightarrow> (Inl exc, f2)
           | (Inr c2, f2) \<Rightarrow>
               (case check_read_roots h s f2 of
                  Inl exc \<Rightarrow> (Inl exc, f2)
                | Inr c3 \<Rightarrow>
                    (case check_api_authentication s stored of
                       Inl e \<Rightarrow> (Inl (err_message e), f2)
                     | Inr c4 \<Rightarrow> (Inr [check_python h, check_settings s, c1, c2, c3, check_privileges h s, check_api_binding s stored, c4,
                         check_shell_config s, check_optional_binaries h], f2)))))"

definition run_doctor ::
  "'m doctor_host \<Rightarrow> settings \<Rightarrow> 'w registry option \<Rightarrow> bool \<Rightarrow> fs \<times> 'm \<Rightarrow> (string + check_result list) \<times> fs \<times> 'm" where
  "run_doctor h s registry0 probing st =
     (let (f, m) = st; (stored, f1) = count_active_credentials h s f in
      case local_checks h s stored f1 of
        (Inl exc, f2) \<Rightarrow> (Inl exc, (f2, m))
      | (Inr cs, f2) \<Rightarrow>
          (let (c1, f3) = safely ''database'' (check_database h s f2); (c2, f4) = safely ''credentials'' (check_credentials h s f3);
               rs = cs @ [c1, c2] @ (case registry0 of None \<Rightarrow> [] | Some r \<Rightarrow> [check_tools r]) in
           if \<not> probing then (Inr rs, (f4, m))
           else (case build_provider PROVIDER_FACTORIES s of
               Inl e \<Rightarrow> (Inl (err_message e), (f4, m))
             | Inr p \<Rightarrow> (let (c3, m1) = check_provider (dh_wire h) p m in (Inr (rs @ [c3]), (f4, m1))))))"

section \<open>Lemmas\<close>

text \<open>When each check does not fail.\<close>

named_theorems check_verdicts

lemma check_ok_results [simp]: "check_ok (passes n d)" "check_ok (warns n d r)" "\<not> check_ok (fails n d r)"
  by (simp_all add: check_ok_def passes_def warns_def fails_def)

lemma python_ok [check_verdicts]:
  "check_ok (check_python h) \<longleftrightarrow> (case dh_python h of (major, minor, micro) \<Rightarrow> 3 < major \<or> major = 3 \<and> 12 \<le> minor)"
  by (auto simp: check_python_def Let_def split: prod.split)

lemma settings_ok [check_verdicts]: "check_ok (check_settings s) \<longleftrightarrow> (model_provider s = OPENAI \<longrightarrow> openai_api_key s \<noteq> None)"
  by (simp add: check_settings_def)

lemma privileges_ok [check_verdicts]: "check_ok (check_privileges h s) \<longleftrightarrow> dh_euid h \<noteq> 0 \<or> api_is_local_only s"
  by (simp add: check_privileges_def)

lemma binding_ok: "check_ok (check_api_binding s stored) \<longleftrightarrow> api_is_local_only s \<or> can_identify_a_caller s stored"
  by (simp add: check_api_binding_def)

lemma authentication_ok:
  "check_api_authentication s stored = Inr c \<Longrightarrow>
     check_ok c \<longleftrightarrow> api_is_local_only s \<or> some_stored stored \<or> api_auth_configured s \<and> (\<exists>t. api_token s = Some t \<and> 16 \<le> length t)"
  by (auto simp: check_api_authentication_def Let_def api_auth_configured_def MIN_TOKEN_LENGTH_def ebind_def
      split: if_splits option.splits sum.splits)

text \<open>The check of the binding adds nothing to the one of the authentication.\<close>

lemma api_checks_ok:
  "check_api_authentication s stored = Inr c \<Longrightarrow>
     check_ok (check_api_binding s stored) \<and> check_ok c \<and> rest \<longleftrightarrow>
     (api_is_local_only s \<or> some_stored stored \<or> api_auth_configured s \<and> (\<exists>t. api_token s = Some t \<and> 16 \<le> length t)) \<and> rest"
  by (auto simp: binding_ok authentication_ok can_identify_a_caller_def)

lemma quiet_checks_ok [check_verdicts]: "check_ok (check_shell_config s)" "check_ok (check_optional_binaries h)" "check_ok (check_tools r)"
  by (simp_all add: check_shell_config_def check_optional_binaries_def check_tools_def Let_def)

lemma read_roots_ok [check_verdicts]: "check_read_roots h s f = Inr c \<Longrightarrow> check_ok c"
  by (auto simp: check_read_roots_def Let_def ebind_def split: sum.splits if_splits)

lemma provider_ok [check_verdicts]:
  "check_ok (fst (check_provider w p m)) \<longleftrightarrow> is_development_provider p \<or> ph_healthy (fst (router_health w p m))"
  by (simp add: check_provider_def Let_def split: prod.split)

lemma data_dir_ok:
  assumes "check_data_dir h s f = (Inr c, f')"
  shows "f' = snd (mkdir_path (dh_os h) (data_dir s) f)
    \<and> (check_ok c \<longleftrightarrow> fst (mkdir_path (dh_os h) (data_dir s) f) = None \<and> dh_writable h f' (data_dir s))"
  using assms by (auto simp: check_data_dir_def Let_def split: prod.splits option.splits sum.splits if_splits)

lemma workspace_ok:
  assumes "check_workspace h s f = (Inr c, f')"
  shows "f' = snd (mkdir_path (dh_os h) (workspace s) f)
    \<and> (check_ok c \<longleftrightarrow> fst (mkdir_path (dh_os h) (workspace s) f) = None \<and> (\<exists>q. resolve_path f' (workspace s) = Some q \<and> q \<notin> set dangerous))"
  using assms by (auto simp: check_workspace_def Let_def split: prod.splits option.splits if_splits)

lemma safely_ok: "check_ok (fst (safely n r)) \<longleftrightarrow> (\<exists>c. fst r = Inr c \<and> check_ok c)" "snd (safely n r) = snd r"
  by (auto simp: safely_def split: prod.split sum.split)

lemma snd_check_database: "snd (check_database h s f) = snd (open_database h s f)"
  by (auto simp: check_database_def Let_def split: prod.split sum.split)

lemma snd_check_credentials: "snd (check_credentials h s f) = snd (open_database h s f)"
  by (auto simp: check_credentials_def split: prod.split sum.split)

definition database_answers :: "'m doctor_host \<Rightarrow> settings \<Rightarrow> fs \<Rightarrow> bool" where
  "database_answers h s f \<longleftrightarrow> (case fst (open_database h s f) of Inl e \<Rightarrow> False | Inr d \<Rightarrow> op_broken d = None \<and> op_version d \<noteq> [])"

lemma database_ok: "(\<exists>c. fst (check_database h s f) = Inr c \<and> check_ok c) \<longleftrightarrow> database_answers h s f"
  by (auto simp: check_database_def database_answers_def store_health_def store_fetch_def reading_opened_def at_rest_def not_connected_def
      split: prod.split sum.split option.split list.split)

text \<open>A pepper from the environment, none yet, or a file no one else can read.\<close>

definition pepper_in_order :: "os \<Rightarrow> settings \<Rightarrow> fs \<Rightarrow> bool" where
  "pepper_in_order os s f \<longleftrightarrow> pepper_from_environment s \<or> exists_or_raises os f (pepper_ppath s) = Inr False
     \<or> exists_or_raises os f (pepper_ppath s) = Inr True \<and> stat_mode os f (pepper_ppath s) = Inr 384"

lemma judge_pepper_ok: "(\<exists>c. judge_pepper os s t f = Inr c \<and> check_ok c) \<longleftrightarrow> pepper_in_order os s f"
  by (auto simp: judge_pepper_def pepper_in_order_def Let_def ebind_def split: sum.splits)

definition credentials_in_order :: "'m doctor_host \<Rightarrow> settings \<Rightarrow> fs \<Rightarrow> bool" where
  "credentials_in_order h s f \<longleftrightarrow> (case open_database h s f of
     (Inl e, f1) \<Rightarrow> False | (Inr d, f1) \<Rightarrow>
       op_broken d = None \<and> list_all (\<lambda>r. credential_valid (stored_fields r)) (op_credentials d) \<and> pepper_in_order (dh_os h) s f1)"

lemma count_active_cases:
  "count_active now d = (case op_broken d of Some e \<Rightarrow> Inl (StoreError (''Read failed: '' @ e)) | None \<Rightarrow> store_count_active now (op_credentials d))"
  by (simp add: count_active_def store_fetch_def reading_opened_def at_rest_def ebind_def split: option.split)

lemma count_active_reads: "(\<exists>n. store_count_active now rows = Inr n) \<longleftrightarrow> list_all (\<lambda>r. credential_valid (stored_fields r)) rows"
  by (auto simp: store_count_active_def store_list_def rows_read list_all_iff)

lemma credentials_ok: "(\<exists>c. fst (check_credentials h s f) = Inr c \<and> check_ok c) \<longleftrightarrow> credentials_in_order h s f"
proof (cases "open_database h s f")
  case (Pair r f1)
  show ?thesis
  proof (cases r)
    case (Inr d)
    show ?thesis
    proof (cases "\<exists>n. count_active (dh_now h) d = Inr n")
      case True
      then obtain n where n: "count_active (dh_now h) d = Inr n" by blast
      then have "op_broken d = None" "list_all (\<lambda>r. credential_valid (stored_fields r)) (op_credentials d)"
        using count_active_reads [of "dh_now h" "op_credentials d"] by (auto simp: count_active_cases split: option.splits)
      with Pair Inr n judge_pepper_ok show ?thesis by (simp add: check_credentials_def credentials_in_order_def)
    next
      case False
      then have "\<not> (op_broken d = None \<and> list_all (\<lambda>r. credential_valid (stored_fields r)) (op_credentials d))"
        using count_active_reads [of "dh_now h" "op_credentials d"] by (auto simp: count_active_cases)
      with False Pair Inr show ?thesis by (cases "count_active (dh_now h) d") (auto simp: check_credentials_def credentials_in_order_def)
    qed
  qed (simp add: Pair check_credentials_def credentials_in_order_def)
qed

text \<open>A check that raises outside \<open>_safely\<close> ends the command without a report.\<close>

lemma escaping_check_ends_doctor:
  assumes "local_checks h s (fst (count_active_credentials h s f)) (snd (count_active_credentials h s f)) = (Inl exc, f2)"
  shows "fst (run_doctor h s r probing (f, m)) = Inl exc"
  using assms by (simp add: run_doctor_def split_beta)

lemma unknown_home_escapes:
  assumes "expanded_roots f2 (allowed_read_roots s) = Inl exc" "check_data_dir h s f = (Inr c1, f1)" "check_workspace h s f1 = (Inr c2, f2)"
  shows "local_checks h s stored f = (Inl exc, f2)"
  using assms by (simp add: local_checks_def check_read_roots_def ebind_def)

text \<open>What a run may do to the files outside a set: make directories where nothing was.\<close>

definition makes_dirs_outside :: "path set \<Rightarrow> fs \<Rightarrow> fs \<Rightarrow> bool" where
  "makes_dirs_outside D f f' \<longleftrightarrow> (\<forall>q. q \<notin> D \<longrightarrow> nodes f' q = nodes f q \<or> nodes f q = None \<and> nodes f' q = Some Dir)"

lemma makes_refl [simp]: "makes_dirs_outside D f f"
  by (simp add: makes_dirs_outside_def)

lemma makes_trans: "makes_dirs_outside D f g \<Longrightarrow> makes_dirs_outside D g h \<Longrightarrow> makes_dirs_outside D f h"
  unfolding makes_dirs_outside_def by (metis option.distinct(1))

lemma makes_mkdir: "makes_dirs_outside D f (snd (mkdir_path os p f))"
  using mkdir_path_dirs [of f os p] by (simp add: makes_dirs_outside_def only_dirs_made_def)

definition sqlite_within :: "path set \<Rightarrow> 'm doctor_host \<Rightarrow> bool" where
  "sqlite_within D h \<longleftrightarrow> (\<forall>g q. q \<notin> D \<longrightarrow> nodes (snd (dh_sqlite h g)) q = nodes g q)"

lemma makes_open: "sqlite_within D h \<Longrightarrow> makes_dirs_outside D f (snd (open_database h s f))"
proof -
  assume w: "sqlite_within D h"
  have "makes_dirs_outside D g (snd (dh_sqlite h g))" for g using w by (simp add: makes_dirs_outside_def sqlite_within_def)
  with makes_mkdir [of D f "dh_os h" "data_dir s"] show ?thesis
    by (auto simp: open_database_def split: prod.split option.split sum.split intro: makes_trans) (metis makes_trans snd_conv)+
qed

lemma makes_count: "sqlite_within D h \<Longrightarrow> makes_dirs_outside D f (snd (count_active_credentials h s f))"
  using makes_open [of D h f s] by (auto simp: count_active_credentials_def split: prod.split sum.split)

lemma makes_local: "makes_dirs_outside D f (snd (local_checks h s stored f))"
proof -
  have one: "makes_dirs_outside D f (snd (check_data_dir h s f))" for f
    using makes_mkdir [of D f "dh_os h" "data_dir s"] by (auto simp: check_data_dir_def Let_def split: prod.split option.split sum.split)
  have two: "makes_dirs_outside D f (snd (check_workspace h s f))" for f
    using makes_mkdir [of D f "dh_os h" "workspace s"] by (auto simp: check_workspace_def Let_def split: prod.split option.split)
  obtain r1 f1 r2 f2 where steps: "check_data_dir h s f = (r1, f1)" "check_workspace h s f1 = (r2, f2)" by fastforce
  from one [of f] two [of f1] steps have "makes_dirs_outside D f f1" "makes_dirs_outside D f f2" by (auto intro: makes_trans)
  then show ?thesis by (auto simp: local_checks_def steps split: sum.split)
qed

lemma makes_doctor:
  assumes "sqlite_within D h"
  shows "makes_dirs_outside D f (fst (snd (run_doctor h s reg probing (f, m))))"
proof -
  obtain stored f1 r f2 where steps: "count_active_credentials h s f = (stored, f1)" "local_checks h s stored f1 = (r, f2)" by fastforce
  have f2: "makes_dirs_outside D f f2"
    using makes_trans [OF makes_count [OF assms, of f s] makes_local [of D _ h s stored]] steps by (metis snd_conv)
  have f3: "makes_dirs_outside D f (snd (open_database h s f2))" by (rule makes_trans [OF f2 makes_open [OF assms]])
  have f4: "makes_dirs_outside D f (snd (open_database h s (snd (open_database h s f2))))" by (rule makes_trans [OF f3 makes_open [OF assms]])
  show ?thesis
    using f2 f4 by (simp add: run_doctor_def steps split_beta safely_ok snd_check_database snd_check_credentials Let_def split: sum.split)
qed

section \<open>Properties\<close>

text \<open>
  C23. What a healthy report means. When \<open>doctor\<close> reports, it reports health exactly when: Python is at least
  3.12; OpenAI has its key; both directories are there or could be made, the data directory is
  writable and the workspace does not resolve to one of six system directories; root serves the
  loopback only; whoever can be reached from outside can tell callers apart, by a stored credential
  that is active or a token of sixteen characters; the database opens, answers and has its version, and
  every row of its credentials is one; the pepper is in the environment, not yet made, or in a file of mode 600; and the provider is the
  development one or answers its probe.
\<close>

theorem healthy_exactly_when:
  assumes "run_doctor h s (Some reg) True (f, m) = (Inr rs, st')"
  shows "let (stored, f1) = count_active_credentials h s f; (e2, f2) = mkdir_path (dh_os h) (data_dir s) f1;
       (e3, f3) = mkdir_path (dh_os h) (workspace s) f2; f4 = snd (open_database h s f3) in
     healthy_report rs \<longleftrightarrow>
       (case dh_python h of (major, minor, micro) \<Rightarrow> 3 < major \<or> major = 3 \<and> 12 \<le> minor)
     \<and> (model_provider s = OPENAI \<longrightarrow> openai_api_key s \<noteq> None)
     \<and> e2 = None \<and> dh_writable h f2 (data_dir s)
     \<and> e3 = None \<and> (\<exists>q. resolve_path f3 (workspace s) = Some q \<and> q \<notin> {[], [''etc''], [''usr''], [''var''], [''home''], [''root'']})
     \<and> (dh_euid h \<noteq> 0 \<or> api_is_local_only s)
     \<and> (api_is_local_only s \<or> some_stored stored \<or> api_auth_configured s \<and> (\<exists>t. api_token s = Some t \<and> 16 \<le> length t))
     \<and> database_answers h s f3 \<and> credentials_in_order h s f4
     \<and> (model_provider s = MOCK \<or> (\<exists>p. build_provider PROVIDER_FACTORIES s = Inr p \<and> ph_healthy (fst (router_health (dh_wire h) p m))))"
proof -
  obtain stored f1 where n: "count_active_credentials h s f = (stored, f1)" by fastforce
  obtain e2 f2 where m2: "mkdir_path (dh_os h) (data_dir s) f1 = (e2, f2)" by fastforce
  obtain e3 f3 where m3: "mkdir_path (dh_os h) (workspace s) f2 = (e3, f3)" by fastforce
  obtain r f' where l: "local_checks h s stored f1 = (r, f')" by fastforce
  from assms n l obtain cs where cs: "r = Inr cs" by (cases r) (auto simp: run_doctor_def)
  from l cs obtain c1 c2 c3 c4 g1 where parts: "check_data_dir h s f1 = (Inr c1, g1)" "check_workspace h s g1 = (Inr c2, f')"
      "check_read_roots h s f' = Inr c3" "check_api_authentication s stored = Inr c4"
      "cs = [check_python h, check_settings s, c1, c2, c3, check_privileges h s, check_api_binding s stored, c4,
        check_shell_config s, check_optional_binaries h]"
    by (auto simp: local_checks_def split: prod.splits sum.splits)
  have d: "g1 = f2" "check_ok c1 \<longleftrightarrow> e2 = None \<and> dh_writable h f2 (data_dir s)" using data_dir_ok [OF parts(1)] m2 by auto
  have w: "f' = f3" "check_ok c2 \<longleftrightarrow> e3 = None \<and> (\<exists>q. resolve_path f3 (workspace s) = Some q \<and> q \<notin> set dangerous)"
    using workspace_ok [OF parts(2)] m3 d(1) by auto
  let ?db = "safely ''database'' (check_database h s f3)"
  let ?cr = "safely ''credentials'' (check_credentials h s (snd (open_database h s f3)))"
  have db: "check_ok (fst ?db) \<longleftrightarrow> database_answers h s f3" "snd ?db = snd (open_database h s f3)"
    by (simp_all add: safely_ok database_ok snd_check_database)
  have cr: "check_ok (fst ?cr) \<longleftrightarrow> credentials_in_order h s (snd (open_database h s f3))" by (simp add: safely_ok credentials_ok)
  obtain p where p: "build_provider PROVIDER_FACTORIES s = Inr p" "is_development_provider p \<longleftrightarrow> model_provider s = MOCK"
    by (cases "model_provider s")
      (simp_all add: build_provider_def PROVIDER_FACTORIES_def is_development_provider_def mock_info_def openai_info_def ollama_info_def)
  have rs: "rs = cs @ [fst ?db, fst ?cr, check_tools reg, fst (check_provider (dh_wire h) p m)]"
    using assms by (simp add: run_doctor_def n l cs w(1) p(1) split_beta db(2))
  show ?thesis
    unfolding n m2 m3 Let_def prod.case rs healthy_report_def parts(5)
    by (simp add: check_verdicts db cr d(2) w(2) read_roots_ok [OF parts(3)] api_checks_ok [OF parts(4)] p dangerous_def)
qed

text \<open>An unprivileged account, directories that are there, an empty database, and no pepper yet.\<close>

definition example_dirs :: fs where
  "example_dirs = \<lparr>nodes = map_of [([], Dir), ([''data''], Dir), ([''work''], Dir)], cwd = [], home_of = (\<lambda>u. None), link_budget = 40\<rparr>"

definition example_host :: "unit doctor_host" where
  "example_host = \<lparr>dh_os = willing_os, dh_writable = (\<lambda>f p. True), dh_python = (3, 12, 4), dh_euid = 1000, dh_which = (\<lambda>n. False),
     dh_sqlite = (\<lambda>f. (Inr \<lparr>op_credentials = [], op_version = [''3''], op_broken = None\<rparr>, f)), dh_now = 0,
     dh_wire = \<lparr>w_post = (\<lambda>rq m. (W_error [], 0, m)), w_get = (\<lambda>rq m. (W_error [], 0, m)), w_int = (\<lambda>v. None)\<rparr>\<rparr>"

definition example_settings :: settings where
  "example_settings = default_settings\<lparr>data_dir := PPath True [''data''], workspace := PPath True [''work''], allowed_read_roots_raw := []\<rparr>"

lemma example_mkdir:
  "mkdir_path willing_os (PPath True [''data'']) example_dirs = (None, example_dirs)"
  "mkdir_path willing_os (PPath True [''work'']) example_dirs = (None, example_dirs)"
  by (simp_all add: evaluate_mkdir example_dirs_def)

lemma willing_answers [simp]: "os_fault willing_os c q = None" "st_mode (os_stat willing_os g q) = 448"
  by (simp_all add: willing_os_def)

lemma example_fields:
  "dh_os example_host = willing_os" "dh_writable example_host g q" "dh_sqlite example_host g = (Inr \<lparr>op_credentials = [], op_version = [''3''], op_broken = None\<rparr>, g)"
  "dh_python example_host = (3, 12, 4)" "dh_euid example_host = 1000"
  "data_dir example_settings = PPath True [''data'']" "workspace example_settings = PPath True [''work'']"
  "model_provider example_settings = MOCK" "api_is_local_only example_settings" "api_token example_settings = None" "token_pepper example_settings = None"
  "allowed_read_roots example_settings = []"
  by (simp_all add: example_host_def example_settings_def default_settings_def api_is_local_only_def allowed_read_roots_def split_csv_def
      py_strip_def)

lemma example_database:
  "open_database example_host example_settings example_dirs = (Inr \<lparr>op_credentials = [], op_version = [''3''], op_broken = None\<rparr>, example_dirs)"
  by (simp add: open_database_def example_fields example_mkdir)

lemma example_resolves:
  "resolve_path example_dirs (PPath True [''data'']) = Some [''data'']" "resolve_path example_dirs (PPath True [''work'']) = Some [''work'']"
  "resolve_path example_dirs (PPath True [''data'', ''token_pepper'']) = Some [''data'', ''token_pepper'']"
  by (simp_all add: resolve_path_def example_dirs_def)

theorem healthy_exactly_when_witness:
  "\<exists>rs. fst (run_doctor example_host example_settings (Some (empty_registry :: unit registry)) True (example_dirs, ())) = Inr rs \<and> healthy_report rs"
proof -
  let ?run = "run_doctor example_host example_settings (Some (empty_registry :: unit registry)) True (example_dirs, ())"
  have n: "count_active_credentials example_host example_settings example_dirs = (Some 0, example_dirs)"
    by (simp add: count_active_credentials_def example_database count_active_cases store_count_active_def store_list_def)
  have "\<exists>cs. local_checks example_host example_settings (Some 0) example_dirs = (Inr cs, example_dirs)"
    by (simp add: local_checks_def check_data_dir_def check_workspace_def check_read_roots_def check_api_authentication_def example_fields
        example_mkdir example_resolves stat_mode_def Let_def ebind_def dangerous_def some_stored_def api_auth_configured_def)
  with n obtain rs st where run: "?run = (Inr rs, st)"
    by (cases ?run; cases "fst ?run")
      (auto simp: run_doctor_def split_beta example_fields build_provider_def PROVIDER_FACTORIES_def)
  have "database_answers example_host example_settings example_dirs"
    by (simp add: database_answers_def example_database)
  moreover have "credentials_in_order example_host example_settings example_dirs"
    by (simp add: credentials_in_order_def example_database pepper_in_order_def exists_or_raises_def pepper_ppath_def example_fields
        PEPPER_FILENAME_def example_resolves) (simp add: example_dirs_def)
  ultimately have "healthy_report rs"
    using healthy_exactly_when [OF run]
    by (simp add: n example_fields example_mkdir example_resolves example_database)
  with run show ?thesis by simp
qed

text \<open>
  \<open>doctor\<close> writes nothing of its own. Whatever it finds and however it ends, outside the files that
  opening the database touches, the pepper's among them, everything is as it was, but for directories
  made where nothing was.
\<close>

theorem doctor_only_makes_directories:
  assumes "\<And>g q. q \<notin> database_files \<Longrightarrow> nodes (snd (dh_sqlite h g)) q = nodes g q"
  shows "let f' = fst (snd (run_doctor h s reg probing (f, m))) in
    \<forall>q. q \<notin> database_files \<longrightarrow> nodes f' q = nodes f q \<or> nodes f q = None \<and> nodes f' q = Some Dir"
proof -
  have "sqlite_within database_files h" using assms by (simp add: sqlite_within_def)
  from makes_doctor [OF this, of f s reg probing m] show ?thesis by (simp add: makes_dirs_outside_def Let_def)
qed

theorem doctor_only_makes_directories_witness:
  "nodes (fst (snd (run_doctor example_host example_settings (None :: unit registry option) False (example_dirs, ())))) [''data'', ''token_pepper'']
     \<in> {None, Some Dir}"
proof -
  have quiet: "q \<notin> {} \<Longrightarrow> nodes (snd (dh_sqlite example_host g)) q = nodes g q" for g q by (simp add: example_fields)
  show ?thesis
    using doctor_only_makes_directories [where database_files = "{}" and h = example_host, OF quiet, of example_settings "None :: unit registry option" False example_dirs "()"]
    unfolding Let_def by (auto dest!: spec [of _ "[''data'', ''token_pepper'']"]) (simp add: example_dirs_def)
qed

end
