(* ===== verification/Iface_Cli.thy ===== *)
theory Iface_Cli
  imports Iface_Token_Cli Iface_Api Iface_Doctor Tools_Default
begin

text \<open>
  \<open>interface/cli.py\<close>: the commands of \<open>scrappy\<close>, which drive the runtime in their own process as the local
  user. A command yields the lines it prints and the way it ends (\<open>ended\<close>). What opening the store
  raises and what the terminal and the user answer are arguments; the user answers every question anew,
  so the answer, and the time it takes, depend on the request the question is about. Not modelled: typer's reading of
  the command line, log lines, \<open>uvicorn\<close>, and the interruption of a question.
\<close>

record terminal =
  tm_tty :: bool \<comment> \<open>of the output\<close>
  tm_stdin :: bool \<comment> \<open>\<open>sys.stdin.isatty()\<close>\<close>
  tm_typed :: "approval_request \<Rightarrow> string" \<comment> \<open>the answer to \<open>typer.prompt\<close> when asked about this request\<close>
  tm_confirms :: "approval_request \<Rightarrow> bool" \<comment> \<open>the answer to \<open>typer.confirm\<close>\<close>
  tm_waited :: "approval_request \<Rightarrow> time" \<comment> \<open>how long the user took\<close>
  tm_user :: "string option" \<comment> \<open>\<open>getpass.getuser()\<close>\<close>

section \<open>JSON output\<close>

text \<open>\<open>json.dumps(value, indent=2, default=str)\<close>.\<close>

definition line_at :: "nat \<Rightarrow> string" where
  "line_at n = CHR 0x0A # replicate (2 * n) (CHR '' '')"

fun json_pretty :: "nat \<Rightarrow> pyval \<Rightarrow> string" where
  "json_pretty n (PList xs) = (if xs = [] then ''[]''
     else ''['' @ line_at (Suc n) @ py_join ('','' @ line_at (Suc n)) (map (json_pretty (Suc n)) xs) @ line_at n @ '']'')"
| "json_pretty n (PDict d) = (if d = [] then ''{}''
     else ''{'' @ line_at (Suc n) @ py_join ('','' @ line_at (Suc n))
         (map (\<lambda>(k, t). json_string True k @ '': '' @ t) (map (\<lambda>(k, v). (k, json_pretty (Suc n) v)) d)) @ line_at n @ ''}'')"
| "json_pretty n v = json_dumps v"

definition json_screen :: "pyval \<Rightarrow> screen" where
  "json_screen v = [json_pretty 0 v]"

definition cmd_version :: "screen \<times> ended" where
  "cmd_version = ([''scrappy-os '' @ SCRAPPY_VERSION], E_exit 0)"

section \<open>ask\<close>

text \<open>What the user said to a request: approved or not, the phrase passed on, the note.\<close>

definition cli_answer :: "terminal \<Rightarrow> bool \<Rightarrow> approval_request \<Rightarrow> bool \<times> string option \<times> string option" where
  "cli_answer tm auto_yes q =
     (if q_requires_phrase q then
        if \<not> tm_stdin tm then (False, None, Some ''destructive operations cannot be approved without a terminal'')
        else (let typed = py_strip (tm_typed tm q); approved = (Some typed = q_phrase q) in
              (approved, Some typed, if approved then None else Some ''confirmation phrase did not match''))
      else if auto_yes then (True, None, Some ''auto-approved by --yes'')
      else if \<not> tm_stdin tm then (False, None, Some ''no terminal available to ask for approval'')
      else (tm_confirms tm q, None, if tm_confirms tm q then None else Some ''declined at the prompt''))"

definition cli_prompt :: "terminal \<Rightarrow> actor \<Rightarrow> bool \<Rightarrow> prompt" where
  "cli_prompt tm a auto_yes q =
     (let (approved, phrase, note) = cli_answer tm auto_yes q in
      (make_approval_decision \<lparr>dc_request_id = q_id q, dc_approved = approved, dc_decided_by = ''operator'', dc_identity = Some a,
         dc_decided_at = q_requested_at q + tm_waited tm q, dc_note = note, dc_phrase = phrase\<rparr>, tm_waited tm q))"

text \<open>What a question prints before and after it is answered.\<close>

definition prompt_screen :: "terminal \<Rightarrow> string \<Rightarrow> bool \<Rightarrow> approval_request \<Rightarrow> screen" where
  "prompt_screen tm objective0 auto_yes q =
     render_approval_prompt (tm_tty tm) q objective0 #
     (if \<not> q_requires_phrase q \<and> auto_yes then [dim (tm_tty tm) ''  auto-approved by --yes''] else [])"

record ask_options =
  ao_objective :: string
  ao_max_risk :: string
  ao_dry_run :: bool
  ao_yes :: bool
  ao_json :: bool

text \<open>\<open>set_approval_prompt\<close>, and \<open>stop\<close> when nothing runs any more.\<close>

definition set_prompt :: "prompt \<Rightarrow> ('m, 'w) brain_env \<Rightarrow> ('m, 'w) brain_env" where
  "set_prompt p ev = ev\<lparr>ev_executor := (ev_executor ev)\<lparr>ex_prompt := Some p\<rparr>\<rparr>"

definition heart_stop :: "heart \<Rightarrow> heart" where
  "heart_stop h = (if ht_started h then stop_end (stop_begin h) else stop_begin h)"

definition ask_objective :: "ask_options \<Rightarrow> risk_level \<Rightarrow> actor \<Rightarrow> heart \<Rightarrow> (scrappy_error + objective) \<times> heart" where
  "ask_objective ao bound a h =
     (let (i, pl) = new_id (ht_plane h) in
      (make_objective \<lparr>o_id = i, o_text = ao_objective ao, o_actor = ''cli'', o_identity = Some a, o_created_at = pl_now pl,
         o_max_risk = bound, o_context = [], o_dry_run = ao_dry_run ao\<rparr>, h\<lparr>ht_plane := pl\<rparr>))"

definition ask_run ::
  "('m, 'w) brain_env \<Rightarrow> decoders \<Rightarrow> terminal \<Rightarrow> scrappy_error option \<Rightarrow> nat \<Rightarrow> ask_options \<Rightarrow> risk_level \<Rightarrow> heart \<times> 'm \<times> 'w \<Rightarrow>
   (scrappy_error + task_outcome) \<times> heart \<times> 'm \<times> 'w" where
  "ask_run ev dc tm connect enabled ao bound st =
     (let (h, m, w) = st in
      case heart_start False connect enabled h of
        (Some e, h1) \<Rightarrow> (Inl e, h1, m, w)
      | (None, h1) \<Rightarrow>
          (case local_cli_actor None (tm_user tm) of
             Inl e \<Rightarrow> (Inl e, heart_stop h1, m, w)
           | Inr a \<Rightarrow>
               (case ask_objective ao bound a h1 of
                  (Inl e, h2) \<Rightarrow> (Inl e, heart_stop h2, m, w)
                | (Inr ob, h2) \<Rightarrow>
                    (let (r, h3, m', w') = heart_submit (set_prompt (cli_prompt tm a (ao_yes ao)) ev) dc ob m w h2 in (r, heart_stop h3, m', w')))))"

definition ask_call :: "outcome \<Rightarrow> pyval" where
  "ask_call oc = PDict
     [(''tool'', PStr (c_tool_name (oc_call oc))), (''risk'', PStr (risk_value (c_risk_level (oc_call oc)))),
      (''decision'', PStr (decision_value (pv_decision (oc_verdict oc)))), (''rule'', PStr (pv_rule (oc_verdict oc))),
      (''success'', PBool (r_success (oc_result oc))), (''error'', pstr_opt (r_error (oc_result oc))),
      (''duration_ms'', pms (r_duration_ms (oc_result oc)))]"

definition ask_payload :: "bool \<Rightarrow> task_outcome \<Rightarrow> payload" where
  "ask_payload development out =
     [(''task_id'', PStr (t_id (to_task out))), (''succeeded'', PBool (to_succeeded out)), (''state'', PStr (task_state_value (t_state (to_task out)))),
      (''conclusion'', PStr (to_conclusion out)), (''tool_calls'', PList (map ask_call (to_executed out))), (''budget'', PDict (to_budget out)),
      (''stopped_because'', pstr_opt (to_stopped out)), (''development_provider'', PBool development)]"

definition unknown_risk :: "string \<Rightarrow> string" where
  "unknown_risk raw = ''Unknown risk level '' @ py_repr raw @ ''. Use: read, write, privileged, destructive.''"

definition cmd_ask ::
  "('m, 'w) brain_env \<Rightarrow> decoders \<Rightarrow> terminal \<Rightarrow> scrappy_error option \<Rightarrow> nat \<Rightarrow> bool \<Rightarrow> ask_options \<Rightarrow> heart \<times> 'm \<times> 'w \<Rightarrow>
   (screen \<times> ended) \<times> heart \<times> 'm \<times> 'w" where
  "cmd_ask ev dc tm connect enabled development ao st =
     (case risk_of_value (py_lower (ao_max_risk ao)) of
        None \<Rightarrow> (([error_text (tm_tty tm) (unknown_risk (ao_max_risk ao))], E_exit 2), st)
      | Some bound \<Rightarrow>
          (case ask_run ev dc tm connect enabled ao bound st of
             (Inl e, st') \<Rightarrow> (([], E_raised e), st')
           | (Inr out, st') \<Rightarrow>
               (let p = ask_payload development out in
                ((if ao_json ao then json_screen (PDict p) else render_outcome (tm_tty tm) p, if to_succeeded out then E_done else E_exit 1), st'))))"

section \<open>status\<close>

definition component_row :: "bool \<Rightarrow> component_health \<Rightarrow> string list" where
  "component_row tty c = [h_name c, status_badge tty (component_status_value (h_status c)), text_not_empty (h_detail c) []]"

definition status_screen :: "bool \<Rightarrow> runtime_state \<Rightarrow> nat \<Rightarrow> nat \<Rightarrow> bool \<Rightarrow> screen" where
  "status_screen tty s pending events development =
     heading tty ''Scrappy OS'' @
     key_value ''version'' (rs_version s) @
     key_value ''status'' (status_badge tty (runtime_status_value (rs_status s))) @
     key_value ''host'' (rs_hostname s @ '' (pid '' @ str_nat (rs_pid s) @ '')'') @
     key_value ''provider'' (str_val (pstr_opt (rs_provider s)) @ '' / '' @ str_val (pstr_opt (rs_model s))) @
     (if development then [warn tty True ''inference is the deterministic development provider, not a model''] else []) @
     key_value ''active tasks'' (str_nat (length (rs_active_task_ids s))) @
     key_value ''completed / failed'' (str_nat (rs_completed_tasks s) @ '' / '' @ str_nat (rs_failed_tasks s)) @
     key_value ''audit events'' (str_nat events) @
     key_value ''pending approvals'' (str_nat pending) @
     heading tty ''Components'' @
     render_table tty [''component'', ''status'', ''detail''] (map (component_row tty) (rs_components s))"

definition status_report :: "surroundings \<Rightarrow> runtime_state \<Rightarrow> nat \<Rightarrow> nat \<Rightarrow> payload" where
  "status_report su s pending events =
     [(''state'', PDict (state_json (su_time su) s)), (''pending_approvals'', PInt (int pending)), (''audit_events'', PInt (int events)),
      (''development_provider'', PBool (su_development su))]"

definition cmd_status :: "surroundings \<Rightarrow> scrappy_error option \<Rightarrow> bool \<Rightarrow> bool \<Rightarrow> heart \<Rightarrow> (screen \<times> ended) \<times> heart" where
  "cmd_status su connect tty as_json h =
     (case heart_start False connect (length (su_enabled su)) h of
        (Some e, h1) \<Rightarrow> (([], E_raised e), h1)
      | (None, h1) \<Rightarrow>
          (case probe su h1 of
             (Inl e, h2) \<Rightarrow> (([], E_raised e), heart_stop h2)
           | (Inr s, h2) \<Rightarrow>
               (let pending = length (pending_approvals None (ht_plane h2)); events = audit_count (ht_plane h2) in
                ((if as_json then json_screen (PDict (status_report su s pending events)) else status_screen tty s pending events (su_development su), E_done),
                 heart_stop h2))))"

section \<open>doctor\<close>

definition doctor_lines :: "bool \<Rightarrow> check_result \<Rightarrow> screen" where
  "doctor_lines tty r =
     (let line = ''  ['' @ check_status_value (ck_status r) @ ''] '' @ ck_name r @ '': '' @ ck_detail r; remedy = text_not_empty (ck_remedy r) [] in
      (case ck_status r of CS_PASS \<Rightarrow> success tty line | CS_WARN \<Rightarrow> warn tty False line | CS_FAIL \<Rightarrow> error_text tty line) #
      (if remedy \<noteq> [] \<and> ck_status r \<noteq> CS_PASS then [dim tty (''        -> '' @ remedy)] else []))"

definition doctor_screen :: "bool \<Rightarrow> check_result list \<Rightarrow> screen" where
  "doctor_screen tty rs =
     (let count = (\<lambda>st. str_nat (or_else (map_of (report_counts rs) (check_status_value st)) 0)) in
      heading tty ''scrappy doctor'' @ concat (map (doctor_lines tty) rs) @
      [[], ''  '' @ count CS_PASS @ '' passed, '' @ count CS_WARN @ '' warnings, '' @ count CS_FAIL @ '' failures''])"

definition cmd_doctor ::
  "'m doctor_host \<Rightarrow> 'w parts \<Rightarrow> readers \<Rightarrow> settings \<Rightarrow> bool \<Rightarrow> bool \<Rightarrow> fs \<times> 'm \<Rightarrow> (screen \<times> ended) \<times> fs \<times> 'm" where
  "cmd_doctor h pt rd s skip_provider tty st =
     (case build_default_registry pt rd True True of
        Inl e \<Rightarrow> (([], E_crash (err_message e)), st)
      | Inr r \<Rightarrow>
          (case run_doctor h s (Some r) (\<not> skip_provider) st of
             (Inl exc, st') \<Rightarrow> (([], E_crash exc), st')
           | (Inr rs, st') \<Rightarrow> ((doctor_screen tty rs, if healthy_report rs then E_done else E_exit 1), st')))"

section \<open>audit\<close>

definition outcome_cell :: "audit_row \<Rightarrow> string" where
  "outcome_cell r = (if au_event_type r = SECURITY_DENIED then ''DENIED''
     else case au_success r of None \<Rightarrow> [] | Some ok \<Rightarrow> if ok then ''ok'' else ''failed'')"

definition text_or_empty :: "string option \<Rightarrow> string" where
  "text_or_empty t = or_else t []"

definition clock_text :: "time \<Rightarrow> string" where
  "clock_text t = take 8 (drop 11 (iso_datetime ''T'' t))"

definition trace_row :: "audit_row \<Rightarrow> string list" where
  "trace_row r = [clock_text (au_timestamp r), event_value (au_event_type r), au_component r, text_or_empty (au_tool_name r),
     text_or_empty (map_option risk_value (au_risk r)), outcome_cell r]"

definition recent_row :: "audit_row \<Rightarrow> string list" where
  "recent_row r = [map (\<lambda>c. if c = CHR ''T'' then CHR '' '' else c) (take 19 (iso_datetime ''T'' (au_timestamp r))),
     take 8 (text_or_empty (au_task_id r)), event_value (au_event_type r), text_or_empty (au_tool_name r),
     text_or_empty (map_option risk_value (au_risk r)), outcome_cell r]"

definition ledger_line :: "call_row \<Rightarrow> string list" where
  "ledger_line c = [cr_tool_name c, risk_value (cr_risk_level c), text_or_empty (map_option decision_value (cr_policy_decision c)),
     text_not_empty (map_option approval_value (cr_approval_state c)) ''-'', if cr_success c = Some True then ''yes'' else ''no'',
     case cr_duration_ms c of None \<Rightarrow> [] | Some t \<Rightarrow> if t = 0 then [] else whole (of_int t / 1000)]"

definition audit_screen :: "bool \<Rightarrow> string \<Rightarrow> audit_row list \<Rightarrow> call_row list \<Rightarrow> screen" where
  "audit_screen tty task_id events calls =
     (if events = [] then [dim tty ''No audit events recorded yet.'']
      else if task_id \<noteq> [] then
        heading tty (''Audit trail for task '' @ task_id) @
        render_table tty [''time'', ''event'', ''component'', ''tool'', ''risk'', ''outcome''] (map trace_row events) @
        (if calls = [] then [] else
          heading tty ''Tool calls'' @
          render_table tty [''tool'', ''risk'', ''policy'', ''approval'', ''success'', ''ms''] (map ledger_line calls))
      else heading tty (''Last '' @ str_nat (length events) @ '' audit events'') @
        render_table tty [''time'', ''task'', ''event'', ''tool'', ''risk'', ''outcome''] (map recent_row events))"

text \<open>\<open>as_row\<close> and \<open>as_call\<close> give a row as the dictionary of its columns.\<close>

definition cmd_audit ::
  "(audit_row \<Rightarrow> pyval) \<Rightarrow> (call_row \<Rightarrow> pyval) \<Rightarrow> scrappy_error option \<Rightarrow> bool \<Rightarrow> string option \<Rightarrow> int \<Rightarrow> bool \<Rightarrow> plane \<Rightarrow> screen \<times> ended" where
  "cmd_audit as_row as_call connect tty task_id limit as_json pl =
     (let t = text_or_empty task_id; events = (if t = [] then audit_recent limit pl else audit_for_task t limit pl);
          calls = (if t = [] then [] else calls_for_task t pl);
          shown = (''events'', PList (map as_row events)) in
      case connect of
        Some e \<Rightarrow> ([], E_raised e)
      | None \<Rightarrow>
          (if as_json then json_screen (PDict (if t = [] then [shown]
             else [(''task_id'', PStr t), shown, (''calls'', PList (map as_call calls))]))
           else audit_screen tty t events calls, E_done))"

section \<open>Approvals\<close>

definition approval_line :: "approval_request \<Rightarrow> string list" where
  "approval_line q = [take 8 (q_id q), upper_word (risk_value (q_risk q)), take 60 (q_summary q), clock_text (q_requested_at q),
     case q_expires_at q of None \<Rightarrow> ''never'' | Some t \<Rightarrow> clock_text t]"

definition cmd_approvals :: "(time \<Rightarrow> string) \<Rightarrow> scrappy_error option \<Rightarrow> bool \<Rightarrow> bool \<Rightarrow> plane \<Rightarrow> screen \<times> ended" where
  "cmd_approvals tm connect tty as_json pl =
     (let pending = pending_approvals None pl in
      case connect of
        Some e \<Rightarrow> ([], E_raised e)
      | None \<Rightarrow>
          (if as_json then json_screen (PList (map (approval_json tm) pending))
           else if pending = [] then [dim tty ''No pending approvals.'']
           else heading tty (str_nat (length pending) @ '' pending approval(s)'') @
             render_table tty [''id'', ''risk'', ''operation'', ''requested'', ''expires''] (map approval_line pending) @
             [dim tty (CHR 0x0A # ''  Approve with: scrappy approve <id>   Deny with: scrappy approve <id> --deny'')], E_done))"

text \<open>
  The manager of the command has no bus and no one waiting on it: it changes the table as \<open>resolve\<close>
  does, and publishes nothing.
\<close>

definition resolve_offline :: "approval_decision \<Rightarrow> plane \<Rightarrow> (scrappy_error + approval_request) \<times> plane" where
  "resolve_offline d pl = (let (r, pl1) = resolve_approval d pl in (r, pl\<lparr>pl_approvals := pl_approvals pl1\<rparr>))"

definition matching_approvals :: "string \<Rightarrow> plane \<Rightarrow> approval_request list" where
  "matching_approvals approval_id pl = filter (\<lambda>q. prefix approval_id (q_id q)) (pending_approvals None pl)"

definition cmd_approve ::
  "string option \<Rightarrow> scrappy_error option \<Rightarrow> string \<Rightarrow> bool \<Rightarrow> string option \<Rightarrow> plane \<Rightarrow> (screen \<times> ended) \<times> plane" where
  "cmd_approve user connect approval_id deny phrase pl =
     (case connect of
        Some e \<Rightarrow> (([], E_raised e), pl)
      | None \<Rightarrow>
          (case matching_approvals approval_id pl of
             [] \<Rightarrow> (([''No pending approval matching '' @ py_repr approval_id], E_done), pl)
           | [q] \<Rightarrow>
               (case local_cli_actor None user of
                  Inl e \<Rightarrow> (([], E_raised e), pl)
                | Inr a \<Rightarrow>
                    (case resolve_offline (make_approval_decision \<lparr>dc_request_id = q_id q, dc_approved = \<not> deny, dc_decided_by = ''operator'',
                          dc_identity = Some a, dc_decided_at = pl_now pl, dc_note = Some ''resolved via scrappy approve'', dc_phrase = phrase\<rparr>) pl of
                       (Inl e, pl1) \<Rightarrow> (([], E_raised e), pl1)
                     | (Inr resolved, pl1) \<Rightarrow>
                         (([''Approval '' @ q_id resolved @ '' is now '' @ approval_value (q_state resolved)], E_done), pl1)))
           | qs \<Rightarrow> (([py_repr approval_id @ '' is ambiguous; it matches '' @ str_nat (length qs) @ '' requests''], E_done), pl)))"

section \<open>Tools, configuration, serve\<close>

definition tool_row :: "'w tool \<Rightarrow> string list" where
  "tool_row t = [tl_name t, upper_word (risk_value (tl_risk t)), py_join '','' (tl_permissions t), tl_description t]"

text \<open>The command builds the registry it lists; \<open>schema\<close> is pydantic's JSON schema of a tool's input model.\<close>

definition tools_screen :: "('w tool \<Rightarrow> pyval) \<Rightarrow> bool \<Rightarrow> bool \<Rightarrow> 'w registry \<Rightarrow> screen" where
  "tools_screen schema tty as_json r =
     (if as_json then json_screen (PList (map PDict (tool_schemas schema r)))
      else heading tty (str_nat (length (enabled_tools r)) @ '' registered tools'') @
        render_table tty [''tool'', ''risk'', ''permissions'', ''description''] (map tool_row (enabled_tools r)))"

definition cmd_tools :: "'w parts \<Rightarrow> readers \<Rightarrow> ('w tool \<Rightarrow> pyval) \<Rightarrow> bool \<Rightarrow> bool \<Rightarrow> screen \<times> ended" where
  "cmd_tools pt rd schema tty as_json = (case build_default_registry pt rd True True of
     Inl e \<Rightarrow> ([], E_crash (err_message e)) | Inr r \<Rightarrow> (tools_screen schema tty as_json r, E_done))"

text \<open>The list never fails: every standard tool is in it, in the order of the names.\<close>

lemma cmd_tools_lists:
  obtains r where "enabled_tools r = map snd (sort_key fst (map (\<lambda>t. (tl_name t, t)) (default_tools pt rd True True)))"
    "cmd_tools pt rd schema tty as_json = (tools_screen schema tty as_json r, E_done)"
proof
  show "cmd_tools pt rd schema tty as_json =
      (tools_screen schema tty as_json \<lparr>rg_tools = map (\<lambda>t. (tl_name t, t)) (default_tools pt rd True True), rg_disabled = []\<rparr>, E_done)"
    by (simp add: cmd_tools_def default_registry)
qed (simp add: enabled_tools_def all_tools_def)

definition config_value :: "pyval \<Rightarrow> string" where
  "config_value v = (case v of PList xs \<Rightarrow> json_dumps v | _ \<Rightarrow> str_val v)"

definition cmd_config_show :: "bool \<Rightarrow> bool \<Rightarrow> settings \<Rightarrow> screen \<times> ended" where
  "cmd_config_show tty as_json s =
     (case redacted_dict s of
        Inl e \<Rightarrow> ([], E_raised e)
      | Inr d \<Rightarrow>
          (if as_json then json_screen (PDict d)
           else heading tty ''Effective configuration'' @ concat (map (\<lambda>(k, v). key_value k (config_value v)) (sort_key fst d)) @
             [dim tty (CHR 0x0A # ''  Secrets are shown as <set>/<unset> and are never written to logs or audit.'')], E_done))"

text \<open>Where \<open>serve\<close> binds, and what it says before it does.\<close>

definition bind_target :: "settings \<Rightarrow> string option \<Rightarrow> int option \<Rightarrow> string \<times> int" where
  "bind_target s host0 port0 = (text_not_empty host0 (api_host s), case port0 of None \<Rightarrow> api_port s | Some p \<Rightarrow> if p = 0 then api_port s else p)"

definition serve_screen :: "bool \<Rightarrow> settings \<Rightarrow> string option \<Rightarrow> int option \<Rightarrow> screen" where
  "serve_screen tty s host0 port0 =
     (let (bind_host, bind_port) = bind_target s host0 port0; is_local = (bind_host \<in> {''127.0.0.1'', ''localhost'', ''::1''});
          target = bind_host @ '':'' @ str_int bind_port in
      (if \<not> api_auth_configured s then
         [warn tty True (''SCRAPPY_API_TOKEN is not set. The API will start and refuse every '' @
            ''authenticated request; only GET /health will answer.'')] else []) @
      (if \<not> is_local \<and> \<not> api_auth_configured s then
         [error_text tty (''Binding '' @ target @ '' with no API token. This instance is '' @
            ''reachable off-host and cannot identify any caller. Run `scrappy doctor`.'')]
       else if \<not> is_local then
         [warn tty True (''Binding '' @ target @ ''. Bearer tokens are replayable if '' @ ''intercepted - terminate TLS in front of this.'')]
       else []))"

section \<open>Lemmas\<close>

text \<open>The user consented to a request: the phrase it asks for was typed on a terminal, or \<open>--yes\<close> or a yes on a terminal where none is.\<close>

definition cli_consents :: "terminal \<Rightarrow> bool \<Rightarrow> approval_request \<Rightarrow> bool" where
  "cli_consents tm auto_yes q =
     (if q_requires_phrase q then tm_stdin tm \<and> q_phrase q = Some (py_strip (tm_typed tm q)) else auto_yes \<or> tm_stdin tm \<and> tm_confirms tm q)"

lemma cli_prompt_exact:
  "dc_approved (fst (cli_prompt tm a auto_yes q)) \<longleftrightarrow> cli_consents tm auto_yes q"
  "dc_request_id (fst (cli_prompt tm a auto_yes q)) = q_id q" "dc_identity (fst (cli_prompt tm a auto_yes q)) = Some a"
  by (auto simp: cli_prompt_def cli_answer_def cli_consents_def make_approval_decision_def split_beta Let_def)

text \<open>What is known of an approval given at this prompt: the user consented, as themselves, to the very request.\<close>

definition consented :: "terminal \<Rightarrow> actor \<Rightarrow> bool \<Rightarrow> approval_request \<Rightarrow> approval_decision \<Rightarrow> bool" where
  "consented tm a auto_yes q d \<longleftrightarrow> cli_consents tm auto_yes q \<and> dc_request_id d = q_id q \<and> dc_identity d = Some a"

text \<open>Publishing, starting and stopping touch no approval.\<close>

lemma start_quiet: "quiet (ht_plane h) (ht_plane (snd (heart_start beating connect enabled h)))"
  by (auto simp: heart_start_def heart_emit_def Let_def start_ready_def split: option.splits)

lemma stop_quiet: "quiet (ht_plane h) (ht_plane (heart_stop h))"
  by (simp add: heart_stop_def stop_end_def stop_begin_def heart_emit_def Let_def stop_closed_def stop_bus_def stop_cancel_def)

text \<open>
  A submitted objective acts on the machine by gated steps alone, and every call it reports is within its
  limits; \<open>P\<close> is what the attached prompt guarantees of a yes.
\<close>

lemma heart_submit_governed:
  assumes "heart_submit ev dc ob m w h = (r, h', m', w')" "ex_prompt (ev_executor ev) = Some ask"
    "\<And>q. dc_approved (fst (ask q)) \<Longrightarrow> P q (fst (ask q))"
  shows "(gated_with P (ev_executor ev) ob)\<^sup>*\<^sup>* (ht_plane h, w) (ht_plane h', w')"
    "r = Inr out \<Longrightarrow> list_all (outcome_ok ob) (to_executed out)"
proof -
  obtain r1 s where run: "run_objective ev dc ob None (ht_plane (activate (o_id ob) h)) m w = (r1, s)" by fastforce
  obtain i pl1 where ev: "evolves ev (new_brain (ev_settings ev) ob i pl1 m w) s"
    using run_evolves [of "ht_plane (activate (o_id ob) h)" ev ob m w dc None] run by (metis snd_conv)
  have end0: "w' = w \<and> h' = h \<and> isl r \<or> w' = br_world s \<and> ht_plane h' = br_plane s \<and> (isl r \<or> r = Inr (outcome_of s))"
    using assms(1) run by (cases r1) (auto simp: heart_submit_def Let_def forget_def split: if_splits)
  have "(gated_step (ev_executor ev) ob)\<^sup>*\<^sup>* (ht_plane h, w) (br_plane s, br_world s)"
    using run_gated [of ev ob "ht_plane (activate (o_id ob) h)" w dc None m] run by (simp add: activate_def Let_def)
  moreover have "gated_with P (ev_executor ev) ob x y" if "gated_step (ev_executor ev) ob x y" for x y
    by (rule gated_with_prompt [OF that assms(2)]) (rule assms(3))
  ultimately have "(gated_with P (ev_executor ev) ob)\<^sup>*\<^sup>* (ht_plane h, w) (br_plane s, br_world s)"
    by (metis (no_types, lifting) mono_rtranclp)
  with end0 show "(gated_with P (ev_executor ev) ob)\<^sup>*\<^sup>* (ht_plane h, w) (ht_plane h', w')" by auto
  show "list_all (outcome_ok ob) (to_executed out)" if "r = Inr out"
    using end0 that ev by (auto simp: evolves_def outcome_of_def new_brain_def new_task_def)
qed

lemma resolve_offline_keeps: "\<exists>rows. snd (resolve_offline d pl) = pl\<lparr>pl_approvals := rows\<rparr>"
  by (auto simp: resolve_offline_def split_beta)

text \<open>An id of no characters matches every pending request.\<close>

lemma empty_id_matches_all: "matching_approvals [] pl = pending_approvals None pl"
  by (simp add: matching_approvals_def)

text \<open>What \<open>scrappy approve\<close> decides, no event tells: the trail is the same after it.\<close>

lemma approve_leaves_no_trail:
  "pl_audit (snd (cmd_approve user connect i deny phrase pl)) = pl_audit pl \<and> pl_published (snd (cmd_approve user connect i deny phrase pl)) = pl_published pl"
proof -
  have "pl_audit (snd (resolve_offline d pl)) = pl_audit pl \<and> pl_published (snd (resolve_offline d pl)) = pl_published pl" for d
    using resolve_offline_keeps [of d pl] by auto
  then show ?thesis
    by (auto simp: cmd_approve_def Let_def split: option.split list.split sum.split prod.split) (metis snd_conv)+
qed

section \<open>Properties\<close>

text \<open>
  C21. \<open>--yes\<close> never covers a destructive step. With the prompt of \<open>scrappy ask\<close> attached, a call that policy
  escalates passes the approval step only if, where a phrase is required, there is a terminal and the
  phrase was typed on it when this request was shown, whatever the flag; and where none is, the flag was given or the
  question about this request was answered with yes on a terminal.
\<close>

theorem yes_spares_destructive:
  "let q = fst (request_approval (ex_settings ex) call k (pv_reason v) (pv_requires_phrase v) pl) in
   case fst (approval_gate (ex\<lparr>ex_prompt := Some (cli_prompt tm a auto_yes)\<rparr>) call v k started_at pl) of
     Inl ended \<Rightarrow> pv_decision v = REQUIRE_APPROVAL
   | Inr passed \<Rightarrow>
       (if pv_decision v \<noteq> REQUIRE_APPROVAL then True
        else if pv_requires_phrase v then tm_stdin tm \<and> py_strip (tm_typed tm q) = CONFIRMATION_PHRASE
        else auto_yes \<or> tm_stdin tm \<and> tm_confirms tm q)"
proof (cases "pv_decision v = REQUIRE_APPROVAL")
  case False
  then show ?thesis by (simp add: approval_gate_def)
next
  case True
  let ?ex = "ex\<lparr>ex_prompt := Some (cli_prompt tm a auto_yes)\<rparr>"
  obtain q pl1 where req: "request_approval (ex_settings ex) call k (pv_reason v) (pv_requires_phrase v) pl = (q, pl1)" by fastforce
  then have q: "q_requires_phrase q = pv_requires_phrase v" "q_phrase q = (if pv_requires_phrase v then Some CONFIRMATION_PHRASE else None)"
    by (auto simp: request_approval_def Let_def split_beta)
  obtain r pl2 where gate: "approval_gate ?ex call v k started_at pl = (r, pl2)" by fastforce
  have "cli_consents tm auto_yes q" if r: "r = Inr passed" for passed
  proof -
    from gate r have "approval_gate ?ex call v k started_at pl = (Inr passed, pl2)" by simp
    then show ?thesis
    proof (rule approval_gate_passes [OF _ True])
      fix q0 pl1' ask d waited
      assume "request_approval (ex_settings ?ex) call k (pv_reason v) (pv_requires_phrase v) pl = (q0, pl1')"
        "ex_prompt ?ex = Some ask" "ask q0 = (d, waited)" "dc_approved d"
      with req have "dc_approved (fst (cli_prompt tm a auto_yes q))" by simp
      then show ?thesis by (simp add: cli_prompt_exact)
    qed
  qed
  with True q req show ?thesis by (auto simp: gate cli_consents_def split: sum.split)
qed

text \<open>
  C20. \<open>scrappy ask\<close> keeps to what was asked. Whatever the model answers and however the command ends, the
  control plane and the machine go from what they were to what they are by steps each of which leaves the
  machine alone or is one call, made for the local user, cleared within the ceiling named on the command line.
  Such a call touched no approval, or policy escalated it, and in that very step the approval requested for
  it was shown to the user, who consented to that request in the way it needs, each
  question being answered for itself, and it was granted in the user's name and consumed. Every call of the report
  carries that user and was refused or was within the ceiling.
\<close>

theorem ask_stays_within_ceiling:
  "let (r, h', m', w') = ask_run ev dc tm connect enabled ao bound (h, m, w);
       governed = (\<lambda>ob. (\<exists>a. local_cli_actor None (tm_user tm) = Inr a \<and> o_identity ob = Some a
           \<and> (gated_with (consented tm a (ao_yes ao)) ((ev_executor ev)\<lparr>ex_prompt := Some (cli_prompt tm a (ao_yes ao))\<rparr>) ob)\<^sup>*\<^sup>*
                (ht_plane h, w) (ht_plane h', w'))
         \<and> o_max_risk ob = bound \<and> o_dry_run ob = ao_dry_run ao \<and> o_text ob = py_strip (ao_objective ao)) in
   case r of
     Inl e \<Rightarrow> w' = w \<and> quiet (ht_plane h) (ht_plane h') \<or> (\<exists>ob. governed ob)
   | Inr out \<Rightarrow> \<exists>ob. governed ob \<and> list_all (outcome_ok ob) (to_executed out)"
proof -
  obtain r h' m' w' where run: "ask_run ev dc tm connect enabled ao bound (h, m, w) = (r, h', m', w')" by (metis prod_cases4)
  obtain e1 h1 where st: "heart_start False connect enabled h = (e1, h1)" by fastforce
  have q1: "quiet (ht_plane h) (ht_plane h1)" using start_quiet [of h False connect enabled] st by simp
  have q2: "quiet (ht_plane h) (ht_plane h2)" if "ask_objective ao bound a h1 = (x, h2)" for a x h2
  proof -
    have "quiet (ht_plane h1) (ht_plane h2)" using that by (auto simp: ask_objective_def new_id_def quiet_def)
    with q1 show ?thesis by (rule quiet_trans)
  qed
  show ?thesis
  proof (cases "e1 = None \<and> (\<exists>a ob h2. local_cli_actor None (tm_user tm) = Inr a \<and> ask_objective ao bound a h1 = (Inr ob, h2))")
    case False
    have "w' = w \<and> isl r \<and> (h' = h1 \<or> h' = heart_stop h1 \<or> (\<exists>a x h2. ask_objective ao bound a h1 = (x, h2) \<and> h' = heart_stop h2))"
    proof (cases e1)
      case None
      with run show ?thesis
      proof (cases "local_cli_actor None (tm_user tm)")
        case (Inr a)
        obtain x h2 where o: "ask_objective ao bound a h1 = (x, h2)" by fastforce
        with False None Inr obtain e where "x = Inl e" by (cases x) auto
        with run None Inr o show ?thesis by (auto simp: ask_run_def st)
      qed (auto simp: ask_run_def st)
    qed (use run in \<open>auto simp: ask_run_def st\<close>)
    moreover have "quiet (ht_plane h) (ht_plane (heart_stop h1))" by (rule quiet_trans [OF q1 stop_quiet])
    moreover have "quiet (ht_plane h) (ht_plane (heart_stop h2))" if "ask_objective ao bound a h1 = (x, h2)" for a x h2
      by (rule quiet_trans [OF q2 [OF that] stop_quiet])
    ultimately have "w' = w" "isl r" "quiet (ht_plane h) (ht_plane h')" using q1 by blast+
    then show ?thesis by (cases r) (simp_all add: run)
  next
    case True
    then obtain a ob h2 where a: "e1 = None" "local_cli_actor None (tm_user tm) = Inr a" "ask_objective ao bound a h1 = (Inr ob, h2)" by blast
    obtain r3 h3 m3 w3 where sub: "heart_submit (set_prompt (cli_prompt tm a (ao_yes ao)) ev) dc ob m w h2 = (r3, h3, m3, w3)" by (metis prod_cases4)
    from run a st sub have rw: "r3 = r" "w3 = w'" "h' = heart_stop h3" by (simp_all add: ask_run_def)
    let ?ex = "(ev_executor ev)\<lparr>ex_prompt := Some (cli_prompt tm a (ao_yes ao))\<rparr>"
    let ?R = "gated_with (consented tm a (ao_yes ao)) ?ex ob"
    have ex: "ev_executor (set_prompt (cli_prompt tm a (ao_yes ao)) ev) = ?ex"
      by (simp add: set_prompt_def)
    have ob: "o_identity ob = Some a" "o_max_risk ob = bound" "o_dry_run ob = ao_dry_run ao" "o_text ob = py_strip (ao_objective ao)"
      using a(3) by (auto simp: ask_objective_def make_objective_def split_beta Let_def split: if_splits)
    have yes: "consented tm a (ao_yes ao) q (fst (cli_prompt tm a (ao_yes ao) q))" if "dc_approved (fst (cli_prompt tm a (ao_yes ao) q))" for q
      using that by (simp add: consented_def cli_prompt_exact)
    have "ex_prompt (ev_executor (set_prompt (cli_prompt tm a (ao_yes ao)) ev)) = Some (cli_prompt tm a (ao_yes ao))"
      by (simp add: set_prompt_def)
    note gov = heart_submit_governed [OF sub this, of "consented tm a (ao_yes ao)", OF yes, unfolded ex rw]
    have q: "?R (pl, x) (pl', x)" if "quiet pl pl'" for pl pl' x
      using that by (simp add: gated_with_def)
    have "?R\<^sup>*\<^sup>* (ht_plane h, w) (ht_plane h', w')"
      using converse_rtranclp_into_rtranclp [of ?R, OF q [OF q2 [OF a(3)]] rtranclp.rtrancl_into_rtrancl [OF gov(1) q [OF stop_quiet]]] rw by simp
    then show ?thesis using gov(2) ob a(2) by (cases r) (auto simp: run)
  qed
qed

text \<open>
  C22. \<open>scrappy approve\<close> decides one request or none. Unless the plane is as it was, exactly one pending request
  begins with the text given, and of all that is kept only its row has changed: to expired when its
  time is over, and else to the decision, made in the name of the local user, which is no approval
  of a request with a phrase unless the phrase is the one it asks for.
\<close>

theorem approve_decides_one:
  "let (out, pl') = cmd_approve user connect i deny phrase pl in
   pl' = pl \<or>
   (\<exists>q row a d. matching_approvals i pl = [q] \<and> get_approval (q_id q) pl = Some row \<and> q_state row = A_PENDING \<and> local_cli_actor None user = Inr a
      \<and> dc_identity d = Some a \<and> dc_decided_by d = actor_label a
      \<and> (if request_is_expired (pl_now pl) row then pl' = update_state (q_id row) A_EXPIRED d True pl \<and> (\<exists>m. snd out = E_raised (ApprovalExpired m))
         else pl' = update_state (q_id row) (if deny then A_DENIED else A_APPROVED) d False pl \<and> snd out = E_done
           \<and> (if \<not> deny \<and> q_requires_phrase row then phrase = q_phrase row else True)))"
proof -
  obtain out pl' where run: "cmd_approve user connect i deny phrase pl = (out, pl')" by fastforce
  show ?thesis
  proof (cases "pl' = pl")
    case False
    then obtain q where c: "connect = None" "matching_approvals i pl = [q]"
      using run by (auto simp: cmd_approve_def split: option.splits list.splits)
    from False run c obtain a where a: "local_cli_actor None user = Inr a"
      by (cases "local_cli_actor None user") (auto simp: cmd_approve_def)
    define d where "d = make_approval_decision \<lparr>dc_request_id = q_id q, dc_approved = \<not> deny, dc_decided_by = ''operator'',
       dc_identity = Some a, dc_decided_at = pl_now pl, dc_note = Some ''resolved via scrappy approve'', dc_phrase = phrase\<rparr>"
    have d: "dc_identity d = Some a" "dc_decided_by d = actor_label a" "dc_request_id d = q_id q" "dc_approved d = (\<not> deny)" "dc_phrase d = phrase"
      by (simp_all add: d_def make_approval_decision_def)
    obtain r pl1 where res: "resolve_approval d pl = (r, pl1)" by fastforce
    from run c a res have pl': "pl' = pl\<lparr>pl_approvals := pl_approvals pl1\<rparr>"
      by (auto simp: cmd_approve_def resolve_offline_def d_def [symmetric] split: sum.splits)
    have end0: "snd out = (case r of Inl e \<Rightarrow> E_raised e | Inr x \<Rightarrow> E_done)"
      using run c a res by (auto simp: cmd_approve_def resolve_offline_def d_def [symmetric] split: sum.splits)
    from False pl' res obtain row where row: "get_approval (q_id q) pl = Some row"
      by (cases "get_approval (q_id q) pl") (auto simp: resolve_approval_def d(3))
    from False pl' res row have pend: "q_state row = A_PENDING"
      by (cases "q_state row = A_PENDING") (auto simp: resolve_approval_def d(3))
    have ans: "pl_approvals (answer_waiter j d x) = pl_approvals x" for j x by (simp add: answer_waiter_def split: option.split)
    show ?thesis
    proof (cases "request_is_expired (pl_now pl) row")
      case True
      with res row pend have "pl1 = update_state (q_id row) A_EXPIRED d True pl" "\<exists>m. r = Inl (ApprovalExpired m)"
        by (auto simp: resolve_approval_def d(3))
      then have "pl' = update_state (q_id row) A_EXPIRED d True pl \<and> (\<exists>m. snd out = E_raised (ApprovalExpired m))"
        using pl' end0 by (auto simp: update_state_def)
      with True c row pend a d(1,2) show ?thesis unfolding run Let_def prod.case by (intro disjI2 exI conjI) (assumption | simp)+
    next
      case False2: False
      have ok: "\<not> (dc_approved d \<and> q_requires_phrase row \<and> dc_phrase d \<noteq> q_phrase row)"
      proof
        assume "dc_approved d \<and> q_requires_phrase row \<and> dc_phrase d \<noteq> q_phrase row"
        with res row pend False2 have "pl1 = pl" by (auto simp: resolve_approval_def d(3))
        with False pl' show False by simp
      qed
      with res row pend False2 have "pl_approvals pl1 = pl_approvals (update_state (q_id row) (if deny then A_DENIED else A_APPROVED) d False pl)" "\<not> isl r"
        by (auto simp: resolve_approval_def d(3,4) ans Let_def)
      then have "pl' = update_state (q_id row) (if deny then A_DENIED else A_APPROVED) d False pl \<and> snd out = E_done
          \<and> (if \<not> deny \<and> q_requires_phrase row then phrase = q_phrase row else True)"
        using pl' end0 ok d(4,5) by (auto simp: update_state_def split: sum.splits)
      with False2 c row pend a d(1,2) show ?thesis unfolding run Let_def prod.case by (intro disjI2 exI conjI) (assumption | simp)+
    qed
  qed (simp add: run)
qed

text \<open>
  \<open>config show\<close> prints no secret: replacing each secret that is set by any other value, as long as it
  stays set (for the token, as long as it stays usable), changes neither what is printed, in either
  form, nor how the command ends.
\<close>

theorem config_show_hides_secrets:
  assumes "same_but_secrets s t"
  shows "cmd_config_show tty as_json t = cmd_config_show tty as_json s"
  by (simp add: cmd_config_show_def redacted_dict_hides_secrets [OF assms])

theorem config_show_hides_secrets_witness:
  "cmd_config_show False True (default_settings\<lparr>api_token := Some ''tok-1'', token_pepper := Some ''pep-1''\<rparr>) =
   cmd_config_show False True (default_settings\<lparr>api_token := Some ''tok-2'', token_pepper := Some ''pep-2''\<rparr>)"
  by (rule config_show_hides_secrets)
    (simp add: same_but_secrets_def secret_present_def api_auth_configured_def default_settings_def py_strip_def py_isspace_def)

end
