(* ===== verification/Mem_Schema.thy ===== *)
theory Mem_Schema
  imports Mem_Connection
begin

text \<open>
  The schema of \<open>memory/store.py\<close>: the statements \<open>connect\<close> runs, over a database of named tables with
  their columns and rows. A row is the list of its values by column. Types, defaults and constraints
  of the columns are not modelled, except that the keys of \<open>schema_meta\<close> are unique.
\<close>

record table =
  tb_columns :: "string list"
  tb_rows :: "(string \<times> pyval) list list"

record database =
  db_tables :: "(string \<times> table) list"
  db_indexes :: "string list"

definition table_of :: "string \<Rightarrow> database \<Rightarrow> table option" where
  "table_of n d = map_of (db_tables d) n"

definition put_table :: "string \<Rightarrow> table \<Rightarrow> database \<Rightarrow> database" where
  "put_table n t d = d\<lparr>db_tables := dict_set n t (db_tables d)\<rparr>"

section \<open>The statements\<close>

definition SCHEMA_VERSION :: nat where
  "SCHEMA_VERSION = 3"

definition ADDITIVE_COLUMNS :: "(string \<times> string) list" where
  "ADDITIVE_COLUMNS =
     [(''audit_events'', ''actor_id''), (''audit_events'', ''actor_type''), (''audit_events'', ''auth_method''),
      (''tool_calls'', ''actor_id''), (''tool_calls'', ''actor_type''), (''approvals'', ''decided_by_actor_id'')]"

definition SCHEMA_TABLES :: "(string \<times> string list) list" where
  "SCHEMA_TABLES =
     [(''schema_meta'', [''key'', ''value'']),
      (''tasks'', [''id'', ''objective'', ''actor'', ''state'', ''created_at'', ''updated_at'', ''finished_at'', ''summary'', ''error'',
         ''max_risk'', ''model_calls'', ''replan_count'']),
      (''audit_events'', [''id'', ''timestamp'', ''event_type'', ''task_id'', ''actor'', ''component'', ''tool_name'', ''risk'', ''decision'',
         ''success'', ''duration_ms'', ''payload'', ''payload_sha256'']),
      (''tool_calls'', [''id'', ''task_id'', ''step_id'', ''tool_name'', ''arguments'', ''actor'', ''requested_at'', ''risk_level'',
         ''policy_decision'', ''policy_rule'', ''approval_id'', ''approval_state'', ''success'', ''duration_ms'', ''error'', ''output_sha256'',
         ''output_preview'']),
      (''approvals'', [''id'', ''task_id'', ''call_id'', ''tool_name'', ''arguments'', ''risk'', ''reason'', ''summary'', ''requested_at'',
         ''expires_at'', ''state'', ''decided_by'', ''decided_at'', ''note'']),
      (''observations'', [''id'', ''task_id'', ''call_id'', ''created_at'', ''source'', ''success'', ''content'', ''metadata'']),
      (''plans'', [''id'', ''task_id'', ''author'', ''revision'', ''created_at'', ''approved'', ''reasoning'', ''steps'']),
      (''credentials'', [''credential_id'', ''actor_id'', ''actor_type'', ''display_name'', ''scopes'', ''verifier'', ''created_at'', ''expires_at'',
         ''revoked_at'', ''last_used_at'', ''auth_method'', ''metadata''])]"

definition SCHEMA_INDEXES :: "(string \<times> string \<times> string list) list" where
  "SCHEMA_INDEXES =
     [(''idx_credentials_actor'', ''credentials'', [''actor_id'']), (''idx_audit_task'', ''audit_events'', [''task_id'', ''timestamp'']),
      (''idx_audit_time'', ''audit_events'', [''timestamp'']), (''idx_calls_task'', ''tool_calls'', [''task_id'', ''requested_at'']),
      (''idx_obs_task'', ''observations'', [''task_id'', ''created_at'']), (''idx_approvals_state'', ''approvals'', [''state'', ''requested_at'']),
      (''idx_plans_task'', ''plans'', [''task_id'', ''revision''])]"

text \<open>\<open>CREATE TABLE IF NOT EXISTS\<close>, \<open>CREATE INDEX IF NOT EXISTS\<close>, \<open>ALTER TABLE ADD COLUMN\<close>.\<close>

definition create_table :: "string \<times> string list \<Rightarrow> database statement" where
  "create_table = (\<lambda>(n, cols) d. case table_of n d of Some t \<Rightarrow> Inr d
     | None \<Rightarrow> Inr (put_table n \<lparr>tb_columns = cols, tb_rows = []\<rparr> d))"

definition create_index :: "string \<times> string \<times> string list \<Rightarrow> database statement" where
  "create_index = (\<lambda>(i, n, cols) d.
     if i \<in> set (db_indexes d) then Inr d
     else case table_of n d of None \<Rightarrow> Inl (''no such table: '' @ n)
       | Some t \<Rightarrow> (case find (\<lambda>c. c \<notin> set (tb_columns t)) cols of
           Some c \<Rightarrow> Inl (''no such column: '' @ c)
         | None \<Rightarrow> Inr (d\<lparr>db_indexes := db_indexes d @ [i]\<rparr>)))"

definition add_column :: "string \<Rightarrow> string \<Rightarrow> database statement" where
  "add_column n c d = (case table_of n d of None \<Rightarrow> Inl (''no such table: '' @ n)
     | Some t \<Rightarrow> if c \<in> set (tb_columns t) then Inl (''duplicate column name: '' @ c)
         else Inr (put_table n \<lparr>tb_columns = tb_columns t @ [c], tb_rows = map (\<lambda>r. r @ [(c, PNone)]) (tb_rows t)\<rparr> d))"

text \<open>One round of \<open>_apply_additive_columns\<close>; \<open>PRAGMA table_info\<close> of a missing table is empty.\<close>

definition apply_additive_column :: "string \<times> string \<Rightarrow> database statement" where
  "apply_additive_column = (\<lambda>(n, c) d.
     let existing = (case table_of n d of None \<Rightarrow> [] | Some t \<Rightarrow> tb_columns t)
     in if c \<in> set existing then Inr d else add_column n c d)"

definition write_version :: "database statement" where
  "write_version d = (case table_of ''schema_meta'' d of None \<Rightarrow> Inl ''no such table: schema_meta''
     | Some t \<Rightarrow> (case find (\<lambda>c. c \<notin> set (tb_columns t)) [''key'', ''value''] of
         Some c \<Rightarrow> Inl (''table schema_meta has no column named '' @ c)
       | None \<Rightarrow> Inr (put_table ''schema_meta'' (t\<lparr>tb_rows :=
           filter (\<lambda>r. map_of r ''key'' \<noteq> Some (PStr ''version'')) (tb_rows t)
             @ [[(''key'', PStr ''version''), (''value'', PStr (str_nat SCHEMA_VERSION))]]\<rparr>) d)))"

definition schema_statements :: "database statement list" where
  "schema_statements = map create_table SCHEMA_TABLES @ map create_index SCHEMA_INDEXES @
     map apply_additive_column ADDITIVE_COLUMNS @ [write_version]"

text \<open>\<open>SELECT value FROM schema_meta WHERE key='version'\<close>.\<close>

definition read_version :: "database \<Rightarrow> string + string list" where
  "read_version d = (case table_of ''schema_meta'' d of None \<Rightarrow> Inl ''no such table: schema_meta''
     | Some t \<Rightarrow> Inr (map (\<lambda>r. case map_of r ''value'' of Some (PStr v) \<Rightarrow> v | _ \<Rightarrow> [])
         (filter (\<lambda>r. map_of r ''key'' = Some (PStr ''version'')) (tb_rows t))))"

definition open_database_file :: "string \<Rightarrow> database store \<Rightarrow> scrappy_error option \<times> database store" where
  "open_database_file path s = store_connect path schema_statements s"

section \<open>Lemmas\<close>

lemma table_of_put [simp]: "table_of m (put_table n t d) = (if m = n then Some t else table_of m d)"
  by (simp add: table_of_def put_table_def)

lemma indexes_put [simp]: "db_indexes (put_table n t d) = db_indexes d" "table_of m (d\<lparr>db_indexes := is\<rparr>) = table_of m d"
  by (simp_all add: put_table_def table_of_def)

text \<open>
  What every statement keeps: a table stays, with its columns in their order and others after them, and
  its rows, extended by \<open>NULL\<close> in the new columns.
\<close>

definition extends_table :: "table \<Rightarrow> table \<Rightarrow> bool" where
  "extends_table t t' \<longleftrightarrow> (\<exists>new. tb_columns t' = tb_columns t @ new \<and> set new \<inter> set (tb_columns t) = {}
     \<and> tb_rows t' = map (\<lambda>r. r @ map (\<lambda>c. (c, PNone)) new) (tb_rows t))"

definition extends :: "database \<Rightarrow> database \<Rightarrow> bool" where
  "extends d d' \<longleftrightarrow> set (db_indexes d) \<subseteq> set (db_indexes d')
     \<and> (\<forall>n t. table_of n d = Some t \<longrightarrow> (\<exists>t'. table_of n d' = Some t' \<and> extends_table t t'))"

lemma extends_table_refl [simp]: "extends_table t t"
  by (auto simp: extends_table_def intro: exI [of _ "[]"])

lemma extends_table_trans: "extends_table t u \<Longrightarrow> extends_table u v \<Longrightarrow> extends_table t v"
  unfolding extends_table_def by (elim exE conjE, rule_tac x = "new @ newa" in exI) auto

lemma extends_refl [simp]: "extends d d"
  by (simp add: extends_def)

lemma extends_trans: "extends d e \<Longrightarrow> extends e f \<Longrightarrow> extends d f"
  unfolding extends_def by (meson extends_table_trans order_trans)

lemma extends_steps:
  "create_table p d = Inr d' \<Longrightarrow> extends d d'" "create_index q d = Inr d' \<Longrightarrow> extends d d'"
  "apply_additive_column r d = Inr d' \<Longrightarrow> extends d d'"
  by (auto simp: create_table_def create_index_def apply_additive_column_def add_column_def extends_def Let_def extends_table_def
      split: option.splits if_splits prod.splits)

text \<open>A database of this program, at any version: what there is of a table has the columns of the first version.\<close>

definition database_ok :: "database \<Rightarrow> bool" where
  "database_ok d \<longleftrightarrow> distinct (map fst (db_tables d))
     \<and> (\<forall>(n, cols) \<in> set SCHEMA_TABLES. case table_of n d of None \<Rightarrow> True | Some t \<Rightarrow> set cols \<subseteq> set (tb_columns t))"

definition all_tables :: "database \<Rightarrow> bool" where
  "all_tables d \<longleftrightarrow> (\<forall>(n, cols) \<in> set SCHEMA_TABLES. \<exists>t. table_of n d = Some t \<and> set cols \<subseteq> set (tb_columns t))"

lemma all_tables_extends: "all_tables d \<Longrightarrow> extends d d' \<Longrightarrow> all_tables d'"
  unfolding all_tables_def extends_def extends_table_def by fastforce

lemma run_statements_append:
  "run_statements (xs @ ys) d = (case run_statements xs d of (None, e) \<Rightarrow> run_statements ys e | (Some m, e) \<Rightarrow> (Some m, e))"
  by (induction xs arbitrary: d) (auto split: sum.splits)

text \<open>A statement that succeeds under \<open>P\<close> and keeps it, and what it establishes.\<close>

definition statements_ok :: "(database \<Rightarrow> bool) \<Rightarrow> database statement list \<Rightarrow> (database \<Rightarrow> bool) \<Rightarrow> bool" where
  "statements_ok P stmts Q \<longleftrightarrow> (\<forall>d. P d \<longrightarrow> (\<exists>d'. run_statements stmts d = (None, d') \<and> extends d d' \<and> Q d'))"

lemma statements_append: "statements_ok P xs Q \<Longrightarrow> statements_ok Q ys R \<Longrightarrow> statements_ok P (xs @ ys) R"
  unfolding statements_ok_def run_statements_append by (metis (mono_tags, lifting) extends_trans old.prod.case option.simps(4))

lemma statements_weaken: "statements_ok P xs Q \<Longrightarrow> (\<And>d. Q d \<Longrightarrow> R d) \<Longrightarrow> statements_ok P xs R"
  unfolding statements_ok_def by blast

lemma statements_each:
  assumes "\<And>x d. x \<in> set xs \<Longrightarrow> P d \<Longrightarrow> \<exists>d'. f x d = Inr d' \<and> extends d d' \<and> P d' \<and> Q x d'"
    and "\<And>x d d'. Q x d \<Longrightarrow> extends d d' \<Longrightarrow> Q x d'"
  shows "statements_ok P (map f xs) (\<lambda>d. P d \<and> (\<forall>x \<in> set xs. Q x d))"
  using assms(1)
proof (induction xs)
  case (Cons x xs)
  then have IH: "statements_ok P (map f xs) (\<lambda>d. P d \<and> (\<forall>x \<in> set xs. Q x d))" by simp
  show ?case unfolding statements_ok_def
  proof (intro allI impI)
    fix d assume "P d"
    then obtain d1 where 1: "f x d = Inr d1" "extends d d1" "P d1" "Q x d1" using Cons.prems by (meson list.set_intros(1))
    then obtain d2 where 2: "run_statements (map f xs) d1 = (None, d2)" "extends d1 d2" "P d2" "\<forall>x \<in> set xs. Q x d2"
      using IH unfolding statements_ok_def by blast
    then show "\<exists>d'. run_statements (map f (x # xs)) d = (None, d') \<and> extends d d' \<and> P d' \<and> (\<forall>x \<in> set (x # xs). Q x d')"
      using 1 assms(2) [OF 1(4) 2(2)] by (auto intro: extends_trans)
  qed
qed (simp add: statements_ok_def)

lemma distinct_put: "distinct (map fst (db_tables d)) \<Longrightarrow> distinct (map fst (db_tables (put_table n t d)))"
  by (auto simp: put_table_def keys_dict_set)

lemma distinct_steps:
  assumes "distinct (map fst (db_tables d))"
  shows "create_table p d = Inr d' \<Longrightarrow> distinct (map fst (db_tables d'))" "create_index q d = Inr d' \<Longrightarrow> distinct (map fst (db_tables d'))"
    "apply_additive_column r d = Inr d' \<Longrightarrow> distinct (map fst (db_tables d'))"
  using assms by (auto simp: create_table_def create_index_def apply_additive_column_def add_column_def Let_def distinct_put
      split: option.splits if_splits prod.splits)

text \<open>The four parts of \<open>connect\<close>.\<close>

lemma schema_names: "distinct (map fst SCHEMA_TABLES)" "''schema_meta'' \<in> fst ` set SCHEMA_TABLES"
  by (simp_all add: SCHEMA_TABLES_def)

lemma schema_table_unique: "(n, cols) \<in> set SCHEMA_TABLES \<Longrightarrow> (n, cols') \<in> set SCHEMA_TABLES \<Longrightarrow> cols = cols'"
  using schema_names(1) by (metis eq_key_imp_eq_value)

definition has_column :: "string \<Rightarrow> string \<Rightarrow> database \<Rightarrow> bool" where
  "has_column n c d \<longleftrightarrow> (\<exists>t. table_of n d = Some t \<and> c \<in> set (tb_columns t))"

lemma has_column_extends: "has_column n c d \<Longrightarrow> extends d d' \<Longrightarrow> has_column n c d'"
  unfolding has_column_def extends_def extends_table_def by fastforce

lemma statements_tables: "statements_ok database_ok (map create_table SCHEMA_TABLES) (\<lambda>d. distinct (map fst (db_tables d)) \<and> all_tables d)"
proof -
  let ?Q = "\<lambda>x d. \<exists>t. table_of (fst x) d = Some t \<and> set (snd x) \<subseteq> set (tb_columns t)"
  have "statements_ok database_ok (map create_table SCHEMA_TABLES) (\<lambda>d. database_ok d \<and> (\<forall>x \<in> set SCHEMA_TABLES. ?Q x d))"
  proof (rule statements_each)
    fix x d assume x: "x \<in> set SCHEMA_TABLES" and ok: "database_ok d"
    obtain n cols where nc: "x = (n, cols)" by (cases x)
    obtain d' where d': "create_table x d = Inr d'" by (cases "table_of n d") (simp_all add: create_table_def nc)
    have "database_ok d'"
    proof (cases "table_of n d")
      case None
      with d' have e: "d' = put_table n \<lparr>tb_columns = cols, tb_rows = []\<rparr> d" by (simp add: create_table_def nc)
      have "case table_of m d' of None \<Rightarrow> True | Some t \<Rightarrow> set cols' \<subseteq> set (tb_columns t)" if "(m, cols') \<in> set SCHEMA_TABLES" for m cols'
        using that ok schema_table_unique [of n cols cols'] x by (cases "m = n") (auto simp: e nc database_ok_def)
      with ok show ?thesis by (auto simp: database_ok_def e distinct_put)
    qed (use ok d' in \<open>simp add: create_table_def nc\<close>)
    moreover have "?Q x d'"
    proof (cases "table_of n d")
      case (Some t)
      with ok x nc have "set cols \<subseteq> set (tb_columns t)" by (fastforce simp: database_ok_def)
      with Some d' show ?thesis by (simp add: create_table_def nc)
    qed (use d' in \<open>auto simp: create_table_def nc\<close>)
    ultimately show "\<exists>d'. create_table x d = Inr d' \<and> extends d d' \<and> database_ok d' \<and> ?Q x d'"
      using d' extends_steps(1) [OF d'] by blast
  next
    show "?Q x d \<Longrightarrow> extends d d' \<Longrightarrow> ?Q x d'" for x d d' unfolding extends_def extends_table_def by fastforce
  qed
  then show ?thesis by (rule statements_weaken) (auto simp: database_ok_def all_tables_def)
qed

lemma columns_there: "all_tables d \<Longrightarrow> (n, cols) \<in> set SCHEMA_TABLES \<Longrightarrow> c \<in> set cols \<Longrightarrow> has_column n c d"
  unfolding all_tables_def has_column_def by fastforce

lemma statements_indexes:
  "statements_ok (\<lambda>d. distinct (map fst (db_tables d)) \<and> all_tables d) (map create_index SCHEMA_INDEXES)
     (\<lambda>d. (distinct (map fst (db_tables d)) \<and> all_tables d) \<and> (\<forall>x \<in> set SCHEMA_INDEXES. fst x \<in> set (db_indexes d)))"
proof (rule statements_each)
  fix x d assume x: "x \<in> set SCHEMA_INDEXES" and d: "distinct (map fst (db_tables d)) \<and> all_tables d"
  obtain i n cols where inc: "x = (i, n, cols)" by (cases x)
  have "\<forall>(i, n, cols) \<in> set SCHEMA_INDEXES. \<exists>base. (n, base) \<in> set SCHEMA_TABLES \<and> set cols \<subseteq> set base"
    by (simp add: SCHEMA_INDEXES_def SCHEMA_TABLES_def)
  with x inc obtain base where b: "(n, base) \<in> set SCHEMA_TABLES" "set cols \<subseteq> set base" by auto
  with d obtain t where t: "table_of n d = Some t" "set base \<subseteq> set (tb_columns t)" by (force simp: all_tables_def)
  have "find (\<lambda>c. c \<notin> set (tb_columns t)) cols = None" using b t by (auto simp: find_None_iff)
  then obtain d' where d': "create_index x d = Inr d'" "i \<in> set (db_indexes d')"
    using t by (cases "i \<in> set (db_indexes d)") (auto simp: create_index_def inc)
  then show "\<exists>d'. create_index x d = Inr d' \<and> extends d d' \<and> (distinct (map fst (db_tables d')) \<and> all_tables d') \<and> fst x \<in> set (db_indexes d')"
    using d distinct_steps(2) [OF _ d'(1)] extends_steps(2) [OF d'(1)] all_tables_extends inc by auto
qed (auto simp: extends_def)

lemma statements_columns:
  "statements_ok (\<lambda>d. distinct (map fst (db_tables d)) \<and> all_tables d) (map apply_additive_column ADDITIVE_COLUMNS)
     (\<lambda>d. (distinct (map fst (db_tables d)) \<and> all_tables d) \<and> (\<forall>x \<in> set ADDITIVE_COLUMNS. has_column (fst x) (snd x) d))"
proof (rule statements_each)
  fix x d assume x: "x \<in> set ADDITIVE_COLUMNS" and d: "distinct (map fst (db_tables d)) \<and> all_tables d"
  obtain n c where nc: "x = (n, c)" by (cases x)
  have "\<forall>(n, c) \<in> set ADDITIVE_COLUMNS. n \<in> fst ` set SCHEMA_TABLES" by (simp add: ADDITIVE_COLUMNS_def SCHEMA_TABLES_def)
  with x nc d obtain t where t: "table_of n d = Some t" by (force simp: all_tables_def)
  then obtain d' where d': "apply_additive_column x d = Inr d'" "has_column n c d'"
    by (cases "c \<in> set (tb_columns t)") (auto simp: apply_additive_column_def add_column_def has_column_def nc)
  then show "\<exists>d'. apply_additive_column x d = Inr d' \<and> extends d d' \<and> (distinct (map fst (db_tables d')) \<and> all_tables d') \<and> has_column (fst x) (snd x) d'"
    using d distinct_steps(3) [OF _ d'(1)] extends_steps(3) [OF d'(1)] all_tables_extends nc by auto
qed (auto intro: has_column_extends)

text \<open>The version, written last, and a second run of every statement.\<close>

lemma write_version_result:
  assumes "distinct (map fst (db_tables d))" "all_tables d"
  obtains t where "table_of ''schema_meta'' d = Some t" "write_version d = Inr (put_table ''schema_meta'' (t\<lparr>tb_rows :=
      filter (\<lambda>r. map_of r ''key'' \<noteq> Some (PStr ''version'')) (tb_rows t) @ [[(''key'', PStr ''version''), (''value'', PStr ''3'')]]\<rparr>) d)"
proof -
  have "(''schema_meta'', [''key'', ''value'']) \<in> set SCHEMA_TABLES" by (simp add: SCHEMA_TABLES_def)
  with assms(2) obtain t where t: "table_of ''schema_meta'' d = Some t" "set [''key'', ''value''] \<subseteq> set (tb_columns t)"
    unfolding all_tables_def by fastforce
  moreover have "str_nat SCHEMA_VERSION = ''3''" by code_simp
  ultimately show thesis by (intro that [OF t(1)]) (simp add: write_version_def)
qed

definition settled_schema :: "database \<Rightarrow> bool" where
  "settled_schema d \<longleftrightarrow> distinct (map fst (db_tables d)) \<and> all_tables d \<and> (\<forall>x \<in> set SCHEMA_INDEXES. fst x \<in> set (db_indexes d))
     \<and> (\<forall>(n, c) \<in> set ADDITIVE_COLUMNS. has_column n c d) \<and> write_version d = Inr d"

lemma run_statements_still: "(\<And>x. x \<in> set xs \<Longrightarrow> f x d = Inr d) \<Longrightarrow> run_statements (map f xs) d = (None, d)"
  by (induction xs) auto

lemma settled_schema_still: "settled_schema d \<Longrightarrow> run_statements schema_statements d = (None, d)"
proof -
  assume d: "settled_schema d"
  have "run_statements (map create_table SCHEMA_TABLES) d = (None, d)"
    by (rule run_statements_still) (use d in \<open>auto simp: settled_schema_def all_tables_def create_table_def split: option.splits\<close>)
  moreover have "run_statements (map create_index SCHEMA_INDEXES) d = (None, d)"
    by (rule run_statements_still) (use d in \<open>auto simp: settled_schema_def create_index_def\<close>)
  moreover have "run_statements (map apply_additive_column ADDITIVE_COLUMNS) d = (None, d)"
    by (rule run_statements_still)
      (use d in \<open>auto simp: settled_schema_def has_column_def apply_additive_column_def Let_def\<close>)
  ultimately show ?thesis using d by (simp add: schema_statements_def run_statements_append settled_schema_def)
qed

lemma dict_set_present: "k \<in> fst ` set d \<Longrightarrow> \<forall>w. (k, w) \<in> set d \<longrightarrow> w = v \<Longrightarrow> dict_set k v d = d"
  by (auto simp: dict_set_def intro!: map_idI)

lemma dict_set_again: "dict_set k v (dict_set k v d) = dict_set k v d"
proof (rule dict_set_present)
  show "k \<in> fst ` set (dict_set k v d)" by (force simp: dict_set_def)
  show "\<forall>w. (k, w) \<in> set (dict_set k v d) \<longrightarrow> w = v"
    by (cases "k \<in> fst ` set d") (auto simp: dict_set_def image_iff split: if_splits)
qed

lemma version_settles:
  assumes "distinct (map fst (db_tables d))" "all_tables d" "write_version d = Inr d'"
  shows "write_version d' = Inr d'" "read_version d' = Inr [''3'']"
proof -
  obtain t where t: "table_of ''schema_meta'' d = Some t" "write_version d = Inr (put_table ''schema_meta'' (t\<lparr>tb_rows :=
      filter (\<lambda>r. map_of r ''key'' \<noteq> Some (PStr ''version'')) (tb_rows t) @ [[(''key'', PStr ''version''), (''value'', PStr ''3'')]]\<rparr>) d)"
    by (rule write_version_result [OF assms(1,2)])
  with assms(3) have d': "d' = put_table ''schema_meta'' (t\<lparr>tb_rows :=
      filter (\<lambda>r. map_of r ''key'' \<noteq> Some (PStr ''version'')) (tb_rows t) @ [[(''key'', PStr ''version''), (''value'', PStr ''3'')]]\<rparr>) d"
    by simp
  show "read_version d' = Inr [''3'']" by (simp add: read_version_def d' filter_empty_conv)
  have "(''schema_meta'', [''key'', ''value'']) \<in> set SCHEMA_TABLES" by (simp add: SCHEMA_TABLES_def)
  with assms(2) t(1) have cols: "''key'' \<in> set (tb_columns t)" "''value'' \<in> set (tb_columns t)"
    unfolding all_tables_def by fastforce+
  have "str_nat SCHEMA_VERSION = ''3''" by code_simp
  then show "write_version d' = Inr d'"
    using cols by (simp add: dict_set_again write_version_def d' put_table_def table_of_def)
qed

section \<open>Properties\<close>

text \<open>
  C30. Opening a database of any earlier version brings it up to date and loses nothing. It succeeds, with
  the change committed; every table, every index and every additive column is there; a table that
  was there keeps its columns in their order and its rows, with \<open>NULL\<close> in each column added; the health
  check reports version 3; and opening the file again changes nothing.
\<close>

theorem migration_complete:
  assumes "database_ok d"
  shows "\<exists>d'. open_database_file path \<lparr>sf_file = d, sf_view = None\<rparr> = (None, at_rest d')
     \<and> (\<forall>(n, cols) \<in> set SCHEMA_TABLES. \<exists>t. table_of n d' = Some t \<and> set cols \<subseteq> set (tb_columns t))
     \<and> (\<forall>(n, c) \<in> set ADDITIVE_COLUMNS. \<exists>t. table_of n d' = Some t \<and> c \<in> set (tb_columns t))
     \<and> fst ` set SCHEMA_INDEXES \<subseteq> set (db_indexes d')
     \<and> (\<forall>n t. n \<noteq> ''schema_meta'' \<and> table_of n d = Some t \<longrightarrow> (\<exists>t'. table_of n d' = Some t' \<and> extends_table t t'))
     \<and> store_health path read_version (at_rest d') = (True, ''schema v3 at '' @ path)
     \<and> open_database_file path (store_close (at_rest d')) = (None, at_rest d')"
proof -
  let ?shape = "\<lambda>d. distinct (map fst (db_tables d)) \<and> all_tables d"
  obtain d1 where 1: "run_statements (map create_table SCHEMA_TABLES) d = (None, d1)" "extends d d1" "?shape d1"
    using statements_tables assms unfolding statements_ok_def by blast
  obtain d2 where 2: "run_statements (map create_index SCHEMA_INDEXES) d1 = (None, d2)" "extends d1 d2" "?shape d2"
      "\<forall>x \<in> set SCHEMA_INDEXES. fst x \<in> set (db_indexes d2)"
    using statements_indexes 1(3) unfolding statements_ok_def by blast
  obtain d3 where 3: "run_statements (map apply_additive_column ADDITIVE_COLUMNS) d2 = (None, d3)" "extends d2 d3" "?shape d3"
      "\<forall>x \<in> set ADDITIVE_COLUMNS. has_column (fst x) (snd x) d3"
    using statements_columns 2(3) unfolding statements_ok_def by blast
  obtain t where t: "table_of ''schema_meta'' d3 = Some t" "write_version d3 = Inr (put_table ''schema_meta'' (t\<lparr>tb_rows :=
      filter (\<lambda>r. map_of r ''key'' \<noteq> Some (PStr ''version'')) (tb_rows t) @ [[(''key'', PStr ''version''), (''value'', PStr ''3'')]]\<rparr>) d3)"
    using write_version_result 3(3) by blast
  define d' where "d' = put_table ''schema_meta'' (t\<lparr>tb_rows :=
      filter (\<lambda>r. map_of r ''key'' \<noteq> Some (PStr ''version'')) (tb_rows t) @ [[(''key'', PStr ''version''), (''value'', PStr ''3'')]]\<rparr>) d3"
  have w: "write_version d3 = Inr d'" using t(2) by (simp add: d'_def)
  have kept: "extends d d3" using 1(2) 2(2) 3(2) by (blast intro: extends_trans)
  have same: "n \<noteq> ''schema_meta'' \<Longrightarrow> table_of n d' = table_of n d3" "db_indexes d' = db_indexes d3" for n by (simp_all add: d'_def)
  have tables: "all_tables d'" using 3(3) t(1) by (fastforce simp: all_tables_def d'_def)
  have columns: "\<forall>(n, c) \<in> set ADDITIVE_COLUMNS. has_column n c d'"
    using 3(4) t(1) by (fastforce simp: has_column_def d'_def)
  have indexes: "\<forall>x \<in> set SCHEMA_INDEXES. fst x \<in> set (db_indexes d')"
    using 2(4) 3(2) by (auto simp: same(2) extends_def)
  have "settled_schema d'"
    using tables columns indexes version_settles(1) [OF _ _ w] 3(3) distinct_put by (auto simp: settled_schema_def d'_def)
  note still = settled_schema_still [OF this]
  have "run_statements schema_statements d = (None, d')"
    by (simp add: schema_statements_def run_statements_append 1(1) 2(1) 3(1) w)
  then have "open_database_file path \<lparr>sf_file = d, sf_view = None\<rparr> = (None, at_rest d')"
    by (simp add: open_database_file_def store_connect_def at_rest_def)
  moreover have "open_database_file path (store_close (at_rest d')) = (None, at_rest d')"
    using still by (simp add: open_database_file_def store_connect_def store_close_def at_rest_def)
  moreover have "store_health path read_version (at_rest d') = (True, ''schema v3 at '' @ path)"
    using version_settles(2) [OF _ _ w] 3(3) by (simp add: store_health_def store_fetch_def at_rest_def)
  ultimately show ?thesis
    using tables columns indexes kept same(1)
    by (intro exI [of _ d']) (auto simp: all_tables_def has_column_def extends_def)
qed

text \<open>A database of the first version with one audit row.\<close>

definition example_database :: database where
  "example_database =
     \<lparr>db_tables =
        [(''schema_meta'', \<lparr>tb_columns = [''key'', ''value''], tb_rows = [[(''key'', PStr ''version''), (''value'', PStr ''1'')]]\<rparr>),
         (''audit_events'', \<lparr>tb_columns = [''id'', ''timestamp'', ''event_type'', ''task_id'', ''actor'', ''component'', ''tool_name'', ''risk'',
             ''decision'', ''success'', ''duration_ms'', ''payload'', ''payload_sha256''],
           tb_rows = [[(''id'', PStr ''e1''), (''actor'', PStr ''cli'')]]\<rparr>)],
      db_indexes = []\<rparr>"

theorem migration_complete_witness:
  "\<exists>d'. open_database_file ''/d/scrappy.db'' \<lparr>sf_file = example_database, sf_view = None\<rparr> = (None, at_rest d')
     \<and> (\<forall>(n, cols) \<in> set SCHEMA_TABLES. \<exists>t. table_of n d' = Some t \<and> set cols \<subseteq> set (tb_columns t))
     \<and> (\<forall>(n, c) \<in> set ADDITIVE_COLUMNS. \<exists>t. table_of n d' = Some t \<and> c \<in> set (tb_columns t))
     \<and> fst ` set SCHEMA_INDEXES \<subseteq> set (db_indexes d')
     \<and> (\<forall>n t. n \<noteq> ''schema_meta'' \<and> table_of n example_database = Some t \<longrightarrow> (\<exists>t'. table_of n d' = Some t' \<and> extends_table t t'))
     \<and> store_health ''/d/scrappy.db'' read_version (at_rest d') = (True, ''schema v3 at /d/scrappy.db'')
     \<and> open_database_file ''/d/scrappy.db'' (store_close (at_rest d')) = (None, at_rest d')"
proof -
  have "database_ok example_database"
    by (simp add: database_ok_def example_database_def table_of_def SCHEMA_TABLES_def)
  from migration_complete [OF this, of "''/d/scrappy.db''"] show ?thesis by simp
qed

text \<open>
  A table of the same name from elsewhere: an index cannot be made, opening fails, and what was done
  before stays in the file.
\<close>

lemma foreign_table_fails:
  "\<exists>d'. open_database_file path \<lparr>sf_file = \<lparr>db_tables = [(''plans'', \<lparr>tb_columns = [''id''], tb_rows = []\<rparr>)], db_indexes = []\<rparr>, sf_view = None\<rparr>
      = (Some (StoreError (''Cannot open state database at '' @ path @ '': no such column: task_id'')), \<lparr>sf_file = d', sf_view = None\<rparr>)
    \<and> table_of ''credentials'' d' \<noteq> None"
proof -
  let ?d = "\<lparr>db_tables = [(''plans'', \<lparr>tb_columns = [''id''], tb_rows = []\<rparr>)], db_indexes = []\<rparr>"
  have "fst (run_statements schema_statements ?d) = Some ''no such column: task_id''"
    "table_of ''credentials'' (snd (run_statements schema_statements ?d)) \<noteq> None"
    by code_simp+
  then show ?thesis by (cases "run_statements schema_statements ?d") (auto simp: open_database_file_def store_connect_def)
qed

end
