(* ===== verification/Memory_Semantic.thy ===== *)
theory Memory_Semantic
  imports Mem_Store
begin

text \<open>
  \<open>memory/semantic.py\<close>: the semantic memory of this version, which keeps nothing and says so. The one
  debug line it writes is recorded as having been written.
\<close>

record null_memory =
  nm_notice_logged :: bool

definition new_null_memory :: null_memory where
  "new_null_memory = \<lparr>nm_notice_logged = False\<rparr>"

text \<open>\<open>store\<close>: a fresh identifier, and whether the notice was logged by this call.\<close>

definition semantic_store :: "string \<Rightarrow> payload \<Rightarrow> string \<Rightarrow> null_memory \<Rightarrow> string \<times> bool \<times> null_memory" where
  "semantic_store content metadata fresh m = (fresh, \<not> nm_notice_logged m, m\<lparr>nm_notice_logged := True\<rparr>)"

definition semantic_retrieve :: "string \<Rightarrow> nat \<Rightarrow> null_memory \<Rightarrow> (string \<times> rat) list" where
  "semantic_retrieve query limit m = []"

definition semantic_available :: "null_memory \<Rightarrow> bool" where
  "semantic_available m = False"

text \<open>Storing one text after the other.\<close>

fun store_all :: "(string \<times> payload \<times> string) list \<Rightarrow> null_memory \<Rightarrow> string list \<times> bool list \<times> null_memory" where
  "store_all [] m = ([], [], m)"
| "store_all ((content, metadata, fresh) # rest) m =
     (let (i, noticed, m1) = semantic_store content metadata fresh m; (is, ns, m2) = store_all rest m1 in (i # is, noticed # ns, m2))"

lemma quiet_once_noticed: "nm_notice_logged m \<Longrightarrow> fst (snd (store_all xs m)) = replicate (length xs) False"
proof (induction xs arbitrary: m)
  case (Cons x xs)
  obtain a b c where "x = (a, b, c)" by (cases x)
  with Cons show ?case by (simp add: semantic_store_def split_beta)
qed simp

text \<open>Whatever is stored, nothing comes back, and the loss is noted once, by the first call.\<close>

lemma nothing_is_recalled:
  "semantic_retrieve q n (snd (snd (store_all xs new_null_memory))) = []"
  "xs \<noteq> [] \<Longrightarrow> fst (snd (store_all xs new_null_memory)) = True # replicate (length xs - 1) False"
proof -
  show "semantic_retrieve q n (snd (snd (store_all xs new_null_memory))) = []" by (simp add: semantic_retrieve_def)
  show "xs \<noteq> [] \<Longrightarrow> fst (snd (store_all xs new_null_memory)) = True # replicate (length xs - 1) False"
    by (cases xs) (auto simp: semantic_store_def new_null_memory_def split_beta quiet_once_noticed)
qed

end
