(* ===== verification/Core_Config_File.thy ===== *)
theory Core_Config_File
  imports Core_Config Py_Files
begin

text \<open>
  The files behind \<open>load_settings\<close> of \<open>core/config.py\<close>: which configuration file is read, what is in it, the
  keys of the dotenv file, and the cached settings. The readers of YAML and of dotenv files are
  parameters; building \<open>ScrappySettings\<close> from the values is pydantic's.
\<close>

text \<open>What \<open>yaml.safe_load\<close> returns: a mapping, whose keys are any scalars, or something else.\<close>

datatype yaml_key = Key_text string | Key_other string \<comment> \<open>the name of its type\<close>

datatype yaml_value = Yaml_map "(yaml_key \<times> pyval) list" | Yaml_other pyval

definition yaml_empty :: "yaml_value \<Rightarrow> bool" where
  "yaml_empty y = (case y of Yaml_map items \<Rightarrow> items = [] | Yaml_other v \<Rightarrow> \<not> py_truth v)"

definition cannot_read_config :: "ppath \<Rightarrow> string \<Rightarrow> scrappy_error" where
  "cannot_read_config p t = ConfigurationError (''Cannot read config file '' @ str_ppath p @ '': '' @ t)"

text \<open>A failure of \<open>exists\<close>, and text that is not UTF-8, are no configuration errors.\<close>

definition load_yaml_overrides ::
  "os \<Rightarrow> (string \<Rightarrow> string option) \<Rightarrow> (string \<Rightarrow> string + yaml_value) \<Rightarrow> ppath \<Rightarrow> fs \<Rightarrow> scrappy_error + (yaml_key \<times> pyval) list" where
  "load_yaml_overrides os text_mode safe_load p f =
     (case exists_or_raises os f p of
        Inl m \<Rightarrow> Inl (Invalid m)
      | Inr False \<Rightarrow> Inr []
      | Inr True \<Rightarrow>
          (case resolve_path f p of None \<Rightarrow> Inl (Invalid ''OSError'') | Some q \<Rightarrow>
             (case read_text_file os text_mode q f of
                Text_os e \<Rightarrow> Inl (cannot_read_config p (os_text e))
              | Text_not_utf8 \<Rightarrow> Inl (Invalid ''UnicodeDecodeError'')
              | Text_read t \<Rightarrow>
                  (case safe_load t of
                     Inl m \<Rightarrow> Inl (cannot_read_config p m)
                   | Inr y \<Rightarrow> if yaml_empty y then Inr []
                       else (case y of Yaml_map items \<Rightarrow> Inr items
                         | Yaml_other v \<Rightarrow> Inl (ConfigurationError (''Config file '' @ str_ppath p @ '' must contain a mapping'')))))))"

text \<open>\<open>_default_config_file\<close>; \<open>environ\<close> is the value of \<open>SCRAPPY_CONFIG_FILE\<close>.\<close>

definition default_config_file :: "os \<Rightarrow> string option \<Rightarrow> fs \<Rightarrow> scrappy_error + ppath option" where
  "default_config_file os environ f =
     (case environ of Some (c # cs) \<Rightarrow>
        (case expanduser f (parse_path (c # cs)) of None \<Rightarrow> Inl (Invalid ''RuntimeError: Could not determine home directory.'') | Some p \<Rightarrow> Inr (Some p))
      | _ \<Rightarrow> (let local0 = parse_path ''config/scrappy.yaml'' in
          case exists_or_raises os f local0 of Inl m \<Rightarrow> Inl (Invalid m) | Inr there \<Rightarrow> Inr (if there then Some local0 else None)))"

text \<open>\<open>_dotenv_keys\<close>; \<open>dotenv_values\<close> gives the keys of the file, or fails with an \<open>OSError\<close> or \<open>ValueError\<close>.\<close>

definition dotenv_keys :: "os \<Rightarrow> (fs \<Rightarrow> string list option) \<Rightarrow> fs \<Rightarrow> scrappy_error + string list" where
  "dotenv_keys os dotenv_values f =
     (case exists_or_raises os f (parse_path ''.env'') of
        Inl m \<Rightarrow> Inl (Invalid m)
      | Inr False \<Rightarrow> Inr []
      | Inr True \<Rightarrow> Inr (case dotenv_values f of None \<Rightarrow> [] | Some keys \<Rightarrow> filter (\<lambda>k. k \<noteq> []) keys))"

text \<open>A key that is no string has no \<open>lower\<close>.\<close>

fun text_keys :: "(yaml_key \<times> pyval) list \<Rightarrow> scrappy_error + (string \<times> pyval) list" where
  "text_keys [] = Inr []"
| "text_keys ((Key_text k, v) # items) = ebind (text_keys items) (\<lambda>rest. Inr ((k, v) # rest))"
| "text_keys ((Key_other ty, v) # items) = Inl (Invalid (''AttributeError: '' @ py_repr ty @ '' object has no attribute 'lower''))"

record config_sources =
  cs_environ :: "string list" \<comment> \<open>the names in the environment\<close>
  cs_config_var :: "string option"
  cs_text_mode :: "string \<Rightarrow> string option"
  cs_safe_load :: "string \<Rightarrow> string + yaml_value"
  cs_dotenv_values :: "fs \<Rightarrow> string list option"

text \<open>The constructor arguments of \<open>load_settings\<close>.\<close>

definition settings_values :: "os \<Rightarrow> config_sources \<Rightarrow> ppath option \<Rightarrow> payload \<Rightarrow> fs \<Rightarrow> scrappy_error + payload" where
  "settings_values os cs config_file overrides f =
     ebind (case config_file of Some p \<Rightarrow> Inr (Some p) | None \<Rightarrow> default_config_file os (cs_config_var cs) f) (\<lambda>candidate.
       case candidate of
         None \<Rightarrow> Inr (load_values (cs_environ cs) [] None overrides)
       | Some p \<Rightarrow>
           ebind (dotenv_keys os (cs_dotenv_values cs) f) (\<lambda>dotenv.
           ebind (load_yaml_overrides os (cs_text_mode cs) (cs_safe_load cs) p f) (\<lambda>items.
           ebind (text_keys items) (\<lambda>yaml.
             Inr (load_values (cs_environ cs) dotenv (Some yaml) overrides)))))"

text \<open>\<open>get_settings\<close>, cached: what was built first is what is returned, and a failure is not kept.\<close>

definition get_settings :: "scrappy_error + 's \<Rightarrow> 's option \<Rightarrow> (scrappy_error + 's) \<times> 's option" where
  "get_settings build cache = (case cache of Some s \<Rightarrow> (Inr s, Some s)
     | None \<Rightarrow> (build, case build of Inl e \<Rightarrow> None | Inr s \<Rightarrow> Some s))"

definition reset_settings_cache :: "'s option \<Rightarrow> 's option" where
  "reset_settings_cache cache = None"

section \<open>Lemmas\<close>

lemma get_settings_once: "get_settings build cache = (Inr s, c) \<Longrightarrow> get_settings build' c = (Inr s, c)"
  by (auto simp: get_settings_def split: option.splits sum.splits)

text \<open>
  What can go wrong with an existing file, and how: only an unreadable file, malformed YAML and a value
  that is no mapping are configuration errors.
\<close>

lemma config_errors:
  assumes "load_yaml_overrides os text_mode safe_load p f = Inl e" "exists_or_raises os f p = Inr True"
  shows "(\<exists>m. e = ConfigurationError m) \<or> e = Invalid ''UnicodeDecodeError''"
proof -
  obtain q where "resolve_path f p = Some q" using assms(2) by (auto simp: exists_or_raises_def split: option.splits)
  with assms show ?thesis
    by (auto simp: load_yaml_overrides_def cannot_read_config_def split: read_text.splits sum.splits if_splits yaml_value.splits)
qed

text \<open>Nothing found, nothing read: the overrides alone, and the environment is pydantic's.\<close>

lemma no_config_file:
  "default_config_file os (cs_config_var cs) f = Inr None \<Longrightarrow> settings_values os cs None overrides f = Inr (dict_update [] overrides)"
  by (simp add: settings_values_def load_values_def)

lemma missing_config_file:
  assumes "exists_or_raises os f p = Inr False" "dotenv_keys os (cs_dotenv_values cs) f = Inr keys"
  shows "settings_values os cs (Some p) overrides f = Inr (dict_update [] overrides)"
  using assms by (simp add: settings_values_def load_values_def load_yaml_overrides_def)

end
