(* ===== verification/Core_Config_Validators.thy ===== *)
theory Core_Config_Validators
  imports Core_Config_File
begin

text \<open>
  The validators of \<open>ScrappySettings\<close> (\<open>core/config.py\<close>): what becomes of a directory, a base URL and a log
  level before a setting has its value. They run on the defaults too.
\<close>

section \<open>Variables in a path\<close>

text \<open>
  \<open>os.path.expandvars\<close>: \<open>$name\<close> and \<open>${name}\<close> are replaced where the environment has the name, from left
  to right; what was put in is not looked at again.
\<close>

definition is_word_ascii :: "char \<Rightarrow> bool" where
  "is_word_ascii c \<longleftrightarrow> (let n = (of_char c :: nat) in
     48 \<le> n \<and> n \<le> 57 \<or> 65 \<le> n \<and> n \<le> 90 \<or> n = 95 \<or> 97 \<le> n \<and> n \<le> 122)"

lemma tl_dropWhile_shorter: "length (dropWhile P ds) - Suc 0 \<le> Suc (length ds)"
  using length_dropWhile_le [of P ds] by simp

function expandvars :: "(string \<Rightarrow> string option) \<Rightarrow> string \<Rightarrow> string" where
  "expandvars env [] = []"
| "expandvars env (c # cs) =
     (if c \<noteq> CHR ''$'' then c # expandvars env cs
      else let name = takeWhile is_word_ascii cs in
        if name \<noteq> [] then or_else (env name) (c # name) @ expandvars env (dropWhile is_word_ascii cs)
        else case cs of [] \<Rightarrow> [c]
          | b # ds \<Rightarrow>
              (let inner = takeWhile (\<lambda>x. x \<noteq> CHR ''}'') ds; after = dropWhile (\<lambda>x. x \<noteq> CHR ''}'') ds in
               if b = CHR ''{'' \<and> after \<noteq> []
               then or_else (env inner) (''${'' @ inner @ ''}'') @ expandvars env (tl after)
               else c # expandvars env cs))"
  by pat_completeness auto
termination
  by (relation "measure (length \<circ> snd)") (auto simp: less_Suc_eq_le length_dropWhile_le tl_dropWhile_shorter)

declare expandvars.simps(2) [simp del]

section \<open>The validators\<close>

text \<open>\<open>_expand\<close>, of \<open>data_dir\<close> and \<open>workspace\<close>.\<close>

definition expand_directory :: "(string \<Rightarrow> string option) \<Rightarrow> fs \<Rightarrow> ppath \<Rightarrow> scrappy_error + ppath" where
  "expand_directory env f p = (case expanduser f (parse_path (expandvars env (str_ppath p))) of
     None \<Rightarrow> Inl (Invalid ''RuntimeError: Could not determine home directory.'') | Some q \<Rightarrow> Inr q)"

text \<open>
  \<open>_upper\<close>, of a log level that is a text. A level with a letter outside ASCII is none of the four either way.
\<close>

definition upper_level :: "pyval \<Rightarrow> pyval" where
  "upper_level v = (case v of PStr t \<Rightarrow> PStr (upper_ascii t) | _ \<Rightarrow> v)"

text \<open>\<open>_no_trailing_slash\<close>, of the two base URLs.\<close>

definition no_trailing_slash :: "string \<Rightarrow> string" where
  "no_trailing_slash t = rev (dropWhile (\<lambda>c. c = CHR ''/'') (rev t))"

text \<open>The settings after the validators that run on typed values.\<close>

definition validated :: "(string \<Rightarrow> string option) \<Rightarrow> fs \<Rightarrow> settings \<Rightarrow> scrappy_error + settings" where
  "validated env f s =
     ebind (expand_directory env f (data_dir s)) (\<lambda>d.
     ebind (expand_directory env f (workspace s)) (\<lambda>w.
     Inr (s\<lparr>openai_base_url := no_trailing_slash (openai_base_url s), ollama_base_url := no_trailing_slash (ollama_base_url s),
            data_dir := d, workspace := w\<rparr>)))"

section \<open>Lemmas\<close>

lemma expandvars_plain: "CHR ''$'' \<notin> set t \<Longrightarrow> expandvars env t = t"
  by (induction t) (auto simp: expandvars.simps(2))

lemma expandvars_before: "CHR ''$'' \<notin> set t \<Longrightarrow> expandvars env (t @ u) = t @ expandvars env u"
  by (induction t) (auto simp: expandvars.simps(2))

text \<open>A value is put in as it is, even when it holds a \<open>$\<close> itself.\<close>

lemma expandvars_name:
  assumes "name \<noteq> []" "list_all is_word_ascii name" "u = [] \<or> \<not> is_word_ascii (hd u)"
  shows "expandvars env (CHR ''$'' # name @ u) = or_else (env name) (CHR ''$'' # name) @ expandvars env u"
proof -
  have "takeWhile is_word_ascii (name @ u) = name" "dropWhile is_word_ascii (name @ u) = u"
    using assms(2,3) by (cases u; simp add: takeWhile_append dropWhile_append list_all_iff)+
  with assms(1) show ?thesis by (simp add: expandvars.simps(2))
qed

lemma expandvars_braced:
  assumes "CHR ''}'' \<notin> set name"
  shows "expandvars env (''${'' @ name @ ''}'' @ u) = or_else (env name) (''${'' @ name @ ''}'') @ expandvars env u"
proof -
  have "takeWhile (\<lambda>x. x \<noteq> CHR ''}'') (name @ CHR ''}'' # u) = name" "dropWhile (\<lambda>x. x \<noteq> CHR ''}'') (name @ CHR ''}'' # u) = CHR ''}'' # u"
    using assms by (auto simp: takeWhile_append dropWhile_append)
  moreover have "\<not> is_word_ascii (CHR ''{'')" by (simp add: is_word_ascii_def)
  ultimately show ?thesis by (simp add: expandvars.simps(2) [of _ "CHR ''$''"])
qed

text \<open>With an empty environment, a path is what it was.\<close>

lemma up_to_brace:
  assumes "dropWhile (\<lambda>x. x \<noteq> CHR ''}'') ds \<noteq> []"
  shows "takeWhile (\<lambda>x. x \<noteq> CHR ''}'') ds @ CHR ''}'' # tl (dropWhile (\<lambda>x. x \<noteq> CHR ''}'') ds) = ds"
proof -
  have "CHR ''}'' # tl (dropWhile (\<lambda>x. x \<noteq> CHR ''}'') ds) = dropWhile (\<lambda>x. x \<noteq> CHR ''}'') ds"
    using assms hd_dropWhile [OF assms] by (metis list.collapse)
  then show ?thesis by simp
qed

lemma expandvars_unset: "expandvars (\<lambda>n. None) t = t"
proof (induction t rule: length_induct)
  case (1 t)
  then have IH: "expandvars (\<lambda>n. None) u = u" if "length u < length t" for u using that by blast
  show ?case
  proof (cases t)
    case (Cons c cs)
    note step = expandvars.simps(2) [of "\<lambda>n. None" c cs]
    have rest: "expandvars (\<lambda>n. None) cs = cs" "expandvars (\<lambda>n. None) (dropWhile is_word_ascii cs) = dropWhile is_word_ascii cs"
      using IH Cons length_dropWhile_le [of is_word_ascii cs] by simp_all
    have brace: "expandvars (\<lambda>n. None) (tl (dropWhile P ds)) = tl (dropWhile P ds)" if "cs = b # ds" for P b ds
      using IH [of "tl (dropWhile P ds)"] Cons that length_dropWhile_le [of P ds] by simp
    have name: "takeWhile is_word_ascii cs @ dropWhile is_word_ascii cs = cs" by simp
    from rest brace name up_to_brace show ?thesis
      unfolding Cons step by (cases cs) (simp_all add: or_else_def Let_def del: takeWhile.simps dropWhile.simps)
  qed simp
qed

lemma no_trailing_slash_clean: "no_trailing_slash t = [] \<or> last (no_trailing_slash t) \<noteq> CHR ''/''"
  unfolding no_trailing_slash_def using hd_dropWhile [of "\<lambda>c. c = CHR ''/''" "rev t"] by (auto simp: last_rev)

lemma no_trailing_slash_prefix: "\<exists>n. t = no_trailing_slash t @ replicate n (CHR ''/'')"
proof -
  have "rev t = takeWhile (\<lambda>c. c = CHR ''/'') (rev t) @ dropWhile (\<lambda>c. c = CHR ''/'') (rev t)" by simp
  moreover have "takeWhile (\<lambda>c. c = CHR ''/'') u = replicate (length (takeWhile (\<lambda>c. c = CHR ''/'') u)) (CHR ''/'')" for u
    by (rule replicate_eqI) (auto dest: set_takeWhileD)
  ultimately have "rev t = replicate (length (takeWhile (\<lambda>c. c = CHR ''/'') (rev t))) (CHR ''/'') @ rev (no_trailing_slash t)"
    by (simp add: no_trailing_slash_def)
  then show ?thesis by (metis rev_append rev_replicate rev_rev_ident)
qed

lemma no_trailing_slash_idem [simp]: "no_trailing_slash (no_trailing_slash t) = no_trailing_slash t"
  by (simp add: no_trailing_slash_def dropWhile_idem)

text \<open>A level in any mixture of cases is accepted.\<close>

lemma upper_level_examples: "upper_level (PStr ''wArning'') = PStr ''WARNING''" "upper_level PNone = PNone"
  by code_simp+

text \<open>The limits of the fields are untouched by the validators.\<close>

lemma validated_valid:
  assumes "validated env f s = Inr s'"
  shows "settings_valid s' = settings_valid s"
proof -
  from assms obtain d w where "s' = s\<lparr>openai_base_url := no_trailing_slash (openai_base_url s),
      ollama_base_url := no_trailing_slash (ollama_base_url s), data_dir := d, workspace := w\<rparr>"
    unfolding validated_def by auto
  then show ?thesis by (simp add: settings_valid_def)
qed

end
