(* ===== verification/Agents_Prompts.thy ===== *)
theory Agents_Prompts
  imports Core_Enums Py_Files
begin

text \<open>
  The prompts on disk of \<open>agents/base.py\<close>: the directories an override is looked for in, and the text of a
  role's standing prompt, the built-in one when no file gives another.
\<close>

definition join_ppath :: "ppath \<Rightarrow> string list \<Rightarrow> ppath" where
  "join_ppath p parts = PPath (p_abs p) (p_parts p @ parts)"

text \<open>\<open>source\<close> is the resolved path of \<open>base.py\<close>; \<open>override\<close> the value of \<open>SCRAPPY_PROMPT_DIR\<close>.\<close>

definition prompt_dirs :: "string option \<Rightarrow> path \<Rightarrow> fs \<Rightarrow> scrappy_error + ppath list" where
  "prompt_dirs override source f =
     ebind (case override of Some (c # cs) \<Rightarrow>
         (case expanduser f (parse_path (c # cs)) of None \<Rightarrow> Inl (Invalid ''RuntimeError: Could not determine home directory.'') | Some p \<Rightarrow> Inr [p])
       | _ \<Rightarrow> Inr []) (\<lambda>first.
     Inr (first @ [of_resolved (take (length source - 4) source @ [''prompts'']), of_resolved (cwd f @ [''prompts''])]))"

text \<open>One candidate: its text, \<open>None\<close> to go on with the next; what is not UTF-8 is not caught.\<close>

definition read_prompt :: "os \<Rightarrow> (string \<Rightarrow> string option) \<Rightarrow> fs \<Rightarrow> ppath \<Rightarrow> scrappy_error + string option" where
  "read_prompt os text_mode f p =
     (case resolve_path f p of None \<Rightarrow> Inr None | Some q \<Rightarrow>
        if os_fault os Sys_stat q \<noteq> None \<or> \<not> (case nodes f q of Some (File t) \<Rightarrow> True | _ \<Rightarrow> False) then Inr None
        else (case read_text_file os text_mode q f of
            Text_os e \<Rightarrow> Inr None
          | Text_not_utf8 \<Rightarrow> Inl (Invalid ''UnicodeDecodeError'')
          | Text_read t \<Rightarrow> Inr (Some (py_strip t))))"

fun first_prompt :: "os \<Rightarrow> (string \<Rightarrow> string option) \<Rightarrow> fs \<Rightarrow> string \<Rightarrow> ppath list \<Rightarrow> scrappy_error + string option" where
  "first_prompt os text_mode f name [] = Inr None"
| "first_prompt os text_mode f name (d # ds) =
     ebind (read_prompt os text_mode f (join_ppath d [name @ ''.md''])) (\<lambda>found.
       case found of Some t \<Rightarrow> Inr (Some t) | None \<Rightarrow> first_prompt os text_mode f name ds)"

definition load_prompt :: "os \<Rightarrow> (string \<Rightarrow> string option) \<Rightarrow> string option \<Rightarrow> path \<Rightarrow> string \<Rightarrow> string \<Rightarrow> fs \<Rightarrow> scrappy_error + string" where
  "load_prompt os text_mode override source name fallback f =
     ebind (prompt_dirs override source f) (\<lambda>ds.
     ebind (first_prompt os text_mode f name ds) (\<lambda>found.
     Inr (case found of Some t \<Rightarrow> t | None \<Rightarrow> py_strip fallback)))"

text \<open>\<open>system_prompt\<close> of the three roles, with their built-in texts as arguments.\<close>

definition prompt_name :: "agent_role \<Rightarrow> string" where
  "prompt_name r = role_value r"

definition system_prompt :: "os \<Rightarrow> (string \<Rightarrow> string option) \<Rightarrow> string option \<Rightarrow> path \<Rightarrow> (agent_role \<Rightarrow> string) \<Rightarrow> agent_role \<Rightarrow> fs \<Rightarrow> scrappy_error + string" where
  "system_prompt os text_mode override source builtin r f = load_prompt os text_mode override source (prompt_name r) (builtin r) f"

section \<open>Lemmas\<close>

text \<open>The first candidate that reads wins.\<close>

lemma first_prompt_wins:
  "(\<And>d. d \<in> set before \<Longrightarrow> read_prompt os text_mode f (join_ppath d [name @ ''.md'']) = Inr None) \<Longrightarrow>
   read_prompt os text_mode f (join_ppath d [name @ ''.md'']) = Inr (Some t) \<Longrightarrow>
   first_prompt os text_mode f name (before @ d # rest) = Inr (Some t)"
  by (induction before) auto

lemma first_prompt_none:
  "first_prompt os text_mode f name ds = Inr None \<longleftrightarrow> (\<forall>d \<in> set ds. read_prompt os text_mode f (join_ppath d [name @ ''.md'']) = Inr None)"
  by (induction ds) (auto split: option.splits)

text \<open>No unreadable file fails a boot but one that is not UTF-8, and an override in an unknown home.\<close>

lemma load_prompt_fails:
  assumes "load_prompt os text_mode override source name fallback f = Inl e"
  shows "e = Invalid ''UnicodeDecodeError'' \<or> e = Invalid ''RuntimeError: Could not determine home directory.''"
proof -
  have read: "e = Invalid ''UnicodeDecodeError''" if "first_prompt os text_mode f name ds = Inl e" for ds
    using that by (induction ds)
      (auto simp: read_prompt_def ebind_eq_Inl split: option.splits if_splits read_text.splits)
  from assms have "prompt_dirs override source f = Inl e \<or> (\<exists>ds. first_prompt os text_mode f name ds = Inl e)"
    by (auto simp: load_prompt_def ebind_eq_Inl)
  then show ?thesis
    using read by (auto simp: prompt_dirs_def ebind_eq_Inl split: option.splits list.splits)
qed

end
