(* ===== verification/Breath.thy ===== *)
theory Breath
  imports Heart_Runtime
begin

text \<open>
  The lifecycle of \<open>breath/heartbeat.py\<close>: the loop that beats on an interval, its start and its stop. What
  one beat publishes is \<open>heart_beat\<close>; here a beat only ends or raises.
\<close>

text \<open>The task of the loop, as \<open>_task\<close> refers to it.\<close>

datatype breath_loop = L_waiting | L_returned | L_raised string

record breath =
  bt_interval :: time
  bt_task :: "breath_loop option"
  bt_stopping :: bool
  bt_beats :: nat

definition new_breath :: "time option \<Rightarrow> settings \<Rightarrow> breath" where
  "new_breath interval s =
     \<lparr>bt_interval = (case interval of None \<Rightarrow> heartbeat_seconds s | Some t \<Rightarrow> if t = 0 then heartbeat_seconds s else t),
      bt_task = None, bt_stopping = False, bt_beats = 0\<rparr>"

definition breath_running :: "breath \<Rightarrow> bool" where
  "breath_running b \<longleftrightarrow> bt_task b = Some L_waiting"

definition breath_start :: "breath \<Rightarrow> breath" where
  "breath_start b = (if breath_running b then b else b\<lparr>bt_stopping := False, bt_task := Some L_waiting\<rparr>)"

text \<open>
  The end of one wait of \<open>_loop\<close>, when the loop runs: the stop event, or the interval and a beat, which
  is counted before it is published and ends the loop when publishing raises.
\<close>

definition loop_round :: "string option \<Rightarrow> breath \<Rightarrow> breath" where
  "loop_round raised b =
     (if \<not> breath_running b then b
      else if bt_stopping b then b\<lparr>bt_task := Some L_returned\<rparr>
      else b\<lparr>bt_beats := Suc (bt_beats b), bt_task := Some (case raised of None \<Rightarrow> L_waiting | Some e \<Rightarrow> L_raised e)\<rparr>)"

text \<open>
  \<open>stop\<close>: the task is cancelled and awaited; only the cancellation is suppressed, so an exception the
  loop had died of is raised here, before the task is forgotten.
\<close>

definition breath_stop :: "breath \<Rightarrow> string option \<times> breath" where
  "breath_stop b = (case bt_task b of
     None \<Rightarrow> (None, b)
   | Some (L_raised e) \<Rightarrow> (Some e, b\<lparr>bt_stopping := True\<rparr>)
   | Some _ \<Rightarrow> (None, b\<lparr>bt_stopping := True, bt_task := None\<rparr>))"

section \<open>Steps\<close>

inductive breath_step :: "breath \<Rightarrow> breath \<Rightarrow> bool" where
  started: "breath_step b (breath_start b)"
| rounded: "breath_step b (loop_round raised b)"
| stopped: "breath_step b (snd (breath_stop b))"

inductive_cases breath_stepE: "breath_step b b'"

definition breath_reachable :: "breath \<Rightarrow> breath \<Rightarrow> bool" where
  "breath_reachable = breath_step\<^sup>*\<^sup>*"

lemmas breath_defs = breath_start_def loop_round_def breath_stop_def breath_running_def

text \<open>A waiting loop has not been told to stop, so every wait ends with a beat.\<close>

definition breath_ok :: "breath \<Rightarrow> bool" where
  "breath_ok b \<longleftrightarrow> (breath_running b \<longrightarrow> \<not> bt_stopping b) \<and> bt_task b \<noteq> Some L_returned"

lemma breath_ok_step: "breath_step b b' \<Longrightarrow> breath_ok b \<Longrightarrow> breath_ok b'"
  by (erule breath_stepE) (auto simp: breath_ok_def breath_defs split: option.splits breath_loop.splits if_splits)

lemma breath_ok_reachable: "breath_reachable b b' \<Longrightarrow> breath_ok b \<Longrightarrow> breath_ok b'"
  unfolding breath_reachable_def by (induction rule: rtranclp_induct) (auto intro: breath_ok_step)

lemma breath_ok_new: "breath_ok (new_breath interval s)"
  by (simp add: breath_ok_def new_breath_def breath_running_def)

text \<open>Beats are only counted, and none is while the loop does not run.\<close>

lemma beats_grow: "breath_step b b' \<Longrightarrow> bt_beats b \<le> bt_beats b' \<and> (bt_beats b < bt_beats b' \<longrightarrow> breath_running b)"
  by (erule breath_stepE) (auto simp: breath_defs split: option.splits breath_loop.splits)

text \<open>A clean stop leaves no loop; one that had died makes every stop raise and stays.\<close>

lemma stop_clean: "breath_ok b \<Longrightarrow> fst (breath_stop b) = None \<Longrightarrow> bt_task (snd (breath_stop b)) = None"
  by (auto simp: breath_ok_def breath_defs split: option.splits breath_loop.splits)

lemma dead_loop_keeps_raising: "bt_task b = Some (L_raised e) \<Longrightarrow> fst (breath_stop b) = Some e \<and> bt_task (snd (breath_stop b)) = Some (L_raised e)"
  by (simp add: breath_stop_def)

lemma restart_after_death: "bt_task b = Some (L_raised e) \<Longrightarrow> breath_running (breath_start b) \<and> bt_beats (breath_start b) = bt_beats b"
  by (simp add: breath_defs)

end
