(* ===== verification/Heart_Interleaved.thy ===== *)
theory Heart_Interleaved
  imports Heart_Runtime
begin

text \<open>
  The runtime of \<open>heart/runtime.py\<close> on its event loop. \<open>start\<close>, \<open>stop\<close>, \<open>health\<close> and \<open>publish\<close> wait in the middle,
  and whatever else the loop has to do may happen there: other calls of the lifecycle, submissions, the runs, beats,
  probes, and publications by anyone. A state holds the runtime, the calls of \<open>start\<close> and \<open>stop\<close> that are waiting, each
  at one of its waits, and the publications under way, each with the handlers it still has to call. A step goes
  from one wait to the next. The segments between the waits are those of \<open>Heart_Runtime\<close>; \<open>start_undisturbed\<close> and
  \<open>stop_undisturbed\<close> show that \<open>heart_start\<close> and \<open>stop_end\<close> are the steps of one call with nothing in between.
  Everything a caller may wait for may also fail or be cancelled there, which ends the call.
\<close>

section \<open>Publishing\<close>

text \<open>\<open>publish\<close> up to its first handler, and after its last.\<close>

definition publish_begin :: "event \<Rightarrow> 'w event_bus \<Rightarrow> 'w event_bus" where
  "publish_begin e b = b\<lparr>b_history := bounded_append (b_history_size b) (b_history b) e, b_published := Suc (b_published b)\<rparr>"

definition publish_offer :: "event \<Rightarrow> nat list \<Rightarrow> 'w event_bus \<Rightarrow> 'w event_bus" where
  "publish_offer e subs b = b\<lparr>b_subs := map (\<lambda>s. if sub_id s \<in> set subs then snd (offer e s) else s) (b_subs b)\<rparr>"

text \<open>A publication under way: the handlers and the subscriptions are those of its beginning.\<close>

record flight =
  fl_event :: event
  fl_handlers :: "runtime_state handler list"
  fl_subs :: "nat list"

text \<open>One handler is called; one that raises is counted.\<close>

definition handle_one :: "runtime_state handler \<Rightarrow> event \<Rightarrow> heart \<Rightarrow> heart" where
  "handle_one hnd e h =
     (if \<not> handler_selects hnd e then h
      else let (raised, s) = hd_run hnd e (ht_state h) in
           h\<lparr>ht_state := s, ht_bus := (ht_bus h)\<lparr>b_handler_errors := b_handler_errors (ht_bus h) + (if raised then 1 else 0)\<rparr>\<rparr>)"

section \<open>States\<close>

text \<open>Where a call waits: \<open>start\<close> for the store; \<open>stop\<close> for the heartbeat, the runs, its announcement, the store.\<close>

datatype phase = Opening bool nat | Resting | Draining | Telling event | Closing | Closing_idle

text \<open>
  \<open>lv_orphans\<close> are heartbeats that go on although the runtime no longer knows them, \<open>lv_dead\<close> says that the loop
  of its heartbeat raised. The rest records what happened: with each event published, how many handlers
  were attached and whether the runtime was serving; the publications cut off; the runs a stop asked to
  cancel and those made after it asked; whether the bus was closed since the last start; and whether no call of the lifecycle was made while another waited.
\<close>

record live =
  lv_heart :: heart
  lv_calls :: "phase list"
  lv_flights :: "flight list"
  lv_orphans :: "nat list"
  lv_dead :: bool
  lv_log :: "(event \<times> nat \<times> bool) list"
  lv_cut :: "flight list"
  lv_doomed :: "string list"
  lv_late :: "string list"
  lv_closed :: bool
  lv_serial :: bool

definition new_live :: "heart \<Rightarrow> live" where
  "new_live h = \<lparr>lv_heart = h, lv_calls = [], lv_flights = [], lv_orphans = [], lv_dead = False, lv_log = [], lv_cut = [],
     lv_doomed = [], lv_late = [], lv_closed = False, lv_serial = True\<rparr>"

definition serving :: "live \<Rightarrow> bool" where
  "serving L \<longleftrightarrow> ht_started (lv_heart L) \<and> \<not> lv_closed L"

definition running :: "heart \<Rightarrow> string list" where
  "running h = map fst (filter (\<lambda>(k, x). x = H_running) (ht_handles h))"

definition enter :: "phase \<Rightarrow> live \<Rightarrow> live" where
  "enter ph L = L\<lparr>lv_serial := lv_serial L \<and> lv_calls L = [], lv_calls := lv_calls L @ [ph]\<rparr>"

definition go_on :: "phase \<Rightarrow> phase list \<Rightarrow> live \<Rightarrow> live" where
  "go_on ph next L = L\<lparr>lv_calls := remove1 ph (lv_calls L) @ next\<rparr>"

definition begin_publishing :: "event \<Rightarrow> plane \<Rightarrow> live \<Rightarrow> live" where
  "begin_publishing e pl L =
     (let h = lv_heart L; b = ht_bus h in
      L\<lparr>lv_heart := h\<lparr>ht_plane := pl, ht_bus := publish_begin e b\<rparr>,
        lv_flights := lv_flights L @ [\<lparr>fl_event = e, fl_handlers = b_handlers b, fl_subs = b_active b\<rparr>],
        lv_log := lv_log L @ [(e, length (b_handlers b), serving L)]\<rparr>)"

text \<open>The control plane goes on and \<open>e\<close> is what is published meanwhile.\<close>

definition publishes :: "event \<Rightarrow> plane \<Rightarrow> plane \<Rightarrow> bool" where
  "publishes e pl pl' \<longleftrightarrow> advance pl pl' \<and> pl_published pl' = pl_published pl @ [e]"

definition system_event :: "string \<Rightarrow> event_type \<Rightarrow> string \<Rightarrow> payload \<Rightarrow> plane \<Rightarrow> event" where
  "system_event i ty component payload pl = emit_event i (pl_now pl) ty None component (Some SYSTEM_ACTOR) payload"

section \<open>The segments\<close>

text \<open>\<open>start\<close> after the store is open. A heartbeat the runtime had is forgotten when it makes one.\<close>

definition live_ready :: "bool \<Rightarrow> live \<Rightarrow> live" where
  "live_ready beating L = L\<lparr>lv_heart := start_ready beating (lv_heart L), lv_closed := False,
     lv_orphans := lv_orphans L @ (if beating then case ht_beats (lv_heart L) of None \<Rightarrow> [] | Some n \<Rightarrow> [n] else []),
     lv_dead := lv_dead L \<and> \<not> beating\<rparr>"

text \<open>\<open>self._heartbeat = None\<close>, after the wait for its loop.\<close>

definition live_rested :: "live \<Rightarrow> live" where
  "live_rested L = L\<lparr>lv_heart := (lv_heart L)\<lparr>ht_beats := None\<rparr>, lv_dead := False,
     lv_orphans := lv_orphans L @ (case ht_beats (lv_heart L) of None \<Rightarrow> [] | Some n \<Rightarrow> [n])\<rparr>"

text \<open>\<open>task.cancel()\<close> asks; the run ends at its next step.\<close>

definition live_doom :: "live \<Rightarrow> live" where
  "live_doom L = L\<lparr>lv_doomed := lv_doomed L @ filter (\<lambda>k. k \<in> set (ht_active (lv_heart L))) (running (lv_heart L))\<rparr>"

definition live_bus :: "live \<Rightarrow> live" where
  "live_bus L = L\<lparr>lv_heart := stop_bus (lv_heart L), lv_closed := True\<rparr>"

text \<open>A run that is made after a stop has asked the others to end.\<close>

definition swept :: "live \<Rightarrow> bool" where
  "swept L \<longleftrightarrow> (\<exists>ph \<in> set (lv_calls L). case ph of Telling e \<Rightarrow> True | Closing \<Rightarrow> True | _ \<Rightarrow> False)"

definition live_run :: "string \<Rightarrow> heart \<Rightarrow> live \<Rightarrow> live" where
  "live_run key h L = L\<lparr>lv_heart := h, lv_late := (if swept L then key # lv_late L else lv_late L)\<rparr>"

section \<open>Steps\<close>

text \<open>
  A \<open>start\<close> of a started runtime does nothing, and needs no step. The keys of runs are new: they are
  the ids of objectives and tasks.
\<close>

inductive live_step :: "live \<Rightarrow> live \<Rightarrow> bool" where
  start_called: "\<not> ht_started (lv_heart L) \<Longrightarrow> live_step L (enter (Opening beating enabled) L)"
| connected: "Opening beating enabled \<in> set (lv_calls L) \<Longrightarrow> L1 = live_ready beating (go_on (Opening beating enabled) [] L) \<Longrightarrow>
    e = system_event i RUNTIME_STARTED ''heart'' (started_payload enabled (lv_heart L1)) (ht_plane (lv_heart L1)) \<Longrightarrow>
    publishes e (ht_plane (lv_heart L1)) pl \<Longrightarrow> live_step L (begin_publishing e pl L1)"
| stop_called_idle: "\<not> ht_started (lv_heart L) \<Longrightarrow> live_step L (enter Closing_idle L)"
| idle_closed: "Closing_idle \<in> set (lv_calls L) \<Longrightarrow>
    live_step L (go_on Closing_idle [] (L\<lparr>lv_heart := (lv_heart L)\<lparr>ht_connected := False\<rparr>\<rparr>))"
| stop_called: "ht_started (lv_heart L) \<Longrightarrow> \<not> lv_dead L \<Longrightarrow> live_step L (enter Resting (L\<lparr>lv_heart := stop_begin (lv_heart L)\<rparr>))"
| stop_raises: "ht_started (lv_heart L) \<Longrightarrow> lv_dead L \<Longrightarrow> live_step L (L\<lparr>lv_heart := stop_begin (lv_heart L)\<rparr>)"
| rested: "Resting \<in> set (lv_calls L) \<Longrightarrow> live_step L (go_on Resting [Draining] (live_rested L))"
| drained: "Draining \<in> set (lv_calls L) \<Longrightarrow>
    e = system_event i RUNTIME_STOPPED ''heart'' (stopped_payload (lv_heart L)) (ht_plane (lv_heart L)) \<Longrightarrow>
    publishes e (ht_plane (lv_heart L)) pl \<Longrightarrow> live_step L (begin_publishing e pl (go_on Draining [Telling e] (live_doom L)))"
| told: "Telling e \<in> set (lv_calls L) \<Longrightarrow> e \<notin> fl_event ` set (lv_flights L) \<Longrightarrow> live_step L (go_on (Telling e) [Closing] (live_bus L))"
| closed: "Closing \<in> set (lv_calls L) \<Longrightarrow> live_step L (go_on Closing [] (L\<lparr>lv_heart := stop_closed (lv_heart L)\<rparr>))"
| gives_up: "ph \<in> set (lv_calls L) \<Longrightarrow> live_step L (go_on ph [] L)"
| submits: "ht_started (lv_heart L) \<Longrightarrow> key \<notin> fst ` set (ht_handles (lv_heart L)) \<Longrightarrow>
    live_step L (live_run key (activate key (lv_heart L)) L)"
| spawns: "heart_spawn ob (lv_heart L) = (Inr key, h) \<Longrightarrow> key \<notin> fst ` set (ht_handles (lv_heart L)) \<Longrightarrow> live_step L (live_run key h L)"
| ends: "(k, H_running) \<in> set (ht_handles (lv_heart L)) \<Longrightarrow> x \<noteq> H_running \<Longrightarrow>
    live_step L (L\<lparr>lv_heart := (lv_heart L)\<lparr>ht_handles := dict_set k x (ht_handles (lv_heart L))\<rparr>\<rparr>)"
| forgets: "(k, H_running) \<notin> set (ht_handles (lv_heart L)) \<Longrightarrow> live_step L (L\<lparr>lv_heart := forget k (lv_heart L)\<rparr>)"
| moves_on: "advance (ht_plane (lv_heart L)) pl \<Longrightarrow> pl_published pl = pl_published (ht_plane (lv_heart L)) \<Longrightarrow>
    live_step L (L\<lparr>lv_heart := (lv_heart L)\<lparr>ht_plane := pl\<rparr>\<rparr>)"
| speaks: "publishes e (ht_plane (lv_heart L)) pl \<Longrightarrow> live_step L (begin_publishing e pl L)"
| beats: "ht_beats (lv_heart L) = Some n \<Longrightarrow>
    e = system_event i HEARTBEAT ''breath'' (collect metrics n (lv_heart L)) (ht_plane (lv_heart L)) \<Longrightarrow>
    publishes e (ht_plane (lv_heart L)) pl \<Longrightarrow>
    live_step L (begin_publishing e pl (L\<lparr>lv_heart := (lv_heart L)\<lparr>ht_beats := Some (Suc n)\<rparr>\<rparr>))"
| orphan_beats: "lv_orphans L = ns @ n # ms \<Longrightarrow>
    e = system_event i HEARTBEAT ''breath'' (collect metrics n (lv_heart L)) (ht_plane (lv_heart L)) \<Longrightarrow>
    publishes e (ht_plane (lv_heart L)) pl \<Longrightarrow> live_step L (begin_publishing e pl (L\<lparr>lv_orphans := ns @ Suc n # ms\<rparr>))"
| dies: "ht_beats (lv_heart L) = Some n \<Longrightarrow> live_step L (L\<lparr>lv_heart := (lv_heart L)\<lparr>ht_beats := None\<rparr>, lv_dead := True\<rparr>)"
| handles: "lv_flights L = fs @ f # gs \<Longrightarrow> fl_handlers f = hnd # hnds \<Longrightarrow>
    live_step L (L\<lparr>lv_heart := handle_one hnd (fl_event f) (lv_heart L), lv_flights := fs @ f\<lparr>fl_handlers := hnds\<rparr> # gs\<rparr>)"
| offers: "lv_flights L = fs @ f # gs \<Longrightarrow> fl_handlers f = [] \<Longrightarrow>
    live_step L (L\<lparr>lv_heart := (lv_heart L)\<lparr>ht_bus := publish_offer (fl_event f) (fl_subs f) (ht_bus (lv_heart L))\<rparr>, lv_flights := fs @ gs\<rparr>)"
| cut_off: "lv_flights L = fs @ f # gs \<Longrightarrow> live_step L (L\<lparr>lv_flights := fs @ gs, lv_cut := f # lv_cut L\<rparr>)"
| probed: "live_step L (L\<lparr>lv_heart := health_conclude components store_ok provider_ok (lv_heart L)\<rparr>)"

inductive live_reachable :: "live \<Rightarrow> bool" where
  constructed: "live_reachable (new_live (new_heart s n pl))"
| stepped: "live_reachable L \<Longrightarrow> live_step L L' \<Longrightarrow> live_reachable L'"

lemma reachable_trans: "live_step\<^sup>*\<^sup>* L L' \<Longrightarrow> live_reachable L \<Longrightarrow> live_reachable L'"
  by (induction rule: rtranclp_induct) (auto intro: live_reachable.stepped)

section \<open>The invariant\<close>

text \<open>How often events of a type still have to be counted, and how often they were to be.\<close>

definition due :: "event_type \<Rightarrow> flight list \<Rightarrow> nat" where
  "due ty fs = (\<Sum>f \<leftarrow> fs. if e_type (fl_event f) = ty then length (fl_handlers f) else 0)"

definition logged :: "event_type \<Rightarrow> (event \<times> nat \<times> bool) list \<Rightarrow> nat" where
  "logged ty es = (\<Sum>(e, n, b) \<leftarrow> es. if e_type e = ty then n else 0)"

lemma due_simps [simp]: "due ty [] = 0" "due ty (f # fs) = (if e_type (fl_event f) = ty then length (fl_handlers f) else 0) + due ty fs"
  "due ty (fs @ gs) = due ty fs + due ty gs"
  by (simp_all add: due_def)

lemma logged_simps [simp]: "logged ty [] = 0" "logged ty (es @ [(e, n, b)]) = logged ty es + (if e_type e = ty then n else 0)"
  by (simp_all add: logged_def)

text \<open>What the steps cannot touch.\<close>

definition runs_ok :: "heart \<Rightarrow> bool" where
  "runs_ok h \<longleftrightarrow> rs_active_task_ids (ht_state h) = ht_active h \<and> distinct (ht_active h) \<and> distinct (map fst (ht_handles h))
     \<and> set (running h) \<subseteq> set (ht_active h)"

definition counts_ok :: "live \<Rightarrow> bool" where
  "counts_ok L \<longleftrightarrow> set (b_handlers (ht_bus (lv_heart L))) \<subseteq> {counter_handler}
     \<and> (\<forall>f \<in> set (lv_flights L). set (fl_handlers f) \<subseteq> {counter_handler})
     \<and> rs_completed_tasks (ht_state (lv_heart L)) + due TASK_COMPLETED (lv_flights L @ lv_cut L) = logged TASK_COMPLETED (lv_log L)
     \<and> rs_failed_tasks (ht_state (lv_heart L)) + due TASK_FAILED (lv_flights L @ lv_cut L) = logged TASK_FAILED (lv_log L)
     \<and> rs_heartbeats (ht_state (lv_heart L)) + due HEARTBEAT (lv_flights L @ lv_cut L) = logged HEARTBEAT (lv_log L)
     \<and> map fst (lv_log L) = pl_published (ht_plane (lv_heart L))"

text \<open>What holds as long as the calls of the lifecycle come one after the other.\<close>

fun phase_ok :: "live \<Rightarrow> phase list \<Rightarrow> bool" where
  "phase_ok L [] = True"
| "phase_ok L [Opening beating enabled] = (\<not> ht_started (lv_heart L))"
| "phase_ok L [Closing_idle] = (\<not> ht_started (lv_heart L))"
| "phase_ok L [Closing] = (ht_started (lv_heart L) \<and> lv_closed L)"
| "phase_ok L [ph] = ht_started (lv_heart L)"
| "phase_ok L calls = False"

definition orderly :: "live \<Rightarrow> bool" where
  "orderly L \<longleftrightarrow> phase_ok L (lv_calls L) \<and> b_handlers (ht_bus (lv_heart L)) = (if serving L then [counter_handler] else [])
     \<and> (\<forall>(e, n, up) \<in> set (lv_log L). n = (if up then 1 else 0))
     \<and> (ht_started (lv_heart L) \<longrightarrow> ht_connected (lv_heart L)) \<and> lv_orphans L = []
     \<and> (ht_beats (lv_heart L) \<noteq> None \<longrightarrow> ht_started (lv_heart L) \<and> lv_calls L = [])
     \<and> (swept L \<or> \<not> ht_started (lv_heart L) \<longrightarrow> set (running (lv_heart L)) \<subseteq> set (lv_doomed L) \<union> set (lv_late L))"

section \<open>Every step keeps it\<close>

lemma running_simps [simp]: "set (running h) = {k. (k, H_running) \<in> set (ht_handles h)}"
  by (force simp: running_def)

text \<open>Parts of the state the segments and the publications leave alone.\<close>

lemma begin_frame [simp]:
  "ht_state (lv_heart (begin_publishing e pl L)) = ht_state (lv_heart L)"
  "ht_active (lv_heart (begin_publishing e pl L)) = ht_active (lv_heart L)"
  "ht_handles (lv_heart (begin_publishing e pl L)) = ht_handles (lv_heart L)"
  "ht_started (lv_heart (begin_publishing e pl L)) = ht_started (lv_heart L)"
  "ht_connected (lv_heart (begin_publishing e pl L)) = ht_connected (lv_heart L)"
  "ht_beats (lv_heart (begin_publishing e pl L)) = ht_beats (lv_heart L)"
  "ht_plane (lv_heart (begin_publishing e pl L)) = pl"
  "b_handlers (ht_bus (lv_heart (begin_publishing e pl L))) = b_handlers (ht_bus (lv_heart L))"
  "lv_calls (begin_publishing e pl L) = lv_calls L" "lv_orphans (begin_publishing e pl L) = lv_orphans L"
  "lv_dead (begin_publishing e pl L) = lv_dead L" "lv_cut (begin_publishing e pl L) = lv_cut L"
  "lv_doomed (begin_publishing e pl L) = lv_doomed L" "lv_late (begin_publishing e pl L) = lv_late L"
  "lv_closed (begin_publishing e pl L) = lv_closed L" "lv_serial (begin_publishing e pl L) = lv_serial L"
  "lv_log (begin_publishing e pl L) = lv_log L @ [(e, length (b_handlers (ht_bus (lv_heart L))), serving L)]"
  "lv_flights (begin_publishing e pl L) = lv_flights L @
     [\<lparr>fl_event = e, fl_handlers = b_handlers (ht_bus (lv_heart L)), fl_subs = b_active (ht_bus (lv_heart L))\<rparr>]"
  by (simp_all add: begin_publishing_def publish_begin_def Let_def)

lemma go_on_frame [simp]:
  "lv_heart (go_on ph next L) = lv_heart L" "lv_flights (go_on ph next L) = lv_flights L" "lv_orphans (go_on ph next L) = lv_orphans L"
  "lv_dead (go_on ph next L) = lv_dead L" "lv_cut (go_on ph next L) = lv_cut L" "lv_log (go_on ph next L) = lv_log L"
  "lv_doomed (go_on ph next L) = lv_doomed L" "lv_late (go_on ph next L) = lv_late L" "lv_closed (go_on ph next L) = lv_closed L"
  "lv_serial (go_on ph next L) = lv_serial L" "lv_calls (go_on ph next L) = remove1 ph (lv_calls L) @ next"
  by (simp_all add: go_on_def)

lemma enter_frame [simp]:
  "lv_heart (enter ph L) = lv_heart L" "lv_flights (enter ph L) = lv_flights L" "lv_orphans (enter ph L) = lv_orphans L"
  "lv_dead (enter ph L) = lv_dead L" "lv_cut (enter ph L) = lv_cut L" "lv_log (enter ph L) = lv_log L"
  "lv_doomed (enter ph L) = lv_doomed L" "lv_late (enter ph L) = lv_late L" "lv_closed (enter ph L) = lv_closed L"
  "lv_serial (enter ph L) \<longleftrightarrow> lv_serial L \<and> lv_calls L = []" "lv_calls (enter ph L) = lv_calls L @ [ph]"
  by (simp_all add: enter_def)

lemma doom_frame [simp]:
  "lv_heart (live_doom L) = lv_heart L" "lv_flights (live_doom L) = lv_flights L" "lv_orphans (live_doom L) = lv_orphans L"
  "lv_dead (live_doom L) = lv_dead L" "lv_cut (live_doom L) = lv_cut L" "lv_log (live_doom L) = lv_log L" "lv_calls (live_doom L) = lv_calls L"
  "lv_late (live_doom L) = lv_late L" "lv_closed (live_doom L) = lv_closed L" "lv_serial (live_doom L) = lv_serial L"
  by (simp_all add: live_doom_def)

lemma handle_one_counter:
  "handle_one counter_handler e h = h\<lparr>ht_state := track_task_counters e (ht_state h), ht_bus := (ht_bus h)\<lparr>b_handler_errors := b_handler_errors (ht_bus h)\<rparr>\<rparr>"
  by (simp add: handle_one_def counter_handler_def handler_selects_def)

lemma live_run_heart [simp]: "lv_heart (live_run key h L) = h"
  by (simp add: live_run_def)

lemma health_keeps [simp]:
  "ht_active (health_conclude cs a b h) = ht_active h" "ht_handles (health_conclude cs a b h) = ht_handles h"
  "ht_started (health_conclude cs a b h) = ht_started h" "ht_connected (health_conclude cs a b h) = ht_connected h"
  "ht_beats (health_conclude cs a b h) = ht_beats h" "ht_plane (health_conclude cs a b h) = ht_plane h" "ht_bus (health_conclude cs a b h) = ht_bus h"
  "rs_active_task_ids (ht_state (health_conclude cs a b h)) = rs_active_task_ids (ht_state h)"
  "rs_completed_tasks (ht_state (health_conclude cs a b h)) = rs_completed_tasks (ht_state h)"
  "rs_failed_tasks (ht_state (health_conclude cs a b h)) = rs_failed_tasks (ht_state h)"
  "rs_heartbeats (ht_state (health_conclude cs a b h)) = rs_heartbeats (ht_state h)"
  by (simp_all add: health_conclude_def Let_def)

lemma activate_runs: "runs_ok h \<Longrightarrow> runs_ok (activate key h)"
  by (auto simp: runs_ok_def activate_def Let_def keys_dict_set dest!: set_dict_set)

lemma spawn_cases:
  assumes "heart_spawn ob h = (Inr key, h')"
  obtains h1 where "ht_started h" "h' = activate key h1" "h1 = h\<lparr>ht_plane := ht_plane h1, ht_task_ids := ht_task_ids h1, ht_work := ht_work h1\<rparr>"
    "pl_published (ht_plane h1) = pl_published (ht_plane h)"
proof -
  from assms have st: "ht_started h" by (simp add: heart_spawn_def split: if_splits)
  obtain i pl where n: "new_id (ht_plane h) = (i, pl)" by fastforce
  then have "pl_published pl = pl_published (ht_plane h)" by (auto simp: new_id_def)
  with that [of "h\<lparr>ht_plane := pl, ht_task_ids := dict_set (o_id ob) i (ht_task_ids h), ht_work := dict_set i ob (ht_work h)\<rparr>"] assms st n
  show thesis by (auto simp: heart_spawn_def Let_def)
qed

lemma runs_ok_step: "live_step L L' \<Longrightarrow> counts_ok L \<Longrightarrow> runs_ok (lv_heart L) \<Longrightarrow> runs_ok (lv_heart L')"
proof (induction rule: live_step.induct)
  case (spawns ob L key h)
  from spawns(1) obtain h1 where h: "h = activate key h1"
    "h1 = (lv_heart L)\<lparr>ht_plane := ht_plane h1, ht_task_ids := ht_task_ids h1, ht_work := ht_work h1\<rparr>"
    by (rule spawn_cases)
  have "runs_ok h1" using spawns(4) by (subst h(2)) (simp add: runs_ok_def)
  then show ?case by (simp add: h(1) activate_runs)
next
  case (submits L key)
  then show ?case by (simp add: activate_runs)
next
  case (ends k L x)
  then show ?case by (auto simp: runs_ok_def keys_dict_set dest!: set_dict_set)
next
  case (forgets k L)
  then show ?case by (auto simp: runs_ok_def forget_def Let_def distinct_removeAll)
next
  case (handles L fs f gs hnd hnds)
  then have "hnd = counter_handler" by (auto simp: counts_ok_def)
  with handles show ?case by (simp add: handle_one_counter runs_ok_def)
qed (auto simp: runs_ok_def live_ready_def start_ready_def stop_begin_def live_rested_def live_doom_def live_bus_def stop_bus_def stop_closed_def)

lemma counts_ok_begin: "counts_ok L \<Longrightarrow> publishes e (ht_plane (lv_heart L)) pl \<Longrightarrow> counts_ok (begin_publishing e pl L)"
  by (simp add: counts_ok_def publishes_def)

lemma counts_ok_frame:
  "counts_ok (go_on ph next L) = counts_ok L" "counts_ok (enter ph L) = counts_ok L" "counts_ok (live_rested L) = counts_ok L"
  "counts_ok (live_doom L) = counts_ok L" "counts_ok L \<Longrightarrow> counts_ok (live_bus L)" "counts_ok L \<Longrightarrow> counts_ok (live_ready beating L)"
  by (auto simp: counts_ok_def live_rested_def live_doom_def live_bus_def stop_bus_def bus_aclose_def Let_def live_ready_def
      start_ready_def add_handler_def)

lemma activate_counts [simp]:
  "ht_bus (activate key h) = ht_bus h" "ht_plane (activate key h) = ht_plane h"
  "ht_started (activate key h) = ht_started h" "ht_connected (activate key h) = ht_connected h" "ht_beats (activate key h) = ht_beats h"
  "rs_completed_tasks (ht_state (activate key h)) = rs_completed_tasks (ht_state h)"
  "rs_failed_tasks (ht_state (activate key h)) = rs_failed_tasks (ht_state h)"
  "rs_heartbeats (ht_state (activate key h)) = rs_heartbeats (ht_state h)"
  by (simp_all add: activate_def Let_def)

lemma forget_counts [simp]:
  "ht_bus (forget key h) = ht_bus h" "ht_plane (forget key h) = ht_plane h" "ht_handles (forget key h) = ht_handles h"
  "ht_started (forget key h) = ht_started h" "ht_connected (forget key h) = ht_connected h" "ht_beats (forget key h) = ht_beats h"
  "rs_completed_tasks (ht_state (forget key h)) = rs_completed_tasks (ht_state h)"
  "rs_failed_tasks (ht_state (forget key h)) = rs_failed_tasks (ht_state h)"
  "rs_heartbeats (ht_state (forget key h)) = rs_heartbeats (ht_state h)"
  by (simp_all add: forget_def Let_def)

lemma counts_ok_same:
  assumes "counts_ok L" "ht_bus h = ht_bus (lv_heart L)" "pl_published (ht_plane h) = pl_published (ht_plane (lv_heart L))"
    "rs_completed_tasks (ht_state h) = rs_completed_tasks (ht_state (lv_heart L))"
    "rs_failed_tasks (ht_state h) = rs_failed_tasks (ht_state (lv_heart L))"
    "rs_heartbeats (ht_state h) = rs_heartbeats (ht_state (lv_heart L))"
  shows "counts_ok (L\<lparr>lv_heart := h\<rparr>)"
  using assms by (simp add: counts_ok_def)

lemma counts_ok_step: "live_step L L' \<Longrightarrow> counts_ok L \<Longrightarrow> counts_ok L'"
proof (induction rule: live_step.induct)
  case (connected beating enabled L L1 e i pl)
  then show ?case by (intro counts_ok_begin) (simp_all add: counts_ok_frame)
next
  case (drained L e i pl)
  then show ?case by (intro counts_ok_begin) (simp_all add: counts_ok_frame)
next
  case (speaks e L pl)
  then show ?case by (rule counts_ok_begin [rotated])
next
  case (beats L n e i metrics pl)
  then show ?case by (intro counts_ok_begin counts_ok_same) simp_all
next
  case (orphan_beats L ns n ms e i metrics pl)
  then have "counts_ok (L\<lparr>lv_orphans := ns @ Suc n # ms\<rparr>)" by (simp add: counts_ok_def)
  with orphan_beats show ?case by (intro counts_ok_begin) simp_all
next
  case (spawns ob L key h)
  from spawns(1) obtain h1 where h: "h = activate key h1" "pl_published (ht_plane h1) = pl_published (ht_plane (lv_heart L))"
    "h1 = (lv_heart L)\<lparr>ht_plane := ht_plane h1, ht_task_ids := ht_task_ids h1, ht_work := ht_work h1\<rparr>"
    by (rule spawn_cases)
  have "ht_bus h1 = ht_bus (lv_heart L)" "ht_state h1 = ht_state (lv_heart L)" by (subst h(3), simp)+
  with spawns(3) h(2) show ?case by (simp add: h(1) live_run_def counts_ok_def)
next
  case (submits L key)
  then show ?case by (simp add: live_run_def counts_ok_def)
next
  case (handles L fs f gs hnd hnds)
  then have c: "hnd = counter_handler" "set hnds \<subseteq> {counter_handler}" by (auto simp: counts_ok_def)
  from handles show ?case
    by (simp add: c(1) handle_one_counter counts_ok_def c(2) track_task_counters_def) (use c(2) in auto)
next
  case (dies L n)
  then show ?case by (simp add: counts_ok_def)
next
  case (offers L fs f gs)
  have "due ty (lv_flights L @ lv_cut L) = due ty ((fs @ gs) @ lv_cut L)" for ty using offers(1,2) by simp
  with offers show ?case by (simp only: counts_ok_def publish_offer_def) simp
next
  case (cut_off L fs f gs)
  then show ?case by (simp add: counts_ok_def)
next
  case (closed L)
  then show ?case by (simp add: counts_ok_frame) (simp add: counts_ok_def stop_closed_def)
next
  case (stop_called L)
  then show ?case by (simp add: counts_ok_frame) (simp add: counts_ok_def stop_begin_def)
next
  case (stop_raises L)
  then show ?case by (simp add: counts_ok_def stop_begin_def)
next
  case (idle_closed L)
  then show ?case by (simp add: counts_ok_frame counts_ok_same)
qed (simp_all add: counts_ok_frame counts_ok_same)

lemma phase_ok_cong: "ht_started (lv_heart L') = ht_started (lv_heart L) \<Longrightarrow> lv_closed L' = lv_closed L \<Longrightarrow> phase_ok L' calls = phase_ok L calls"
  by (induction L calls rule: phase_ok.induct) simp_all

lemma orderly_phase:
  assumes "orderly L" "ph \<in> set (lv_calls L)"
  shows "lv_calls L = [ph] \<and> phase_ok L [ph]"
proof -
  have "length calls \<le> 1" if "phase_ok L calls" for calls using that by (induction L calls rule: phase_ok.induct) simp_all
  then have "length (lv_calls L) \<le> 1" using assms(1) by (simp add: orderly_def)
  with assms(2) have "lv_calls L = [ph]" by (cases "lv_calls L") auto
  with assms(1) show ?thesis by (simp add: orderly_def)
qed

lemma serving_begin [simp]: "serving (begin_publishing e pl L) = serving L" "swept (begin_publishing e pl L) = swept L"
  by (simp_all add: serving_def swept_def)

lemma orderly_begin: "orderly L \<Longrightarrow> orderly (begin_publishing e pl L)"
  by (auto simp: orderly_def phase_ok_cong [of "begin_publishing e pl L" L])

text \<open>A change of nothing but the runtime, of which nothing but the state, the plane and the rest of the bus changes.\<close>

lemma orderly_same:
  assumes "orderly L" "b_handlers (ht_bus h) = b_handlers (ht_bus (lv_heart L))" "ht_started h = ht_started (lv_heart L)"
    "ht_connected h = ht_connected (lv_heart L)" "ht_beats h = ht_beats (lv_heart L) \<or> ht_beats h = None \<or> ht_beats (lv_heart L) \<noteq> None"
    "set (running h) \<subseteq> set (running (lv_heart L))" "lv_heart L' = h" "lv_calls L' = lv_calls L" "lv_log L' = lv_log L"
    "lv_orphans L' = lv_orphans L" "lv_doomed L' = lv_doomed L" "lv_late L' = lv_late L" "lv_closed L' = lv_closed L"
  shows "orderly L'"
proof -
  have "phase_ok L' (lv_calls L')" using assms(1,3,7,8,13) phase_ok_cong [of L' L "lv_calls L"] by (simp add: orderly_def)
  moreover have "serving L' = serving L" "swept L' = swept L" using assms by (simp_all add: serving_def swept_def)
  moreover have "ht_beats h \<noteq> None \<longrightarrow> ht_beats (lv_heart L) \<noteq> None" using assms(5) by auto
  moreover note assms(1) [unfolded orderly_def]
  moreover have "set (running h) \<subseteq> set (lv_doomed L) \<union> set (lv_late L)"
    if "set (running (lv_heart L)) \<subseteq> set (lv_doomed L) \<union> set (lv_late L)"
    using assms(6) that by (rule order_trans)
  ultimately show ?thesis unfolding orderly_def assms(2-4,7-13) by (simp del: running_simps)
qed

text \<open>A run is made.\<close>

lemma orderly_run:
  assumes "orderly L" "ht_started (lv_heart L)" "ht_handles h = dict_set key H_running (ht_handles (lv_heart L))" "b_handlers (ht_bus h) = b_handlers (ht_bus (lv_heart L))"
    "ht_started h = ht_started (lv_heart L)" "ht_connected h = ht_connected (lv_heart L)" "ht_beats h = ht_beats (lv_heart L)"
  shows "orderly (live_run key h L)"
proof -
  let ?L = "live_run key h L"
  have f: "lv_calls ?L = lv_calls L" "lv_closed ?L = lv_closed L" "lv_log ?L = lv_log L" "lv_orphans ?L = lv_orphans L" "lv_doomed ?L = lv_doomed L"
    "lv_late ?L = (if swept L then key # lv_late L else lv_late L)"
    by (simp_all add: live_run_def)
  have "phase_ok ?L (lv_calls ?L)" using assms(1,5) f phase_ok_cong [of ?L L "lv_calls L"] by (simp add: orderly_def)
  moreover have "serving ?L = serving L" "swept ?L = swept L" using assms f by (simp_all add: serving_def swept_def)
  moreover have "set (running h) \<subseteq> insert key (set (running (lv_heart L)))" using assms(3) by (auto dest!: set_dict_set)
  ultimately show ?thesis using assms f unfolding orderly_def by auto
qed

lemma orderly_step: "live_step L L' \<Longrightarrow> runs_ok (lv_heart L) \<Longrightarrow> counts_ok L \<Longrightarrow> orderly L \<Longrightarrow> lv_serial L' \<Longrightarrow> orderly L'"
proof (induction rule: live_step.induct)
  case (start_called L beating enabled)
  then have "lv_calls L = []" by simp
  with start_called show ?case by (simp add: orderly_def serving_def swept_def)
next
  case (connected beating enabled L L1 e i pl)
  have c: "lv_calls L = [Opening beating enabled]" "\<not> ht_started (lv_heart L)"
    using orderly_phase [OF connected.prems(3) connected.hyps(1)] by simp_all
  have "orderly L1"
    using connected.prems(3) c unfolding connected.hyps(2)
    by (auto simp: orderly_def live_ready_def start_ready_def add_handler_def serving_def swept_def split: option.splits)
  then show ?case by (rule orderly_begin)
next
  case (stop_called_idle L)
  then have "lv_calls L = []" by simp
  with stop_called_idle show ?case by (simp add: orderly_def serving_def swept_def)
next
  case (idle_closed L)
  have c: "lv_calls L = [Closing_idle]" "\<not> ht_started (lv_heart L)"
    using orderly_phase [OF idle_closed.prems(3) idle_closed.hyps] by simp_all
  with idle_closed.prems(3) show ?case by (auto simp: orderly_def serving_def swept_def)
next
  case (stop_called L)
  then have "lv_calls L = []" by simp
  with stop_called show ?case by (simp add: orderly_def serving_def swept_def stop_begin_def)
next
  case (stop_raises L)
  show ?case by (rule orderly_same [OF stop_raises.prems(3), of "stop_begin (lv_heart L)"]) (simp_all add: stop_begin_def stop_raises.hyps)
next
  case (rested L)
  have c: "lv_calls L = [Resting]" "ht_started (lv_heart L)"
    using orderly_phase [OF rested.prems(3) rested.hyps] by simp_all
  with rested.prems(3) show ?case by (auto simp: orderly_def serving_def swept_def live_rested_def)
next
  case (drained L e i pl)
  have c: "lv_calls L = [Draining]" "ht_started (lv_heart L)"
    using orderly_phase [OF drained.prems(3) drained.hyps(1)] by simp_all
  have "orderly (go_on Draining [Telling e] (live_doom L))"
    using drained.prems(1,3) c
    by (auto simp: orderly_def serving_def swept_def runs_ok_def) (auto simp: live_doom_def)
  then show ?case by (rule orderly_begin)
next
  case (told e L)
  have c: "lv_calls L = [Telling e]" "ht_started (lv_heart L)"
    using orderly_phase [OF told.prems(3) told.hyps(1)] by simp_all
  with told.prems(3) show ?case
    by (auto simp: orderly_def serving_def swept_def live_bus_def stop_bus_def bus_aclose_def Let_def)
next
  case (closed L)
  have c: "lv_calls L = [Closing]" "ht_started (lv_heart L)" "lv_closed L"
    using orderly_phase [OF closed.prems(3) closed.hyps] by simp_all
  with closed.prems(3) show ?case by (auto simp: orderly_def serving_def swept_def stop_closed_def)
next
  case (gives_up ph L)
  have c: "lv_calls L = [ph]"
    using orderly_phase [OF gives_up.prems(3) gives_up.hyps] by simp_all
  with gives_up.prems(3) show ?case by (auto simp: orderly_def serving_def swept_def)
next
  case (submits L key)
  then show ?case by (intro orderly_run) (auto simp: activate_def Let_def)
next
  case (spawns ob L key h)
  from spawns(1) obtain h1 where h: "ht_started (lv_heart L)" "h = activate key h1"
    "h1 = (lv_heart L)\<lparr>ht_plane := ht_plane h1, ht_task_ids := ht_task_ids h1, ht_work := ht_work h1\<rparr>"
    by (rule spawn_cases)
  have "ht_handles h1 = ht_handles (lv_heart L)" "ht_bus h1 = ht_bus (lv_heart L)" "ht_started h1 = ht_started (lv_heart L)"
    "ht_connected h1 = ht_connected (lv_heart L)" "ht_beats h1 = ht_beats (lv_heart L)" by (subst h(3), simp)+
  with spawns.prems(3) h(1) show ?case unfolding h(2) by (intro orderly_run) (auto simp: activate_def Let_def)
next
  case (speaks e L pl)
  then show ?case by (intro orderly_begin)
next
  case (beats L n e i metrics pl)
  have "orderly (L\<lparr>lv_heart := (lv_heart L)\<lparr>ht_beats := Some (Suc n)\<rparr>\<rparr>)"
    by (rule orderly_same [of L "(lv_heart L)\<lparr>ht_beats := Some (Suc n)\<rparr>"]) (use beats.hyps(1) beats.prems(3) in simp_all)
  then show ?case by (rule orderly_begin)
next
  case (orphan_beats L ns n ms e i metrics pl)
  then show ?case by (simp add: orderly_def)
next
  case (handles L fs f gs hnd hnds)
  then have "hnd = counter_handler" by (auto simp: counts_ok_def)
  then show ?case
    by (intro orderly_same [OF handles.prems(3), of "handle_one hnd (fl_event f) (lv_heart L)"]) (simp_all add: handle_one_counter)
next
  case (offers L fs f gs)
  show ?case
    by (rule orderly_same [OF offers.prems(3), of "(lv_heart L)\<lparr>ht_bus := publish_offer (fl_event f) (fl_subs f) (ht_bus (lv_heart L))\<rparr>"])
      (simp_all add: publish_offer_def)
next
  case (cut_off L fs f gs)
  show ?case by (rule orderly_same [OF cut_off.prems(3), of "lv_heart L"]) simp_all
next
  case (ends k L x)
  then have "set (running ((lv_heart L)\<lparr>ht_handles := dict_set k x (ht_handles (lv_heart L))\<rparr>)) \<subseteq> set (running (lv_heart L))"
    by (auto dest!: set_dict_set)
  then show ?case
    by (intro orderly_same [OF ends.prems(3), of "(lv_heart L)\<lparr>ht_handles := dict_set k x (ht_handles (lv_heart L))\<rparr>"]) simp_all
next
  case (forgets k L)
  show ?case by (rule orderly_same [OF forgets.prems(3), of "forget k (lv_heart L)"]) simp_all
next
  case (moves_on L pl)
  show ?case by (rule orderly_same [OF moves_on.prems(3), of "(lv_heart L)\<lparr>ht_plane := pl\<rparr>"]) simp_all
next
  case (dies L n)
  show ?case by (rule orderly_same [OF dies.prems(3), of "(lv_heart L)\<lparr>ht_beats := None\<rparr>"]) simp_all
next
  case (probed L components store_ok provider_ok)
  show ?case by (rule orderly_same [OF probed.prems(3), of "health_conclude components store_ok provider_ok (lv_heart L)"]) simp_all
qed

lemma serial_back: "live_step L L' \<Longrightarrow> lv_serial L' \<Longrightarrow> lv_serial L"
  by (induction rule: live_step.induct)
    (auto simp: live_ready_def live_rested_def live_bus_def live_run_def)

lemma live_reachable_ok: "live_reachable L \<Longrightarrow> runs_ok (lv_heart L) \<and> counts_ok L \<and> (lv_serial L \<longrightarrow> orderly L)"
proof (induction rule: live_reachable.induct)
  case (constructed s n pl)
  show ?case
    by (simp add: new_live_def new_heart_def new_bus_def runs_ok_def counts_ok_def orderly_def serving_def)
next
  case (stepped L L')
  then show ?case using runs_ok_step counts_ok_step orderly_step serial_back by blast
qed

section \<open>With nothing in between\<close>

text \<open>\<open>publish\<close> of \<open>Event_Bus\<close> is its beginning, its handlers and its end in a row.\<close>

lemma publish_in_a_row:
  "publish e b w = (let b1 = publish_begin e b; (errors, w1) = run_handlers e (b_handlers b1) w
     in (publish_offer e (b_active b1) (b1\<lparr>b_handler_errors := b_handler_errors b1 + errors\<rparr>), w1))"
  by (simp add: publish_def publish_begin_def publish_offer_def Let_def split_beta)

definition landed :: "flight \<Rightarrow> heart \<Rightarrow> heart" where
  "landed f h = (let (errors, s) = run_handlers (fl_event f) (fl_handlers f) (ht_state h) in
     h\<lparr>ht_state := s, ht_bus := publish_offer (fl_event f) (fl_subs f)
          ((ht_bus h)\<lparr>b_handler_errors := b_handler_errors (ht_bus h) + errors\<rparr>)\<rparr>)"

lemma landed_handle_one: "fl_handlers f = hnd # hnds \<Longrightarrow> landed (f\<lparr>fl_handlers := hnds\<rparr>) (handle_one hnd (fl_event f) h) = landed f h"
  by (simp add: landed_def handle_one_def Let_def split_beta)

lemma flight_lands: "lv_flights L = fs @ [f] \<Longrightarrow> live_step\<^sup>*\<^sup>* L (L\<lparr>lv_heart := landed f (lv_heart L), lv_flights := fs\<rparr>)"
proof (induction "fl_handlers f" arbitrary: f L)
  case Nil
  from live_step.offers [OF Nil(2)] Nil(1) show ?case by (simp add: landed_def r_into_rtranclp)
next
  case (Cons hnd hnds)
  let ?f = "f\<lparr>fl_handlers := hnds\<rparr>"
  let ?L = "L\<lparr>lv_heart := handle_one hnd (fl_event f) (lv_heart L), lv_flights := fs @ [?f]\<rparr>"
  from Cons(1) [of ?f ?L] have "live_step\<^sup>*\<^sup>* ?L (L\<lparr>lv_heart := landed f (lv_heart L), lv_flights := fs\<rparr>)"
    using landed_handle_one [OF Cons(2) [symmetric]] by simp
  moreover from live_step.handles [of L fs f "[]" hnd hnds] Cons(2,3) have "live_step L ?L" by simp
  ultimately show ?case by (rule converse_rtranclp_into_rtranclp [rotated])
qed

lemma publication_undisturbed:
  "live_step\<^sup>*\<^sup>* (begin_publishing e pl L) (L\<lparr>lv_log := lv_log L @ [(e, length (b_handlers (ht_bus (lv_heart L))), serving L)],
     lv_heart := heart_publish e ((lv_heart L)\<lparr>ht_plane := pl\<rparr>)\<rparr>)"
proof -
  let ?f = "\<lparr>fl_event = e, fl_handlers = b_handlers (ht_bus (lv_heart L)), fl_subs = b_active (ht_bus (lv_heart L))\<rparr>"
  have "landed ?f (lv_heart (begin_publishing e pl L)) = heart_publish e ((lv_heart L)\<lparr>ht_plane := pl\<rparr>)"
    by (simp add: landed_def begin_publishing_def heart_publish_def publish_in_a_row publish_begin_def Let_def split_beta)
  with flight_lands [of "begin_publishing e pl L" "lv_flights L" ?f] show ?thesis
    by (simp add: begin_publishing_def Let_def)
qed

lemma emit_publishes:
  "publishes (system_event (fst (new_id pl)) ty c p pl) pl (plane_emit ty None c (Some SYSTEM_ACTOR) p pl)"
  by (simp add: publishes_def system_event_def plane_emit_published new_id_def)

lemma heart_emit_publishes:
  "heart_emit ty c p h = heart_publish (system_event (fst (new_id (ht_plane h))) ty c p (ht_plane h))
     (h\<lparr>ht_plane := plane_emit ty None c (Some SYSTEM_ACTOR) p (ht_plane h)\<rparr>)"
  using emit_publishes [of "ht_plane h" ty c p] by (simp add: heart_emit_def relay_def publishes_def)

text \<open>The wait for the store ends; an event is published; each with nothing in between.\<close>

lemma connects:
  assumes "Opening beating enabled \<in> set (lv_calls L)"
  obtains L' where "live_step\<^sup>*\<^sup>* L L'" "lv_flights L' = lv_flights L" "lv_calls L' = remove1 (Opening beating enabled) (lv_calls L)"
    "lv_heart L' = (let h = start_ready beating (lv_heart L) in heart_emit RUNTIME_STARTED ''heart'' (started_payload enabled h) h)"
    "lv_serial L' = lv_serial L" "lv_dead L' = (lv_dead L \<and> \<not> beating)" "lv_doomed L' = lv_doomed L"
proof -
  let ?L1 = "live_ready beating (go_on (Opening beating enabled) [] L)"
  let ?h = "lv_heart ?L1"
  let ?p = "started_payload enabled ?h"
  let ?e = "system_event (fst (new_id (ht_plane ?h))) RUNTIME_STARTED ''heart'' ?p (ht_plane ?h)"
  let ?pl = "plane_emit RUNTIME_STARTED None ''heart'' (Some SYSTEM_ACTOR) ?p (ht_plane ?h)"
  have "live_step L (begin_publishing ?e ?pl ?L1)"
    by (rule live_step.connected [OF assms refl refl emit_publishes])
  from converse_rtranclp_into_rtranclp [OF this publication_undisturbed] show thesis
    by (rule that) (simp_all add: heart_emit_publishes live_ready_def Let_def)
qed

lemma speaks_lands:
  obtains L' where "live_step\<^sup>*\<^sup>* L L'" "lv_flights L' = lv_flights L" "lv_calls L' = lv_calls L" "lv_heart L' = heart_emit ty c p (lv_heart L)"
proof -
  have "live_step L (begin_publishing (system_event (fst (new_id (ht_plane (lv_heart L)))) ty c p (ht_plane (lv_heart L)))
      (plane_emit ty None c (Some SYSTEM_ACTOR) p (ht_plane (lv_heart L))) L)"
    by (rule live_step.speaks [OF emit_publishes])
  from converse_rtranclp_into_rtranclp [OF this publication_undisturbed] show thesis
    by (rule that) (simp_all add: heart_emit_publishes)
qed

text \<open>\<open>heart_start\<close> is one undisturbed call of \<open>start\<close>.\<close>

lemma start_undisturbed:
  assumes "\<not> ht_started (lv_heart L)" "lv_calls L = []"
  obtains L' where "live_step\<^sup>*\<^sup>* L L'" "lv_heart L' = snd (heart_start beating None enabled (lv_heart L))" "lv_calls L' = []"
    "lv_flights L' = lv_flights L" "lv_serial L' = lv_serial L"
proof -
  let ?L = "enter (Opening beating enabled) L"
  have "Opening beating enabled \<in> set (lv_calls ?L)" by simp
  then obtain L' where L': "live_step\<^sup>*\<^sup>* ?L L'" "lv_flights L' = lv_flights L" "lv_calls L' = []"
    "lv_heart L' = (let h = start_ready beating (lv_heart L) in heart_emit RUNTIME_STARTED ''heart'' (started_payload enabled h) h)"
    "lv_serial L' = lv_serial L"
    by (rule connects) (use assms(2) in simp_all)
  have "live_step L ?L" by (rule live_step.start_called [OF assms(1)])
  from converse_rtranclp_into_rtranclp [OF this L'(1)] show thesis
    by (rule that) (use assms(1) L'(2-) in \<open>simp_all add: heart_start_def Let_def\<close>)
qed

lemma publish_keeps [simp]:
  "b_handlers (ht_bus (heart_publish e h)) = b_handlers (ht_bus h)" "ht_handles (heart_publish e h) = ht_handles h"
  "ht_active (heart_publish e h) = ht_active h" "ht_started (heart_publish e h) = ht_started h" "ht_beats (heart_publish e h) = ht_beats h"
  "ht_plane (heart_publish e h) = ht_plane h"
  by (simp_all add: heart_publish_def publish_def Let_def split_beta)

text \<open>\<open>stop_end\<close> after \<open>stop_begin\<close> is one undisturbed call of \<open>stop\<close>, when no run is left; \<open>work\<close> is what is submitted once the stop announces itself.\<close>

lemma stop_with_work:
  assumes "ht_started (lv_heart L)" "lv_calls L = []" "\<not> lv_dead L" "running (lv_heart L) = []" "lv_flights L = []"
    "distinct work" "set work \<inter> fst ` set (ht_handles (lv_heart L)) = {}"
  defines "h1 \<equiv> stop_begin (lv_heart L)"
  obtains L' where "live_step\<^sup>*\<^sup>* L L'" "lv_calls L' = []" "lv_flights L' = []" "lv_serial L' = lv_serial L" "lv_doomed L' = lv_doomed L"
    "lv_heart L' = stop_closed (stop_bus (fold activate work (heart_emit RUNTIME_STOPPED ''heart'' (stopped_payload h1) h1)))"
proof -
  let ?L1 = "enter Resting (L\<lparr>lv_heart := h1\<rparr>)"
  let ?L2 = "go_on Resting [Draining] (live_rested ?L1)"
  have h2: "lv_heart ?L2 = h1" "ht_beats h1 = None" "lv_calls ?L2 = [Draining]" "lv_serial ?L2 = lv_serial L" "lv_flights ?L2 = []" "lv_doomed ?L2 = lv_doomed L"
    using assms(1,2,5) by (simp_all add: h1_def stop_begin_def live_rested_def)
  have r1: "live_step L ?L1" unfolding h1_def by (rule live_step.stop_called [OF assms(1,3)])
  have r2: "live_step ?L1 ?L2" by (rule live_step.rested) simp
  let ?e = "system_event (fst (new_id (ht_plane (lv_heart ?L2)))) RUNTIME_STOPPED ''heart'' (stopped_payload (lv_heart ?L2)) (ht_plane (lv_heart ?L2))"
  let ?pl = "plane_emit RUNTIME_STOPPED None ''heart'' (Some SYSTEM_ACTOR) (stopped_payload (lv_heart ?L2)) (ht_plane (lv_heart ?L2))"
  let ?L3 = "go_on Draining [Telling ?e] (live_doom ?L2)"
  have r3: "live_step ?L2 (begin_publishing ?e ?pl ?L3)"
    by (rule live_step.drained [OF _ refl emit_publishes]) (simp add: h2)
  define L4 where "L4 = ?L3\<lparr>lv_log := lv_log ?L3 @ [(?e, length (b_handlers (ht_bus (lv_heart ?L3))), serving ?L3)],
      lv_heart := heart_publish ?e ((lv_heart ?L3)\<lparr>ht_plane := ?pl\<rparr>)\<rparr>"
  have r4: "live_step\<^sup>*\<^sup>* (begin_publishing ?e ?pl ?L3) L4" unfolding L4_def by (rule publication_undisturbed)
  have none: "running h1 = []" using assms(1,4) by (simp add: h1_def stop_begin_def running_def)
  have L4: "lv_calls L4 = [Telling ?e]" "lv_flights L4 = []" "lv_serial L4 = lv_serial L" "lv_doomed L4 = lv_doomed L"
    "lv_heart L4 = heart_emit RUNTIME_STOPPED ''heart'' (stopped_payload h1) h1"
    using h2 none by (simp_all add: L4_def heart_emit_publishes) (simp add: live_doom_def)
  have started: "ht_started (lv_heart L4)" "ht_handles (lv_heart L4) = ht_handles (lv_heart L)"
    using assms(1) by (simp_all add: L4(5) heart_emit_publishes h1_def stop_begin_def)
  have "\<exists>L5. live_step\<^sup>*\<^sup>* L4 L5 \<and> lv_calls L5 = lv_calls L4 \<and> lv_flights L5 = [] \<and> lv_serial L5 = lv_serial L4 \<and> lv_doomed L5 = lv_doomed L4
      \<and> lv_heart L5 = fold activate ws (lv_heart L4) \<and> ht_started (lv_heart L5)
      \<and> fst ` set (ht_handles (lv_heart L5)) = fst ` set (ht_handles (lv_heart L)) \<union> set ws"
    if "distinct ws" "set ws \<inter> fst ` set (ht_handles (lv_heart L)) = {}" for ws
    using that
  proof (induction ws rule: rev_induct)
    case Nil
    then show ?case using L4(2) started by (intro exI [of _ L4]) simp
  next
    case (snoc w ws)
    then obtain L5 where L5: "live_step\<^sup>*\<^sup>* L4 L5" "lv_calls L5 = lv_calls L4" "lv_flights L5 = []" "lv_serial L5 = lv_serial L4"
      "lv_doomed L5 = lv_doomed L4" "lv_heart L5 = fold activate ws (lv_heart L4)" "ht_started (lv_heart L5)"
      "fst ` set (ht_handles (lv_heart L5)) = fst ` set (ht_handles (lv_heart L)) \<union> set ws" by auto
    have new: "w \<notin> fst ` set (ht_handles (lv_heart L5))" using snoc.prems L5(8) by auto
    have "fst ` set (ht_handles (activate w (lv_heart L5))) = insert w (fst ` set (ht_handles (lv_heart L5)))"
      using new by (simp add: activate_def Let_def dict_set_def)
    with rtranclp.rtrancl_into_rtrancl [OF L5(1) live_step.submits [OF L5(7) new]] L5 show ?case
      by (intro exI [of _ "live_run w (activate w (lv_heart L5)) L5"]) (auto simp: live_run_def)
  qed
  from this [OF assms(6,7)] obtain L5 where L5: "live_step\<^sup>*\<^sup>* L4 L5" "lv_calls L5 = [Telling ?e]" "lv_flights L5 = []" "lv_serial L5 = lv_serial L"
    "lv_doomed L5 = lv_doomed L" "lv_heart L5 = fold activate work (lv_heart L4)" using L4 by auto
  let ?L6 = "go_on (Telling ?e) [Closing] (live_bus L5)"
  let ?L7 = "go_on Closing [] (?L6\<lparr>lv_heart := stop_closed (lv_heart ?L6)\<rparr>)"
  have r6: "live_step L5 ?L6" by (rule live_step.told) (simp_all add: L5)
  have c6: "lv_calls ?L6 = [Closing]" using L5(2) by (simp add: live_bus_def)
  have r7: "live_step ?L6 ?L7" by (rule live_step.closed) (simp add: c6)
  from r1 r2 r3 have "live_step\<^sup>*\<^sup>* L (begin_publishing ?e ?pl ?L3)" by (meson converse_rtranclp_into_rtranclp rtranclp.rtrancl_refl)
  with r4 L5(1) r6 r7 have "live_step\<^sup>*\<^sup>* L ?L7" by (meson rtranclp.rtrancl_into_rtrancl rtranclp_trans)
  then show thesis by (rule that) (use c6 L5 L4 in \<open>simp_all add: live_bus_def\<close>)
qed

lemma stop_undisturbed:
  assumes "ht_started (lv_heart L)" "lv_calls L = []" "\<not> lv_dead L" "running (lv_heart L) = []" "lv_flights L = []"
  obtains L' where "live_step\<^sup>*\<^sup>* L L'" "lv_heart L' = stop_end (stop_begin (lv_heart L))" "lv_calls L' = []" "lv_flights L' = []"
    "lv_serial L' = lv_serial L"
proof -
  let ?h = "stop_begin (lv_heart L)"
  have "\<forall>(k, x) \<in> set (ht_handles ?h). x \<noteq> H_running"
    using assms(1,4) by (auto simp: stop_begin_def running_def filter_empty_conv)
  then have "cancel_running keys (ht_handles ?h) = ht_handles ?h" for keys
    unfolding cancel_running_def by (intro map_idI) (auto split: prod.splits)
  then have "stop_cancel ?h = ?h" by (simp add: stop_cancel_def)
  then have e: "stop_end ?h = stop_closed (stop_bus (fold activate [] (heart_emit RUNTIME_STOPPED ''heart'' (stopped_payload ?h) ?h)))"
    by (simp add: stop_end_def Let_def)
  show thesis
  proof (rule stop_with_work [OF assms, of "[]"])
    fix L'
    assume "live_step\<^sup>*\<^sup>* L L'" "lv_calls L' = []" "lv_flights L' = []" "lv_serial L' = lv_serial L"
      "lv_heart L' = stop_closed (stop_bus (fold activate [] (heart_emit RUNTIME_STOPPED ''heart'' (stopped_payload ?h) ?h)))"
    then show thesis by (intro that [of L']) (simp_all only: e)
  qed simp_all
qed

section \<open>What overlapping calls do\<close>

text \<open>
  Two calls of \<open>start\<close> that wait for the store at the same time both attach the counter: a
  task that completes is then counted twice.
\<close>

lemma overlapping_starts_count_twice:
  assumes "\<not> ht_started (lv_heart L)" "lv_calls L = []" "b_handlers (ht_bus (lv_heart L)) = []"
  obtains L' where "live_step\<^sup>*\<^sup>* L L'" "lv_calls L' = []"
    "length (filter (\<lambda>e. e_type e = TASK_COMPLETED) (pl_published (ht_plane (lv_heart L')))) =
     Suc (length (filter (\<lambda>e. e_type e = TASK_COMPLETED) (pl_published (ht_plane (lv_heart L)))))"
    "rs_completed_tasks (ht_state (lv_heart L')) = Suc (Suc (rs_completed_tasks (ht_state (lv_heart L))))"
proof -
  let ?o = "Opening False 0"
  let ?L1 = "enter ?o L"
  let ?L2 = "enter ?o ?L1"
  have r: "live_step L ?L1" "live_step ?L1 ?L2" by (rule live_step.start_called, simp add: assms(1))+
  have "?o \<in> set (lv_calls ?L2)" by simp
  then obtain L3 where L3: "live_step\<^sup>*\<^sup>* ?L2 L3" "lv_calls L3 = [?o]"
    "lv_heart L3 = (let h = start_ready False (lv_heart L) in heart_emit RUNTIME_STARTED ''heart'' (started_payload 0 h) h)"
    by (rule connects) (use assms(2) in simp_all)
  from L3(2) have "?o \<in> set (lv_calls L3)" by simp
  then obtain L4 where L4: "live_step\<^sup>*\<^sup>* L3 L4" "lv_calls L4 = []"
    "lv_heart L4 = (let h = start_ready False (lv_heart L3) in heart_emit RUNTIME_STARTED ''heart'' (started_payload 0 h) h)"
    by (rule connects) (use L3(2) in simp_all)
  obtain L5 where L5: "live_step\<^sup>*\<^sup>* L4 L5" "lv_calls L5 = lv_calls L4" "lv_heart L5 = heart_emit TASK_COMPLETED [] [] (lv_heart L4)"
    by (rule speaks_lands)
  have types: "e_type (system_event i ty c p pl) = ty" for i ty c p pl by (simp add: system_event_def emit_event_def)
  have once: "ht_state (heart_publish e h) = (track_task_counters e ^^ length (b_handlers (ht_bus h))) (ht_state h)"
    if "set (b_handlers (ht_bus h)) \<subseteq> {counter_handler}" for e h
  proof -
    have "snd (run_handlers e hs s) = (track_task_counters e ^^ length hs) s" if "set hs \<subseteq> {counter_handler}" for hs s
      using that by (induction hs arbitrary: s) (auto simp: counter_handler_def handler_selects_def split_beta funpow_swap1)
    with that show ?thesis by (simp add: heart_publish_def publish_def Let_def split_beta)
  qed
  have b3: "b_handlers (ht_bus (lv_heart L3)) = [counter_handler]" "rs_completed_tasks (ht_state (lv_heart L3)) = rs_completed_tasks (ht_state (lv_heart L))"
    using assms(3) by (simp_all add: L3(3) Let_def heart_emit_publishes start_ready_def add_handler_def once track_task_counters_def types)
  have b4: "b_handlers (ht_bus (lv_heart L4)) = [counter_handler, counter_handler]"
    "rs_completed_tasks (ht_state (lv_heart L4)) = rs_completed_tasks (ht_state (lv_heart L))"
    using b3 by (simp_all add: L4(3) Let_def heart_emit_publishes start_ready_def add_handler_def once track_task_counters_def types)
  have "rs_completed_tasks (ht_state (lv_heart L5)) = Suc (Suc (rs_completed_tasks (ht_state (lv_heart L))))"
    using b4 by (simp add: L5(3) heart_emit_publishes once track_task_counters_def types)
  moreover have "length (filter (\<lambda>e. e_type e = TASK_COMPLETED) (pl_published (ht_plane (lv_heart L5)))) =
     Suc (length (filter (\<lambda>e. e_type e = TASK_COMPLETED) (pl_published (ht_plane (lv_heart L)))))"
    by (simp add: L5(3) L4(3) L3(3) Let_def heart_emit_publishes start_ready_def plane_emit_published emit_event_def)
  moreover have "live_step\<^sup>*\<^sup>* L L5" using r L3(1) L4(1) L5(1) by (meson converse_rtranclp_into_rtranclp rtranclp_trans)
  ultimately show thesis using that L5(2) L4(2) by simp
qed

text \<open>
  Work that is submitted once \<open>stop\<close> has asked the runs to end is accepted, and goes on after the stop
  is over, with the store closed: nothing asked it to end.
\<close>

lemma late_work_survives:
  assumes "ht_started (lv_heart L)" "lv_calls L = []" "\<not> lv_dead L" "running (lv_heart L) = []" "lv_flights L = []"
    "k \<notin> fst ` set (ht_handles (lv_heart L))" "k \<notin> set (lv_doomed L)"
  obtains L' where "live_step\<^sup>*\<^sup>* L L'" "lv_calls L' = []" "lv_serial L' = lv_serial L" "\<not> ht_started (lv_heart L')"
    "\<not> ht_connected (lv_heart L')" "k \<in> set (running (lv_heart L'))" "k \<notin> set (lv_doomed L')"
proof -
  obtain L' h where L': "live_step\<^sup>*\<^sup>* L L'" "lv_calls L' = []" "lv_serial L' = lv_serial L" "lv_doomed L' = lv_doomed L"
    "lv_heart L' = stop_closed (stop_bus (activate k h))"
    by (rule stop_with_work [OF assms(1-5), of "[k]"]) (use assms(6) in auto)
  have "map_of (dict_set k H_running (ht_handles h)) k = Some H_running" by simp
  then have "(k, H_running) \<in> set (dict_set k H_running (ht_handles h))" by (rule map_of_SomeD)
  with L' assms(7) that show thesis by (simp add: stop_closed_def stop_bus_def activate_def Let_def)
qed

text \<open>
  A runtime whose heartbeat loop raised is never stopped: every \<open>stop\<close> raises what the loop raised,
  before it asks the runs to end or closes anything, and a \<open>start\<close> does nothing.
\<close>

lemma dead_heartbeat_never_stops:
  assumes "live_step\<^sup>*\<^sup>* L L'" "lv_dead L" "ht_started (lv_heart L)" "lv_calls L = []"
  shows "lv_dead L' \<and> ht_started (lv_heart L') \<and> lv_calls L' = []"
  using assms
proof (induction rule: rtranclp_induct)
  case (step L1 L2)
  from step.hyps(2) step.IH [OF step.prems] show ?case
  proof (induction rule: live_step.induct)
    case (spawns ob L key h)
    from spawns(1) obtain h1 where h: "h = activate key h1"
      "h1 = (lv_heart L)\<lparr>ht_plane := ht_plane h1, ht_task_ids := ht_task_ids h1, ht_work := ht_work h1\<rparr>" by (rule spawn_cases)
    have "ht_started h1 = ht_started (lv_heart L)" by (subst h(2)) simp
    with spawns show ?case by (simp add: live_run_def h(1))
  next
    case (handles L fs f gs hnd hnds)
    then show ?case by (simp add: handle_one_def Let_def split_beta)
  qed (auto simp: stop_begin_def live_run_def)
qed simp

section \<open>Properties\<close>

text \<open>
  C19. The runtime stays consistent through every interleaving of calls of start and stop, each split at the places
  where it waits and ended anywhere by an error or a cancellation, with submissions, background runs, publications,
  beats and health probes. The active ids shown are the keys of the runs held, and every run that goes on is among
  them. The counters are exact: each is the number of times an event of its kind was to be handled, one for each counter attached when
  it was published, less the handlings still under way or cut off. As long as no call of
  start or stop is made while another waits, the counter is attached just while the runtime is started and its
  bus open, and each event published then was to be counted once and every other not at all, so that a restart
  counts nothing twice; a heartbeat beats only while the runtime is started and no stop has begun; the store is
  open while it is started; and a run that goes on in a stopped runtime was asked to end, or was submitted after the stop had asked.
\<close>

theorem runtime_consistent:
  assumes "live_reachable L"
  shows "let h = lv_heart L; s = ht_state h; pending = lv_flights L @ lv_cut L in
    rs_active_task_ids s = ht_active h \<and> distinct (ht_active h) \<and> set (running h) \<subseteq> set (rs_active_task_ids s)
    \<and> map fst (lv_log L) = pl_published (ht_plane h)
    \<and> rs_completed_tasks s + due TASK_COMPLETED pending = logged TASK_COMPLETED (lv_log L)
    \<and> rs_failed_tasks s + due TASK_FAILED pending = logged TASK_FAILED (lv_log L)
    \<and> rs_heartbeats s + due HEARTBEAT pending = logged HEARTBEAT (lv_log L)
    \<and> (lv_serial L \<longrightarrow> b_handlers (ht_bus h) = (if ht_started h \<and> \<not> lv_closed L then [counter_handler] else [])
         \<and> (\<forall>(e, n, up) \<in> set (lv_log L). n = (if up then 1 else 0))
         \<and> (ht_beats h \<noteq> None \<longrightarrow> ht_started h \<and> lv_calls L = []) \<and> lv_orphans L = [] \<and> (ht_started h \<longrightarrow> ht_connected h)
         \<and> (\<not> ht_started h \<longrightarrow> set (running h) \<subseteq> set (lv_doomed L) \<union> set (lv_late L)))"
  using live_reachable_ok [OF assms] by (auto simp: runs_ok_def counts_ok_def orderly_def serving_def Let_def)

theorem runtime_consistent_witness:
  "\<exists>L. live_reachable L \<and> lv_serial L \<and> ht_started (lv_heart L) \<and> \<not> lv_closed L \<and> b_handlers (ht_bus (lv_heart L)) = [counter_handler]"
proof -
  let ?new = "new_live (new_heart example_state 10 example_plane)"
  have new: "\<not> ht_started (lv_heart ?new)" "lv_calls ?new = []" by (simp_all add: new_live_def new_heart_def)
  from start_undisturbed [OF new, of True 3] obtain L where L: "live_step\<^sup>*\<^sup>* ?new L"
    "lv_heart L = snd (heart_start True None 3 (lv_heart ?new))" "lv_serial L = lv_serial ?new" by metis
  have r: "live_reachable L" by (rule reachable_trans [OF L(1) live_reachable.constructed])
  have "ht_started (lv_heart L)" "b_handlers (ht_bus (lv_heart L)) \<noteq> []"
    by (simp_all add: L(2) heart_start_def new_live_def new_heart_def new_bus_def Let_def heart_emit_publishes start_ready_def add_handler_def)
  moreover have "lv_serial L" by (simp add: L(3) new_live_def)
  ultimately show ?thesis using r runtime_consistent [OF r] by (auto simp: Let_def split: if_splits)
qed

end
