(* ===== verification/Obs_Logging.thy ===== *)
theory Obs_Logging
  imports Obs_Redaction
begin

text \<open>
  \<open>observability/logging.py\<close>: what a log line holds when it is rendered as JSON. A line passes the
  processors in the order \<open>configure_logging\<close> installs them; the context of \<open>contextvars\<close> is explicit. How
  structlog writes the line, and the console renderer, are not modelled.
\<close>

text \<open>The level below which nothing is logged; a name \<open>logging\<close> does not know is INFO.\<close>

definition level_number :: "string \<Rightarrow> nat" where
  "level_number name = (case map_of [(''CRITICAL'', 50), (''FATAL'', 50), (''ERROR'', 40), (''WARNING'', 30), (''WARN'', 30), (''INFO'', 20),
     (''DEBUG'', 10), (''NOTSET'', 0)] name of Some n \<Rightarrow> n | None \<Rightarrow> 20)"

datatype log_method = Log_debug | Log_info | Log_warning | Log_error | Log_critical

fun method_name :: "log_method \<Rightarrow> string" where
  "method_name Log_debug = ''debug''" | "method_name Log_info = ''info''" | "method_name Log_warning = ''warning''"
| "method_name Log_error = ''error''" | "method_name Log_critical = ''critical''"

fun method_level :: "log_method \<Rightarrow> nat" where
  "method_level Log_debug = 10" | "method_level Log_info = 20" | "method_level Log_warning = 30"
| "method_level Log_error = 40" | "method_level Log_critical = 50"

section \<open>Context\<close>

definition bind_context :: "payload \<Rightarrow> payload \<Rightarrow> payload" where
  "bind_context extra context = dict_update context extra"

definition unbind_context :: "string list \<Rightarrow> payload \<Rightarrow> payload" where
  "unbind_context keys context = filter (\<lambda>(k, v). k \<notin> set keys) context"

text \<open>\<open>bind_task\<close> around a body; the context after it, however the body ends.\<close>

definition bind_task :: "string \<Rightarrow> payload \<Rightarrow> (payload \<Rightarrow> 'a \<times> payload) \<Rightarrow> payload \<Rightarrow> 'a \<times> payload" where
  "bind_task task_id extra body context =
     (let (r, c) = body (bind_context ((''task_id'', PStr task_id) # extra) context)
      in (r, unbind_context (''task_id'' # map fst extra) c))"

definition reset_context :: "payload \<Rightarrow> payload" where
  "reset_context context = []"

section \<open>The processors\<close>

text \<open>\<open>setdefault\<close> for each item of the context.\<close>

fun merge_contextvars :: "payload \<Rightarrow> payload \<Rightarrow> payload" where
  "merge_contextvars [] event_dict = event_dict"
| "merge_contextvars ((k, v) # rest) event_dict =
     merge_contextvars rest (if k \<in> fst ` set event_dict then event_dict else event_dict @ [(k, v)])"

definition redaction_processor :: "payload \<Rightarrow> payload" where
  "redaction_processor = redact_payload"

text \<open>
  \<open>format_exc_info\<close>, for a call that asked for the traceback with \<open>exc_info=True\<close>: \<open>traceback\<close> is its text.
\<close>

definition format_exc_info :: "string option \<Rightarrow> payload \<Rightarrow> payload" where
  "format_exc_info traceback event_dict = (case traceback of None \<Rightarrow> event_dict
     | Some t \<Rightarrow> dict_set ''exception'' (PStr t) (filter (\<lambda>(k, v). k \<noteq> ''exc_info'') event_dict))"

record log_call =
  lc_component :: string
  lc_method :: log_method
  lc_event :: string
  lc_fields :: payload
  lc_traceback :: "string option" \<comment> \<open>with \<open>logger.exception\<close>, of the exception being handled\<close>

definition event_dict_of :: "log_call \<Rightarrow> payload" where
  "event_dict_of c = dict_set ''event'' (PStr (lc_event c)) (dict_update [(''component'', PStr (lc_component c))]
     (lc_fields c @ (case lc_traceback c of None \<Rightarrow> [] | Some t \<Rightarrow> [(''exc_info'', PBool True)])))"

definition json_line :: "string \<Rightarrow> payload \<Rightarrow> string \<Rightarrow> log_call \<Rightarrow> payload option" where
  "json_line level context now c =
     (if method_level (lc_method c) < level_number level then None
      else Some (format_exc_info (lc_traceback c) (redaction_processor
        (dict_set ''timestamp'' (PStr now) (dict_set ''level'' (PStr (method_name (lc_method c)))
          (merge_contextvars context (event_dict_of c)))))))"

section \<open>Lemmas\<close>

lemma redact_payload_items: "redact_payload p = map (\<lambda>(key, item).
   (key, if is_sensitive_key key then (if item = PNone then PNone else PStr REDACTED) else redact_at (Suc 0) 12 item)) p"
  by (simp add: redact_payload_def redact_def redact_at_simps)

definition field_ok :: "string \<Rightarrow> pyval \<Rightarrow> bool" where
  "field_ok k v \<longleftrightarrow> redacted_ok v \<and> (is_sensitive_key k \<longrightarrow> v \<in> {PNone, PStr REDACTED})"

lemma redacted_payload_ok:
  assumes "(k, v) \<in> set (redact_payload p)"
  shows "field_ok k v"
proof -
  from assms obtain item where v: "v = (if is_sensitive_key k then (if item = PNone then PNone else PStr REDACTED) else redact_at (Suc 0) 12 item)"
    by (auto simp: redact_payload_items)
  have "redacted_ok v" unfolding v by (simp add: redact_at_ok short_ok(2) del: redacted_ok.simps(3))
  then show ?thesis by (simp add: field_ok_def v)
qed

text \<open>Every field of a line is redacted, but the traceback.\<close>

lemma line_fields_redacted:
  assumes "json_line level context now c = Some line" "(k, v) \<in> set line" "k \<noteq> ''exception''"
  shows "field_ok k v"
proof -
  obtain d where d: "line = format_exc_info (lc_traceback c) (redact_payload d)"
    using assms(1) by (auto simp: json_line_def redaction_processor_def split: if_splits)
  have "(k, v) \<in> set (redact_payload d)"
    using assms(2,3) unfolding d format_exc_info_def by (cases "lc_traceback c") (auto dest!: set_dict_set)
  then show ?thesis by (rule redacted_payload_ok)
qed

lemma traceback_is_verbatim:
  assumes "json_line level context now c = Some line" "lc_traceback c = Some t"
  shows "map_of line ''exception'' = Some (PStr t)"
  using assms by (auto simp: json_line_def format_exc_info_def split: if_splits)

text \<open>Two blocks for two tasks, one in the other: after the inner one the outer has lost its task.\<close>

lemma inner_block_unbinds:
  "fst (bind_task ''a'' [] (\<lambda>c. (map_of (snd (bind_task ''b'' [] (\<lambda>c. ((), c)) c)) ''task_id'', c)) []) = None"
  by (simp add: bind_task_def bind_context_def unbind_context_def dict_set_def)

end
