(* ===== verification/Mem_Readback.thy ===== *)
theory Mem_Readback
  imports Sec_Approvals
begin

text \<open>
  What the JSON columns hold reads back. The rows of the model keep the value that \<open>loads\<close> gives for the
  text the code inserts; here that is a theorem about the text, for the audit trail, the ledger of tool
  calls and the approvals. It needs of a payload that its floats have at most six decimals and its integers
  at most 4300 digits.
\<close>

lemma update_keys_distinct: "distinct (map fst d) \<Longrightarrow> distinct (map fst (dict_update d es))"
proof (induction es arbitrary: d)
  case (Cons x es)
  obtain k v where "x = (k, v)" by (cases x)
  moreover have "distinct (map fst (dict_set k v d))" using Cons.prems by (simp add: keys_dict_set)
  ultimately show ?case using Cons.IH by simp
qed simp

lemma redact_fits: "json_fits v \<Longrightarrow> json_fits (redact_at depth max_depth v)"
proof (induction v arbitrary: depth rule: json_fits.induct)
  case (3 xs)
  then show ?case by (cases "max_depth < depth") (auto simp: redact_at_simps list_all_iff)
next
  case (4 d)
  show ?case
  proof (cases "max_depth < depth")
    case False
    with 4 show ?thesis by (auto simp: redact_at_simps list_all_iff comp_def case_prod_unfold)
  qed (simp add: redact_at_simps)
qed (auto simp: redact_at.simps list_all_iff)

lemma identity_fits: "json_fits (PDict given) \<Longrightarrow> json_fits (PDict (e_payload (emit_event i n ty t c a given)))"
proof -
  assume given: "json_fits (PDict given)"
  have fields: "distinct (map fst (actor_audit_fields x))" "list_all (\<lambda>(k, v). json_fits v) (actor_audit_fields x)" for x
    by (auto simp: actor_audit_fields_def list_all_iff)
  have set: "set (dict_update d es) \<subseteq> set d \<union> set es" for d es :: payload
  proof (induction es arbitrary: d)
    case (Cons x es)
    then show ?case by (cases x) (fastforce dest: set_dict_set)
  qed simp
  show ?thesis
  proof (cases a)
    case (Some b)
    then show ?thesis
      using given fields [of b] set [of "actor_audit_fields b" given]
      by (auto simp: emit_event_def list_all_iff update_keys_distinct)
  qed (use given in \<open>simp add: emit_event_def\<close>)
qed

text \<open>The row of a payload that is too long holds its digest, its length and its first characters.\<close>

definition too_long_row :: "(string \<Rightarrow> string) \<Rightarrow> string \<Rightarrow> pyval" where
  "too_long_row sha encoded = PDict [(''_bytes'', PInt (int (length encoded))), (''_hashed'', PBool True),
     (''_preview'', PStr (take PREVIEW_CHARS encoded)), (''_sha256'', PStr (sha encoded))]"

lemma stored_fits:
  assumes "json_fits (PDict p)" "length (store_dumps (redact (PDict p))) < 10 ^ MAX_STR_DIGITS"
  shows "json_fits (fst (stored_payload sha p))"
proof -
  have "json_fits (redact (PDict p))" using assms(1) by (simp only: redact_def redact_fits)
  moreover have "length (str_nat (length (store_dumps (redact (PDict p))))) \<le> MAX_STR_DIGITS"
    by (rule length_str_nat [OF _ assms(2)]) (simp add: MAX_STR_DIGITS_def)
  ultimately show ?thesis by (simp add: stored_payload_def Let_def)
qed

lemma stored_norm:
  "json_norm (fst (stored_payload sha p)) =
    (let encoded = store_dumps (redact (PDict p)) in
     if length encoded \<le> MAX_STORED_OUTPUT_CHARS then json_norm (redact (PDict p)) else too_long_row sha encoded)"
  by (simp add: stored_payload_def Let_def too_long_row_def not_less)

text \<open>The ledger and the approvals: the arguments a call was made with, and those a human is shown.\<close>

lemma ledger_reads_back:
  "json_fits (PDict (c_arguments c)) \<Longrightarrow>
   store_loads je (Some (store_dumps (redact (PDict (c_arguments c))))) = Inr (cr_arguments (call_to_row c))"
  by (simp add: call_to_row_def store_loads_dumps redact_def redact_fits del: json_fits.simps)

lemma approval_reads_back:
  "json_fits (PDict (q_arguments q)) \<Longrightarrow>
   store_loads je (Some (store_dumps (PDict (q_arguments q)))) = Inr (ar_arguments (request_to_row q))"
  by (simp add: request_to_row_def store_loads_dumps del: json_fits.simps)

text \<open>
  C36. What the audit trail stores reads back. Emitting an event appends one row, and decoding the text of
  its payload column gives the redacted payload, its keys sorted, whole when its text is within the limit;
  otherwise the digest of that whole text, its length and its first characters. Nothing in a payload, no
  quote, control character or number, makes the column unreadable: \<open>loads\<close> neither fails nor falls back to
  \<open>_unparseable\<close>.
\<close>

theorem trail_reads_back:
  assumes p: "p = e_payload (emit_event [] 0 ty t c a given)"
    and pre: "audit_ok pl" "json_fits (PDict given)" "length (store_dumps (redact (PDict p))) < 10 ^ MAX_STR_DIGITS"
  shows "\<exists>row. pl_audit (plane_emit ty t c a given pl) = pl_audit pl @ [row]
    \<and> audit_decode je (Some (store_dumps (fst (stored_payload (pl_sha256 pl) p)))) (map_option of_bool (au_success row)) = Inr (au_payload row, au_success row)
    \<and> au_payload row = (let encoded = store_dumps (redact (PDict p)) in
        if length encoded \<le> MAX_STORED_OUTPUT_CHARS then json_norm (redact (PDict p))
        else too_long_row (pl_sha256 pl) encoded)"
proof -
  have "json_fits (PDict p)" unfolding p using pre(2) by (rule identity_fits)
  from store_loads_dumps [OF stored_fits [OF this pre(3)]] plane_emit_audit [OF pre(1), of ty t c a given]
  show ?thesis by (auto simp: p [symmetric] stored_norm audit_decode_def option.map_comp comp_def option.map_ident)
qed

text \<open>A payload with a quote, a control character, and a negative number.\<close>

definition example_payload :: payload where
  "example_payload = [(''path'', PStr [CHR 0x22, CHR 0x0A, CHR ''x'']), (''exit_code'', PInt (- 1)),
     (''items'', PList [PNone, PBool True])]"

theorem trail_reads_back_witness:
  "\<exists>row. pl_audit (plane_emit TOOL_COMPLETED None ''executor'' None example_payload example_plane) = [row]
    \<and> audit_decode example_json_env (Some (store_dumps (fst (stored_payload (pl_sha256 example_plane) example_payload))))
        (map_option of_bool (au_success row)) = Inr (au_payload row, au_success row)
    \<and> au_payload row = PDict [(''exit_code'', PInt (- 1)), (''items'', PList [PNone, PBool True]), (''path'', PStr [CHR 0x22, CHR 0x0A, CHR ''x''])]"
proof -
  have encoded: "length (store_dumps (redact (PDict example_payload))) = 57" by code_simp
  have norm: "json_norm (redact (PDict example_payload)) =
    PDict [(''exit_code'', PInt (- 1)), (''items'', PList [PNone, PBool True]), (''path'', PStr [CHR 0x22, CHR 0x0A, CHR ''x''])]" by code_simp
  have "length (str_nat 1) = 1" by code_simp
  then have fits: "json_fits (PDict example_payload)" by (simp add: example_payload_def MAX_STR_DIGITS_def)
  have "(57 :: nat) < 10 ^ 2" by simp
  also have "\<dots> \<le> 10 ^ MAX_STR_DIGITS" by (rule power_increasing) (simp_all add: MAX_STR_DIGITS_def)
  finally have short: "length (store_dumps (redact (PDict example_payload))) < 10 ^ MAX_STR_DIGITS" by (simp only: encoded)
  have "example_payload = e_payload (emit_event [] 0 TOOL_COMPLETED None ''executor'' None example_payload)" by (simp add: emit_event_def)
  note reads = trail_reads_back [OF this _ fits short, of example_plane example_json_env]
  have "audit_ok example_plane" "pl_audit example_plane = []" "((57 :: nat) \<le> MAX_STORED_OUTPUT_CHARS) = True"
    by (simp_all add: audit_ok_def tbl_wf_def ids_below_def example_plane_def MAX_STORED_OUTPUT_CHARS_def)
  with reads show ?thesis by (simp only: Let_def encoded norm if_True append_Nil)
qed

end
