(* ===== verification/Model_Replies.thy ===== *)
theory Model_Replies
  imports Model_Base
begin

text \<open>
  \<open>extract_json\<close> on the three things its documentation names: clean JSON, JSON in a code fence, and JSON with a
  sentence on either side. Each reads as exactly the object that was written.
\<close>

section \<open>Texts that are no JSON\<close>

text \<open>A character no JSON text starts with, such as a letter other than those of the literals, or a backtick.\<close>

definition starts_prose :: "char \<Rightarrow> bool" where
  "starts_prose c \<longleftrightarrow> \<not> py_isspace c \<and> map_of punctuation c = None \<and> c \<noteq> CHR 0x22 \<and> \<not> is_digit c \<and> c \<notin> set ''-ntfNI''"

lemma json_blank: "is_json_space c \<Longrightarrow> py_isspace c"
proof -
  have "list_all py_isspace [CHR '' '', CHR 0x09, CHR 0x0A, CHR 0x0D]" by code_simp
  then show "is_json_space c \<Longrightarrow> py_isspace c" by (auto simp: is_json_space_def)
qed

lemma prose_is_no_json:
  assumes "starts_prose c"
  shows "json_loads je (c # s) = Malformed_json"
proof -
  have "\<not> is_json_space c" using assms json_blank [of c] by (auto simp: starts_prose_def)
  moreover have "read_number (c # s) = None"
  proof -
    have "is_digit (CHR ''0'')" by code_simp
    then have "whole_part (c # s) = ([], c # s)" using assms by (auto simp: starts_prose_def whole_part_def digits_of_def)
    then show ?thesis using assms by (simp add: read_number_def starts_prose_def split: prod.splits)
  qed
  moreover have "read_literal je (c # s) = None"
    using assms by (auto simp: starts_prose_def read_literal_def literals_def)
  ultimately have "tokens je (c # s) = [T_bad]" using assms by (simp add: tokens.simps(2) starts_prose_def)
  then show ?thesis by (simp add: json_loads_def read_in_def)
qed

lemma prose_first: "s \<noteq> [] \<Longrightarrow> starts_prose (hd s) \<Longrightarrow> json_loads je (s @ t) = Malformed_json"
  by (cases s) (simp_all add: prose_is_no_json)

section \<open>Stripping\<close>

lemma py_strip_around:
  assumes "list_all py_isspace a" "list_all py_isspace b" "s \<noteq> []" "\<not> py_isspace (hd s)" "\<not> py_isspace (last s)"
  shows "py_strip (a @ s @ b) = s"
proof -
  have front: "dropWhile py_isspace (a @ s @ b) = s @ b" using assms by (cases s) (auto simp: list_all_iff dropWhile_append)
  have "dropWhile py_isspace (rev b @ rev s) = rev s"
    using assms by (cases "rev s") (auto simp: list_all_iff dropWhile_append hd_rev [symmetric])
  with front show ?thesis by (simp add: py_strip_def)
qed

lemma object_text: "\<exists>body. json_with a (PDict d) = CHR ''{'' # body @ ''}''"
  by simp

lemma object_ends: "json_with a (PDict d) \<noteq> []" "hd (json_with a (PDict d)) = CHR ''{''" "last (json_with a (PDict d)) = CHR ''}''"
  using object_text [of a d] by auto

lemma braces_stay [simp]: "\<not> py_isspace (CHR ''{'')" "\<not> py_isspace (CHR ''}'')"
  by code_simp+

lemma strip_object:
  "list_all py_isspace x \<Longrightarrow> list_all py_isspace y \<Longrightarrow> py_strip (x @ json_with a (PDict d) @ y) = json_with a (PDict d)"
  by (rule py_strip_around) (simp_all add: object_ends del: json_with.simps)

section \<open>The candidates\<close>

lemma candidates_first: "json_loads je t = Json_value v \<Longrightarrow> first_document je (json_candidates t) = Json_value v"
  by (simp add: json_candidates_def)

lemma candidates_fenced:
  "json_loads je t = Malformed_json \<Longrightarrow> fenced_block t = Some b \<Longrightarrow> json_loads je (py_strip b) = Json_value v \<Longrightarrow>
   first_document je (json_candidates t) = Json_value v"
  by (simp add: json_candidates_def opt_list_def)

lemma candidates_between:
  "json_loads je t = Malformed_json \<Longrightarrow> fenced_block t = None \<Longrightarrow> between (CHR ''{'') (CHR ''}'') t = Some b \<Longrightarrow>
   json_loads je b = Json_value v \<Longrightarrow> first_document je (json_candidates t) = Json_value v"
  by (simp add: json_candidates_def opt_list_def)

lemma cut_at_none: "CHR 0x60 \<notin> set s \<Longrightarrow> cut_at code_fence s = None"
  by (induction s) (auto simp: code_fence_def eval_nat_numeral)

lemma cut_at_first: "CHR 0x60 \<notin> set s \<Longrightarrow> cut_at code_fence (s @ code_fence @ t) = Some (s, t)"
proof (induction s)
  case Nil
  have "code_fence = CHR 0x60 # replicate 2 (CHR 0x60)" by (simp add: code_fence_def eval_nat_numeral)
  then show ?case by (metis append_Cons append_Nil append_eq_conv_conj cut_at.simps(2) prefixI)
next
  case (Cons c s)
  then have "\<not> prefix code_fence (c # s @ code_fence @ t)" by (auto simp: code_fence_def eval_nat_numeral)
  with Cons show ?case by simp
qed

lemma between_object:
  assumes "CHR ''{'' \<notin> set before" "CHR ''}'' \<notin> set after"
  shows "between (CHR ''{'') (CHR ''}'') (before @ (CHR ''{'' # body @ ''}'') @ after) = Some (CHR ''{'' # body @ ''}'')"
proof -
  have "takeWhile (\<lambda>c. c \<noteq> CHR ''{'') (before @ (CHR ''{'' # body @ ''}'') @ after) = before"
    using assms(1) by (auto simp: takeWhile_append)
  moreover have "takeWhile (\<lambda>c. c \<noteq> CHR ''}'') (rev (before @ (CHR ''{'' # body @ ''}'') @ after)) = rev after"
    using assms(2) by (auto simp: takeWhile_append)
  ultimately show ?thesis by (simp add: between_def Let_def)
qed

lemma py_strip_front:
  assumes "h \<noteq> []" "\<not> py_isspace (hd h)" "\<not> py_isspace (last h)"
  shows "\<exists>t'. py_strip (h @ t) = h @ t' \<and> set t' \<subseteq> set t"
proof -
  have "dropWhile py_isspace (h @ t) = h @ t" using assms by (cases h) simp_all
  moreover have "rev (dropWhile py_isspace (rev t @ rev h)) = h @ rev (dropWhile py_isspace (rev t))"
    using assms by (cases "rev h") (auto simp: dropWhile_append hd_rev [symmetric])
  ultimately show ?thesis by (auto simp: py_strip_def dest: set_dropWhileD)
qed

lemma fenced_object:
  assumes "list_all py_isspace x" "list_all py_isspace y" "CHR 0x60 \<notin> set before" "CHR 0x60 \<notin> set (json_with a (PDict d))" "lang \<in> {[], ''json''}"
  shows "fenced_block (before @ code_fence @ lang @ x @ json_with a (PDict d) @ y @ code_fence @ after) = Some (json_with a (PDict d) @ y)"
proof -
  let ?t = "json_with a (PDict d)"
  have "\<not> py_isspace (CHR 0x60)" "\<not> py_isspace (CHR ''j'')" by code_simp+
  then have y: "CHR 0x60 \<notin> set (?t @ y)" and j: "\<not> prefix ''json'' (x @ ?t @ z)" for z
    using assms(1,2,4) by (auto simp: list_all_iff) (cases x; auto)
  have l: "py_lstrip (x @ ?t @ z) = ?t @ z" for z
    using assms(1) by (simp add: py_lstrip_def list_all_iff dropWhile_append)
  show ?thesis
    using assms(5) j [of "y @ code_fence @ after"] l [of "y @ code_fence @ after"] cut_at_first [OF y, of after] cut_at_first [OF assms(3)]
    by (auto simp: fenced_block_def simp del: json_with.simps)
qed

text \<open>
  A reply that is an integer of more than 4300 digits is not rejected for repair: \<open>ValueError\<close> is no
  \<open>JSONDecodeError\<close>, and it leaves \<open>generate_structured\<close>.
\<close>

lemma strip_number: "py_strip (str_nat n) = str_nat n"
proof -
  have "\<not> py_isspace c" if "is_digit c" for c using that by (auto simp: is_digit_def py_isspace_def Let_def)
  then have "\<not> py_isspace c" if "c \<in> set (str_nat n)" for c using that str_nat_digits [of n] by (auto simp: list_all_iff)
  then show ?thesis using py_strip_around [of "[]" "[]" "str_nat n"] str_nat_filled [of n] by simp
qed

lemma long_integer_escapes:
  assumes "MAX_STR_DIGITS < length (str_nat n)"
  shows "\<exists>m. extract_json je (str_nat n) = Inl (Invalid m) \<and> read_reply (p\<lparr>pv_json := je\<rparr>) validate (str_nat n) = Uncaught (Invalid m)"
proof -
  have "read_number (str_nat n) = Some (T_long, [])"
    using read_number_parts(1) [of "[]" "[]" "[]" None "[]" n] assms
    by (simp add: fraction_part_def exponent_part_def number_token_def)
  from tokens_number [OF this] have "json_loads je (str_nat n) = Json_value_error ''Exceeds the limit (4300 digits) for integer string conversion''"
    by (simp add: json_loads_def read_in_def)
  then show ?thesis using str_nat_filled [of n]
    by (simp add: read_reply_def extract_json_def strip_number json_candidates_def)
qed

section \<open>Properties\<close>

text \<open>
  C10. What a model writes as JSON is what is read, in the three forms the documentation names: the text
  of an object, with blanks around it; in a code fence, marked or not, after a sentence or none and before anything;
  and between two sentences, where the first has no opening and the last no closing brace. The object comes
  back as it was written, its keys sorted, whatever quotes, escapes, numbers and nested values it holds; a
  fence needs a text without backticks. A sentence starts with a character that starts no JSON.
\<close>

theorem extract_json_reads:
  assumes "json_fits (PDict d)" "list_all py_isspace x" "list_all py_isspace y"
  shows "extract_json je (x @ json_with a (PDict d) @ y) = Inr (json_norm (PDict d))
    \<and> (CHR 0x60 \<notin> set (before @ json_with a (PDict d)) \<and> (before = [] \<or> starts_prose (hd before)) \<and> lang \<in> {[], ''json''} \<longrightarrow>
       extract_json je (before @ code_fence @ lang @ x @ json_with a (PDict d) @ y @ code_fence @ after) = Inr (json_norm (PDict d)))
    \<and> (CHR 0x60 \<notin> set (before @ json_with a (PDict d) @ after) \<and> before \<noteq> [] \<and> starts_prose (hd before)
        \<and> CHR ''{'' \<notin> set before \<and> CHR ''}'' \<notin> set after \<longrightarrow>
       extract_json je (before @ json_with a (PDict d) @ after) = Inr (json_norm (PDict d)))"
    (is "?plain \<and> (?in_fence \<longrightarrow> ?fence) \<and> (?in_prose \<longrightarrow> ?prose)")
proof (intro conjI impI)
  let ?t = "json_with a (PDict d)"
  note read = loads_dumps [OF assms(1), of je a]
  show ?plain
    using candidates_first [OF read] strip_object [OF assms(2,3), of a d] object_ends(1) [of a d]
    by (simp add: extract_json_def del: json_with.simps json_norm.simps)
  show ?fence if h: ?in_fence
  proof -
    let ?h = "before @ code_fence @ lang @ x @ ?t @ y @ code_fence"
    have fence: "code_fence = CHR 0x60 # [CHR 0x60] @ [CHR 0x60]" "starts_prose (CHR 0x60)"
      by (simp add: code_fence_def eval_nat_numeral) code_simp
    have starts: "starts_prose (hd ?h)" using h fence(2) by (cases before) (simp_all add: fence(1) del: json_with.simps)
    moreover have "last ?h = CHR 0x60" "?h \<noteq> []" by (simp_all add: fence(1) del: json_with.simps)
    ultimately obtain z where z: "py_strip (?h @ after) = ?h @ z"
      using py_strip_front [of ?h after] fence(2) by (auto simp: starts_prose_def simp del: json_with.simps)
    have none: "json_loads je (?h @ z) = Malformed_json" using \<open>?h \<noteq> []\<close> starts by (rule prose_first)
    have "fenced_block (?h @ z) = Some (?t @ y)" using fenced_object [OF assms(2,3), of before a d lang z] h by simp
    from candidates_fenced [OF none this] read strip_object [of "[]" y a d] assms(3) z
    show ?thesis by (simp add: extract_json_def object_ends(1) del: json_with.simps json_norm.simps)
  qed
  show ?prose if h: ?in_prose
  proof -
    let ?h = "before @ ?t"
    have "hd ?h = hd before" "last ?h = CHR ''}''" "?h \<noteq> []" using h object_ends [of a d] by (simp_all del: json_with.simps)
    then obtain z where z: "py_strip (?h @ after) = ?h @ z" "set z \<subseteq> set after"
      using py_strip_front [of ?h after] h by (auto simp: starts_prose_def simp del: json_with.simps)
    have none: "json_loads je (?h @ z) = Malformed_json" using prose_first [of before je "?t @ z"] h by simp
    have "CHR 0x60 \<notin> set (?h @ z)" using h z(2) by (auto simp del: json_with.simps)
    then have "cut_at code_fence (?h @ z) = None" by (rule cut_at_none)
    then have unfenced: "fenced_block (?h @ z) = None" by (simp only: fenced_block_def option.case)
    obtain body where body: "?t = CHR ''{'' # body @ ''}''" using object_text by blast
    have "between (CHR ''{'') (CHR ''}'') (?h @ z) = Some ?t"
      using between_object [of before z body] h z(2) by (auto simp: body simp del: json_with.simps)
    from candidates_between [OF none unfenced this read] z(1)
    show ?thesis by (simp add: extract_json_def object_ends(1) del: json_with.simps json_norm.simps)
  qed
qed

text \<open>\<open>{"tool": "fs.read"}\<close> after \<open>Use:\<close>, in a fence and without one.\<close>

theorem extract_json_reads_witness:
  "extract_json example_json_env (''Use: '' @ json_dumps (PDict [(''tool'', PStr ''fs.read'')]) @ ''!'') = Inr (PDict [(''tool'', PStr ''fs.read'')])
   \<and> extract_json example_json_env (''Use: '' @ code_fence @ ''json'' @ [CHR 0x0A] @ json_dumps (PDict [(''tool'', PStr ''fs.read'')]) @ [CHR 0x0A] @ code_fence @ []) =
      Inr (PDict [(''tool'', PStr ''fs.read'')])"
proof -
  have "list_all py_isspace [CHR 0x0A]" by code_simp
  moreover have "CHR 0x60 \<notin> set (''Use: '' @ json_dumps (PDict [(''tool'', PStr ''fs.read'')]) @ ''!'')" "starts_prose (CHR ''U'')" by code_simp+
  ultimately show ?thesis
    using extract_json_reads [of "[(''tool'', PStr ''fs.read'')]" "[CHR 0x0A]" "[CHR 0x0A]" example_json_env True "''Use: ''" "''json''" "[]"]
      extract_json_reads [of "[(''tool'', PStr ''fs.read'')]" "[CHR 0x0A]" "[CHR 0x0A]" example_json_env True "''Use: ''" "''json''" "''!''"]
    by (simp del: json_with.simps)
qed

end
