(* ===== verification/Spec2Isabelle.thy ===== *)
theory Spec2Isabelle
  imports Tools_Catalogue Sec_Credential_Service Iface_Cli Model_Mock Mem_Schema Memory_Semantic
    Core_Config_Validators Agents_Prompts Breath Heart_Interleaved Obs_Logging Mem_Readback Model_Replies
begin
text \<open>
  \<^bold>\<open>Scrappy OS: the control plane of \<open>src/src/scrappy_os\<close>\<close>

  \<^bold>\<open>The program.\<close> A person or a client of the HTTP API states an objective. The runtime (\<open>heart/\<close>) starts
  one orchestrator (\<open>brain/\<close>) for it. Three agents (\<open>agents/\<close>) turn a language model's text into typed
  values: Brahma plans, Vishnu reviews the plan and picks each tool call, Mahesh verifies and
  concludes. A tool call passes through the executor (\<open>tools/executor.py\<close>): the tool classifies the
  call, the policy engine (\<open>security/policy.py\<close>) allows, denies or asks, the approval manager
  (\<open>security/approvals.py\<close>) holds the request for a human, and only then does the tool run. Each step
  writes the ledger of tool calls and emits events (\<open>core/events.py\<close>), which the audit trail
  (\<open>security/audit.py\<close>) stores with secrets redacted. Requests from outside carry a bearer token, which
  the credential components authenticate and authorize. Everything durable is in one SQLite file
  (\<open>memory/store.py\<close>).

  \<^bold>\<open>The theories\<close>, in the order of import; each opens with what it holds.
  \<^item> \<open>Scrappy_Prelude\<close>: results as sums, tables as lists of rows, and the shared lemmas and
    \<open>named_theorems\<close>.
  \<^item> The part of Python's library the code calls: \<open>Py_String\<close> (string methods), \<open>Py_Value\<close> (payload
    values and dicts), \<open>Py_Decimal\<close> (numerals), \<open>Py_Json\<close> and \<open>Py_Json_Roundtrip\<close> (\<open>json.loads\<close> as a machine over
    tokens, and that it reads back what \<open>json.dumps\<close> writes), \<open>Py_Regex\<close> (\<open>re\<close>, with a function of positions per pattern), \<open>Py_Path\<close>
    (\<open>pathlib\<close> over a file system with symbolic links), \<open>Py_Files\<close> (the calls that change files),
    \<open>Py_Net\<close> (\<open>urllib.parse\<close>, \<open>ipaddress\<close>).
  \<^item> \<open>core/\<close>: \<open>Core_Enums\<close>, \<open>Core_Errors\<close>, \<open>Core_Identity\<close>, \<open>Core_Models\<close> (with the task's state machine),
    \<open>Core_Config\<close> (settings, defaults, precedence of sources), \<open>Core_Config_File\<close> (the files behind
    them), \<open>Core_Config_Validators\<close> (what a value goes through before it is a setting), \<open>Core_Directories\<close> (\<open>ensure_directories\<close>), \<open>Event_Bus\<close> (\<open>events.py\<close>).
  \<^item> \<open>observability/\<close>: \<open>Obs_Redaction\<close>, \<open>Obs_Logging\<close> (what a log line holds).
  \<^item> \<open>memory/\<close>: \<open>Mem_Store\<close> (tables; the record \<open>plane\<close> is the state all subsystems share),
    \<open>Mem_Connection\<close> (one connection: commit, rollback, close, and the faults of a statement or a commit), \<open>Mem_Schema\<close> (the schema and its
    migration), \<open>Mem_Readback\<close> (that the JSON columns read back), \<open>Memory_Working\<close>, \<open>Memory_Episodic\<close>, \<open>Memory_Semantic\<close>.
  \<^item> \<open>security/\<close>: \<open>Sec_Risk\<close>, \<open>Sec_Paths\<close>, \<open>Sec_Policy\<close>, \<open>Sec_Authz\<close>, \<open>Sec_Audit\<close>, \<open>Sec_Approvals\<close>,
    \<open>Sec_Credentials\<close>, \<open>Sec_Credential_Store\<close>, \<open>Sec_Credential_Service\<close>, \<open>Sec_Authn\<close>, \<open>Sec_Pepper\<close>.
  \<^item> \<open>tools/\<close>: \<open>Tool_Base\<close> (a tool as a record of its attributes and methods; the registry),
    \<open>Tool_Executor\<close>, \<open>Tool_Filesystem\<close> and \<open>Tool_Filesystem_Safe\<close>, \<open>Tool_Shell\<close>, \<open>Tool_Http\<close>,
    \<open>Tool_System\<close>, \<open>Tool_Process\<close>, \<open>Tool_Git\<close>, \<open>Tools_Default\<close> (the standard registry, each run under
    the executor's budget), \<open>Tools_Observe\<close> (what a reading run does with it), \<open>Tools_Unattended\<close>
    (what a run does that nobody answers, or whose ceiling is WRITE) and \<open>Tools_Catalogue\<close> (the tools a
    planner is shown against those a run executes).
  \<^item> \<open>models/\<close>: \<open>Model_Base\<close> (structured generation and its repair loop), \<open>Model_Replies\<close> (what is
    read from a reply), \<open>Model_Providers\<close> (the two HTTP
    clients and the router), \<open>Model_Mock\<close> (the development provider).
  \<^item> \<open>brain/\<close> and \<open>agents/\<close>: \<open>Brain_Limits\<close>, \<open>Brain_State\<close> (the state of one run, actions on it),
    \<open>Agents\<close>, \<open>Agents_Prompts\<close> (the prompts on disk), \<open>Brain_Orchestrator\<close> (every phase), \<open>Brain_Run\<close> (\<open>_drive\<close> and \<open>run\<close>), and two
    theories of results, \<open>Brain_Endings\<close> and \<open>Brain_Bounds\<close>.
  \<^item> \<open>heart/\<close> and \<open>breath/\<close>: \<open>Heart_Runtime\<close> (the runtime's operations, and \<open>start\<close> and \<open>stop\<close> cut at
    their waits), \<open>Heart_Interleaved\<close> (those pieces, the publications and the runs in any order), \<open>Breath\<close> (the loop of the heartbeat).
  \<^item> \<open>interface/\<close>: \<open>Iface_Security\<close> and \<open>Iface_Api\<close> (the HTTP API), \<open>Iface_Terminal\<close>
    (\<open>formatting.py\<close>), \<open>Iface_Token_Cli\<close>, \<open>Iface_Doctor\<close>, \<open>Iface_Cli\<close>.

  \<^bold>\<open>How code becomes definitions.\<close>
  \<^item> A class is a record, an enumeration a datatype with the members of the source, a method a function
    on the record under the method's name, with a prefix where two classes share it.
  \<^item> An exception is the \<open>Inl\<close> of a sum or a constructor of an outcome type; every \<open>raise\<close>, early return
    and \<open>except\<close> clause is a branch. \<open>Core_Errors\<close> has one constructor per exception class.
  \<^item> Shared state is passed explicitly, as one record (\<open>plane\<close>, \<open>heart\<close>, \<open>brain\<close>) through every
    handler. A handler that awaits is modelled whole, as when nothing else runs meanwhile; where it matters what does,
    it is modelled in pieces too: \<open>Sec_Approvals\<close> has what can happen between the read and the write of one
    approval, \<open>Mem_Connection\<close> the writes of others within a transaction, and \<open>Heart_Interleaved\<close> takes \<open>start\<close>, \<open>stop\<close> and
    \<open>publish\<close> from one wait to the next, any number of them at a time. The commands of the terminal start a
    runtime of their own, do one thing and stop it, and use the whole calls.
  \<^item> A clock reading, a fresh identifier, a random token, the model's text, a prompt's answer and an
    operating-system fault are arguments, one for each time the code asks.

  \<^bold>\<open>Interfaces\<close> are locales, each interpreted on the code's own definitions in the provider's theory:
  the credential store, the authenticators, the log of
  events, the part of the file system an operation may touch, and the relations every part of a run
  respects. The clients' lemmas are proved inside and used through the
  interpretations.

  \<^bold>\<open>What the properties show.\<close>
  \<^item> The executor runs a tool only after policy, approval and permission have cleared it, and every call is
    accounted for in the ledger (\<open>execute_gate\<close>, \<open>execute_accounted\<close>); an approval is used at most
    once, and resolving one does exactly what its branches say.
  \<^item> A whole run changes the world only through cleared calls, each with the approval that was requested, granted and consumed within that
    very call, where policy asked for one; it ends with its task closed, within bounds
    on model calls, tool calls and replans, and terminates (\<open>run_governed\<close>, \<open>run_closes_task\<close>,
    \<open>run_bounded\<close>, \<open>drive_terminates\<close>). With the standard registry, a run that may only read, and a dry
    run, does nothing but start reading processes (\<open>read_run_only_observes\<close>), and a run without a
    human, or under the ceiling WRITE, only what is unprivileged (\<open>unattended_run_unprivileged\<close>); no run executes a tool its planner was
    not shown (\<open>run_uses_shown_tools\<close>).
  \<^item> The tools stay within what they promise: file tools within the workspace, writing keeps the old
    content and reads back, the shell starts only allowed executables, every HTTP request is checked
    first, a signal spares the protected processes, git only reads (\<open>git_reads_only\<close>), and its log reads back (\<open>log_roundtrip\<close>).
  \<^item> Requests: every route of the API needs its scope, decisions carry the
    authenticated actor, a token is accepted exactly when its credential says so, rotation is one step of the
    abstract store whichever statement or commit fails, the pepper survives a restart; opening a database of an earlier version completes
    its schema and loses no row (\<open>migration_complete\<close>). What the trail stores reads back (\<open>trail_reads_back\<close>).
  \<^item> The runtime: its active runs and counters are right under every interleaving of its calls, errors and
    cancellations included, and its lifecycle is orderly as long as no call of \<open>start\<close> or \<open>stop\<close> overlaps another (\<open>runtime_consistent\<close>).
    What goes wrong otherwise is proved beside it: overlapping starts count twice, work submitted during a stop goes on after it, and a heartbeat that died keeps
    the runtime from ever being stopped.
  \<^item> The terminal: \<open>ask\<close> stays within the ceiling it was given, and what exceeds the automatic level is run only after the person answered that very question, \<open>--yes\<close> does not answer for a destructive
    call, \<open>approve\<close> decides one request, no screen shows a verifier or a secret, \<open>doctor\<close> is healthy
    exactly when no check failed, \<open>prune\<close> deletes what its preview lists.
  \<^item> The models: an object a model writes is read as it was written (\<open>extract_json_reads\<close>), a failed turn is
    classified as retryable or not, the API key goes only into its header (\<open>key_only_in_header\<close>), and the development provider answers with values the agents' shapes accept.

  \<^bold>\<open>Bounds and fuel.\<close> \<open>drive_loop\<close> has the number of replans left plus one as fuel, and
  \<open>drive_terminates\<close> shows that fuel is never what ends it. The fuel of \<open>re_sub\<close> and \<open>find_steps\<close> is the length of
  the text: a round consumes at least one character. Path resolution follows at most \<open>link_budget\<close>
  links, a field of the file system, and then fails as Python does on a loop of links; \<open>walk_mono\<close>
  shows that a larger budget changes no answer reached within a smaller one.

  \<^bold>\<open>Conventions.\<close> \<open>str\<close> is \<open>string\<close>, so a character is a code point below 256. A moment is an \<open>int\<close> of
  microseconds. Floats are rationals where the code only compares, adds or rounds them; a size
  formatted for people is exact below \<open>2 ^ 53\<close>. The paths \<open>mkdir\<close> receives have no \<open>..\<close> component,
  since the settings resolve them first.

  \<^bold>\<open>Parameters\<close> (code outside the repository): the language model and the network, \<open>pydantic\<close>'s reading
  of JSON, dotenv and YAML into the typed arguments, the HMAC and SHA-256, \<open>psutil\<close> and \<open>platform\<close>, the
  bytes git prints, the child process as such, how many requests an HTTP loop has sent when the
  executor's budget cuts it, what \<open>json.loads\<close> makes of \<open>NaN\<close> and of characters from 256 on, the reader of ISO 8601 times, and the faults of SQLite and of
  the file system. A property that relies on one of them says so
  in a hypothesis.

  \<^bold>\<open>Not modelled.\<close> The recursion limit of \<open>json.loads\<close>. Log lines appear in \<open>Obs_Logging\<close> only: no branch of another component depends
  on one. \<open>memory/base.py\<close> declares protocols without code. The
  command-line parser (typer), the routing and the serialisation of FastAPI and uvicorn, and the JSON
  schemas pydantic generates are those libraries' own work. SQL text appears as the operation on rows
  it denotes.
\<close>
end
